(* ===== verification/Prelude.thy ===== *)
theory Prelude
  imports Main "HOL-Library.Sublist" "HOL-Library.Char_ord" "HOL-Library.List_Lexorder"
    "HOL-Library.Code_Target_Nat"
begin

text \<open>
  The vocabulary every component of the development shares.

  \<^item> Go errors (\<open>goerr\<close>) with the tests the sources apply to them
    (\<open>apierrors.IsNotFound\<close>, \<open>apierrors.IsAlreadyExists\<close>, \<open>utilexec.ExitError\<close>), and the
    outcome of a Go call: a value, an error that the caller may inspect, or a panic, which
    no \<open>if err != nil\<close> catches.
  \<^item> Programs over a world \<open>'w\<close> (type \<open>('w, 'a) go\<close>): state passing with an
    outcome, the combinators that stand for \<open>if err != nil { return err }\<close> and for an
    inspected error, and loops over slices.
  \<^item> The functions of Go's \<open>strings\<close>, \<open>strconv\<close> and \<open>fmt\<close> packages that the sources
    call, over \<open>string\<close> (a list of 8-bit characters, as a Go string is a list of bytes).
  \<^item> The rule collections \<open>go_simps\<close> (unfold a program step by step) and \<open>keeps_intro\<close>
    (a program keeps a property of the world).
\<close>

named_theorems go_simps \<open>one-step unfolding of Go programs\<close>
named_theorems keeps_intro \<open>a program keeps a property of the world\<close>

section \<open>Errors and outcomes\<close>

datatype goerr =
    Errorf string
  | ApiNotFound string
  | ApiAlreadyExists string
  | ExitErr bool int string
  | DoesNotExist

fun Error :: "goerr \<Rightarrow> string" where
  "Error (Errorf s) = s"
| "Error (ApiNotFound s) = s"
| "Error (ApiAlreadyExists s) = s"
| "Error (ExitErr exited status s) = s"
| "Error DoesNotExist = ''The object was not found in the cache''"

fun IsNotFound :: "goerr \<Rightarrow> bool" where
  "IsNotFound (ApiNotFound s) = True"
| "IsNotFound _ = False"

fun IsAlreadyExists :: "goerr \<Rightarrow> bool" where
  "IsAlreadyExists (ApiAlreadyExists s) = True"
| "IsAlreadyExists _ = False"

datatype 'a outcome = Ok 'a | Fail goerr | Panics string

fun is_ok :: "'a outcome \<Rightarrow> bool" where
  "is_ok (Ok x) = True"
| "is_ok _ = False"

fun is_panic :: "'a outcome \<Rightarrow> bool" where
  "is_panic (Panics s) = True"
| "is_panic _ = False"

text \<open>Pure fallible code returns an outcome; \<open>ocase\<close> is \<open>if err != nil { return err }\<close>.\<close>

fun obind :: "'a outcome \<Rightarrow> ('a \<Rightarrow> 'b outcome) \<Rightarrow> 'b outcome" where
  "obind (Ok x) f = f x"
| "obind (Fail e) f = Fail e"
| "obind (Panics s) f = Panics s"

lemma obind_OkE: "obind r f = Ok y \<Longrightarrow> (\<And>x. r = Ok x \<Longrightarrow> f x = Ok y \<Longrightarrow> thesis) \<Longrightarrow> thesis"
  by (cases r) auto

section \<open>Programs over a world\<close>

type_synonym ('w, 'a) go = "'w \<Rightarrow> 'a outcome \<times> 'w"

definition ret :: "'a \<Rightarrow> ('w, 'a) go" where
  "ret x = (\<lambda>w. (Ok x, w))"

definition fail :: "goerr \<Rightarrow> ('w, 'a) go" where
  "fail e = (\<lambda>w. (Fail e, w))"

definition panic :: "string \<Rightarrow> ('w, 'a) go" where
  "panic s = (\<lambda>w. (Panics s, w))"

definition lift_outcome :: "'a outcome \<Rightarrow> ('w, 'a) go" where
  "lift_outcome r = (\<lambda>w. (r, w))"

text \<open>\<open>x, err := m; if err != nil { return err }; f x\<close>\<close>

definition bnd :: "('w, 'a) go \<Rightarrow> ('a \<Rightarrow> ('w, 'b) go) \<Rightarrow> ('w, 'b) go" where
  "bnd m f = (\<lambda>w. case m w of
      (Ok x, w') \<Rightarrow> f x w'
    | (Fail e, w') \<Rightarrow> (Fail e, w')
    | (Panics s, w') \<Rightarrow> (Panics s, w'))"

text \<open>\<open>x, err := m; if err != nil { h err } else { f x }\<close>\<close>

definition tryc :: "('w, 'a) go \<Rightarrow> (goerr \<Rightarrow> ('w, 'b) go) \<Rightarrow> ('a \<Rightarrow> ('w, 'b) go) \<Rightarrow> ('w, 'b) go" where
  "tryc m h f = (\<lambda>w. case m w of
      (Ok x, w') \<Rightarrow> f x w'
    | (Fail e, w') \<Rightarrow> h e w'
    | (Panics s, w') \<Rightarrow> (Panics s, w'))"

text \<open>A call whose error the code does not look at.\<close>

definition ignore_err :: "('w, 'a) go \<Rightarrow> ('w, unit) go" where
  "ignore_err m = tryc m (\<lambda>_. ret ()) (\<lambda>_. ret ())"

definition modify_world :: "('w \<Rightarrow> 'w) \<Rightarrow> ('w, unit) go" where
  "modify_world f = (\<lambda>w. (Ok (), f w))"

definition gets :: "('w \<Rightarrow> 'a) \<Rightarrow> ('w, 'a) go" where
  "gets f = (\<lambda>w. (Ok (f w), w))"

text \<open>\<open>for _, x := range xs { if err := body x; err != nil { return err } }\<close>\<close>

primrec for_each :: "'a list \<Rightarrow> ('a \<Rightarrow> ('w, unit) go) \<Rightarrow> ('w, unit) go" where
  "for_each [] body = ret ()"
| "for_each (x # xs) body = bnd (body x) (\<lambda>_. for_each xs body)"

text \<open>\<open>for _, x := range xs { y, err := f x; if err != nil { return err }; ys = append(ys, y) }\<close>\<close>

primrec map_go :: "('a \<Rightarrow> ('w, 'b) go) \<Rightarrow> 'a list \<Rightarrow> ('w, 'b list) go" where
  "map_go f [] = ret []"
| "map_go f (x # xs) = bnd (f x) (\<lambda>y. bnd (map_go f xs) (\<lambda>ys. ret (y # ys)))"

lemma ret_apply [simp, go_simps]: "ret x w = (Ok x, w)"
  by (simp add: ret_def)

lemma fail_apply [simp, go_simps]: "fail e w = (Fail e, w)"
  by (simp add: fail_def)

lemma panic_apply [simp, go_simps]: "panic s w = (Panics s, w)"
  by (simp add: panic_def)

lemma lift_outcome_apply [simp, go_simps]: "lift_outcome r w = (r, w)"
  by (simp add: lift_outcome_def)

lemma modify_world_apply [simp, go_simps]: "modify_world f w = (Ok (), f w)"
  by (simp add: modify_world_def)

lemma gets_apply [simp, go_simps]: "gets f w = (Ok (f w), w)"
  by (simp add: gets_def)

lemma bnd_Ok [simp, go_simps]: "m w = (Ok x, w') \<Longrightarrow> bnd m f w = f x w'"
  by (simp add: bnd_def)

lemma bnd_Fail [simp, go_simps]: "m w = (Fail e, w') \<Longrightarrow> bnd m f w = (Fail e, w')"
  by (simp add: bnd_def)

lemma bnd_Panics [simp, go_simps]: "m w = (Panics s, w') \<Longrightarrow> bnd m f w = (Panics s, w')"
  by (simp add: bnd_def)

lemma tryc_Ok [simp, go_simps]: "m w = (Ok x, w') \<Longrightarrow> tryc m h f w = f x w'"
  by (simp add: tryc_def)

lemma tryc_Fail [simp, go_simps]: "m w = (Fail e, w') \<Longrightarrow> tryc m h f w = h e w'"
  by (simp add: tryc_def)

lemma tryc_Panics [simp, go_simps]: "m w = (Panics s, w') \<Longrightarrow> tryc m h f w = (Panics s, w')"
  by (simp add: tryc_def)

lemma ignore_err_Ok [simp, go_simps]: "m w = (Ok x, w') \<Longrightarrow> ignore_err m w = (Ok (), w')"
  by (simp add: ignore_err_def)

lemma ignore_err_Fail [simp, go_simps]: "m w = (Fail e, w') \<Longrightarrow> ignore_err m w = (Ok (), w')"
  by (simp add: ignore_err_def)

lemma ignore_err_Panics [simp, go_simps]:
  "m w = (Panics s, w') \<Longrightarrow> ignore_err m w = (Panics s, w')"
  by (simp add: ignore_err_def)

lemma bnd_ret_left [simp]: "bnd (ret x) f = f x"
  by (simp add: fun_eq_iff)

lemma bnd_fail_left [simp]: "bnd (fail e) f = fail e"
  by (simp add: fun_eq_iff)

lemma bnd_split:
  "P (bnd m f w) \<longleftrightarrow>
     (\<forall>x w'. m w = (Ok x, w') \<longrightarrow> P (f x w')) \<and>
     (\<forall>e w'. m w = (Fail e, w') \<longrightarrow> P (Fail e, w')) \<and>
     (\<forall>s w'. m w = (Panics s, w') \<longrightarrow> P (Panics s, w'))"
  by (auto simp: bnd_def split: prod.split outcome.split)

lemma tryc_split:
  "P (tryc m h f w) \<longleftrightarrow>
     (\<forall>x w'. m w = (Ok x, w') \<longrightarrow> P (f x w')) \<and>
     (\<forall>e w'. m w = (Fail e, w') \<longrightarrow> P (h e w')) \<and>
     (\<forall>s w'. m w = (Panics s, w') \<longrightarrow> P (Panics s, w'))"
  by (auto simp: tryc_def split: prod.split outcome.split)

lemma bnd_eq_Ok_iff:
  "bnd m f w = (Ok y, w2) \<longleftrightarrow> (\<exists>x w1. m w = (Ok x, w1) \<and> f x w1 = (Ok y, w2))"
  by (auto simp: bnd_def split: prod.splits outcome.splits)

lemma bnd_eq_Fail_iff:
  "bnd m f w = (Fail e, w2) \<longleftrightarrow>
     m w = (Fail e, w2) \<or> (\<exists>x w1. m w = (Ok x, w1) \<and> f x w1 = (Fail e, w2))"
  by (auto simp: bnd_def split: prod.splits outcome.splits)

lemma bnd_eq_Panics_iff:
  "bnd m f w = (Panics s, w2) \<longleftrightarrow>
     m w = (Panics s, w2) \<or> (\<exists>x w1. m w = (Ok x, w1) \<and> f x w1 = (Panics s, w2))"
  by (auto simp: bnd_def split: prod.splits outcome.splits)

lemmas bnd_iffs = bnd_eq_Ok_iff bnd_eq_Fail_iff bnd_eq_Panics_iff

section \<open>Properties of the world a program keeps\<close>

definition keeps :: "('w \<Rightarrow> bool) \<Rightarrow> ('w, 'a) go \<Rightarrow> bool" where
  "keeps P m \<longleftrightarrow> (\<forall>w. P w \<longrightarrow> P (snd (m w)))"

lemma keepsI: "(\<And>w. P w \<Longrightarrow> P (snd (m w))) \<Longrightarrow> keeps P m"
  by (simp add: keeps_def)

lemma keepsD: "keeps P m \<Longrightarrow> P w \<Longrightarrow> m w = (r, w') \<Longrightarrow> P w'"
  unfolding keeps_def by (metis snd_conv)

lemma keeps_ret [keeps_intro]: "keeps P (ret x)"
  by (simp add: keeps_def)

lemma keeps_fail [keeps_intro]: "keeps P (fail e)"
  by (simp add: keeps_def)

lemma keeps_panic [keeps_intro]: "keeps P (panic s)"
  by (simp add: keeps_def)

lemma keeps_lift_outcome [keeps_intro]: "keeps P (lift_outcome r)"
  by (simp add: keeps_def)

lemma keeps_gets [keeps_intro]: "keeps P (gets f)"
  by (simp add: keeps_def)

lemma keeps_bnd [keeps_intro]:
  assumes m: "keeps P m" and f: "\<And>x. keeps P (f x)"
  shows "keeps P (bnd m f)"
proof (rule keepsI)
  fix w assume w: "P w"
  obtain r w1 where mw: "m w = (r, w1)" by (cases "m w")
  then have w1: "P w1" using keepsD [OF m w] by simp
  then show "P (snd (bnd m f w))"
    using mw f by (cases r) (auto simp: keeps_def)
qed

lemma keeps_tryc [keeps_intro]:
  assumes m: "keeps P m" and h: "\<And>e. keeps P (h e)" and f: "\<And>x. keeps P (f x)"
  shows "keeps P (tryc m h f)"
proof (rule keepsI)
  fix w assume w: "P w"
  obtain r w1 where mw: "m w = (r, w1)" by (cases "m w")
  then have w1: "P w1" using keepsD [OF m w] by simp
  then show "P (snd (tryc m h f w))"
    using mw f h by (cases r) (auto simp: keeps_def)
qed

lemma keeps_ignore_err [keeps_intro]: "keeps P m \<Longrightarrow> keeps P (ignore_err m)"
  unfolding ignore_err_def by (intro keeps_intro)

lemma keeps_for_each [keeps_intro]:
  "(\<And>x. x \<in> set xs \<Longrightarrow> keeps P (body x)) \<Longrightarrow> keeps P (for_each xs body)"
  by (induction xs) (auto intro!: keeps_intro)

lemma keeps_map_go [keeps_intro]:
  "(\<And>x. x \<in> set xs \<Longrightarrow> keeps P (f x)) \<Longrightarrow> keeps P (map_go f xs)"
  by (induction xs) (auto intro!: keeps_intro)

lemma keeps_if [keeps_intro]:
  "(b \<Longrightarrow> keeps P m) \<Longrightarrow> (\<not> b \<Longrightarrow> keeps P n) \<Longrightarrow> keeps P (if b then m else n)"
  by simp

lemma keeps_option [keeps_intro]:
  "(x = None \<Longrightarrow> keeps P m) \<Longrightarrow> (\<And>y. x = Some y \<Longrightarrow> keeps P (f y)) \<Longrightarrow>
     keeps P (case x of None \<Rightarrow> m | Some y \<Rightarrow> f y)"
  by (cases x) auto

section \<open>Simulation\<close>

text \<open>A program over a larger world does to the part \<open>view\<close> shows of it what another program
  does, with the same outcome.\<close>

named_theorems simulates_intro \<open>a program simulates another on a part of the world\<close>

definition simulates :: "('v \<Rightarrow> 'w) \<Rightarrow> ('v, 'a) go \<Rightarrow> ('w, 'a) go \<Rightarrow> bool" where
  "simulates view m2 m1 \<longleftrightarrow> (\<forall>v. m1 (view v) = (fst (m2 v), view (snd (m2 v))))"

lemma simulatesD: "simulates view m2 m1 \<Longrightarrow> m1 (view v) = (fst (m2 v), view (snd (m2 v)))"
  by (simp add: simulates_def)

lemma simulates_ret [simulates_intro]: "simulates view (ret x) (ret x)"
  by (simp add: simulates_def)

lemma simulates_fail [simulates_intro]: "simulates view (fail e) (fail e)"
  by (simp add: simulates_def)

lemma simulates_panic [simulates_intro]: "simulates view (panic s) (panic s)"
  by (simp add: simulates_def)

lemma simulates_bnd [simulates_intro]:
  assumes "simulates view m2 m1" "\<And>x. simulates view (f2 x) (f1 x)"
  shows "simulates view (bnd m2 f2) (bnd m1 f1)"
proof (unfold simulates_def, rule allI)
  fix v
  obtain r v' where m2: "m2 v = (r, v')" by (cases "m2 v")
  then have m1: "m1 (view v) = (r, view v')" using simulatesD [OF assms(1), of v] by simp
  show "bnd m1 f1 (view v) = (fst (bnd m2 f2 v), view (snd (bnd m2 f2 v)))"
    using m1 m2 simulatesD [OF assms(2), of _ v'] by (cases r) simp_all
qed

lemma simulates_if [simulates_intro]:
  "(b \<Longrightarrow> simulates view m2 m1) \<Longrightarrow> (\<not> b \<Longrightarrow> simulates view n2 n1) \<Longrightarrow>
     simulates view (if b then m2 else n2) (if b then m1 else n1)"
  by simp

lemma simulates_for_each [simulates_intro]:
  "(\<And>x. x \<in> set xs \<Longrightarrow> simulates view (b2 x) (b1 x)) \<Longrightarrow>
     simulates view (for_each xs b2) (for_each xs b1)"
  by (induction xs) (auto intro!: simulates_intro)

lemma simulates_trans:
  "simulates f m3 m2 \<Longrightarrow> simulates g m2 m1 \<Longrightarrow> simulates (g \<circ> f) m3 m1"
  by (simp add: simulates_def)

section \<open>Triples\<close>

text \<open>\<open>triple P m Q E\<close>: started in a world with \<open>P\<close>, the program ends with a value and a world
  that satisfy \<open>Q\<close>, or with an error or a panic in a world that satisfies \<open>E\<close>.\<close>

definition triple ::
  "('w \<Rightarrow> bool) \<Rightarrow> ('w, 'a) go \<Rightarrow> ('a \<Rightarrow> 'w \<Rightarrow> bool) \<Rightarrow> ('w \<Rightarrow> bool) \<Rightarrow> bool" where
  "triple P m Q E \<longleftrightarrow> (\<forall>w. P w \<longrightarrow>
     (case m w of (Ok x, w') \<Rightarrow> Q x w' | (Fail e, w') \<Rightarrow> E w' | (Panics s, w') \<Rightarrow> E w'))"

lemma tripleD:
  assumes "triple P m Q E" "P w"
  shows "m w = (Ok x, w') \<Longrightarrow> Q x w'" "m w = (Fail e, w') \<Longrightarrow> E w'" "m w = (Panics s, w') \<Longrightarrow> E w'"
  using assms by (auto simp: triple_def)

lemma tripleI:
  assumes "\<And>w x w'. P w \<Longrightarrow> m w = (Ok x, w') \<Longrightarrow> Q x w'"
    and "\<And>w e w'. P w \<Longrightarrow> m w = (Fail e, w') \<Longrightarrow> E w'"
    and "\<And>w s w'. P w \<Longrightarrow> m w = (Panics s, w') \<Longrightarrow> E w'"
  shows "triple P m Q E"
  using assms by (auto simp: triple_def split: prod.split outcome.split)

lemma triple_post: "triple P m Q E \<Longrightarrow> (\<And>x w. Q x w \<Longrightarrow> R x w) \<Longrightarrow> triple P m R E"
  by (rule tripleI) (blast dest: tripleD)+

lemma triple_pre: "triple P m Q E \<Longrightarrow> (\<And>w. P' w \<Longrightarrow> P w) \<Longrightarrow> triple P' m Q E"
  by (auto simp: triple_def)

lemma triple_conseq:
  "triple P m Q E \<Longrightarrow> (\<And>w. P' w \<Longrightarrow> P w) \<Longrightarrow> (\<And>x w. Q x w \<Longrightarrow> Q' x w) \<Longrightarrow> (\<And>w. E w \<Longrightarrow> E' w) \<Longrightarrow>
     triple P' m Q' E'"
  by (rule tripleI) (blast dest: tripleD)+

lemma triple_ret: "(\<And>w. P w \<Longrightarrow> Q x w) \<Longrightarrow> triple P (ret x) Q E"
  by (simp add: triple_def)

lemma triple_fail: "(\<And>w. P w \<Longrightarrow> E w) \<Longrightarrow> triple P (fail e) Q E"
  by (simp add: triple_def)

lemma triple_lift_outcome:
  "(\<And>w x. P w \<Longrightarrow> r = Ok x \<Longrightarrow> Q x w) \<Longrightarrow> (\<And>w. P w \<Longrightarrow> E w) \<Longrightarrow> triple P (lift_outcome r) Q E"
  by (cases r) (auto simp: triple_def)

lemma triple_bnd:
  assumes "triple P m Q E" "\<And>x. triple (Q x) (f x) R E"
  shows "triple P (bnd m f) R E"
proof (unfold triple_def, intro allI impI)
  fix w assume "P w"
  obtain r w1 where m: "m w = (r, w1)" by (cases "m w")
  show "case bnd m f w of (Ok x, w') \<Rightarrow> R x w' | (Fail e, w') \<Rightarrow> E w' | (Panics s, w') \<Rightarrow> E w'"
  proof (cases r)
    case (Ok x)
    with assms(2) [of x] tripleD(1) [OF assms(1) \<open>P w\<close>, of x w1] m show ?thesis
      by (auto simp: triple_def bnd_def)
  qed (use m tripleD [OF assms(1) \<open>P w\<close>] in \<open>auto simp: bnd_def\<close>)
qed

lemma triple_tryc:
  assumes "triple P m Q F" "\<And>e. triple F (h e) R E" "\<And>x. triple (Q x) (f x) R E" "\<And>w. F w \<Longrightarrow> E w"
  shows "triple P (tryc m h f) R E"
proof (unfold triple_def, intro allI impI)
  fix w assume w: "P w"
  obtain r w1 where m: "m w = (r, w1)" by (cases "m w")
  show "case tryc m h f w of (Ok x, w') \<Rightarrow> R x w' | (Fail e, w') \<Rightarrow> E w' | (Panics s, w') \<Rightarrow> E w'"
  proof (cases r)
    case (Ok x)
    with assms(3) [of x] tripleD(1) [OF assms(1) w, of x w1] m show ?thesis
      by (auto simp: triple_def tryc_def)
  next
    case (Fail e)
    with assms(2) [of e] tripleD(2) [OF assms(1) w, of e w1] m show ?thesis
      by (auto simp: triple_def tryc_def)
  next
    case (Panics s)
    with tripleD(3) [OF assms(1) w, of s w1] m assms(4) show ?thesis by (simp add: tryc_def)
  qed
qed

lemma triple_if:
  "(b \<Longrightarrow> triple P m Q E) \<Longrightarrow> (\<not> b \<Longrightarrow> triple P n Q E) \<Longrightarrow> triple P (if b then m else n) Q E"
  by simp

lemma triple_ignore_err: "triple P m (\<lambda>_. Q) Q \<Longrightarrow> triple P (ignore_err m) (\<lambda>_. Q) Q"
  unfolding ignore_err_def by (rule triple_tryc) (auto intro: triple_ret)

lemma triple_keeps: "keeps P m \<Longrightarrow> triple P m (\<lambda>_. P) P"
  by (auto intro!: tripleI dest: keepsD)

lemma keeps_triple:
  assumes "triple P m (\<lambda>_. P) P"
  shows "keeps P m"
proof (rule keepsI)
  fix w assume w: "P w"
  obtain r w' where m: "m w = (r, w')" by (cases "m w")
  then show "P (snd (m w))" using tripleD [OF assms w] by (cases r) auto
qed

section \<open>Parts of the world a program leaves alone\<close>

definition leaves :: "('w \<Rightarrow> 's) \<Rightarrow> ('w, 'a) go \<Rightarrow> bool" where
  "leaves st m \<longleftrightarrow> (\<forall>w. st (snd (m w)) = st w)"

lemma leavesD: "leaves st m \<Longrightarrow> m w = (r, w') \<Longrightarrow> st w' = st w"
  unfolding leaves_def by (metis snd_conv)

lemma leaves_keeps: "leaves st m \<Longrightarrow> keeps (\<lambda>w. Q (st w)) m"
  by (simp add: leaves_def keeps_def)

lemma leaves_triple: "leaves st m \<Longrightarrow> triple (\<lambda>w. Q (st w)) m (\<lambda>_ w. Q (st w)) (\<lambda>w. Q (st w))"
  by (rule triple_keeps [OF leaves_keeps])

section \<open>Programs that always return\<close>

text \<open>From every world the program ends with a value that satisfies \<open>Q\<close>: no error, no panic.\<close>

definition returns :: "('w, 'a) go \<Rightarrow> ('a \<Rightarrow> bool) \<Rightarrow> bool" where
  "returns m Q \<longleftrightarrow> (\<forall>w. \<exists>x w'. m w = (Ok x, w') \<and> Q x)"

lemma returnsE:
  assumes "returns m Q"
  obtains x w' where "m w = (Ok x, w')" "Q x"
  using assms unfolding returns_def by blast

lemma returns_ret: "Q x \<Longrightarrow> returns (ret x) Q"
  by (simp add: returns_def)

lemma returns_bnd:
  assumes "returns m Q" "\<And>x. Q x \<Longrightarrow> returns (f x) R"
  shows "returns (bnd m f) R"
  unfolding returns_def
proof
  fix w
  obtain x w1 where m: "m w = (Ok x, w1)" "Q x" using assms(1) by (rule returnsE)
  from assms(2) [OF m(2)] obtain y w2 where "f x w1 = (Ok y, w2)" "R y" by (rule returnsE)
  with m(1) show "\<exists>x w'. bnd m f w = (Ok x, w') \<and> R x" by auto
qed

lemma returns_weaken: "returns m Q \<Longrightarrow> (\<And>x. Q x \<Longrightarrow> R x) \<Longrightarrow> returns m R"
  unfolding returns_def by blast

section \<open>Components with a state of their own\<close>

text \<open>A component's state beside the world: a service call leaves it alone, and the component's own
  steps leave the world alone.\<close>

definition svc :: "('w, 'a) go \<Rightarrow> ('w \<times> 'c, 'a) go" where
  "svc m = (\<lambda>(w, c). case m w of (r, w') \<Rightarrow> (r, w', c))"

definition client_get :: "('c \<Rightarrow> 'a) \<Rightarrow> ('w \<times> 'c, 'a) go" where
  "client_get f = gets (\<lambda>(w, c). f c)"

definition client_set :: "('c \<Rightarrow> 'c) \<Rightarrow> ('w \<times> 'c, unit) go" where
  "client_set f = modify_world (\<lambda>(w, c). (w, f c))"

lemma svc_apply [simp]: "svc m (w, c) = (case m w of (r, w') \<Rightarrow> (r, w', c))"
  by (simp add: svc_def)

lemma svc_eq_iff: "svc m s = (r, w', c') \<longleftrightarrow> m (fst s) = (r, w') \<and> c' = snd s"
  by (cases s) (auto split: prod.splits)

lemma client_get_apply [simp]: "client_get f (w, c) = (Ok (f c), w, c)"
  by (simp add: client_get_def)

lemma client_set_apply [simp]: "client_set f (w, c) = (Ok (), w, f c)"
  by (simp add: client_set_def)

lemma keeps_svc: "keeps P m \<Longrightarrow> keeps (\<lambda>(w, g). P w) (svc m)"
  by (auto simp: keeps_def svc_def split: prod.split)

lemma keeps_client_set: "keeps (\<lambda>(w, g). P w) (client_set f)"
  by (auto simp: keeps_def client_set_def)

lemma triple_svc: "triple P m Q E \<Longrightarrow> triple (\<lambda>(w, g). P w) (svc m) (\<lambda>x (w, g). Q x w) (\<lambda>(w, g). E w)"
  by (rule tripleI) (auto simp: svc_def dest: tripleD split: prod.splits)

end
