(* ===== verification/Version.thy ===== *)
theory Version
  imports GoStrings
begin

text \<open>
  Version numbers (\<open>src/pkg/util/version/version.go\<close>): the parser with its two regular
  expressions, the printer and the comparison. The regular expressions are deterministic
  on every input, so they are written as the scanners they describe. \<open>uint\<close> is the 64-bit
  unsigned type; a component is a natural number below \<open>2 ^ 64\<close>, which \<open>ParseUint\<close>
  guarantees and \<open>wf_version\<close> records.
\<close>

section \<open>The parser\<close>

record Version =
  components :: "nat list"
  semver :: bool
  preRelease :: string
  buildMetadata :: string

text \<open>The class \<open>\s\<close> of Go's regular expressions.\<close>

definition is_re_space :: "char \<Rightarrow> bool" where
  "is_re_space c \<longleftrightarrow> c \<in> {CHR '' '', CHR 0x09, CHR 0x0A, CHR 0x0C, CHR 0x0D}"

definition is_ident :: "char \<Rightarrow> bool" where
  "is_ident c \<longleftrightarrow> is_digit c \<or> c = CHR ''-'' \<or>
     (65 \<le> (of_char c :: nat) \<and> (of_char c :: nat) \<le> 90) \<or>
     (97 \<le> (of_char c :: nat) \<and> (of_char c :: nat) \<le> 122)"

text \<open>\<open>(?:\.[p]+)*\<close>: what it matches at the front of the string, and the rest.\<close>

function dotted_tail :: "(char \<Rightarrow> bool) \<Rightarrow> string \<Rightarrow> string \<times> string" where
  "dotted_tail p s =
     (case s of [] \<Rightarrow> ([], [])
      | c # t \<Rightarrow>
          (if c = CHR ''.'' \<and> takeWhile p t \<noteq> [] then
             (let (a, b) = dotted_tail p (dropWhile p t) in (c # takeWhile p t @ a, b))
           else ([], s)))"
  by pat_completeness auto
termination
  by (relation "measure (\<lambda>(p, s). length s)")
    (auto simp: less_Suc_eq_le length_dropWhile_le)

declare dotted_tail.simps [simp del]

text \<open>\<open>[p]+(?:\.[p]+)*\<close>, or \<open>None\<close> if it matches nothing.\<close>

definition dotted :: "(char \<Rightarrow> bool) \<Rightarrow> string \<Rightarrow> (string \<times> string) option" where
  "dotted p s = (if takeWhile p s = [] then None
     else let (a, b) = dotted_tail p (dropWhile p s) in Some (takeWhile p s @ a, b))"

text \<open>\<open>versionMatchRE\<close>: the numbers and the extra part. The last group is \<open>.*\<close>, and \<open>.\<close>
  matches no line feed.\<close>

definition versionMatch :: "string \<Rightarrow> (string \<times> string) option" where
  "versionMatch str =
     (let s = dropWhile is_re_space str;
          t = (if s \<noteq> [] \<and> hd s = CHR ''v'' then tl s else s)
      in case dotted is_digit t of
           None \<Rightarrow> None
         | Some (numbers, extra) \<Rightarrow>
             if CHR 0x0A \<in> set extra then None else Some (numbers, extra))"

text \<open>\<open>extraMatchRE\<close>: the pre-release and the build metadata.\<close>

definition prefixed_idents :: "char \<Rightarrow> string \<Rightarrow> string \<times> string" where
  "prefixed_idents c s =
     (if s \<noteq> [] \<and> hd s = c
      then (case dotted is_ident (tl s) of None \<Rightarrow> ([], s) | Some r \<Rightarrow> r)
      else ([], s))"

definition extraMatch :: "string \<Rightarrow> (string \<times> string) option" where
  "extraMatch s =
     (let (pre, s1) = prefixed_idents CHR ''-'' s;
          (meta, s2) = prefixed_idents CHR ''+'' s1
      in if list_all is_re_space s2 then Some (pre, meta) else None)"

text \<open>A component with a leading zero that is not the number zero.\<close>

definition zero_prefixed :: "string \<Rightarrow> bool" where
  "zero_prefixed cmpt \<longleftrightarrow> HasPrefix cmpt ''0'' \<and> cmpt \<noteq> ''0''"

text \<open>The loop over the components; the first argument is \<open>i == 0 || semver\<close> for the
  component at hand, the second \<open>semver\<close>.\<close>

fun parse_components :: "bool \<Rightarrow> bool \<Rightarrow> string \<Rightarrow> string list \<Rightarrow> nat list outcome" where
  "parse_components strict sv str [] = Ok []"
| "parse_components strict sv str (cmpt # comps) =
     (if strict \<and> zero_prefixed cmpt
      then Fail (Errorf (''illegal zero-prefixed version component '' @ quoted cmpt @ '' in '' @ quoted str))
      else case ParseUint cmpt of
             None \<Rightarrow> Fail (Errorf (''illegal non-numeric version component '' @ quoted cmpt @ '' in '' @ quoted str
               @ '': strconv.ParseUint: parsing '' @ quoted cmpt @ '': value out of range''))
           | Some num \<Rightarrow>
               obind (parse_components sv sv str comps) (\<lambda>nums. Ok (num # nums)))"

definition parse :: "string \<Rightarrow> bool \<Rightarrow> Version outcome" where
  "parse str sv =
     (case versionMatch str of
        None \<Rightarrow> Fail (Errorf (''could not parse '' @ quoted str @ '' as version''))
      | Some (numbers, extra) \<Rightarrow>
          (let comps = Split CHR ''.'' numbers in
           if (sv \<and> length comps \<noteq> 3) \<or> (\<not> sv \<and> length comps < 2)
           then Fail (Errorf (''illegal version string '' @ quoted str))
           else obind (parse_components True sv str comps) (\<lambda>nums.
             if sv \<and> extra \<noteq> [] then
               (case extraMatch extra of
                  None \<Rightarrow> Fail (Errorf (''could not parse pre-release/metadata ('' @ extra @ '') in version '' @ quoted str))
                | Some (pre, meta) \<Rightarrow>
                    (case List.find (\<lambda>cmpt. ParseUint cmpt \<noteq> None \<and> zero_prefixed cmpt) (Split CHR ''.'' pre) of
                       Some cmpt \<Rightarrow> Fail (Errorf (''illegal zero-prefixed version component '' @ quoted cmpt @ '' in '' @ quoted str))
                     | None \<Rightarrow> Ok \<lparr>components = nums, semver = sv, preRelease = pre, buildMetadata = meta\<rparr>))
             else Ok \<lparr>components = nums, semver = sv, preRelease = [], buildMetadata = []\<rparr>)))"

definition ParseGeneric :: "string \<Rightarrow> Version outcome" where
  "ParseGeneric str = parse str False"

definition ParseSemantic :: "string \<Rightarrow> Version outcome" where
  "ParseSemantic str = parse str True"

text \<open>\<open>MustParseGeneric\<close> and \<open>MustParseSemantic\<close> turn the error into a panic.\<close>

fun must :: "'a outcome \<Rightarrow> 'a outcome" where
  "must (Ok x) = Ok x"
| "must (Fail e) = Panics (Error e)"
| "must (Panics s) = Panics s"

definition MustParseGeneric :: "string \<Rightarrow> Version outcome" where
  "MustParseGeneric str = must (ParseGeneric str)"

definition MustParseSemantic :: "string \<Rightarrow> Version outcome" where
  "MustParseSemantic str = must (ParseSemantic str)"

section \<open>Accessors, printer and comparison\<close>

text \<open>An index past the end of \<open>components\<close> panics.\<close>

definition index_outcome :: "'a list \<Rightarrow> nat \<Rightarrow> 'a outcome" where
  "index_outcome xs i = (if i < length xs then Ok (xs ! i) else Panics ''index out of range'')"

definition Major :: "Version \<Rightarrow> nat outcome" where
  "Major v = index_outcome (components v) 0"

definition Minor :: "Version \<Rightarrow> nat outcome" where
  "Minor v = index_outcome (components v) 1"

definition Patch :: "Version \<Rightarrow> nat outcome" where
  "Patch v = (if length (components v) < 3 then Ok 0 else index_outcome (components v) 2)"

definition String :: "Version \<Rightarrow> string" where
  "String v = Join (map nat_dec (components v)) ''.''
     @ (if preRelease v \<noteq> [] then CHR ''-'' # preRelease v else [])
     @ (if buildMetadata v \<noteq> [] then CHR ''+'' # buildMetadata v else [])"

text \<open>The loop over \<open>v.components\<close>: \<open>None\<close> is falling out of the loop.\<close>

fun compare_components :: "nat list \<Rightarrow> nat list \<Rightarrow> int option" where
  "compare_components [] ys = None"
| "compare_components (x # xs) [] = (if x \<noteq> 0 then Some 1 else compare_components xs [])"
| "compare_components (x # xs) (y # ys) =
     (if y < x then Some 1 else if y > x then Some (-1) else compare_components xs ys)"

text \<open>The loop over the pre-release identifiers \<open>vPR\<close>.\<close>

fun compare_prerelease :: "string list \<Rightarrow> string list \<Rightarrow> int option" where
  "compare_prerelease [] os = None"
| "compare_prerelease (v # vs) [] = Some 1"
| "compare_prerelease (v # vs) (ov # os) =
     (case (ParseUint v, ParseUint ov) of
        (Some vNum, Some oNum) \<Rightarrow>
          if oNum < vNum then Some 1 else if oNum > vNum then Some (-1)
          else compare_prerelease vs os
      | _ \<Rightarrow>
          if ov < v then Some 1 else if ov > v then Some (-1)
          else compare_prerelease vs os)"

definition compareInternal :: "Version \<Rightarrow> Version \<Rightarrow> int" where
  "compareInternal v other =
     (case compare_components (components v) (components other) of
        Some r \<Rightarrow> r
      | None \<Rightarrow>
          if \<not> semver v \<or> \<not> semver other then 0
          else if preRelease v = [] \<and> preRelease other \<noteq> [] then 1
          else if preRelease v \<noteq> [] \<and> preRelease other = [] then -1
          else if preRelease v = preRelease other then 0
          else case compare_prerelease (Split CHR ''.'' (preRelease v))
                      (Split CHR ''.'' (preRelease other)) of
                 Some r \<Rightarrow> r
               | None \<Rightarrow> 0)"

definition AtLeast :: "Version \<Rightarrow> Version \<Rightarrow> bool" where
  "AtLeast v minv \<longleftrightarrow> compareInternal v minv \<noteq> -1"

definition LessThan :: "Version \<Rightarrow> Version \<Rightarrow> bool" where
  "LessThan v other \<longleftrightarrow> compareInternal v other = -1"

definition Compare :: "Version \<Rightarrow> string \<Rightarrow> int outcome" where
  "Compare v other = obind (parse other (semver v)) (\<lambda>ov. Ok (compareInternal v ov))"

section \<open>What the scanners match\<close>

text \<open>A list of dot-separated identifiers over the class \<open>p\<close>.\<close>

definition idents :: "(char \<Rightarrow> bool) \<Rightarrow> string list \<Rightarrow> bool" where
  "idents p xs \<longleftrightarrow> list_all (\<lambda>x. x \<noteq> [] \<and> list_all p x) xs"

definition ends_idents :: "(char \<Rightarrow> bool) \<Rightarrow> string \<Rightarrow> bool" where
  "ends_idents p r \<longleftrightarrow> r = [] \<or> (hd r \<noteq> CHR ''.'' \<and> \<not> p (hd r))"

lemma idents_simps [simp]:
  "idents p []" "idents p (x # xs) \<longleftrightarrow> x \<noteq> [] \<and> list_all p x \<and> idents p xs"
  by (auto simp: idents_def)

lemma idents_no_char: "idents p xs \<Longrightarrow> \<not> p c \<Longrightarrow> x \<in> set xs \<Longrightarrow> c \<notin> set x"
  by (auto simp: idents_def list_all_iff)

lemma Split_Join_idents:
  "idents p xs \<Longrightarrow> xs \<noteq> [] \<Longrightarrow> \<not> p c \<Longrightarrow> Split c (Join xs [c]) = xs"
  by (rule Split_Join) (auto dest: idents_no_char)

lemma idents_Split_Join:
  "idents p xs \<Longrightarrow> xs \<noteq> [] \<Longrightarrow> \<not> p c \<Longrightarrow> idents p (Split c (Join xs [c]))"
  by (simp add: Split_Join_idents)

lemma Join_eq_concat: "Join (x # xs) [c] = x @ concat (map ((#) c) xs)"
  by (induction xs arbitrary: x) (auto simp: Join_Cons)

lemma takeWhile_class:
  "list_all p x \<Longrightarrow> r = [] \<or> \<not> p (hd r) \<Longrightarrow> takeWhile p (x @ r) = x \<and> dropWhile p (x @ r) = r"
  by (cases r; induction x) auto

lemma takeWhile_dotted:
  assumes "\<not> p CHR ''.''" "ends_idents p r" "list_all p x"
  shows "takeWhile p (x @ concat (map ((#) CHR ''.'') xs) @ r) = x"
    "dropWhile p (x @ concat (map ((#) CHR ''.'') xs) @ r) = concat (map ((#) CHR ''.'') xs) @ r"
  using assms takeWhile_class [of p x "concat (map ((#) CHR ''.'') xs) @ r"]
  by (cases xs; auto simp: ends_idents_def)+

lemma dotted_tail_idents:
  "\<not> p CHR ''.'' \<Longrightarrow> idents p xs \<Longrightarrow> ends_idents p r \<Longrightarrow>
     dotted_tail p (concat (map ((#) CHR ''.'') xs) @ r) = (concat (map ((#) CHR ''.'') xs), r)"
proof (induction xs)
  case Nil
  then show ?case by (cases r) (auto simp: dotted_tail.simps ends_idents_def)
next
  case (Cons x xs)
  with takeWhile_dotted [of p r x xs] show ?case by (simp add: dotted_tail.simps)
qed

lemma dotted_idents:
  assumes "\<not> p CHR ''.''" "idents p xs" "xs \<noteq> []" "ends_idents p r"
  shows "dotted p (Join xs ''.'' @ r) = Some (Join xs ''.'', r)"
proof -
  obtain x ys where xs: "xs = x # ys" using assms by (cases xs) auto
  with assms takeWhile_dotted [of p r x ys] show ?thesis
    by (simp add: dotted_def Join_eq_concat dotted_tail_idents)
qed

lemma dotted_tail_SomeD:
  "dotted_tail p s = (a, b) \<Longrightarrow> \<exists>xs. idents p xs \<and> a = concat (map ((#) CHR ''.'') xs)"
proof (induction p s arbitrary: a b rule: dotted_tail.induct)
  case (1 p s)
  show ?case
  proof (cases "s \<noteq> [] \<and> hd s = CHR ''.'' \<and> takeWhile p (tl s) \<noteq> []")
    case False
    with "1.prems" have "a = []"
      by (auto simp: dotted_tail.simps [of p s] split: list.splits if_splits prod.splits)
    then show ?thesis by (auto intro: exI [of _ "[]"])
  next
    case True
    then obtain t where s: "s = CHR ''.'' # t" and t: "takeWhile p t \<noteq> []"
      by (cases s) auto
    obtain a' b' where rec: "dotted_tail p (dropWhile p t) = (a', b')"
      by (cases "dotted_tail p (dropWhile p t)")
    then obtain xs where "idents p xs" "a' = concat (map ((#) CHR ''.'') xs)"
      using "1.IH" [OF s _ rec] s t by auto
    moreover have "a = CHR ''.'' # takeWhile p t @ a'"
      using "1.prems" s t rec by (simp add: dotted_tail.simps [of p "CHR ''.'' # t"])
    ultimately show ?thesis using t
      by (intro exI [of _ "takeWhile p t # xs"]) (auto simp: list_all_iff dest: set_takeWhileD)
  qed
qed

lemma dotted_SomeD:
  assumes "dotted p s = Some (a, b)"
  shows "\<exists>xs. idents p xs \<and> xs \<noteq> [] \<and> a = Join xs ''.''"
proof -
  obtain a' b' where rec: "dotted_tail p (dropWhile p s) = (a', b')"
    by (cases "dotted_tail p (dropWhile p s)")
  then obtain xs where xs: "idents p xs" "a' = concat (map ((#) CHR ''.'') xs)"
    using dotted_tail_SomeD by blast
  from assms rec have "takeWhile p s \<noteq> []" "a = takeWhile p s @ a'"
    by (auto simp: dotted_def split: if_splits)
  with xs show ?thesis
    by (intro exI [of _ "takeWhile p s # xs"])
      (auto simp: Join_eq_concat list_all_iff dest: set_takeWhileD)
qed

section \<open>Well-formed versions, printing and parsing\<close>

definition wf_prerelease :: "string \<Rightarrow> bool" where
  "wf_prerelease s \<longleftrightarrow> s = [] \<or>
     (idents is_ident (Split CHR ''.'' s) \<and>
      list_all (\<lambda>cmpt. ParseUint cmpt \<noteq> None \<longrightarrow> \<not> zero_prefixed cmpt) (Split CHR ''.'' s))"

definition wf_metadata :: "string \<Rightarrow> bool" where
  "wf_metadata s \<longleftrightarrow> s = [] \<or> idents is_ident (Split CHR ''.'' s)"

definition wf_version :: "Version \<Rightarrow> bool" where
  "wf_version v \<longleftrightarrow>
     list_all (\<lambda>n. n < 2 ^ 64) (components v) \<and>
     (if semver v then length (components v) = 3 \<and> wf_prerelease (preRelease v) \<and>
                       wf_metadata (buildMetadata v)
      else 2 \<le> length (components v) \<and> preRelease v = [] \<and> buildMetadata v = [])"

lemma class_dot [simp]: "\<not> is_digit CHR ''.''" "\<not> is_ident CHR ''.''"
  by (simp_all add: is_digit_def is_ident_def)

lemma class_plus [simp]: "\<not> is_ident CHR ''+''" "\<not> is_digit CHR ''+''" "\<not> is_digit CHR ''-''"
  by (simp_all add: is_digit_def is_ident_def)

lemma zero_prefixed_nat_dec [simp]: "\<not> zero_prefixed (nat_dec n)"
proof (cases "n = 0")
  case True
  then show ?thesis by (simp add: zero_prefixed_def nat_dec_single digit_char_def)
next
  case False
  then have "hd (nat_dec n) \<noteq> CHR ''0''" by (simp add: nat_dec_no_leading_zero)
  then show ?thesis by (auto simp: zero_prefixed_def)
qed

lemma idents_nat_dec [simp]: "idents is_digit (map nat_dec ns)"
  by (simp add: idents_def list_all_iff nat_dec_digits [unfolded list_all_iff])

lemma parse_components_nat_dec:
  "list_all (\<lambda>n. n < 2 ^ 64) ns \<Longrightarrow> parse_components b sv str (map nat_dec ns) = Ok ns"
  by (induction ns arbitrary: b) (simp_all add: ParseUint_nat_dec)

lemma parse_components_OkD:
  "parse_components b sv str cs = Ok ns \<Longrightarrow>
     length ns = length cs \<and> list_all (\<lambda>n. n < 2 ^ 64) ns"
proof (induction cs arbitrary: b ns)
  case (Cons c cs)
  then show ?case
    by (cases "parse_components sv sv str cs")
      (auto split: if_splits option.splits dest: ParseUint_bound)
qed simp

lemma prefixed_idents_wf:
  "prefixed_idents c s = (a, b) \<Longrightarrow> a = [] \<or> idents is_ident (Split CHR ''.'' a)"
  by (auto simp: prefixed_idents_def Split_Join_idents split: if_splits option.splits
      dest!: dotted_SomeD)

lemma extraMatch_SomeD:
  "extraMatch s = Some (pre, meta) \<Longrightarrow>
     (pre = [] \<or> idents is_ident (Split CHR ''.'' pre)) \<and> wf_metadata meta"
  by (auto simp: extraMatch_def wf_metadata_def split: prod.splits if_splits
      dest: prefixed_idents_wf)

lemma parse_wf: "parse str sv = Ok v \<Longrightarrow> wf_version v \<and> semver v = sv"
proof -
  assume ok: "parse str sv = Ok v"
  then obtain numbers extra where vm: "versionMatch str = Some (numbers, extra)"
    by (auto simp: parse_def split: option.splits)
  let ?cs = "Split CHR ''.'' numbers"
  from ok vm obtain nums where pc: "parse_components True sv str ?cs = Ok nums"
    by (cases "parse_components True sv str ?cs") (auto simp: parse_def Let_def split: if_splits)
  have nums: "length nums = length ?cs" "list_all (\<lambda>n. n < 2 ^ 64) nums"
    using parse_components_OkD [OF pc] by auto
  show ?thesis
  proof (cases "sv \<and> extra \<noteq> []")
    case False
    with ok vm pc nums show ?thesis
      by (auto simp: parse_def Let_def wf_version_def wf_prerelease_def wf_metadata_def
          split: if_splits)
  next
    case True
    with ok vm pc obtain pre meta where em: "extraMatch extra = Some (pre, meta)"
      and nz: "List.find (\<lambda>cmpt. ParseUint cmpt \<noteq> None \<and> zero_prefixed cmpt) (Split CHR ''.'' pre) = None"
      and v: "v = \<lparr>components = nums, semver = sv, preRelease = pre, buildMetadata = meta\<rparr>"
      and len: "length ?cs = 3"
      by (auto simp: parse_def Let_def split: if_splits option.splits prod.splits)
    with extraMatch_SomeD [OF em] nums True show ?thesis
      by (auto simp: wf_version_def wf_prerelease_def find_None_iff list_all_iff)
  qed
qed

lemma prefixed_idents_print:
  assumes "\<not> is_ident c" "c \<noteq> CHR ''.''" "idents is_ident (Split CHR ''.'' s)" "ends_idents is_ident r"
  shows "prefixed_idents d (d # s @ r) = (s, r)"
  using dotted_idents [of is_ident "Split CHR ''.'' s" r] assms
  by (simp add: prefixed_idents_def Join_Split)

lemma extraMatch_print:
  assumes "wf_prerelease pre" "wf_metadata meta"
  shows "extraMatch ((if pre \<noteq> [] then CHR ''-'' # pre else [])
           @ (if meta \<noteq> [] then CHR ''+'' # meta else [])) = Some (pre, meta)"
proof -
  let ?m = "if meta \<noteq> [] then CHR ''+'' # meta else []"
  have m: "prefixed_idents CHR ''+'' ?m = (meta, [])"
    using assms(2) prefixed_idents_print [of "CHR ''+''" meta "[]" "CHR ''+''"]
    by (auto simp: wf_metadata_def ends_idents_def prefixed_idents_def)
  have "prefixed_idents CHR ''-'' ((if pre \<noteq> [] then CHR ''-'' # pre else []) @ ?m) = (pre, ?m)"
  proof (cases "pre = []")
    case True
    then show ?thesis by (simp add: prefixed_idents_def)
  next
    case False
    with assms(1) prefixed_idents_print [of "CHR ''+''" pre ?m "CHR ''-''"] show ?thesis
      by (simp add: wf_prerelease_def ends_idents_def split: if_splits)
  qed
  with m show ?thesis by (simp add: extraMatch_def)
qed

lemma set_Join: "set (Join xs sep) \<subseteq> (\<Union>x\<in>set xs. set x) \<union> set sep"
  by (induction xs sep rule: Join.induct) auto

lemma idents_chars:
  "idents is_ident (Split CHR ''.'' s) \<Longrightarrow> c \<in> set s \<Longrightarrow> is_ident c \<or> c = CHR ''.''"
  using set_Join [of "Split CHR ''.'' s" "''.''"]
  by (fastforce simp: Join_Split idents_def list_all_iff)

lemma wf_extra_no_newline:
  "wf_prerelease s \<or> wf_metadata s \<Longrightarrow> CHR 0x0A \<notin> set s"
  using idents_chars [of s "CHR 0x0A"]
  by (auto simp: wf_prerelease_def wf_metadata_def is_ident_def is_digit_def)

lemma hd_Join_nat_dec:
  "ns \<noteq> [] \<Longrightarrow> Join (map nat_dec ns) sep \<noteq> [] \<and> is_digit (hd (Join (map nat_dec ns) sep))"
proof -
  assume "ns \<noteq> []"
  then obtain n ms where ns: "ns = n # ms" by (cases ns) auto
  have "is_digit (hd (nat_dec n))"
    using nat_dec_digits [of n] by (cases "nat_dec n") auto
  with ns show ?thesis by (cases ms) auto
qed

lemma is_digit_start: "is_digit c \<Longrightarrow> \<not> is_re_space c \<and> c \<noteq> CHR ''v''"
  by (auto simp: is_digit_def is_re_space_def)

lemma versionMatch_print:
  assumes "ns \<noteq> []" "ends_idents is_digit r" "CHR 0x0A \<notin> set r"
  shows "versionMatch (Join (map nat_dec ns) ''.'' @ r) = Some (Join (map nat_dec ns) ''.'', r)"
proof -
  let ?j = "Join (map nat_dec ns) ''.''"
  obtain c t where j: "?j @ r = c # t" and c: "is_digit c"
    using hd_Join_nat_dec [OF assms(1), of "''.''"] by (cases ?j) auto
  have "dropWhile is_re_space (?j @ r) = ?j @ r" "hd (?j @ r) \<noteq> CHR ''v''"
    unfolding j using is_digit_start [OF c] by simp_all
  with dotted_idents [of is_digit "map nat_dec ns" r] assms show ?thesis
    by (simp add: versionMatch_def Let_def)
qed

lemma parse_String:
  assumes wf: "wf_version v"
  shows "parse (String v) (semver v) = Ok v"
proof -
  let ?ns = "components v"
  let ?x = "(if preRelease v \<noteq> [] then CHR ''-'' # preRelease v else [])
              @ (if buildMetadata v \<noteq> [] then CHR ''+'' # buildMetadata v else [])"
  have ns: "?ns \<noteq> []" using wf by (auto simp: wf_version_def split: if_splits)
  have wfx: "wf_prerelease (preRelease v)" "wf_metadata (buildMetadata v)"
    using wf by (auto simp: wf_version_def wf_prerelease_def wf_metadata_def split: if_splits)
  have vm: "versionMatch (String v) = Some (Join (map nat_dec ?ns) ''.'', ?x)"
    unfolding String_def using ns wfx
    by (intro versionMatch_print) (auto simp: ends_idents_def wf_extra_no_newline)
  have split: "Split CHR ''.'' (Join (map nat_dec ?ns) ''.'') = map nat_dec ?ns"
    using ns by (intro Split_Join_idents [of is_digit]) auto
  have pc: "parse_components True (semver v) (String v) (map nat_dec ?ns) = Ok ?ns"
    using wf by (intro parse_components_nat_dec) (simp add: wf_version_def)
  have em: "extraMatch ?x = Some (preRelease v, buildMetadata v)"
    using wfx by (rule extraMatch_print)
  have nz: "List.find (\<lambda>cmpt. ParseUint cmpt \<noteq> None \<and> zero_prefixed cmpt)
              (Split CHR ''.'' (preRelease v)) = None"
    using wfx(1) by (auto simp: find_None_iff wf_prerelease_def list_all_iff zero_prefixed_def)
  have len: "\<not> ((semver v \<and> length ?ns \<noteq> 3) \<or> (\<not> semver v \<and> length ?ns < 2))"
    using wf by (auto simp: wf_version_def split: if_splits)
  show ?thesis
  proof (cases "semver v \<and> ?x \<noteq> []")
    case True
    with len show ?thesis
      unfolding parse_def vm option.case prod.case Let_def split length_map pc obind.simps em nz
      by (cases v) simp
  next
    case False
    then have "preRelease v = [] \<and> buildMetadata v = []"
      using wf by (auto simp: wf_version_def split: if_splits)
    with False len show ?thesis
      unfolding parse_def vm option.case prod.case Let_def split length_map pc obind.simps
      by (cases v) auto
  qed
qed

section \<open>The comparison\<close>

text \<open>Components that \<open>other\<close> does not have count as zero; the comparison is then the
  lexicographic order on the components \<open>v\<close> has.\<close>

definition zero_padded :: "nat list \<Rightarrow> nat \<Rightarrow> nat list" where
  "zero_padded xs n = xs @ replicate (n - length xs) 0"

lemma compare_components_lex:
  "compare_components xs ys =
     (let zs = take (length xs) (zero_padded ys (length xs)) in
      if zs < xs then Some 1 else if xs < zs then Some (-1) else None)"
proof (induction xs ys rule: compare_components.induct)
  case (1 ys)
  then show ?case by (simp add: zero_padded_def)
next
  case (2 x xs)
  then show ?case by (auto simp: zero_padded_def Let_def)
next
  case (3 x xs y ys)
  then show ?case by (auto simp: zero_padded_def Let_def)
qed

lemma compare_components_range: "compare_components xs ys = Some r \<Longrightarrow> r = 1 \<or> r = -1"
  by (induction xs ys rule: compare_components.induct) (auto split: if_splits)

lemma AtLeast_lex:
  assumes "\<not> semver v \<or> \<not> semver m"
  shows "AtLeast v m \<longleftrightarrow> take (length (components v)) (zero_padded (components m) (length (components v))) \<le> components v"
proof -
  let ?zs = "take (length (components v)) (zero_padded (components m) (length (components v)))"
  have "compareInternal v m = (if ?zs < components v then 1 else if components v < ?zs then -1 else 0)"
    using assms by (auto simp: compareInternal_def compare_components_lex Let_def)
  then show ?thesis by (auto simp: AtLeast_def)
qed

section \<open>Properties\<close>

text \<open>C21: Parsing and printing. Whatever the parser returns is a well-formed version (two or
  more components, three for a semantic version; every component below \<open>2 ^ 64\<close>; the
  pre-release and the build metadata dot-separated identifiers without zero-prefixed
  numbers), printing it and parsing the text again gives the same version, and the major and
  minor number of it can be read without an index error. Every well-formed version is
  returned for its own printed text.\<close>

theorem version_roundtrip:
  "(parse str sv = Ok v \<longrightarrow>
      wf_version v \<and> semver v = sv \<and> parse (String v) sv = Ok v \<and> is_ok (Major v) \<and> is_ok (Minor v)) \<and>
   (wf_version v \<longrightarrow> parse (String v) (semver v) = Ok v)"
proof -
  have "wf_version v \<Longrightarrow> is_ok (Major v) \<and> is_ok (Minor v)"
    by (auto simp: wf_version_def Major_def Minor_def index_outcome_def split: if_splits)
  with parse_wf [of str sv v] parse_String [of v] show ?thesis by auto
qed

definition demo_version :: Version where
  "demo_version = \<lparr>components = [1, 10, 3], semver = True, preRelease = ''rc.1'', buildMetadata = ''b5''\<rparr>"

lemma demo_version_parses: "parse '' v1.10.3-rc.1+b5'' True = Ok demo_version"
  by code_simp

theorem version_roundtrip_witness:
  "wf_version demo_version \<and> parse (String demo_version) True = Ok demo_version"
  using version_roundtrip [of "'' v1.10.3-rc.1+b5''" True demo_version] demo_version_parses by blast

text \<open>Comparing generic versions. If one of the two is not a semantic version, \<open>AtLeast\<close>
  and \<open>LessThan\<close> decide the lexicographic order between the components of \<open>v\<close> and those of
  the other version, the latter padded with zeros or cut off to as many as \<open>v\<close> has. The
  documentation of \<open>AtLeast\<close> promises padding on both sides; the components the other version
  has beyond those of \<open>v\<close> are ignored instead.\<close>

theorem AtLeast_generic:
  assumes "\<not> semver v \<or> \<not> semver m"
  shows "(AtLeast v m \<longleftrightarrow>
      take (length (components v)) (zero_padded (components m) (length (components v))) \<le> components v) \<and>
    (LessThan v m \<longleftrightarrow> \<not> AtLeast v m) \<and>
    (length (components m) \<le> length (components v) \<longrightarrow>
      (AtLeast v m \<longleftrightarrow> zero_padded (components m) (length (components v)) \<le> components v))"
  using AtLeast_lex [OF assms] by (auto simp: LessThan_def AtLeast_def zero_padded_def)

definition generic :: "nat list \<Rightarrow> Version" where
  "generic ns = \<lparr>components = ns, semver = False, preRelease = [], buildMetadata = []\<rparr>"

theorem AtLeast_generic_witness:
  "AtLeast (generic [1, 4]) (generic [1, 4, 11]) \<and> \<not> AtLeast (generic [1, 4, 0]) (generic [1, 4, 11])"
  using AtLeast_generic [of "generic [1, 4]" "generic [1, 4, 11]"]
    AtLeast_generic [of "generic [1, 4, 0]" "generic [1, 4, 11]"]
  by (simp add: generic_def zero_padded_def)

end
