(* ===== verification/NetIP.thy ===== *)
theory NetIP
  imports GoStrings "HOL-Library.Word"
begin

text \<open>
  IP arithmetic: \<open>src/pkg/util/ip/ip.go\<close>, over the part of Go's \<open>net\<close> and \<open>math/big\<close>
  packages it uses. An IP is a slice of bytes, here a list of 8-bit words: the code
  depends on the length of that slice (\<open>big.Int.Bytes\<close> drops leading zero bytes), so it is
  kept. CIDR texts are IPv4, as the pattern of the API models demands; other texts are
  errors of \<open>ParseCIDR\<close>.
\<close>

unbundle bit_operations_syntax

type_synonym IP = "8 word list"

record IPNet =
  ipnet_IP :: IP
  ipnet_Mask :: "8 word list"

section \<open>The standard library\<close>

text \<open>\<open>net.dtoi\<close> on a whole text: a non-empty run of digits below the given limit.\<close>

definition dtoi_below :: "nat \<Rightarrow> string \<Rightarrow> nat option" where
  "dtoi_below lim s = (if s \<noteq> [] \<and> list_all is_digit s \<and> digits_val s < lim
                       then Some (digits_val s) else None)"

fun parse_octets :: "string list \<Rightarrow> IP option" where
  "parse_octets [] = Some []"
| "parse_octets (p # ps) =
     (case dtoi_below 256 p of
        None \<Rightarrow> None
      | Some n \<Rightarrow> map_option ((#) (word_of_nat n)) (parse_octets ps))"

definition parseIPv4 :: "string \<Rightarrow> IP option" where
  "parseIPv4 s = (let ps = Split CHR ''.'' s in if length ps = 4 then parse_octets ps else None)"

text \<open>The bytes of \<open>net.CIDRMask\<close>: \<open>n\<close> ones, then zeros, \<open>l\<close> bytes in all.\<close>

fun CIDRMask :: "nat \<Rightarrow> nat \<Rightarrow> 8 word list" where
  "CIDRMask n 0 = []"
| "CIDRMask n (Suc l) =
     (if n \<ge> 8 then 0xFF # CIDRMask (n - 8) l else NOT (drop_bit n 0xFF) # CIDRMask 0 l)"

definition Mask :: "IP \<Rightarrow> 8 word list \<Rightarrow> IP" where
  "Mask ip m = map2 (AND) ip m"

definition invalid_CIDR :: "string \<Rightarrow> goerr" where
  "invalid_CIDR s = Errorf (''invalid CIDR address: '' @ s)"

text \<open>\<open>net.ParseCIDR\<close>: the address as written and the network it lies in.\<close>

definition ParseCIDR :: "string \<Rightarrow> (IP \<times> IPNet) outcome" where
  "ParseCIDR s =
     (let addr = takeWhile (\<lambda>c. c \<noteq> CHR ''/'') s;
          rest = dropWhile (\<lambda>c. c \<noteq> CHR ''/'') s
      in if rest = [] then Fail (invalid_CIDR s)
         else case (parseIPv4 addr, dtoi_below 33 (tl rest)) of
                (Some ip, Some n) \<Rightarrow>
                  Ok (ip, \<lparr>ipnet_IP = Mask ip (CIDRMask n 4), ipnet_Mask = CIDRMask n 4\<rparr>)
              | _ \<Rightarrow> Fail (invalid_CIDR s))"

definition v4InV6Prefix :: IP where
  "v4InV6Prefix = replicate 10 0 @ [0xFF, 0xFF]"

definition To4 :: "IP \<Rightarrow> IP option" where
  "To4 ip = (if length ip = 4 then Some ip
             else if length ip = 16 \<and> take 12 ip = v4InV6Prefix then Some (drop 12 ip)
             else None)"

definition To16 :: "IP \<Rightarrow> IP option" where
  "To16 ip = (if length ip = 4 then Some (v4InV6Prefix @ ip)
              else if length ip = 16 then Some ip else None)"

definition IPNet_Contains :: "IPNet \<Rightarrow> IP \<Rightarrow> bool" where
  "IPNet_Contains n ip =
     (let nn = ipnet_IP n; m = ipnet_Mask n; x = (case To4 ip of Some y \<Rightarrow> y | None \<Rightarrow> ip)
      in length x = length nn \<and> Mask nn m = Mask x m)"

text \<open>\<open>IP.String\<close> on an IPv4 address; an empty slice prints as \<open><nil>\<close>.\<close>

definition IP_String :: "IP \<Rightarrow> string" where
  "IP_String ip = (if ip = [] then ''<nil>'' else Join (map (\<lambda>b. nat_dec (unat b)) ip) ''.'')"

text \<open>\<open>IPNet.String\<close> on a mask of leading ones.\<close>

definition IPNet_String :: "IPNet \<Rightarrow> string" where
  "IPNet_String n = IP_String (ipnet_IP n) @ ''/'' @
     nat_dec (sum_list (map (\<lambda>b. length (filter (bit b) [0..<8])) (ipnet_Mask n)))"

text \<open>\<open>big.Int.SetBytes\<close> and \<open>big.Int.Bytes\<close>: big-endian, the latter without leading
  zeros and of the absolute value.\<close>

definition SetBytes :: "IP \<Rightarrow> int" where
  "SetBytes bs = foldl (\<lambda>n b. 256 * n + int (unat b)) 0 bs"

fun nat_bytes :: "nat \<Rightarrow> IP" where
  "nat_bytes n = (if n = 0 then [] else nat_bytes (n div 256) @ [word_of_nat (n mod 256)])"

declare nat_bytes.simps [simp del]

definition Bytes :: "int \<Rightarrow> IP" where
  "Bytes i = nat_bytes (nat \<bar>i\<bar>)"

section \<open>The code\<close>

definition bigForIP :: "IP \<Rightarrow> int" where
  "bigForIP ip = SetBytes (case To4 ip of Some b \<Rightarrow> b | None \<Rightarrow> (case To16 ip of Some b \<Rightarrow> b | None \<Rightarrow> []))"

definition addIPOffset :: "int \<Rightarrow> int \<Rightarrow> IP" where
  "addIPOffset base offset = Bytes (base + offset)"


definition GetIndexedIP :: "IPNet \<Rightarrow> int \<Rightarrow> IP outcome" where
  "GetIndexedIP subnet index =
     (let ip = addIPOffset (bigForIP (ipnet_IP subnet)) index in
      if \<not> IPNet_Contains subnet ip
      then Fail (Errorf (''can't generate IP with index '' @ Itoa index @ '' from subnet. subnet too small. subnet: '' @ quoted (IPNet_String subnet)))
      else Ok ip)"

section \<open>Bytes and numbers\<close>

fun bytes_val :: "IP \<Rightarrow> nat" where
  "bytes_val [] = 0"
| "bytes_val (b # bs) = unat b * 256 ^ length bs + bytes_val bs"

lemma bytes_val_append: "bytes_val (xs @ ys) = bytes_val xs * 256 ^ length ys + bytes_val ys"
  by (induction xs) (simp_all add: power_add algebra_simps)

lemma unat_byte_bound [simp]: "unat (b :: 8 word) < 256"
  using unsigned_less [of b] by simp

lemma bytes_val_bound: "bytes_val bs < 256 ^ length bs"
proof (induction bs)
  case (Cons b bs)
  have "unat b * 256 ^ length bs + bytes_val bs < (unat b + 1) * 256 ^ length bs"
    using Cons by simp
  also have "\<dots> \<le> 256 * 256 ^ length bs"
    using unat_byte_bound [of b] by (intro mult_right_mono) linarith+
  finally show ?case by simp
qed simp

lemma SetBytes_bytes_val: "SetBytes bs = int (bytes_val bs)"
  by (induction bs rule: rev_induct) (simp_all add: SetBytes_def bytes_val_append)

lemma bytes_val_nat_bytes [simp]: "bytes_val (nat_bytes n) = n"
proof (induction n rule: nat_bytes.induct)
  case (1 n)
  show ?case
  proof (cases "n = 0")
    case False
    with 1 show ?thesis
      by (simp add: nat_bytes.simps [of n] bytes_val_append unat_of_nat)
  qed (simp add: nat_bytes.simps)
qed

lemma length_nat_bytes: "n < 256 ^ k \<Longrightarrow> length (nat_bytes n) \<le> k"
proof (induction n arbitrary: k rule: nat_bytes.induct)
  case (1 n)
  show ?case
  proof (cases "n = 0")
    case False
    with 1(2) obtain j where k: "k = Suc j" by (cases k) auto
    with 1(2) have "n div 256 < 256 ^ j" by (auto simp: div_less_iff_less_mult mult.commute)
    with 1(1) [OF False] False k show ?thesis by (simp add: nat_bytes.simps [of n])
  qed (simp add: nat_bytes.simps)
qed

lemma length_nat_bytes_4: "2 ^ 24 \<le> n \<Longrightarrow> n < 2 ^ 32 \<Longrightarrow> length (nat_bytes n) = 4"
proof -
  assume n: "2 ^ 24 \<le> n" "n < 2 ^ 32"
  then have "length (nat_bytes n) \<le> 4" using length_nat_bytes [of n 4] by simp
  moreover have "n < 256 ^ length (nat_bytes n)" using bytes_val_bound [of "nat_bytes n"] by simp
  then have "\<not> length (nat_bytes n) \<le> 3"
    using n power_increasing [of "length (nat_bytes n)" 3 "256 :: nat"] by auto
  ultimately show ?thesis by simp
qed

lemma bytes_val_inject:
  "length xs = length ys \<Longrightarrow> bytes_val xs = bytes_val ys \<Longrightarrow> xs = ys"
proof (induction xs ys rule: list_induct2)
  case (Cons x xs y ys)
  let ?B = "(256 :: nat) ^ length ys"
  have b: "bytes_val xs < ?B" "bytes_val ys < ?B"
    using bytes_val_bound [of xs] bytes_val_bound [of ys] Cons.hyps by auto
  from Cons.prems Cons.hyps have e: "unat x * ?B + bytes_val xs = unat y * ?B + bytes_val ys" by simp
  have "(unat x * ?B + bytes_val xs) div ?B = unat x" "(unat y * ?B + bytes_val ys) div ?B = unat y"
    using b by simp_all
  with e have "unat x = unat y" by metis
  with e Cons.IH show ?case by (simp add: word_unat_eq_iff)
qed simp

section \<open>Masks\<close>

lemma unat_and_not_mask:
  "n \<le> 8 \<Longrightarrow> unat ((b :: 8 word) AND NOT (mask n)) = unat b - unat b mod 2 ^ n"
proof -
  assume "n \<le> 8"
  have "b AND NOT (mask n) = push_bit n (drop_bit n b)"
    by (rule bit_eqI) (auto simp: bit_simps)
  then have "unat (b AND NOT (mask n)) = take_bit 8 (push_bit n (drop_bit n (unat b)))"
    by (simp add: unsigned_push_bit_eq unsigned_drop_bit_eq take_bit_nat_eq_self)
  also have "\<dots> = (unat b div 2 ^ n * 2 ^ n) mod 256"
    by (simp add: take_bit_eq_mod push_bit_eq_mult drop_bit_eq_div)
  also have "unat b div 2 ^ n * 2 ^ n = unat b - unat b mod 2 ^ n"
    by (metis minus_mod_eq_div_mult)
  finally show ?thesis
    by (metis diff_le_self le_less_trans mod_less unat_byte_bound)
qed

lemma not_drop_bit_ones: "n < 8 \<Longrightarrow> NOT (drop_bit n (0xFF :: 8 word)) = NOT (mask (8 - n))"
proof -
  assume "n < 8"
  then have "drop_bit n (mask 8 :: 8 word) = mask (8 - n)"
    by (auto intro!: bit_eqI simp: bit_simps)
  moreover have "mask 8 = (0xFF :: 8 word)" by (simp add: mask_eq_exp_minus_1)
  ultimately show ?thesis by simp
qed

lemma length_CIDRMask [simp]: "length (CIDRMask n l) = l"
  by (induction n l rule: CIDRMask.induct) simp_all

lemma length_Mask [simp]: "length (Mask ip m) = min (length ip) (length m)"
  by (simp add: Mask_def)

lemma minus_mod_split:
  assumes "d dvd B"
  shows "(a * B + v) - (a * B + v) mod d = a * B + (v - v mod (d :: nat))"
proof -
  obtain e where "B = d * e" using assms by (auto simp: dvd_def)
  then have "a * B + v = v + d * (a * e)" by simp
  then have "(a * B + v) mod d = v mod d" by (simp only: mod_mult_self2)
  then show ?thesis by (simp only: Nat.add_diff_assoc [OF mod_less_eq_dividend])
qed

lemma bytes_val_Mask:
  "length ip = l \<Longrightarrow> n \<le> 8 * l \<Longrightarrow>
     bytes_val (Mask ip (CIDRMask n l)) = bytes_val ip - bytes_val ip mod 2 ^ (8 * l - n)"
proof (induction n l arbitrary: ip rule: CIDRMask.induct)
  case (1 n)
  then show ?case by (simp add: Mask_def)
next
  case (2 n l)
  then obtain b bs where ip: "ip = b # bs" and bs: "length bs = l" by (cases ip) auto
  have B: "(256 :: nat) ^ l = 2 ^ (8 * l)" by (simp add: power_mult)
  show ?case
  proof (cases "8 \<le> n")
    case True
    have ff: "b AND 0xFF = b"
    proof -
      have "(0xFF :: 8 word) = -1" by simp
      then show ?thesis by (simp only: and.right_neutral)
    qed
    have "(2 :: nat) ^ (8 * l - (n - 8)) dvd 256 ^ l" by (simp add: B le_imp_power_dvd)
    moreover have "8 * Suc l - n = 8 * l - (n - 8)" "n - 8 \<le> 8 * l" using True 2(4) by simp_all
    ultimately show ?thesis
      using minus_mod_split [of "2 ^ (8 * l - (n - 8))" "256 ^ l" "unat b" "bytes_val bs"]
        2(1) [OF True bs] True ip bs ff
      by (simp only: Mask_def) simp
  next
    case False
    have z: "bytes_val (Mask bs (CIDRMask 0 l)) = 0"
      using 2(2) [OF False bs] bytes_val_bound [of bs] bs by (simp add: B)
    have e: "(2 :: nat) ^ (8 * Suc l - n) = 256 ^ l * 2 ^ (8 - n)"
      using False by (simp add: B flip: power_add)
    have "unat b * 256 ^ l + bytes_val bs - (unat b * 256 ^ l + bytes_val bs) mod 2 ^ (8 * Suc l - n)
            = (unat b - unat b mod 2 ^ (8 - n)) * 256 ^ l"
      unfolding e mod_mult2_eq using bytes_val_bound [of bs] bs
      by (simp add: diff_mult_distrib2 mult.commute)
    with z False ip bs show ?thesis
      by (simp add: Mask_def not_drop_bit_ones unat_and_not_mask)
  qed
qed

section \<open>Addresses of a network\<close>

text \<open>A network of prefix length \<open>n\<close> whose address is masked, as \<open>ParseCIDR\<close> returns it.\<close>

definition net4 :: "nat \<Rightarrow> nat \<Rightarrow> IPNet \<Rightarrow> bool" where
  "net4 n base net \<longleftrightarrow> n \<le> 32 \<and> length (ipnet_IP net) = 4 \<and> ipnet_Mask net = CIDRMask n 4 \<and>
     base = bytes_val (ipnet_IP net) \<and> base mod 2 ^ (32 - n) = 0"

lemma net4_Mask: "length ip = 4 \<Longrightarrow> n \<le> 32 \<Longrightarrow>
    net4 n (bytes_val ip - bytes_val ip mod 2 ^ (32 - n))
      \<lparr>ipnet_IP = Mask ip (CIDRMask n 4), ipnet_Mask = CIDRMask n 4\<rparr>"
  using bytes_val_Mask [of ip 4 n] by (simp add: net4_def minus_mod_eq_div_mult)

lemma multiple_below_iff:
  assumes "base mod P = 0" "0 < (P :: nat)"
  shows "base = y - y mod P \<longleftrightarrow> base \<le> y \<and> y < base + P"
proof -
  obtain q where q: "base = P * q" using assms by auto
  have "y - y mod P = P * (y div P)" by (simp add: minus_mod_eq_mult_div)
  then have "base = y - y mod P \<longleftrightarrow> y div P = q" using q assms(2) by auto
  also have "\<dots> \<longleftrightarrow> base \<le> y \<and> y < base + P"
    using assms(2) q by (auto intro: div_nat_eqI simp: algebra_simps dividend_less_times_div)
  finally show ?thesis .
qed

lemma multiple_plus_below:
  assumes "P dvd base" "base < P * k" "i < (P :: nat)"
  shows "base + i < P * k"
proof -
  obtain q where q: "base = P * q" using assms(1) by (auto simp: dvd_def)
  with assms(2) have "q < k" by simp
  then have "P * Suc q \<le> P * k" by (intro mult_le_mono2) simp
  with q assms(3) show ?thesis by simp
qed

lemma Contains_net4:
  assumes "net4 n base net" "length ip = 4"
  shows "IPNet_Contains net ip \<longleftrightarrow> base \<le> bytes_val ip \<and> bytes_val ip < base + 2 ^ (32 - n)"
proof -
  let ?P = "(2 :: nat) ^ (32 - n)"
  have "IPNet_Contains net ip \<longleftrightarrow> Mask (ipnet_IP net) (CIDRMask n 4) = Mask ip (CIDRMask n 4)"
    using assms by (simp add: IPNet_Contains_def net4_def To4_def Let_def)
  also have "\<dots> \<longleftrightarrow> bytes_val (Mask (ipnet_IP net) (CIDRMask n 4)) = bytes_val (Mask ip (CIDRMask n 4))"
    using assms by (auto simp: net4_def intro: bytes_val_inject)
  also have "\<dots> \<longleftrightarrow> base = bytes_val ip - bytes_val ip mod ?P"
    using assms bytes_val_Mask [of ip 4 n] bytes_val_Mask [of "ipnet_IP net" 4 n]
    by (auto simp: net4_def)
  also have "\<dots> \<longleftrightarrow> base \<le> bytes_val ip \<and> bytes_val ip < base + ?P"
    using assms(1) by (intro multiple_below_iff) (auto simp: net4_def)
  finally show ?thesis .
qed

lemma length_nat_bytes_4_iff: "length (nat_bytes n) = 4 \<longleftrightarrow> 2 ^ 24 \<le> n \<and> n < 2 ^ 32"
proof
  assume l: "length (nat_bytes n) = 4"
  have "\<not> n < 256 ^ 3" using length_nat_bytes [of n 3] l by auto
  moreover have "n < 256 ^ 4" using bytes_val_bound [of "nat_bytes n"] l by simp
  ultimately show "2 ^ 24 \<le> n \<and> n < 2 ^ 32" by simp
qed (simp add: length_nat_bytes_4)

lemma net4_offset:
  assumes "net4 n base net" "i < 2 ^ (32 - n)"
  shows "base + i < 2 ^ 32"
proof -
  have dvd: "2 ^ (32 - n) dvd base" and n: "n \<le> 32" using assms by (auto simp: net4_def)
  have "base < 2 ^ 32" using assms bytes_val_bound [of "ipnet_IP net"] by (simp add: net4_def)
  moreover have "(2 :: nat) ^ 32 = 2 ^ (32 - n) * 2 ^ n" using n by (simp flip: power_add)
  ultimately show ?thesis
    using multiple_plus_below [OF dvd _ assms(2), of "2 ^ n"] by simp
qed

lemma IPNet_Contains_length:
  "length (ipnet_IP net) = 4 \<Longrightarrow> length ip \<le> 5 \<Longrightarrow> IPNet_Contains net ip \<Longrightarrow> length ip = 4"
  by (auto simp: IPNet_Contains_def To4_def Let_def split: if_splits)

lemma addIPOffset_net4:
  "net4 n base net \<Longrightarrow> addIPOffset (bigForIP (ipnet_IP net)) (int i) = nat_bytes (base + i)"
  by (simp add: addIPOffset_def Bytes_def bigForIP_def To4_def net4_def SetBytes_bytes_val
      flip: of_nat_add)

text \<open>For a non-negative index that fits in 32 bits the code succeeds exactly when the
  index lies in the network and the sum has a non-zero top byte.\<close>

lemma GetIndexedIP_net4:
  assumes net: "net4 n base net" and i: "i < 2 ^ 32"
  shows "GetIndexedIP net (int i) =
     (if i < 2 ^ (32 - n) \<and> 2 ^ 24 \<le> base + i then Ok (nat_bytes (base + i))
      else Fail (Errorf (''can't generate IP with index '' @ Itoa (int i)
             @ '' from subnet. subnet too small. subnet: '' @ quoted (IPNet_String net))))"
proof -
  let ?ip = "nat_bytes (base + i)"
  have "base < 2 ^ 32" using net bytes_val_bound [of "ipnet_IP net"] by (simp add: net4_def)
  with i have "length ?ip \<le> 5" by (intro length_nat_bytes) simp
  then have "IPNet_Contains net ?ip \<longleftrightarrow> length ?ip = 4 \<and> base + i < base + 2 ^ (32 - n)"
    using net IPNet_Contains_length [of net ?ip] Contains_net4 [OF net, of ?ip]
    by (auto simp: net4_def)
  also have "\<dots> \<longleftrightarrow> i < 2 ^ (32 - n) \<and> 2 ^ 24 \<le> base + i"
    using net4_offset [OF net, of i] by (auto simp: length_nat_bytes_4_iff)
  finally show ?thesis by (simp add: GetIndexedIP_def addIPOffset_net4 [OF net])
qed

lemma parse_octets_length: "parse_octets ps = Some ip \<Longrightarrow> length ip = length ps"
  by (induction ps arbitrary: ip) (auto split: option.splits)

lemma ParseCIDR_net4:
  assumes "ParseCIDR s = Ok (ip, net)"
  shows "\<exists>n. n \<le> 32 \<and> length ip = 4 \<and> net4 n (bytes_val ip - bytes_val ip mod 2 ^ (32 - n)) net"
proof -
  from assms obtain n where "n < 33" "length ip = 4"
    "net = \<lparr>ipnet_IP = Mask ip (CIDRMask n 4), ipnet_Mask = CIDRMask n 4\<rparr>"
    by (auto simp: ParseCIDR_def parseIPv4_def dtoi_below_def Let_def
        split: if_splits option.splits dest: parse_octets_length)
  with net4_Mask [of ip n] show ?thesis by (intro exI [of _ n]) simp
qed

section \<open>Printing and parsing\<close>

lemma dtoi_below_nat_dec [simp]: "n < k \<Longrightarrow> dtoi_below k (nat_dec n) = Some n"
  by (simp add: dtoi_below_def nat_dec_digits)

lemma parse_octets_print: "parse_octets (map (\<lambda>b. nat_dec (unat b)) ip) = Some ip"
  by (induction ip) simp_all

lemma is_digit_dot_slash [simp]: "\<not> is_digit CHR ''.''" "\<not> is_digit CHR ''/''"
  by (simp_all add: is_digit_def)

lemma parseIPv4_IP_String: "length ip = 4 \<Longrightarrow> parseIPv4 (IP_String ip) = Some ip"
proof -
  assume l: "length ip = 4"
  then have "ip \<noteq> []" by auto
  then have "Split CHR ''.'' (IP_String ip) = map (\<lambda>b. nat_dec (unat b)) ip"
    using Split_Join [of "map (\<lambda>b. nat_dec (unat b)) ip" "CHR ''.''"]
    by (simp add: IP_String_def) (metis (mono_tags, lifting) imageE is_digit_dot_slash(1) nat_dec_no_char)
  with l show ?thesis by (simp add: parseIPv4_def parse_octets_print)
qed

end
