(* ===== verification/Models.thy ===== *)
theory Models
  imports NetIP
begin

text \<open>
  The API models (\<open>src/pkg/api/models\<close>) and the custom resource (\<open>src/pkg/apis/kubernikus/v1\<close>):
  their records, the validation that the API applies to a request body, with its regular
  expressions written as the texts they match, and the printers of \<open>kubernikusctl\<close>. Nil and
  empty slices are the same list. JSON encoding is left to the parameters of the clients.
\<close>

section \<open>Data\<close>

datatype KlusterPhase =
    KlusterPhasePending
  | KlusterPhaseCreating
  | KlusterPhaseRunning
  | KlusterPhaseTerminating
  | KlusterPhaseOther string

text \<open>\<open>KlusterPhase\<close> is a string type; every other string is \<open>KlusterPhaseOther\<close>.\<close>

fun phase_string :: "KlusterPhase \<Rightarrow> string" where
  "phase_string KlusterPhasePending = ''Pending''"
| "phase_string KlusterPhaseCreating = ''Creating''"
| "phase_string KlusterPhaseRunning = ''Running''"
| "phase_string KlusterPhaseTerminating = ''Terminating''"
| "phase_string (KlusterPhaseOther s) = s"

record NodePoolConfig =
  cfg_Repair :: bool
  cfg_Upgrade :: bool

record NodePool =
  np_Config :: NodePoolConfig
  np_Flavor :: string
  np_Image :: string
  np_Name :: string
  np_Size :: int

record NodePoolInfo =
  npi_Healthy :: int
  npi_Name :: string
  npi_Running :: int
  npi_Schedulable :: int
  npi_Size :: int

record OpenstackSpec =
  os_LBSubnetID :: string
  os_NetworkID :: string
  os_ProjectID :: string
  os_RouterID :: string
  os_SecurityGroupID :: string

record KlusterSpec =
  spec_AdvertiseAddress :: string
  spec_ClusterCIDR :: string
  spec_DNSAddress :: string
  spec_DNSDomain :: string
  spec_Name :: string
  spec_NodePools :: "NodePool list"
  spec_Openstack :: OpenstackSpec
  spec_ServiceCIDR :: string

record KlusterStatus =
  st_Apiserver :: string
  st_Message :: string
  st_NodePools :: "NodePoolInfo list"
  st_Phase :: KlusterPhase
  st_Version :: string
  st_Wormhole :: string

text \<open>The API object \<open>models.Kluster\<close> and the custom resource \<open>v1.Kluster\<close>.\<close>

record ModelsKluster =
  mk_Name :: string
  mk_Spec :: KlusterSpec
  mk_Status :: KlusterStatus

record Kluster =
  k_Name :: string
  k_Namespace :: string
  k_UID :: string
  k_Labels :: "(string \<times> string) list"
  k_Annotations :: "(string \<times> string) list"
  k_CreationTimestamp :: int
  k_Spec :: KlusterSpec
  k_Status :: KlusterStatus

definition zero_OpenstackSpec :: OpenstackSpec where
  "zero_OpenstackSpec = \<lparr>os_LBSubnetID = [], os_NetworkID = [], os_ProjectID = [], os_RouterID = [],
     os_SecurityGroupID = []\<rparr>"

definition zero_KlusterSpec :: KlusterSpec where
  "zero_KlusterSpec = \<lparr>spec_AdvertiseAddress = [], spec_ClusterCIDR = [], spec_DNSAddress = [],
     spec_DNSDomain = [], spec_Name = [], spec_NodePools = [], spec_Openstack = zero_OpenstackSpec,
     spec_ServiceCIDR = []\<rparr>"

definition zero_KlusterStatus :: KlusterStatus where
  "zero_KlusterStatus = \<lparr>st_Apiserver = [], st_Message = [], st_NodePools = [],
     st_Phase = KlusterPhaseOther [], st_Version = [], st_Wormhole = []\<rparr>"

text \<open>A missing label reads as the empty string.\<close>

definition label_of :: "(string \<times> string) list \<Rightarrow> string \<Rightarrow> string" where
  "label_of ls k = (case map_of ls k of Some v \<Rightarrow> v | None \<Rightarrow> [])"

definition Account :: "Kluster \<Rightarrow> string" where
  "Account k = label_of (k_Labels k) ''account''"

definition ApiServiceIP :: "Kluster \<Rightarrow> IP outcome" where
  "ApiServiceIP k = obind (ParseCIDR (spec_ServiceCIDR (k_Spec k))) (\<lambda>(_, ipnet). GetIndexedIP ipnet 1)"

section \<open>Validation\<close>

datatype validation_kind = Required | FailedPattern | ExceedsMinimumInt | ExceedsMaximumInt | EnumFail

datatype validation_error = Validation string validation_kind | Composite "validation_error list"

text \<open>\<open>nil\<close> is \<open>None\<close>; \<open>res\<close> is the list of the errors met.\<close>

definition CompositeValidationError :: "validation_error option list \<Rightarrow> validation_error option" where
  "CompositeValidationError res =
     (case [e. Some e \<leftarrow> res] of [] \<Rightarrow> None | es \<Rightarrow> Some (Composite es))"

fun ValidateName :: "string \<Rightarrow> validation_error \<Rightarrow> validation_error" where
  "ValidateName nm (Validation p kind) = Validation (if p = [] then nm else p) kind"
| "ValidateName nm (Composite es) = Composite es"

definition RequiredString :: "string \<Rightarrow> string \<Rightarrow> validation_error option" where
  "RequiredString path data = (if data = [] then Some (Validation path Required) else None)"

definition Pattern :: "string \<Rightarrow> string \<Rightarrow> (string \<Rightarrow> bool) \<Rightarrow> validation_error option" where
  "Pattern path data re = (if \<not> re data then Some (Validation path FailedPattern) else None)"

definition MinimumInt :: "string \<Rightarrow> int \<Rightarrow> int \<Rightarrow> validation_error option" where
  "MinimumInt path data lim = (if data < lim then Some (Validation path ExceedsMinimumInt) else None)"

definition MaximumInt :: "string \<Rightarrow> int \<Rightarrow> int \<Rightarrow> validation_error option" where
  "MaximumInt path data lim = (if data > lim then Some (Validation path ExceedsMaximumInt) else None)"

text \<open>\<open>if err := a; err != nil { return err }; b\<close>\<close>

fun first_error :: "validation_error option \<Rightarrow> validation_error option \<Rightarrow> validation_error option" where
  "first_error (Some e) b = Some e"
| "first_error None b = b"

definition is_lower :: "char \<Rightarrow> bool" where
  "is_lower c \<longleftrightarrow> 97 \<le> (of_char c :: nat) \<and> (of_char c :: nat) \<le> 122"

text \<open>The pattern of pool names, \<open>^[a-z]([a-z0-9]*)?$\<close>.\<close>

definition pool_name_re :: "string \<Rightarrow> bool" where
  "pool_name_re s \<longleftrightarrow> s \<noteq> [] \<and> is_lower (hd s) \<and> list_all (\<lambda>c. is_lower c \<or> is_digit c) (tl s)"

text \<open>The pattern of cluster names, \<open>^[a-z]([-a-z0-9]*[a-z0-9])?$\<close>.\<close>

definition kluster_name_re :: "string \<Rightarrow> bool" where
  "kluster_name_re s \<longleftrightarrow> s \<noteq> [] \<and> is_lower (hd s) \<and>
     list_all (\<lambda>c. c = CHR ''-'' \<or> is_lower c \<or> is_digit c) (tl s) \<and> last s \<noteq> CHR ''-''"

text \<open>An octet, \<open>[0-9]|[1-9][0-9]|1[0-9]{2}|2[0-4][0-9]|25[0-5]\<close>, and a prefix length,
  \<open>[0-9]|[1-2][0-9]|3[0-2]\<close>.\<close>

definition in_range :: "char \<Rightarrow> nat \<Rightarrow> nat \<Rightarrow> bool" where
  "in_range c lo hi \<longleftrightarrow> is_digit c \<and> lo \<le> digit_val c \<and> digit_val c \<le> hi"

fun octet_re :: "string \<Rightarrow> bool" where
  "octet_re [a] \<longleftrightarrow> is_digit a"
| "octet_re [a, b] \<longleftrightarrow> in_range a 1 9 \<and> is_digit b"
| "octet_re [a, b, c] \<longleftrightarrow>
     (in_range a 1 1 \<and> is_digit b \<and> is_digit c) \<or>
     (in_range a 2 2 \<and> in_range b 0 4 \<and> is_digit c) \<or>
     (in_range a 2 2 \<and> in_range b 5 5 \<and> in_range c 0 5)"
| "octet_re _ \<longleftrightarrow> False"

fun prefix_len_re :: "string \<Rightarrow> bool" where
  "prefix_len_re [a] \<longleftrightarrow> is_digit a"
| "prefix_len_re [a, b] \<longleftrightarrow> (in_range a 1 2 \<and> is_digit b) \<or> (in_range a 3 3 \<and> in_range b 0 2)"
| "prefix_len_re _ \<longleftrightarrow> False"

text \<open>The pattern of \<open>clusterCIDR\<close> and \<open>serviceCIDR\<close>: four octets, a slash, a prefix length.
  Neither part contains a slash, so the text splits at its only slash.\<close>

definition cidr_re :: "string \<Rightarrow> bool" where
  "cidr_re s \<longleftrightarrow>
     (case Split CHR ''/'' s of
        [addr, len] \<Rightarrow> length (Split CHR ''.'' addr) = 4 \<and>
           list_all octet_re (Split CHR ''.'' addr) \<and> prefix_len_re len
      | _ \<Rightarrow> False)"

text \<open>\<open>NodePoolConfig\<close>, \<open>NodePoolInfo\<close> and \<open>OpenstackSpec\<close> have nothing to validate.\<close>

definition NodePoolConfig_Validate :: "NodePoolConfig \<Rightarrow> validation_error option" where
  "NodePoolConfig_Validate m = CompositeValidationError []"

definition OpenstackSpec_Validate :: "OpenstackSpec \<Rightarrow> validation_error option" where
  "OpenstackSpec_Validate m = CompositeValidationError []"

definition NodePool_validateConfig :: "NodePool \<Rightarrow> validation_error option" where
  "NodePool_validateConfig m =
     (if np_Config m = \<lparr>cfg_Repair = False, cfg_Upgrade = False\<rparr> then None
      else map_option (ValidateName ''config'') (NodePoolConfig_Validate (np_Config m)))"

definition NodePool_validateFlavor :: "NodePool \<Rightarrow> validation_error option" where
  "NodePool_validateFlavor m = RequiredString ''flavor'' (np_Flavor m)"

definition NodePool_validateName :: "NodePool \<Rightarrow> validation_error option" where
  "NodePool_validateName m =
     first_error (RequiredString ''name'' (np_Name m)) (Pattern ''name'' (np_Name m) pool_name_re)"

definition NodePool_validateSize :: "NodePool \<Rightarrow> validation_error option" where
  "NodePool_validateSize m =
     (if np_Size m = 0 then None
      else first_error (MinimumInt ''size'' (np_Size m) 0) (MaximumInt ''size'' (np_Size m) 127))"

definition NodePool_Validate :: "NodePool \<Rightarrow> validation_error option" where
  "NodePool_Validate m = CompositeValidationError
     [NodePool_validateConfig m, NodePool_validateFlavor m, NodePool_validateName m,
      NodePool_validateSize m]"

definition KlusterSpec_validateClusterCIDR :: "KlusterSpec \<Rightarrow> validation_error option" where
  "KlusterSpec_validateClusterCIDR m =
     (if spec_ClusterCIDR m = [] then None else Pattern ''clusterCIDR'' (spec_ClusterCIDR m) cidr_re)"

text \<open>The pools of a spec are not validated: both branches return nil.\<close>

definition KlusterSpec_validateNodePools :: "KlusterSpec \<Rightarrow> validation_error option" where
  "KlusterSpec_validateNodePools m = (if spec_NodePools m = [] then None else None)"

definition KlusterSpec_validateOpenstack :: "KlusterSpec \<Rightarrow> validation_error option" where
  "KlusterSpec_validateOpenstack m =
     (if spec_Openstack m = zero_OpenstackSpec then None
      else map_option (ValidateName ''openstack'') (OpenstackSpec_Validate (spec_Openstack m)))"

definition KlusterSpec_validateServiceCIDR :: "KlusterSpec \<Rightarrow> validation_error option" where
  "KlusterSpec_validateServiceCIDR m =
     (if spec_ServiceCIDR m = [] then None else Pattern ''serviceCIDR'' (spec_ServiceCIDR m) cidr_re)"

definition KlusterSpec_Validate :: "KlusterSpec \<Rightarrow> validation_error option" where
  "KlusterSpec_Validate m = CompositeValidationError
     [KlusterSpec_validateClusterCIDR m, KlusterSpec_validateNodePools m,
      KlusterSpec_validateOpenstack m, KlusterSpec_validateServiceCIDR m]"

definition KlusterPhase_Validate :: "KlusterPhase \<Rightarrow> validation_error option" where
  "KlusterPhase_Validate m =
     (if phase_string m \<in> {''Pending'', ''Creating'', ''Running'', ''Terminating''} then None
      else Some (Validation [] EnumFail))"

definition KlusterStatus_validatePhase :: "KlusterStatus \<Rightarrow> validation_error option" where
  "KlusterStatus_validatePhase m =
     (if phase_string (st_Phase m) = [] then None
      else map_option (ValidateName ''phase'') (KlusterPhase_Validate (st_Phase m)))"

definition KlusterStatus_validateNodePools :: "KlusterStatus \<Rightarrow> validation_error option" where
  "KlusterStatus_validateNodePools m = (if st_NodePools m = [] then None else None)"

definition KlusterStatus_Validate :: "KlusterStatus \<Rightarrow> validation_error option" where
  "KlusterStatus_Validate m = CompositeValidationError
     [KlusterStatus_validateNodePools m, KlusterStatus_validatePhase m]"

definition Kluster_validateName :: "ModelsKluster \<Rightarrow> validation_error option" where
  "Kluster_validateName m =
     first_error (RequiredString ''name'' (mk_Name m)) (Pattern ''name'' (mk_Name m) kluster_name_re)"

definition Kluster_validateSpec :: "ModelsKluster \<Rightarrow> validation_error option" where
  "Kluster_validateSpec m =
     (if mk_Spec m = zero_KlusterSpec then None
      else map_option (ValidateName ''spec'') (KlusterSpec_Validate (mk_Spec m)))"

definition Kluster_validateStatus :: "ModelsKluster \<Rightarrow> validation_error option" where
  "Kluster_validateStatus m =
     (if mk_Status m = zero_KlusterStatus then None
      else map_option (ValidateName ''status'') (KlusterStatus_Validate (mk_Status m)))"

definition Kluster_Validate :: "ModelsKluster \<Rightarrow> validation_error option" where
  "Kluster_Validate m = CompositeValidationError
     [Kluster_validateName m, Kluster_validateSpec m, Kluster_validateStatus m]"

section \<open>Printing\<close>

datatype PrintFormat = Human | Table | OtherFormat int

record PrintOptions =
  WithHeaders :: bool

text \<open>What is written to standard output. \<open>fmt.Println\<close> separates its operands by a blank.\<close>

definition tab :: string where "tab = [CHR 0x09]"
definition nl :: string where "nl = [CHR 0x0A]"

definition NodePool_printHuman :: "NodePool \<Rightarrow> string" where
  "NodePool_printHuman p = ''Name: '' @ np_Name p @ nl
     @ ''   Flavor: '' @ tab @ np_Flavor p @ nl
     @ ''   Image:  '' @ tab @ np_Image p @ nl
     @ ''   Size:   '' @ tab @ Itoa (np_Size p) @ nl"

definition NodePool_printTable :: "PrintOptions \<Rightarrow> NodePool \<Rightarrow> string" where
  "NodePool_printTable options p =
     (if WithHeaders options
      then ''NAME'' @ tab @ ''FLAVOR'' @ tab @ ''IMAGE'' @ tab @ ''SIZE'' @ nl else [])
     @ np_Name p @ tab @ np_Flavor p @ tab @ np_Image p @ tab @ Itoa (np_Size p) @ nl"

definition NodePoolInfo_printHuman :: "NodePoolInfo \<Rightarrow> string" where
  "NodePoolInfo_printHuman p = ''Name: '' @ npi_Name p @ nl
     @ ''   Size: '' @ tab @ Itoa (npi_Size p) @ nl
     @ ''   Running: '' @ tab @ Itoa (npi_Running p) @ nl
     @ ''   Schedulable: '' @ tab @ Itoa (npi_Schedulable p) @ nl
     @ ''   Healthy: '' @ tab @ Itoa (npi_Healthy p) @ nl"

definition Kluster_printHuman :: "ModelsKluster \<Rightarrow> string" where
  "Kluster_printHuman k =
     ''Cluster name:  '' @ mk_Name k @ nl
     @ ''Cluster state:  '' @ phase_string (st_Phase (mk_Status k)) @ nl
     @ ''Cluster CIDR:  '' @ spec_ClusterCIDR (mk_Spec k) @ nl
     @ ''Service CIDR:  '' @ spec_ServiceCIDR (mk_Spec k) @ nl
     @ ''Cluster node pools:  '' @ nat_dec (length (spec_NodePools (mk_Spec k))) @ nl
     @ concat (map NodePool_printHuman (spec_NodePools (mk_Spec k)))
     @ ''Cluster node pool status: '' @ nl
     @ concat (map NodePoolInfo_printHuman (st_NodePools (mk_Status k)))"

definition Kluster_printTable :: "PrintOptions \<Rightarrow> ModelsKluster \<Rightarrow> string" where
  "Kluster_printTable options k =
     (if WithHeaders options then ''NAME'' @ tab @ ''STATUS'' @ tab @ ''MESSAGE'' @ nl else [])
     @ mk_Name k @ tab @ phase_string (st_Phase (mk_Status k)) @ tab @ st_Message (mk_Status k) @ nl"

definition unknown_format :: "PrintFormat \<Rightarrow> goerr" where
  "unknown_format f = Errorf (''Unknown printformat models.Cluster is unable to print in format: ''
     @ (case f of Human \<Rightarrow> ''0'' | Table \<Rightarrow> ''1'' | OtherFormat i \<Rightarrow> Itoa i))"

fun Kluster_Print :: "PrintFormat \<Rightarrow> PrintOptions \<Rightarrow> ModelsKluster \<Rightarrow> string outcome" where
  "Kluster_Print Table options k = Ok (Kluster_printTable options k)"
| "Kluster_Print Human options k = Ok (Kluster_printHuman k)"
| "Kluster_Print (OtherFormat i) options k = Fail (unknown_format (OtherFormat i))"

fun NodePool_Print :: "PrintFormat \<Rightarrow> PrintOptions \<Rightarrow> NodePool \<Rightarrow> string outcome" where
  "NodePool_Print Human options p = Ok (NodePool_printHuman p)"
| "NodePool_Print Table options p = Ok (NodePool_printTable options p)"
| "NodePool_Print (OtherFormat i) options p = Fail (unknown_format (OtherFormat i))"

text \<open>A printable value is its formats and its \<open>Print\<close> method; \<open>PrintTable\<close> prints the
  header with the first item only and ignores the error of \<open>Print\<close>.\<close>

record Printable =
  GetFormats :: "PrintFormat list"
  PrintMethod :: "PrintFormat \<Rightarrow> PrintOptions \<Rightarrow> string outcome"

definition Kluster_Printable :: "ModelsKluster \<Rightarrow> Printable" where
  "Kluster_Printable k = \<lparr>GetFormats = [Table, Human], PrintMethod = (\<lambda>f opts. Kluster_Print f opts k)\<rparr>"

definition NodePool_Printable :: "NodePool \<Rightarrow> Printable" where
  "NodePool_Printable p = \<lparr>GetFormats = [Table, Human], PrintMethod = (\<lambda>f opts. NodePool_Print f opts p)\<rparr>"

fun print_table_from :: "bool \<Rightarrow> Printable list \<Rightarrow> string \<times> unit outcome" where
  "print_table_from first [] = ([], Ok ())"
| "print_table_from first (item # items) =
     (if Table \<notin> set (GetFormats item)
      then ([], Fail (Errorf ''Unsupported print format table supported formats''))
      else let out = (case PrintMethod item Table \<lparr>WithHeaders = first\<rparr> of Ok s \<Rightarrow> s | _ \<Rightarrow> []);
               (rest, r) = print_table_from False items
           in (out @ rest, r))"

definition PrintTable :: "Printable list \<Rightarrow> string \<times> unit outcome" where
  "PrintTable xs = print_table_from True xs"

section \<open>What validation accepts\<close>

lemma CompositeValidationError_None [simp]:
  "CompositeValidationError [] = None"
  "CompositeValidationError (None # res) = CompositeValidationError res"
  "CompositeValidationError (Some e # res) \<noteq> None"
  by (auto simp: CompositeValidationError_def)

lemma CompositeValidationError_Cons:
  "CompositeValidationError (r # res) = None \<longleftrightarrow> r = None \<and> CompositeValidationError res = None"
  by (cases r) auto

lemma first_error_None [simp]: "first_error a b = None \<longleftrightarrow> a = None \<and> b = None"
  by (cases a) auto

lemma NodePool_Validate_iff:
  "NodePool_Validate m = None \<longleftrightarrow>
     np_Flavor m \<noteq> [] \<and> pool_name_re (np_Name m) \<and> 0 \<le> np_Size m \<and> np_Size m \<le> 127"
  by (auto simp: NodePool_Validate_def CompositeValidationError_Cons NodePool_validateConfig_def
      NodePoolConfig_Validate_def NodePool_validateFlavor_def NodePool_validateName_def
      NodePool_validateSize_def RequiredString_def Pattern_def MinimumInt_def MaximumInt_def
      pool_name_re_def)

lemma KlusterSpec_Validate_iff:
  "KlusterSpec_Validate m = None \<longleftrightarrow>
     (spec_ClusterCIDR m = [] \<or> cidr_re (spec_ClusterCIDR m)) \<and>
     (spec_ServiceCIDR m = [] \<or> cidr_re (spec_ServiceCIDR m))"
  by (auto simp: KlusterSpec_Validate_def CompositeValidationError_Cons
      KlusterSpec_validateClusterCIDR_def KlusterSpec_validateNodePools_def
      KlusterSpec_validateOpenstack_def OpenstackSpec_Validate_def
      KlusterSpec_validateServiceCIDR_def Pattern_def)

lemma Kluster_Validate_iff:
  "Kluster_Validate m = None \<longleftrightarrow>
     kluster_name_re (mk_Name m) \<and> KlusterSpec_Validate (mk_Spec m) = None \<and>
     KlusterStatus_Validate (mk_Status m) = None"
proof -
  have "KlusterSpec_Validate zero_KlusterSpec = None"
    by (simp add: KlusterSpec_Validate_iff zero_KlusterSpec_def)
  moreover have "KlusterStatus_Validate zero_KlusterStatus = None"
    by (simp add: KlusterStatus_Validate_def zero_KlusterStatus_def KlusterStatus_validatePhase_def
        KlusterStatus_validateNodePools_def)
  ultimately show ?thesis
    by (auto simp: Kluster_Validate_def CompositeValidationError_Cons Kluster_validateName_def
        Kluster_validateSpec_def Kluster_validateStatus_def RequiredString_def Pattern_def
        kluster_name_re_def)
qed

lemma digits_val_simps:
  "digits_val [a] = digit_val a" "digits_val [a, b] = 10 * digit_val a + digit_val b"
  "digits_val [a, b, c] = 100 * digit_val a + 10 * digit_val b + digit_val c"
  by (simp_all add: digits_val_def)

lemma digit_val_le: "is_digit c \<Longrightarrow> digit_val c \<le> 9"
  unfolding is_digit_def digit_val_def by linarith

lemma octet_re_dtoi: "octet_re s \<Longrightarrow> dtoi_below 256 s = Some (digits_val s)"
proof (induction s rule: octet_re.induct)
  case (3 a b c)
  then show ?case
    using digit_val_le [of b] digit_val_le [of c]
    by (auto simp: dtoi_below_def digits_val_simps in_range_def)
qed (auto simp: dtoi_below_def digits_val_simps in_range_def dest: digit_val_le)

lemma prefix_len_re_dtoi: "prefix_len_re s \<Longrightarrow> dtoi_below 33 s = Some (digits_val s)"
  by (induction s rule: prefix_len_re.induct)
    (auto simp: dtoi_below_def digits_val_simps in_range_def dest: digit_val_le)

lemma parse_octets_octet_re:
  "list_all octet_re ps \<Longrightarrow> parse_octets ps = Some (map (\<lambda>p. word_of_nat (digits_val p)) ps)"
  by (induction ps) (simp_all add: octet_re_dtoi)

lemma Split_two:
  assumes "Split c s = [a, b]"
  shows "s = a @ c # b" "takeWhile (\<lambda>x. x \<noteq> c) s = a" "dropWhile (\<lambda>x. x \<noteq> c) s = c # b"
proof -
  show s: "s = a @ c # b" using Join_Split [of c s] assms by simp
  have "c \<notin> set a" using Split_elem_no_sep [of a c s] assms by simp
  then have "\<And>x. x \<in> set a \<Longrightarrow> x \<noteq> c" by auto
  then show "takeWhile (\<lambda>x. x \<noteq> c) s = a" "dropWhile (\<lambda>x. x \<noteq> c) s = c # b"
    using s by (simp_all add: takeWhile_append2 dropWhile_append2)
qed

text \<open>Every CIDR the validation accepts is one \<open>net.ParseCIDR\<close> accepts.\<close>

lemma cidr_re_ParseCIDR:
  assumes "cidr_re s"
  obtains ip len where "length ip = 4" "prefix_len_re len" "digits_val len \<le> 32"
    "takeWhile (\<lambda>x. x \<noteq> CHR ''/'') s = Join (Split CHR ''.'' (takeWhile (\<lambda>x. x \<noteq> CHR ''/'') s)) ''.''"
    "ParseCIDR s = Ok (ip, \<lparr>ipnet_IP = Mask ip (CIDRMask (digits_val len) 4),
                             ipnet_Mask = CIDRMask (digits_val len) 4\<rparr>)"
proof -
  obtain addr len where sp: "Split CHR ''/'' s = [addr, len]"
    and a: "length (Split CHR ''.'' addr) = 4" "list_all octet_re (Split CHR ''.'' addr)"
    and l: "prefix_len_re len"
    using assms by (auto simp: cidr_re_def split: list.splits)
  let ?ip = "map (\<lambda>p. word_of_nat (digits_val p)) (Split CHR ''.'' addr) :: IP"
  have "parseIPv4 addr = Some ?ip"
    using a by (simp add: parseIPv4_def parse_octets_octet_re)
  with prefix_len_re_dtoi [OF l] Split_two [OF sp]
  have "ParseCIDR s = Ok (?ip, \<lparr>ipnet_IP = Mask ?ip (CIDRMask (digits_val len) 4),
                                ipnet_Mask = CIDRMask (digits_val len) 4\<rparr>)"
    by (simp add: ParseCIDR_def)
  moreover have "digits_val len \<le> 32"
    using prefix_len_re_dtoi [OF l] by (auto simp: dtoi_below_def split: if_splits)
  ultimately show ?thesis using that [of ?ip len] a l by (simp add: Join_Split)
qed

end
