(* ===== verification/Factory.thy ===== *)
theory Factory
  imports Models
begin

text \<open>
  The kluster factory (\<open>src/pkg/apis/kubernikus/factory.go\<close>): from the spec of a request to
  the custom resource with its defaults. The default values are those of the embedded
  swagger document (\<open>src/pkg/api/spec/embedded_spec.go\<close>) that \<open>MustDefaultString\<close> reads.
\<close>

definition DEFAULT_CLUSTER_CIDR :: string where "DEFAULT_CLUSTER_CIDR = ''198.19.0.0/16''"
definition DEFAULT_SERVICE_CIDR :: string where "DEFAULT_SERVICE_CIDR = ''198.18.128.0/17''"
definition DEFAULT_ADVERTISE_ADDRESS :: string where "DEFAULT_ADVERTISE_ADDRESS = ''1.1.1.1''"
definition DEFAULT_DOMAIN :: string where "DEFAULT_DOMAIN = ''cluster.local''"

text \<open>\<open>if x == "" { x = d }\<close>\<close>

definition default_string :: "string \<Rightarrow> string \<Rightarrow> string" where
  "default_string d x = (if x = [] then d else x)"

definition pool_info_for :: "NodePool \<Rightarrow> NodePoolInfo" where
  "pool_info_for p = \<lparr>npi_Healthy = 0, npi_Name = np_Name p, npi_Running = 0, npi_Schedulable = 0,
     npi_Size = np_Size p\<rparr>"

text \<open>\<open>version.GitCommit\<close> is set by the linker; it is a parameter.\<close>

definition KlusterFor :: "string \<Rightarrow> KlusterSpec \<Rightarrow> Kluster outcome" where
  "KlusterFor GitCommit spec =
     (if spec_Name spec = [] then Fail (Errorf ''unabled to create cluster. missing name'')
      else
        let spec1 = spec\<lparr>spec_ClusterCIDR := default_string DEFAULT_CLUSTER_CIDR (spec_ClusterCIDR spec),
                         spec_ServiceCIDR := default_string DEFAULT_SERVICE_CIDR (spec_ServiceCIDR spec),
                         spec_AdvertiseAddress := default_string DEFAULT_ADVERTISE_ADDRESS (spec_AdvertiseAddress spec)\<rparr>
        in obind (ParseCIDR (spec_ServiceCIDR spec1)) (\<lambda>(_, serviceCIDR).
           obind (GetIndexedIP serviceCIDR 2) (\<lambda>dnsip.
             Ok \<lparr>k_Name = spec_Name spec, k_Namespace = [], k_UID = [], k_Labels = [],
                 k_Annotations = [], k_CreationTimestamp = 0,
                 k_Spec = spec1\<lparr>spec_DNSAddress := default_string (IP_String dnsip) (spec_DNSAddress spec1),
                                spec_DNSDomain := default_string DEFAULT_DOMAIN (spec_DNSDomain spec1)\<rparr>,
                 k_Status = \<lparr>st_Apiserver = [], st_Message = [],
                             st_NodePools = map pool_info_for (spec_NodePools spec1),
                             st_Phase = KlusterPhasePending, st_Version = GitCommit, st_Wormhole = []\<rparr>\<rparr>)))"

section \<open>Which specs the factory accepts\<close>

definition service_cidr :: "KlusterSpec \<Rightarrow> string" where
  "service_cidr spec = default_string DEFAULT_SERVICE_CIDR (spec_ServiceCIDR spec)"

lemma default_string_idem [simp]: "default_string d (default_string d x) = default_string d x"
  by (simp add: default_string_def)

lemma default_service_cidr_re: "cidr_re DEFAULT_SERVICE_CIDR"
  by code_simp

lemma service_cidr_re: "KlusterSpec_Validate spec = None \<Longrightarrow> cidr_re (service_cidr spec)"
  using default_service_cidr_re
  by (auto simp: service_cidr_def default_string_def KlusterSpec_Validate_iff)

text \<open>The network a validated spec names: its prefix length and its address.\<close>

lemma validated_service_net:
  assumes "KlusterSpec_Validate spec = None"
  obtains ip net n where "ParseCIDR (service_cidr spec) = Ok (ip, net)" "n \<le> 32"
    "net4 n (bytes_val (ipnet_IP net)) net"
proof -
  obtain ip len where l: "length ip = 4" "digits_val len \<le> 32"
    and p: "ParseCIDR (service_cidr spec) = Ok (ip, \<lparr>ipnet_IP = Mask ip (CIDRMask (digits_val len) 4),
                             ipnet_Mask = CIDRMask (digits_val len) 4\<rparr>)"
    using cidr_re_ParseCIDR [OF service_cidr_re [OF assms]] by metis
  from net4_Mask [OF l] have "net4 (digits_val len) (bytes_val (Mask ip (CIDRMask (digits_val len) 4)))
      \<lparr>ipnet_IP = Mask ip (CIDRMask (digits_val len) 4), ipnet_Mask = CIDRMask (digits_val len) 4\<rparr>"
    using bytes_val_Mask [of ip 4 "digits_val len"] l by simp
  with that [OF p] l show ?thesis by simp
qed

text \<open>The resource the factory builds for a spec whose DNS address is \<open>dns\<close>.\<close>

lemma KlusterFor_eq:
  "KlusterFor commit spec =
     (if spec_Name spec = [] then Fail (Errorf ''unabled to create cluster. missing name'')
      else obind (ParseCIDR (service_cidr spec)) (\<lambda>(_, net). obind (GetIndexedIP net 2) (\<lambda>dnsip.
        Ok \<lparr>k_Name = spec_Name spec, k_Namespace = [], k_UID = [], k_Labels = [],
                 k_Annotations = [], k_CreationTimestamp = 0,
            k_Spec = spec\<lparr>spec_ClusterCIDR := default_string DEFAULT_CLUSTER_CIDR (spec_ClusterCIDR spec),
                          spec_ServiceCIDR := service_cidr spec,
                          spec_AdvertiseAddress := default_string DEFAULT_ADVERTISE_ADDRESS (spec_AdvertiseAddress spec),
                          spec_DNSAddress := default_string (IP_String dnsip) (spec_DNSAddress spec),
                          spec_DNSDomain := default_string DEFAULT_DOMAIN (spec_DNSDomain spec)\<rparr>,
            k_Status = \<lparr>st_Apiserver = [], st_Message = [],
                        st_NodePools = map pool_info_for (spec_NodePools spec),
                        st_Phase = KlusterPhasePending, st_Version = commit, st_Wormhole = []\<rparr>\<rparr>)))"
  by (simp add: KlusterFor_def service_cidr_def Let_def)

lemma two_below_power: "n \<le> 32 \<Longrightarrow> (2 :: nat) < 2 ^ (32 - n) \<longleftrightarrow> n \<le> 30"
proof -
  have "(2 :: nat) ^ 1 < 2 ^ (32 - n) \<longleftrightarrow> 1 < 32 - n" by (rule power_strict_increasing_iff) simp
  then show "n \<le> 32 \<Longrightarrow> ?thesis" by auto
qed

lemma net4_top_byte:
  assumes "net4 n base net" "n \<le> 30"
  shows "2 ^ 24 \<le> base + 2 \<longleftrightarrow> 2 ^ 24 \<le> base"
proof -
  have "4 dvd (2 :: nat) ^ (32 - n)" using assms(2) le_imp_power_dvd [of 2 "32 - n" "2 :: nat"] by simp
  then have "4 dvd base" using assms(1) by (auto simp: net4_def elim: dvd_trans)
  then show ?thesis by simp presburger
qed

lemma GetIndexedIP_2:
  assumes "net4 n base net"
  shows "GetIndexedIP net 2 =
     (if n \<le> 30 \<and> 2 ^ 24 \<le> base then Ok (nat_bytes (base + 2))
      else Fail (Errorf (''can't generate IP with index 2 from subnet. subnet too small. subnet: ''
             @ quoted (IPNet_String net))))"
proof -
  have "n \<le> 32" using assms by (simp add: net4_def)
  moreover have "Itoa 2 = ''2''" by code_simp
  ultimately show ?thesis
    using GetIndexedIP_net4 [OF assms, of 2] net4_top_byte [OF assms]
    by (auto simp: two_below_power)
qed

text \<open>C20: For a spec that passes the API's validation and has a name, with a service
  network of prefix length \<open>n\<close> and address \<open>base\<close>, the factory succeeds exactly when the
  network has room for the DNS address (\<open>n \<le> 30\<close>) and does not begin with a zero byte. The
  resource is then pending, has one status entry per pool in the order of the spec, and the
  DNS address is the third address of the service network unless the spec sets one. No
  validated spec makes the factory panic.\<close>

theorem KlusterFor_validated:
  assumes "KlusterSpec_Validate spec = None" "spec_Name spec \<noteq> []"
    "ParseCIDR (service_cidr spec) = Ok (ip, net)" "net4 n base net"
  shows "if n \<le> 30 \<and> 2 ^ 24 \<le> base
    then \<exists>k. KlusterFor commit spec = Ok k \<and> k_Name k = spec_Name spec \<and>
       st_Phase (k_Status k) = KlusterPhasePending \<and>
       st_NodePools (k_Status k) = map pool_info_for (spec_NodePools spec) \<and>
       spec_NodePools (k_Spec k) = spec_NodePools spec \<and>
       (spec_DNSAddress spec = [] \<longrightarrow>
          (\<exists>dns. spec_DNSAddress (k_Spec k) = IP_String dns \<and> IPNet_Contains net dns \<and>
             parseIPv4 (spec_DNSAddress (k_Spec k)) = Some dns \<and> bytes_val dns = base + 2)) \<and>
       (spec_DNSAddress spec \<noteq> [] \<longrightarrow> spec_DNSAddress (k_Spec k) = spec_DNSAddress spec)
    else \<exists>e. KlusterFor commit spec = Fail e"
proof -
  let ?dns = "nat_bytes (base + 2)"
  have *: "2 ^ 24 \<le> base \<Longrightarrow> n \<le> 30 \<Longrightarrow>
      length ?dns = 4 \<and> IPNet_Contains net ?dns \<and> parseIPv4 (IP_String ?dns) = Some ?dns"
    using net4_offset [OF assms(4), of 2] Contains_net4 [OF assms(4), of ?dns] two_below_power [of n]
    by (simp add: length_nat_bytes_4_iff parseIPv4_IP_String)
  from assms(2,3) GetIndexedIP_2 [OF assms(4)] * show ?thesis
    by (auto simp: KlusterFor_eq default_string_def)
qed

definition demo_spec :: KlusterSpec where
  "demo_spec = zero_KlusterSpec\<lparr>spec_Name := ''demo'',
     spec_NodePools := [\<lparr>np_Config = \<lparr>cfg_Repair = True, cfg_Upgrade = False\<rparr>, np_Flavor = ''m1.small'',
                         np_Image = ''coreos'', np_Name = ''small'', np_Size = 2\<rparr>]\<rparr>"

definition demo_net :: IPNet where
  "demo_net = \<lparr>ipnet_IP = [198, 18, 128, 0], ipnet_Mask = [255, 255, 128, 0]\<rparr>"

lemma demo_mask: "CIDRMask 17 4 = [255, 255, 128, 0]"
  by code_simp

lemma demo_ParseCIDR: "ParseCIDR DEFAULT_SERVICE_CIDR = Ok ([198, 18, 128, 0], demo_net)"
  by code_simp

lemma demo_facts:
  "KlusterSpec_Validate demo_spec = None" "spec_Name demo_spec \<noteq> []" "spec_DNSAddress demo_spec = []"
  "ParseCIDR (service_cidr demo_spec) = Ok ([198, 18, 128, 0], demo_net)"
  "net4 17 3323101184 demo_net"
  by (simp_all add: KlusterSpec_Validate_iff demo_spec_def zero_KlusterSpec_def service_cidr_def
      default_string_def demo_ParseCIDR net4_def demo_net_def demo_mask)

theorem KlusterFor_validated_witness:
  "\<exists>k dns. KlusterFor ''HEAD'' demo_spec = Ok k \<and> spec_DNSAddress (k_Spec k) = IP_String dns \<and>
     bytes_val dns = 3323101186"
  using KlusterFor_validated [OF demo_facts(1,2,4,5), of "''HEAD''"] demo_facts(3) by auto

end
