(* ===== verification/Workqueue.thy ===== *)
theory Workqueue
  imports Prelude
begin

text \<open>
  The rate limited work queue every controller of the operator uses: the interface
  \<open>workqueue.RateLimitingInterface\<close> as a record of operations, the laws its clients rely on as
  the locale \<open>rate_limiting_queue\<close>, and the vendored implementation
  (\<open>src/vendor/k8s.io/client-go/util/workqueue\<close>: \<open>Type\<close>, \<open>delayingType\<close>, \<open>rateLimitingType\<close>,
  \<open>ItemExponentialFailureRateLimiter\<close>) that provides them.

  Every operation of the implementation holds the queue's lock, so operations are atomic and
  a history is a sequence of them. The entry of \<open>AddAfter\<close> travels through a channel to
  \<open>waitingLoop\<close>; here it enters the waiting set at once, and \<open>waitingLoop_fire\<close> is one pass of
  that loop over the entries that are ready. Times are nanoseconds; keys are strings.
\<close>

section \<open>The interface\<close>

datatype get_result = Item string | Quit | Blocked

record 'q RateLimitingInterface =
  rl_Add :: "string \<Rightarrow> 'q \<Rightarrow> 'q"
  rl_Get :: "'q \<Rightarrow> get_result \<times> 'q"
  rl_Done :: "string \<Rightarrow> 'q \<Rightarrow> 'q"
  rl_ShutDown :: "'q \<Rightarrow> 'q"
  rl_AddAfter :: "string \<Rightarrow> nat \<Rightarrow> 'q \<Rightarrow> 'q"
  rl_AddRateLimited :: "string \<Rightarrow> 'q \<Rightarrow> 'q"
  rl_Forget :: "string \<Rightarrow> 'q \<Rightarrow> 'q"
  rl_NumRequeues :: "string \<Rightarrow> 'q \<Rightarrow> nat"
  rl_Tick :: "nat \<Rightarrow> 'q \<Rightarrow> 'q"

text \<open>\<open>rl_Tick\<close> is the queue's own goroutine, which adds the delayed keys whose time has come.\<close>

text \<open>What a client may observe of a queue: the keys that need processing (\<open>pending\<close>), those
  being processed (\<open>busy\<close>), those waiting for their time (\<open>delayed\<close>), and whether it is shut
  down.\<close>

locale rate_limiting_queue =
  fixes ops :: "'q RateLimitingInterface"
    and inv :: "'q \<Rightarrow> bool"
    and pending busy delayed :: "'q \<Rightarrow> string set"
    and closed :: "'q \<Rightarrow> bool"
  assumes inv_ops:
      "inv q \<Longrightarrow> inv (rl_Add ops k q)"
      "inv q \<Longrightarrow> inv (snd (rl_Get ops q))"
      "inv q \<Longrightarrow> k \<in> busy q \<Longrightarrow> inv (rl_Done ops k q)"
      "inv q \<Longrightarrow> inv (rl_ShutDown ops q)"
      "inv q \<Longrightarrow> inv (rl_AddAfter ops k d q)"
      "inv q \<Longrightarrow> inv (rl_AddRateLimited ops k q)"
      "inv q \<Longrightarrow> inv (rl_Forget ops k q)"
    and Add_laws:
      "pending (rl_Add ops k q) = (if closed q then pending q else insert k (pending q))"
      "busy (rl_Add ops k q) = busy q"
      "delayed (rl_Add ops k q) = delayed q"
      "rl_NumRequeues ops x (rl_Add ops k q) = rl_NumRequeues ops x q"
    and Get_Item:
      "inv q \<Longrightarrow> rl_Get ops q = (Item k, q') \<Longrightarrow>
         k \<in> pending q \<and> k \<notin> busy q \<and> pending q' = pending q - {k} \<and> busy q' = insert k (busy q) \<and>
         delayed q' = delayed q"
    and Get_other:
      "inv q \<Longrightarrow> fst (rl_Get ops q) = Blocked \<longleftrightarrow> pending q \<subseteq> busy q \<and> \<not> closed q"
      "inv q \<Longrightarrow> fst (rl_Get ops q) = Quit \<longleftrightarrow> pending q \<subseteq> busy q \<and> closed q"
      "(\<And>k. fst (rl_Get ops q) \<noteq> Item k) \<Longrightarrow> snd (rl_Get ops q) = q"
      "rl_NumRequeues ops x (snd (rl_Get ops q)) = rl_NumRequeues ops x q"
    and Done_laws:
      "pending (rl_Done ops k q) = pending q"
      "busy (rl_Done ops k q) = busy q - {k}"
      "delayed (rl_Done ops k q) = delayed q"
      "rl_NumRequeues ops x (rl_Done ops k q) = rl_NumRequeues ops x q"
    and AddAfter_laws:
      "0 < d \<Longrightarrow> pending (rl_AddAfter ops k d q) = pending q"
      "busy (rl_AddAfter ops k d q) = busy q"
      "0 < d \<Longrightarrow> delayed (rl_AddAfter ops k d q) = (if closed q then delayed q else insert k (delayed q))"
      "rl_NumRequeues ops x (rl_AddAfter ops k d q) = rl_NumRequeues ops x q"
    and AddRateLimited_laws:
      "inv q \<Longrightarrow> pending (rl_AddRateLimited ops k q) = pending q"
      "busy (rl_AddRateLimited ops k q) = busy q"
      "inv q \<Longrightarrow> delayed (rl_AddRateLimited ops k q) = (if closed q then delayed q else insert k (delayed q))"
      "rl_NumRequeues ops x (rl_AddRateLimited ops k q) =
         (if x = k then Suc (rl_NumRequeues ops x q) else rl_NumRequeues ops x q)"
    and Forget_laws:
      "pending (rl_Forget ops k q) = pending q"
      "busy (rl_Forget ops k q) = busy q"
      "delayed (rl_Forget ops k q) = delayed q"
      "rl_NumRequeues ops x (rl_Forget ops k q) = (if x = k then 0 else rl_NumRequeues ops x q)"
    and ShutDown_laws:
      "pending (rl_ShutDown ops q) = pending q"
      "busy (rl_ShutDown ops q) = busy q"
      "delayed (rl_ShutDown ops q) = delayed q"
      "rl_NumRequeues ops x (rl_ShutDown ops q) = rl_NumRequeues ops x q"
    and closed_laws:
      "closed (rl_Add ops k q) = closed q" "closed (snd (rl_Get ops q)) = closed q"
      "closed (rl_Done ops k q) = closed q" "closed (rl_AddAfter ops k d q) = closed q"
      "closed (rl_AddRateLimited ops k q) = closed q" "closed (rl_Forget ops k q) = closed q"
      "closed (rl_ShutDown ops q)" "closed (rl_Tick ops t q) = closed q"
    and Tick_laws:
      "inv q \<Longrightarrow> inv (rl_Tick ops t q)"
      "busy (rl_Tick ops t q) = busy q"
      "rl_NumRequeues ops x (rl_Tick ops t q) = rl_NumRequeues ops x q"
      "pending q \<subseteq> pending (rl_Tick ops t q)"
      "\<not> closed q \<Longrightarrow> pending (rl_Tick ops t q) \<union> delayed (rl_Tick ops t q) = pending q \<union> delayed q"

section \<open>The vendored implementation\<close>

record wq =
  wq_queue :: "string list"
  wq_dirty :: "string set"
  wq_processing :: "string set"
  wq_waiting :: "(string \<times> nat) list"
  wq_failures :: "string \<Rightarrow> nat"
  wq_baseDelay :: nat
  wq_maxDelay :: nat
  wq_shuttingDown :: bool
  wq_now :: nat

definition NewRateLimitingQueue :: "nat \<Rightarrow> nat \<Rightarrow> wq" where
  "NewRateLimitingQueue baseDelay maxDelay =
     \<lparr>wq_queue = [], wq_dirty = {}, wq_processing = {}, wq_waiting = [], wq_failures = (\<lambda>_. 0),
      wq_baseDelay = baseDelay, wq_maxDelay = maxDelay, wq_shuttingDown = False, wq_now = 0\<rparr>"

definition wq_Add :: "string \<Rightarrow> wq \<Rightarrow> wq" where
  "wq_Add item q =
     (if wq_shuttingDown q then q
      else if item \<in> wq_dirty q then q
      else let q1 = q\<lparr>wq_dirty := insert item (wq_dirty q)\<rparr> in
           if item \<in> wq_processing q then q1
           else q1\<lparr>wq_queue := wq_queue q1 @ [item]\<rparr>)"

definition wq_Get :: "wq \<Rightarrow> get_result \<times> wq" where
  "wq_Get q =
     (case wq_queue q of
        [] \<Rightarrow> (if wq_shuttingDown q then Quit else Blocked, q)
      | item # rest \<Rightarrow>
          (Item item, q\<lparr>wq_queue := rest, wq_processing := insert item (wq_processing q),
                        wq_dirty := wq_dirty q - {item}\<rparr>))"

definition wq_Done :: "string \<Rightarrow> wq \<Rightarrow> wq" where
  "wq_Done item q =
     (let q1 = q\<lparr>wq_processing := wq_processing q - {item}\<rparr> in
      if item \<in> wq_dirty q1 then q1\<lparr>wq_queue := wq_queue q1 @ [item]\<rparr> else q1)"

definition wq_ShutDown :: "wq \<Rightarrow> wq" where
  "wq_ShutDown q = q\<lparr>wq_shuttingDown := True\<rparr>"

text \<open>\<open>insert\<close> of \<open>delaying_queue.go\<close>: a key waits once, for the earlier of its times.\<close>

fun wq_insert :: "string \<Rightarrow> nat \<Rightarrow> (string \<times> nat) list \<Rightarrow> (string \<times> nat) list" where
  "wq_insert item t [] = [(item, t)]"
| "wq_insert item t ((x, u) # ws) =
     (if x = item then (x, if u > t then t else u) # ws else (x, u) # wq_insert item t ws)"

definition wq_AddAfter :: "string \<Rightarrow> nat \<Rightarrow> wq \<Rightarrow> wq" where
  "wq_AddAfter item duration q =
     (if wq_shuttingDown q then q
      else if duration = 0 then wq_Add item q
      else q\<lparr>wq_waiting := wq_insert item (wq_now q + duration) (wq_waiting q)\<rparr>)"

text \<open>One pass of \<open>waitingLoop\<close> at the time \<open>now\<close>: the ready entries are added, the earliest
  first, and leave the waiting set.\<close>

definition waitingLoop_fire :: "nat \<Rightarrow> wq \<Rightarrow> wq" where
  "waitingLoop_fire now q =
     (if wq_shuttingDown q then q\<lparr>wq_now := now\<rparr>
      else let ready = sort_key snd (filter (\<lambda>(x, t). t \<le> now) (wq_waiting q));
               q1 = q\<lparr>wq_now := now, wq_waiting := filter (\<lambda>(x, t). \<not> t \<le> now) (wq_waiting q)\<rparr>
           in fold (\<lambda>(x, t). wq_Add x) ready q1)"

text \<open>\<open>ItemExponentialFailureRateLimiter.When\<close>: the delay doubles with every failure up to the
  maximal delay. The cap at \<open>math.MaxInt64\<close> gives the maximal delay too.\<close>

definition wq_When :: "string \<Rightarrow> wq \<Rightarrow> nat \<times> wq" where
  "wq_When item q =
     (let backoff = wq_baseDelay q * 2 ^ wq_failures q item;
          q1 = q\<lparr>wq_failures := (wq_failures q)(item := wq_failures q item + 1)\<rparr>
      in if backoff > 2 ^ 63 - 1 then (wq_maxDelay q, q1)
         else if backoff > wq_maxDelay q then (wq_maxDelay q, q1)
         else (backoff, q1))"

definition wq_AddRateLimited :: "string \<Rightarrow> wq \<Rightarrow> wq" where
  "wq_AddRateLimited item q = (case wq_When item q of (d, q1) \<Rightarrow> wq_AddAfter item d q1)"

definition wq_Forget :: "string \<Rightarrow> wq \<Rightarrow> wq" where
  "wq_Forget item q = q\<lparr>wq_failures := (wq_failures q)(item := 0)\<rparr>"

definition wq_NumRequeues :: "string \<Rightarrow> wq \<Rightarrow> nat" where
  "wq_NumRequeues item q = wq_failures q item"

definition rateLimitingType :: "wq RateLimitingInterface" where
  "rateLimitingType = \<lparr>rl_Add = wq_Add, rl_Get = wq_Get, rl_Done = wq_Done, rl_ShutDown = wq_ShutDown,
     rl_AddAfter = wq_AddAfter, rl_AddRateLimited = wq_AddRateLimited, rl_Forget = wq_Forget,
     rl_NumRequeues = wq_NumRequeues, rl_Tick = waitingLoop_fire\<rparr>"

section \<open>Its invariant and its laws\<close>

text \<open>The queue holds exactly the dirty keys that are not being processed, each once; a key
  waits at most once; the delays are positive.\<close>

definition wq_inv :: "wq \<Rightarrow> bool" where
  "wq_inv q \<longleftrightarrow> distinct (wq_queue q) \<and> set (wq_queue q) = wq_dirty q - wq_processing q \<and>
     distinct (map fst (wq_waiting q)) \<and> 0 < wq_baseDelay q \<and> 0 < wq_maxDelay q"

lemma wq_inv_New [simp]: "0 < b \<Longrightarrow> 0 < m \<Longrightarrow> wq_inv (NewRateLimitingQueue b m)"
  by (simp add: wq_inv_def NewRateLimitingQueue_def)

lemma set_wq_insert: "fst ` set (wq_insert x t ws) = insert x (fst ` set ws)"
  by (induction x t ws rule: wq_insert.induct) auto

lemma distinct_wq_insert: "distinct (map fst ws) \<Longrightarrow> distinct (map fst (wq_insert x t ws))"
proof (induction x t ws rule: wq_insert.induct)
  case (2 item t x u ws)
  then show ?case using set_wq_insert [of item t ws] by auto
qed simp

lemma wq_inv_Add: "wq_inv q \<Longrightarrow> wq_inv (wq_Add k q)"
  by (auto simp: wq_inv_def wq_Add_def Let_def)

lemma wq_inv_Get: "wq_inv q \<Longrightarrow> wq_inv (snd (wq_Get q))"
  by (cases "wq_queue q") (auto simp: wq_inv_def wq_Get_def)

lemma wq_inv_Done: "wq_inv q \<Longrightarrow> k \<in> wq_processing q \<Longrightarrow> wq_inv (wq_Done k q)"
  by (auto simp: wq_inv_def wq_Done_def Let_def)

lemma wq_inv_AddAfter: "wq_inv q \<Longrightarrow> wq_inv (wq_AddAfter k d q)"
  using wq_inv_Add [of q k] by (auto simp: wq_AddAfter_def wq_inv_def distinct_wq_insert)

lemma wq_When_delay: "wq_inv q \<Longrightarrow> 0 < fst (wq_When k q) \<and> fst (wq_When k q) \<le> wq_maxDelay q"
  by (auto simp: wq_When_def wq_inv_def Let_def)

lemma wq_When_state:
  "snd (wq_When k q) = q\<lparr>wq_failures := (wq_failures q)(k := wq_failures q k + 1)\<rparr>"
  by (simp add: wq_When_def Let_def)

lemma wq_AddRateLimited_eq:
  assumes "wq_inv q"
  shows "wq_AddRateLimited k q =
    (let q1 = q\<lparr>wq_failures := (wq_failures q)(k := wq_failures q k + 1)\<rparr> in
     if wq_shuttingDown q then q1
     else q1\<lparr>wq_waiting := wq_insert k (wq_now q + fst (wq_When k q)) (wq_waiting q)\<rparr>)"
proof -
  obtain d q1 where d: "wq_When k q = (d, q1)" by (cases "wq_When k q")
  then have "q1 = q\<lparr>wq_failures := (wq_failures q)(k := wq_failures q k + 1)\<rparr>" "d \<noteq> 0"
    using wq_When_state [of k q] wq_When_delay [OF assms, of k] by simp_all
  with d show ?thesis by (simp add: wq_AddRateLimited_def wq_AddAfter_def Let_def)
qed

lemma wq_inv_AddRateLimited: "wq_inv q \<Longrightarrow> wq_inv (wq_AddRateLimited k q)"
  by (simp add: wq_AddRateLimited_eq Let_def) (simp add: wq_inv_def distinct_wq_insert)

lemma wq_queue_empty: "wq_inv q \<Longrightarrow> wq_queue q = [] \<longleftrightarrow> wq_dirty q \<subseteq> wq_processing q"
  unfolding wq_inv_def by (metis Diff_eq_empty_iff set_empty)

lemma wq_Get_queue:
  "fst (wq_Get q) = Blocked \<longleftrightarrow> wq_queue q = [] \<and> \<not> wq_shuttingDown q"
  "fst (wq_Get q) = Quit \<longleftrightarrow> wq_queue q = [] \<and> wq_shuttingDown q"
  by (cases "wq_queue q"; simp add: wq_Get_def)+

lemma wq_Get_Item:
  "wq_inv q \<Longrightarrow> wq_Get q = (Item k, q') \<Longrightarrow>
     k \<in> wq_dirty q \<and> k \<notin> wq_processing q \<and>
     q' = q\<lparr>wq_queue := tl (wq_queue q), wq_processing := insert k (wq_processing q),
            wq_dirty := wq_dirty q - {k}\<rparr>"
  by (cases "wq_queue q") (auto simp: wq_Get_def wq_inv_def split: if_splits)

section \<open>Delayed keys come back\<close>

lemma wq_Add_frame [simp]:
  "wq_waiting (wq_Add k q) = wq_waiting q" "wq_shuttingDown (wq_Add k q) = wq_shuttingDown q"
  "wq_now (wq_Add k q) = wq_now q" "wq_failures (wq_Add k q) = wq_failures q"
  "wq_processing (wq_Add k q) = wq_processing q"
  by (simp_all add: wq_Add_def Let_def)

lemma wq_Add_dirty: "\<not> wq_shuttingDown q \<Longrightarrow> wq_dirty (wq_Add k q) = insert k (wq_dirty q)"
  by (auto simp: wq_Add_def Let_def)

lemma fold_Add_dirty:
  "\<not> wq_shuttingDown q \<Longrightarrow> wq_dirty (fold (\<lambda>(x, t). wq_Add x) xs q) = wq_dirty q \<union> fst ` set xs"
  by (induction xs arbitrary: q) (force simp: wq_Add_dirty)+

lemma fold_Add_inv: "wq_inv q \<Longrightarrow> wq_inv (fold (\<lambda>(x, t). wq_Add x) xs q)"
  by (induction xs arbitrary: q) (auto simp: wq_inv_Add)

lemma fold_Add_frame:
  "wq_waiting (fold (\<lambda>(x, t). wq_Add x) xs q) = wq_waiting q"
  "wq_processing (fold (\<lambda>(x, t). wq_Add x) xs q) = wq_processing q"
  "wq_failures (fold (\<lambda>(x, t). wq_Add x) xs q) = wq_failures q"
  "wq_now (fold (\<lambda>(x, t). wq_Add x) xs q) = wq_now q"
  "wq_shuttingDown (fold (\<lambda>(x, t). wq_Add x) xs q) = wq_shuttingDown q"
  by (induction xs arbitrary: q) auto

lemma wq_inv_fire: "wq_inv q \<Longrightarrow> wq_inv (waitingLoop_fire now q)"
proof -
  assume "wq_inv q"
  then have "wq_inv (q\<lparr>wq_now := now, wq_waiting := filter (\<lambda>(x, t). \<not> t \<le> now) (wq_waiting q)\<rparr>)"
    by (auto simp: wq_inv_def distinct_map filter_set intro: inj_on_subset)
  with \<open>wq_inv q\<close> show ?thesis
    by (auto simp: waitingLoop_fire_def Let_def fold_Add_inv) (simp add: wq_inv_def)
qed

lemma fire_dirty:
  "\<not> wq_shuttingDown q \<Longrightarrow>
     wq_dirty (waitingLoop_fire now q) = wq_dirty q \<union> {x. \<exists>t \<le> now. (x, t) \<in> set (wq_waiting q)}"
  by (auto simp: waitingLoop_fire_def Let_def fold_Add_dirty image_iff)

lemma fire_frame [simp]:
  "wq_processing (waitingLoop_fire now q) = wq_processing q"
  "wq_failures (waitingLoop_fire now q) = wq_failures q"
  "wq_shuttingDown (waitingLoop_fire now q) = wq_shuttingDown q"
  by (simp_all add: waitingLoop_fire_def Let_def fold_Add_frame)

lemma fire_waiting:
  "wq_waiting (waitingLoop_fire now q) =
     (if wq_shuttingDown q then wq_waiting q else filter (\<lambda>(x, t). \<not> t \<le> now) (wq_waiting q))"
  by (simp add: waitingLoop_fire_def Let_def fold_Add_frame)

lemma fire_dirty_mono: "wq_dirty q \<subseteq> wq_dirty (waitingLoop_fire now q)"
  by (cases "wq_shuttingDown q") (auto simp: fire_dirty, simp add: waitingLoop_fire_def)

lemma fire_no_loss:
  "\<not> wq_shuttingDown q \<Longrightarrow>
     wq_dirty (waitingLoop_fire now q) \<union> fst ` set (wq_waiting (waitingLoop_fire now q))
       = wq_dirty q \<union> fst ` set (wq_waiting q)"
  by (force simp: fire_dirty fire_waiting)

section \<open>The implementation meets the interface\<close>

interpretation wq: rate_limiting_queue rateLimitingType wq_inv wq_dirty wq_processing
  "\<lambda>q. fst ` set (wq_waiting q)" wq_shuttingDown
proof (unfold_locales, goal_cases)
  case (1 q k) then show ?case by (simp add: rateLimitingType_def wq_inv_Add)
next
  case (2 q) then show ?case by (simp add: rateLimitingType_def wq_inv_Get)
next
  case (3 q k) then show ?case by (simp add: rateLimitingType_def wq_inv_Done)
next
  case (4 q) then show ?case by (simp add: rateLimitingType_def wq_ShutDown_def wq_inv_def)
next
  case (5 q k d) then show ?case by (simp add: rateLimitingType_def wq_inv_AddAfter)
next
  case (6 q k) then show ?case by (simp add: rateLimitingType_def wq_inv_AddRateLimited)
next
  case (12 q k q')
  then show ?case using wq_Get_Item [of q k q'] by (simp add: rateLimitingType_def)
next
  case (13 q) then show ?case by (simp add: rateLimitingType_def wq_Get_queue wq_queue_empty)
next
  case (14 q) then show ?case by (simp add: rateLimitingType_def wq_Get_queue wq_queue_empty)
next
  case (15 q) then show ?case
    by (cases "wq_queue q") (auto simp: rateLimitingType_def wq_Get_def)
next
  case (16 x q) then show ?case
    by (cases "wq_queue q") (auto simp: rateLimitingType_def wq_Get_def wq_NumRequeues_def)
next
  case (25 q k) then show ?case by (simp add: rateLimitingType_def wq_AddRateLimited_eq Let_def)
next
  case (27 q k) then show ?case
    by (simp add: rateLimitingType_def wq_AddRateLimited_eq Let_def set_wq_insert)
next
  case (45 q t) then show ?case by (simp add: rateLimitingType_def wq_inv_fire)
next
  case (48 q t) then show ?case using fire_dirty_mono by (simp add: rateLimitingType_def)
next
  case (49 q t) then show ?case by (simp add: rateLimitingType_def fire_no_loss)
qed (auto simp: rateLimitingType_def wq_Add_def wq_Done_def wq_AddAfter_def wq_AddRateLimited_def
      wq_Forget_def wq_ShutDown_def wq_NumRequeues_def wq_When_def wq_Get_def wq_inv_def Let_def set_wq_insert
      split: list.splits)

end
