(* ===== verification/BaseController.thy ===== *)
theory BaseController
  imports Models Workqueue
begin

text \<open>
  The base controller (\<open>src/pkg/controller/base\<close>): the event handlers that fill the queue, the
  worker loop that reconciles one kluster at a time with its retries, and the decorators of a
  \<open>Reconciler\<close>. The queue is the interface of the theory \<open>Workqueue\<close>; the lister and the
  reconciler are parameters over the world \<open>'w\<close>. A reconcile that panics runs the deferred
  calls and then ends the process.
\<close>

type_synonym 'w Reconciler = "Kluster \<Rightarrow> ('w, bool) go"

definition BASE_DELAY :: nat where "BASE_DELAY = 5 * 10 ^ 9"
definition MAX_DELAY :: nat where "MAX_DELAY = 300 * 10 ^ 9"

definition ErrUnkownKluster :: goerr where "ErrUnkownKluster = Errorf ''unkown kluster''"

section \<open>Keys and event handlers\<close>

text \<open>What an informer hands to a handler: an object, or the tombstone of a deletion it
  missed, which holds the key.\<close>

datatype informer_obj = Obj Kluster | DeletedFinalStateUnknown string Kluster

definition kluster_key :: "Kluster \<Rightarrow> string" where
  "kluster_key k = (if k_Namespace k \<noteq> [] then k_Namespace k @ ''/'' @ k_Name k else k_Name k)"

fun MetaNamespaceKeyFunc :: "informer_obj \<Rightarrow> string outcome" where
  "MetaNamespaceKeyFunc (Obj k) = Ok (kluster_key k)"
| "MetaNamespaceKeyFunc (DeletedFinalStateUnknown key k) = Fail (Errorf ''object has no meta'')"

fun DeletionHandlingMetaNamespaceKeyFunc :: "informer_obj \<Rightarrow> string outcome" where
  "DeletionHandlingMetaNamespaceKeyFunc (DeletedFinalStateUnknown key k) = Ok key"
| "DeletionHandlingMetaNamespaceKeyFunc obj = MetaNamespaceKeyFunc obj"

text \<open>\<open>if err == nil { c.queue.Add(key) }\<close>\<close>

definition add_key :: "'q RateLimitingInterface \<Rightarrow> string outcome \<Rightarrow> 'q \<Rightarrow> 'q" where
  "add_key ops r q = (case r of Ok key \<Rightarrow> rl_Add ops key q | _ \<Rightarrow> q)"

definition AddFunc :: "'q RateLimitingInterface \<Rightarrow> informer_obj \<Rightarrow> 'q \<Rightarrow> 'q" where
  "AddFunc ops obj = add_key ops (MetaNamespaceKeyFunc obj)"

definition UpdateFunc :: "'q RateLimitingInterface \<Rightarrow> informer_obj \<Rightarrow> informer_obj \<Rightarrow> 'q \<Rightarrow> 'q" where
  "UpdateFunc ops old new = add_key ops (MetaNamespaceKeyFunc new)"

definition DeleteFunc :: "'q RateLimitingInterface \<Rightarrow> informer_obj \<Rightarrow> 'q \<Rightarrow> 'q" where
  "DeleteFunc ops obj = add_key ops (DeletionHandlingMetaNamespaceKeyFunc obj)"

definition requeueKluster :: "'q RateLimitingInterface \<Rightarrow> Kluster \<Rightarrow> 'q \<Rightarrow> 'q" where
  "requeueKluster ops kluster = add_key ops (MetaNamespaceKeyFunc (Obj kluster))"

text \<open>The lister's answer is the argument; its error ends the pass.\<close>

definition requeueAllKlusters :: "'q RateLimitingInterface \<Rightarrow> Kluster list outcome \<Rightarrow> 'q \<Rightarrow> unit outcome \<times> 'q" where
  "requeueAllKlusters ops listed q =
     (case listed of
        Ok klusters \<Rightarrow> (Ok (), fold (requeueKluster ops) klusters q)
      | Fail e \<Rightarrow> (Fail e, q)
      | Panics s \<Rightarrow> (Panics s, q))"

section \<open>The worker\<close>

text \<open>What becomes of the key, given the outcome of the reconcile.\<close>

definition settle_key :: "'q RateLimitingInterface \<Rightarrow> string \<Rightarrow> bool outcome \<Rightarrow> 'q \<Rightarrow> 'q" where
  "settle_key ops key r q =
     (case r of
        Ok requeue \<Rightarrow> if requeue = False then rl_Forget ops key q else rl_AddAfter ops key BASE_DELAY q
      | Fail err \<Rightarrow> if rl_NumRequeues ops key q < 5 then rl_AddRateLimited ops key q
                     else rl_Forget ops key q
      | Panics s \<Rightarrow> q)"

text \<open>\<open>processNextWorkItem\<close> after \<open>Get\<close> has returned the key, the deferred \<open>Done\<close> included.
  \<open>found\<close> is the answer of \<open>GetByKey\<close>.\<close>

definition process_key ::
  "'q RateLimitingInterface \<Rightarrow> 'w Reconciler \<Rightarrow> Kluster option \<Rightarrow> string \<Rightarrow> 'q \<times> 'w \<Rightarrow> bool outcome \<times> 'q \<times> 'w" where
  "process_key ops reconcile found key = (\<lambda>(q, w).
     (case (case found of None \<Rightarrow> (Fail ErrUnkownKluster, w) | Some kluster \<Rightarrow> reconcile kluster w) of
        (r, w') \<Rightarrow>
          (case r of Panics s \<Rightarrow> Panics s | _ \<Rightarrow> Ok True,
           rl_Done ops key (settle_key ops key r q), w')))"

text \<open>\<open>None\<close> is a call that waits for an item.\<close>

definition processNextWorkItem ::
  "'q RateLimitingInterface \<Rightarrow> ('w \<Rightarrow> string \<Rightarrow> Kluster option) \<Rightarrow> 'w Reconciler \<Rightarrow> 'q \<times> 'w
     \<Rightarrow> (bool outcome \<times> 'q \<times> 'w) option" where
  "processNextWorkItem ops GetByKey reconcile = (\<lambda>(q, w).
     (case rl_Get ops q of
        (Blocked, q') \<Rightarrow> None
      | (Quit, q') \<Rightarrow> Some (Ok False, q', w)
      | (Item key, q') \<Rightarrow> Some (process_key ops reconcile (GetByKey w key) key (q', w))))"

text \<open>\<open>NewController\<close>'s queue.\<close>

definition new_queue :: wq where
  "new_queue = NewRateLimitingQueue BASE_DELAY MAX_DELAY"

section \<open>Decorators of a reconciler\<close>

text \<open>The prometheus vectors of \<open>InstrumentingReconciler\<close>, per method label: the number of
  observed latencies and the three counters.\<close>

record op_metrics =
  om_Latency :: "string \<Rightarrow> nat"
  om_Total :: "string \<Rightarrow> nat"
  om_Successful :: "string \<Rightarrow> nat"
  om_Failed :: "string \<Rightarrow> nat"

definition inc :: "string \<Rightarrow> (string \<Rightarrow> nat) \<Rightarrow> string \<Rightarrow> nat" where
  "inc l f = f(l := f l + 1)"

text \<open>The deferred function of the decorator: during a panic \<open>err\<close> is still nil, so it counts
  as a success.\<close>

definition observe :: "string \<Rightarrow> 'a outcome \<Rightarrow> op_metrics \<Rightarrow> op_metrics" where
  "observe l r m =
     (let m1 = m\<lparr>om_Latency := inc l (om_Latency m), om_Total := inc l (om_Total m)\<rparr> in
      case r of
        Fail e \<Rightarrow> m1\<lparr>om_Failed := inc l (om_Failed m)\<rparr>
      | _ \<Rightarrow> m1\<lparr>om_Successful := inc l (om_Successful m)\<rparr>)"

definition instrumented :: "string \<Rightarrow> ('w, 'a) go \<Rightarrow> ('w \<times> op_metrics, 'a) go" where
  "instrumented l m = (\<lambda>(w, om). case m w of (r, w') \<Rightarrow> (r, w', observe l r om))"

definition InstrumentingReconciler_Reconcile :: "'w Reconciler \<Rightarrow> ('w \<times> op_metrics) Reconciler" where
  "InstrumentingReconciler_Reconcile r kluster = instrumented ''Reconcile'' (r kluster)"

text \<open>\<open>LoggingReconciler\<close> writes one line per call; during a panic the named results are
  still zero.\<close>

record reconcile_log =
  rlog_kluster :: string
  rlog_project :: string
  rlog_requeue :: bool
  rlog_err :: "goerr option"

definition LoggingReconciler_Reconcile :: "'w Reconciler \<Rightarrow> ('w \<times> reconcile_log list) Reconciler" where
  "LoggingReconciler_Reconcile r kluster = (\<lambda>(w, lg). case r kluster w of (res, w') \<Rightarrow>
     (res, w', lg @ [\<lparr>rlog_kluster = spec_Name (k_Spec kluster), rlog_project = Account kluster,
                      rlog_requeue = (case res of Ok b \<Rightarrow> b | _ \<Rightarrow> False),
                      rlog_err = (case res of Fail e \<Rightarrow> Some e | _ \<Rightarrow> None)\<rparr>]))"

section \<open>The running controller\<close>

text \<open>\<open>Run\<close> starts \<open>n\<close> workers beside the informer, the ticker and the queue's own goroutine.
  A step is one operation on the queue, or the part of a worker's turn after \<open>Get\<close>.\<close>

record ('q, 'w) ctl =
  ctl_queue :: 'q
  ctl_world :: 'w
  ctl_workers :: "nat \<Rightarrow> string option"

inductive ctl_step ::
  "'q RateLimitingInterface \<Rightarrow> ('w \<Rightarrow> string \<Rightarrow> Kluster option) \<Rightarrow> 'w Reconciler \<Rightarrow> nat \<Rightarrow>
     ('q, 'w) ctl \<Rightarrow> ('q, 'w) ctl \<Rightarrow> bool"
  for ops GetByKey reconcile n
where
  step_event: "ctl_step ops GetByKey reconcile n s (s\<lparr>ctl_queue := rl_Add ops key (ctl_queue s)\<rparr>)"
| step_tick: "ctl_step ops GetByKey reconcile n s (s\<lparr>ctl_queue := rl_Tick ops t (ctl_queue s)\<rparr>)"
| step_world: "ctl_step ops GetByKey reconcile n s (s\<lparr>ctl_world := w\<rparr>)"
| step_stop: "ctl_step ops GetByKey reconcile n s (s\<lparr>ctl_queue := rl_ShutDown ops (ctl_queue s)\<rparr>)"
| step_get: "i < n \<Longrightarrow> ctl_workers s i = None \<Longrightarrow> rl_Get ops (ctl_queue s) = (Item key, q') \<Longrightarrow>
    ctl_step ops GetByKey reconcile n s
      (s\<lparr>ctl_queue := q', ctl_workers := (ctl_workers s)(i := Some key)\<rparr>)"
| step_work: "ctl_workers s i = Some key \<Longrightarrow>
    process_key ops reconcile (GetByKey (ctl_world s) key) key (ctl_queue s, ctl_world s) = (Ok b, q', w') \<Longrightarrow>
    ctl_step ops GetByKey reconcile n s
      (s\<lparr>ctl_queue := q', ctl_world := w', ctl_workers := (ctl_workers s)(i := None)\<rparr>)"

inductive ctl_reachable ::
  "'q RateLimitingInterface \<Rightarrow> ('w \<Rightarrow> string \<Rightarrow> Kluster option) \<Rightarrow> 'w Reconciler \<Rightarrow> nat \<Rightarrow>
     'q \<Rightarrow> ('q, 'w) ctl \<Rightarrow> bool"
  for ops GetByKey reconcile n q0
where
  reach_init: "ctl_reachable ops GetByKey reconcile n q0
     \<lparr>ctl_queue = q0, ctl_world = w, ctl_workers = (\<lambda>_. None)\<rparr>"
| reach_step: "ctl_reachable ops GetByKey reconcile n q0 s \<Longrightarrow> ctl_step ops GetByKey reconcile n s s' \<Longrightarrow>
    ctl_reachable ops GetByKey reconcile n q0 s'"

inductive_cases ctl_stepE: "ctl_step ops GetByKey reconcile n s s'"

section \<open>What every queue with these laws gives the controller\<close>

lemma ran_clear:
  assumes "f i = Some k" "\<forall>i j k. f i = Some k \<longrightarrow> f j = Some k \<longrightarrow> i = j"
  shows "ran (f(i := None)) = ran f - {k}"
proof
  show "ran (f(i := None)) \<subseteq> ran f - {k}" using assms by (auto simp: ran_def split: if_splits)
  show "ran f - {k} \<subseteq> ran (f(i := None))"
  proof
    fix x assume "x \<in> ran f - {k}"
    then obtain a where "f a = Some x" "x \<noteq> k" by (auto simp: ran_def)
    moreover from this have "a \<noteq> i" using assms(1) by auto
    ultimately have "f a = Some x" "a \<noteq> i" by auto
    then have "(f(i := None)) a = Some x" by simp
    then show "x \<in> ran (f(i := None))" by (rule ranI)
  qed
qed

context rate_limiting_queue
begin

lemmas queue_laws = Add_laws Done_laws AddAfter_laws AddRateLimited_laws Forget_laws
  ShutDown_laws closed_laws Tick_laws

lemma BASE_DELAY_pos [simp]: "0 < BASE_DELAY"
  by (simp add: BASE_DELAY_def)

lemma inv_settle: "inv q \<Longrightarrow> inv (settle_key ops key r q)"
  by (auto simp: settle_key_def inv_ops split: outcome.split)

lemma settle_frame:
  "inv q \<Longrightarrow> pending (settle_key ops key r q) = pending q"
  "busy (settle_key ops key r q) = busy q"
  "closed (settle_key ops key r q) = closed q"
  by (auto simp: settle_key_def queue_laws split: outcome.split)

lemma settle_retries:
  "(\<forall>x. rl_NumRequeues ops x q \<le> 5) \<Longrightarrow> rl_NumRequeues ops x (settle_key ops key r q) \<le> 5"
  by (auto simp: settle_key_def queue_laws split: outcome.split)

lemma settle_returns:
  "inv q \<Longrightarrow> \<not> closed q \<Longrightarrow> r = Ok True \<or> (\<exists>e. r = Fail e \<and> rl_NumRequeues ops key q < 5) \<Longrightarrow>
     key \<in> delayed (settle_key ops key r q)"
  by (auto simp: settle_key_def queue_laws split: outcome.split)

definition ctl_inv :: "nat \<Rightarrow> ('q, 'w) ctl \<Rightarrow> bool" where
  "ctl_inv n s \<longleftrightarrow> inv (ctl_queue s) \<and> (\<forall>x. rl_NumRequeues ops x (ctl_queue s) \<le> 5) \<and>
     busy (ctl_queue s) = ran (ctl_workers s) \<and>
     (\<forall>i j k. ctl_workers s i = Some k \<longrightarrow> ctl_workers s j = Some k \<longrightarrow> i = j) \<and>
     (\<forall>i k. ctl_workers s i = Some k \<longrightarrow> i < n)"

lemma process_key_eq:
  "process_key ops reconcile found key (q, w) = (Ok b, q', w') \<Longrightarrow>
     \<exists>r. q' = rl_Done ops key (settle_key ops key r q)"
  by (auto simp: process_key_def split: prod.splits option.splits)

lemma ctl_inv_step:
  assumes "ctl_step ops GetByKey reconcile n s s'" "ctl_inv n s"
  shows "ctl_inv n s'"
  using assms
proof (cases rule: ctl_step.cases)
  case (step_get i key q')
  note g = Get_Item [OF _ step_get(4)] and nr = Get_other(4) [of _ "ctl_queue s"]
  have q': "q' = snd (rl_Get ops (ctl_queue s))" by (simp add: step_get(4))
  have b: "busy q' = insert key (busy (ctl_queue s))" and nb: "key \<notin> busy (ctl_queue s)"
    using g assms(2) by (auto simp: ctl_inv_def)
  have "inv q'" "\<forall>x. rl_NumRequeues ops x q' \<le> 5"
    using assms(2) nr by (auto simp: ctl_inv_def q' inv_ops)
  moreover have "busy q' = ran ((ctl_workers s)(i := Some key))"
    using b assms(2) step_get(3) by (simp add: ctl_inv_def)
  ultimately show ?thesis
    using nb assms(2) step_get(1,2) by (auto simp: ctl_inv_def ran_def)
next
  case (step_work i key b q' w')
  obtain r where q': "q' = rl_Done ops key (settle_key ops key r (ctl_queue s))"
    using process_key_eq [OF step_work(3)] by blast
  have k: "key \<in> busy (ctl_queue s)" using assms(2) step_work(2) by (auto simp: ctl_inv_def ranI)
  have "inv q'" "\<forall>x. rl_NumRequeues ops x q' \<le> 5"
    using assms(2) k by (auto simp: ctl_inv_def q' inv_ops inv_settle settle_frame settle_retries Done_laws)
  moreover have "busy q' = ran ((ctl_workers s)(i := None))"
    using assms(2) step_work(2) ran_clear [of "ctl_workers s" i key]
    by (simp add: ctl_inv_def q' Done_laws settle_frame)
  ultimately show ?thesis
    using assms(2) step_work(1) by (auto simp: ctl_inv_def split: if_splits)
qed (auto simp: ctl_inv_def inv_ops queue_laws)

lemma reachable_inv:
  assumes "ctl_reachable ops GetByKey reconcile n q0 s"
    and "inv q0" "busy q0 = {}" "\<forall>x. rl_NumRequeues ops x q0 = 0"
  shows "ctl_inv n s"
  using assms(1)
proof (induction rule: ctl_reachable.induct)
  case (reach_init w)
  then show ?case using assms by (auto simp: ctl_inv_def)
next
  case (reach_step s s')
  then show ?case by (blast intro: ctl_inv_step)
qed

text \<open>A key that needs processing stays so until a worker takes it.\<close>

lemma pending_kept:
  assumes "ctl_step ops GetByKey reconcile n s s'" "ctl_inv n s" "k \<in> pending (ctl_queue s)"
  shows "k \<in> pending (ctl_queue s') \<or> (\<exists>i < n. ctl_workers s i = None \<and> ctl_workers s' i = Some k)"
  using assms
proof (cases rule: ctl_step.cases)
  case (step_get i key q')
  have "pending q' = pending (ctl_queue s) - {key}"
    using Get_Item [OF _ step_get(4)] assms(2) by (auto simp: ctl_inv_def)
  with step_get assms(3) show ?thesis by auto
next
  case (step_work i key b q' w')
  obtain r where "q' = rl_Done ops key (settle_key ops key r (ctl_queue s))"
    using process_key_eq [OF step_work(3)] by blast
  with step_work assms(2,3) show ?thesis by (auto simp: Done_laws settle_frame ctl_inv_def)
next
  case (step_tick t)
  with assms(3) Tick_laws(4) show ?thesis by auto
qed (auto simp: queue_laws)

text \<open>An idle worker gets a key whenever one is pending and not being processed.\<close>

lemma get_progress:
  assumes "inv q" "k \<in> pending q" "k \<notin> busy q"
  shows "\<exists>key q'. rl_Get ops q = (Item key, q')"
proof -
  have "fst (rl_Get ops q) \<noteq> Blocked" "fst (rl_Get ops q) \<noteq> Quit"
    using assms by (auto simp: Get_other)
  then show ?thesis by (cases "rl_Get ops q"; cases "fst (rl_Get ops q)") auto
qed

end

section \<open>The controller on its queue\<close>

lemma new_queue_inv: "wq_inv new_queue"
  by (simp add: new_queue_def BASE_DELAY_def MAX_DELAY_def)

lemma new_queue_empty: "wq_processing new_queue = {}" "rl_NumRequeues rateLimitingType x new_queue = 0"
  by (simp_all add: new_queue_def NewRateLimitingQueue_def rateLimitingType_def wq_NumRequeues_def)

lemma base_reachable_inv:
  "ctl_reachable rateLimitingType GetByKey reconcile n new_queue s \<Longrightarrow> wq.ctl_inv n s"
  by (erule wq.reachable_inv [OF _ new_queue_inv]) (simp_all add: new_queue_empty)

text \<open>C10: However the \<open>n\<close> workers of a controller interleave with events, ticks of the delay
  queue, changes of the world and the shutdown, no kluster is ever reconciled by two workers
  at a time, only the started workers hold keys, no key is retried more than five times in a
  row, and an update that arrives for a kluster (also while it is being reconciled) stays
  pending until a worker takes it.\<close>

theorem base_controller_safe:
  assumes "ctl_reachable rateLimitingType GetByKey reconcile n new_queue s"
  shows "(ctl_workers s i = Some k \<and> ctl_workers s j = Some k \<longrightarrow> i = j \<and> i < n) \<and>
    wq_NumRequeues k (ctl_queue s) \<le> 5 \<and>
    (\<not> wq_shuttingDown (ctl_queue s) \<longrightarrow> k \<in> wq_dirty (wq_Add k (ctl_queue s))) \<and>
    (k \<in> wq_dirty (ctl_queue s) \<and> ctl_step rateLimitingType GetByKey reconcile n s s' \<longrightarrow>
       k \<in> wq_dirty (ctl_queue s') \<or> (\<exists>i < n. ctl_workers s i = None \<and> ctl_workers s' i = Some k)) \<and>
    (k \<in> wq_dirty (ctl_queue s) \<and> (\<forall>i. ctl_workers s i \<noteq> Some k) \<longrightarrow>
       (\<exists>key q'. wq_Get (ctl_queue s) = (Item key, q')))"
proof -
  note i = base_reachable_inv [OF assms]
  have "rl_NumRequeues rateLimitingType k (ctl_queue s) \<le> 5" using i by (simp add: wq.ctl_inv_def)
  then have nr: "wq_NumRequeues k (ctl_queue s) \<le> 5" by (simp add: rateLimitingType_def)
  have "k \<in> wq_dirty (ctl_queue s) \<Longrightarrow> (\<forall>i. ctl_workers s i \<noteq> Some k) \<Longrightarrow>
      \<exists>key q'. wq_Get (ctl_queue s) = (Item key, q')"
    using wq.get_progress [of "ctl_queue s" k, unfolded rateLimitingType_def] i
    by (auto simp: wq.ctl_inv_def ran_def)
  with nr i wq.pending_kept [OF _ i] show ?thesis
    by (auto simp: wq.ctl_inv_def wq_Add_dirty)
qed

definition demo_ctl :: "(wq, unit) ctl" where
  "demo_ctl = \<lparr>ctl_queue = wq_Add ''demo'' new_queue, ctl_world = (), ctl_workers = (\<lambda>_. None)\<rparr>"

lemma demo_ctl_reachable: "ctl_reachable rateLimitingType (\<lambda>_ _. None) r 2 new_queue demo_ctl"
proof -
  let ?s = "\<lparr>ctl_queue = new_queue, ctl_world = (), ctl_workers = (\<lambda>_. None)\<rparr>"
  have "ctl_reachable rateLimitingType (\<lambda>_ _. None) r 2 new_queue
      (?s\<lparr>ctl_queue := rl_Add rateLimitingType ''demo'' (ctl_queue ?s)\<rparr>)"
    by (rule ctl_reachable.reach_step [OF ctl_reachable.reach_init ctl_step.step_event])
  then show ?thesis by (simp add: demo_ctl_def rateLimitingType_def)
qed

theorem base_controller_safe_witness:
  "wq_NumRequeues ''demo'' (ctl_queue demo_ctl) \<le> 5 \<and>
   (\<exists>key q'. wq_Get (ctl_queue demo_ctl) = (Item key, q'))"
proof -
  have "''demo'' \<in> wq_dirty (ctl_queue demo_ctl)" "\<forall>i. ctl_workers demo_ctl i \<noteq> Some ''demo''"
    by (simp_all add: demo_ctl_def new_queue_def NewRateLimitingQueue_def wq_Add_dirty)
  then show ?thesis using base_controller_safe [OF demo_ctl_reachable, of 0 "''demo''"] by blast
qed

section \<open>The retry schedule\<close>

lemma wq_insert_new: "x \<notin> fst ` set ws \<Longrightarrow> set (wq_insert x t ws) = insert (x, t) (set ws)"
  by (induction x t ws rule: wq_insert.induct) auto

lemma wq_Done_frame [simp]:
  "wq_waiting (wq_Done k q) = wq_waiting q" "wq_failures (wq_Done k q) = wq_failures q"
  "wq_processing (wq_Done k q) = wq_processing q - {k}" "wq_dirty (wq_Done k q) = wq_dirty q"
  by (simp_all add: wq_Done_def Let_def)

lemma backoff_below_max:
  assumes "wq_baseDelay q = BASE_DELAY" "wq_maxDelay q = MAX_DELAY" "wq_failures q k < 5"
  shows "fst (wq_When k q) = BASE_DELAY * 2 ^ wq_failures q k"
proof -
  have "(2 :: nat) ^ wq_failures q k \<le> 2 ^ 4" using assms(3) by (intro power_increasing) auto
  then have "BASE_DELAY * 2 ^ wq_failures q k \<le> BASE_DELAY * 16" by simp
  with assms show ?thesis by (simp add: wq_When_def Let_def BASE_DELAY_def MAX_DELAY_def)
qed

text \<open>C18: What a turn of the worker does with its key. A failed reconcile, or a key the
  informer does not know, is retried after 5 s, 10 s, 20 s, 40 s and 80 s (the cap of 300 s is
  never reached) and then dropped until the next event, with its history forgotten. A
  successful reconcile forgets the history, and one that asks for a requeue comes back after
  5 s. In every case the key is released.\<close>

theorem process_key_retries:
  assumes "wq_inv q" "\<not> wq_shuttingDown q" "k \<notin> fst ` set (wq_waiting q)"
    "wq_baseDelay q = BASE_DELAY" "wq_maxDelay q = MAX_DELAY"
    "(case found of None \<Rightarrow> (Fail ErrUnkownKluster, w) | Some kluster \<Rightarrow> reconcile kluster w) = (r, w')"
  shows "\<exists>q'. snd (process_key rateLimitingType reconcile found k (q, w)) = (q', w') \<and>
    k \<notin> wq_processing q' \<and> wq_dirty q' = wq_dirty q \<and>
    (case r of
       Fail e \<Rightarrow>
         if wq_failures q k < 5
         then wq_failures q' = (wq_failures q)(k := wq_failures q k + 1) \<and>
              set (wq_waiting q') = insert (k, wq_now q + 5 * 10 ^ 9 * 2 ^ wq_failures q k) (set (wq_waiting q))
         else wq_failures q' = (wq_failures q)(k := 0) \<and> wq_waiting q' = wq_waiting q
     | Ok requeue \<Rightarrow>
         if requeue
         then wq_failures q' = wq_failures q \<and>
              set (wq_waiting q') = insert (k, wq_now q + 5 * 10 ^ 9) (set (wq_waiting q))
         else wq_failures q' = (wq_failures q)(k := 0) \<and> wq_waiting q' = wq_waiting q
     | Panics s \<Rightarrow> wq_failures q' = wq_failures q \<and> wq_waiting q' = wq_waiting q)"
proof -
  have arl: "wq_failures q k < 5 \<Longrightarrow> wq_AddRateLimited k q =
      q\<lparr>wq_failures := (wq_failures q)(k := wq_failures q k + 1),
        wq_waiting := wq_insert k (wq_now q + BASE_DELAY * 2 ^ wq_failures q k) (wq_waiting q)\<rparr>"
    using assms by (simp add: wq_AddRateLimited_eq backoff_below_max Let_def)
  have bd: "BASE_DELAY = 5 * 10 ^ 9" by (simp add: BASE_DELAY_def)
  show ?thesis
    using assms(2,3,6) arl
    by (cases r)
      (auto simp: process_key_def settle_key_def rateLimitingType_def wq_NumRequeues_def
        wq_Forget_def wq_AddAfter_def wq_insert_new bd)
qed

theorem process_key_retries_witness:
  "\<exists>q'. snd (process_key rateLimitingType (\<lambda>_. fail (Errorf ''boom'')) None ''demo'' (new_queue, ())) = (q', ()) \<and>
     wq_failures q' ''demo'' = 1 \<and> set (wq_waiting q') = {(''demo'', 5000000000)}"
proof -
  have q: "wq_failures new_queue ''demo'' = 0" "wq_waiting new_queue = []" "wq_now new_queue = 0"
    "\<not> wq_shuttingDown new_queue" "wq_baseDelay new_queue = BASE_DELAY" "wq_maxDelay new_queue = MAX_DELAY"
    by (simp_all add: new_queue_def NewRateLimitingQueue_def)
  show ?thesis
    using process_key_retries [where q = new_queue and k = "''demo''" and found = None and w = "()"
        and reconcile = "\<lambda>_. fail (Errorf ''boom'')" and r = "Fail ErrUnkownKluster" and w' = "()"] q new_queue_inv
    by auto
qed

end
