(* ===== verification/Openstack.thy ===== *)
theory Openstack
  imports Models
begin

text \<open>
  The OpenStack client of the operator (\<open>src/pkg/client/openstack/client.go\<close>,
  \<open>compute/create_options.go\<close>, \<open>roles\<close>, \<open>domains\<close>). The HTTP services behind gophercloud are
  the operations of the record \<open>gophercloud\<close> over a world \<open>'w\<close>; a listing is the finite
  sequence of its pages, each the error of fetching it or its items, and \<open>EachPage\<close> is the
  vendored loop over them. The client's own state (its caches of clients, domain and role
  ids) is the record \<open>osc\<close>.
\<close>

section \<open>Pagers\<close>

type_synonym 'a pages = "(goerr + 'a list) list"

text \<open>The closure's captured variables are the threaded state \<open>st\<close>. An empty page ends the
  loop before the handler sees it.\<close>

fun EachPage :: "'a pages \<Rightarrow> ('a list \<Rightarrow> 's \<Rightarrow> ('w, bool \<times> 's) go) \<Rightarrow> 's \<Rightarrow> ('w, 's) go" where
  "EachPage [] handler st = ret st"
| "EachPage (Inl e # ps) handler st = fail e"
| "EachPage (Inr items # ps) handler st =
     (if items = [] then ret st
      else bnd (handler items st) (\<lambda>(ok, st'). if \<not> ok then ret st' else EachPage ps handler st'))"

section \<open>Data\<close>

record Project =
  pr_ID :: string
  pr_Name :: string
  pr_Domain :: string
  pr_DomainID :: string

record Subnet =
  sn_ID :: string
  sn_CIDR :: string

record Network =
  nw_ID :: string
  nw_Subnets :: "Subnet list"

record Router =
  rt_ID :: string
  rt_Networks :: "Network list"

record Node =
  nd_ID :: string
  nd_Name :: string
  nd_TaskState :: string
  nd_VMState :: string
  nd_PowerState :: int

definition starting_tasks :: "string list" where
  "starting_tasks = [''spawning'', ''scheduling'', ''networking'', ''block_device_mapping'']"

definition Starting :: "Node \<Rightarrow> bool" where
  "Starting n =
     (if nd_TaskState n \<in> set starting_tasks then True
      else if nd_TaskState n \<noteq> [] then False
      else if nd_VMState n = ''building'' then True
      else False)"

definition Stopping :: "Node \<Rightarrow> bool" where
  "Stopping n =
     (if nd_TaskState n \<in> set starting_tasks then False
      else if nd_TaskState n \<noteq> [] then True
      else False)"

definition Running :: "Node \<Rightarrow> bool" where
  "Running n =
     (if Starting n \<or> Stopping n then False
      else if nd_PowerState n > 1 then False
      else if nd_VMState n = ''active'' then True
      else False)"

record AuthOptions =
  ao_IdentityEndpoint :: string
  ao_Username :: string
  ao_Password :: string
  ao_DomainName :: string
  ao_ScopeProjectID :: string
  ao_ScopeProjectName :: string
  ao_ScopeDomainName :: string

record ServerCreateOpts =
  sc_Name :: string
  sc_FlavorName :: string
  sc_ImageName :: string
  sc_Networks :: "string list"
  sc_UserData :: string
  sc_SecurityGroups :: "string list"

record UserOpts =
  uo_Name :: string
  uo_DomainID :: string
  uo_Password :: string
  uo_DefaultProjectID :: string
  uo_Description :: string

record CatalogEndpoint =
  ce_Interface :: string
  ce_URL :: string

record CatalogEntry =
  ct_Type :: string
  ct_Endpoints :: "CatalogEndpoint list"

text \<open>The services: \<open>'p\<close> are provider clients, \<open>'s\<close> service clients.\<close>

record ('w, 'p, 's) gophercloud =
  gc_NewClient :: "string \<Rightarrow> ('w, 'p) go"
  gc_AuthenticateV3 :: "'p \<Rightarrow> AuthOptions \<Rightarrow> ('w, unit) go"
  gc_NewIdentityV3 :: "'p \<Rightarrow> ('w, 's) go"
  gc_NewNetworkV2 :: "'p \<Rightarrow> ('w, 's) go"
  gc_NewComputeV2 :: "'p \<Rightarrow> ('w, 's) go"
  gc_projects_Get :: "'s \<Rightarrow> string \<Rightarrow> ('w, string \<times> string) go"
  gc_domains_Get :: "'s \<Rightarrow> string \<Rightarrow> ('w, string) go"
  gc_domains_List :: "'s \<Rightarrow> string \<Rightarrow> 'w \<Rightarrow> string pages"
  gc_roles_List :: "'s \<Rightarrow> 'w \<Rightarrow> (string \<times> string) pages"
  gc_roles_AssignToUserInProject :: "'s \<Rightarrow> string \<Rightarrow> string \<Rightarrow> string \<Rightarrow> ('w, unit) go"
  gc_users_List :: "'s \<Rightarrow> string \<Rightarrow> string \<Rightarrow> 'w \<Rightarrow> string pages"
  gc_users_Create :: "'s \<Rightarrow> UserOpts \<Rightarrow> ('w, string) go"
  gc_users_Update :: "'s \<Rightarrow> string \<Rightarrow> UserOpts \<Rightarrow> ('w, string) go"
  gc_users_Delete :: "'s \<Rightarrow> string \<Rightarrow> ('w, unit) go"
  gc_routers_List :: "'s \<Rightarrow> string \<Rightarrow> 'w \<Rightarrow> string pages"
  gc_ports_List :: "'s \<Rightarrow> string \<Rightarrow> string \<Rightarrow> 'w \<Rightarrow> string pages"
  gc_networks_Get :: "'s \<Rightarrow> string \<Rightarrow> ('w, string \<times> string list) go"
  gc_subnets_Get :: "'s \<Rightarrow> string \<Rightarrow> ('w, string \<times> string) go"
  gc_securitygroups_List :: "'s \<Rightarrow> string \<Rightarrow> string \<Rightarrow> 'w \<Rightarrow> string pages"
  gc_servers_List :: "'s \<Rightarrow> string \<Rightarrow> 'w \<Rightarrow> Node pages"
  gc_servers_Create :: "'s \<Rightarrow> ServerCreateOpts \<Rightarrow> ('w, string) go"
  gc_servers_Delete :: "'s \<Rightarrow> string \<Rightarrow> ('w, unit) go"
  gc_services_List :: "'s \<Rightarrow> string \<Rightarrow> 'w \<Rightarrow> string pages"
  gc_endpoints_List :: "'s \<Rightarrow> string \<Rightarrow> string \<Rightarrow> 'w \<Rightarrow> string pages"
  gc_tokens_Catalog :: "'s \<Rightarrow> 'p \<Rightarrow> ('w, CatalogEntry list) go"
  gc_secrets_Get :: "string \<Rightarrow> ('w, (string \<times> string) list) go"
  gc_random :: "nat \<Rightarrow> ('w, string) go"

record 'p osc =
  osc_klusterClients :: "string \<rightharpoonup> 'p"
  osc_adminProviderClient :: "'p option"
  osc_domainNameToID :: "string \<rightharpoonup> string"
  osc_roleNameToID :: "string \<rightharpoonup> string"

record osc_config =
  cf_authURL :: string
  cf_authUsername :: string
  cf_authPassword :: string
  cf_authDomain :: string
  cf_authProject :: string
  cf_authProjectDomain :: string

definition listing :: "('w \<Rightarrow> 'a pages) \<Rightarrow> ('w \<times> 'c, 'a pages) go" where
  "listing f = gets (\<lambda>(w, c). f w)"

section \<open>Clients\<close>

text \<open>The informer's delete handler drops the cached client; a tombstone is not a kluster and
  is ignored.\<close>

definition forget_kluster :: "Kluster option \<Rightarrow> 'p osc \<Rightarrow> 'p osc" where
  "forget_kluster obj c =
     (case obj of
        Some kluster \<Rightarrow> c\<lparr>osc_klusterClients := (osc_klusterClients c)(k_UID kluster := None)\<rparr>
      | None \<Rightarrow> c)"

definition adminClient :: "osc_config \<Rightarrow> ('w, 'p, 's) gophercloud \<Rightarrow> ('w \<times> 'p osc, 'p) go" where
  "adminClient cf gc =
     bnd (client_get osc_adminProviderClient) (\<lambda>cached.
       case cached of
         Some p \<Rightarrow> ret p
       | None \<Rightarrow>
           bnd (svc (gc_NewClient gc (cf_authURL cf))) (\<lambda>provider.
           bnd (svc (gc_AuthenticateV3 gc provider
                  \<lparr>ao_IdentityEndpoint = cf_authURL cf, ao_Username = cf_authUsername cf,
                   ao_Password = cf_authPassword cf, ao_DomainName = cf_authDomain cf,
                   ao_ScopeProjectID = [], ao_ScopeProjectName = cf_authProject cf,
                   ao_ScopeDomainName = cf_authProjectDomain cf\<rparr>)) (\<lambda>_.
           bnd (client_set (\<lambda>c. c\<lparr>osc_adminProviderClient := Some provider\<rparr>)) (\<lambda>_.
           ret provider))))"

definition secret_data :: "(string \<times> string) list \<Rightarrow> string \<Rightarrow> string" where
  "secret_data d k = label_of d k"

definition klusterClientFor :: "('w, 'p, 's) gophercloud \<Rightarrow> Kluster \<Rightarrow> ('w \<times> 'p osc, 'p) go" where
  "klusterClientFor gc kluster =
     bnd (client_get (\<lambda>c. osc_klusterClients c (k_UID kluster))) (\<lambda>found.
       case found of
         Some p \<Rightarrow> ret p
       | None \<Rightarrow>
           tryc (svc (gc_secrets_Get gc (k_Name kluster)))
             (\<lambda>err. fail (Errorf (''Couldn't retrieve secret '' @ k_Namespace kluster @ ''/''
                                   @ k_Name kluster @ '': '' @ Error err)))
             (\<lambda>secret.
           bnd (svc (gc_NewClient gc (secret_data secret ''openstack-auth-url''))) (\<lambda>provider.
           bnd (svc (gc_AuthenticateV3 gc provider
                  \<lparr>ao_IdentityEndpoint = secret_data secret ''openstack-auth-url'',
                   ao_Username = secret_data secret ''openstack-username'',
                   ao_Password = secret_data secret ''openstack-password'',
                   ao_DomainName = secret_data secret ''openstack-domain-name'',
                   ao_ScopeProjectID = secret_data secret ''openstack-project-id'',
                   ao_ScopeProjectName = [], ao_ScopeDomainName = []\<rparr>)) (\<lambda>_.
           bnd (client_set (\<lambda>c. c\<lparr>osc_klusterClients := (osc_klusterClients c)(k_UID kluster \<mapsto> provider)\<rparr>)) (\<lambda>_.
           ret provider)))))"

section \<open>Identity\<close>

definition GetProject :: "osc_config \<Rightarrow> ('w, 'p, 's) gophercloud \<Rightarrow> string \<Rightarrow> ('w \<times> 'p osc, Project) go" where
  "GetProject cf gc pid =
     bnd (adminClient cf gc) (\<lambda>provider.
     bnd (svc (gc_NewIdentityV3 gc provider)) (\<lambda>identity.
     bnd (svc (gc_projects_Get gc identity pid)) (\<lambda>(name, domainID).
     bnd (svc (gc_domains_Get gc identity domainID)) (\<lambda>domain.
     ret \<lparr>pr_ID = pid, pr_Name = name, pr_Domain = domain, pr_DomainID = domainID\<rparr>))))"

definition getRoleID :: "('w, 'p, 's) gophercloud \<Rightarrow> 's \<Rightarrow> string \<Rightarrow> ('w \<times> 'p osc, string) go" where
  "getRoleID gc client roleName =
     bnd (client_get (\<lambda>c. osc_roleNameToID c roleName)) (\<lambda>cached.
       case cached of
         Some i \<Rightarrow> ret i
       | None \<Rightarrow>
           bnd (listing (gc_roles_List gc client)) (\<lambda>pages.
           bnd (EachPage pages (\<lambda>roles st.
                  bnd (client_set (\<lambda>c. c\<lparr>osc_roleNameToID := osc_roleNameToID c ++ map_of (rev roles)\<rparr>)) (\<lambda>_.
                  ret (True, st))) ()) (\<lambda>_.
           bnd (client_get (\<lambda>c. osc_roleNameToID c roleName)) (\<lambda>loaded.
             case loaded of
               Some i \<Rightarrow> ret i
             | None \<Rightarrow> fail (Errorf (''Role '' @ roleName @ '' not found''))))))"

definition getUserByName ::
  "('w, 'p, 's) gophercloud \<Rightarrow> 's \<Rightarrow> string \<Rightarrow> string \<Rightarrow> ('w \<times> 'p osc, string option) go" where
  "getUserByName gc client username domainID =
     bnd (listing (gc_users_List gc client domainID username)) (\<lambda>pages.
       EachPage pages (\<lambda>users user.
         case users of
           [] \<Rightarrow> ret (False, user)
         | [u] \<Rightarrow> ret (False, Some u)
         | _ \<Rightarrow> fail (Errorf ''More then one user found'')) None)"

text \<open>The error of \<open>EachPage\<close> is dropped; the type assertion \<open>id.(string)\<close> on a missing entry
  panics. The service client is made from the cached admin client, not from the argument.\<close>

definition getDomainID :: "('w, 'p, 's) gophercloud \<Rightarrow> 's \<Rightarrow> string \<Rightarrow> ('w \<times> 'p osc, string) go" where
  "getDomainID gc client domainName =
     bnd (client_get (\<lambda>c. osc_domainNameToID c domainName)) (\<lambda>cached.
       case cached of
         Some i \<Rightarrow> ret i
       | None \<Rightarrow>
           bnd (client_get osc_adminProviderClient) (\<lambda>admin.
             case admin of
               None \<Rightarrow> panic ''nil provider client''
             | Some provider \<Rightarrow>
                 bnd (svc (gc_NewIdentityV3 gc provider)) (\<lambda>identity.
                 bnd (listing (gc_domains_List gc identity domainName)) (\<lambda>pages.
                 bnd (ignore_err (EachPage pages (\<lambda>domains st.
                        case domains of
                          [] \<Rightarrow> fail (Errorf (''Domain '' @ domainName @ '' not found''))
                        | [d] \<Rightarrow>
                            bnd (client_set (\<lambda>c. c\<lparr>osc_domainNameToID := (osc_domainNameToID c)(domainName \<mapsto> d)\<rparr>)) (\<lambda>_.
                            ret (False, st))
                        | _ \<Rightarrow> fail (Errorf ''More then one domain found'')) ())) (\<lambda>_.
                 bnd (client_get (\<lambda>c. osc_domainNameToID c domainName)) (\<lambda>loaded.
                   case loaded of
                     Some i \<Rightarrow> ret i
                   | None \<Rightarrow> panic ''interface conversion: interface {} is nil, not string''))))))"

definition serviceUserRoles :: "string list" where
  "serviceUserRoles = [''network_admin'', ''member'']"

definition service_user_description :: string where
  "service_user_description = ''Kubernikus kluster service user''"

definition CreateKlusterServiceUser ::
  "osc_config \<Rightarrow> ('w, 'p, 's) gophercloud \<Rightarrow> string \<Rightarrow> string \<Rightarrow> string \<Rightarrow> string \<Rightarrow> ('w \<times> 'p osc, unit) go" where
  "CreateKlusterServiceUser cf gc username password domain projectID =
     bnd (adminClient cf gc) (\<lambda>provider.
     bnd (svc (gc_NewIdentityV3 gc provider)) (\<lambda>identity.
     bnd (getDomainID gc identity domain) (\<lambda>domainID.
     bnd (getUserByName gc identity username domainID) (\<lambda>user.
     bnd (case user of
            Some u \<Rightarrow> svc (gc_users_Update gc identity u
              \<lparr>uo_Name = [], uo_DomainID = [], uo_Password = password, uo_DefaultProjectID = projectID,
               uo_Description = service_user_description\<rparr>)
          | None \<Rightarrow> svc (gc_users_Create gc identity
              \<lparr>uo_Name = username, uo_DomainID = domainID, uo_Password = password,
               uo_DefaultProjectID = projectID, uo_Description = service_user_description\<rparr>)) (\<lambda>uid.
     for_each serviceUserRoles (\<lambda>roleName.
       bnd (getRoleID gc identity roleName) (\<lambda>roleID.
       svc (gc_roles_AssignToUserInProject gc identity projectID uid roleID))))))))"

definition DeleteUser ::
  "osc_config \<Rightarrow> ('w, 'p, 's) gophercloud \<Rightarrow> string \<Rightarrow> string \<Rightarrow> ('w \<times> 'p osc, unit) go" where
  "DeleteUser cf gc username domainName =
     bnd (adminClient cf gc) (\<lambda>provider.
     bnd (svc (gc_NewIdentityV3 gc provider)) (\<lambda>identity.
     bnd (getDomainID gc identity domainName) (\<lambda>domainID.
     bnd (listing (gc_users_List gc identity domainID username)) (\<lambda>pages.
       EachPage pages (\<lambda>userList st.
         case userList of
           [] \<Rightarrow> ret (False, st)
         | [u] \<Rightarrow> bnd (svc (gc_users_Delete gc identity u)) (\<lambda>_. ret (False, st))
         | _ \<Rightarrow> fail (Errorf ''Multiple users found'')) ()))))"

section \<open>Regions and the catalogue\<close>

text \<open>\<open>serviceList[0]\<close> and \<open>endpoints[0]\<close> of an empty list would panic.\<close>

definition keep_first :: "string list \<Rightarrow> string \<Rightarrow> ('w, bool \<times> string) go" where
  "keep_first items cur =
     (if cur = [] then (case items of [] \<Rightarrow> panic ''index out of range'' | x # _ \<Rightarrow> ret (True, x))
      else ret (True, cur))"

definition GetRegion :: "osc_config \<Rightarrow> ('w, 'p, 's) gophercloud \<Rightarrow> ('w \<times> 'p osc, string) go" where
  "GetRegion cf gc =
     bnd (adminClient cf gc) (\<lambda>provider.
     bnd (svc (gc_NewIdentityV3 gc provider)) (\<lambda>identity.
     bnd (listing (gc_services_List gc identity ''compute'')) (\<lambda>pages.
     bnd (EachPage pages keep_first []) (\<lambda>computeServiceID.
     if computeServiceID = [] then fail (Errorf ''Couldn't find a compute service. Bailing out.'')
     else
       bnd (listing (gc_endpoints_List gc identity ''public'' computeServiceID)) (\<lambda>pages2.
       bnd (EachPage pages2 keep_first []) (\<lambda>region.
       if region = [] then fail (Errorf ''Couldn't find the region. Bailing out.'')
       else ret region))))))"

text \<open>The first public endpoint of a kubernikus service; \<open>("", nil)\<close> without one.\<close>

definition first_public :: "CatalogEndpoint list \<Rightarrow> string option" where
  "first_public es = map_option ce_URL (List.find (\<lambda>e. ce_Interface e = ''public'') es)"

fun find_kubernikus :: "CatalogEntry list \<Rightarrow> string" where
  "find_kubernikus [] = []"
| "find_kubernikus (s # ss) =
     (if ct_Type s = ''kubernikus''
      then (case first_public (ct_Endpoints s) of Some url \<Rightarrow> url | None \<Rightarrow> find_kubernikus ss)
      else find_kubernikus ss)"

definition GetKubernikusCatalogEntry ::
  "osc_config \<Rightarrow> ('w, 'p, 's) gophercloud \<Rightarrow> ('w \<times> 'p osc, string) go" where
  "GetKubernikusCatalogEntry cf gc =
     bnd (adminClient cf gc) (\<lambda>provider.
     bnd (svc (gc_NewIdentityV3 gc provider)) (\<lambda>identity.
     bnd (svc (gc_tokens_Catalog gc identity provider)) (\<lambda>entries.
     ret (find_kubernikus entries))))"

section \<open>Networking\<close>

definition getRouterNetworks ::
  "('w, 'p, 's) gophercloud \<Rightarrow> 's \<Rightarrow> string \<Rightarrow> ('w \<times> 'p osc, string list) go" where
  "getRouterNetworks gc client routerID =
     bnd (listing (gc_ports_List gc client routerID ''network:router_interface'')) (\<lambda>pages.
       EachPage pages (\<lambda>portList networks. ret (True, networks @ portList)) [])"

definition network_for ::
  "('w, 'p, 's) gophercloud \<Rightarrow> 's \<Rightarrow> string \<Rightarrow> ('w \<times> 'p osc, Network) go" where
  "network_for gc client networkID =
     bnd (svc (gc_networks_Get gc client networkID)) (\<lambda>(nid, subnetIDs).
     bnd (map_go (\<lambda>subnetID.
            bnd (svc (gc_subnets_Get gc client subnetID)) (\<lambda>(sid, cidr).
            ret \<lparr>sn_ID = sid, sn_CIDR = cidr\<rparr>)) subnetIDs) (\<lambda>subnets.
     ret \<lparr>nw_ID = nid, nw_Subnets = subnets\<rparr>))"

definition router_for ::
  "('w, 'p, 's) gophercloud \<Rightarrow> 's \<Rightarrow> string \<Rightarrow> ('w \<times> 'p osc, Router) go" where
  "router_for gc client routerID =
     bnd (getRouterNetworks gc client routerID) (\<lambda>networkIDs.
     bnd (map_go (network_for gc client) networkIDs) (\<lambda>networks.
     ret \<lparr>rt_ID = routerID, rt_Networks = networks\<rparr>))"

definition GetRouters ::
  "osc_config \<Rightarrow> ('w, 'p, 's) gophercloud \<Rightarrow> string \<Rightarrow> ('w \<times> 'p osc, Router list) go" where
  "GetRouters cf gc project_id =
     bnd (adminClient cf gc) (\<lambda>provider.
     bnd (svc (gc_NewNetworkV2 gc provider)) (\<lambda>networkClient.
     bnd (listing (gc_routers_List gc networkClient project_id)) (\<lambda>pages.
       EachPage pages (\<lambda>routers result.
         bnd (map_go (router_for gc networkClient) routers) (\<lambda>rs. ret (True, result @ rs))) [])))"

definition GetSecurityGroupID ::
  "osc_config \<Rightarrow> ('w, 'p, 's) gophercloud \<Rightarrow> string \<Rightarrow> string \<Rightarrow> ('w \<times> 'p osc, string) go" where
  "GetSecurityGroupID cf gc project_id name =
     bnd (adminClient cf gc) (\<lambda>provider.
     bnd (svc (gc_NewNetworkV2 gc provider)) (\<lambda>networkClient.
     bnd (listing (gc_securitygroups_List gc networkClient name project_id)) (\<lambda>pages.
       EachPage pages (\<lambda>groups group.
         case groups of
           [] \<Rightarrow> fail (Errorf ''Security group not found'')
         | [g] \<Rightarrow> ret (False, g)
         | _ \<Rightarrow> fail (Errorf ''Multiple security groups with the same name found'')) [])))"

section \<open>Servers\<close>

text \<open>\<open>fmt.Sprintf("%v-%v-", kluster.Spec.Name, pool.Name)\<close>\<close>

definition node_prefix :: "Kluster \<Rightarrow> NodePool \<Rightarrow> string" where
  "node_prefix kluster pool = spec_Name (k_Spec kluster) @ ''-'' @ np_Name pool @ ''-''"

text \<open>\<open>SimpleNameGenerator.GenerateName\<close>: at most 58 bytes of the base, five random characters.\<close>

definition GenerateName :: "(nat \<Rightarrow> ('w, string) go) \<Rightarrow> string \<Rightarrow> ('w, string) go" where
  "GenerateName random base =
     bnd (random 5) (\<lambda>suffix. ret ((if length base > 58 then take 58 base else base) @ suffix))"

text \<open>Every page replaces the nodes of the page before.\<close>

definition GetNodes ::
  "('w, 'p, 's) gophercloud \<Rightarrow> Kluster \<Rightarrow> NodePool \<Rightarrow> ('w \<times> 'p osc, Node list) go" where
  "GetNodes gc kluster pool =
     bnd (klusterClientFor gc kluster) (\<lambda>provider.
     bnd (svc (gc_NewComputeV2 gc provider)) (\<lambda>client.
     bnd (listing (gc_servers_List gc client (node_prefix kluster pool))) (\<lambda>pages.
       EachPage pages (\<lambda>page nodes. ret (True, page)) [])))"

definition CreateNode ::
  "('w, 'p, 's) gophercloud \<Rightarrow> Kluster \<Rightarrow> NodePool \<Rightarrow> string \<Rightarrow> ('w \<times> 'p osc, string) go" where
  "CreateNode gc kluster pool userData =
     bnd (svc (GenerateName (gc_random gc) (node_prefix kluster pool))) (\<lambda>_.
     bnd (klusterClientFor gc kluster) (\<lambda>provider.
     bnd (svc (gc_NewComputeV2 gc provider)) (\<lambda>client.
     bnd (svc (GenerateName (gc_random gc) (node_prefix kluster pool))) (\<lambda>name.
     svc (gc_servers_Create gc client
       \<lparr>sc_Name = name, sc_FlavorName = np_Flavor pool, sc_ImageName = np_Image pool,
        sc_Networks = [os_NetworkID (spec_Openstack (k_Spec kluster))], sc_UserData = userData,
        sc_SecurityGroups = [os_SecurityGroupID (spec_Openstack (k_Spec kluster))]\<rparr>)))))"

definition DeleteNode ::
  "('w, 'p, 's) gophercloud \<Rightarrow> Kluster \<Rightarrow> string \<Rightarrow> ('w \<times> 'p osc, unit) go" where
  "DeleteNode gc kluster i =
     bnd (klusterClientFor gc kluster) (\<lambda>provider.
     bnd (svc (gc_NewComputeV2 gc provider)) (\<lambda>client.
     svc (gc_servers_Delete gc client i)))"

section \<open>The interface the controllers see\<close>

record 'w OpenstackClient =
  oc_CreateNode :: "Kluster \<Rightarrow> NodePool \<Rightarrow> string \<Rightarrow> ('w, string) go"
  oc_DeleteNode :: "Kluster \<Rightarrow> string \<Rightarrow> ('w, unit) go"
  oc_GetNodes :: "Kluster \<Rightarrow> NodePool \<Rightarrow> ('w, Node list) go"
  oc_GetProject :: "string \<Rightarrow> ('w, Project) go"
  oc_GetRegion :: "('w, string) go"
  oc_GetRouters :: "string \<Rightarrow> ('w, Router list) go"
  oc_DeleteUser :: "string \<Rightarrow> string \<Rightarrow> ('w, unit) go"
  oc_CreateKlusterServiceUser :: "string \<Rightarrow> string \<Rightarrow> string \<Rightarrow> string \<Rightarrow> ('w, unit) go"
  oc_GetKubernikusCatalogEntry :: "('w, string) go"
  oc_GetSecurityGroupID :: "string \<Rightarrow> string \<Rightarrow> ('w, string) go"

definition NewClient :: "osc_config \<Rightarrow> ('w, 'p, 's) gophercloud \<Rightarrow> ('w \<times> 'p osc) OpenstackClient" where
  "NewClient cf gc =
     \<lparr>oc_CreateNode = CreateNode gc, oc_DeleteNode = DeleteNode gc, oc_GetNodes = GetNodes gc,
      oc_GetProject = GetProject cf gc, oc_GetRegion = GetRegion cf gc, oc_GetRouters = GetRouters cf gc,
      oc_DeleteUser = DeleteUser cf gc, oc_CreateKlusterServiceUser = CreateKlusterServiceUser cf gc,
      oc_GetKubernikusCatalogEntry = GetKubernikusCatalogEntry cf gc,
      oc_GetSecurityGroupID = GetSecurityGroupID cf gc\<rparr>"

section \<open>The request body of a new server\<close>

text \<open>A JSON value, as far as \<open>compute.CreateOpts\<close> looks at it. The base options' map is the
  argument \<open>data\<close>, an association list.\<close>

datatype json = JString string | JList "json list" | JObject "(string \<times> json) list" | JOther

definition put_field :: "string \<Rightarrow> json \<Rightarrow> (string \<times> json) list \<Rightarrow> (string \<times> json) list" where
  "put_field k v o1 = (k, v) # filter (\<lambda>(x, _). x \<noteq> k) o1"

definition ToServerCreateMap ::
  "(string \<times> json) list outcome \<Rightarrow> string list \<Rightarrow> (string \<times> json) list outcome" where
  "ToServerCreateMap base securityGroups =
     obind base (\<lambda>data.
       case map_of data ''server'' of
         None \<Rightarrow> Fail (Errorf ''Expected field `server` not found'')
       | Some (JObject serverData) \<Rightarrow>
           Ok (put_field ''server''
                (JObject (put_field ''security_groups''
                   (JList (map (\<lambda>g. JObject [(''id'', JString g)]) securityGroups)) serverData)) data)
       | Some _ \<Rightarrow> Fail (Errorf ''Field `server` not of expected type''))"

section \<open>Laws\<close>

lemma node_states_exclusive:
  "\<not> (Starting n \<and> Stopping n)" "\<not> (Starting n \<and> Running n)" "\<not> (Stopping n \<and> Running n)"
  by (auto simp: Starting_def Stopping_def Running_def)

lemma listing_apply [simp]: "listing f (w, c) = (Ok (f w), w, c)"
  by (simp add: listing_def)

lemma EachPage_empty_handler:
  "(\<And>items st. items \<noteq> [] \<Longrightarrow> h items st = h' items st) \<Longrightarrow> EachPage ps h st = EachPage ps h' st"
proof (induction ps h st rule: EachPage.induct)
  case (3 items ps handler st)
  show ?case
  proof (cases "items = []")
    case False
    with 3 have "\<And>ok st'. ok \<Longrightarrow> EachPage ps handler st' = EachPage ps h' st'" by blast
    with False 3(2) [of items st] show ?thesis
      by (auto simp: fun_eq_iff bnd_def split: prod.splits outcome.splits)
  qed simp
qed simp_all

end
