(* ===== verification/Clients.thy ===== *)
theory Clients
  imports Openstack
begin

text \<open>
  The clients the controllers and the API handlers share (\<open>src/pkg/controller/config\<close>): the
  OpenStack client, the typed client of the custom resource, the secrets and pods of the
  control plane, and helm. All but the OpenStack client talk to services that are not part
  of the repository: they are operations over the world \<open>'w\<close>. A secret is its data, an
  association list.
\<close>

type_synonym secret = "(string \<times> string) list"

record 'w KlusterClient =
  kc_Get :: "string \<Rightarrow> string \<Rightarrow> ('w, Kluster) go"
  kc_List :: "string \<Rightarrow> string \<Rightarrow> ('w, Kluster list) go"
  kc_Create :: "string \<Rightarrow> Kluster \<Rightarrow> ('w, Kluster) go"
  kc_Update :: "string \<Rightarrow> Kluster \<Rightarrow> ('w, Kluster) go"
  kc_Delete :: "string \<Rightarrow> string \<Rightarrow> ('w, unit) go"

record 'w Clients =
  cl_Openstack :: "'w OpenstackClient"
  cl_Klusters :: "'w KlusterClient"
  cl_GetSecret :: "string \<Rightarrow> string \<Rightarrow> ('w, secret) go"
  cl_helm_Install :: "string \<Rightarrow> string \<Rightarrow> string \<Rightarrow> string \<Rightarrow> ('w, unit) go"
  cl_helm_Delete :: "string \<Rightarrow> ('w, unit) go"

text \<open>Events go to a recorder; an event is its type, its reason and its message.\<close>

record event =
  ev_object :: string
  ev_type :: string
  ev_reason :: string
  ev_message :: string

end
