(* ===== verification/Launch.thy ===== *)
theory Launch
  imports Clients BaseController
begin

text \<open>
  The launch controller (\<open>src/pkg/controller/launch\<close>): it keeps the number of OpenStack servers
  of every node pool at the size of the pool. The interface \<open>PoolManager\<close> is a record of
  operations; the concrete manager and its three decorators (events, log lines, metrics)
  provide it, each decorator over the world of the one it wraps. \<open>templates.Ignition.GenerateNode\<close>
  is a parameter of the concrete manager.
\<close>

section \<open>The interface\<close>

record PoolStatus =
  ps_Nodes :: "string list"
  ps_Running :: int
  ps_Starting :: int
  ps_Stopping :: int
  ps_Needed :: int
  ps_UnNeeded :: int

record 'w PoolManager =
  pm_GetStatus :: "('w, PoolStatus) go"
  pm_SetStatus :: "PoolStatus \<Rightarrow> ('w, unit) go"
  pm_CreateNode :: "('w, string) go"
  pm_DeleteNode :: "string \<Rightarrow> ('w, unit) go"

section \<open>The concrete manager\<close>

definition nodeIDs :: "Node list \<Rightarrow> string list" where
  "nodeIDs nodes = map nd_ID nodes"

definition starting :: "Node list \<Rightarrow> int" where
  "starting nodes = int (length (filter Starting nodes))"

definition stopping :: "Node list \<Rightarrow> int" where
  "stopping nodes = int (length (filter Stopping nodes))"

definition running :: "Node list \<Rightarrow> int" where
  "running nodes = int (length (filter Running nodes))"

definition needed :: "NodePool \<Rightarrow> Node list \<Rightarrow> int" where
  "needed pool nodes = (let n = np_Size pool - running nodes - starting nodes in if n < 0 then 0 else n)"

definition unNeeded :: "NodePool \<Rightarrow> Node list \<Rightarrow> int" where
  "unNeeded pool nodes = (let n = running nodes + starting nodes - np_Size pool in if n < 0 then 0 else n)"

definition ConcretePoolManager_GetStatus ::
  "'w Clients \<Rightarrow> Kluster \<Rightarrow> NodePool \<Rightarrow> ('w, PoolStatus) go" where
  "ConcretePoolManager_GetStatus cl kluster pool =
     bnd (oc_GetNodes (cl_Openstack cl) kluster pool) (\<lambda>nodes.
     ret \<lparr>ps_Nodes = nodeIDs nodes, ps_Running = running nodes, ps_Starting = starting nodes,
          ps_Stopping = stopping nodes, ps_Needed = needed pool nodes,
          ps_UnNeeded = unNeeded pool nodes\<rparr>)"

text \<open>The loop over \<open>copy.Status.NodePools\<close>: \<open>None\<close> when nothing is to be written.\<close>

fun replace_info :: "NodePoolInfo \<Rightarrow> NodePoolInfo list \<Rightarrow> NodePoolInfo list option" where
  "replace_info newInfo [] = None"
| "replace_info newInfo (curInfo # infos) =
     (if npi_Name curInfo = npi_Name newInfo
      then (if curInfo = newInfo then None else Some (newInfo # infos))
      else map_option ((#) curInfo) (replace_info newInfo infos))"

definition info_for :: "NodePool \<Rightarrow> PoolStatus \<Rightarrow> NodePoolInfo" where
  "info_for pool status =
     \<lparr>npi_Healthy = ps_Running status, npi_Name = np_Name pool,
      npi_Running = ps_Running status + ps_Starting status,
      npi_Schedulable = ps_Running status, npi_Size = np_Size pool\<rparr>"

definition ConcretePoolManager_SetStatus ::
  "'w Clients \<Rightarrow> Kluster \<Rightarrow> NodePool \<Rightarrow> PoolStatus \<Rightarrow> ('w, unit) go" where
  "ConcretePoolManager_SetStatus cl kluster pool status =
     bnd (kc_Get (cl_Klusters cl) (k_Namespace kluster) (k_Name kluster)) (\<lambda>copy.
       case replace_info (info_for pool status) (st_NodePools (k_Status copy)) of
         None \<Rightarrow> ret ()
       | Some infos \<Rightarrow>
           bnd (kc_Update (cl_Klusters cl) (k_Namespace copy)
                  (copy\<lparr>k_Status := (k_Status copy)\<lparr>st_NodePools := infos\<rparr>\<rparr>)) (\<lambda>_. ret ()))"

definition ConcretePoolManager_CreateNode ::
  "'w Clients \<Rightarrow> (Kluster \<Rightarrow> secret \<Rightarrow> string outcome) \<Rightarrow> Kluster \<Rightarrow> NodePool \<Rightarrow> ('w, string) go" where
  "ConcretePoolManager_CreateNode cl GenerateNode kluster pool =
     bnd (cl_GetSecret cl (k_Namespace kluster) (k_Name kluster)) (\<lambda>secret.
     bnd (lift_outcome (GenerateNode kluster secret)) (\<lambda>userdata.
     oc_CreateNode (cl_Openstack cl) kluster pool userdata))"

definition ConcretePoolManager_DeleteNode :: "'w Clients \<Rightarrow> Kluster \<Rightarrow> string \<Rightarrow> ('w, unit) go" where
  "ConcretePoolManager_DeleteNode cl kluster i = oc_DeleteNode (cl_Openstack cl) kluster i"

definition ConcretePoolManager ::
  "'w Clients \<Rightarrow> (Kluster \<Rightarrow> secret \<Rightarrow> string outcome) \<Rightarrow> Kluster \<Rightarrow> NodePool \<Rightarrow> 'w PoolManager" where
  "ConcretePoolManager cl GenerateNode kluster pool =
     \<lparr>pm_GetStatus = ConcretePoolManager_GetStatus cl kluster pool,
      pm_SetStatus = ConcretePoolManager_SetStatus cl kluster pool,
      pm_CreateNode = ConcretePoolManager_CreateNode cl GenerateNode kluster pool,
      pm_DeleteNode = ConcretePoolManager_DeleteNode cl kluster\<rparr>"

section \<open>Decorators\<close>

definition record_event :: "event \<Rightarrow> event list \<Rightarrow> event list" where
  "record_event e es = es @ [e]"

text \<open>\<open>EventingPoolManager\<close>: one event per node created or deleted, or failed to be.\<close>

definition eventing ::
  "string \<Rightarrow> (('a \<Rightarrow> string \<times> string) \<times> string \<times> string) \<Rightarrow> ('w, 'a) go \<Rightarrow> ('w \<times> event list, 'a) go" where
  "eventing obj msgs m = (\<lambda>(w, es). case m w of (r, w') \<Rightarrow>
     (r, w', case r of
        Ok x \<Rightarrow> record_event \<lparr>ev_object = obj, ev_type = ''Normal'', ev_reason = fst (fst msgs x),
                              ev_message = snd (fst msgs x)\<rparr> es
      | Fail e \<Rightarrow> record_event \<lparr>ev_object = obj, ev_type = ''Warning'', ev_reason = fst (snd msgs),
                              ev_message = snd (snd msgs) @ Error e\<rparr> es
      | Panics s \<Rightarrow> es))"

definition unlogged :: "('w, 'a) go \<Rightarrow> ('w \<times> 'l, 'a) go" where
  "unlogged m = (\<lambda>(w, l). case m w of (r, w') \<Rightarrow> (r, w', l))"

definition EventingPoolManager_CreateNode ::
  "Kluster \<Rightarrow> 'w PoolManager \<Rightarrow> ('w \<times> event list, string) go" where
  "EventingPoolManager_CreateNode kluster pm =
     eventing (k_Name kluster)
       (\<lambda>i. (''SuccessfullCreateNode'', ''Successfully created node '' @ i), ''FailedCreateNode'', ''Failed to created node: '')
       (pm_CreateNode pm)"

definition EventingPoolManager_DeleteNode ::
  "Kluster \<Rightarrow> 'w PoolManager \<Rightarrow> string \<Rightarrow> ('w \<times> event list, unit) go" where
  "EventingPoolManager_DeleteNode kluster pm i =
     eventing (k_Name kluster)
       (\<lambda>_. (''SuccessfullDeleteNode'', ''Successfully deleted node '' @ i), ''FailedDeleteNode'', ''Failed to delete node: '')
       (pm_DeleteNode pm i)"

definition EventingPoolManager :: "Kluster \<Rightarrow> 'w PoolManager \<Rightarrow> ('w \<times> event list) PoolManager" where
  "EventingPoolManager kluster pm =
     \<lparr>pm_GetStatus = unlogged (pm_GetStatus pm), pm_SetStatus = (\<lambda>s. unlogged (pm_SetStatus pm s)),
      pm_CreateNode = EventingPoolManager_CreateNode kluster pm,
      pm_DeleteNode = EventingPoolManager_DeleteNode kluster pm\<rparr>"

text \<open>\<open>LoggingPoolManager\<close>: a line per call, with the status or the node and the error.\<close>

datatype pool_log =
    StatusLine string PoolStatus "goerr option"
  | NodeLine string string "goerr option"

definition zero_PoolStatus :: PoolStatus where
  "zero_PoolStatus = \<lparr>ps_Nodes = [], ps_Running = 0, ps_Starting = 0, ps_Stopping = 0, ps_Needed = 0, ps_UnNeeded = 0\<rparr>"

definition err_of :: "'a outcome \<Rightarrow> goerr option" where
  "err_of r = (case r of Fail e \<Rightarrow> Some e | _ \<Rightarrow> None)"

definition logged :: "('a outcome \<Rightarrow> pool_log) \<Rightarrow> ('w, 'a) go \<Rightarrow> ('w \<times> pool_log list, 'a) go" where
  "logged line m = (\<lambda>(w, ls). case m w of (r, w') \<Rightarrow> (r, w', ls @ [line r]))"

definition LoggingPoolManager_GetStatus :: "'w PoolManager \<Rightarrow> ('w \<times> pool_log list, PoolStatus) go" where
  "LoggingPoolManager_GetStatus pm =
     logged (\<lambda>r. StatusLine ''read status'' (case r of Ok s \<Rightarrow> s | _ \<Rightarrow> zero_PoolStatus) (err_of r)) (pm_GetStatus pm)"

definition LoggingPoolManager_SetStatus :: "'w PoolManager \<Rightarrow> PoolStatus \<Rightarrow> ('w \<times> pool_log list, unit) go" where
  "LoggingPoolManager_SetStatus pm status =
     logged (\<lambda>r. StatusLine ''wrote status'' status (err_of r)) (pm_SetStatus pm status)"

definition LoggingPoolManager_CreateNode :: "'w PoolManager \<Rightarrow> ('w \<times> pool_log list, string) go" where
  "LoggingPoolManager_CreateNode pm =
     logged (\<lambda>r. NodeLine ''created node'' (case r of Ok i \<Rightarrow> i | _ \<Rightarrow> []) (err_of r)) (pm_CreateNode pm)"

definition LoggingPoolManager_DeleteNode :: "'w PoolManager \<Rightarrow> string \<Rightarrow> ('w \<times> pool_log list, unit) go" where
  "LoggingPoolManager_DeleteNode pm i =
     logged (\<lambda>r. NodeLine ''deleted node'' i (err_of r)) (pm_DeleteNode pm i)"

definition LoggingPoolManager :: "'w PoolManager \<Rightarrow> ('w \<times> pool_log list) PoolManager" where
  "LoggingPoolManager pm =
     \<lparr>pm_GetStatus = LoggingPoolManager_GetStatus pm, pm_SetStatus = LoggingPoolManager_SetStatus pm,
      pm_CreateNode = LoggingPoolManager_CreateNode pm, pm_DeleteNode = LoggingPoolManager_DeleteNode pm\<rparr>"

definition InstrumentingPoolManager_GetStatus :: "'w PoolManager \<Rightarrow> ('w \<times> op_metrics, PoolStatus) go" where
  "InstrumentingPoolManager_GetStatus pm = instrumented ''GetStatus'' (pm_GetStatus pm)"

definition InstrumentingPoolManager_SetStatus :: "'w PoolManager \<Rightarrow> PoolStatus \<Rightarrow> ('w \<times> op_metrics, unit) go" where
  "InstrumentingPoolManager_SetStatus pm status = instrumented ''SetStatus'' (pm_SetStatus pm status)"

definition InstrumentingPoolManager_CreateNode :: "'w PoolManager \<Rightarrow> ('w \<times> op_metrics, string) go" where
  "InstrumentingPoolManager_CreateNode pm = instrumented ''CreateNode'' (pm_CreateNode pm)"

definition InstrumentingPoolManager_DeleteNode :: "'w PoolManager \<Rightarrow> string \<Rightarrow> ('w \<times> op_metrics, unit) go" where
  "InstrumentingPoolManager_DeleteNode pm i = instrumented ''DeleteNode'' (pm_DeleteNode pm i)"

definition InstrumentingPoolManager :: "'w PoolManager \<Rightarrow> ('w \<times> op_metrics) PoolManager" where
  "InstrumentingPoolManager pm =
     \<lparr>pm_GetStatus = InstrumentingPoolManager_GetStatus pm, pm_SetStatus = InstrumentingPoolManager_SetStatus pm,
      pm_CreateNode = InstrumentingPoolManager_CreateNode pm, pm_DeleteNode = InstrumentingPoolManager_DeleteNode pm\<rparr>"

definition newPoolManager ::
  "'w Clients \<Rightarrow> (Kluster \<Rightarrow> secret \<Rightarrow> string outcome) \<Rightarrow> Kluster \<Rightarrow> NodePool
     \<Rightarrow> (((('w \<times> event list) \<times> pool_log list) \<times> op_metrics)) PoolManager" where
  "newPoolManager cl GenerateNode kluster pool =
     InstrumentingPoolManager (LoggingPoolManager
       (EventingPoolManager kluster (ConcretePoolManager cl GenerateNode kluster pool)))"

section \<open>The reconciler\<close>

text \<open>\<open>for i := 0; i < n; i++\<close> over \<open>pm.CreateNode()\<close>, and over \<open>status.Nodes[i]\<close>, whose index may
  be out of range.\<close>

primrec create_nodes :: "'w PoolManager \<Rightarrow> nat \<Rightarrow> ('w, unit) go" where
  "create_nodes pm 0 = ret ()"
| "create_nodes pm (Suc n) = bnd (pm_CreateNode pm) (\<lambda>_. create_nodes pm n)"

definition node_at :: "string list \<Rightarrow> nat \<Rightarrow> ('w, string) go" where
  "node_at nodes i = (if i < length nodes then ret (nodes ! i) else panic ''index out of range'')"

definition delete_nodes :: "'w PoolManager \<Rightarrow> string list \<Rightarrow> nat \<Rightarrow> ('w, unit) go" where
  "delete_nodes pm nodes n =
     for_each [0..<n] (\<lambda>i. bnd (node_at nodes i) (\<lambda>node. pm_DeleteNode pm node))"

text \<open>The result is \<open>requeue\<close>; on an error the caller ignores it.\<close>

definition reconcilePool :: "'w PoolManager \<Rightarrow> KlusterPhase \<Rightarrow> ('w, bool) go" where
  "reconcilePool pm phase =
     bnd (pm_GetStatus pm) (\<lambda>status.
       if phase = KlusterPhaseTerminating then
         bnd (for_each (ps_Nodes status) (pm_DeleteNode pm)) (\<lambda>_. ret (ps_Nodes status \<noteq> []))
       else if ps_Needed status > 0 then
         bnd (create_nodes pm (nat (ps_Needed status))) (\<lambda>_. ret True)
       else if ps_UnNeeded status > 0 then
         bnd (delete_nodes pm (ps_Nodes status) (nat (ps_UnNeeded status))) (\<lambda>_. ret True)
       else
         bnd (pm_SetStatus pm status) (\<lambda>_. ret (ps_Starting status > 0 \<or> ps_Stopping status > 0)))"

fun reconcile_pools ::
  "(NodePool \<Rightarrow> 'w PoolManager) \<Rightarrow> KlusterPhase \<Rightarrow> NodePool list \<Rightarrow> bool \<Rightarrow> ('w, bool) go" where
  "reconcile_pools mk phase [] requeueRequested = ret requeueRequested"
| "reconcile_pools mk phase (pool # pools) requeueRequested =
     bnd (reconcilePool (mk pool) phase) (\<lambda>requeue.
       reconcile_pools mk phase pools (if requeue then True else requeueRequested))"

definition LaunchReconciler_Reconcile :: "(Kluster \<Rightarrow> NodePool \<Rightarrow> 'w PoolManager) \<Rightarrow> 'w Reconciler" where
  "LaunchReconciler_Reconcile mk kluster =
     (if \<not> (st_Phase (k_Status kluster) = KlusterPhaseRunning \<or>
             st_Phase (k_Status kluster) = KlusterPhaseTerminating)
      then ret False
      else reconcile_pools (mk kluster) (st_Phase (k_Status kluster)) (spec_NodePools (k_Spec kluster)) False)"

text \<open>The reconciler the launch controller hands to the base controller.\<close>

definition launch_reconciler ::
  "'w Clients \<Rightarrow> (Kluster \<Rightarrow> secret \<Rightarrow> string outcome)
     \<Rightarrow> ((((('w \<times> event list) \<times> pool_log list) \<times> op_metrics) \<times> reconcile_log list) \<times> op_metrics) Reconciler" where
  "launch_reconciler cl GenerateNode =
     InstrumentingReconciler_Reconcile (LoggingReconciler_Reconcile
       (LaunchReconciler_Reconcile (newPoolManager cl GenerateNode)))"

section \<open>Decorators are transparent\<close>

text \<open>A pool manager over a larger world that does on the part \<open>view\<close> shows what another one
  does, with the same results.\<close>

locale pool_manager_wrapper =
  fixes pm2 :: "'v PoolManager" and pm1 :: "'w PoolManager" and view :: "'v \<Rightarrow> 'w"
  assumes wrap_GetStatus: "simulates view (pm_GetStatus pm2) (pm_GetStatus pm1)"
    and wrap_SetStatus: "simulates view (pm_SetStatus pm2 s) (pm_SetStatus pm1 s)"
    and wrap_CreateNode: "simulates view (pm_CreateNode pm2) (pm_CreateNode pm1)"
    and wrap_DeleteNode: "simulates view (pm_DeleteNode pm2 i) (pm_DeleteNode pm1 i)"
begin

lemmas wraps = wrap_GetStatus wrap_SetStatus wrap_CreateNode wrap_DeleteNode

lemma wrap_create_nodes: "simulates view (create_nodes pm2 n) (create_nodes pm1 n)"
proof (induction n)
  case 0
  show ?case unfolding create_nodes.simps by (rule simulates_ret)
next
  case (Suc n)
  then show ?case unfolding create_nodes.simps by (intro simulates_intro wraps)
qed

lemma wrap_delete_nodes: "simulates view (delete_nodes pm2 nodes n) (delete_nodes pm1 nodes n)"
  unfolding delete_nodes_def node_at_def by (intro simulates_intro wraps)

lemma wrap_reconcilePool: "simulates view (reconcilePool pm2 phase) (reconcilePool pm1 phase)"
  unfolding reconcilePool_def
  by (intro simulates_intro wraps wrap_create_nodes wrap_delete_nodes)

end

lemma simulates_unlogged [simulates_intro]: "simulates fst (unlogged m) m"
  by (auto simp: simulates_def unlogged_def split: prod.split)

lemma simulates_eventing [simulates_intro]: "simulates fst (eventing obj msgs m) m"
  by (auto simp: simulates_def eventing_def split: prod.split)

lemma simulates_logged [simulates_intro]: "simulates fst (logged line m) m"
  by (auto simp: simulates_def logged_def split: prod.split)

lemma simulates_instrumented [simulates_intro]: "simulates fst (instrumented l m) m"
  by (auto simp: simulates_def instrumented_def split: prod.split)

interpretation eventing_pm: pool_manager_wrapper "EventingPoolManager kluster pm" pm fst
  for kluster :: Kluster and pm :: "'w PoolManager"
  by unfold_locales
    (auto simp: EventingPoolManager_def EventingPoolManager_CreateNode_def
      EventingPoolManager_DeleteNode_def intro: simulates_intro)

interpretation logging_pm: pool_manager_wrapper "LoggingPoolManager pm" pm fst
  for pm :: "'w PoolManager"
  by unfold_locales
    (auto simp: LoggingPoolManager_def LoggingPoolManager_GetStatus_def LoggingPoolManager_SetStatus_def
      LoggingPoolManager_CreateNode_def LoggingPoolManager_DeleteNode_def intro: simulates_intro)

interpretation instrumenting_pm: pool_manager_wrapper "InstrumentingPoolManager pm" pm fst
  for pm :: "'w PoolManager"
  by unfold_locales
    (auto simp: InstrumentingPoolManager_def InstrumentingPoolManager_GetStatus_def
      InstrumentingPoolManager_SetStatus_def InstrumentingPoolManager_CreateNode_def
      InstrumentingPoolManager_DeleteNode_def intro: simulates_intro)

lemma newPoolManager_wraps:
  "pool_manager_wrapper (newPoolManager cl gen kluster pool) (ConcretePoolManager cl gen kluster pool)
     (fst \<circ> fst \<circ> fst)"
  unfolding newPoolManager_def
proof unfold_locales
  note compose = simulates_trans [OF _ simulates_trans, unfolded comp_assoc [symmetric]]
  fix s i
  show "simulates (fst \<circ> fst \<circ> fst) (pm_GetStatus (InstrumentingPoolManager (LoggingPoolManager
      (EventingPoolManager kluster (ConcretePoolManager cl gen kluster pool)))))
      (pm_GetStatus (ConcretePoolManager cl gen kluster pool))"
    by (rule compose [OF instrumenting_pm.wraps(1) logging_pm.wraps(1) eventing_pm.wraps(1)])
  show "simulates (fst \<circ> fst \<circ> fst) (pm_SetStatus (InstrumentingPoolManager (LoggingPoolManager
      (EventingPoolManager kluster (ConcretePoolManager cl gen kluster pool)))) s)
      (pm_SetStatus (ConcretePoolManager cl gen kluster pool) s)"
    by (rule compose [OF instrumenting_pm.wraps(2) logging_pm.wraps(2) eventing_pm.wraps(2)])
  show "simulates (fst \<circ> fst \<circ> fst) (pm_CreateNode (InstrumentingPoolManager (LoggingPoolManager
      (EventingPoolManager kluster (ConcretePoolManager cl gen kluster pool)))))
      (pm_CreateNode (ConcretePoolManager cl gen kluster pool))"
    by (rule compose [OF instrumenting_pm.wraps(3) logging_pm.wraps(3) eventing_pm.wraps(3)])
  show "simulates (fst \<circ> fst \<circ> fst) (pm_DeleteNode (InstrumentingPoolManager (LoggingPoolManager
      (EventingPoolManager kluster (ConcretePoolManager cl gen kluster pool)))) i)
      (pm_DeleteNode (ConcretePoolManager cl gen kluster pool) i)"
    by (rule compose [OF instrumenting_pm.wraps(4) logging_pm.wraps(4) eventing_pm.wraps(4)])
qed

interpretation pool_stack: pool_manager_wrapper "newPoolManager cl gen kluster pool"
  "ConcretePoolManager cl gen kluster pool" "fst \<circ> fst \<circ> fst"
  for cl :: "'w Clients" and gen kluster pool
  by (rule newPoolManager_wraps)

lemma simulates_reconcile_pools:
  assumes "\<And>pool. simulates view (reconcilePool (mk2 pool) phase) (reconcilePool (mk1 pool) phase)"
  shows "simulates view (reconcile_pools mk2 phase pools b) (reconcile_pools mk1 phase pools b)"
  by (induction pools arbitrary: b) (auto intro!: simulates_intro assms)


section \<open>Convergence\<close>

definition active :: "Node list \<Rightarrow> nat" where
  "active nodes = length (filter (\<lambda>n. Starting n \<or> Running n) nodes)"

lemma active_count: "int (active nodes) = running nodes + starting nodes"
proof (induction nodes)
  case (Cons n nodes)
  then show ?case using node_states_exclusive [of n] by (auto simp: active_def running_def starting_def)
qed (simp add: active_def running_def starting_def)

lemma active_append [simp]: "active (xs @ ys) = active xs + active ys"
  by (simp add: active_def)

lemma active_le: "active nodes \<le> length nodes"
  by (simp add: active_def)

lemma active_all_starting: "list_all Starting ns \<Longrightarrow> active ns = length ns"
  by (induction ns) (auto simp: active_def)

lemma active_stopping: "list_all Stopping ns \<Longrightarrow> active ns = 0"
  using node_states_exclusive by (induction ns) (auto simp: active_def)

lemma needed_unNeeded:
  "needed pool nodes = max 0 (np_Size pool - int (active nodes))"
  "unNeeded pool nodes = max 0 (int (active nodes) - np_Size pool)"
  by (auto simp: needed_def unNeeded_def active_count Let_def)

text \<open>A server whose deletion has been accepted.\<close>

definition deleting :: "Node \<Rightarrow> Node" where
  "deleting n = n\<lparr>nd_TaskState := ''deleting''\<rparr>"

lemma deleting_Stopping [simp]: "Stopping (deleting n)"
  by (simp add: deleting_def Stopping_def starting_tasks_def)

definition delete_ids :: "string set \<Rightarrow> Node list \<Rightarrow> Node list" where
  "delete_ids ids nodes = map (\<lambda>n. if nd_ID n \<in> ids then deleting n else n) nodes"

text \<open>What the reconciler relies on of Nova, of the control plane's secret and of the template:
  the listing shows every server of the pool, a created server is new, starting and carries
  the returned id, an accepted deletion shows as a task of that server, and reading or
  writing the custom resource leaves the servers alone.\<close>

definition nova ::
  "'w Clients \<Rightarrow> (Kluster \<Rightarrow> secret \<Rightarrow> string outcome) \<Rightarrow> Kluster \<Rightarrow> NodePool \<Rightarrow> ('w \<Rightarrow> Node list) \<Rightarrow> bool" where
  "nova cl gen kluster pool cloud \<longleftrightarrow>
     (\<forall>w. oc_GetNodes (cl_Openstack cl) kluster pool w = (Ok (cloud w), w)) \<and>
     (\<forall>w. \<exists>secret ud. cl_GetSecret cl (k_Namespace kluster) (k_Name kluster) w = (Ok secret, w) \<and>
        gen kluster secret = Ok ud) \<and>
     (\<forall>w ud. \<exists>n w'. oc_CreateNode (cl_Openstack cl) kluster pool ud w = (Ok (nd_ID n), w') \<and>
        Starting n \<and> cloud w' = cloud w @ [n] \<and> nd_ID n \<notin> nd_ID ` set (cloud w)) \<and>
     (\<forall>w i. \<exists>w'. oc_DeleteNode (cl_Openstack cl) kluster i w = (Ok (), w') \<and>
        cloud w' = delete_ids {i} (cloud w)) \<and>
     (\<forall>w ns nm. cloud (snd (kc_Get (cl_Klusters cl) ns nm w)) = cloud w) \<and>
     (\<forall>w ns k. cloud (snd (kc_Update (cl_Klusters cl) ns k w)) = cloud w)"

lemma novaD:
  assumes "nova cl gen kluster pool cloud"
  shows "oc_GetNodes (cl_Openstack cl) kluster pool w = (Ok (cloud w), w)"
    and "\<exists>secret ud. cl_GetSecret cl (k_Namespace kluster) (k_Name kluster) w = (Ok secret, w) \<and>
        gen kluster secret = Ok ud"
    and "\<exists>n w'. oc_CreateNode (cl_Openstack cl) kluster pool ud w = (Ok (nd_ID n), w') \<and>
        Starting n \<and> cloud w' = cloud w @ [n] \<and> nd_ID n \<notin> nd_ID ` set (cloud w)"
    and "\<exists>w'. oc_DeleteNode (cl_Openstack cl) kluster i w = (Ok (), w') \<and> cloud w' = delete_ids {i} (cloud w)"
    and "cloud (snd (kc_Get (cl_Klusters cl) ns nm w)) = cloud w"
    and "cloud (snd (kc_Update (cl_Klusters cl) ns k w)) = cloud w"
  using assms unfolding nova_def by blast+

lemma create_nodes_cloud:
  assumes "nova cl gen kluster pool cloud"
  shows "\<exists>w' ns. create_nodes (ConcretePoolManager cl gen kluster pool) n w = (Ok (), w') \<and>
     cloud w' = cloud w @ ns \<and> length ns = n \<and> list_all Starting ns"
proof (induction n arbitrary: w)
  case (Suc n)
  obtain secret ud where s: "cl_GetSecret cl (k_Namespace kluster) (k_Name kluster) w = (Ok secret, w)"
    "gen kluster secret = Ok ud"
    using novaD(2) [OF assms] by blast
  obtain x w1 where c: "oc_CreateNode (cl_Openstack cl) kluster pool ud w = (Ok (nd_ID x), w1)"
    "Starting x" "cloud w1 = cloud w @ [x]"
    using novaD(3) [OF assms] by blast
  obtain w2 ns where r: "create_nodes (ConcretePoolManager cl gen kluster pool) n w1 = (Ok (), w2)"
    "cloud w2 = cloud w1 @ ns" "length ns = n" "list_all Starting ns"
    using Suc by blast
  have "pm_CreateNode (ConcretePoolManager cl gen kluster pool) w = (Ok (nd_ID x), w1)"
    using s c by (simp add: ConcretePoolManager_def ConcretePoolManager_CreateNode_def)
  with c r show ?case by (intro exI [of _ w2] exI [of _ "x # ns"]) simp
qed simp

lemma delete_ids_union: "delete_ids A (delete_ids B ns) = delete_ids (A \<union> B) ns"
  by (auto simp: delete_ids_def deleting_def)

lemma delete_ids_empty [simp]: "delete_ids {} ns = ns"
  by (simp add: delete_ids_def)

lemma delete_each_cloud:
  assumes "nova cl gen kluster pool cloud"
  shows "\<exists>w'. for_each is (pm_DeleteNode (ConcretePoolManager cl gen kluster pool)) w = (Ok (), w') \<and>
     cloud w' = delete_ids (set is) (cloud w)"
proof (induction "is" arbitrary: w)
  case (Cons i "is")
  obtain w1 where d: "oc_DeleteNode (cl_Openstack cl) kluster i w = (Ok (), w1)"
    "cloud w1 = delete_ids {i} (cloud w)"
    using novaD(4) [OF assms] by blast
  with Cons [of w1] show ?case
    by (auto simp: ConcretePoolManager_def ConcretePoolManager_DeleteNode_def delete_ids_union)
qed simp

lemma delete_nodes_eq:
  assumes "n \<le> length nodes"
  shows "delete_nodes pm nodes n = for_each (take n nodes) (pm_DeleteNode pm)"
proof -
  have "for_each is (\<lambda>i. bnd (node_at nodes i) (pm_DeleteNode pm)) =
      for_each (map ((!) nodes) is) (pm_DeleteNode pm)" if "set is \<subseteq> {..<length nodes}" for "is"
    using that by (induction "is") (auto simp: node_at_def)
  then have "delete_nodes pm nodes n = for_each (map ((!) nodes) [0..<n]) (pm_DeleteNode pm)"
    using assms by (simp add: delete_nodes_def subset_eq)
  also have "map ((!) nodes) [0..<n] = take n nodes"
    using assms by (simp add: list_eq_iff_nth_eq)
  finally show ?thesis .
qed

lemma active_delete_take:
  assumes "distinct (map nd_ID ns)" "n \<le> length ns"
  shows "active (delete_ids (set (take n (map nd_ID ns))) ns) = active (drop n ns)"
proof -
  let ?ids = "set (take n (map nd_ID ns))"
  have "delete_ids ?ids ns = delete_ids ?ids (take n ns) @ delete_ids ?ids (drop n ns)"
    by (simp add: delete_ids_def flip: map_append)
  also have "\<dots> = map deleting (take n ns) @ drop n ns"
  proof -
    have "distinct (map nd_ID (take n ns) @ map nd_ID (drop n ns))"
      using assms(1) by (metis append_take_drop_id map_append)
    then have "\<forall>x\<in>set (drop n ns). nd_ID x \<notin> ?ids" by (auto simp: take_map)
    then have "map (\<lambda>x. if nd_ID x \<in> ?ids then deleting x else x) (drop n ns) = drop n ns"
      by (intro map_idI) auto
    moreover have "map (\<lambda>x. if nd_ID x \<in> ?ids then deleting x else x) (take n ns) = map deleting (take n ns)"
      by (intro map_cong refl) (auto simp: take_map)
    ultimately show ?thesis by (simp only: delete_ids_def)
  qed
  finally show ?thesis by (simp add: active_stopping list_all_iff)
qed

lemma SetStatus_cloud:
  assumes "nova cl gen kluster pool cloud"
  shows "cloud (snd (pm_SetStatus (ConcretePoolManager cl gen kluster pool) st w)) = cloud w"
proof -
  have g: "\<And>ns nm. keeps (\<lambda>v. cloud v = cloud w) (kc_Get (cl_Klusters cl) ns nm)"
    and u: "\<And>ns k. keeps (\<lambda>v. cloud v = cloud w) (kc_Update (cl_Klusters cl) ns k)"
    by (simp_all add: keeps_def novaD(5,6) [OF assms])
  have "keeps (\<lambda>v. cloud v = cloud w) (pm_SetStatus (ConcretePoolManager cl gen kluster pool) st)"
    unfolding ConcretePoolManager_def PoolManager.select_convs ConcretePoolManager_SetStatus_def
    by (intro keeps_intro g u)
  then show ?thesis by (simp add: keeps_def)
qed

lemma active_drop:
  "active (drop n ns) \<ge> active ns - n" "list_all (\<lambda>x. Starting x \<or> Running x) (take n ns) \<Longrightarrow>
     n \<le> length ns \<Longrightarrow> active (drop n ns) = active ns - n"
proof -
  have e: "active ns = active (take n ns) + active (drop n ns)"
    by (metis active_append append_take_drop_id)
  show "active (drop n ns) \<ge> active ns - n" using e active_le [of "take n ns"] by (simp add: trans_le_add2) linarith
  assume "list_all (\<lambda>x. Starting x \<or> Running x) (take n ns)" "n \<le> length ns"
  then have "active (take n ns) = n" by (simp add: active_def list_all_iff)
  with e show "active (drop n ns) = active ns - n" by simp
qed

text \<open>The pass of a pool, one lemma for each of its branches.\<close>

lemma GetStatus_cloud:
  assumes "nova cl gen kluster pool cloud"
  shows "pm_GetStatus (ConcretePoolManager cl gen kluster pool) w =
    (Ok \<lparr>ps_Nodes = nodeIDs (cloud w), ps_Running = running (cloud w), ps_Starting = starting (cloud w),
      ps_Stopping = stopping (cloud w), ps_Needed = needed pool (cloud w), ps_UnNeeded = unNeeded pool (cloud w)\<rparr>, w)"
  by (simp add: ConcretePoolManager_def ConcretePoolManager_GetStatus_def novaD(1) [OF assms])

lemma reconcilePool_terminating:
  assumes nova: "nova cl gen kluster pool cloud"
    and run: "reconcilePool (ConcretePoolManager cl gen kluster pool) KlusterPhaseTerminating w = (r, w')"
  shows "r = Ok (cloud w \<noteq> []) \<and> cloud w' = map deleting (cloud w)"
proof -
  obtain w1 where "for_each (nodeIDs (cloud w)) (pm_DeleteNode (ConcretePoolManager cl gen kluster pool)) w = (Ok (), w1)"
    "cloud w1 = delete_ids (set (nodeIDs (cloud w))) (cloud w)"
    using delete_each_cloud [OF nova] by blast
  moreover have "delete_ids (set (nodeIDs (cloud w))) (cloud w) = map deleting (cloud w)"
    by (simp add: delete_ids_def nodeIDs_def)
  ultimately show ?thesis using run GetStatus_cloud [OF nova] by (auto simp: reconcilePool_def nodeIDs_def)
qed

lemma reconcilePool_few:
  assumes nova: "nova cl gen kluster pool cloud"
    and run: "reconcilePool (ConcretePoolManager cl gen kluster pool) phase w = (r, w')"
    and few: "phase \<noteq> KlusterPhaseTerminating" "int (active (cloud w)) < np_Size pool"
  shows "r = Ok True \<and> int (active (cloud w')) = np_Size pool \<and> (\<exists>new. cloud w' = cloud w @ new \<and> list_all Starting new)"
proof -
  define n where "n = nat (needed pool (cloud w))"
  have n: "int n = np_Size pool - int (active (cloud w))" "needed pool (cloud w) > 0"
    using few by (simp_all add: n_def needed_unNeeded)
  obtain w1 ns where "create_nodes (ConcretePoolManager cl gen kluster pool) n w = (Ok (), w1)" "cloud w1 = cloud w @ ns"
    "length ns = n" "list_all Starting ns"
    using create_nodes_cloud [OF nova] by blast
  then show ?thesis using run few GetStatus_cloud [OF nova] n active_all_starting [of ns]
    by (auto simp: reconcilePool_def n_def)
qed

lemma reconcilePool_many:
  assumes nova: "nova cl gen kluster pool cloud" and size: "0 \<le> np_Size pool" and ids: "distinct (map nd_ID (cloud w))"
    and run: "reconcilePool (ConcretePoolManager cl gen kluster pool) phase w = (r, w')"
    and many: "phase \<noteq> KlusterPhaseTerminating" "int (active (cloud w)) > np_Size pool"
  shows "r = Ok True \<and> int (active (cloud w')) \<ge> np_Size pool \<and>
    (list_all (\<lambda>n. Starting n \<or> Running n) (take (active (cloud w) - nat (np_Size pool)) (cloud w)) \<longrightarrow>
       int (active (cloud w')) = np_Size pool)"
proof -
  define n where "n = nat (unNeeded pool (cloud w))"
  have n: "n = active (cloud w) - nat (np_Size pool)" "unNeeded pool (cloud w) > 0" "\<not> needed pool (cloud w) > 0"
    using many size by (simp_all add: n_def needed_unNeeded nat_diff_distrib)
  have len: "n \<le> length (cloud w)" using active_le [of "cloud w"] n(1) by simp
  obtain w1 where "for_each (take n (nodeIDs (cloud w))) (pm_DeleteNode (ConcretePoolManager cl gen kluster pool)) w = (Ok (), w1)"
    and c: "cloud w1 = delete_ids (set (take n (nodeIDs (cloud w)))) (cloud w)"
    using delete_each_cloud [OF nova] by blast
  then have "r = Ok True \<and> w' = w1"
    using run many GetStatus_cloud [OF nova] n len
    by (auto simp: reconcilePool_def delete_nodes_eq nodeIDs_def n_def [symmetric])
  moreover have "active (cloud w1) = active (drop n (cloud w))"
    using active_delete_take [OF ids len] c by (simp add: nodeIDs_def)
  moreover have "int (active (cloud w) - n) = np_Size pool" using many size n(1) by simp
  ultimately show ?thesis
    using many active_drop(1) [of "cloud w" n] active_drop(2) [of n "cloud w"] len n(1)
    by (auto simp: size nat_le_iff)
qed

lemma reconcilePool_same:
  assumes nova: "nova cl gen kluster pool cloud"
    and run: "reconcilePool (ConcretePoolManager cl gen kluster pool) phase w = (r, w')"
    and same: "phase \<noteq> KlusterPhaseTerminating" "int (active (cloud w)) = np_Size pool"
  shows "cloud w' = cloud w"
proof -
  have "cloud v = cloud w" if "pm_SetStatus (ConcretePoolManager cl gen kluster pool) st w = (x, v)" for st x v
    using SetStatus_cloud [OF nova, of st w] that by simp
  then show ?thesis
    using run same GetStatus_cloud [OF nova]
    by (auto simp: reconcilePool_def needed_unNeeded bnd_def split: prod.splits outcome.splits)
qed


text \<open>A Nova whose world is the list of its servers.\<close>

definition fresh_node :: "Node list \<Rightarrow> Node" where
  "fresh_node ns = \<lparr>nd_ID = CHR ''x'' # concat (map nd_ID ns), nd_Name = ''node'', nd_TaskState = [],
     nd_VMState = ''building'', nd_PowerState = 0\<rparr>"

definition demo_openstack :: "Node list OpenstackClient" where
  "demo_openstack =
     \<lparr>oc_CreateNode = (\<lambda>_ _ _ ns. (Ok (nd_ID (fresh_node ns)), ns @ [fresh_node ns])),
      oc_DeleteNode = (\<lambda>_ i ns. (Ok (), delete_ids {i} ns)),
      oc_GetNodes = (\<lambda>_ _ ns. (Ok ns, ns)), oc_GetProject = (\<lambda>_. fail DoesNotExist),
      oc_GetRegion = fail DoesNotExist, oc_GetRouters = (\<lambda>_. fail DoesNotExist),
      oc_DeleteUser = (\<lambda>_ _. ret ()), oc_CreateKlusterServiceUser = (\<lambda>_ _ _ _. ret ()),
      oc_GetKubernikusCatalogEntry = fail DoesNotExist, oc_GetSecurityGroupID = (\<lambda>_ _. fail DoesNotExist)\<rparr>"

definition demo_clients :: "Node list Clients" where
  "demo_clients =
     \<lparr>cl_Openstack = demo_openstack,
      cl_Klusters = \<lparr>kc_Get = (\<lambda>_ _. fail DoesNotExist), kc_List = (\<lambda>_ _. fail DoesNotExist),
                     kc_Create = (\<lambda>_ _. fail DoesNotExist), kc_Update = (\<lambda>_ k. ret k),
                     kc_Delete = (\<lambda>_ _. ret ())\<rparr>,
      cl_GetSecret = (\<lambda>_ _. ret []), cl_helm_Install = (\<lambda>_ _ _ _. ret ()), cl_helm_Delete = (\<lambda>_. ret ())\<rparr>"

definition demo_kluster :: Kluster where
  "demo_kluster = \<lparr>k_Name = ''demo'', k_Namespace = ''kubernikus'', k_UID = ''1'', k_Labels = [], k_Annotations = [],
     k_CreationTimestamp = 0, k_Spec = zero_KlusterSpec, k_Status = zero_KlusterStatus\<rparr>"

definition demo_pool :: NodePool where
  "demo_pool = \<lparr>np_Config = \<lparr>cfg_Repair = True, cfg_Upgrade = False\<rparr>, np_Flavor = ''m1.small'',
     np_Image = ''coreos'', np_Name = ''small'', np_Size = 2\<rparr>"

lemma fresh_node_id: "nd_ID (fresh_node ns) \<notin> nd_ID ` set ns"
proof
  assume "nd_ID (fresh_node ns) \<in> nd_ID ` set ns"
  then obtain n where n: "n \<in> set ns" "nd_ID n = nd_ID (fresh_node ns)" by auto
  have "n \<in> set ns \<Longrightarrow> length (nd_ID n) \<le> length (concat (map nd_ID ns))" by (induction ns) auto
  with n show False by (simp add: fresh_node_def)
qed

lemma demo_nova: "nova demo_clients (\<lambda>_ _. Ok []) demo_kluster demo_pool (\<lambda>ns. ns)"
proof -
  have "Starting (fresh_node ns)" for ns by (simp add: fresh_node_def Starting_def starting_tasks_def)
  then show ?thesis
    by (auto simp: nova_def demo_clients_def demo_openstack_def fresh_node_id)
qed


end
