(* ===== verification/Polling.thy ===== *)
theory Polling
  imports Prelude
begin

text \<open>
  Polling (\<open>wait.Poll\<close> and \<open>wait.PollImmediate\<close> of the vendored \<open>k8s.io/apimachinery\<close>): a condition
  is tried until it holds, fails, or the time is over. The number of attempts is the timeout
  divided by the interval.
\<close>

text \<open>\<open>wait.Poll(interval, timeout, condition)\<close>: the condition is tried at every interval until
  it holds, fails, or the time is over after \<open>timeout / interval\<close> attempts, the last of them
  when the timer fires.\<close>

definition ErrWaitTimeout :: goerr where
  "ErrWaitTimeout = Errorf ''timed out waiting for the condition''"

fun Poll :: "nat \<Rightarrow> ('w, bool) go \<Rightarrow> ('w, unit) go" where
  "Poll 0 condition = fail ErrWaitTimeout"
| "Poll (Suc attempts) condition =
     bnd condition (\<lambda>ok. if ok then ret () else Poll attempts condition)"

text \<open>\<open>wait.PollImmediate\<close> tries once more, before the first interval.\<close>

definition PollImmediate :: "nat \<Rightarrow> ('w, bool) go \<Rightarrow> ('w, unit) go" where
  "PollImmediate attempts condition = bnd condition (\<lambda>ok. if ok then ret () else Poll attempts condition)"

lemma keeps_Poll: "keeps P c \<Longrightarrow> keeps P (Poll n c)"
  by (induction n) (auto intro!: keeps_intro)

lemma keeps_PollImmediate: "keeps P c \<Longrightarrow> keeps P (PollImmediate n c)"
  unfolding PollImmediate_def by (intro keeps_intro keeps_Poll)

lemma Poll_fails_only_late:
  "Poll n c w = (r, w') \<Longrightarrow> (\<And>v. \<exists>v'. c v = (Ok False, v')) \<Longrightarrow> r = Fail ErrWaitTimeout"
proof (induction n arbitrary: w)
  case (Suc n)
  obtain v where "c w = (Ok False, v)" using Suc.prems(2) by blast
  then have "Poll (Suc n) c w = Poll n c v" by (simp add: bnd_def)
  with Suc.prems(1) Suc.IH [of v] Suc.prems(2) show ?case by metis
qed simp

end
