(* ===== verification/KubeUtil.thy ===== *)
theory KubeUtil
  imports Clients Polling
begin

text \<open>
  Helpers over the Kubernetes API: pod readiness and the access mode of volumes
  (\<open>src/pkg/client/kubernetes/pod.go\<close>, \<open>pvc_accessmode.go\<close>), the shared clients of the satellite
  clusters and the custom resource definition (\<open>client.go\<close>), namespaces (\<open>src/pkg/util/k8s\<close>),
  waiting on the informer cache (\<open>src/pkg/util/wait\<close>) and the values of the helm chart
  (\<open>src/pkg/util/helm\<close>). The API server, the certificate loader behind \<open>NewForConfig\<close> and the
  YAML encoder are parameters.
\<close>

section \<open>Pods\<close>

record PodCondition =
  pc_Type :: string
  pc_Status :: string

record Pod =
  pod_Name :: string
  pod_Namespace :: string
  pod_Labels :: "(string \<times> string) list"
  pod_Conditions :: "PodCondition list"

definition GetPodCondition :: "PodCondition list \<Rightarrow> string \<Rightarrow> PodCondition option" where
  "GetPodCondition conditions conditionType = List.find (\<lambda>c. pc_Type c = conditionType) conditions"

definition GetPodReadyCondition :: "PodCondition list \<Rightarrow> PodCondition option" where
  "GetPodReadyCondition status = GetPodCondition status ''Ready''"

definition IsPodReadyConditionTrue :: "PodCondition list \<Rightarrow> bool" where
  "IsPodReadyConditionTrue status =
     (case GetPodReadyCondition status of None \<Rightarrow> False | Some c \<Rightarrow> pc_Status c = ''True'')"

definition IsPodReady :: "Pod \<Rightarrow> bool" where
  "IsPodReady pod = IsPodReadyConditionTrue (pod_Conditions pod)"

section \<open>Volumes\<close>

text \<open>The lists of storage class names and of the access modes of the persistent volumes.\<close>

definition PVAccessMode :: "('w, string list) go \<Rightarrow> ('w, string list list) go \<Rightarrow> ('w, string) go" where
  "PVAccessMode listStorageClasses listVolumes =
     bnd listStorageClasses (\<lambda>sClasses.
       if length sClasses > 0 then ret ''ReadWriteOnce''
       else bnd listVolumes (\<lambda>pvs.
         if list_ex (list_ex (\<lambda>mode. mode = ''ReadWriteMany'')) pvs then ret ''ReadWriteMany''
         else ret ''ReadWriteOnce''))"

section \<open>Namespaces\<close>

text \<open>\<open>getNs\<close> and \<open>createNs\<close> are the namespace client. Any error of \<open>Get\<close> leads to a create.\<close>

definition EnsureNamespace ::
  "(string \<Rightarrow> ('w, unit) go) \<Rightarrow> (string \<Rightarrow> ('w, unit) go) \<Rightarrow> string \<Rightarrow> ('w, unit) go" where
  "EnsureNamespace getNs createNs ns =
     tryc (getNs ns)
       (\<lambda>_. tryc (createNs ns) (\<lambda>err. if \<not> IsAlreadyExists err then fail err else ret ()) (\<lambda>_. ret ()))
       (\<lambda>_. ret ())"

section \<open>Waiting for the informer\<close>

text \<open>\<open>GetByKey\<close> reads the informer cache, which changes in the world between two attempts; \<open>tick\<close>
  is the pause before each of them. 5 s at 50 ms are 100 attempts.\<close>

definition WaitForKluster ::
  "('w, unit) go \<Rightarrow> ('w \<Rightarrow> string \<Rightarrow> Kluster option) \<Rightarrow> string \<Rightarrow> (Kluster \<Rightarrow> bool) \<Rightarrow> ('w, unit) go" where
  "WaitForKluster tick GetByKey key condition =
     Poll 100 (bnd tick (\<lambda>_. bnd (gets (\<lambda>w. GetByKey w key)) (\<lambda>found.
       case found of None \<Rightarrow> fail DoesNotExist | Some k \<Rightarrow> ret (condition k))))"

definition WaitForKlusterDeletion ::
  "('w, unit) go \<Rightarrow> ('w \<Rightarrow> string \<Rightarrow> Kluster option) \<Rightarrow> string \<Rightarrow> ('w, unit) go" where
  "WaitForKlusterDeletion tick GetByKey key =
     tryc (WaitForKluster tick GetByKey key (\<lambda>_. False))
       (\<lambda>err. if err \<noteq> DoesNotExist then fail err else ret ())
       (\<lambda>_. ret ())"

text \<open>\<open>EnsureCRD\<close>: the definition is created if it is not there, then polled every 500 ms for
  60 s until it is established; on a failure it is deleted again.\<close>

type_synonym crd_conditions = "(string \<times> string) list"

definition crd_name :: string where
  "crd_name = ''klusters.kubernikus.sap.cc''"

definition established :: "crd_conditions \<Rightarrow> bool" where
  "established conds = list_ex (\<lambda>(t, s). t = ''Established'' \<and> s = ''True'') conds"

definition aggregate :: "goerr \<Rightarrow> goerr \<Rightarrow> goerr" where
  "aggregate e1 e2 = Errorf (''['' @ Error e1 @ '', '' @ Error e2 @ '']'')"

definition EnsureCRD ::
  "(string \<Rightarrow> ('w, unit) go) \<Rightarrow> (string \<Rightarrow> ('w, crd_conditions) go) \<Rightarrow> (string \<Rightarrow> ('w, unit) go) \<Rightarrow> ('w, unit) go" where
  "EnsureCRD createCRD getCRD deleteCRD =
     (let wait_established =
        tryc (Poll 120 (bnd (getCRD crd_name) (\<lambda>conds. ret (established conds))))
          (\<lambda>err. tryc (deleteCRD crd_name) (\<lambda>deleteErr. fail (aggregate err deleteErr)) (\<lambda>_. fail err))
          (\<lambda>_. ret ())
      in tryc (createCRD crd_name)
           (\<lambda>err. if \<not> IsAlreadyExists err then fail err else wait_established)
           (\<lambda>_. wait_established))"

section \<open>Clients of satellite clusters\<close>

record RestConfig =
  rc_Host :: string
  rc_CertData :: string
  rc_KeyData :: string
  rc_CAData :: string

type_synonym 'c client_cache = "string \<rightharpoonup> 'c"

definition secret_missing :: goerr where
  "secret_missing = Errorf ''tls-ca.pem not found in secret''"

definition ClientFor ::
  "(string \<Rightarrow> ('w, secret) go) \<Rightarrow> (RestConfig \<Rightarrow> 'c outcome) \<Rightarrow> Kluster \<Rightarrow> ('w \<times> 'c client_cache, 'c) go" where
  "ClientFor getSecret NewForConfig k =
     bnd (client_get (\<lambda>cs. cs (k_UID k))) (\<lambda>found.
       case found of
         Some client \<Rightarrow> ret client
       | None \<Rightarrow>
           bnd (svc (getSecret (k_Name k))) (\<lambda>secret.
             case map_of secret ''tls-ca.pem'' of
               None \<Rightarrow> fail secret_missing
             | Some ca \<Rightarrow>
                 (case map_of secret ''apiserver-clients-cluster-admin.pem'' of
                    None \<Rightarrow> fail secret_missing
                  | Some cert \<Rightarrow>
                      (case map_of secret ''apiserver-clients-cluster-admin-key.pem'' of
                         None \<Rightarrow> fail secret_missing
                       | Some key \<Rightarrow>
                           bnd (lift_outcome (NewForConfig \<lparr>rc_Host = st_Apiserver (k_Status k), rc_CertData = cert,
                                  rc_KeyData = key, rc_CAData = ca\<rparr>)) (\<lambda>clientset.
                           bnd (client_set (\<lambda>cs. cs(k_UID k \<mapsto> clientset))) (\<lambda>_.
                           ret clientset))))))"

text \<open>\<open>NewClientConfigV1\<close>: a kubeconfig with one cluster, one context and one user.\<close>

record NamedCluster =
  nc_Name :: string
  nc_Server :: string
  nc_CA :: string

record NamedContext =
  nx_Name :: string
  nx_Cluster :: string
  nx_AuthInfo :: string

record NamedAuthInfo =
  na_Name :: string
  na_Cert :: string
  na_Key :: string

record KubeConfig =
  kcfg_CurrentContext :: string
  kcfg_Clusters :: "NamedCluster list"
  kcfg_Contexts :: "NamedContext list"
  kcfg_AuthInfos :: "NamedAuthInfo list"

definition NewClientConfigV1 ::
  "string \<Rightarrow> string \<Rightarrow> string \<Rightarrow> string \<Rightarrow> string \<Rightarrow> string \<Rightarrow> KubeConfig" where
  "NewClientConfigV1 name user url key cert ca =
     \<lparr>kcfg_CurrentContext = name,
      kcfg_Clusters = [\<lparr>nc_Name = name, nc_Server = url, nc_CA = ca\<rparr>],
      kcfg_Contexts = [\<lparr>nx_Name = name, nx_Cluster = name, nx_AuthInfo = user\<rparr>],
      kcfg_AuthInfos = [\<lparr>na_Name = user, na_Cert = cert, na_Key = key\<rparr>]\<rparr>"

section \<open>Values of the helm chart\<close>

record OpenstackOptions =
  oo_AuthURL :: string
  oo_Username :: string
  oo_Password :: string
  oo_DomainName :: string
  oo_Region :: string

record HelmValues =
  hv_Openstack :: OpenstackOptions
  hv_ProjectID :: string
  hv_LbSubnetID :: string
  hv_RouterID :: string
  hv_Certs :: "(string \<times> string) list"
  hv_ClusterCIDR :: string
  hv_ServiceCIDR :: string
  hv_AdvertiseAddress :: string
  hv_BootstrapToken :: string
  hv_Version :: string
  hv_AccessMode :: string
  hv_ApiserverHost :: string
  hv_WormholeHost :: string

text \<open>\<open>URL.Hostname\<close> of a text \<open>scheme://host:port/path\<close>, without user info and without an IPv6
  literal; a text without a scheme has no host.\<close>

fun after_scheme :: "string \<Rightarrow> string" where
  "after_scheme [] = []"
| "after_scheme (c # s) = (if prefix ''://'' (c # s) then drop 3 (c # s) else after_scheme s)"

definition Hostname :: "string \<Rightarrow> string" where
  "Hostname url = takeWhile (\<lambda>c. c \<noteq> CHR '':'')
     (takeWhile (\<lambda>c. c \<noteq> CHR ''/'' \<and> c \<noteq> CHR ''?'' \<and> c \<noteq> CHR ''#'') (after_scheme url))"

definition helm_values ::
  "Kluster \<Rightarrow> OpenstackOptions \<Rightarrow> (string \<times> string) list \<Rightarrow> string \<Rightarrow> string \<Rightarrow> HelmValues" where
  "helm_values kluster openstack certificates bootstrapToken accessMode =
     \<lparr>hv_Openstack = openstack,
      hv_ProjectID = os_ProjectID (spec_Openstack (k_Spec kluster)),
      hv_LbSubnetID = os_LBSubnetID (spec_Openstack (k_Spec kluster)),
      hv_RouterID = os_RouterID (spec_Openstack (k_Spec kluster)),
      hv_Certs = certificates,
      hv_ClusterCIDR = spec_ClusterCIDR (k_Spec kluster),
      hv_ServiceCIDR = spec_ServiceCIDR (k_Spec kluster),
      hv_AdvertiseAddress = spec_AdvertiseAddress (k_Spec kluster),
      hv_BootstrapToken = bootstrapToken,
      hv_Version = st_Version (k_Status kluster),
      hv_AccessMode = accessMode,
      hv_ApiserverHost = Hostname (st_Apiserver (k_Status kluster)),
      hv_WormholeHost = Hostname (st_Wormhole (k_Status kluster))\<rparr>"

definition KlusterToHelmValues ::
  "(HelmValues \<Rightarrow> string outcome) \<Rightarrow> Kluster \<Rightarrow> OpenstackOptions \<Rightarrow> (string \<times> string) list \<Rightarrow> string \<Rightarrow> string \<Rightarrow> string outcome" where
  "KlusterToHelmValues yaml_Marshal kluster openstack certificates bootstrapToken accessMode =
     yaml_Marshal (helm_values kluster openstack certificates bootstrapToken accessMode)"

section \<open>Laws\<close>

lemma WaitForKluster_gone:
  "tick w = (Ok (), w1) \<Longrightarrow> GetByKey w1 key = None \<Longrightarrow>
     WaitForKluster tick GetByKey key c w = (Fail DoesNotExist, w1)"
proof -
  have "100 = Suc 99" by simp
  then show "tick w = (Ok (), w1) \<Longrightarrow> GetByKey w1 key = None \<Longrightarrow> ?thesis"
    unfolding WaitForKluster_def by (simp only: Poll.simps) (simp add: bnd_def)
qed

lemma WaitForKluster_hit:
  "tick w = (Ok (), w1) \<Longrightarrow> GetByKey w1 key = Some k \<Longrightarrow> c k \<Longrightarrow>
     WaitForKluster tick GetByKey key c w = (Ok (), w1)"
proof -
  have "100 = Suc 99" by simp
  then show "tick w = (Ok (), w1) \<Longrightarrow> GetByKey w1 key = Some k \<Longrightarrow> c k \<Longrightarrow> ?thesis"
    unfolding WaitForKluster_def by (simp only: Poll.simps) (simp add: bnd_def)
qed

lemma Hostname_https:
  assumes "\<forall>c\<in>set h. c \<noteq> CHR '':'' \<and> c \<noteq> CHR ''/'' \<and> c \<noteq> CHR ''?'' \<and> c \<noteq> CHR ''#''"
  shows "Hostname (''https://'' @ h) = h"
proof -
  have "after_scheme (''https://'' @ h) = h" by simp
  moreover have "takeWhile (\<lambda>c. c \<noteq> CHR ''/'' \<and> c \<noteq> CHR ''?'' \<and> c \<noteq> CHR ''#'') h = h"
    "takeWhile (\<lambda>c. c \<noteq> CHR '':'') h = h"
    using assms by (auto simp: takeWhile_eq_all_conv)
  ultimately show ?thesis by (simp only: Hostname_def)
qed

end
