(* ===== verification/Bootstrap.thy ===== *)
theory Bootstrap
  imports KubeUtil Factory
begin

text \<open>
  Seeding a new satellite cluster (\<open>src/pkg/controller/ground/bootstrap.go\<close>,
  \<open>bootstrap/dns/dns.go\<close>): roles, role bindings, the default storage class and kube-dns, each
  created or, if it is there already, updated. The API server of the satellite is the record
  \<open>KubeApi\<close>; rendering and decoding the two kube-dns manifests are parameters.
\<close>

section \<open>Objects\<close>

record DeploymentOptions =
  do_Repository :: string
  do_Version :: string
  do_Domain :: string

datatype kobj =
    StorageClass string "(string \<times> string) list" string
  | ClusterRole string "(string list \<times> string list \<times> string list) list"
  | ClusterRoleBinding string "string \<times> string \<times> string" "(string \<times> string) list"
  | ServiceAccount string string "(string \<times> string) list"
  | ConfigMap string string "(string \<times> string) list"
  | Deployment string string DeploymentOptions
  | Service string string string

text \<open>The key under which the API server keeps an object: kind, namespace and name.\<close>

fun kobj_key :: "kobj \<Rightarrow> string \<times> string \<times> string" where
  "kobj_key (StorageClass n _ _) = (''StorageClass'', [], n)"
| "kobj_key (ClusterRole n _) = (''ClusterRole'', [], n)"
| "kobj_key (ClusterRoleBinding n _ _) = (''ClusterRoleBinding'', [], n)"
| "kobj_key (ServiceAccount ns n _) = (''ServiceAccount'', ns, n)"
| "kobj_key (ConfigMap ns n _) = (''ConfigMap'', ns, n)"
| "kobj_key (Deployment ns n _) = (''Deployment'', ns, n)"
| "kobj_key (Service ns n _) = (''Service'', ns, n)"

record 'w KubeApi =
  ka_Create :: "kobj \<Rightarrow> ('w, unit) go"
  ka_Update :: "kobj \<Rightarrow> ('w, unit) go"

section \<open>Create or update\<close>

definition create_or_update :: "'w KubeApi \<Rightarrow> string \<Rightarrow> string \<Rightarrow> kobj \<Rightarrow> ('w, unit) go" where
  "create_or_update api cmsg umsg obj =
     tryc (ka_Create api obj)
       (\<lambda>err. if \<not> IsAlreadyExists err then fail (Errorf (cmsg @ '': '' @ Error err))
               else tryc (ka_Update api obj) (\<lambda>err. fail (Errorf (umsg @ '': '' @ Error err))) (\<lambda>_. ret ()))
       (\<lambda>_. ret ())"

definition CreateOrUpdateClusterRoleBinding :: "'w KubeApi \<Rightarrow> kobj \<Rightarrow> ('w, unit) go" where
  "CreateOrUpdateClusterRoleBinding api =
     create_or_update api ''unable to create RBAC clusterrolebinding'' ''unable to update RBAC clusterrolebinding''"

definition CreateOrUpdateClusterRole :: "'w KubeApi \<Rightarrow> kobj \<Rightarrow> ('w, unit) go" where
  "CreateOrUpdateClusterRole api =
     create_or_update api ''unable to create RBAC clusterrole'' ''unable to update RBAC clusterrole''"

definition CreateOrUpdateDeployment :: "'w KubeApi \<Rightarrow> kobj \<Rightarrow> ('w, unit) go" where
  "CreateOrUpdateDeployment api =
     create_or_update api ''unable to create deployment'' ''unable to update deployment''"

definition CreateOrUpdateService :: "'w KubeApi \<Rightarrow> kobj \<Rightarrow> ('w, unit) go" where
  "CreateOrUpdateService api =
     create_or_update api ''unable to create a new kube-dns service'' ''unable to create/update the kube-dns service''"

definition CreateOrUpdateConfigMap :: "'w KubeApi \<Rightarrow> kobj \<Rightarrow> ('w, unit) go" where
  "CreateOrUpdateConfigMap api =
     create_or_update api ''unable to create configmap'' ''unable to update configmap''"

text \<open>An existing service account is left as it is.\<close>

definition CreateOrUpdateServiceAccount :: "'w KubeApi \<Rightarrow> kobj \<Rightarrow> ('w, unit) go" where
  "CreateOrUpdateServiceAccount api sa =
     tryc (ka_Create api sa)
       (\<lambda>err. if \<not> IsAlreadyExists err then fail (Errorf (''unable to create serviceaccount: '' @ Error err))
               else ret ())
       (\<lambda>_. ret ())"

section \<open>Roles and storage\<close>

definition storage_class :: kobj where
  "storage_class = StorageClass ''cinder-default''
     [(''storageclass.kubernetes.io/is-default-class'', ''true'')] ''kubernetes.io/cinder''"

definition SeedCinderStorageClass :: "'w KubeApi \<Rightarrow> ('w, unit) go" where
  "SeedCinderStorageClass api =
     create_or_update api ''unable to create storage class'' ''unable to update storage class'' storage_class"

definition rbac_group :: string where "rbac_group = ''rbac.authorization.k8s.io''"

definition admin_binding :: kobj where
  "admin_binding = ClusterRoleBinding ''kubernikus:admin'' (rbac_group, ''ClusterRole'', ''cluster-admin'')
     [(''Group'', ''os:kubernetes_admin'')]"

definition SeedKubernikusAdmin :: "'w KubeApi \<Rightarrow> ('w, unit) go" where
  "SeedKubernikusAdmin api = CreateOrUpdateClusterRoleBinding api admin_binding"

definition bootstrap_binding :: kobj where
  "bootstrap_binding = ClusterRoleBinding ''kubernikus:kubelet-bootstrap''
     (rbac_group, ''ClusterRole'', ''system:node-bootstrapper'') [(''Group'', ''system:bootstrappers'')]"

definition SeedAllowBootstrapTokensToPostCSRs :: "'w KubeApi \<Rightarrow> ('w, unit) go" where
  "SeedAllowBootstrapTokensToPostCSRs api = CreateOrUpdateClusterRoleBinding api bootstrap_binding"

definition approve_role :: kobj where
  "approve_role = ClusterRole ''kubernikus:approve-node-client-csr''
     [([''create''], [''certificates.k8s.io''], [''certificatesigningrequests/nodeclient''])]"

definition approve_binding :: kobj where
  "approve_binding = ClusterRoleBinding ''kubernikus:node-client-csr-autoapprove''
     (rbac_group, ''ClusterRole'', ''kubernikus:approve-node-client-csr'') [(''Group'', ''system:bootstrappers'')]"

definition SeedAutoApproveNodeBootstrapTokens :: "'w KubeApi \<Rightarrow> ('w, unit) go" where
  "SeedAutoApproveNodeBootstrapTokens api =
     bnd (CreateOrUpdateClusterRole api approve_role) (\<lambda>_. CreateOrUpdateClusterRoleBinding api approve_binding)"

section \<open>Kube-dns\<close>

definition DEFAULT_REPOSITORY :: string where "DEFAULT_REPOSITORY = ''gcr.io/google_containers''"
definition DEFAULT_VERSION :: string where "DEFAULT_VERSION = ''1.14.5''"

definition dns_account :: kobj where
  "dns_account = ServiceAccount ''kube-system'' ''kube-dns''
     [(''kubernetes.io/cluster-service'', ''true''), (''addonmanager.kubernetes.io/mode'', ''Reconcile'')]"

definition dns_config :: kobj where
  "dns_config = ConfigMap ''kube-system'' ''kube-dns'' [(''addonmanager.kubernetes.io/mode'', ''EnsureExists'')]"

definition createKubeDNSServiceAccount :: "'w KubeApi \<Rightarrow> ('w, unit) go" where
  "createKubeDNSServiceAccount api = CreateOrUpdateServiceAccount api dns_account"

definition createKubeDNSConfigMap :: "'w KubeApi \<Rightarrow> ('w, unit) go" where
  "createKubeDNSConfigMap api = CreateOrUpdateConfigMap api dns_config"

text \<open>\<open>render\<close> and \<open>render_svc\<close> stand for rendering the manifest and decoding the result.\<close>

definition createKubeDNSDeployment ::
  "(DeploymentOptions \<Rightarrow> kobj outcome) \<Rightarrow> 'w KubeApi \<Rightarrow> string \<Rightarrow> string \<Rightarrow> string \<Rightarrow> ('w, unit) go" where
  "createKubeDNSDeployment render api repository version domain =
     bnd (lift_outcome (render \<lparr>do_Repository = repository, do_Version = version, do_Domain = domain\<rparr>))
       (CreateOrUpdateDeployment api)"

definition createKubeDNSService :: "(string \<Rightarrow> kobj outcome) \<Rightarrow> 'w KubeApi \<Rightarrow> string \<Rightarrow> ('w, unit) go" where
  "createKubeDNSService render_svc api clusterIP =
     bnd (lift_outcome (render_svc clusterIP)) (CreateOrUpdateService api)"

definition SeedKubeDNS ::
  "(DeploymentOptions \<Rightarrow> kobj outcome) \<Rightarrow> (string \<Rightarrow> kobj outcome) \<Rightarrow> 'w KubeApi \<Rightarrow>
     string \<Rightarrow> string \<Rightarrow> string \<Rightarrow> string \<Rightarrow> ('w, unit) go" where
  "SeedKubeDNS render render_svc api repository version domain clusterIP =
     (if clusterIP = [] then fail (Errorf ''Cluster IP for kube-dns service missing.'')
      else
        bnd (createKubeDNSServiceAccount api) (\<lambda>_.
        bnd (createKubeDNSConfigMap api) (\<lambda>_.
        bnd (createKubeDNSDeployment render api (default_string DEFAULT_REPOSITORY repository)
               (default_string DEFAULT_VERSION version) (default_string DEFAULT_DOMAIN domain)) (\<lambda>_.
        createKubeDNSService render_svc api clusterIP))))"

definition SeedKluster ::
  "(DeploymentOptions \<Rightarrow> kobj outcome) \<Rightarrow> (string \<Rightarrow> kobj outcome) \<Rightarrow> 'w KubeApi \<Rightarrow> Kluster \<Rightarrow> ('w, unit) go" where
  "SeedKluster render render_svc api kluster =
     bnd (SeedAllowBootstrapTokensToPostCSRs api) (\<lambda>_.
     bnd (SeedAutoApproveNodeBootstrapTokens api) (\<lambda>_.
     bnd (SeedKubernikusAdmin api) (\<lambda>_.
     bnd (SeedCinderStorageClass api) (\<lambda>_.
     SeedKubeDNS render render_svc api [] [] (spec_DNSDomain (k_Spec kluster)) (spec_DNSAddress (k_Spec kluster))))))"

section \<open>Seeding an API server\<close>

text \<open>What an API server does with a create and an update: the objects it holds are \<open>store w\<close>.\<close>

definition api_server :: "'w KubeApi \<Rightarrow> ('w \<Rightarrow> (string \<times> string \<times> string) \<rightharpoonup> kobj) \<Rightarrow> bool" where
  "api_server api store \<longleftrightarrow>
     (\<forall>w obj. case store w (kobj_key obj) of
        Some old \<Rightarrow> (\<exists>s. ka_Create api obj w = (Fail (ApiAlreadyExists s), w)) \<and>
           (\<exists>w'. ka_Update api obj w = (Ok (), w') \<and> store w' = (store w)(kobj_key obj \<mapsto> obj))
      | None \<Rightarrow> (\<exists>w'. ka_Create api obj w = (Ok (), w') \<and> store w' = (store w)(kobj_key obj \<mapsto> obj)))"

lemma api_serverD:
  assumes "api_server api store"
  shows "store w (kobj_key obj) = Some old \<Longrightarrow> (\<exists>s. ka_Create api obj w = (Fail (ApiAlreadyExists s), w)) \<and>
       (\<exists>w'. ka_Update api obj w = (Ok (), w') \<and> store w' = (store w)(kobj_key obj \<mapsto> obj))"
    and "store w (kobj_key obj) = None \<Longrightarrow>
       \<exists>w'. ka_Create api obj w = (Ok (), w') \<and> store w' = (store w)(kobj_key obj \<mapsto> obj)"
proof -
  have "case store w (kobj_key obj) of
        Some old \<Rightarrow> (\<exists>s. ka_Create api obj w = (Fail (ApiAlreadyExists s), w)) \<and>
           (\<exists>w'. ka_Update api obj w = (Ok (), w') \<and> store w' = (store w)(kobj_key obj \<mapsto> obj))
      | None \<Rightarrow> (\<exists>w'. ka_Create api obj w = (Ok (), w') \<and> store w' = (store w)(kobj_key obj \<mapsto> obj))"
    using assms unfolding api_server_def by blast
  then show "store w (kobj_key obj) = Some old \<Longrightarrow> (\<exists>s. ka_Create api obj w = (Fail (ApiAlreadyExists s), w)) \<and>
       (\<exists>w'. ka_Update api obj w = (Ok (), w') \<and> store w' = (store w)(kobj_key obj \<mapsto> obj))"
    "store w (kobj_key obj) = None \<Longrightarrow>
       \<exists>w'. ka_Create api obj w = (Ok (), w') \<and> store w' = (store w)(kobj_key obj \<mapsto> obj)"
    by simp_all
qed

lemma create_or_update_store:
  assumes "api_server api store"
  shows "\<exists>w'. create_or_update api c u obj w = (Ok (), w') \<and> store w' = (store w)(kobj_key obj \<mapsto> obj)"
  using api_serverD [OF assms, of w obj]
  by (cases "store w (kobj_key obj)") (auto simp: create_or_update_def)

lemma service_account_store:
  assumes "api_server api store"
  shows "\<exists>w'. CreateOrUpdateServiceAccount api obj w = (Ok (), w') \<and>
     store w' = (if store w (kobj_key obj) = None then (store w)(kobj_key obj \<mapsto> obj) else store w)"
  using api_serverD [OF assms, of w obj]
  by (cases "store w (kobj_key obj)") (auto simp: CreateOrUpdateServiceAccount_def)

type_synonym kstore = "(string \<times> string \<times> string) \<rightharpoonup> kobj"

definition put_obj :: "kobj \<Rightarrow> kstore \<Rightarrow> kstore" where
  "put_obj obj m = m(kobj_key obj \<mapsto> obj)"

definition add_missing :: "kobj \<Rightarrow> kstore \<Rightarrow> kstore" where
  "add_missing obj m = (if m (kobj_key obj) = None then m(kobj_key obj \<mapsto> obj) else m)"

text \<open>The contents of a cluster after it has been seeded with a deployment and a service of
  kube-dns.\<close>

definition seeded :: "kobj \<Rightarrow> kobj \<Rightarrow> kstore \<Rightarrow> kstore" where
  "seeded dep sv m =
     put_obj sv (put_obj dep (put_obj dns_config (add_missing dns_account
       (put_obj storage_class (put_obj admin_binding (put_obj approve_binding
         (put_obj approve_role (put_obj bootstrap_binding m))))))))"

lemma create_or_update_put:
  assumes "api_server api store"
  obtains w' where "create_or_update api c u obj w = (Ok (), w')" "store w' = put_obj obj (store w)"
  using create_or_update_store [OF assms, of c u obj w] by (auto simp: put_obj_def)

lemma service_account_add:
  assumes "api_server api store"
  obtains w' where "CreateOrUpdateServiceAccount api obj w = (Ok (), w')"
    "store w' = add_missing obj (store w)"
  using service_account_store [OF assms, of obj w] by (auto simp: add_missing_def)

lemma SeedKluster_store:
  assumes api: "api_server api store" and addr: "spec_DNSAddress (k_Spec kluster) \<noteq> []"
    and dep: "render \<lparr>do_Repository = DEFAULT_REPOSITORY, do_Version = DEFAULT_VERSION,
       do_Domain = default_string DEFAULT_DOMAIN (spec_DNSDomain (k_Spec kluster))\<rparr> = Ok dep"
    and sv: "render_svc (spec_DNSAddress (k_Spec kluster)) = Ok sv"
  shows "\<exists>w'. SeedKluster render render_svc api kluster w = (Ok (), w') \<and> store w' = seeded dep sv (store w)"
proof -
  note cou = create_or_update_put [OF api]
  obtain w1 where 1: "SeedAllowBootstrapTokensToPostCSRs api w = (Ok (), w1)"
    "store w1 = put_obj bootstrap_binding (store w)"
    unfolding SeedAllowBootstrapTokensToPostCSRs_def CreateOrUpdateClusterRoleBinding_def by (rule cou)
  obtain w2 where 2: "CreateOrUpdateClusterRole api approve_role w1 = (Ok (), w2)"
    "store w2 = put_obj approve_role (store w1)"
    unfolding CreateOrUpdateClusterRole_def by (rule cou)
  obtain w3 where 3: "CreateOrUpdateClusterRoleBinding api approve_binding w2 = (Ok (), w3)"
    "store w3 = put_obj approve_binding (store w2)"
    unfolding CreateOrUpdateClusterRoleBinding_def by (rule cou)
  obtain w4 where 4: "SeedKubernikusAdmin api w3 = (Ok (), w4)" "store w4 = put_obj admin_binding (store w3)"
    unfolding SeedKubernikusAdmin_def CreateOrUpdateClusterRoleBinding_def by (rule cou)
  obtain w5 where 5: "SeedCinderStorageClass api w4 = (Ok (), w5)" "store w5 = put_obj storage_class (store w4)"
    unfolding SeedCinderStorageClass_def by (rule cou)
  obtain w6 where 6: "createKubeDNSServiceAccount api w5 = (Ok (), w6)"
    "store w6 = add_missing dns_account (store w5)"
    unfolding createKubeDNSServiceAccount_def by (rule service_account_add [OF api])
  obtain w7 where 7: "createKubeDNSConfigMap api w6 = (Ok (), w7)" "store w7 = put_obj dns_config (store w6)"
    unfolding createKubeDNSConfigMap_def CreateOrUpdateConfigMap_def by (rule cou)
  obtain w8 where 8: "CreateOrUpdateDeployment api dep w7 = (Ok (), w8)" "store w8 = put_obj dep (store w7)"
    unfolding CreateOrUpdateDeployment_def by (rule cou)
  obtain w9 where 9: "CreateOrUpdateService api sv w8 = (Ok (), w9)" "store w9 = put_obj sv (store w8)"
    unfolding CreateOrUpdateService_def by (rule cou)
  have "SeedKluster render render_svc api kluster w = (Ok (), w9)"
    using 1 2 3 4 5 6 7 8 9 addr dep sv
    by (simp add: SeedKluster_def SeedAutoApproveNodeBootstrapTokens_def SeedKubeDNS_def
        createKubeDNSDeployment_def createKubeDNSService_def default_string_def)
  with 1 2 3 4 5 6 7 8 9 show ?thesis by (auto simp: seeded_def)
qed

definition seeded_objects :: "kobj \<Rightarrow> kobj \<Rightarrow> kobj list" where
  "seeded_objects dep sv =
     [bootstrap_binding, approve_role, approve_binding, admin_binding, storage_class, dns_config, dep, sv]"

lemmas seed_defs = bootstrap_binding_def approve_role_def approve_binding_def admin_binding_def
  storage_class_def dns_config_def dns_account_def

text \<open>Where the manifests of kube-dns put their objects.\<close>

definition dns_keys :: "kobj \<Rightarrow> kobj \<Rightarrow> bool" where
  "dns_keys dep sv \<longleftrightarrow> kobj_key dep = (''Deployment'', ''kube-system'', ''kube-dns'') \<and>
     kobj_key sv = (''Service'', ''kube-system'', ''kube-dns'')"

lemma fold_put_other: "key \<notin> kobj_key ` set objs \<Longrightarrow> fold put_obj objs m key = m key"
  by (induction objs arbitrary: m) (auto simp: put_obj_def)

lemma fold_put_elem:
  "distinct (map kobj_key objs) \<Longrightarrow> obj \<in> set objs \<Longrightarrow> fold put_obj objs m (kobj_key obj) = Some obj"
proof (induction objs arbitrary: m)
  case (Cons x objs)
  show ?case
  proof (cases "obj = x")
    case True
    with Cons.prems have "fold put_obj objs (put_obj x m) (kobj_key x) = put_obj x m (kobj_key x)"
      by (intro fold_put_other) auto
    moreover have "put_obj x m (kobj_key x) = Some x" by (simp add: put_obj_def)
    ultimately show ?thesis using True by simp
  qed (use Cons in simp)
qed simp

definition rbac_objects :: "kobj list" where
  "rbac_objects = [bootstrap_binding, approve_role, approve_binding, admin_binding, storage_class]"

definition dns_objects :: "kobj \<Rightarrow> kobj \<Rightarrow> kobj list" where
  "dns_objects dep sv = [dns_config, dep, sv]"

lemma seeded_fold:
  "seeded dep sv m = fold put_obj (dns_objects dep sv) (add_missing dns_account (fold put_obj rbac_objects m))"
  by (simp add: seeded_def rbac_objects_def dns_objects_def)

lemma seeded_objects_split: "seeded_objects dep sv = rbac_objects @ dns_objects dep sv"
  by (simp add: seeded_objects_def rbac_objects_def dns_objects_def)

lemma seed_keys_distinct:
  "dns_keys dep sv \<Longrightarrow> distinct (map kobj_key (dns_account # rbac_objects @ dns_objects dep sv))"
  by (simp add: rbac_objects_def dns_objects_def dns_keys_def seed_defs)

lemma seeded_has:
  assumes "dns_keys dep sv"
  shows "list_all (\<lambda>obj. seeded dep sv m (kobj_key obj) = Some obj) (seeded_objects dep sv)"
    and "seeded dep sv m (kobj_key dns_account) =
       Some (case m (kobj_key dns_account) of None \<Rightarrow> dns_account | Some old \<Rightarrow> old)"
    and "key \<notin> kobj_key ` set (dns_account # seeded_objects dep sv) \<Longrightarrow> seeded dep sv m key = m key"
proof -
  note d = seed_keys_distinct [OF assms]
  have r: "distinct (map kobj_key rbac_objects)" and o1: "distinct (map kobj_key (dns_objects dep sv))"
    and a: "kobj_key dns_account \<notin> kobj_key ` set rbac_objects"
       "kobj_key dns_account \<notin> kobj_key ` set (dns_objects dep sv)"
    and ro: "obj \<in> set rbac_objects \<Longrightarrow> kobj_key obj \<notin> kobj_key ` set (dns_objects dep sv)" for obj
    using d by auto
  have "seeded dep sv m (kobj_key obj) = Some obj" if "obj \<in> set rbac_objects" for obj
  proof -
    have "kobj_key obj \<noteq> kobj_key dns_account" using a(1) that by (metis imageI)
    then show ?thesis
      using fold_put_elem [OF r that] fold_put_other [OF ro [OF that]]
      by (simp add: seeded_fold add_missing_def)
  qed
  then show "list_all (\<lambda>obj. seeded dep sv m (kobj_key obj) = Some obj) (seeded_objects dep sv)"
    using fold_put_elem [OF o1] by (auto simp: list_all_iff seeded_objects_split seeded_fold)
  show "seeded dep sv m (kobj_key dns_account) =
       Some (case m (kobj_key dns_account) of None \<Rightarrow> dns_account | Some old \<Rightarrow> old)"
    using fold_put_other [OF a(1)] fold_put_other [OF a(2)]
    by (auto simp: seeded_fold add_missing_def split: option.split)
  show "key \<notin> kobj_key ` set (dns_account # seeded_objects dep sv) \<Longrightarrow> seeded dep sv m key = m key"
    using fold_put_other [of key rbac_objects] fold_put_other [of key "dns_objects dep sv"]
    by (simp add: seeded_objects_split seeded_fold add_missing_def image_Un)
qed

lemma seeded_idem:
  assumes "dns_keys dep sv"
  shows "seeded dep sv (seeded dep sv m) = seeded dep sv m"
proof
  fix key
  show "seeded dep sv (seeded dep sv m) key = seeded dep sv m key"
  proof (cases "key \<in> kobj_key ` set (seeded_objects dep sv)")
    case True
    with seeded_has(1) [OF assms] show ?thesis by (auto simp: list_all_iff)
  next
    case False
    with seeded_has(2,3) [OF assms] show ?thesis by (cases "key = kobj_key dns_account") auto
  qed
qed


definition demo_api :: "kstore KubeApi" where
  "demo_api =
     \<lparr>ka_Create = (\<lambda>obj m. if m (kobj_key obj) = None then (Ok (), m(kobj_key obj \<mapsto> obj))
                          else (Fail (ApiAlreadyExists ''exists''), m)),
      ka_Update = (\<lambda>obj m. (Ok (), m(kobj_key obj \<mapsto> obj)))\<rparr>"

lemma demo_api_server: "api_server demo_api (\<lambda>m. m)"
  by (auto simp: api_server_def demo_api_def split: option.split)

definition seed_kluster :: Kluster where
  "seed_kluster = \<lparr>k_Name = ''demo'', k_Namespace = ''kubernikus'', k_UID = ''1'', k_Labels = [], k_Annotations = [],
     k_CreationTimestamp = 0, k_Spec = zero_KlusterSpec\<lparr>spec_DNSAddress := ''198.18.128.2''\<rparr>,
     k_Status = zero_KlusterStatus\<rparr>"


end
