(* ===== verification/Metrics.thy ===== *)
theory Metrics
  imports Models
begin

text \<open>
  The gauges of the operator (\<open>src/pkg/controller/metrics/metrics.go\<close>): a gauge vector is a map
  from label values to a number; only the numbers the code sets occur, all of them whole.
\<close>

record kmetrics =
  m_klusterInfo :: "string list \<rightharpoonup> int"
  m_klusterStatusPhase :: "string \<times> string \<rightharpoonup> int"
  m_nodePoolSize :: "string list \<rightharpoonup> int"
  m_nodePoolStatus :: "string list \<rightharpoonup> int"
  m_bootDurations :: "int list"

definition klusterPhases :: "KlusterPhase list" where
  "klusterPhases = [KlusterPhasePending, KlusterPhaseCreating, KlusterPhaseRunning, KlusterPhaseTerminating]"

definition boolToFloat64 :: "bool \<Rightarrow> int" where
  "boolToFloat64 b = (if b then 1 else 0)"

definition getCreatorFromAnnotations :: "(string \<times> string) list \<Rightarrow> string" where
  "getCreatorFromAnnotations annotations =
     (case map_of annotations ''creator'' of None \<Rightarrow> ''NA'' | Some creator \<Rightarrow> creator)"

definition getAccountFromLabels :: "(string \<times> string) list \<Rightarrow> string" where
  "getAccountFromLabels labels =
     (case map_of labels ''account'' of None \<Rightarrow> ''NA'' | Some account \<Rightarrow> account)"

definition SetMetricKlusterInfo ::
  "string \<Rightarrow> string \<Rightarrow> string \<Rightarrow> string \<Rightarrow> (string \<times> string) list \<Rightarrow> (string \<times> string) list \<Rightarrow> kmetrics \<Rightarrow> kmetrics" where
  "SetMetricKlusterInfo namespace name version projectID annotations labels m =
     m\<lparr>m_klusterInfo := (m_klusterInfo m)([namespace, name, version, getCreatorFromAnnotations annotations,
         getAccountFromLabels labels, projectID] \<mapsto> 1)\<rparr>"

definition SetMetricKlusterStatusPhase :: "string \<Rightarrow> KlusterPhase \<Rightarrow> kmetrics \<Rightarrow> kmetrics" where
  "SetMetricKlusterStatusPhase klusterName klusterPhase m =
     fold (\<lambda>phase m. m\<lparr>m_klusterStatusPhase :=
         (m_klusterStatusPhase m)((klusterName, phase_string phase) \<mapsto> boolToFloat64 (klusterPhase = phase))\<rparr>)
       klusterPhases m"

definition SetMetricKlusterTerminated :: "string \<Rightarrow> kmetrics \<Rightarrow> kmetrics" where
  "SetMetricKlusterTerminated klusterName m =
     fold (\<lambda>phase m. m\<lparr>m_klusterStatusPhase := (m_klusterStatusPhase m)((klusterName, phase_string phase) \<mapsto> 0)\<rparr>)
       klusterPhases m"

definition setMetricNodePoolSize :: "string \<Rightarrow> string \<Rightarrow> string \<Rightarrow> string \<Rightarrow> int \<Rightarrow> kmetrics \<Rightarrow> kmetrics" where
  "setMetricNodePoolSize klusterID nodePoolName imageName flavorName sz m =
     m\<lparr>m_nodePoolSize := (m_nodePoolSize m)([klusterID, nodePoolName, imageName, flavorName] \<mapsto> sz)\<rparr>"

definition setMetricNodePoolStatus :: "string \<Rightarrow> string \<Rightarrow> (string \<times> int) list \<Rightarrow> kmetrics \<Rightarrow> kmetrics" where
  "setMetricNodePoolStatus klusterID nodePoolName status m =
     fold (\<lambda>(s, v) m. m\<lparr>m_nodePoolStatus := (m_nodePoolStatus m)([klusterID, nodePoolName, s] \<mapsto> v)\<rparr>) status m"

definition SetMetricBootDurationSummary :: "int \<Rightarrow> int \<Rightarrow> kmetrics \<Rightarrow> kmetrics" where
  "SetMetricBootDurationSummary creationTimestamp now m =
     m\<lparr>m_bootDurations := m_bootDurations m @ [now - creationTimestamp]\<rparr>"

text \<open>After the phase of a kluster has been reported, the gauge of that phase is 1 and the
  gauges of the other three are 0 (an unknown phase leaves all four at 0); after its
  termination all are 0. The gauges of other klusters do not change.\<close>

theorem phase_gauges:
  "p \<in> set klusterPhases \<Longrightarrow>
     m_klusterStatusPhase (SetMetricKlusterStatusPhase name ph m) (name, phase_string p) =
       Some (if p = ph then 1 else 0) \<and>
     m_klusterStatusPhase (SetMetricKlusterTerminated name m) (name, phase_string p) = Some 0 \<and>
     (other \<noteq> name \<longrightarrow>
        m_klusterStatusPhase (SetMetricKlusterStatusPhase name ph m) (other, l) = m_klusterStatusPhase m (other, l) \<and>
        m_klusterStatusPhase (SetMetricKlusterTerminated name m) (other, l) = m_klusterStatusPhase m (other, l))"
  by (auto simp: SetMetricKlusterStatusPhase_def SetMetricKlusterTerminated_def klusterPhases_def boolToFloat64_def)

theorem phase_gauges_witness:
  "m_klusterStatusPhase (SetMetricKlusterStatusPhase ''demo'' KlusterPhaseRunning
     \<lparr>m_klusterInfo = Map.empty, m_klusterStatusPhase = Map.empty, m_nodePoolSize = Map.empty,
      m_nodePoolStatus = Map.empty, m_bootDurations = []\<rparr>) (''demo'', ''Running'') = Some 1"
  using phase_gauges [of KlusterPhaseRunning "''demo''" KlusterPhaseRunning
     "\<lparr>m_klusterInfo = Map.empty, m_klusterStatusPhase = Map.empty, m_nodePoolSize = Map.empty,
      m_nodePoolStatus = Map.empty, m_bootDurations = []\<rparr>"]
  by (simp add: klusterPhases_def)

end
