(* ===== verification/KlusterStore.thy ===== *)
theory KlusterStore
  imports Clients
begin

text \<open>
  The custom resources as the API server keeps them: what the typed client of the generated
  clientset (\<open>src/pkg/generated/clientset/typed/kubernikus/v1/kluster.go\<close>) promises to the
  controllers and to the API handlers, as laws over a store of resources, and a store that
  satisfies them.
\<close>

text \<open>The API server holds the resources \<open>st w\<close>: \<open>Get\<close> reads them, \<open>Update\<close> replaces an existing
  one, \<open>Delete\<close> removes it.\<close>

type_synonym kluster_store = "(string \<times> string) \<rightharpoonup> Kluster"

definition kluster_api :: "'w KlusterClient \<Rightarrow> ('w \<Rightarrow> kluster_store) \<Rightarrow> bool" where
  "kluster_api kc st \<longleftrightarrow>
     (\<forall>w ns n k w'. kc_Get kc ns n w = (Ok k, w') \<longrightarrow> st w (ns, n) = Some k \<and> k_Name k = n \<and> k_Namespace k = ns) \<and>
     (\<forall>w ns n. st (snd (kc_Get kc ns n w)) = st w) \<and>
     (\<forall>w ns k r w'. kc_Update kc ns k w = (r, w') \<longrightarrow>
        (is_ok r \<longrightarrow> st w' = (st w)((ns, k_Name k) \<mapsto> k)) \<and> (\<not> is_ok r \<longrightarrow> st w' = st w)) \<and>
     (\<forall>w ns n r w'. kc_Delete kc ns n w = (r, w') \<longrightarrow>
        (is_ok r \<longrightarrow> st w' = (st w)((ns, n) := None)) \<and> (\<not> is_ok r \<longrightarrow> st w' = st w))"

text \<open>\<open>Create\<close> adds a resource if its name is free. The server fills in the namespace, the UID and
  the time; name, labels, annotations, spec and status are those of the request. \<open>List\<close> returns
  the resources of a namespace whose account label is the one selected (without a namespace the
  request would go to all of them). \<open>Update\<close> returns what it stored.\<close>

definition kluster_create_api :: "'w KlusterClient \<Rightarrow> ('w \<Rightarrow> kluster_store) \<Rightarrow> bool" where
  "kluster_create_api kc st \<longleftrightarrow>
     (\<forall>w ns k r w'. kc_Create kc ns k w = (r, w') \<longrightarrow>
        (case r of
           Ok k' \<Rightarrow> st w (ns, k_Name k) = None \<and> st w' = (st w)((ns, k_Name k) \<mapsto> k') \<and>
             k_Name k' = k_Name k \<and> k_Namespace k' = ns \<and> k_Labels k' = k_Labels k \<and>
             k_Annotations k' = k_Annotations k \<and> k_Spec k' = k_Spec k \<and> k_Status k' = k_Status k
         | _ \<Rightarrow> st w' = st w))"

definition kluster_list_api :: "'w KlusterClient \<Rightarrow> ('w \<Rightarrow> kluster_store) \<Rightarrow> bool" where
  "kluster_list_api kc st \<longleftrightarrow>
     (\<forall>w ns account ks w'. kc_List kc ns (''account='' @ account) w = (Ok ks, w') \<and> ns \<noteq> [] \<longrightarrow>
        set ks = {k. \<exists>n. st w (ns, n) = Some k \<and> map_of (k_Labels k) ''account'' = Some account})"

lemma Get_triple:
  assumes "kluster_api kc st"
  shows "triple (\<lambda>w. Q (st w)) (kc_Get kc ns n)
     (\<lambda>k w. Q (st w) \<and> st w (ns, n) = Some k \<and> k_Name k = n \<and> k_Namespace k = ns) (\<lambda>w. Q (st w))"
proof -
  have "\<And>w r w'. kc_Get kc ns n w = (r, w') \<Longrightarrow> st w' = st w"
    using assms unfolding kluster_api_def by (metis snd_conv)
  with assms show ?thesis unfolding kluster_api_def by (intro tripleI) metis+
qed

lemma Update_triple:
  assumes "kluster_api kc st"
  shows "triple (\<lambda>w. Q (st w) \<and> R ((st w)((ns, k_Name k) \<mapsto> k))) (kc_Update kc ns k)
     (\<lambda>_ w. R (st w)) (\<lambda>w. Q (st w))"
  using assms unfolding kluster_api_def by (intro tripleI) (metis is_ok.simps)+

definition stored_klusters :: "kluster_store KlusterClient" where
  "stored_klusters = \<lparr>
     kc_Get = (\<lambda>ns n w. case w (ns, n) of
         Some k \<Rightarrow> if k_Name k = n \<and> k_Namespace k = ns then (Ok k, w) else (Fail (ApiNotFound n), w)
       | None \<Rightarrow> (Fail (ApiNotFound n), w)),
     kc_List = \<lambda>_ _. ret [],
     kc_Create = (\<lambda>ns k w. if w (ns, k_Name k) \<noteq> None then (Fail (ApiAlreadyExists (k_Name k)), w)
         else (Ok (k\<lparr>k_Namespace := ns\<rparr>), w((ns, k_Name k) \<mapsto> k\<lparr>k_Namespace := ns\<rparr>))),
     kc_Update = (\<lambda>ns k w. if w (ns, k_Name k) = None then (Fail (ApiNotFound (k_Name k)), w)
                           else (Ok k, w((ns, k_Name k) \<mapsto> k))),
     kc_Delete = (\<lambda>ns n w. if w (ns, n) = None then (Fail (ApiNotFound n), w) else (Ok (), w((ns, n) := None)))\<rparr>"

lemma stored_klusters_api: "kluster_api stored_klusters id" "kluster_create_api stored_klusters id"
  by (auto simp: kluster_api_def kluster_create_api_def stored_klusters_def split: option.splits if_splits)

end
