(* ===== verification/Ground.thy ===== *)
theory Ground
  imports Bootstrap BaseController Metrics KlusterStore
begin

text \<open>
  Ground control (\<open>src/pkg/controller/ground.go\<close>): the controller that takes a kluster from the
  phase Pending over Creating to Running and tears it down in the phase Terminating. The
  services it calls are the record \<open>GroundEnv\<close> over a world \<open>'w\<close> (which also holds the
  informer caches); the events it records and the gauges it sets are its own state \<open>gctl\<close>.
\<close>

record 'w GroundEnv =
  ge_Clients :: "'w Clients"
  ge_listStorageClasses :: "('w, string list) go"
  ge_listVolumes :: "('w, string list list) go"
  ge_CreateCertificates :: "Kluster \<Rightarrow> string \<Rightarrow> string \<Rightarrow> string \<Rightarrow> ('w, (string \<times> string) list) go"
  ge_Random :: "nat \<Rightarrow> ('w, string) go"
  ge_yaml_Marshal :: "HelmValues \<Rightarrow> string outcome"
  ge_GetByKey :: "'w \<Rightarrow> string \<Rightarrow> Kluster option"
  ge_podsByIndex :: "string \<Rightarrow> ('w, Pod list) go"
  ge_tick :: "('w, unit) go"
  ge_ClientFor :: "Kluster \<Rightarrow> ('w, 'w KubeApi) go"
  ge_render :: "DeploymentOptions \<Rightarrow> kobj outcome"
  ge_render_svc :: "string \<Rightarrow> kobj outcome"
  ge_now :: "'w \<Rightarrow> int"
  ge_AuthURL :: string
  ge_Domain :: string
  ge_ChartDirectory :: string

record gctl =
  g_events :: "event list"
  g_metrics :: kmetrics

definition Eventf :: "Kluster \<Rightarrow> string \<Rightarrow> string \<Rightarrow> string \<Rightarrow> ('w \<times> gctl, unit) go" where
  "Eventf kluster typ reason msg =
     client_set (\<lambda>g. g\<lparr>g_events := g_events g @
       [\<lparr>ev_object = k_Name kluster, ev_type = typ, ev_reason = reason, ev_message = msg\<rparr>]\<rparr>)"

definition set_metric :: "(kmetrics \<Rightarrow> kmetrics) \<Rightarrow> ('w \<times> gctl, unit) go" where
  "set_metric f = client_set (\<lambda>g. g\<lparr>g_metrics := f (g_metrics g)\<rparr>)"

text \<open>\<open>if err := m; err != nil { op.Recorder.Eventf(...); return err }\<close>\<close>

definition or_event :: "Kluster \<Rightarrow> string \<Rightarrow> string \<Rightarrow> ('w \<times> gctl, unit) go \<Rightarrow> ('w \<times> gctl, unit) go" where
  "or_event kluster reason msg m =
     tryc m (\<lambda>err. bnd (Eventf kluster ''Warning'' reason (msg @ Error err)) (\<lambda>_. fail err)) (\<lambda>_. ret ())"

section \<open>Discovery\<close>

definition requiresOpenstackInfo :: "Kluster \<Rightarrow> bool" where
  "requiresOpenstackInfo kluster \<longleftrightarrow>
     os_ProjectID (spec_Openstack (k_Spec kluster)) = [] \<or>
     os_RouterID (spec_Openstack (k_Spec kluster)) = [] \<or>
     os_NetworkID (spec_Openstack (k_Spec kluster)) = [] \<or>
     os_LBSubnetID (spec_Openstack (k_Spec kluster)) = []"

definition requiresKubernikusInfo :: "Kluster \<Rightarrow> bool" where
  "requiresKubernikusInfo kluster \<longleftrightarrow> st_Apiserver (k_Status kluster) = [] \<or> st_Wormhole (k_Status kluster) = []"

definition discoverKubernikusInfo :: "'w GroundEnv \<Rightarrow> Kluster \<Rightarrow> ('w, unit) go" where
  "discoverKubernikusInfo ge kluster =
     bnd (kc_Get (cl_Klusters (ge_Clients ge)) (k_Namespace kluster) (k_Name kluster)) (\<lambda>copy.
       let st = k_Status copy;
           st1 = (if st_Apiserver st = []
                  then st\<lparr>st_Apiserver := ''https://'' @ k_Name kluster @ ''.'' @ ge_Domain ge\<rparr> else st);
           st2 = (if st_Wormhole st1 = []
                  then st1\<lparr>st_Wormhole := ''https://'' @ k_Name kluster @ ''-wormhole.'' @ ge_Domain ge\<rparr> else st1)
       in bnd (kc_Update (cl_Klusters (ge_Clients ge)) (k_Namespace kluster) (copy\<lparr>k_Status := st2\<rparr>)) (\<lambda>_. ret ()))"

text \<open>The choice of the router, the network and the subnet: the one the spec names, or else the
  only one there is.\<close>

definition select_router :: "Router list \<Rightarrow> string \<Rightarrow> Router outcome" where
  "select_router routers routerID =
     (if routerID \<noteq> []
      then (case List.find (\<lambda>r. rt_ID r = routerID) routers of
              Some r \<Rightarrow> Ok r
            | None \<Rightarrow> Fail (Errorf (''Specified router '' @ routerID @ '' not found in project'')))
      else (case routers of
              [r] \<Rightarrow> Ok r
            | _ \<Rightarrow> Fail (Errorf (''Found '' @ nat_dec (length routers) @ '' routers in project. Autoconfiguration not possible.''))))"

definition select_network :: "Router \<Rightarrow> string \<Rightarrow> Network outcome" where
  "select_network router networkID =
     (if networkID \<noteq> []
      then (case List.find (\<lambda>n. nw_ID n = networkID) (rt_Networks router) of
              Some n \<Rightarrow> Ok n
            | None \<Rightarrow> Fail (Errorf (''Selected network '' @ networkID @ '' not found on router '' @ rt_ID router)))
      else (case rt_Networks router of
              [n] \<Rightarrow> Ok n
            | _ \<Rightarrow> Fail (Errorf (''Found '' @ nat_dec (length (rt_Networks router)) @ '' networks on router ''
                    @ rt_ID router @ ''. Auto-configuration not possible. Please choose one.''))))"

definition select_subnet :: "Network \<Rightarrow> string \<Rightarrow> string outcome" where
  "select_subnet network subnetID =
     (if subnetID \<noteq> []
      then (if list_ex (\<lambda>s. sn_ID s = subnetID) (nw_Subnets network) then Ok subnetID
            else Fail (Errorf (''Selected subnet '' @ subnetID @ '' not found in network '' @ nw_ID network)))
      else (case nw_Subnets network of
              [s] \<Rightarrow> Ok (sn_ID s)
            | _ \<Rightarrow> Fail (Errorf (''Found '' @ nat_dec (length (nw_Subnets network)) @ '' subnets for network ''
                    @ nw_ID network @ ''. Auto-configuration not possible. Please choose one.''))))"

definition select_openstack :: "Router list \<Rightarrow> string \<Rightarrow> OpenstackSpec \<Rightarrow> OpenstackSpec outcome" where
  "select_openstack routers account os =
     obind (select_router routers (os_RouterID os)) (\<lambda>router.
     obind (select_network router (os_NetworkID os)) (\<lambda>network.
     obind (select_subnet network (os_LBSubnetID os)) (\<lambda>subnetID.
     Ok (os\<lparr>os_ProjectID := (if os_ProjectID os = [] then account else os_ProjectID os),
            os_RouterID := (if os_RouterID os \<noteq> [] then os_RouterID os else rt_ID router),
            os_NetworkID := (if os_NetworkID os \<noteq> [] then os_NetworkID os else nw_ID network),
            os_LBSubnetID := subnetID\<rparr>))))"

definition discoverOpenstackInfo :: "'w GroundEnv \<Rightarrow> Kluster \<Rightarrow> ('w, unit) go" where
  "discoverOpenstackInfo ge kluster =
     bnd (oc_GetRouters (cl_Openstack (ge_Clients ge)) (Account kluster)) (\<lambda>routers.
     bnd (kc_Get (cl_Klusters (ge_Clients ge)) (k_Namespace kluster) (k_Name kluster)) (\<lambda>copy.
     bnd (lift_outcome (select_openstack routers (Account kluster) (spec_Openstack (k_Spec copy)))) (\<lambda>os.
     bnd (if os_SecurityGroupID os \<noteq> [] then ret os
          else tryc (oc_GetSecurityGroupID (cl_Openstack (ge_Clients ge)) (Account kluster) ''default'')
                 (\<lambda>err. fail (Errorf (''Failed to get id for default securitygroup in project '' @ Error err
                               @ '': '' @ Account kluster)))
                 (\<lambda>sg. ret (os\<lparr>os_SecurityGroupID := sg\<rparr>))) (\<lambda>os2.
     bnd (kc_Update (cl_Klusters (ge_Clients ge)) (k_Namespace kluster)
            (copy\<lparr>k_Spec := (k_Spec copy)\<lparr>spec_Openstack := os2\<rparr>\<rparr>)) (\<lambda>_. ret ())))))"

section \<open>Phases\<close>

definition updatePhase :: "'w GroundEnv \<Rightarrow> Kluster \<Rightarrow> KlusterPhase \<Rightarrow> string \<Rightarrow> ('w \<times> gctl, unit) go" where
  "updatePhase ge kluster phase message =
     bnd (svc (kc_Get (cl_Klusters (ge_Clients ge)) (k_Namespace kluster) (k_Name kluster))) (\<lambda>k.
       if st_Phase (k_Status k) = phase then ret ()
       else
         bnd (Eventf k ''Normal'' (phase_string phase) (phase_string phase @ '' cluster'')) (\<lambda>_.
         let k2 = k\<lparr>k_Status := (k_Status k)\<lparr>st_Message := message, st_Phase := phase\<rparr>\<rparr> in
         bnd (svc (kc_Update (cl_Klusters (ge_Clients ge)) (k_Namespace k2) k2)) (\<lambda>_.
         ignore_err (svc (WaitForKluster (ge_tick ge) (ge_GetByKey ge) (kluster_key k2)
           (\<lambda>c. st_Phase (k_Status c) = phase))))))"

text \<open>\<open>path.Join(op.Config.Helm.ChartDirectory, "kube-master")\<close> for a clean directory name.\<close>

definition chart_path :: "'w GroundEnv \<Rightarrow> string" where
  "chart_path ge = (if ge_ChartDirectory ge = [] then ''kube-master'' else ge_ChartDirectory ge @ ''/kube-master'')"

definition wrap_err :: "string \<Rightarrow> ('w, 'a) go \<Rightarrow> ('w, 'a) go" where
  "wrap_err msg m = tryc m (\<lambda>err. fail (Errorf (msg @ Error err))) ret"

definition createKluster :: "'w GroundEnv \<Rightarrow> Kluster \<Rightarrow> ('w, unit) go" where
  "createKluster ge kluster =
     (let os = cl_Openstack (ge_Clients ge) in
      bnd (wrap_err ''Couldn't determine access mode for pvc: ''
             (PVAccessMode (ge_listStorageClasses ge) (ge_listVolumes ge))) (\<lambda>accessMode.
      bnd (wrap_err ''Couldn't determine kubernikus api from service catalog: ''
             (oc_GetKubernikusCatalogEntry os)) (\<lambda>apiURL.
      bnd (wrap_err ''Failed to generate certificates: ''
             (ge_CreateCertificates ge kluster apiURL (ge_AuthURL ge) (ge_Domain ge))) (\<lambda>certificates.
      bnd (tryc (ge_Random ge 16) (\<lambda>_. ret []) ret) (\<lambda>bootstrapToken.
      bnd (wrap_err ''Failed to generate password: '' (ge_Random ge 20)) (\<lambda>password.
      bnd (oc_GetRegion os) (\<lambda>region.
      bnd (oc_CreateKlusterServiceUser os (''kubernikus-'' @ k_Name kluster) password ''kubernikus''
             (os_ProjectID (spec_Openstack (k_Spec kluster)))) (\<lambda>_.
      bnd (lift_outcome (KlusterToHelmValues (ge_yaml_Marshal ge) kluster
             \<lparr>oo_AuthURL = ge_AuthURL ge, oo_Username = ''kubernikus-'' @ k_Name kluster, oo_Password = password,
              oo_DomainName = ''kubernikus'', oo_Region = region\<rparr> certificates bootstrapToken accessMode)) (\<lambda>rawValues.
      cl_helm_Install (ge_Clients ge) (chart_path ge) (k_Namespace kluster) rawValues (k_Name kluster))))))))))"

definition release_not_found :: "string \<Rightarrow> goerr \<Rightarrow> bool" where
  "release_not_found name err =
     Contains (Error err) (''release: '' @ [CHR 0x22] @ name @ [CHR 0x22] @ '' not found'')"

definition terminateKluster :: "'w GroundEnv \<Rightarrow> Kluster \<Rightarrow> ('w, unit) go" where
  "terminateKluster ge kluster =
     bnd (tryc (cl_GetSecret (ge_Clients ge) (k_Namespace kluster) (k_Name kluster))
            (\<lambda>err. if IsNotFound err then ret () else fail err)
            (\<lambda>secret. oc_DeleteUser (cl_Openstack (ge_Clients ge)) (secret_data secret ''openstack-username'')
                        (secret_data secret ''openstack-domain-name''))) (\<lambda>_.
     bnd (tryc (cl_helm_Delete (ge_Clients ge) (k_Name kluster))
            (\<lambda>err. if \<not> release_not_found (k_Name kluster) err then fail err else ret ())
            ret) (\<lambda>_.
     bnd (kc_Delete (cl_Klusters (ge_Clients ge)) (k_Namespace kluster) (k_Name kluster)) (\<lambda>_.
     ignore_err (WaitForKlusterDeletion (ge_tick ge) (ge_GetByKey ge) (kluster_key kluster)))))"

section \<open>The handler\<close>

definition handle_pending :: "'w GroundEnv \<Rightarrow> Kluster \<Rightarrow> ('w \<times> gctl, unit) go" where
  "handle_pending ge kluster =
     (if requiresOpenstackInfo kluster
      then or_event kluster ''ConfigurationError'' ''Discovery of openstack parameters failed: ''
             (svc (discoverOpenstackInfo ge kluster))
      else if requiresKubernikusInfo kluster
      then or_event kluster ''ConfigurationError'' ''Discovery of kubernikus parameters failed: ''
             (svc (discoverKubernikusInfo ge kluster))
      else bnd (or_event kluster ''FailedCreate'' ''Failed to create cluster: '' (svc (createKluster ge kluster))) (\<lambda>_.
           ignore_err (updatePhase ge kluster KlusterPhaseCreating ''Creating Cluster'')))"

definition handle_creating :: "'w GroundEnv \<Rightarrow> Kluster \<Rightarrow> ('w \<times> gctl, unit) go" where
  "handle_creating ge kluster =
     bnd (svc (ge_podsByIndex ge (k_Name kluster))) (\<lambda>pods.
       if length (filter IsPodReady pods) = 4
       then bnd (svc (ge_ClientFor ge kluster)) (\<lambda>clientset.
            bnd (svc (SeedKluster (ge_render ge) (ge_render_svc ge) clientset kluster)) (\<lambda>_.
            bnd (ignore_err (updatePhase ge kluster KlusterPhaseRunning [])) (\<lambda>_.
            bnd (gets (\<lambda>(w, g). ge_now ge w)) (\<lambda>now.
            set_metric (SetMetricBootDurationSummary (k_CreationTimestamp kluster) now)))))
       else ret ())"

definition handle_terminating :: "'w GroundEnv \<Rightarrow> Kluster \<Rightarrow> ('w \<times> gctl, unit) go" where
  "handle_terminating ge kluster =
     bnd (or_event kluster [] ''Failed to terminate cluster: '' (svc (terminateKluster ge kluster))) (\<lambda>_.
     set_metric (SetMetricKlusterTerminated (k_Name kluster)))"

definition handle_kluster :: "'w GroundEnv \<Rightarrow> Kluster \<Rightarrow> ('w \<times> gctl, unit) go" where
  "handle_kluster ge kluster =
     bnd (set_metric (SetMetricKlusterInfo (k_Namespace kluster) (k_Name kluster) (st_Version (k_Status kluster))
            (os_ProjectID (spec_Openstack (k_Spec kluster))) (k_Annotations kluster) (k_Labels kluster))) (\<lambda>_.
     bnd (set_metric (SetMetricKlusterStatusPhase (k_Name kluster) (st_Phase (k_Status kluster)))) (\<lambda>_.
     case st_Phase (k_Status kluster) of
       KlusterPhasePending \<Rightarrow> handle_pending ge kluster
     | KlusterPhaseCreating \<Rightarrow> handle_creating ge kluster
     | KlusterPhaseTerminating \<Rightarrow> handle_terminating ge kluster
     | _ \<Rightarrow> ret ()))"

definition handler :: "'w GroundEnv \<Rightarrow> string \<Rightarrow> ('w \<times> gctl, unit) go" where
  "handler ge key =
     bnd (gets (\<lambda>(w, g). ge_GetByKey ge w key)) (\<lambda>found.
       case found of None \<Rightarrow> ret () | Some kluster \<Rightarrow> handle_kluster ge kluster)"

section \<open>The worker and the event handlers\<close>

text \<open>\<open>processNextWorkItem\<close> after \<open>Get\<close>: unlike the base controller it retries without end.\<close>

definition ground_settle :: "'q RateLimitingInterface \<Rightarrow> string \<Rightarrow> unit outcome \<Rightarrow> 'q \<Rightarrow> 'q" where
  "ground_settle ops key r q =
     (case r of Ok _ \<Rightarrow> rl_Forget ops key q | Fail err \<Rightarrow> rl_AddRateLimited ops key q | Panics s \<Rightarrow> q)"

definition ground_processNextWorkItem ::
  "'q RateLimitingInterface \<Rightarrow> 'w GroundEnv \<Rightarrow> 'q \<times> 'w \<times> gctl \<Rightarrow> (bool outcome \<times> 'q \<times> 'w \<times> gctl) option" where
  "ground_processNextWorkItem ops ge = (\<lambda>(q, w).
     (case rl_Get ops q of
        (Blocked, q') \<Rightarrow> None
      | (Quit, q') \<Rightarrow> Some (Ok False, q', w)
      | (Item key, q') \<Rightarrow>
          (case handler ge key w of
             (r, w') \<Rightarrow> Some (case r of Panics s \<Rightarrow> Panics s | _ \<Rightarrow> Ok True,
                              rl_Done ops key (ground_settle ops key r q'), w'))))"

text \<open>The type assertions of the handlers panic on a tombstone.\<close>

fun as_kluster :: "informer_obj \<Rightarrow> Kluster outcome" where
  "as_kluster (Obj k) = Ok k"
| "as_kluster (DeletedFinalStateUnknown key k) = Panics ''interface conversion''"

definition enqueue_kluster :: "'q RateLimitingInterface \<Rightarrow> Kluster outcome \<Rightarrow> ('q, unit) go" where
  "enqueue_kluster ops r = bnd (lift_outcome r) (\<lambda>k. modify_world (rl_Add ops (kluster_key k)))"

definition klusterAdd :: "'q RateLimitingInterface \<Rightarrow> informer_obj \<Rightarrow> ('q, unit) go" where
  "klusterAdd ops obj = enqueue_kluster ops (as_kluster obj)"

definition klusterTerminate :: "'q RateLimitingInterface \<Rightarrow> informer_obj \<Rightarrow> ('q, unit) go" where
  "klusterTerminate ops obj = enqueue_kluster ops (as_kluster obj)"

definition klusterUpdate :: "'q RateLimitingInterface \<Rightarrow> informer_obj \<Rightarrow> informer_obj \<Rightarrow> ('q, unit) go" where
  "klusterUpdate ops cur old =
     bnd (lift_outcome (as_kluster cur)) (\<lambda>c. bnd (lift_outcome (as_kluster old)) (\<lambda>o1.
       if o1 \<noteq> c then modify_world (rl_Add ops (kluster_key c)) else ret ()))"

definition pod_kluster_key :: "Pod \<Rightarrow> string option" where
  "pod_kluster_key pod =
     (case map_of (pod_Labels pod) ''release'' of
        Some klusterName \<Rightarrow> if klusterName \<noteq> [] then Some (pod_Namespace pod @ ''/'' @ klusterName) else None
      | None \<Rightarrow> None)"

definition podAdd :: "'q RateLimitingInterface \<Rightarrow> Pod \<Rightarrow> 'q \<Rightarrow> 'q" where
  "podAdd ops pod q = (case pod_kluster_key pod of Some key \<Rightarrow> rl_Add ops key q | None \<Rightarrow> q)"

definition podDelete :: "'q RateLimitingInterface \<Rightarrow> Pod \<Rightarrow> 'q \<Rightarrow> 'q" where
  "podDelete ops pod q = (case pod_kluster_key pod of Some key \<Rightarrow> rl_Add ops key q | None \<Rightarrow> q)"

definition podUpdate :: "'q RateLimitingInterface \<Rightarrow> Pod \<Rightarrow> Pod \<Rightarrow> 'q \<Rightarrow> 'q" where
  "podUpdate ops cur old q =
     (case pod_kluster_key cur of Some key \<Rightarrow> if old \<noteq> cur then rl_Add ops key q else q | None \<Rightarrow> q)"

section \<open>What the handler does to the custom resource\<close>

text \<open>The other services leave the custom resources alone.\<close>

definition ground_frame :: "'w GroundEnv \<Rightarrow> ('w \<Rightarrow> kluster_store) \<Rightarrow> bool" where
  "ground_frame ge st \<longleftrightarrow>
     leaves st (ge_listStorageClasses ge) \<and> leaves st (ge_listVolumes ge) \<and>
     (\<forall>k a b c. leaves st (ge_CreateCertificates ge k a b c)) \<and> (\<forall>n. leaves st (ge_Random ge n)) \<and>
     (\<forall>n. leaves st (ge_podsByIndex ge n)) \<and> leaves st (ge_tick ge) \<and> (\<forall>k. leaves st (ge_ClientFor ge k)) \<and>
     (\<forall>w k api w' obj. ge_ClientFor ge k w = (Ok api, w') \<longrightarrow>
        leaves st (ka_Create api obj) \<and> leaves st (ka_Update api obj)) \<and>
     (\<forall>p. leaves st (oc_GetRouters (cl_Openstack (ge_Clients ge)) p)) \<and>
     (\<forall>p n. leaves st (oc_GetSecurityGroupID (cl_Openstack (ge_Clients ge)) p n)) \<and>
     leaves st (oc_GetKubernikusCatalogEntry (cl_Openstack (ge_Clients ge))) \<and>
     leaves st (oc_GetRegion (cl_Openstack (ge_Clients ge))) \<and>
     (\<forall>a b c d. leaves st (oc_CreateKlusterServiceUser (cl_Openstack (ge_Clients ge)) a b c d)) \<and>
     (\<forall>a b. leaves st (oc_DeleteUser (cl_Openstack (ge_Clients ge)) a b)) \<and>
     (\<forall>ns n. leaves st (cl_GetSecret (ge_Clients ge) ns n)) \<and>
     (\<forall>a b c d. leaves st (cl_helm_Install (ge_Clients ge) a b c d)) \<and>
     (\<forall>a. leaves st (cl_helm_Delete (ge_Clients ge) a))"

lemma keeps_WaitForKluster: "keeps P tick \<Longrightarrow> keeps P (WaitForKluster tick get key c)"
  unfolding WaitForKluster_def by (intro keeps_Poll keeps_intro)

lemma keeps_create_or_update:
  "keeps P (ka_Create api obj) \<Longrightarrow> keeps P (ka_Update api obj) \<Longrightarrow> keeps P (create_or_update api c u obj)"
  unfolding create_or_update_def by (intro keeps_intro)

lemma keeps_SeedKluster:
  assumes "\<And>obj. keeps P (ka_Create api obj)" "\<And>obj. keeps P (ka_Update api obj)"
  shows "keeps P (SeedKluster render render_svc api kluster)"
  unfolding SeedKluster_def SeedAllowBootstrapTokensToPostCSRs_def SeedAutoApproveNodeBootstrapTokens_def
    SeedKubernikusAdmin_def SeedCinderStorageClass_def SeedKubeDNS_def CreateOrUpdateClusterRoleBinding_def
    CreateOrUpdateClusterRole_def createKubeDNSServiceAccount_def createKubeDNSConfigMap_def
    createKubeDNSDeployment_def createKubeDNSService_def CreateOrUpdateServiceAccount_def
    CreateOrUpdateConfigMap_def CreateOrUpdateDeployment_def CreateOrUpdateService_def
  by (intro keeps_intro keeps_create_or_update assms)

text \<open>The phase of the stored resource, \<open>None\<close> if there is none.\<close>

definition stored_phase :: "kluster_store \<Rightarrow> Kluster \<Rightarrow> KlusterPhase option" where
  "stored_phase m kluster = map_option (\<lambda>k. st_Phase (k_Status k)) (m (k_Namespace kluster, k_Name kluster))"

lemma stored_phase_upd:
  "k_Name k = k_Name kluster \<Longrightarrow>
     stored_phase (m((k_Namespace kluster, k_Name k) \<mapsto> k)) kluster = Some (st_Phase (k_Status k))"
  by (simp add: stored_phase_def)

text \<open>\<open>k\<close> is the stored object, and its phase is \<open>pold\<close>.\<close>

definition read_kluster :: "('w \<Rightarrow> kluster_store) \<Rightarrow> Kluster \<Rightarrow> KlusterPhase option \<Rightarrow> Kluster \<Rightarrow> 'w \<Rightarrow> bool" where
  "read_kluster st kluster pold k w \<longleftrightarrow> stored_phase (st w) kluster = pold \<and>
     pold = Some (st_Phase (k_Status k)) \<and> k_Name k = k_Name kluster \<and> k_Namespace k = k_Namespace kluster"

lemma Get_read:
  assumes "kluster_api kc st"
  shows "triple (\<lambda>w. stored_phase (st w) kluster = pold) (kc_Get kc (k_Namespace kluster) (k_Name kluster))
     (read_kluster st kluster pold) (\<lambda>w. stored_phase (st w) kluster = pold)"
  by (rule triple_post [OF Get_triple [OF assms, where Q = "\<lambda>m. stored_phase m kluster = pold"]])
    (auto simp: read_kluster_def stored_phase_def)

lemma Update_read:
  assumes "kluster_api kc st" "k_Name k' = k_Name k"
  shows "triple (read_kluster st kluster pold k) (kc_Update kc (k_Namespace kluster) k')
     (\<lambda>_ w. stored_phase (st w) kluster = Some (st_Phase (k_Status k'))) (\<lambda>w. stored_phase (st w) kluster = pold)"
  by (rule triple_pre [OF Update_triple [OF assms(1), where Q = "\<lambda>m. stored_phase m kluster = pold"]])
    (use assms(2) in \<open>auto simp: read_kluster_def stored_phase_def\<close>)

lemma Update_same:
  assumes "kluster_api kc st" "k_Name k' = k_Name k" "st_Phase (k_Status k') = st_Phase (k_Status k)"
  shows "triple (read_kluster st kluster pold k) (bnd (kc_Update kc (k_Namespace kluster) k') (\<lambda>_. ret ()))
     (\<lambda>_ w. stored_phase (st w) kluster = pold) (\<lambda>w. stored_phase (st w) kluster = pold)"
proof (cases "pold = Some (st_Phase (k_Status k))")
  case True
  with triple_bnd [OF Update_read [OF assms(1,2)] triple_ret] assms(3) show ?thesis by fastforce
qed (auto simp: triple_def read_kluster_def)

lemma leaves_triple_read:
  "leaves st m \<Longrightarrow> triple (read_kluster st kluster pold k) m (\<lambda>_. read_kluster st kluster pold k)
     (\<lambda>w. stored_phase (st w) kluster = pold)"
  by (rule tripleI; auto simp: read_kluster_def dest: leavesD)

lemma discoverKubernikusInfo_phase:
  assumes "kluster_api (cl_Klusters (ge_Clients ge)) st"
  shows "triple (\<lambda>w. stored_phase (st w) kluster = pold) (discoverKubernikusInfo ge kluster)
     (\<lambda>_ w. stored_phase (st w) kluster = pold) (\<lambda>w. stored_phase (st w) kluster = pold)"
  unfolding discoverKubernikusInfo_def Let_def
  by (rule triple_bnd [OF Get_read [OF assms]], rule Update_same [OF assms]) simp_all

lemma discoverOpenstackInfo_phase:
  assumes api: "kluster_api (cl_Klusters (ge_Clients ge)) st" and fr: "ground_frame ge st"
  shows "triple (\<lambda>w. stored_phase (st w) kluster = pold) (discoverOpenstackInfo ge kluster)
     (\<lambda>_ w. stored_phase (st w) kluster = pold) (\<lambda>w. stored_phase (st w) kluster = pold)"
proof -
  have r: "leaves st (oc_GetRouters (cl_Openstack (ge_Clients ge)) p)"
    and g: "leaves st (oc_GetSecurityGroupID (cl_Openstack (ge_Clients ge)) p n)" for p n
    using fr by (simp_all add: ground_frame_def)
  have sg: "triple (read_kluster st kluster pold copy)
     (if os_SecurityGroupID os \<noteq> [] then ret os
      else tryc (oc_GetSecurityGroupID (cl_Openstack (ge_Clients ge)) (Account kluster) ''default'')
        (\<lambda>err. fail (Errorf (''Failed to get id for default securitygroup in project '' @ Error err @ '': '' @ Account kluster)))
        (\<lambda>sg. ret (os\<lparr>os_SecurityGroupID := sg\<rparr>)))
     (\<lambda>_. read_kluster st kluster pold copy) (\<lambda>w. stored_phase (st w) kluster = pold)" for copy os
    by (intro triple_if triple_ret triple_tryc [OF leaves_triple_read [OF g]] triple_fail)
      (auto simp: read_kluster_def)
  show ?thesis
    unfolding discoverOpenstackInfo_def
    by (rule triple_bnd [OF triple_keeps [OF leaves_keeps [OF r]]], rule triple_bnd [OF Get_read [OF api]],
        rule triple_bnd [OF triple_lift_outcome], assumption, simp add: read_kluster_def,
        rule triple_bnd [OF sg], rule Update_same [OF api]) simp_all
qed

lemma frame_keeps:
  assumes "ground_frame ge st"
  shows "keeps (\<lambda>w. Q (st w)) (ge_listStorageClasses ge)" "keeps (\<lambda>w. Q (st w)) (ge_listVolumes ge)"
    "keeps (\<lambda>w. Q (st w)) (ge_CreateCertificates ge k a b c)" "keeps (\<lambda>w. Q (st w)) (ge_Random ge n)"
    "keeps (\<lambda>w. Q (st w)) (ge_podsByIndex ge s)" "keeps (\<lambda>w. Q (st w)) (ge_tick ge)"
    "keeps (\<lambda>w. Q (st w)) (ge_ClientFor ge k)"
    "keeps (\<lambda>w. Q (st w)) (oc_GetKubernikusCatalogEntry (cl_Openstack (ge_Clients ge)))"
    "keeps (\<lambda>w. Q (st w)) (oc_GetRegion (cl_Openstack (ge_Clients ge)))"
    "keeps (\<lambda>w. Q (st w)) (oc_CreateKlusterServiceUser (cl_Openstack (ge_Clients ge)) a b c s)"
    "keeps (\<lambda>w. Q (st w)) (oc_DeleteUser (cl_Openstack (ge_Clients ge)) a b)"
    "keeps (\<lambda>w. Q (st w)) (cl_GetSecret (ge_Clients ge) a b)"
    "keeps (\<lambda>w. Q (st w)) (cl_helm_Install (ge_Clients ge) a b c s)"
    "keeps (\<lambda>w. Q (st w)) (cl_helm_Delete (ge_Clients ge) a)"
  using assms unfolding ground_frame_def by (simp_all add: leaves_keeps [where st = st and Q = Q])

lemma createKluster_keeps:
  assumes "ground_frame ge st"
  shows "keeps (\<lambda>w. Q (st w)) (createKluster ge kluster)"
  unfolding createKluster_def Let_def wrap_err_def PVAccessMode_def
  by (intro keeps_intro frame_keeps [OF assms])

lemma updatePhase_phase:
  assumes api: "kluster_api (cl_Klusters (ge_Clients ge)) st" and fr: "ground_frame ge st"
  shows "triple (\<lambda>(w, g). stored_phase (st w) kluster = pold) (updatePhase ge kluster ph msg)
     (\<lambda>_ (w, g). stored_phase (st w) kluster = Some ph)
     (\<lambda>(w, g). stored_phase (st w) kluster \<in> {pold, Some ph})"
proof -
  let ?E = "\<lambda>(w, g). stored_phase (st w) kluster \<in> {pold, Some ph}"
  have get: "triple (\<lambda>(w, g). stored_phase (st w) kluster = pold)
      (svc (kc_Get (cl_Klusters (ge_Clients ge)) (k_Namespace kluster) (k_Name kluster)))
      (\<lambda>k (w, g). read_kluster st kluster pold k w) ?E"
    by (rule triple_conseq [OF triple_svc [OF Get_read [OF api]]]) auto
  have ev: "triple (\<lambda>(w, g). read_kluster st kluster pold k w) (Eventf k' t reason m)
      (\<lambda>_ (w, g). read_kluster st kluster pold k w) ?E" for k k' t reason m
    by (auto simp: triple_def Eventf_def)
  have upd: "triple (\<lambda>(w, g). read_kluster st kluster pold k w)
      (svc (kc_Update (cl_Klusters (ge_Clients ge)) (k_Namespace k') k'))
      (\<lambda>_ (w, g). stored_phase (st w) kluster = Some ph) ?E"
    if "k_Name k' = k_Name k" "k_Namespace k' = k_Namespace k" "st_Phase (k_Status k') = ph" for k k'
  proof (cases "k_Namespace k = k_Namespace kluster")
    case True
    then have ns: "k_Namespace k' = k_Namespace kluster" using that(2) by simp
    show ?thesis unfolding ns
      by (rule triple_conseq [OF triple_svc [OF Update_read [OF api that(1), of kluster pold]]])
        (auto simp: that(3))
  qed (auto simp: triple_def read_kluster_def)
  have wait: "triple (\<lambda>(w, g). stored_phase (st w) kluster = Some ph)
      (ignore_err (svc (WaitForKluster (ge_tick ge) (ge_GetByKey ge) key c)))
      (\<lambda>_ (w, g). stored_phase (st w) kluster = Some ph) ?E" for key c
  proof -
    have "keeps (\<lambda>(w, g). stored_phase (st w) kluster = Some ph)
        (ignore_err (svc (WaitForKluster (ge_tick ge) (ge_GetByKey ge) key c)))"
      using frame_keeps(6) [OF fr, of "\<lambda>m. stored_phase m kluster = Some ph"]
      by (intro keeps_intro keeps_svc keeps_WaitForKluster)
    from triple_keeps [OF this] show ?thesis by (rule triple_conseq) auto
  qed
  have same: "triple (\<lambda>(w, g). read_kluster st kluster pold k w) (ret ())
      (\<lambda>_ (w, g). stored_phase (st w) kluster = Some ph) ?E" if "st_Phase (k_Status k) = ph" for k
    using that by (auto intro!: triple_ret simp: read_kluster_def)
  show ?thesis
    unfolding updatePhase_def Let_def
    by (rule triple_bnd [OF get], rule triple_if, erule same, rule triple_bnd [OF ev],
        rule triple_bnd [OF upd wait]) simp_all
qed

lemma triple_or_event:
  assumes "triple (\<lambda>(w, g). P w) m (\<lambda>x (w, g). Q x w) (\<lambda>(w, g). E w)"
  shows "triple (\<lambda>(w, g). P w) (or_event kluster reason msg m) (\<lambda>_ (w, g). Q () w) (\<lambda>(w, g). E w)"
  unfolding or_event_def
  by (rule triple_tryc [OF assms triple_bnd [OF triple_keeps]], unfold Eventf_def, rule keeps_client_set)
    (auto intro: triple_fail triple_ret)

lemma terminateKluster_phase:
  assumes api: "kluster_api (cl_Klusters (ge_Clients ge)) st" and fr: "ground_frame ge st"
  shows "triple (\<lambda>w. stored_phase (st w) kluster = pold) (terminateKluster ge kluster)
     (\<lambda>_ w. stored_phase (st w) kluster = None)
     (\<lambda>w. stored_phase (st w) kluster \<in> {pold, None})"
proof -
  let ?K = "\<lambda>m. stored_phase m kluster = pold"
  have usr: "keeps (\<lambda>w. ?K (st w)) (tryc (cl_GetSecret (ge_Clients ge) (k_Namespace kluster) (k_Name kluster))
      (\<lambda>err. if IsNotFound err then ret () else fail err)
      (\<lambda>secret. oc_DeleteUser (cl_Openstack (ge_Clients ge)) (secret_data secret ''openstack-username'')
         (secret_data secret ''openstack-domain-name'')))"
    by (intro keeps_intro frame_keeps [OF fr])
  have rel: "keeps (\<lambda>w. ?K (st w)) (tryc (cl_helm_Delete (ge_Clients ge) (k_Name kluster))
      (\<lambda>err. if \<not> release_not_found (k_Name kluster) err then fail err else ret ()) ret)"
    by (intro keeps_intro frame_keeps [OF fr])
  have del: "triple (\<lambda>w. ?K (st w)) (kc_Delete (cl_Klusters (ge_Clients ge)) (k_Namespace kluster) (k_Name kluster))
      (\<lambda>_ w. stored_phase (st w) kluster = None) (\<lambda>w. stored_phase (st w) kluster \<in> {pold, None})"
  proof -
    have "\<And>w r w'. kc_Delete (cl_Klusters (ge_Clients ge)) (k_Namespace kluster) (k_Name kluster) w = (r, w') \<Longrightarrow>
        st w' = (if is_ok r then (st w)((k_Namespace kluster, k_Name kluster) := None) else st w)"
      using api unfolding kluster_api_def by presburger
    then show ?thesis by (intro tripleI) (auto simp: stored_phase_def)
  qed
  have wait: "keeps (\<lambda>w. stored_phase (st w) kluster = None)
      (ignore_err (WaitForKlusterDeletion (ge_tick ge) (ge_GetByKey ge) (kluster_key kluster)))"
    unfolding WaitForKlusterDeletion_def
    by (intro keeps_intro keeps_WaitForKluster frame_keeps(6) [OF fr, of "\<lambda>m. stored_phase m kluster = None"])
  let ?E = "\<lambda>w. stored_phase (st w) kluster \<in> {pold, None}"
  note t = triple_conseq [where E' = ?E, OF triple_keeps]
  show ?thesis
    unfolding terminateKluster_def
    by (rule triple_bnd [OF t [OF usr]], assumption, assumption, simp,
        rule triple_bnd [OF t [OF rel]], assumption, assumption, simp,
        rule triple_bnd [OF del], rule t [OF wait], simp_all)
qed

definition ground_step :: "KlusterPhase \<Rightarrow> KlusterPhase option \<Rightarrow> KlusterPhase option \<Rightarrow> bool" where
  "ground_step cached old new \<longleftrightarrow> new = old \<or>
     (cached = KlusterPhasePending \<and> new = Some KlusterPhaseCreating) \<or>
     (cached = KlusterPhaseCreating \<and> new = Some KlusterPhaseRunning) \<or>
     (cached = KlusterPhaseTerminating \<and> new = None)"

lemma set_metric_triple: "triple (\<lambda>(w, g). P w) (set_metric f) (\<lambda>_ (w, g). P w) E"
  by (auto simp: triple_def set_metric_def)

lemma handle_pending_phase:
  assumes api: "kluster_api (cl_Klusters (ge_Clients ge)) st" and fr: "ground_frame ge st"
  shows "triple (\<lambda>(w, g). stored_phase (st w) kluster = pold) (handle_pending ge kluster)
     (\<lambda>_ (w, g). ground_step KlusterPhasePending pold (stored_phase (st w) kluster))
     (\<lambda>(w, g). ground_step KlusterPhasePending pold (stored_phase (st w) kluster))"
proof -
  let ?G = "\<lambda>(w, g). ground_step KlusterPhasePending pold (stored_phase (st w) kluster)"
  have same: "triple (\<lambda>(w, g). stored_phase (st w) kluster = pold) m
      (\<lambda>_ (w, g). stored_phase (st w) kluster = pold) (\<lambda>(w, g). stored_phase (st w) kluster = pold) \<Longrightarrow>
      triple (\<lambda>(w, g). stored_phase (st w) kluster = pold) m (\<lambda>_. ?G) ?G" for m
    by (erule triple_conseq) (auto simp: ground_step_def)
  have create: "triple (\<lambda>(w, g). stored_phase (st w) kluster = pold)
      (or_event kluster r m (svc (createKluster ge kluster)))
      (\<lambda>_ (w, g). stored_phase (st w) kluster = pold) ?G" for r m
    by (rule triple_conseq [OF triple_or_event [OF triple_svc [OF triple_keeps
          [OF createKluster_keeps [OF fr, of "\<lambda>m. stored_phase m kluster = pold"]]]]])
      (auto simp: ground_step_def)
  have upd: "triple (\<lambda>(w, g). stored_phase (st w) kluster = pold)
      (ignore_err (updatePhase ge kluster KlusterPhaseCreating ''Creating Cluster'')) (\<lambda>_. ?G) ?G"
    by (rule triple_ignore_err, rule triple_conseq [OF updatePhase_phase [OF api fr]])
      (auto simp: ground_step_def)
  show ?thesis
    unfolding handle_pending_def
    by (intro triple_if same triple_or_event triple_svc discoverOpenstackInfo_phase [OF api fr]
        discoverKubernikusInfo_phase [OF api] triple_bnd [OF create upd])
qed

lemma handle_creating_phase:
  assumes api: "kluster_api (cl_Klusters (ge_Clients ge)) st" and fr: "ground_frame ge st"
  shows "triple (\<lambda>(w, g). stored_phase (st w) kluster = pold) (handle_creating ge kluster)
     (\<lambda>_ (w, g). ground_step KlusterPhaseCreating pold (stored_phase (st w) kluster))
     (\<lambda>(w, g). ground_step KlusterPhaseCreating pold (stored_phase (st w) kluster))"
proof -
  let ?K = "\<lambda>m. stored_phase m kluster = pold"
  let ?G = "\<lambda>(w, g). ground_step KlusterPhaseCreating pold (stored_phase (st w) kluster)"
  note t = triple_conseq [where E' = ?G, OF triple_svc [OF triple_keeps]]
  have pods: "triple (\<lambda>(w, g). ?K (st w)) (svc (ge_podsByIndex ge n)) (\<lambda>_ (w, g). ?K (st w)) ?G" for n
    by (rule t [OF frame_keeps(5) [OF fr, of ?K]]) (auto simp: ground_step_def)
  have cf: "triple (\<lambda>(w, g). ?K (st w)) (svc (ge_ClientFor ge kluster))
      (\<lambda>a (w, g). ?K (st w) \<and> (\<forall>obj. leaves st (ka_Create a obj) \<and> leaves st (ka_Update a obj))) ?G"
  proof (rule triple_conseq [OF triple_svc])
    show "triple (\<lambda>w. ?K (st w)) (ge_ClientFor ge kluster)
        (\<lambda>a w. ?K (st w) \<and> (\<forall>obj. leaves st (ka_Create a obj) \<and> leaves st (ka_Update a obj)))
        (\<lambda>w. ?K (st w))"
      using fr unfolding ground_frame_def by (intro tripleI) (metis leavesD)+
  qed (auto simp: ground_step_def)
  have seed: "triple (\<lambda>(w, g). ?K (st w) \<and> (\<forall>obj. leaves st (ka_Create a obj) \<and> leaves st (ka_Update a obj)))
      (svc (SeedKluster x y a kluster)) (\<lambda>_ (w, g). ?K (st w)) ?G" for x y a
  proof (cases "\<forall>obj. leaves st (ka_Create a obj) \<and> leaves st (ka_Update a obj)")
    case True
    then have "keeps (\<lambda>w. ?K (st w)) (SeedKluster x y a kluster)"
      by (intro keeps_SeedKluster leaves_keeps [where st = st and Q = ?K]) auto
    then show ?thesis by (rule t) (auto simp: ground_step_def)
  qed (auto simp: triple_def)
  have upd: "triple (\<lambda>(w, g). ?K (st w)) (ignore_err (updatePhase ge kluster KlusterPhaseRunning [])) (\<lambda>_. ?G) ?G"
    by (rule triple_ignore_err, rule triple_conseq [OF updatePhase_phase [OF api fr]])
      (auto simp: ground_step_def)
  have now: "triple ?G (gets f) (\<lambda>_. ?G) ?G" for f :: "'a \<times> gctl \<Rightarrow> int" by (auto simp: triple_def)
  have met: "triple ?G (set_metric f) (\<lambda>_. ?G) ?G" for f
    by (auto simp: triple_def set_metric_def)
  show ?thesis
    unfolding handle_creating_def
    by (rule triple_bnd [OF pods], rule triple_if, rule triple_bnd [OF cf], rule triple_bnd [OF seed],
        rule triple_bnd [OF upd], rule triple_bnd [OF now], rule met, rule triple_ret)
      (auto simp: ground_step_def)
qed

lemma handle_terminating_phase:
  assumes api: "kluster_api (cl_Klusters (ge_Clients ge)) st" and fr: "ground_frame ge st"
  shows "triple (\<lambda>(w, g). stored_phase (st w) kluster = pold) (handle_terminating ge kluster)
     (\<lambda>_ (w, g). stored_phase (st w) kluster = None)
     (\<lambda>(w, g). ground_step KlusterPhaseTerminating pold (stored_phase (st w) kluster))"
  unfolding handle_terminating_def
  by (rule triple_bnd [OF _ set_metric_triple [where P = "\<lambda>w. stored_phase (st w) kluster = None"]],
      rule triple_conseq [OF triple_or_event [OF triple_svc [OF terminateKluster_phase [OF api fr]]]])
    (auto simp: ground_step_def)

lemma handle_kluster_phase:
  assumes api: "kluster_api (cl_Klusters (ge_Clients ge)) st" and fr: "ground_frame ge st"
  shows "triple (\<lambda>(w, g). stored_phase (st w) kluster = pold) (handle_kluster ge kluster)
     (\<lambda>_ (w, g). ground_step (st_Phase (k_Status kluster)) pold (stored_phase (st w) kluster) \<and>
        (st_Phase (k_Status kluster) = KlusterPhaseTerminating \<longrightarrow> stored_phase (st w) kluster = None))
     (\<lambda>(w, g). ground_step (st_Phase (k_Status kluster)) pold (stored_phase (st w) kluster))"
  unfolding handle_kluster_def
proof (intro triple_bnd [OF set_metric_triple])
  show "triple (\<lambda>(w, g). stored_phase (st w) kluster = pold)
      (case st_Phase (k_Status kluster) of
         KlusterPhasePending \<Rightarrow> handle_pending ge kluster
       | KlusterPhaseCreating \<Rightarrow> handle_creating ge kluster
       | KlusterPhaseTerminating \<Rightarrow> handle_terminating ge kluster
       | _ \<Rightarrow> ret ())
      (\<lambda>_ (w, g). ground_step (st_Phase (k_Status kluster)) pold (stored_phase (st w) kluster) \<and>
         (st_Phase (k_Status kluster) = KlusterPhaseTerminating \<longrightarrow> stored_phase (st w) kluster = None))
      (\<lambda>(w, g). ground_step (st_Phase (k_Status kluster)) pold (stored_phase (st w) kluster))"
  proof (cases "st_Phase (k_Status kluster)")
    case KlusterPhasePending
    then show ?thesis using triple_conseq [OF handle_pending_phase [OF api fr]] by simp
  next
    case KlusterPhaseCreating
    then show ?thesis using triple_conseq [OF handle_creating_phase [OF api fr]] by simp
  next
    case KlusterPhaseTerminating
    then show ?thesis
      by simp (rule triple_conseq [OF handle_terminating_phase [OF api fr]], auto simp: ground_step_def)
  qed (auto intro!: triple_ret simp: ground_step_def)
qed

section \<open>Properties\<close>

text \<open>C4: The life cycle. For a kluster as the informer's cache shows it, a run of the handler
  either leaves the phase of the stored resource as it is, or sets it to Creating if the
  cached phase is Pending, to Running if it is Creating, or removes the resource if it is
  Terminating; this holds for every outcome of the services, errors and panics included. A
  successful run on a terminating kluster has removed the resource.\<close>

theorem ground_phase_step:
  assumes "kluster_api (cl_Klusters (ge_Clients ge)) st" "ground_frame ge st"
    "handle_kluster ge kluster (w, g) = (r, w', g')"
  shows "ground_step (st_Phase (k_Status kluster)) (stored_phase (st w) kluster) (stored_phase (st w') kluster) \<and>
    (is_ok r \<and> st_Phase (k_Status kluster) = KlusterPhaseTerminating \<longrightarrow> stored_phase (st w') kluster = None)"
proof -
  note t = tripleD [OF handle_kluster_phase [OF assms(1,2), of kluster "stored_phase (st w) kluster"], of "(w, g)"]
  show ?thesis using t assms(3) by (cases r) auto
qed

text \<open>C19: A change of phase does not look at the phase it replaces. Once \<open>updatePhase\<close> returns
  without an error, the stored resource has the requested phase, whatever phase it had when
  the call began. In particular a resource the API has marked Terminating in the meantime is
  set back to Creating or Running, and its termination is lost.\<close>

theorem updatePhase_overwrites:
  assumes "kluster_api (cl_Klusters (ge_Clients ge)) st" "ground_frame ge st"
    "updatePhase ge kluster ph msg (w, g) = (Ok (), w', g')"
  shows "stored_phase (st w') kluster = Some ph"
  using tripleD(1) [OF updatePhase_phase [OF assms(1,2), of kluster "stored_phase (st w) kluster" ph msg],
      where w = "(w, g)" and w' = "(w', g')" and x = "()"] assms(3) by simp

text \<open>A control plane whose world is the custom resources, also read by the informer, and the
  releases: every other service succeeds and does nothing.\<close>

definition idle_openstack :: "'w OpenstackClient" where
  "idle_openstack = \<lparr>oc_CreateNode = \<lambda>_ _ _. ret [], oc_DeleteNode = \<lambda>_ _. ret (), oc_GetNodes = \<lambda>_ _. ret [],
     oc_GetProject = \<lambda>_. fail (Errorf []), oc_GetRegion = ret ''region'', oc_GetRouters = \<lambda>_. ret [],
     oc_DeleteUser = \<lambda>_ _. ret (), oc_CreateKlusterServiceUser = \<lambda>_ _ _ _. ret (),
     oc_GetKubernikusCatalogEntry = ret ''https://kubernikus'', oc_GetSecurityGroupID = \<lambda>_ _. ret ''default''\<rparr>"

definition demo_ground :: "(kluster_store \<times> string set) GroundEnv" where
  "demo_ground = \<lparr>
     ge_Clients = \<lparr>cl_Openstack = idle_openstack,
       cl_Klusters = \<lparr>kc_Get = \<lambda>ns n. svc (kc_Get stored_klusters ns n), kc_List = \<lambda>ns l. svc (kc_List stored_klusters ns l),
         kc_Create = \<lambda>ns k. svc (kc_Create stored_klusters ns k), kc_Update = \<lambda>ns k. svc (kc_Update stored_klusters ns k),
         kc_Delete = \<lambda>ns n. svc (kc_Delete stored_klusters ns n)\<rparr>,
       cl_GetSecret = \<lambda>ns n. fail (ApiNotFound n), cl_helm_Install = \<lambda>_ _ _ n. client_set (insert n),
       cl_helm_Delete = \<lambda>n. client_set (\<lambda>r. r - {n})\<rparr>,
     ge_listStorageClasses = ret [''standard''], ge_listVolumes = ret [],
     ge_CreateCertificates = \<lambda>_ _ _ _. ret [], ge_Random = \<lambda>n. ret (replicate n CHR ''x''),
     ge_yaml_Marshal = \<lambda>_. Ok ''values'', ge_GetByKey = (\<lambda>w key. fst w (''kubernikus'', drop 11 key)),
     ge_podsByIndex = \<lambda>_. ret [], ge_tick = ret (), ge_ClientFor = \<lambda>_. fail (Errorf ''no client''),
     ge_render = \<lambda>_. Fail (Errorf []), ge_render_svc = \<lambda>_. Fail (Errorf []), ge_now = \<lambda>_. 0,
     ge_AuthURL = ''https://keystone/v3'', ge_Domain = ''kluster.example'', ge_ChartDirectory = ''charts''\<rparr>"

lemma demo_ground_api: "kluster_api (cl_Klusters (ge_Clients demo_ground)) fst"
  by (auto simp: kluster_api_def demo_ground_def stored_klusters_def svc_def split: option.splits if_splits)

lemma demo_ground_frame: "ground_frame demo_ground fst"
  by (simp add: ground_frame_def demo_ground_def idle_openstack_def leaves_def client_set_def split_beta)

definition ground_kluster :: "KlusterPhase \<Rightarrow> Kluster" where
  "ground_kluster ph = seed_kluster\<lparr>k_Status := zero_KlusterStatus\<lparr>st_Phase := ph\<rparr>\<rparr>"

definition no_metrics :: kmetrics where
  "no_metrics = \<lparr>m_klusterInfo = Map.empty, m_klusterStatusPhase = Map.empty, m_nodePoolSize = Map.empty,
     m_nodePoolStatus = Map.empty, m_bootDurations = []\<rparr>"

theorem updatePhase_overwrites_witness:
  "\<exists>w' g'. updatePhase demo_ground (ground_kluster KlusterPhasePending) KlusterPhaseCreating ''Creating Cluster''
      (([(k_Namespace seed_kluster, k_Name seed_kluster) \<mapsto> ground_kluster KlusterPhaseTerminating], {}),
       \<lparr>g_events = [], g_metrics = no_metrics\<rparr>) = (Ok (), w', g') \<and>
    stored_phase (fst w') (ground_kluster KlusterPhasePending) = Some KlusterPhaseCreating"
proof -
  let ?s = "(([(k_Namespace seed_kluster, k_Name seed_kluster) \<mapsto> ground_kluster KlusterPhaseTerminating], {}),
       \<lparr>g_events = [], g_metrics = no_metrics\<rparr>)"
  let ?u = "updatePhase demo_ground (ground_kluster KlusterPhasePending) KlusterPhaseCreating ''Creating Cluster''"
  have "fst (?u ?s) = Ok ()"
    by (simp add: updatePhase_def bnd_def tryc_def svc_def ignore_err_def Eventf_def client_set_def demo_ground_def
        stored_klusters_def ground_kluster_def Let_def seed_kluster_def WaitForKluster_hit kluster_key_def)
  then obtain w' g' where r: "?u ?s = (Ok (), w', g')" by (metis prod.collapse)
  from updatePhase_overwrites [OF demo_ground_api demo_ground_frame r] r show ?thesis by auto
qed

theorem ground_phase_step_witness:
  "\<exists>w' g'. handle_kluster demo_ground (ground_kluster KlusterPhaseTerminating)
      (([(k_Namespace seed_kluster, k_Name seed_kluster) \<mapsto> ground_kluster KlusterPhaseTerminating], {}),
       \<lparr>g_events = [], g_metrics = no_metrics\<rparr>) = (Ok (), w', g') \<and>
    stored_phase (fst w') (ground_kluster KlusterPhaseTerminating) = None"
proof -
  let ?s = "(([(k_Namespace seed_kluster, k_Name seed_kluster) \<mapsto> ground_kluster KlusterPhaseTerminating], {}),
       \<lparr>g_events = [], g_metrics = no_metrics\<rparr>)"
  let ?u = "handle_kluster demo_ground (ground_kluster KlusterPhaseTerminating)"
  have "fst (?u ?s) = Ok ()"
    by (simp add: handle_kluster_def handle_terminating_def terminateKluster_def or_event_def set_metric_def
        bnd_def tryc_def svc_def ignore_err_def client_set_def demo_ground_def WaitForKlusterDeletion_def
        WaitForKluster_gone stored_klusters_def ground_kluster_def seed_kluster_def kluster_key_def)
  then obtain w' g' where r: "?u ?s = (Ok (), w', g')" by (metis prod.collapse)
  from ground_phase_step [OF demo_ground_api demo_ground_frame r] r show ?thesis
    by (auto simp: ground_kluster_def)
qed

definition complete_openstack :: "OpenstackSpec \<Rightarrow> bool" where
  "complete_openstack os \<longleftrightarrow> os_ProjectID os \<noteq> [] \<and> os_RouterID os \<noteq> [] \<and> os_NetworkID os \<noteq> [] \<and> os_LBSubnetID os \<noteq> []"

lemma select_subnet_OkE:
  assumes "select_subnet network i = Ok j"
  obtains subnet where "subnet \<in> set (nw_Subnets network)" "sn_ID subnet = j" "i \<noteq> [] \<longrightarrow> j = i"
    "i = [] \<longrightarrow> nw_Subnets network = [subnet]"
proof (cases "i = []")
  case True
  with assms obtain subnet where "nw_Subnets network = [subnet]" "sn_ID subnet = j"
    by (auto simp: select_subnet_def split: list.splits)
  with True that [of subnet] show ?thesis by simp
next
  case False
  with assms have "list_ex (\<lambda>s. sn_ID s = i) (nw_Subnets network)" "j = i"
    by (auto simp: select_subnet_def split: if_splits)
  with False that show ?thesis by (auto simp: list_ex_iff)
qed

text \<open>Discovery is consistent. If the choice of router, network and subnet succeeds, the
  three belong together: the router is one of the project, the network one of that router,
  the subnet one of that network; what the spec named is kept, and what it left open was
  unambiguous. If the ids in the listing and the account are not empty, nothing is missing
  afterwards, so the handler goes on to the next step.\<close>

theorem select_openstack_consistent:
  assumes "select_openstack routers account os = Ok os2"
  shows "\<exists>router network subnet. router \<in> set routers \<and> network \<in> set (rt_Networks router) \<and>
      subnet \<in> set (nw_Subnets network) \<and> os_RouterID os2 = rt_ID router \<and> os_NetworkID os2 = nw_ID network \<and>
      os_LBSubnetID os2 = sn_ID subnet \<and>
      (os_RouterID os \<noteq> [] \<longrightarrow> os_RouterID os2 = os_RouterID os) \<and>
      (os_NetworkID os \<noteq> [] \<longrightarrow> os_NetworkID os2 = os_NetworkID os) \<and>
      (os_LBSubnetID os \<noteq> [] \<longrightarrow> os_LBSubnetID os2 = os_LBSubnetID os) \<and>
      (os_RouterID os = [] \<longrightarrow> routers = [router]) \<and>
      (os_NetworkID os = [] \<longrightarrow> rt_Networks router = [network]) \<and>
      (os_LBSubnetID os = [] \<longrightarrow> nw_Subnets network = [subnet]) \<and>
      (rt_ID router \<noteq> [] \<and> nw_ID network \<noteq> [] \<and> sn_ID subnet \<noteq> [] \<and> account \<noteq> [] \<longrightarrow> complete_openstack os2)"
proof -
  from assms obtain router where r: "select_router routers (os_RouterID os) = Ok router" and a1:
    "obind (select_network router (os_NetworkID os)) (\<lambda>network.
     obind (select_subnet network (os_LBSubnetID os)) (\<lambda>subnetID.
     Ok (os\<lparr>os_ProjectID := (if os_ProjectID os = [] then account else os_ProjectID os),
            os_RouterID := (if os_RouterID os \<noteq> [] then os_RouterID os else rt_ID router),
            os_NetworkID := (if os_NetworkID os \<noteq> [] then os_NetworkID os else nw_ID network),
            os_LBSubnetID := subnetID\<rparr>))) = Ok os2"
    unfolding select_openstack_def by (rule obind_OkE)
  from a1 obtain network where n: "select_network router (os_NetworkID os) = Ok network" and a2:
    "obind (select_subnet network (os_LBSubnetID os)) (\<lambda>subnetID.
     Ok (os\<lparr>os_ProjectID := (if os_ProjectID os = [] then account else os_ProjectID os),
            os_RouterID := (if os_RouterID os \<noteq> [] then os_RouterID os else rt_ID router),
            os_NetworkID := (if os_NetworkID os \<noteq> [] then os_NetworkID os else nw_ID network),
            os_LBSubnetID := subnetID\<rparr>)) = Ok os2"
    by (rule obind_OkE)
  from a2 obtain subnetID where s: "select_subnet network (os_LBSubnetID os) = Ok subnetID" and os2:
    "os2 = os\<lparr>os_ProjectID := (if os_ProjectID os = [] then account else os_ProjectID os),
            os_RouterID := (if os_RouterID os \<noteq> [] then os_RouterID os else rt_ID router),
            os_NetworkID := (if os_NetworkID os \<noteq> [] then os_NetworkID os else nw_ID network),
            os_LBSubnetID := subnetID\<rparr>"
    by (rule obind_OkE) simp
  have r': "router \<in> set routers" "os_RouterID os \<noteq> [] \<Longrightarrow> rt_ID router = os_RouterID os"
    "os_RouterID os = [] \<Longrightarrow> routers = [router]"
    using r by (auto simp: select_router_def find_Some_iff split: if_splits option.splits list.splits)
  have n': "network \<in> set (rt_Networks router)" "os_NetworkID os \<noteq> [] \<Longrightarrow> nw_ID network = os_NetworkID os"
    "os_NetworkID os = [] \<Longrightarrow> rt_Networks router = [network]"
    using n by (auto simp: select_network_def find_Some_iff split: if_splits option.splits list.splits)
  obtain subnet where s': "subnet \<in> set (nw_Subnets network)" "sn_ID subnet = subnetID"
    "os_LBSubnetID os \<noteq> [] \<longrightarrow> subnetID = os_LBSubnetID os" "os_LBSubnetID os = [] \<longrightarrow> nw_Subnets network = [subnet]"
    using s by (rule select_subnet_OkE)
  have e: "os_RouterID os2 = rt_ID router" "os_NetworkID os2 = nw_ID network" "os_LBSubnetID os2 = sn_ID subnet"
    using r'(2) n'(2) s'(2) by (simp_all add: os2)
  have c: "complete_openstack os2"
    if "rt_ID router \<noteq> []" "nw_ID network \<noteq> []" "sn_ID subnet \<noteq> []" "account \<noteq> []"
    using that e by (simp add: complete_openstack_def) (simp add: os2)
  show ?thesis using r' n' s' e c by metis
qed

theorem select_openstack_consistent_witness:
  "\<exists>os2. select_openstack [\<lparr>rt_ID = ''r'', rt_Networks = [\<lparr>nw_ID = ''n'', nw_Subnets = [\<lparr>sn_ID = ''s'', sn_CIDR = ''10.0.0.0/24''\<rparr>]\<rparr>]\<rparr>] ''account''
      zero_OpenstackSpec = Ok os2 \<and> os_LBSubnetID os2 = ''s''"
proof -
  let ?rs = "[\<lparr>rt_ID = ''r'', rt_Networks = [\<lparr>nw_ID = ''n'', nw_Subnets = [\<lparr>sn_ID = ''s'', sn_CIDR = ''10.0.0.0/24''\<rparr>]\<rparr>]\<rparr>]"
  obtain os2 where r: "select_openstack ?rs ''account'' zero_OpenstackSpec = Ok os2"
    by (simp add: select_openstack_def select_router_def select_network_def select_subnet_def zero_OpenstackSpec_def)
  from select_openstack_consistent [OF r] r show ?thesis by auto
qed

section \<open>Termination leaves no release behind\<close>

text \<open>Helm's tiller holds the releases \<open>rel w\<close>. A successful deletion removes the release, the error
  "not found" means it is not there, and the other services do not touch releases.\<close>

definition helm_api :: "'w GroundEnv \<Rightarrow> ('w \<Rightarrow> string set) \<Rightarrow> bool" where
  "helm_api ge rel \<longleftrightarrow>
     (\<forall>n w r w'. cl_helm_Delete (ge_Clients ge) n w = (r, w') \<longrightarrow> rel w' \<subseteq> rel w \<and>
        (case r of Ok _ \<Rightarrow> n \<notin> rel w' | Fail e \<Rightarrow> release_not_found n e \<longrightarrow> n \<notin> rel w' | Panics s \<Rightarrow> True)) \<and>
     (\<forall>ns n. leaves rel (cl_GetSecret (ge_Clients ge) ns n)) \<and>
     (\<forall>a b. leaves rel (oc_DeleteUser (cl_Openstack (ge_Clients ge)) a b)) \<and>
     (\<forall>ns n. leaves rel (kc_Delete (cl_Klusters (ge_Clients ge)) ns n)) \<and> leaves rel (ge_tick ge)"

definition no_orphan :: "('w \<Rightarrow> kluster_store) \<Rightarrow> ('w \<Rightarrow> string set) \<Rightarrow> Kluster \<Rightarrow> 'w \<Rightarrow> bool" where
  "no_orphan st rel kluster w \<longleftrightarrow> stored_phase (st w) kluster \<noteq> None \<or> k_Name kluster \<notin> rel w"

lemma leaves_both_keeps: "leaves f m \<Longrightarrow> leaves g m \<Longrightarrow> keeps (\<lambda>w. Q (f w) (g w)) m"
  by (simp add: leaves_def keeps_def)

lemma terminateKluster_no_orphan:
  assumes api: "kluster_api (cl_Klusters (ge_Clients ge)) st" and fr: "ground_frame ge st" and helm: "helm_api ge rel"
  shows "triple (no_orphan st rel kluster) (terminateKluster ge kluster)
    (\<lambda>_ w. k_Name kluster \<notin> rel w) (no_orphan st rel kluster)"
proof -
  let ?I = "no_orphan st rel kluster" and ?R = "\<lambda>w. k_Name kluster \<notin> rel w"
  have lv: "leaves st (cl_GetSecret (ge_Clients ge) a b)" "leaves rel (cl_GetSecret (ge_Clients ge) a b)"
    "leaves st (oc_DeleteUser (cl_Openstack (ge_Clients ge)) a b)"
    "leaves rel (oc_DeleteUser (cl_Openstack (ge_Clients ge)) a b)" for a b
    using fr helm by (simp_all add: ground_frame_def helm_api_def)
  have usr: "keeps ?I (tryc (cl_GetSecret (ge_Clients ge) (k_Namespace kluster) (k_Name kluster))
      (\<lambda>err. if IsNotFound err then ret () else fail err)
      (\<lambda>secret. oc_DeleteUser (cl_Openstack (ge_Clients ge)) (secret_data secret ''openstack-username'')
         (secret_data secret ''openstack-domain-name'')))"
    unfolding no_orphan_def
    by (intro keeps_intro leaves_both_keeps [where f = st and g = rel
          and Q = "\<lambda>m r. stored_phase m kluster \<noteq> None \<or> k_Name kluster \<notin> r"] lv)
  have rm: "triple ?I (tryc (cl_helm_Delete (ge_Clients ge) (k_Name kluster))
      (\<lambda>err. if \<not> release_not_found (k_Name kluster) err then fail err else ret ()) ret) (\<lambda>_. ?R) ?I"
  proof (rule tripleI)
    fix w x w'
    assume "tryc (cl_helm_Delete (ge_Clients ge) (k_Name kluster))
      (\<lambda>err. if \<not> release_not_found (k_Name kluster) err then fail err else ret ()) ret w = (Ok x, w')"
    then show "?R w'" using helm
      by (auto simp: tryc_def helm_api_def split: prod.splits outcome.splits if_splits)
  next
    have keep: "?I w1" if "?I w" "cl_helm_Delete (ge_Clients ge) (k_Name kluster) w = (r, w1)" for w r w1
    proof -
      have "leaves st (cl_helm_Delete (ge_Clients ge) (k_Name kluster))" using fr by (simp add: ground_frame_def)
      from leavesD [OF this that(2)] have "st w1 = st w" .
      moreover have "rel w1 \<subseteq> rel w" using helm that(2) unfolding helm_api_def by blast
      ultimately show ?thesis using that(1) by (auto simp: no_orphan_def)
    qed
    show "?I w'" if "?I w" "tryc (cl_helm_Delete (ge_Clients ge) (k_Name kluster))
      (\<lambda>err. if \<not> release_not_found (k_Name kluster) err then fail err else ret ()) ret w = (Fail e, w')" for w e w'
      using that keep [of w] by (auto simp: tryc_def split: prod.splits outcome.splits if_splits)
    show "?I w'" if "?I w" "tryc (cl_helm_Delete (ge_Clients ge) (k_Name kluster))
      (\<lambda>err. if \<not> release_not_found (k_Name kluster) err then fail err else ret ()) ret w = (Panics e, w')" for w e w'
      using that keep [of w] by (auto simp: tryc_def split: prod.splits outcome.splits if_splits)
  qed
  have rest: "keeps ?R (kc_Delete (cl_Klusters (ge_Clients ge)) (k_Namespace kluster) (k_Name kluster))"
    "keeps ?R (ignore_err (WaitForKlusterDeletion (ge_tick ge) (ge_GetByKey ge) (kluster_key kluster)))"
    unfolding WaitForKlusterDeletion_def
    by (intro keeps_intro keeps_WaitForKluster leaves_keeps [where st = rel and Q = "\<lambda>r. k_Name kluster \<notin> r"];
        use helm in \<open>simp add: helm_api_def\<close>)+
  show ?thesis
    unfolding terminateKluster_def
    by (rule triple_bnd [OF triple_keeps [OF usr]], rule triple_bnd [OF rm],
        rule triple_conseq [OF triple_bnd [OF triple_keeps [OF rest(1)] triple_keeps [OF rest(2)]]])
      (auto simp: no_orphan_def)
qed

text \<open>C23: Termination is ordered. If no release is without its custom resource when
  \<open>terminateKluster\<close> starts, the same holds when it ends, whether it succeeded, failed or panicked at
  any of its steps; after a success the release is gone. So a termination that is broken off
  can be retried: the resource that triggers it is removed last.\<close>

theorem terminate_no_orphan:
  assumes "kluster_api (cl_Klusters (ge_Clients ge)) st" "ground_frame ge st" "helm_api ge rel"
    "no_orphan st rel kluster w" "terminateKluster ge kluster w = (r, w')"
  shows "no_orphan st rel kluster w' \<and> (is_ok r \<longrightarrow> k_Name kluster \<notin> rel w')"
  using tripleD [OF terminateKluster_no_orphan [OF assms(1-3)] assms(4)] assms(5)
  by (cases r) (auto simp: no_orphan_def)

lemma demo_ground_helm: "helm_api demo_ground snd"
  by (simp add: helm_api_def leaves_def demo_ground_def idle_openstack_def client_set_def split_beta svc_def)

theorem terminate_no_orphan_witness:
  "\<exists>w'. terminateKluster demo_ground (ground_kluster KlusterPhaseTerminating)
      ([(''kubernikus'', ''demo'') \<mapsto> ground_kluster KlusterPhaseTerminating], {''demo'', ''other''}) = (Ok (), w') \<and>
    ''demo'' \<notin> snd w'"
proof -
  let ?w = "([(''kubernikus'', ''demo'') \<mapsto> ground_kluster KlusterPhaseTerminating], {''demo'', ''other''})"
  let ?k = "ground_kluster KlusterPhaseTerminating"
  obtain w' where r: "terminateKluster demo_ground ?k ?w = (Ok (), w')"
    by (simp add: terminateKluster_def bnd_def tryc_def ignore_err_def demo_ground_def WaitForKlusterDeletion_def
        WaitForKluster_gone stored_klusters_def ground_kluster_def seed_kluster_def kluster_key_def client_set_def)
  have k: "k_Name ?k = ''demo''" "k_Namespace ?k = ''kubernikus''" by (simp_all add: ground_kluster_def seed_kluster_def)
  then have "no_orphan fst snd ?k ?w" by (simp add: no_orphan_def stored_phase_def)
  from terminate_no_orphan [OF demo_ground_api demo_ground_frame demo_ground_helm this r] r k
  show ?thesis by auto
qed

end
