(* ===== verification/OpenstackLaws.thy ===== *)
theory OpenstackLaws
  imports Openstack
begin

text \<open>
  What the OpenStack client promises its callers, on services that behave as documented:
  the life of a kluster's service user in Keystone, and how the servers of a node pool are
  named and found again.
\<close>

section \<open>Names of servers\<close>

lemma append_Cons_eq_no_sep:
  assumes "c \<notin> set ys" "c \<notin> set vs"
  shows "xs @ c # ys = us @ c # vs \<longleftrightarrow> xs = us \<and> ys = vs"
proof
  assume eq: "xs @ c # ys = us @ c # vs"
  then have "rev ys @ c # rev xs = rev vs @ c # rev us" by (metis append.assoc rev.simps(2) rev_append append_Cons append_Nil)
  moreover have "takeWhile (\<lambda>x. x \<noteq> c) (rev ys @ c # rev xs) = rev ys"
    using assms(1) by (subst takeWhile_append2) auto
  moreover have "takeWhile (\<lambda>x. x \<noteq> c) (rev vs @ c # rev us) = rev vs"
    using assms(2) by (subst takeWhile_append2) auto
  ultimately have "ys = vs" by (metis rev_rev_ident)
  with eq show "xs = us \<and> ys = vs" by simp
qed simp

text \<open>A prefix that ends with a separator ends at a separator.\<close>

lemma prefix_sep_iff:
  assumes "c \<notin> set ys"
  shows "prefix (xs @ [c]) (us @ c # ys) \<longleftrightarrow> xs = us \<or> prefix (xs @ [c]) us"
proof
  assume "prefix (xs @ [c]) (us @ c # ys)"
  then obtain zs where zs: "us @ c # ys = xs @ c # zs" by (auto simp: prefix_def)
  show "xs = us \<or> prefix (xs @ [c]) us"
  proof (cases "length us \<le> length xs")
    case True
    then obtain vs where vs: "xs = us @ vs" "c # ys = vs @ c # zs"
      using zs by (metis append_eq_append_conv_if append_take_drop_id)
    then show ?thesis using assms by (cases vs) auto
  next
    case False
    then obtain vs where "us = xs @ vs" "vs @ c # ys = c # zs" "vs \<noteq> []"
      using zs by (metis append_eq_append_conv_if append_take_drop_id append_Nil2 le_refl linorder_le_cases)
    then show ?thesis by (cases vs) (auto simp: prefix_def)
  qed
qed (auto simp: prefix_def)

lemma is_lower_digit_no_dash: "is_lower c \<or> is_digit c \<Longrightarrow> c \<noteq> CHR ''-''"
  by (auto simp: is_lower_def is_digit_def)

lemma pool_name_no_dash: "pool_name_re s \<Longrightarrow> CHR ''-'' \<notin> set s"
  using is_lower_digit_no_dash by (cases s) (auto simp: pool_name_re_def list_all_iff)

lemma GenerateName_short:
  "length base \<le> 58 \<Longrightarrow> random 5 w = (Ok sfx, w') \<Longrightarrow> GenerateName random base w = (Ok (base @ sfx), w')"
  by (simp add: GenerateName_def bnd_def)


definition named_kluster :: "string \<Rightarrow> Kluster" where
  "named_kluster n = \<lparr>k_Name = n, k_Namespace = ''kubernikus'', k_UID = ''1'', k_Labels = [], k_Annotations = [],
     k_CreationTimestamp = 0, k_Spec = zero_KlusterSpec\<lparr>spec_Name := n\<rparr>, k_Status = zero_KlusterStatus\<rparr>"

definition named_pool :: "string \<Rightarrow> NodePool" where
  "named_pool n = \<lparr>np_Config = \<lparr>cfg_Repair = False, cfg_Upgrade = False\<rparr>, np_Flavor = ''m1.small'', np_Image = ''coreos'', np_Name = n, np_Size = 1\<rparr>"


text \<open>A base that ends with a separator survives the cut to 58 bytes only if it fits.\<close>

lemma GenerateName_cut:
  assumes "last base = c" "base \<noteq> []" "c \<notin> set sfx" "random 5 w = (Ok sfx, w')" "length sfx = 5"
  shows "\<exists>name. GenerateName random base w = (Ok name, w') \<and> length name \<le> 63 \<and>
    (prefix base name \<longleftrightarrow> length base \<le> 58)"
proof (cases "length base \<le> 58")
  case True
  then show ?thesis using GenerateName_short [where random = random and w = w, OF True assms(4)] assms(5) by auto
next
  case False
  have "\<not> prefix base (take 58 base @ sfx)"
  proof
    assume "prefix base (take 58 base @ sfx)"
    then have "prefix (take 58 base @ drop 58 base) (take 58 base @ sfx)" by simp
    then have "prefix (drop 58 base) sfx" by (simp only: same_prefix_prefix)
    moreover have "c \<in> set (drop 58 base)"
      using False assms(1,2) by (metis last_drop last_in_set drop_eq_Nil not_le)
    ultimately show False using assms(3) by (auto dest: set_mono_prefix)
  qed
  moreover have "GenerateName random base w = (Ok (take 58 base @ sfx), w')"
    using False assms(4) by (simp add: GenerateName_def bnd_def)
  ultimately show ?thesis using False assms(5) by auto
qed

text \<open>C29: The request for a new server. If \<open>CreateNode\<close> succeeds, it has asked Nova for one server
  with the pool's flavor and image, on the kluster's network and in its security group, with
  a name of at most 63 bytes. The name carries the prefix the pool's servers are listed by
  exactly if kluster and pool name together have at most 56 bytes: the servers of pools with
  longer names are created and never found again.\<close>

theorem CreateNode_request:
  assumes "CreateNode gc kluster pool userData (w, c) = (Ok i, w', c')"
    and "\<forall>v r v'. gc_random gc 5 v = (Ok r, v') \<longrightarrow> length r = 5 \<and> CHR ''-'' \<notin> set r"
  shows "\<exists>client opts w1. gc_servers_Create gc client opts w1 = (Ok i, w') \<and>
     sc_FlavorName opts = np_Flavor pool \<and> sc_ImageName opts = np_Image pool \<and> sc_UserData opts = userData \<and>
     sc_Networks opts = [os_NetworkID (spec_Openstack (k_Spec kluster))] \<and>
     sc_SecurityGroups opts = [os_SecurityGroupID (spec_Openstack (k_Spec kluster))] \<and>
     length (sc_Name opts) \<le> 63 \<and>
     (prefix (node_prefix kluster pool) (sc_Name opts) \<longleftrightarrow>
        length (spec_Name (k_Spec kluster)) + length (np_Name pool) \<le> 56)"
proof -
  let ?opts = "\<lambda>name. \<lparr>sc_Name = name, sc_FlavorName = np_Flavor pool, sc_ImageName = np_Image pool,
        sc_Networks = [os_NetworkID (spec_Openstack (k_Spec kluster))], sc_UserData = userData,
        sc_SecurityGroups = [os_SecurityGroupID (spec_Openstack (k_Spec kluster))]\<rparr>"
  from assms(1) obtain client name v v1 where
    n: "GenerateName (gc_random gc) (node_prefix kluster pool) v = (Ok name, v1)" and
    create: "gc_servers_Create gc client (?opts name) v1 = (Ok i, w')"
    unfolding CreateNode_def bnd_eq_Ok_iff by (auto simp: svc_eq_iff)
  from n obtain sfx where r: "gc_random gc 5 v = (Ok sfx, v1)"
    by (auto simp: GenerateName_def bnd_eq_Ok_iff)
  with assms(2) have sfx: "length sfx = 5" "CHR ''-'' \<notin> set sfx" by blast+
  have "last (node_prefix kluster pool) = CHR ''-''" "node_prefix kluster pool \<noteq> []"
    by (simp_all add: node_prefix_def)
  from GenerateName_cut [where random = "gc_random gc" and w = v, OF this sfx(2) r sfx(1)] n
  have "length name \<le> 63 \<and> (prefix (node_prefix kluster pool) name \<longleftrightarrow> length (node_prefix kluster pool) \<le> 58)"
    by auto
  then show ?thesis
    by (intro exI [of _ client] exI [of _ "?opts name"] exI [of _ v1]) (use create in \<open>auto simp: node_prefix_def\<close>)
qed

section \<open>Listing servers\<close>

lemma EachPage_last:
  "(\<And>p. p \<in> set ps \<Longrightarrow> p \<noteq> []) \<Longrightarrow>
     EachPage (map Inr ps) (\<lambda>page nodes. ret (True, page)) st = ret (if ps = [] then st else last ps)"
  by (induction ps arbitrary: st) auto

text \<open>The listing of a pool's servers keeps the last page only. With a client for the kluster
  and a listing that delivers the pages \<open>ps\<close>, none of them empty, \<open>GetNodes\<close> returns the servers of the
  last page: it finds all servers of the listing exactly if the pages before the last are none.\<close>

theorem GetNodes_last_page:
  assumes "klusterClientFor gc kluster s = (Ok provider, w, c)" "gc_NewComputeV2 gc provider w = (Ok client, w1)"
    "gc_servers_List gc client (node_prefix kluster pool) w1 = map Inr ps" "\<forall>p \<in> set ps. p \<noteq> []"
  shows "\<exists>nodes. GetNodes gc kluster pool s = (Ok nodes, w1, c) \<and> nodes = (if ps = [] then [] else last ps) \<and>
    (nodes = concat ps \<longleftrightarrow> length ps \<le> 1)"
proof -
  let ?n = "if ps = [] then [] else last ps"
  have "GetNodes gc kluster pool s = (Ok ?n, w1, c)"
    using assms by (simp add: GetNodes_def bnd_def EachPage_last)
  moreover have "?n = concat ps \<longleftrightarrow> length ps \<le> 1"
  proof (cases ps rule: rev_cases)
    case (snoc qs q)
    then have "?n = concat ps \<longleftrightarrow> concat qs = []" by simp
    also have "\<dots> \<longleftrightarrow> qs = []" using snoc assms(4) by (cases qs) auto
    finally show ?thesis using snoc by simp
  qed simp
  ultimately show ?thesis by blast
qed

section \<open>Service users\<close>

text \<open>A Keystone whose users are \<open>users w\<close>: their id, domain and name. It lists the users of a domain
  with a name on one page (or fails), a new user gets the requested domain and name, an update
  without a name and a domain changes neither, and the other requests leave the users alone.\<close>

type_synonym kuser = "string \<times> string \<times> string"

definition user_matches :: "string \<Rightarrow> string \<Rightarrow> kuser \<Rightarrow> bool" where
  "user_matches d n u \<longleftrightarrow> snd u = (d, n)"

definition keystone :: "('w, 'p, 's) gophercloud \<Rightarrow> ('w \<Rightarrow> kuser list) \<Rightarrow> bool" where
  "keystone gc users \<longleftrightarrow>
     (\<forall>a. leaves users (gc_NewClient gc a)) \<and> (\<forall>a b. leaves users (gc_AuthenticateV3 gc a b)) \<and>
     (\<forall>a. leaves users (gc_NewIdentityV3 gc a)) \<and>
     (\<forall>a b c d. leaves users (gc_roles_AssignToUserInProject gc a b c d)) \<and>
     (\<forall>s u opts. uo_Name opts = [] \<and> uo_DomainID opts = [] \<longrightarrow> leaves users (gc_users_Update gc s u opts)) \<and>
     (\<forall>s d n w. gc_users_List gc s d n w = [Inr (map fst (filter (user_matches d n) (users w)))] \<or>
        (\<exists>e. gc_users_List gc s d n w = [Inl e])) \<and>
     (\<forall>s opts w u w'. gc_users_Create gc s opts w = (Ok u, w') \<longrightarrow>
        users w' = users w @ [(u, uo_DomainID opts, uo_Name opts)]) \<and>
     (\<forall>s u w w'. gc_users_Delete gc s u w = (Ok (), w') \<longrightarrow> users w' = filter (\<lambda>x. fst x \<noteq> u) (users w))"

definition others :: "string \<Rightarrow> string \<Rightarrow> kuser list \<Rightarrow> kuser list" where
  "others d n us = filter (\<lambda>u. \<not> user_matches d n u) us"

text \<open>A call that leaves the users alone keeps every statement about them; what it adds to the
  client's caches does not matter here.\<close>

abbreviation about_users :: "('w \<Rightarrow> kuser list) \<Rightarrow> (kuser list \<Rightarrow> bool) \<Rightarrow> 'w \<times> 'c \<Rightarrow> bool" where
  "about_users users Q \<equiv> \<lambda>(w, c). Q (users w)"

lemma keeps_users_svc: "leaves users m \<Longrightarrow> keeps (about_users users Q) (svc m)"
  using leaves_keeps [of users m Q] keeps_svc [of "\<lambda>w. Q (users w)" m] by simp

lemma keeps_users_client: "keeps (about_users users Q) (client_set f)"
  by (rule keeps_client_set)

lemma keeps_EachPage:
  "(\<And>items st. keeps P (h items st)) \<Longrightarrow> keeps P (EachPage ps h st)"
proof (induction ps h st rule: EachPage.induct)
  case (3 items ps h st)
  have "keeps P (bnd (h items st) (\<lambda>(ok, st'). if \<not> ok then ret st' else EachPage ps h st'))" if "items \<noteq> []"
    using 3 that by (intro keeps_bnd) (auto intro: keeps_ret)
  then show ?case by (auto intro: keeps_ret)
qed (auto intro: keeps_intro)

lemma adminClient_users:
  assumes "keystone gc users"
  shows "keeps (about_users users Q) (adminClient cf gc)"
  unfolding adminClient_def client_get_def
  by (intro keeps_intro keeps_users_svc keeps_users_client) (use assms in \<open>auto simp: keystone_def\<close>)

lemma getDomainID_users:
  assumes "keystone gc users"
  shows "keeps (about_users users Q) (getDomainID gc s d)"
  unfolding getDomainID_def client_get_def listing_def
  by (intro keeps_intro keeps_users_svc keeps_users_client keeps_EachPage)
    (use assms in \<open>auto simp: keystone_def intro!: keeps_intro keeps_users_client split: list.split\<close>)

lemma getRoleID_users: "keeps (about_users users Q) (getRoleID gc s r)"
  unfolding getRoleID_def client_get_def listing_def
  by (intro keeps_intro keeps_users_client keeps_EachPage)

lemma users_same:
  assumes "\<And>Q. keeps (about_users users Q) m" "m s = (r, w', c')"
  shows "users w' = users (fst s)"
  using keepsD [OF assms(1) [of "\<lambda>us. us = users (fst s)"] _ assms(2)] by (cases s) simp

lemma getDomainID_cached:
  "getDomainID gc s n wc = (Ok d, w', c') \<Longrightarrow> osc_domainNameToID c' n = Some d"
  by (cases wc)
    (auto simp: getDomainID_def bnd_eq_Ok_iff split: option.splits)

lemma listed_users:
  assumes "keystone gc users"
  shows "gc_users_List gc s d n w = [Inr us] \<Longrightarrow> us = map fst (filter (user_matches d n) (users w))"
    "(\<exists>us. gc_users_List gc s d n w = [Inr us]) \<or> (\<exists>e. gc_users_List gc s d n w = [Inl e])"
  using assms unfolding keystone_def by (metis list.inject sum.inject(2) sum.distinct(1))+

text \<open>The beginning both operations share.\<close>

lemma with_domain:
  assumes "keystone gc users"
    "bnd (adminClient cf gc) (\<lambda>provider. bnd (svc (gc_NewIdentityV3 gc provider)) (\<lambda>identity.
       bnd (getDomainID gc identity domain) (f identity))) (w, c) = (Ok x, w', c')"
  obtains identity d w1 c1 where "f identity d (w1, c1) = (Ok x, w', c')" "users w1 = users w"
    "osc_domainNameToID c1 domain = Some d"
proof -
  from assms(2) obtain provider wa ca identity wb cb d w1 c1 where
    a: "adminClient cf gc (w, c) = (Ok provider, wa, ca)" and
    b: "svc (gc_NewIdentityV3 gc provider) (wa, ca) = (Ok identity, wb, cb)" and
    g: "getDomainID gc identity domain (wb, cb) = (Ok d, w1, c1)" and
    f: "f identity d (w1, c1) = (Ok x, w', c')"
    by (auto simp: bnd_eq_Ok_iff)
  have "users wa = users w" using users_same [OF adminClient_users [OF assms(1)] a] by simp
  moreover have "users wb = users wa"
    using assms(1) b leavesD [of users "gc_NewIdentityV3 gc provider" wa] by (simp add: keystone_def svc_eq_iff del: svc_apply)
  moreover have "users w1 = users wb" using users_same [OF getDomainID_users [OF assms(1)] g] by simp
  ultimately show ?thesis using that f getDomainID_cached [OF g] by simp
qed

lemma filter_fst_others:
  assumes "distinct (map fst us)" "filter P us = [x]"
  shows "filter P (filter (\<lambda>y. fst y \<noteq> fst x) us) = []"
    "filter (\<lambda>y. \<not> P y) (filter (\<lambda>y. fst y \<noteq> fst x) us) = filter (\<lambda>y. \<not> P y) us"
proof -
  have x: "x \<in> set us" "P x" using assms(2) by (metis filter_eq_ConsD in_set_conv_decomp)+
  have u: "y = x" if "y \<in> set us" "P y" for y
  proof -
    have "y \<in> set (filter P us)" using that by simp
    then show ?thesis using assms(2) by simp
  qed
  have ne: "fst y \<noteq> fst x" if "y \<in> set us" "\<not> P y" for y
    using that x assms(1) by (metis eq_key_imp_eq_value prod.collapse)
  show "filter P (filter (\<lambda>y. fst y \<noteq> fst x) us) = []" using u by (auto simp: filter_empty_conv)
  show "filter (\<lambda>y. \<not> P y) (filter (\<lambda>y. fst y \<noteq> fst x) us) = filter (\<lambda>y. \<not> P y) us"
    using ne by (auto simp: conj_commute intro!: filter_cong)
qed

lemma DeleteUser_users:
  assumes "keystone gc users" "DeleteUser cf gc n domain (w, c) = (Ok (), w', c')" "distinct (map fst (users w))"
  shows "\<exists>d. osc_domainNameToID c' domain = Some d \<and> filter (user_matches d n) (users w') = [] \<and>
    others d n (users w') = others d n (users w)"
proof -
  from assms(2)[unfolded DeleteUser_def]
  obtain identity d w1 c1 where d: "users w1 = users w" "osc_domainNameToID c1 domain = Some d" and
    e: "EachPage (gc_users_List gc identity d n w1) (\<lambda>userList st.
         case userList of
           [] \<Rightarrow> ret (False, st)
         | [u] \<Rightarrow> bnd (svc (gc_users_Delete gc identity u)) (\<lambda>_. ret (False, st))
         | _ \<Rightarrow> fail (Errorf ''Multiple users found'')) () (w1, c1) = (Ok (), w', c')"
    by (rule with_domain [OF assms(1)]) (simp add: bnd_def)
  from listed_users(2) [OF assms(1), of identity d n w1] e obtain us where
    us: "gc_users_List gc identity d n w1 = [Inr us]" by auto
  note l = listed_users(1) [OF assms(1) us, unfolded d(1)]
  from e us consider "us = []" "w' = w1" "c' = c1"
    | u where "us = [u]" "gc_users_Delete gc identity u w1 = (Ok (), w')" "c' = c1"
    by (auto simp: bnd_eq_Ok_iff split: list.splits if_splits prod.splits)
  then show ?thesis
  proof cases
    case 1
    then show ?thesis using l d by (auto simp: others_def)
  next
    case 2
    from l 2(1) obtain x where x: "filter (user_matches d n) (users w) = [x]" "fst x = u" by auto
    have "users w' = filter (\<lambda>y. fst y \<noteq> fst x) (users w)"
      using assms(1) 2(2) d(1) x(2) unfolding keystone_def by metis
    then show ?thesis using filter_fst_others [OF assms(3) x(1)] d(2) 2(3) by (auto simp: others_def)
  qed
qed

definition domain_cached :: "string \<Rightarrow> string \<Rightarrow> 'p osc \<Rightarrow> bool" where
  "domain_cached domain d c \<longleftrightarrow> osc_domainNameToID c domain = Some d"

lemma assign_roles_users:
  fixes gc :: "('w, 'p, 's) gophercloud"
  assumes "keystone gc users"
  shows "keeps (\<lambda>(w, c). Q (users w) \<and> domain_cached domain d c)
    (for_each serviceUserRoles (\<lambda>roleName. bnd (getRoleID gc identity roleName) (\<lambda>roleID.
       svc (gc_roles_AssignToUserInProject gc identity p uid roleID))))"
proof -
  have "keeps (\<lambda>(w, c). Q (users w) \<and> domain_cached domain d c) (svc (gc_roles_AssignToUserInProject gc identity p uid i))"
    for i using assms by (auto simp: keystone_def keeps_def leaves_def svc_def split: prod.split) (metis snd_conv)+
  moreover have "keeps (\<lambda>(w, c). Q (users w) \<and> domain_cached domain d c) (getRoleID gc identity r)" for r
    unfolding getRoleID_def client_get_def listing_def
    by (intro keeps_intro keeps_EachPage) (auto simp: keeps_def domain_cached_def)
  ultimately show ?thesis by (intro keeps_intro)
qed

lemma getUserByName_Ok:
  assumes "keystone gc users" "getUserByName gc identity n d (w1, c1) = (Ok user, w2, c2)"
  shows "w2 = w1 \<and> c2 = c1 \<and>
    map fst (filter (user_matches d n) (users w1)) = (case user of None \<Rightarrow> [] | Some u \<Rightarrow> [u])"
proof -
  from listed_users(2) [OF assms(1), of identity d n w1] assms(2) obtain us where
    us: "gc_users_List gc identity d n w1 = [Inr us]" by (auto simp: getUserByName_def bnd_def)
  note l = listed_users(1) [OF assms(1) us]
  show ?thesis
    using assms(2) us by (auto simp: getUserByName_def bnd_def l [symmetric] split: list.splits if_splits)
qed

lemma CreateKlusterServiceUser_users:
  assumes "keystone gc users" "CreateKlusterServiceUser cf gc n pw domain pid (w, c) = (Ok (), w', c')"
  shows "\<exists>d. osc_domainNameToID c' domain = Some d \<and> length (filter (user_matches d n) (users w')) = 1 \<and>
    others d n (users w') = others d n (users w)"
proof -
  let ?roles = "\<lambda>identity uid. for_each serviceUserRoles (\<lambda>roleName. bnd (getRoleID gc identity roleName) (\<lambda>roleID.
       svc (gc_roles_AssignToUserInProject gc identity pid uid roleID)))"
  let ?put = "\<lambda>identity d user. case user of
            Some u \<Rightarrow> svc (gc_users_Update gc identity u
              \<lparr>uo_Name = [], uo_DomainID = [], uo_Password = pw, uo_DefaultProjectID = pid,
               uo_Description = service_user_description\<rparr>)
          | None \<Rightarrow> svc (gc_users_Create gc identity
              \<lparr>uo_Name = n, uo_DomainID = d, uo_Password = pw,
               uo_DefaultProjectID = pid, uo_Description = service_user_description\<rparr>)"
  from assms(2)[unfolded CreateKlusterServiceUser_def]
  obtain identity d w1 c1 where d: "users w1 = users w" "osc_domainNameToID c1 domain = Some d" and
    e: "bnd (getUserByName gc identity n d) (\<lambda>user. bnd (?put identity d user) (?roles identity)) (w1, c1) = (Ok (), w', c')"
    by (rule with_domain [OF assms(1)])
  from e obtain user w2 c2 uid w3 c3 where
    u: "getUserByName gc identity n d (w1, c1) = (Ok user, w2, c2)" and
    p: "?put identity d user (w2, c2) = (Ok uid, w3, c3)" and
    r: "?roles identity uid (w3, c3) = (Ok (), w', c')"
    by (auto simp: bnd_eq_Ok_iff)
  note u2 = getUserByName_Ok [OF assms(1) u]
  have put: "c3 = c2 \<and> users w3 = users w2 @ (case user of None \<Rightarrow> [(uid, d, n)] | Some _ \<Rightarrow> [])"
  proof (cases user)
    case None
    with p assms(1) show ?thesis by (auto simp: svc_eq_iff keystone_def simp del: svc_apply)
  next
    case (Some u)
    with p have "gc_users_Update gc identity u \<lparr>uo_Name = [], uo_DomainID = [], uo_Password = pw,
        uo_DefaultProjectID = pid, uo_Description = service_user_description\<rparr> w2 = (Ok uid, w3)" "c3 = c2"
      by (simp_all add: svc_eq_iff del: svc_apply)
    moreover from assms(1) have "leaves users (gc_users_Update gc identity u \<lparr>uo_Name = [], uo_DomainID = [],
        uo_Password = pw, uo_DefaultProjectID = pid, uo_Description = service_user_description\<rparr>)"
      by (simp add: keystone_def)
    ultimately show ?thesis using Some leavesD by fastforce
  qed
  have fin: "users w' = users w3 \<and> domain_cached domain d c'"
    using keepsD [OF assign_roles_users [OF assms(1), where Q = "\<lambda>us. us = users w3" and domain = domain and d = d] _ r]
      d(2) u2 put by (simp add: domain_cached_def)
  have "length (filter (user_matches d n) (users w')) = 1"
    using fin put u2 d(1) by (cases user) (auto simp: user_matches_def dest: arg_cong [of _ _ length])
  moreover have "others d n (users w') = others d n (users w)"
    using fin put u2 d(1) by (cases user) (auto simp: others_def user_matches_def)
  ultimately show ?thesis using fin by (auto simp: domain_cached_def)
qed

text \<open>C27: The service user of a kluster. On a Keystone as described, with unique user ids: after a
  successful \<open>CreateKlusterServiceUser\<close> there is exactly one user of that name in the domain,
  whether it existed before or not; after a successful \<open>DeleteUser\<close> there is none. No other user is
  changed in either case. (With two users of the name both operations fail.)\<close>

theorem service_user_lifecycle:
  assumes "keystone gc users" "distinct (map fst (users w))"
  shows "(CreateKlusterServiceUser cf gc n pw domain pid (w, c) = (Ok (), w', c') \<longrightarrow>
      (\<exists>d. osc_domainNameToID c' domain = Some d \<and> length (filter (user_matches d n) (users w')) = 1 \<and>
         others d n (users w') = others d n (users w))) \<and>
    (DeleteUser cf gc n domain (w, c) = (Ok (), w', c') \<longrightarrow>
      (\<exists>d. osc_domainNameToID c' domain = Some d \<and> filter (user_matches d n) (users w') = [] \<and>
         others d n (users w') = others d n (users w)))"
  using CreateKlusterServiceUser_users [OF assms(1)] DeleteUser_users [OF assms(1) _ assms(2)] by blast

text \<open>A cloud whose world is its users, with two pages of servers.\<close>

definition demo_node :: "string \<Rightarrow> Node" where
  "demo_node i = \<lparr>nd_ID = i, nd_Name = ''web-blue-'' @ i, nd_TaskState = [], nd_VMState = ''active'', nd_PowerState = 1\<rparr>"

definition demo_gc :: "(kuser list, unit, unit) gophercloud" where
  "demo_gc = \<lparr>gc_NewClient = \<lambda>_. ret (), gc_AuthenticateV3 = \<lambda>_ _. ret (), gc_NewIdentityV3 = \<lambda>_. ret (),
     gc_NewNetworkV2 = \<lambda>_. ret (), gc_NewComputeV2 = \<lambda>_. ret (), gc_projects_Get = \<lambda>_ _. fail (Errorf []),
     gc_domains_Get = \<lambda>_ _. fail (Errorf []), gc_domains_List = \<lambda>_ n _. [Inr [''id-'' @ n]],
     gc_roles_List = \<lambda>_ _. [Inr [(''network_admin'', ''r1''), (''member'', ''r2'')]],
     gc_roles_AssignToUserInProject = \<lambda>_ _ _ _. ret (),
     gc_users_List = \<lambda>_ d n w. [Inr (map fst (filter (user_matches d n) w))],
     gc_users_Create = \<lambda>_ opts w. (Ok (''new''), w @ [(''new'', uo_DomainID opts, uo_Name opts)]),
     gc_users_Update = \<lambda>_ u _. ret u, gc_users_Delete = \<lambda>_ u w. (Ok (), filter (\<lambda>x. fst x \<noteq> u) w),
     gc_routers_List = \<lambda>_ _ _. [], gc_ports_List = \<lambda>_ _ _ _. [], gc_networks_Get = \<lambda>_ _. fail (Errorf []),
     gc_subnets_Get = \<lambda>_ _. fail (Errorf []), gc_securitygroups_List = \<lambda>_ _ _ _. [],
     gc_servers_List = \<lambda>_ _ _. [Inr [demo_node ''a''], Inr [demo_node ''b'']],
     gc_servers_Create = \<lambda>_ opts. ret (sc_Name opts), gc_servers_Delete = \<lambda>_ _. ret (),
     gc_services_List = \<lambda>_ _ _. [], gc_endpoints_List = \<lambda>_ _ _ _. [], gc_tokens_Catalog = \<lambda>_ _. ret [],
     gc_secrets_Get = \<lambda>_. ret [], gc_random = \<lambda>_. ret ''x7k2p''\<rparr>"

definition demo_osc :: "unit osc" where
  "demo_osc = \<lparr>osc_klusterClients = [''1'' \<mapsto> ()], osc_adminProviderClient = Some (), osc_domainNameToID = Map.empty,
     osc_roleNameToID = Map.empty\<rparr>"

definition demo_cf :: osc_config where
  "demo_cf = \<lparr>cf_authURL = ''https://keystone/v3'', cf_authUsername = [], cf_authPassword = [], cf_authDomain = [],
     cf_authProject = [], cf_authProjectDomain = []\<rparr>"

lemma demo_gc_keystone: "keystone demo_gc id"
  by (simp add: keystone_def demo_gc_def leaves_def)

theorem service_user_lifecycle_witness:
  "\<exists>w' c'. DeleteUser demo_cf demo_gc ''kubernikus-demo'' ''kubernikus''
      ([(''7'', ''id-kubernikus'', ''kubernikus-demo''), (''8'', ''id-kubernikus'', ''admin'')], demo_osc) = (Ok (), w', c') \<and>
    w' = [(''8'', ''id-kubernikus'', ''admin'')] \<and> (\<exists>d. osc_domainNameToID c' ''kubernikus'' = Some d)"
proof -
  let ?w = "[(''7'', ''id-kubernikus'', ''kubernikus-demo''), (''8'', ''id-kubernikus'', ''admin'')]"
  obtain w' c' where r: "DeleteUser demo_cf demo_gc ''kubernikus-demo'' ''kubernikus'' (?w, demo_osc) = (Ok (), w', c')"
    "w' = [(''8'', ''id-kubernikus'', ''admin'')]"
    by (simp add: DeleteUser_def adminClient_def getDomainID_def bnd_def ignore_err_def tryc_def demo_gc_def demo_osc_def
        user_matches_def)
  have "\<exists>d. osc_domainNameToID c' ''kubernikus'' = Some d"
    using service_user_lifecycle [where gc = demo_gc and users = id and w = ?w and cf = demo_cf and
        n = "''kubernikus-demo''" and domain = "''kubernikus''" and c = demo_osc and w' = w' and c' = c']
      demo_gc_keystone r(1) by auto
  with r show ?thesis by blast
qed

theorem CreateNode_request_witness:
  "\<exists>i w' c'. CreateNode demo_gc (named_kluster ''web'') (named_pool ''blue'') ''data'' ([], demo_osc) = (Ok i, w', c') \<and>
     prefix (node_prefix (named_kluster ''web'') (named_pool ''blue'')) i"
proof -
  let ?k = "named_kluster ''web''" and ?p = "named_pool ''blue''"
  obtain i w' c' where r: "CreateNode demo_gc ?k ?p ''data'' ([], demo_osc) = (Ok i, w', c')"
    by (simp add: CreateNode_def klusterClientFor_def GenerateName_def bnd_def demo_gc_def demo_osc_def named_kluster_def)
  have "\<forall>v r v'. gc_random demo_gc 5 v = (Ok r, v') \<longrightarrow> length r = 5 \<and> CHR ''-'' \<notin> set r"
    by (auto simp: demo_gc_def)
  from CreateNode_request [OF r this] r show ?thesis
    by (auto simp: demo_gc_def named_kluster_def named_pool_def zero_KlusterSpec_def)
qed

theorem GetNodes_last_page_witness:
  "\<exists>w c. GetNodes demo_gc (named_kluster ''web'') (named_pool ''blue'') ([], demo_osc) = (Ok [demo_node ''b''], w, c)"
proof -
  have a: "klusterClientFor demo_gc (named_kluster ''web'') ([], demo_osc) = (Ok (), [], demo_osc)"
    by (simp add: klusterClientFor_def bnd_def demo_osc_def named_kluster_def)
  have b: "gc_NewComputeV2 demo_gc () [] = (Ok (), [])"
    "gc_servers_List demo_gc () (node_prefix (named_kluster ''web'') (named_pool ''blue'')) [] =
       map Inr [[demo_node ''a''], [demo_node ''b'']]"
    by (simp_all add: demo_gc_def)
  show ?thesis using GetNodes_last_page [OF a b] by auto
qed

end
