(* ===== verification/Iptables.thy ===== *)
theory Iptables
  imports Version Polling
begin

text \<open>
  The wrapper around the iptables programs (\<open>src/pkg/util/iptables\<close>). Running a program is the
  parameter \<open>ie_exec\<close> of the environment: program, arguments and standard input give the
  combined output and an error; the two locks of xtables are its other operations. The mutex
  of the runner makes its operations atomic, so they are functions of the world.
\<close>

section \<open>Data\<close>

datatype RulePosition = Prepend | Append

fun position_op :: "RulePosition \<Rightarrow> string" where
  "position_op Prepend = ''-I''"
| "position_op Append = ''-A''"

datatype Protocol = ProtocolIpv4 | ProtocolIpv6

definition TableNAT :: string where "TableNAT = ''nat''"
definition ChainOutput :: string where "ChainOutput = ''OUTPUT''"

definition MinCheckVersion :: string where "MinCheckVersion = ''1.4.11''"
definition MinWaitVersion :: string where "MinWaitVersion = ''1.4.20''"
definition MinWait2Version :: string where "MinWait2Version = ''1.4.22''"
definition LockfilePath16x :: string where "LockfilePath16x = ''/run/xtables.lock''"

record 'w ipt_env =
  ie_exec :: "string \<Rightarrow> string list \<Rightarrow> string \<Rightarrow> 'w \<Rightarrow> (string \<times> goerr option) \<times> 'w"
  ie_OpenFile :: "string \<Rightarrow> ('w, unit) go"
  ie_Flock :: "('w, unit) go"
  ie_ListenUnix :: "string \<Rightarrow> ('w, unit) go"
  ie_CloseFile :: "('w, unit) go"
  ie_CloseListener :: "('w, unit) go"
  ie_sleep :: "('w, unit) go"

record 'w runner =
  rn_protocol :: Protocol
  rn_hasCheck :: bool
  rn_waitFlag :: "string list"
  rn_restoreWaitFlag :: "string list"
  rn_lockfilePath :: string
  rn_reloadFuncs :: "('w \<Rightarrow> 'w) list"

definition CombinedOutput :: "'w ipt_env \<Rightarrow> string \<Rightarrow> string list \<Rightarrow> string \<Rightarrow> ('w, string \<times> goerr option) go" where
  "CombinedOutput ie cmd args stdin = (\<lambda>w. case ie_exec ie cmd args stdin w of (r, w') \<Rightarrow> (Ok r, w'))"

text \<open>\<open>err.(utilexec.ExitError)\<close> with exit status 1: the program ran and the operation failed.\<close>

fun exited_1 :: "goerr \<Rightarrow> bool" where
  "exited_1 (ExitErr exited status s) \<longleftrightarrow> exited \<and> status = 1"
| "exited_1 _ \<longleftrightarrow> False"

section \<open>Versions\<close>

text \<open>The leftmost match of \<open>v([0-9]+(\.[0-9]+)+)\<close>.\<close>

fun find_version :: "string \<Rightarrow> string option" where
  "find_version [] = None"
| "find_version (c # cs) =
     (if c = CHR ''v'' then
        (case dotted is_digit cs of
           Some (m, rest) \<Rightarrow> if CHR ''.'' \<in> set m then Some m else find_version cs
         | None \<Rightarrow> find_version cs)
      else find_version cs)"

definition version_of_output :: "string \<times> goerr option \<Rightarrow> ('w, string) go" where
  "version_of_output r =
     (case r of
        (out, Some err) \<Rightarrow> fail err
      | (out, None) \<Rightarrow>
          (case find_version out of
             None \<Rightarrow> fail (Errorf (''no iptables version found in string: '' @ out))
           | Some m \<Rightarrow> ret m))"

definition getIPTablesVersionString :: "'w ipt_env \<Rightarrow> ('w, string) go" where
  "getIPTablesVersionString ie = bnd (CombinedOutput ie ''iptables'' [''--version''] []) version_of_output"

definition getIPTablesRestoreVersionString :: "'w ipt_env \<Rightarrow> ('w, string) go" where
  "getIPTablesRestoreVersionString ie =
     bnd (CombinedOutput ie ''iptables-restore'' [''--version''] []) version_of_output"

definition getIPTablesHasCheckCommand :: "string \<Rightarrow> bool" where
  "getIPTablesHasCheckCommand vstring =
     (case ParseGeneric MinCheckVersion of
        Ok minVersion \<Rightarrow>
          (case ParseGeneric vstring of Ok version \<Rightarrow> AtLeast version minVersion | _ \<Rightarrow> True)
      | _ \<Rightarrow> True)"

definition getIPTablesWaitFlag :: "string \<Rightarrow> string list" where
  "getIPTablesWaitFlag vstring =
     (case ParseGeneric vstring of
        Ok version \<Rightarrow>
          (case ParseGeneric MinWaitVersion of
             Ok minVersion \<Rightarrow>
               if LessThan version minVersion then []
               else (case ParseGeneric MinWait2Version of
                       Ok minVersion2 \<Rightarrow> if LessThan version minVersion2 then [''-w''] else [''-w2'']
                     | _ \<Rightarrow> [])
           | _ \<Rightarrow> [])
      | _ \<Rightarrow> [])"

definition getIPTablesRestoreWaitFlag :: "'w ipt_env \<Rightarrow> ('w, string list) go" where
  "getIPTablesRestoreWaitFlag ie =
     tryc (getIPTablesRestoreVersionString ie) (\<lambda>_. ret [])
       (\<lambda>vstring. if vstring = [] then ret []
                  else case ParseGeneric vstring of Ok v \<Rightarrow> ret [''--wait=2''] | _ \<Rightarrow> ret [])"

definition newInternal :: "'w ipt_env \<Rightarrow> Protocol \<Rightarrow> string \<Rightarrow> ('w, 'w runner) go" where
  "newInternal ie protocol lockfilePath =
     bnd (tryc (getIPTablesVersionString ie) (\<lambda>_. ret MinCheckVersion) ret) (\<lambda>vstring.
     bnd (getIPTablesRestoreWaitFlag ie) (\<lambda>restoreWaitFlag.
     ret \<lparr>rn_protocol = protocol, rn_hasCheck = getIPTablesHasCheckCommand vstring,
          rn_waitFlag = getIPTablesWaitFlag vstring, rn_restoreWaitFlag = restoreWaitFlag,
          rn_lockfilePath = (if lockfilePath = [] then LockfilePath16x else lockfilePath),
          rn_reloadFuncs = []\<rparr>))"

definition New :: "'w ipt_env \<Rightarrow> Protocol \<Rightarrow> ('w, 'w runner) go" where
  "New ie protocol = newInternal ie protocol []"

definition GetVersion :: "'w ipt_env \<Rightarrow> ('w, string) go" where
  "GetVersion ie = getIPTablesVersionString ie"

section \<open>Chains and rules\<close>

definition makeFullArgs :: "string \<Rightarrow> string \<Rightarrow> string list \<Rightarrow> string list" where
  "makeFullArgs table chain args = [chain, ''-t'', table] @ args"

definition IsIpv6 :: "'w runner \<Rightarrow> bool" where
  "IsIpv6 r \<longleftrightarrow> rn_protocol r = ProtocolIpv6"

definition iptablesCommand :: "'w runner \<Rightarrow> string" where
  "iptablesCommand r = (if IsIpv6 r then ''ip6tables'' else ''iptables'')"

definition run_op :: "'w ipt_env \<Rightarrow> 'w runner \<Rightarrow> string \<Rightarrow> string list \<Rightarrow> ('w, string \<times> goerr option) go" where
  "run_op ie r op args = CombinedOutput ie (iptablesCommand r) (rn_waitFlag r @ [op] @ args) []"

definition EnsureChain :: "'w ipt_env \<Rightarrow> 'w runner \<Rightarrow> string \<Rightarrow> string \<Rightarrow> ('w, bool) go" where
  "EnsureChain ie r table chain =
     bnd (run_op ie r ''-N'' (makeFullArgs table chain [])) (\<lambda>(out, e).
       case e of
         None \<Rightarrow> ret False
       | Some err \<Rightarrow> if exited_1 err then ret True
                     else fail (Errorf (''error creating chain '' @ quoted chain @ '': '' @ Error err @ '': '' @ out)))"

definition FlushChain :: "'w ipt_env \<Rightarrow> 'w runner \<Rightarrow> string \<Rightarrow> string \<Rightarrow> ('w, unit) go" where
  "FlushChain ie r table chain =
     bnd (run_op ie r ''-F'' (makeFullArgs table chain [])) (\<lambda>(out, e).
       case e of
         None \<Rightarrow> ret ()
       | Some err \<Rightarrow> fail (Errorf (''error flushing chain '' @ quoted chain @ '': '' @ Error err @ '': '' @ out)))"

definition DeleteChain :: "'w ipt_env \<Rightarrow> 'w runner \<Rightarrow> string \<Rightarrow> string \<Rightarrow> ('w, unit) go" where
  "DeleteChain ie r table chain =
     bnd (run_op ie r ''-X'' (makeFullArgs table chain [])) (\<lambda>(out, e).
       case e of
         None \<Rightarrow> ret ()
       | Some err \<Rightarrow> fail (Errorf (''error deleting chain '' @ quoted chain @ '': '' @ Error err @ '': '' @ out)))"

definition checkRuleUsingCheck :: "'w ipt_env \<Rightarrow> 'w runner \<Rightarrow> string list \<Rightarrow> ('w, bool) go" where
  "checkRuleUsingCheck ie r args =
     bnd (run_op ie r ''-C'' args) (\<lambda>(out, e).
       case e of
         None \<Rightarrow> ret True
       | Some err \<Rightarrow> if exited_1 err then ret False
                     else fail (Errorf (''error checking rule: '' @ Error err @ '': '' @ out)))"

text \<open>\<open>hexnumRE\<close> is \<open>0x0+([0-9])\<close>: of the zeros after \<open>0x\<close> only the last digit is kept.\<close>

function trimhex :: "string \<Rightarrow> string" where
  "trimhex [] = []"
| "trimhex [a] = [a]"
| "trimhex (a # b # t) =
     (let zs = takeWhile (\<lambda>c. c = CHR ''0'') t; r = dropWhile (\<lambda>c. c = CHR ''0'') t in
      if a = CHR ''0'' \<and> b = CHR ''x'' \<and> zs \<noteq> [] \<and> r \<noteq> [] \<and> is_digit (hd r) then ''0x'' @ [hd r] @ trimhex (tl r)
      else if a = CHR ''0'' \<and> b = CHR ''x'' \<and> 2 \<le> length zs then ''0x0'' @ trimhex r
      else a # trimhex (b # t))"
  by pat_completeness auto
termination
proof (relation "measure length", goal_cases)
  case (2 a b t x r)
  then show ?case using length_dropWhile_le [of "\<lambda>c. c = CHR ''0''" t] by (cases r) auto
next
  case (3 a b t x r)
  then show ?case using length_dropWhile_le [of "\<lambda>c. c = CHR ''0''" t] by auto
qed auto

text \<open>The check without \<open>-C\<close>, on the output of iptables-save: a line of the chain with as many
  fields as the rule, all of whose arguments occur in it, in any order.\<close>

definition unquote :: "string \<Rightarrow> string" where
  "unquote field = trimhex (Trim field CHR 0x22)"

definition args_copy :: "string list \<Rightarrow> string list" where
  "args_copy args = concat (map (\<lambda>a. Fields (unquote a)) args)"

definition line_has_rule :: "string \<Rightarrow> string list \<Rightarrow> string \<Rightarrow> bool" where
  "line_has_rule chain args line =
     (let fields = Fields line; argsCopy = args_copy args in
      HasPrefix line (''-A '' @ chain) \<and> length fields = length argsCopy + 2 \<and>
      set argsCopy \<subseteq> set (map unquote fields))"

definition checkRuleWithoutCheck ::
  "'w ipt_env \<Rightarrow> 'w runner \<Rightarrow> string \<Rightarrow> string \<Rightarrow> string list \<Rightarrow> ('w, bool) go" where
  "checkRuleWithoutCheck ie r table chain args =
     bnd (CombinedOutput ie ''iptables-save'' [''-t'', table] []) (\<lambda>(out, e).
       case e of
         Some err \<Rightarrow> fail (Errorf (''error checking rule: '' @ Error err))
       | None \<Rightarrow> ret (list_ex (line_has_rule chain args) (Split CHR 0x0A out)))"

definition checkRule :: "'w ipt_env \<Rightarrow> 'w runner \<Rightarrow> string \<Rightarrow> string \<Rightarrow> string list \<Rightarrow> ('w, bool) go" where
  "checkRule ie r table chain args =
     (if rn_hasCheck r then checkRuleUsingCheck ie r (makeFullArgs table chain args)
      else checkRuleWithoutCheck ie r table chain args)"

definition EnsureRule ::
  "'w ipt_env \<Rightarrow> 'w runner \<Rightarrow> RulePosition \<Rightarrow> string \<Rightarrow> string \<Rightarrow> string list \<Rightarrow> ('w, bool) go" where
  "EnsureRule ie r position table chain args =
     bnd (checkRule ie r table chain args) (\<lambda>exists.
       if exists then ret True
       else bnd (run_op ie r (position_op position) (makeFullArgs table chain args)) (\<lambda>(out, e).
         case e of
           None \<Rightarrow> ret False
         | Some err \<Rightarrow> fail (Errorf (''error appending rule: '' @ Error err @ '': '' @ out))))"

definition DeleteRule :: "'w ipt_env \<Rightarrow> 'w runner \<Rightarrow> string \<Rightarrow> string \<Rightarrow> string list \<Rightarrow> ('w, unit) go" where
  "DeleteRule ie r table chain args =
     bnd (checkRule ie r table chain args) (\<lambda>exists.
       if \<not> exists then ret ()
       else bnd (run_op ie r ''-D'' (makeFullArgs table chain args)) (\<lambda>(out, e).
         case e of
           None \<Rightarrow> ret ()
         | Some err \<Rightarrow> fail (Errorf (''error deleting rule: '' @ Error err @ '': '' @ out))))"

section \<open>Saving and restoring\<close>

text \<open>\<open>SaveInto\<close> fills the buffer also when the program fails.\<close>

definition SaveInto :: "'w ipt_env \<Rightarrow> string \<Rightarrow> ('w, string \<times> goerr option) go" where
  "SaveInto ie table = CombinedOutput ie ''iptables-save'' [''-t'', table] []"

text \<open>The locker is the two handles it holds. \<open>Close\<close> closes what is open and collects the errors.\<close>

record locker =
  lk_lock16 :: bool
  lk_lock14 :: bool

definition aggregate_errs :: "goerr list \<Rightarrow> goerr" where
  "aggregate_errs es =
     (case es of [e] \<Rightarrow> Errorf (Error e) | _ \<Rightarrow> Errorf (''['' @ Join (map Error es) '', '' @ '']''))"

definition close_if :: "bool \<Rightarrow> ('w, unit) go \<Rightarrow> ('w, goerr list) go" where
  "close_if open m = (if open then tryc m (\<lambda>err. ret [err]) (\<lambda>_. ret []) else ret [])"

definition locker_Close :: "'w ipt_env \<Rightarrow> locker \<Rightarrow> ('w, unit) go" where
  "locker_Close ie l =
     bnd (close_if (lk_lock16 l) (ie_CloseFile ie)) (\<lambda>e1.
     bnd (close_if (lk_lock14 l) (ie_CloseListener ie)) (\<lambda>e2.
     if e1 @ e2 = [] then ret () else fail (aggregate_errs (e1 @ e2))))"

text \<open>An attempt on a lock: an error only means to try again.\<close>

definition attempt :: "'w ipt_env \<Rightarrow> ('w, unit) go \<Rightarrow> ('w, bool) go" where
  "attempt ie m = tryc m (\<lambda>_. bnd (ie_sleep ie) (\<lambda>_. ret False)) (\<lambda>_. ret True)"

definition grabIptablesLocks :: "'w ipt_env \<Rightarrow> string \<Rightarrow> ('w, locker) go" where
  "grabIptablesLocks ie lockfilePath =
     tryc (ie_OpenFile ie lockfilePath)
       (\<lambda>err. fail (Errorf (''failed to open iptables lock '' @ lockfilePath @ '': '' @ Error err)))
       (\<lambda>_. tryc (PollImmediate 10 (attempt ie (ie_Flock ie)))
         (\<lambda>err. bnd (ignore_err (locker_Close ie \<lparr>lk_lock16 = True, lk_lock14 = False\<rparr>)) (\<lambda>_.
                fail (Errorf (''failed to acquire new iptables lock: '' @ Error err))))
         (\<lambda>_. tryc (PollImmediate 10 (attempt ie (ie_ListenUnix ie ''@xtables'')))
           (\<lambda>err. bnd (ignore_err (locker_Close ie \<lparr>lk_lock16 = True, lk_lock14 = False\<rparr>)) (\<lambda>_.
                  fail (Errorf (''failed to acquire old iptables lock: '' @ Error err))))
           (\<lambda>_. ret \<lparr>lk_lock16 = True, lk_lock14 = True\<rparr>)))"

definition restore_run :: "'w ipt_env \<Rightarrow> string list \<Rightarrow> string \<Rightarrow> ('w, unit) go" where
  "restore_run ie fullArgs data =
     bnd (CombinedOutput ie ''iptables-restore'' fullArgs data) (\<lambda>(b, e).
       case e of
         Some err \<Rightarrow> fail (Errorf (Error err @ '' ('' @ b @ '')''))
       | None \<Rightarrow> ret ())"

definition restoreInternal ::
  "'w ipt_env \<Rightarrow> 'w runner \<Rightarrow> string list \<Rightarrow> string \<Rightarrow> bool \<Rightarrow> bool \<Rightarrow> ('w, unit) go" where
  "restoreInternal ie r args0 data flush counters =
     (let args = args0 @ (if \<not> flush then [''--noflush''] else []) @ (if counters then [''--counters''] else []);
          fullArgs = rn_restoreWaitFlag r @ args
      in if rn_restoreWaitFlag r = []
         then bnd (grabIptablesLocks ie (rn_lockfilePath r)) (\<lambda>locker.
              tryc (restore_run ie fullArgs data)
                (\<lambda>err. bnd (ignore_err (locker_Close ie locker)) (\<lambda>_. fail err))
                (\<lambda>_. ignore_err (locker_Close ie locker)))
         else restore_run ie fullArgs data)"

definition Restore ::
  "'w ipt_env \<Rightarrow> 'w runner \<Rightarrow> string \<Rightarrow> string \<Rightarrow> bool \<Rightarrow> bool \<Rightarrow> ('w, unit) go" where
  "Restore ie r table data flush counters = restoreInternal ie r [''-T'', table] data flush counters"

definition RestoreAll :: "'w ipt_env \<Rightarrow> 'w runner \<Rightarrow> string \<Rightarrow> bool \<Rightarrow> bool \<Rightarrow> ('w, unit) go" where
  "RestoreAll ie r data flush counters = restoreInternal ie r [] data flush counters"

section \<open>Reload hooks and errors\<close>

definition AddReloadFunc :: "('w \<Rightarrow> 'w) \<Rightarrow> 'w runner \<Rightarrow> 'w runner" where
  "AddReloadFunc reloadFunc r = r\<lparr>rn_reloadFuncs := rn_reloadFuncs r @ [reloadFunc]\<rparr>"

definition reload :: "'w runner \<Rightarrow> 'w \<Rightarrow> 'w" where
  "reload r w = fold (\<lambda>f w. f w) (rn_reloadFuncs r) w"

definition IsNotFoundError :: "goerr \<Rightarrow> bool" where
  "IsNotFoundError err \<longleftrightarrow>
     Contains (Error err) ''No such file or directory'' \<or>
     Contains (Error err) ''No chain/target/match by that name''"

section \<open>Laws of the version checks\<close>

definition vstr :: "nat list \<Rightarrow> string" where
  "vstr ns = Join (map nat_dec ns) ''.''"

lemma find_version_skip: "CHR ''v'' \<notin> set pre \<Longrightarrow> find_version (pre @ s) = find_version s"
  by (induction pre) auto

lemma dot_in_Join: "2 \<le> length xs \<Longrightarrow> CHR ''.'' \<in> set (Join xs ''.'')"
  by (cases xs; cases "tl xs") auto

lemma find_version_print:
  assumes "2 \<le> length ns" "ends_idents is_digit r" "CHR ''v'' \<notin> set pre"
  shows "find_version (pre @ ''v'' @ vstr ns @ r) = Some (vstr ns)"
proof -
  have "dotted is_digit (vstr ns @ r) = Some (vstr ns, r)"
    unfolding vstr_def using assms by (intro dotted_idents) auto
  moreover have "CHR ''.'' \<in> set (vstr ns)" using assms(1) dot_in_Join [of "map nat_dec ns"] by (simp add: vstr_def)
  ultimately show ?thesis by (simp add: find_version_skip [OF assms(3)])
qed

lemma ParseGeneric_vstr:
  assumes "2 \<le> length ns" "list_all (\<lambda>n. n < 2 ^ 64) ns"
  shows "ParseGeneric (vstr ns) = Ok (generic ns)"
proof -
  have "wf_version (generic ns)"
    using assms by (simp add: wf_version_def generic_def wf_prerelease_def wf_metadata_def)
  from parse_String [OF this] show ?thesis by (simp add: ParseGeneric_def generic_def String_def vstr_def)
qed

lemma min_versions:
  "ParseGeneric MinCheckVersion = Ok (generic [1, 4, 11])" "ParseGeneric MinWaitVersion = Ok (generic [1, 4, 20])"
  "ParseGeneric MinWait2Version = Ok (generic [1, 4, 22])"
  by code_simp+

lemma AtLeast_three: "length ns = 3 \<Longrightarrow> length ms = 3 \<Longrightarrow> AtLeast (generic ns) (generic ms) \<longleftrightarrow> ms \<le> ns"
  using AtLeast_lex [of "generic ns" "generic ms"] by (simp add: generic_def zero_padded_def)

lemma LessThan_three: "length ns = 3 \<Longrightarrow> length ms = 3 \<Longrightarrow> LessThan (generic ns) (generic ms) \<longleftrightarrow> ns < ms"
  using AtLeast_three [of ns ms] by (auto simp: LessThan_def AtLeast_def)

text \<open>What a new runner knows about its iptables. If \<open>iptables --version\<close> prints a version of three
  numbers, the runner uses \<open>-C\<close> from 1.4.11 on, \<open>-w\<close> from 1.4.20 on and \<open>-w2\<close> from 1.4.22 on, by the
  lexicographic order of the numbers, whatever is printed around the version.\<close>

theorem New_flags:
  assumes "length ns = 3" "list_all (\<lambda>n. n < 2 ^ 64) ns" "CHR ''v'' \<notin> set pre" "ends_idents is_digit rest"
    "ie_exec ie ''iptables'' [''--version''] [] w = ((pre @ ''v'' @ vstr ns @ rest, None), w1)"
  shows "\<exists>r w2. New ie protocol w = (Ok r, w2) \<and> rn_protocol r = protocol \<and> rn_lockfilePath r = ''/run/xtables.lock'' \<and>
    (rn_hasCheck r \<longleftrightarrow> [1, 4, 11] \<le> ns) \<and>
    rn_waitFlag r = (if ns < [1, 4, 20] then [] else if ns < [1, 4, 22] then [''-w''] else [''-w2'']) \<and>
    rn_restoreWaitFlag r \<in> {[], [''--wait=2'']}"
proof -
  have v: "getIPTablesVersionString ie w = (Ok (vstr ns), w1)"
    using assms find_version_print [of ns rest pre]
    by (simp add: getIPTablesVersionString_def CombinedOutput_def version_of_output_def bnd_def)
  obtain out e w2 where "ie_exec ie ''iptables-restore'' [''--version''] [] w1 = ((out, e), w2)" by (metis prod.collapse)
  then have "\<exists>fl. getIPTablesRestoreWaitFlag ie w1 = (Ok fl, w2) \<and> fl \<in> {[], [''--wait=2'']}"
    by (cases e; cases "find_version out"; cases "ParseGeneric (the (find_version out))")
      (auto simp: getIPTablesRestoreWaitFlag_def getIPTablesRestoreVersionString_def CombinedOutput_def
        version_of_output_def bnd_def tryc_def)
  then obtain fl where fl: "getIPTablesRestoreWaitFlag ie w1 = (Ok fl, w2)" "fl \<in> {[], [''--wait=2'']}" by blast
  have p: "ParseGeneric (vstr ns) = Ok (generic ns)" using assms by (intro ParseGeneric_vstr) auto
  have "getIPTablesHasCheckCommand (vstr ns) \<longleftrightarrow> [1, 4, 11] \<le> ns"
    using assms(1) by (simp add: getIPTablesHasCheckCommand_def p min_versions AtLeast_three)
  moreover have "getIPTablesWaitFlag (vstr ns) =
      (if ns < [1, 4, 20] then [] else if ns < [1, 4, 22] then [''-w''] else [''-w2''])"
    using assms(1) by (simp add: getIPTablesWaitFlag_def p min_versions LessThan_three)
  ultimately show ?thesis
    using v fl by (simp add: New_def newInternal_def tryc_def bnd_def LockfilePath16x_def)
qed

definition no_programs :: "'w ipt_env" where
  "no_programs = \<lparr>ie_exec = \<lambda>_ _ _ w. (([], Some (ExitErr True 127 ''not found'')), w), ie_OpenFile = \<lambda>_. ret (), ie_Flock = ret (),
     ie_ListenUnix = \<lambda>_. ret (), ie_CloseFile = ret (), ie_CloseListener = ret (), ie_sleep = ret ()\<rparr>"

theorem New_flags_witness:
  "\<exists>r w2. New (no_programs\<lparr>ie_exec := \<lambda>_ _ _ w. ((''iptables v1.4.21'' @ [CHR 0x0A], None), w)\<rparr>) ProtocolIpv4 () = (Ok r, w2) \<and>
     rn_hasCheck r \<and> rn_waitFlag r = [''-w'']"
proof -
  let ?ie = "no_programs\<lparr>ie_exec := \<lambda>_ _ _ w. ((''iptables v1.4.21'' @ [CHR 0x0A], None), w)\<rparr>"
  have v: "vstr [1, 4, 21] = ''1.4.21''" by code_simp
  have "ie_exec ?ie ''iptables'' [''--version''] [] () = ((''iptables '' @ ''v'' @ vstr [1, 4, 21] @ [CHR 0x0A], None), ())"
    unfolding v by simp
  from New_flags [OF _ _ _ _ this, of ProtocolIpv4] show ?thesis
    by (auto simp: ends_idents_def is_digit_def)
qed

section \<open>Laws of the rules\<close>

text \<open>An iptables program on the chains \<open>rules w\<close> (the rules of a chain of a table, \<open>None\<close> if there is
  no such chain): what the options do, with exit status 1 if the chain or the rule is not
  there. Any operation may fail in another way and then changes nothing.\<close>

type_synonym chains = "string \<times> string \<rightharpoonup> string list list"

definition program_fails :: "(string \<times> goerr option) \<times> 'w \<Rightarrow> ('w \<Rightarrow> chains) \<Rightarrow> 'w \<Rightarrow> bool" where
  "program_fails res rules w \<longleftrightarrow> (\<exists>out e w'. res = ((out, Some e), w') \<and> \<not> exited_1 e \<and> rules w' = rules w)"

definition program_does :: "(string \<times> goerr option) \<times> 'w \<Rightarrow> ('w \<Rightarrow> chains) \<Rightarrow> chains option \<Rightarrow> 'w \<Rightarrow> bool" where
  "program_does res rules result w \<longleftrightarrow>
     (case result of
        Some rs \<Rightarrow> \<exists>out w'. res = ((out, None), w') \<and> rules w' = rs
      | None \<Rightarrow> \<exists>out e w'. res = ((out, Some e), w') \<and> exited_1 e \<and> rules w' = rules w)"

fun chain_op :: "string \<Rightarrow> string \<times> string \<Rightarrow> string list \<Rightarrow> chains \<Rightarrow> chains option" where
  "chain_op op c args m =
     (case m c of
        None \<Rightarrow> if op = ''-N'' then Some (m(c \<mapsto> [])) else None
      | Some rs \<Rightarrow>
          if op = ''-C'' then (if args \<in> set rs then Some m else None)
          else if op = ''-A'' then Some (m(c \<mapsto> rs @ [args]))
          else if op = ''-I'' then Some (m(c \<mapsto> args # rs))
          else if op = ''-D'' then (if args \<in> set rs then Some (m(c \<mapsto> remove1 args rs)) else None)
          else if op = ''-F'' then Some (m(c \<mapsto> []))
          else if op = ''-X'' then (if rs = [] then Some (m(c := None)) else None)
          else None)"

definition iptables_binary :: "'w ipt_env \<Rightarrow> 'w runner \<Rightarrow> ('w \<Rightarrow> chains) \<Rightarrow> bool" where
  "iptables_binary ie r rules \<longleftrightarrow>
     (\<forall>op chain table args w.
        let res = ie_exec ie (iptablesCommand r) (rn_waitFlag r @ [op, chain, ''-t'', table] @ args) [] w in
        program_fails res rules w \<or> program_does res rules (chain_op op (table, chain) args (rules w)) w)"

lemma run_op_cases:
  assumes "iptables_binary ie r rules" "run_op ie r op (makeFullArgs table chain args) w = (res, w')"
  obtains (fails) out e where "res = Ok (out, Some e)" "\<not> exited_1 e" "rules w' = rules w"
  | (refused) out e where "res = Ok (out, Some e)" "exited_1 e" "rules w' = rules w"
      "chain_op op (table, chain) args (rules w) = None"
  | (done_it) out m where "res = Ok (out, None)" "rules w' = m" "chain_op op (table, chain) args (rules w) = Some m"
proof -
  let ?res = "ie_exec ie (iptablesCommand r) (rn_waitFlag r @ [op, chain, ''-t'', table] @ args) [] w"
  have x: "?res = (the_elem {x. res = Ok x}, w')" "\<exists>y. res = Ok y"
    using assms(2) by (auto simp: run_op_def makeFullArgs_def CombinedOutput_def split: prod.splits)
  then obtain y where y: "res = Ok y" "?res = (y, w')" by auto
  have "program_fails ?res rules w \<or> program_does ?res rules (chain_op op (table, chain) args (rules w)) w"
    using assms(1) unfolding iptables_binary_def Let_def by blast
  then show ?thesis
    unfolding y(2) program_fails_def program_does_def
    using y(1) fails refused done_it by (auto split: option.splits simp del: chain_op.simps)
qed

lemma checkRuleUsingCheck_Ok:
  assumes "iptables_binary ie r rules" "checkRuleUsingCheck ie r (makeFullArgs table chain args) w = (Ok b, w')"
  shows "rules w' = rules w \<and> (b \<longleftrightarrow> (\<exists>rs. rules w (table, chain) = Some rs \<and> args \<in> set rs))"
proof -
  obtain res w1 where r: "run_op ie r ''-C'' (makeFullArgs table chain args) w = (res, w1)" by fastforce
  from assms(1) r show ?thesis
  proof (cases rule: run_op_cases)
    case (done_it out m)
    then show ?thesis using assms(2) r
      by (auto simp: checkRuleUsingCheck_def bnd_def split: option.splits if_splits)
  qed (use assms(2) r in \<open>auto simp: checkRuleUsingCheck_def bnd_def split: option.splits if_splits\<close>)
qed

lemma EnsureChain_exact:
  assumes "iptables_binary ie r rules" and e: "EnsureChain ie r table chain w = (Ok b, w')"
  shows "(b \<longleftrightarrow> (table, chain) \<in> dom (rules w)) \<and>
      rules w' = (if b then rules w else (rules w)((table, chain) \<mapsto> []))"
proof -
  obtain res w1 where r: "run_op ie r ''-N'' (makeFullArgs table chain []) w = (res, w1)" by fastforce
  from assms(1) r show ?thesis
  proof (cases rule: run_op_cases)
    case (done_it out m)
    then show ?thesis using e r by (auto simp: EnsureChain_def bnd_def split: option.splits)
  qed (use e r in \<open>auto simp: EnsureChain_def bnd_def split: option.splits if_splits\<close>)
qed

lemma EnsureRule_exact:
  assumes "iptables_binary ie r rules" "rn_hasCheck r" and e: "EnsureRule ie r pos table chain args w = (Ok b, w')"
  shows "\<exists>rs. rules w (table, chain) = Some rs \<and> (b \<longleftrightarrow> args \<in> set rs) \<and>
     rules w' = (if b then rules w
       else (rules w)((table, chain) \<mapsto> (case pos of Prepend \<Rightarrow> args # rs | Append \<Rightarrow> rs @ [args])))"
proof -
  from e obtain c w1 where c: "checkRuleUsingCheck ie r (makeFullArgs table chain args) w = (Ok c, w1)"
    and e2: "(if c then ret True else bnd (run_op ie r (position_op pos) (makeFullArgs table chain args)) (\<lambda>(out, e).
         case e of None \<Rightarrow> ret False | Some err \<Rightarrow> fail (Errorf (''error appending rule: '' @ Error err @ '': '' @ out)))) w1 = (Ok b, w')"
    using assms(2) by (auto simp: EnsureRule_def checkRule_def bnd_eq_Ok_iff)
  note c2 = checkRuleUsingCheck_Ok [OF assms(1) c]
  obtain res w2 where r: "run_op ie r (position_op pos) (makeFullArgs table chain args) w1 = (res, w2)" by fastforce
  show ?thesis
  proof (cases c)
    case True
    with e2 c2 show ?thesis by auto
  next
    case False
    from assms(1) r show ?thesis
    proof (cases rule: run_op_cases)
      case (done_it out m)
      then show ?thesis using e2 r False c2 by (cases pos) (auto simp: bnd_def split: option.splits)
    qed (use e2 r False in \<open>auto simp: bnd_def\<close>)
  qed
qed

lemma DeleteRule_exact:
  assumes "iptables_binary ie r rules" "rn_hasCheck r" and e: "DeleteRule ie r table chain args w = (Ok (), w')"
  shows "rules w' = (case rules w (table, chain) of
       Some rs \<Rightarrow> if args \<in> set rs then (rules w)((table, chain) \<mapsto> remove1 args rs) else rules w
     | None \<Rightarrow> rules w)"
proof -
  from e obtain c w1 where c: "checkRuleUsingCheck ie r (makeFullArgs table chain args) w = (Ok c, w1)"
    and e2: "(if \<not> c then ret () else bnd (run_op ie r ''-D'' (makeFullArgs table chain args)) (\<lambda>(out, e).
         case e of None \<Rightarrow> ret () | Some err \<Rightarrow> fail (Errorf (''error deleting rule: '' @ Error err @ '': '' @ out)))) w1 = (Ok (), w')"
    using assms(2) by (auto simp: DeleteRule_def checkRule_def bnd_eq_Ok_iff)
  note c2 = checkRuleUsingCheck_Ok [OF assms(1) c]
  obtain res w2 where r: "run_op ie r ''-D'' (makeFullArgs table chain args) w1 = (res, w2)" by fastforce
  show ?thesis
  proof (cases c)
    case True
    from assms(1) r show ?thesis
    proof (cases rule: run_op_cases)
      case (done_it out m)
      then show ?thesis using e2 r True c2 by (auto simp: bnd_def)
    qed (use e2 r True in \<open>auto simp: bnd_def\<close>)
  qed (use e2 c2 in \<open>auto split: option.split\<close>)
qed


text \<open>A kernel whose world is the chains.\<close>

fun kernel_exec :: "string list \<Rightarrow> chains \<Rightarrow> (string \<times> goerr option) \<times> chains" where
  "kernel_exec (op # chain # t # table # args) m =
     (case chain_op op (table, chain) args m of
        Some m' \<Rightarrow> (([], None), m')
      | None \<Rightarrow> (([], Some (ExitErr True 1 ''exit status 1'')), m))"
| "kernel_exec _ m = (([], Some (ExitErr True 2 ''usage'')), m)"

definition kernel_env :: "chains ipt_env" where
  "kernel_env = no_programs\<lparr>ie_exec := \<lambda>cmd args _. kernel_exec args\<rparr>"

definition demo_runner :: "'w runner" where
  "demo_runner = \<lparr>rn_protocol = ProtocolIpv4, rn_hasCheck = True, rn_waitFlag = [], rn_restoreWaitFlag = [],
     rn_lockfilePath = LockfilePath16x, rn_reloadFuncs = []\<rparr>"

lemma kernel_binary: "iptables_binary kernel_env demo_runner id"
  by (simp add: iptables_binary_def kernel_env_def demo_runner_def program_does_def split: option.split)


section \<open>Laws of the locks\<close>

text \<open>\<open>held w\<close> are the numbers of lock files and of lock sockets the process has open. Opening one
  changes them only if it succeeds, closing succeeds, and nothing else changes them.\<close>

definition xtables_locks :: "'w ipt_env \<Rightarrow> ('w \<Rightarrow> nat \<times> nat) \<Rightarrow> bool" where
  "xtables_locks ie held \<longleftrightarrow>
     (\<forall>p w. (\<exists>w'. ie_OpenFile ie p w = (Ok (), w') \<and> held w' = (fst (held w) + 1, snd (held w))) \<or>
            (\<exists>e w'. ie_OpenFile ie p w = (Fail e, w') \<and> held w' = held w)) \<and>
     (\<forall>p w. (\<exists>w'. ie_ListenUnix ie p w = (Ok (), w') \<and> held w' = (fst (held w), snd (held w) + 1)) \<or>
            (\<exists>e w'. ie_ListenUnix ie p w = (Fail e, w') \<and> held w' = held w)) \<and>
     (\<forall>w. \<exists>w'. ie_CloseFile ie w = (Ok (), w') \<and> held w' = (fst (held w) - 1, snd (held w))) \<and>
     (\<forall>w. \<exists>w'. ie_CloseListener ie w = (Ok (), w') \<and> held w' = (fst (held w), snd (held w) - 1)) \<and>
     (\<forall>w. \<exists>r w'. ie_Flock ie w = (r, w') \<and> \<not> is_panic r \<and> held w' = held w) \<and>
     (\<forall>w. \<exists>w'. ie_sleep ie w = (Ok (), w') \<and> held w' = held w) \<and>
     (\<forall>cmd args i w. held (snd (ie_exec ie cmd args i w)) = held w)"

lemma attempt_held:
  assumes "xtables_locks ie held"
    "\<And>w. (\<exists>w'. m w = (Ok (), w') \<and> held w' = up (held w)) \<or> (\<exists>e w'. m w = (Fail e, w') \<and> held w' = held w)"
  shows "\<exists>b w'. attempt ie m w = (Ok b, w') \<and> held w' = (if b then up (held w) else held w)"
proof -
  from assms(2) [of w] consider w' where "m w = (Ok (), w')" "held w' = up (held w)"
    | e w' where "m w = (Fail e, w')" "held w' = held w" by blast
  then show ?thesis
  proof cases
    case (1 w')
    then show ?thesis by (intro exI [of _ True] exI [of _ w']) (simp add: attempt_def)
  next
    case 2
    obtain w2 where "ie_sleep ie w' = (Ok (), w2)" "held w2 = held w'"
      using assms(1) unfolding xtables_locks_def by blast
    with 2 show ?thesis by (intro exI [of _ False] exI [of _ w2]) (simp add: attempt_def bnd_def)
  qed
qed

lemma Poll_held:
  assumes "\<And>w. \<exists>b w'. c w = (Ok b, w') \<and> held w' = (if b then up (held w) else held w)"
  shows "(\<exists>w'. Poll n c w = (Ok (), w') \<and> held w' = up (held w)) \<or> (\<exists>e w'. Poll n c w = (Fail e, w') \<and> held w' = held w)"
proof (induction n arbitrary: w)
  case (Suc n)
  obtain b w' where c: "c w = (Ok b, w')" "held w' = (if b then up (held w) else held w)" using assms [of w] by blast
  then show ?case using Suc.IH [of w'] by (cases b) (auto simp: bnd_def)
qed simp

lemma PollImmediate_held:
  assumes "\<And>w. \<exists>b w'. c w = (Ok b, w') \<and> held w' = (if b then up (held w) else held w)"
  shows "(\<exists>w'. PollImmediate n c w = (Ok (), w') \<and> held w' = up (held w)) \<or>
    (\<exists>e w'. PollImmediate n c w = (Fail e, w') \<and> held w' = held w)"
  using Poll_held [of c held up "Suc n" w] assms by (simp add: PollImmediate_def)

lemma locker_Close_held:
  assumes "xtables_locks ie held"
  shows "\<exists>w'. ignore_err (locker_Close ie l) w = (Ok (), w') \<and>
    held w' = (fst (held w) - (if lk_lock16 l then 1 else 0), snd (held w) - (if lk_lock14 l then 1 else 0))"
proof -
  obtain w1 where 1: "ie_CloseFile ie w = (Ok (), w1)" "held w1 = (fst (held w) - 1, snd (held w))"
    using assms unfolding xtables_locks_def by blast
  have cl: "\<exists>w'. ie_CloseListener ie v = (Ok (), w') \<and> held w' = (fst (held v), snd (held v) - 1)" for v
    using assms unfolding xtables_locks_def by blast
  from cl [of w1] obtain w2 where 2: "ie_CloseListener ie w1 = (Ok (), w2)" "held w2 = (fst (held w1), snd (held w1) - 1)" by blast
  from cl [of w] obtain w3 where 3: "ie_CloseListener ie w = (Ok (), w3)" "held w3 = (fst (held w), snd (held w) - 1)" by blast
  show ?thesis using 1 2 3
    by (cases "lk_lock16 l"; cases "lk_lock14 l") (auto simp: locker_Close_def close_if_def ignore_err_def tryc_def bnd_def)
qed

lemma grabIptablesLocks_held:
  assumes l: "xtables_locks ie held"
  shows "(\<exists>w'. grabIptablesLocks ie p w = (Ok \<lparr>lk_lock16 = True, lk_lock14 = True\<rparr>, w') \<and>
      held w' = (fst (held w) + 1, snd (held w) + 1)) \<or>
    (\<exists>e w'. grabIptablesLocks ie p w = (Fail e, w') \<and> held w' = held w)"
proof -
  let ?f = "PollImmediate 10 (attempt ie (ie_Flock ie))" and ?s = "PollImmediate 10 (attempt ie (ie_ListenUnix ie ''@xtables''))"
  have flock: "(\<exists>w'. ie_Flock ie v = (Ok (), w') \<and> held w' = id (held v)) \<or>
      (\<exists>e w'. ie_Flock ie v = (Fail e, w') \<and> held w' = held v)" for v
  proof -
    obtain r w' where "ie_Flock ie v = (r, w')" "\<not> is_panic r" "held w' = held v"
      using l unfolding xtables_locks_def by blast
    then show ?thesis by (cases r) auto
  qed
  have sock: "(\<exists>w'. ie_ListenUnix ie ''@xtables'' v = (Ok (), w') \<and> held w' = (\<lambda>(a, b). (a, b + 1)) (held v)) \<or>
      (\<exists>e w'. ie_ListenUnix ie ''@xtables'' v = (Fail e, w') \<and> held w' = held v)" for v
    using l unfolding xtables_locks_def by (auto simp: split_beta)
  note f = PollImmediate_held [where c = "attempt ie (ie_Flock ie)" and held = held and up = id, OF attempt_held [OF l flock]]
  note s = PollImmediate_held [where c = "attempt ie (ie_ListenUnix ie ''@xtables'')" and held = held
      and up = "\<lambda>(a, b). (a, b + 1)", OF attempt_held [OF l sock]]
  have give_up: "\<exists>w'. ignore_err (locker_Close ie \<lparr>lk_lock16 = True, lk_lock14 = False\<rparr>) v = (Ok (), w') \<and>
      held w' = (fst (held v) - 1, snd (held v))" for v
    using locker_Close_held [OF l, of "\<lparr>lk_lock16 = True, lk_lock14 = False\<rparr>" v] by simp
  consider e w1 where "ie_OpenFile ie p w = (Fail e, w1)" "held w1 = held w"
    | w1 where "ie_OpenFile ie p w = (Ok (), w1)" "held w1 = (fst (held w) + 1, snd (held w))"
    using l unfolding xtables_locks_def by blast
  then show ?thesis
  proof cases
    case 1
    then show ?thesis by (simp add: grabIptablesLocks_def)
  next
    case 2
    from f [of 10 w1] consider e w2 where "?f w1 = (Fail e, w2)" "held w2 = held w1"
      | w2 where "?f w1 = (Ok (), w2)" "held w2 = held w1" by auto
    then show ?thesis
    proof cases
      case 1
      then show ?thesis using 2 give_up [of w2] by (auto simp: grabIptablesLocks_def bnd_def)
    next
      case (2 w2)
      from s [of 10 w2] consider e w3 where "?s w2 = (Fail e, w3)" "held w3 = held w2"
        | w3 where "?s w2 = (Ok (), w3)" "held w3 = (fst (held w2), snd (held w2) + 1)" by (auto simp: split_beta)
      then show ?thesis
        using \<open>ie_OpenFile ie p w = (Ok (), w1)\<close> \<open>held w1 = _\<close> 2 give_up [of "snd (?s w2)"]
        by cases (auto simp: grabIptablesLocks_def bnd_def)
    qed
  qed
qed

text \<open>The locks of a restore. However the acquisition of the two locks and the program go, when
  \<open>RestoreAll\<close> ends the process holds exactly the locks it held before. If it succeeds on an iptables
  without \<open>--wait\<close>, the program has run while both locks were held, on exactly the given data.\<close>

theorem restore_locks:
  assumes "xtables_locks ie held" "RestoreAll ie r data flush counters w = (res, w')"
  shows "held w' = held w \<and> \<not> is_panic res \<and>
    (is_ok res \<and> rn_restoreWaitFlag r = [] \<longrightarrow>
      (\<exists>args out w1 w2. ie_exec ie ''iptables-restore'' args data w1 = ((out, None), w2) \<and>
         held w1 = (fst (held w) + 1, snd (held w) + 1)))"
proof -
  have run: "\<exists>x w2. restore_run ie a data w1 = (x, w2) \<and> held w2 = held w1 \<and>
      (x = Ok () \<and> (\<exists>out. ie_exec ie ''iptables-restore'' a data w1 = ((out, None), w2)) \<or> (\<exists>e. x = Fail e))" for a w1
  proof -
    obtain out e w2 where x: "ie_exec ie ''iptables-restore'' a data w1 = ((out, e), w2)" by (metis prod.collapse)
    moreover have "held (snd (ie_exec ie ''iptables-restore'' a data w1)) = held w1"
      using assms(1) by (simp add: xtables_locks_def)
    ultimately show ?thesis by (cases e) (auto simp: restore_run_def CombinedOutput_def bnd_def)
  qed
  define args where "args = (if \<not> flush then [''--noflush''] else []) @ (if counters then [''--counters''] else [])"
  show ?thesis
  proof (cases "rn_restoreWaitFlag r = []")
    case False
    with assms(2) run [of "rn_restoreWaitFlag r @ args" w] show ?thesis
      by (auto simp: RestoreAll_def restoreInternal_def Let_def args_def)
  next
    case True
    let ?l = "\<lparr>lk_lock16 = True, lk_lock14 = True\<rparr>"
    have R: "RestoreAll ie r data flush counters = bnd (grabIptablesLocks ie (rn_lockfilePath r)) (\<lambda>locker.
        tryc (restore_run ie args data) (\<lambda>err. bnd (ignore_err (locker_Close ie locker)) (\<lambda>_. fail err))
          (\<lambda>_. ignore_err (locker_Close ie locker)))"
      by (simp add: RestoreAll_def restoreInternal_def Let_def args_def True)
    from grabIptablesLocks_held [OF assms(1), of "rn_lockfilePath r" w] show ?thesis
    proof (elim disjE exE conjE)
      fix w1 assume g: "grabIptablesLocks ie (rn_lockfilePath r) w = (Ok ?l, w1)" "held w1 = (fst (held w) + 1, snd (held w) + 1)"
      obtain x w2 where x: "restore_run ie args data w1 = (x, w2)" "held w2 = held w1"
        "x = Ok () \<and> (\<exists>out. ie_exec ie ''iptables-restore'' args data w1 = ((out, None), w2)) \<or> (\<exists>e. x = Fail e)"
        using run [of args w1] by blast
      obtain w3 where "ignore_err (locker_Close ie ?l) w2 = (Ok (), w3)" "held w3 = held w"
        using locker_Close_held [OF assms(1), of ?l w2] x(2) g(2) by auto
      with g x assms(2) True show ?thesis unfolding R by (auto simp: bnd_def tryc_def)
    qed (use assms(2) in \<open>auto simp: R bnd_def\<close>)
  qed
qed

text \<open>A process that counts its open locks.\<close>

definition counting_env :: "(nat \<times> nat) ipt_env" where
  "counting_env = \<lparr>ie_exec = \<lambda>_ _ _ w. (([], None), w), ie_OpenFile = \<lambda>_ (a, b). (Ok (), a + 1, b), ie_Flock = ret (),
     ie_ListenUnix = \<lambda>_ (a, b). (Ok (), a, b + 1), ie_CloseFile = \<lambda>(a, b). (Ok (), a - 1, b),
     ie_CloseListener = \<lambda>(a, b). (Ok (), a, b - 1), ie_sleep = ret ()\<rparr>"

theorem restore_locks_witness:
  "xtables_locks counting_env id \<and>
   (\<exists>res. RestoreAll counting_env demo_runner ''*nat'' False True (0, 0) = (res, (0, 0)) \<and> is_ok res)"
proof -
  have l: "xtables_locks counting_env id" by (simp add: xtables_locks_def counting_env_def)
  obtain res w' where r: "RestoreAll counting_env demo_runner ''*nat'' False True (0, 0) = (res, w')"
    by (cases "RestoreAll counting_env demo_runner ''*nat'' False True (0, 0)")
  have "is_ok (fst (RestoreAll counting_env demo_runner ''*nat'' False True (0, 0)))"
    by (simp add: RestoreAll_def restoreInternal_def demo_runner_def grabIptablesLocks_def counting_env_def bnd_def tryc_def
        PollImmediate_def attempt_def restore_run_def CombinedOutput_def locker_Close_def close_if_def ignore_err_def)
  with r have ok: "is_ok res" by simp
  from restore_locks [OF l r] r l ok show ?thesis by auto
qed

end
