(* ===== verification/SaveRestore.thy ===== *)
theory SaveRestore
  imports GoStrings
begin

text \<open>
  Reading the output of iptables-save (\<open>src/pkg/util/iptables/save_restore.go\<close>). The reader works
  with indices into the buffer, as the code does; the reference it is compared with splits the
  text into lines and trims them.
\<close>

section \<open>The reader\<close>

definition MakeChainLine :: "string \<Rightarrow> string" where
  "MakeChainLine chain = '':'' @ chain @ '' - [0:0]''"

function skip_spaces :: "string \<Rightarrow> nat \<Rightarrow> nat" where
  "skip_spaces data i = (if i < length data \<and> data ! i = CHR '' '' then skip_spaces data (i + 1) else i)"
  by pat_completeness auto
termination by (relation "measure (\<lambda>(data, i). length data - i)") auto

declare skip_spaces.simps [simp del]

text \<open>The second loop of \<open>ReadLine\<close>; \<open>right\<close> is \<open>rightTrimIndex\<close>, \<open>None\<close> for -1.\<close>

function read_loop :: "string \<Rightarrow> nat \<Rightarrow> nat \<Rightarrow> nat option \<Rightarrow> string \<times> nat" where
  "read_loop data i left right =
     (if i < length data then
        (if data ! i = CHR '' '' then
           read_loop data (i + 1) left (case right of None \<Rightarrow> Some i | Some j \<Rightarrow> Some j)
         else if data ! i = CHR 0x0A \<or> i = length data - 1 then
           (if i \<le> left then ([], i + 1)
            else let r = (case right of
                            Some j \<Rightarrow> j
                          | None \<Rightarrow> if i = length data - 1 \<and> data ! i \<noteq> CHR 0x0A then i + 1 else i)
                 in (take (r - left) (drop left data), i + 1))
         else read_loop data (i + 1) left None)
      else ([], i))"
  by pat_completeness auto
termination by (relation "measure (\<lambda>(data, i, left, right). length data - i)") auto

declare read_loop.simps [simp del]

definition ReadLine :: "nat \<Rightarrow> string \<Rightarrow> string \<times> nat" where
  "ReadLine readIndex byteArray =
     (let left = skip_spaces byteArray readIndex in read_loop byteArray left left None)"

lemma skip_spaces_ge: "i \<le> skip_spaces data i"
proof (induction data i rule: skip_spaces.induct)
  case (1 data i)
  then show ?case by (subst skip_spaces.simps) auto
qed

lemma read_loop_ge: "i < length data \<Longrightarrow> i < snd (read_loop data i left right)"
proof (induction data i left right rule: read_loop.induct)
  case (1 data i left right)
  show ?case
  proof (cases "i + 1 < length data")
    case True
    with 1 show ?thesis by (subst read_loop.simps) (auto simp: Let_def dest: Suc_lessD)
  next
    case False
    then have "read_loop data (i + 1) l r = ([], i + 1)" for l r by (subst read_loop.simps) simp
    with 1(3) show ?thesis by (subst read_loop.simps) (auto simp: Let_def)
  qed
qed

lemma ReadLine_progress: "i < length data \<Longrightarrow> i < snd (ReadLine i data)"
proof -
  assume i: "i < length data"
  let ?l = "skip_spaces data i"
  show ?thesis
  proof (cases "?l < length data")
    case True
    then show ?thesis using read_loop_ge [OF True] skip_spaces_ge [of i data]
      by (auto simp: ReadLine_def Let_def intro: le_less_trans)
  next
    case False
    then show ?thesis using i by (simp add: ReadLine_def read_loop.simps)
  qed
qed

lemma ReadLine_measure: "i < length data \<Longrightarrow> (line, n) = ReadLine i data \<Longrightarrow> length data - n < length data - i"
  using ReadLine_progress [of i data] by (metis diff_less_mono2 snd_conv)

text \<open>The two loops of \<open>GetChainLines\<close>: up to the header of the table, then to its end.\<close>

function find_table :: "string \<Rightarrow> string \<Rightarrow> nat \<Rightarrow> nat" where
  "find_table tablePrefix save i =
     (if i < length save then
        (case ReadLine i save of (line, n) \<Rightarrow> if HasPrefix line tablePrefix then n else find_table tablePrefix save n)
      else i)"
  by pat_completeness auto
termination
  by (relation "measure (\<lambda>(p, save, i). length save - i)") (simp_all add: ReadLine_measure del: HasPrefix_iff)

definition chain_of_line :: "string \<Rightarrow> string outcome" where
  "chain_of_line line =
     (if CHR '' '' \<in> set line then Ok (takeWhile (\<lambda>c. c \<noteq> CHR '' '') (tl line))
      else Panics ''slice bounds out of range'')"

function table_lines :: "string \<Rightarrow> nat \<Rightarrow> (string \<rightharpoonup> string) \<Rightarrow> (string \<rightharpoonup> string) outcome" where
  "table_lines save i chainsMap =
     (if i < length save then
        (case ReadLine i save of (line, n) \<Rightarrow>
           if length line = 0 then table_lines save n chainsMap
           else if HasPrefix line ''COMMIT'' \<or> HasPrefix line ''*'' then Ok chainsMap
           else if HasPrefix line ''#'' then table_lines save n chainsMap
           else if HasPrefix line '':'' \<and> length line > 1 then
             (case chain_of_line line of
                Ok chain \<Rightarrow> table_lines save n (chainsMap(chain \<mapsto> line))
              | Fail e \<Rightarrow> Fail e
              | Panics s \<Rightarrow> Panics s)
           else table_lines save n chainsMap)
      else Ok chainsMap)"
  by pat_completeness auto
termination
  by (relation "measure (\<lambda>(save, i, m). length save - i)") (simp_all add: ReadLine_measure del: HasPrefix_iff)

declare find_table.simps [simp del] table_lines.simps [simp del]

definition GetChainLines :: "string \<Rightarrow> string \<Rightarrow> (string \<rightharpoonup> string) outcome" where
  "GetChainLines table save = table_lines save (find_table (''*'' @ table) save 0) Map.empty"

section \<open>The reference: trimmed lines\<close>

text \<open>A line trimmed on the right, and where the reader has found its end so far.\<close>

definition rtrim :: "string \<Rightarrow> string" where
  "rtrim l = TrimRightFunc (\<lambda>c. c = CHR '' '') l"

definition trail :: "nat \<Rightarrow> string \<Rightarrow> nat option" where
  "trail left l = (if l \<noteq> [] \<and> last l = CHR '' '' then Some (left + length (rtrim l)) else None)"

lemma rtrim_Nil [simp]: "rtrim [] = []"
  by (simp add: rtrim_def TrimRightFunc_def)

lemma rtrim_snoc [simp]: "rtrim (l @ [c]) = (if c = CHR '' '' then rtrim l else l @ [c])"
  by (simp add: rtrim_def TrimRightFunc_def)

lemma rtrim_no_trail: "l = [] \<or> last l \<noteq> CHR '' '' \<Longrightarrow> rtrim l = l"
  by (cases l rule: rev_cases) auto

lemma trail_snoc:
  "trail left (l @ [c]) =
     (if c \<noteq> CHR '' '' then None
      else case trail left l of None \<Rightarrow> Some (left + length l) | Some j \<Rightarrow> Some j)"
  by (auto simp: trail_def rtrim_no_trail)

lemma trail_end: "(case trail left l of Some j \<Rightarrow> j | None \<Rightarrow> left + length l) = left + length (rtrim l)"
  by (auto simp: trail_def rtrim_no_trail)

lemma rtrim_prefix: "\<exists>z. l = rtrim l @ z"
proof -
  have "rev (takeWhile (\<lambda>c. c = CHR '' '') (rev l) @ dropWhile (\<lambda>c. c = CHR '' '') (rev l)) = l" by simp
  then have "l = rtrim l @ rev (takeWhile (\<lambda>c. c = CHR '' '') (rev l))"
    unfolding rtrim_def TrimRightFunc_def by (simp only: rev_append)
  then show ?thesis by blast
qed

lemma read_loop_line:
  assumes "data = pre @ l1 @ l2 @ CHR 0x0A # rest" "CHR 0x0A \<notin> set l2"
    "l1 = [] \<Longrightarrow> l2 = [] \<or> hd l2 \<noteq> CHR '' ''"
  shows "read_loop data (length pre + length l1) (length pre) (trail (length pre) l1) =
    (rtrim (l1 @ l2), length pre + length l1 + length l2 + 1)"
  using assms
proof (induction l2 arbitrary: l1)
  case Nil
  let ?i = "length pre + length l1"
  have at: "data ! ?i = CHR 0x0A" "?i < length data" using Nil.prems(1) by (simp_all add: nth_append)
  obtain z where z: "l1 = rtrim l1 @ z" using rtrim_prefix by blast
  have "take (length (rtrim l1)) (drop (length pre) data) = rtrim l1"
  proof -
    have "data = pre @ rtrim l1 @ z @ CHR 0x0A # rest" using Nil.prems(1) z by (metis append_Nil append_assoc)
    then show ?thesis by simp
  qed
  with at trail_end [of "length pre" l1] show ?case
    by (subst read_loop.simps) (auto simp: Let_def split: option.splits)
next
  case (Cons c l2)
  let ?i = "length pre + length l1"
  have at: "data ! ?i = c" "?i < length data" "c \<noteq> CHR 0x0A" "?i \<noteq> length data - 1"
    using Cons.prems by (auto simp: nth_append)
  have c: "c = CHR '' '' \<Longrightarrow> l1 \<noteq> []" using Cons.prems(3) by auto
  have next_i: "read_loop data (length pre + length (l1 @ [c])) (length pre) (trail (length pre) (l1 @ [c])) =
      (rtrim ((l1 @ [c]) @ l2), length pre + length (l1 @ [c]) + length l2 + 1)"
    using Cons.prems by (intro Cons.IH) auto
  show ?case
  proof (cases "c = CHR '' ''")
    case True
    with at next_i show ?thesis by (subst read_loop.simps) (simp add: trail_snoc)
  next
    case False
    with at next_i show ?thesis by (subst read_loop.simps) (simp add: trail_snoc)
  qed
qed

lemma skip_spaces_line:
  assumes "data = pre @ l @ CHR 0x0A # rest"
  shows "skip_spaces data (length pre) = length pre + length (takeWhile (\<lambda>c. c = CHR '' '') l)"
  using assms
proof (induction l arbitrary: pre)
  case Nil
  then show ?case by (subst skip_spaces.simps) (simp add: nth_append)
next
  case (Cons c l)
  show ?case
  proof (cases "c = CHR '' ''")
    case True
    with Cons.IH [of "pre @ [c]"] Cons.prems show ?thesis
      by (subst skip_spaces.simps) (simp add: nth_append)
  next
    case False
    with Cons.prems show ?thesis by (subst skip_spaces.simps) (simp add: nth_append)
  qed
qed

lemma ReadLine_line:
  assumes "data = pre @ l @ CHR 0x0A # rest" "CHR 0x0A \<notin> set l"
  shows "ReadLine (length pre) data = (Trim l CHR '' '', length pre + length l + 1)"
proof -
  let ?sp = "takeWhile (\<lambda>c. c = CHR '' '') l" and ?l = "dropWhile (\<lambda>c. c = CHR '' '') l"
  have l: "l = ?sp @ ?l" by simp
  have d: "data = (pre @ ?sp) @ [] @ ?l @ CHR 0x0A # rest"
    unfolding assms(1) append_Nil append_assoc by (subst l) (simp only: append_assoc)
  have nl: "CHR 0x0A \<notin> set ?l" using assms(2) by (metis set_dropWhileD)
  have hd: "?l = [] \<or> hd ?l \<noteq> CHR '' ''" using hd_dropWhile [of "\<lambda>c. c = CHR '' ''" l] by blast
  have len: "length ?sp + length ?l = length l" by (metis l length_append)
  have "read_loop data (length (pre @ ?sp)) (length (pre @ ?sp)) None =
      (rtrim ?l, length (pre @ ?sp) + length ?l + 1)"
    using read_loop_line [OF d nl hd] by (simp add: trail_def)
  then show ?thesis
    using len skip_spaces_line [OF assms(1)]
    by (simp add: ReadLine_def Let_def Trim_def TrimLeftFunc_def rtrim_def add.assoc)
qed

text \<open>The text of a list of lines.\<close>

definition unlines :: "string list \<Rightarrow> string" where
  "unlines ls = concat (map (\<lambda>l. l @ [CHR 0x0A]) ls)"

definition plain_lines :: "string list \<Rightarrow> bool" where
  "plain_lines ls \<longleftrightarrow> list_all (\<lambda>l. CHR 0x0A \<notin> set l) ls"

lemma unlines_simps [simp]: "unlines [] = []" "unlines (l # ls) = l @ CHR 0x0A # unlines ls"
  by (simp_all add: unlines_def)

lemma plain_lines_simps [simp]: "plain_lines []" "plain_lines (l # ls) \<longleftrightarrow> CHR 0x0A \<notin> set l \<and> plain_lines ls"
  by (simp_all add: plain_lines_def)

text \<open>The lines of a table by definition: those after its header, up to the end of the table.\<close>

definition after_header :: "string \<Rightarrow> string list \<Rightarrow> string list" where
  "after_header table ls = tl (dropWhile (\<lambda>l. \<not> HasPrefix l (''*'' @ table)) ls)"

fun chain_lines :: "string list \<Rightarrow> (string \<rightharpoonup> string) \<Rightarrow> (string \<rightharpoonup> string) outcome" where
  "chain_lines [] m = Ok m"
| "chain_lines (l # ls) m =
     (if HasPrefix l ''COMMIT'' \<or> HasPrefix l ''*'' then Ok m
      else if HasPrefix l '':'' \<and> length l > 1
      then obind (chain_of_line l) (\<lambda>chain. chain_lines ls (m(chain \<mapsto> l)))
      else chain_lines ls m)"

lemma find_table_lines:
  assumes "plain_lines ls"
  shows "\<exists>ls2 pre2. find_table (''*'' @ table) (pre @ unlines ls) (length pre) = length pre2 \<and>
    pre @ unlines ls = pre2 @ unlines ls2 \<and> plain_lines ls2 \<and>
    map (\<lambda>l. Trim l CHR '' '') ls2 = after_header table (map (\<lambda>l. Trim l CHR '' '') ls)"
  using assms
proof (induction ls arbitrary: pre)
  case Nil
  then show ?case by (intro exI [of _ "[]"] exI [of _ pre]) (simp add: find_table.simps after_header_def)
next
  case (Cons l ls)
  let ?d = "pre @ l @ CHR 0x0A # unlines ls"
  have d2: "?d = (pre @ l @ [CHR 0x0A]) @ unlines ls" by simp
  have r: "ReadLine (length pre) ?d = (Trim l CHR '' '', length pre + length l + 1)"
    using Cons.prems by (intro ReadLine_line) auto
  show ?case
  proof (cases "HasPrefix (Trim l CHR '' '') (''*'' @ table)")
    case True
    then show ?thesis using r Cons.prems
      by (intro exI [of _ ls] exI [of _ "pre @ l @ [CHR 0x0A]"])
        (auto simp: find_table.simps [of _ ?d] after_header_def simp del: HasPrefix_iff)
  next
    case False
    have "find_table (''*'' @ table) ?d (length pre) = find_table (''*'' @ table) ?d (length (pre @ l @ [CHR 0x0A]))"
      using r False by (simp add: find_table.simps [of _ ?d "length pre"] del: HasPrefix_iff)
    then show ?thesis
      using Cons.IH [of "pre @ l @ [CHR 0x0A]"] Cons.prems False
      by (auto simp: after_header_def simp del: HasPrefix_iff)
  qed
qed

lemma table_lines_lines:
  "plain_lines ls \<Longrightarrow> table_lines (pre @ unlines ls) (length pre) m = chain_lines (map (\<lambda>l. Trim l CHR '' '') ls) m"
proof (induction ls arbitrary: pre m)
  case Nil
  then show ?case by (simp add: table_lines.simps)
next
  case (Cons l ls)
  let ?d = "pre @ l @ CHR 0x0A # unlines ls" and ?l = "Trim l CHR '' ''"
  have r: "ReadLine (length pre) ?d = (?l, length pre + length l + 1)"
    using Cons.prems by (intro ReadLine_line) auto
  have next_m: "table_lines ?d (length pre + length l + 1) m2 = chain_lines (map (\<lambda>l. Trim l CHR '' '') ls) m2" for m2
    using Cons.IH [of "pre @ l @ [CHR 0x0A]" m2] Cons.prems by simp
  have hash: "HasPrefix ?l ''#'' \<Longrightarrow> \<not> HasPrefix ?l '':'' \<and> \<not> HasPrefix ?l ''COMMIT'' \<and> \<not> HasPrefix ?l ''*''"
    by auto
  have nil: "?l = [] \<Longrightarrow> \<not> HasPrefix ?l '':'' \<and> \<not> HasPrefix ?l ''COMMIT'' \<and> \<not> HasPrefix ?l ''*''" by auto
  show ?case
    using hash nil
    by (simp add: table_lines.simps [of ?d "length pre"] r next_m [unfolded One_nat_def add_Suc_right add_0_right]
        split: outcome.split del: HasPrefix_iff)
qed

text \<open>What a line the reader reports for a chain looks like.\<close>

definition chain_line :: "string \<Rightarrow> string \<Rightarrow> bool" where
  "chain_line chain l \<longleftrightarrow> (\<exists>t. l = CHR '':'' # t) \<and> length l > 1 \<and> chain_of_line l = Ok chain \<and>
     Trim l CHR '' '' = l \<and> CHR 0x0A \<notin> set l"

lemma rtrim_idem: "rtrim (rtrim l) = rtrim l"
  by (induction l rule: rev_induct) auto

lemma rtrim_Cons: "c \<noteq> CHR '' '' \<Longrightarrow> rtrim (c # l) = c # rtrim l"
  by (induction l rule: rev_induct) (auto simp: rtrim_snoc [of "c # l" for c l, simplified] rtrim_def TrimRightFunc_def)

lemma Trim_eq: "Trim l CHR '' '' = rtrim (dropWhile (\<lambda>c. c = CHR '' '') l)"
  by (simp add: Trim_def rtrim_def TrimLeftFunc_def)

lemma Trim_Cons: "c \<noteq> CHR '' '' \<Longrightarrow> Trim (c # l) CHR '' '' = c # rtrim l"
  by (simp add: Trim_eq rtrim_Cons)

lemma Trim_idem: "Trim (Trim l CHR '' '') CHR '' '' = Trim l CHR '' ''"
proof (cases "dropWhile (\<lambda>c. c = CHR '' '') l")
  case (Cons c t)
  then have "c \<noteq> CHR '' ''" by (metis (mono_tags) hd_dropWhile list.distinct(1) list.sel(1))
  with Cons show ?thesis by (simp add: Trim_eq rtrim_Cons rtrim_idem)
next
  case Nil
  then show ?thesis unfolding Trim_eq by (simp only: Nil rtrim_Nil dropWhile.simps)
qed

lemma set_Trim: "set (Trim l c) \<subseteq> set l"
  unfolding Trim_def TrimRightFunc_def TrimLeftFunc_def by (metis set_dropWhileD set_rev subsetI)

lemma chain_lines_lines:
  "chain_lines ls m = Ok m' \<Longrightarrow> list_all (\<lambda>l. Trim l CHR '' '' = l \<and> CHR 0x0A \<notin> set l) ls \<Longrightarrow>
     (\<And>c l. m c = Some l \<Longrightarrow> chain_line c l) \<Longrightarrow> m' c = Some l \<Longrightarrow> chain_line c l"
proof (induction ls m rule: chain_lines.induct)
  case (2 l0 ls m)
  show ?case
  proof (cases "HasPrefix l0 ''COMMIT'' \<or> HasPrefix l0 ''*''")
    case True
    with 2 show ?thesis by (simp del: HasPrefix_iff)
  next
    case nc: False
    show ?thesis
    proof (cases "HasPrefix l0 '':'' \<and> length l0 > 1")
      case True
      with 2(3) nc obtain chain where ch: "chain_of_line l0 = Ok chain" "chain_lines ls (m(chain \<mapsto> l0)) = Ok m'"
        by (auto elim: obind_OkE simp del: HasPrefix_iff)
      have "chain_line chain l0" using True ch(1) 2(4) by (auto simp: chain_line_def)
      then have "\<And>c l. (m(chain \<mapsto> l0)) c = Some l \<Longrightarrow> chain_line c l" using 2(5) by (auto split: if_splits)
      from 2(1) [OF nc True ch(2) _ this 2(6)] 2(4) show ?thesis by simp
    next
      case False
      then have "chain_lines ls m = Ok m'" using 2(3) nc by (auto simp del: HasPrefix_iff)
      from 2(2) [OF nc False this _ 2(5,6)] 2(4) show ?thesis by simp
    qed
  qed
qed simp

lemma chain_lines_rules:
  "list_all (\<lambda>l. \<exists>t. l = CHR ''-'' # t) rs \<Longrightarrow> chain_lines (rs @ ls) m = chain_lines ls m"
  by (induction rs) auto

lemma lines_of_text:
  assumes "save = [] \<or> last save = CHR 0x0A"
  shows "save = unlines (butlast (Split CHR 0x0A save)) \<and> plain_lines (butlast (Split CHR 0x0A save))"
  using assms
proof (induction "length save" arbitrary: save rule: less_induct)
  case less
  show ?case
  proof (cases "save = []")
    case False
    let ?a = "takeWhile (\<lambda>c. c \<noteq> CHR 0x0A) save" and ?b = "dropWhile (\<lambda>c. c \<noteq> CHR 0x0A) save"
    have "CHR 0x0A \<in> set save" using less.prems False by (metis last_in_set)
    then obtain t where t: "?b = CHR 0x0A # t"
      by (cases ?b) (auto simp: dropWhile_eq_Nil_conv dest: hd_dropWhile [of "\<lambda>c. c \<noteq> CHR 0x0A" save, simplified])
    then have save: "save = ?a @ CHR 0x0A # t" by (metis takeWhile_dropWhile_id)
    have a: "CHR 0x0A \<notin> set ?a" by (auto dest: set_takeWhileD)
    have "t = [] \<or> last t = CHR 0x0A" using less.prems False save by (metis last_appendR last_ConsR list.distinct(1))
    moreover have "length t < length save" by (subst save) simp
    ultimately have ih: "t = unlines (butlast (Split CHR 0x0A t)) \<and> plain_lines (butlast (Split CHR 0x0A t))"
      by (intro less.hyps) auto
    have "Split CHR 0x0A save = ?a # Split CHR 0x0A t" by (subst save) (rule Split_append_sep [OF a])
    then have "butlast (Split CHR 0x0A save) = ?a # butlast (Split CHR 0x0A t)" by simp
    then show ?thesis using ih a save by (metis plain_lines_simps(2) unlines_simps(2))
  qed simp
qed

lemma GetChainLines_unlines:
  assumes "plain_lines ls"
  shows "GetChainLines table (unlines ls) = chain_lines (after_header table (map (\<lambda>l. Trim l CHR '' '') ls)) Map.empty"
proof -
  from find_table_lines [OF assms, of table "[]"] obtain ls2 pre2 where
    f: "find_table (''*'' @ table) (unlines ls) 0 = length pre2" "unlines ls = pre2 @ unlines ls2" "plain_lines ls2"
      "map (\<lambda>l. Trim l CHR '' '') ls2 = after_header table (map (\<lambda>l. Trim l CHR '' '') ls)"
    by auto
  then show ?thesis unfolding GetChainLines_def using table_lines_lines [of ls2 pre2 Map.empty] by simp
qed

text \<open>The reader of iptables-save output does what splitting into lines does. On a text whose
  last line is terminated, \<open>GetChainLines\<close> returns the chain lines among the trimmed lines of the table
  (from its header to COMMIT or the next table, the last of several lines of a chain), and it
  panics exactly if a chain line has no blank. It always terminates.\<close>

theorem GetChainLines_lines:
  assumes "save = [] \<or> last save = CHR 0x0A"
  shows "GetChainLines table save =
    chain_lines (after_header table (map (\<lambda>l. Trim l CHR '' '') (butlast (Split CHR 0x0A save)))) Map.empty"
  using GetChainLines_unlines [of "butlast (Split CHR 0x0A save)" table] lines_of_text [OF assms] by simp

lemma GetChainLines_chain_line:
  assumes "plain_lines ls" "GetChainLines table (unlines ls) = Ok m" "m chain = Some l"
  shows "chain_line chain l"
proof -
  let ?ts = "after_header table (map (\<lambda>l. Trim l CHR '' '') ls)"
  have "set ?ts \<subseteq> set (map (\<lambda>l. Trim l CHR '' '') ls)"
    unfolding after_header_def by (rule subsetI) (metis list.set_sel(2) list.sel(2) set_dropWhileD)
  then have "list_all (\<lambda>l. Trim l CHR '' '' = l \<and> CHR 0x0A \<notin> set l) ?ts"
    using assms(1) set_Trim by (fastforce simp: list_all_iff Trim_idem plain_lines_def)
  then show ?thesis using chain_lines_lines [of ?ts Map.empty m] assms(2,3) GetChainLines_unlines [OF assms(1)] by auto
qed

definition demo_save :: string where
  "demo_save = ''# Generated by iptables-save'' @ [CHR 0x0A] @ ''*nat'' @ [CHR 0x0A] @
     '':OUTPUT ACCEPT [12:720]'' @ [CHR 0x0A] @ ''-A OUTPUT -j KUBERNIKUS-TUNNELS'' @ [CHR 0x0A] @
     '':KUBERNIKUS-TUNNELS - [0:0] '' @ [CHR 0x0A] @ ''COMMIT'' @ [CHR 0x0A]"

theorem GetChainLines_lines_witness:
  "\<exists>m. GetChainLines ''nat'' demo_save = Ok m \<and> m ''KUBERNIKUS-TUNNELS'' = Some (MakeChainLine ''KUBERNIKUS-TUNNELS'')"
proof -
  have "demo_save = [] \<or> last demo_save = CHR 0x0A" by (simp add: demo_save_def)
  from GetChainLines_lines [OF this, of "''nat''"] show ?thesis
    by (simp add: demo_save_def after_header_def Trim_def TrimRightFunc_def TrimLeftFunc_def chain_of_line_def MakeChainLine_def)
qed

end
