(* ===== verification/Wormhole.thy ===== *)
theory Wormhole
  imports Iptables SaveRestore NetIP Workqueue
begin

text \<open>
  The server side of the wormhole tunnel (\<open>src/pkg/wormhole/server/controller.go\<close>): a controller that
  keeps, for every node of a kluster, the routes into the tunnel and the NAT rules that
  redirect traffic for the node and its pods to the tunnel's port. The tunnel is the vendored
  \<open>guttle.Server\<close> as far as its two route tables go; addresses are IPv4, as the networks of a
  kluster are. The iteration order of Go's map of nodes is the argument \<open>order\<close>.
\<close>

section \<open>The tunnel's route tables\<close>

record guttle =
  gt_clientRoutes :: "string \<rightharpoonup> string \<times> string"
  gt_randomRoutes :: "string set"

text \<open>\<open>net.ParseCIDR\<close>, then \<open>IPNet.String\<close>.\<close>

definition canonical :: "string \<Rightarrow> string outcome" where
  "canonical cidr = obind (ParseCIDR cidr) (\<lambda>(ip, net). Ok (IPNet_String net))"

definition AddClientRoute :: "string \<Rightarrow> string \<Rightarrow> (guttle, unit) go" where
  "AddClientRoute cidr identifier =
     (if identifier = [] then fail (Errorf ''Can't add client route for empty identifier'')
      else bnd (lift_outcome (canonical cidr)) (\<lambda>net.
        modify_world (\<lambda>t. t\<lparr>gt_clientRoutes := (gt_clientRoutes t)(net @ identifier \<mapsto> (net, identifier))\<rparr>)))"

definition DeleteClientRoute :: "string \<Rightarrow> string \<Rightarrow> (guttle, unit) go" where
  "DeleteClientRoute cidr identifier =
     (if identifier = [] then fail (Errorf ''Can't delete client route for empty identifier'')
      else bnd (lift_outcome (canonical cidr)) (\<lambda>net.
        modify_world (\<lambda>t. t\<lparr>gt_clientRoutes := (gt_clientRoutes t)(net @ identifier := None)\<rparr>)))"

definition AddRoute :: "string \<Rightarrow> (guttle, unit) go" where
  "AddRoute cidr = bnd (lift_outcome (canonical cidr)) (\<lambda>net.
     modify_world (\<lambda>t. t\<lparr>gt_randomRoutes := insert net (gt_randomRoutes t)\<rparr>))"

definition DeleteRoute :: "string \<Rightarrow> (guttle, unit) go" where
  "DeleteRoute cidr = bnd (lift_outcome (canonical cidr)) (\<lambda>net.
     modify_world (\<lambda>t. t\<lparr>gt_randomRoutes := gt_randomRoutes t - {net}\<rparr>))"

section \<open>The controller\<close>

definition KUBERNIKUS_TUNNELS :: string where
  "KUBERNIKUS_TUNNELS = ''KUBERNIKUS-TUNNELS''"

record wroute =
  wr_cidr :: string
  wr_identifier :: string

record KNode =
  kn_Name :: string
  kn_PodCIDR :: string
  kn_Addresses :: "(string \<times> string) list"

record wormhole =
  wh_tunnel :: guttle
  wh_store :: "string \<rightharpoonup> wroute list"
  wh_hijackPort :: int
  wh_serviceCIDR :: string

definition NewController :: "string \<Rightarrow> wormhole" where
  "NewController serviceCIDR =
     \<lparr>wh_tunnel = \<lparr>gt_clientRoutes = Map.empty, gt_randomRoutes = {}\<rparr>, wh_store = Map.empty,
      wh_hijackPort = 9191, wh_serviceCIDR = serviceCIDR\<rparr>"

text \<open>\<open>net.ParseIP\<close>; a text that is no address gives the nil IP, which prints as \<open><nil>\<close>.\<close>

definition ParseIP :: "string \<Rightarrow> IP" where
  "ParseIP s = (case parseIPv4 s of Some ip \<Rightarrow> ip | None \<Rightarrow> [])"

definition GetNodeHostIP :: "KNode \<Rightarrow> IP outcome" where
  "GetNodeHostIP node =
     (let addresses = (\<lambda>t. filter (\<lambda>(typ, addr). typ = t) (kn_Addresses node)) in
      case addresses ''InternalIP'' of
        (t, addr) # _ \<Rightarrow> Ok (ParseIP addr)
      | [] \<Rightarrow>
          (case addresses ''ExternalIP'' of
             (t, addr) # _ \<Rightarrow> Ok (ParseIP addr)
           | [] \<Rightarrow> Fail (Errorf (''host IP unknown; known addresses: ['' @
                     Join (map (\<lambda>(t, a). ''{'' @ t @ '' '' @ a @ ''}'') (kn_Addresses node)) '' '' @ '']''))))"

definition writeLine :: "string list \<Rightarrow> string" where
  "writeLine words = Join words '' '' @ [CHR 0x0A]"

definition redirect_words :: "string \<Rightarrow> string \<Rightarrow> int \<Rightarrow> string list" where
  "redirect_words comment dst port =
     [''-A'', KUBERNIKUS_TUNNELS, ''-m'', ''comment'', ''--comment'', [CHR 0x22] @ comment @ [CHR 0x22],
      ''--dst'', dst, ''-p'', ''tcp'', ''-j'', ''REDIRECT'', ''--to-ports'', Itoa port]"

definition writeTunnelRedirect :: "(string \<rightharpoonup> KNode) \<Rightarrow> wormhole \<Rightarrow> string \<Rightarrow> string outcome" where
  "writeTunnelRedirect nodes c key =
     (case nodes key of
        None \<Rightarrow> Ok []
      | Some node \<Rightarrow>
          obind (GetNodeHostIP node) (\<lambda>ip.
            Ok (writeLine (redirect_words (''node ip tunnel redirect for '' @ key) (IP_String ip) (wh_hijackPort c)) @
                writeLine (redirect_words (''pod cidr tunnel redirect for '' @ key) (kn_PodCIDR node) (wh_hijackPort c)))))"

fun node_rules :: "(string \<rightharpoonup> KNode) \<Rightarrow> wormhole \<Rightarrow> string list \<Rightarrow> string outcome" where
  "node_rules nodes c [] = Ok []"
| "node_rules nodes c (key # keys) =
     obind (writeTunnelRedirect nodes c key) (\<lambda>r. obind (node_rules nodes c keys) (\<lambda>rs. Ok (r @ rs)))"

definition restore_text :: "(string \<rightharpoonup> KNode) \<Rightarrow> wormhole \<Rightarrow> string list \<Rightarrow> (string \<rightharpoonup> string) \<Rightarrow> string outcome" where
  "restore_text nodes c order existingNatChains =
     obind (node_rules nodes c order) (\<lambda>rules.
       Ok (writeLine [''*nat''] @
           (case existingNatChains KUBERNIKUS_TUNNELS of
              Some chain \<Rightarrow> writeLine [chain]
            | None \<Rightarrow> writeLine [MakeChainLine KUBERNIKUS_TUNNELS]) @
           rules @
           writeLine (redirect_words ''cluster service CIDR tunnel redirect'' (wh_serviceCIDR c) (wh_hijackPort c)) @
           writeLine [''COMMIT'']))"

definition redoIPTablesSpratz ::
  "'w ipt_env \<Rightarrow> 'w runner \<Rightarrow> (string \<rightharpoonup> KNode) \<Rightarrow> wormhole \<Rightarrow> string list \<Rightarrow> ('w, unit) go" where
  "redoIPTablesSpratz ie r nodes c order =
     bnd (EnsureChain ie r TableNAT KUBERNIKUS_TUNNELS) (\<lambda>_.
     bnd (EnsureRule ie r Append TableNAT ChainOutput
            [''-m'', ''comment'', ''--comment'', ''kubernikus tunnels'', ''-j'', KUBERNIKUS_TUNNELS]) (\<lambda>_.
     bnd (SaveInto ie TableNAT) (\<lambda>(raw, err).
     bnd (case err of
            Some _ \<Rightarrow> ret Map.empty
          | None \<Rightarrow> lift_outcome (GetChainLines TableNAT raw)) (\<lambda>existingNatChains.
     bnd (lift_outcome (restore_text nodes c order existingNatChains)) (\<lambda>text.
     RestoreAll ie r text False True)))))"

definition remember :: "string \<Rightarrow> string \<Rightarrow> string \<Rightarrow> wormhole \<Rightarrow> wormhole" where
  "remember key cidr identifier c = c\<lparr>wh_store :=
     (wh_store c)(key \<mapsto> (case wh_store c key of None \<Rightarrow> [] | Some rs \<Rightarrow> rs) @
                          [\<lparr>wr_cidr = cidr, wr_identifier = identifier\<rparr>])\<rparr>"

definition on_tunnel :: "(guttle, 'a) go \<Rightarrow> (wormhole, 'a) go" where
  "on_tunnel m = (\<lambda>c. case m (wh_tunnel c) of (x, t) \<Rightarrow> (x, c\<lparr>wh_tunnel := t\<rparr>))"

definition identifier_of :: "string \<Rightarrow> string" where
  "identifier_of name = ''system:node:'' @ name"

definition add_routes :: "string \<Rightarrow> KNode \<Rightarrow> (wormhole, unit) go" where
  "add_routes key node =
     (let identifier = identifier_of (kn_Name node); podCIDR = kn_PodCIDR node in
      bnd (lift_outcome (GetNodeHostIP node)) (\<lambda>ip.
      let nodeCIDR = IP_String ip @ ''/32'' in
      bnd (on_tunnel (AddClientRoute podCIDR identifier)) (\<lambda>_.
      bnd (modify_world (remember key podCIDR identifier)) (\<lambda>_.
      bnd (on_tunnel (AddRoute podCIDR)) (\<lambda>_.
      bnd (on_tunnel (AddClientRoute nodeCIDR identifier)) (\<lambda>_.
      bnd (modify_world (remember key nodeCIDR identifier)) (\<lambda>_.
      on_tunnel (AddRoute nodeCIDR))))))))"

text \<open>A step of the controller's own state beside the world of iptables.\<close>

definition own :: "('c, 'a) go \<Rightarrow> ('w \<times> 'c, 'a) go" where
  "own m = (\<lambda>(w, c). case m c of (r, c') \<Rightarrow> (r, w, c'))"

definition redo :: "'w ipt_env \<Rightarrow> 'w runner \<Rightarrow> (string \<rightharpoonup> KNode) \<Rightarrow> (wormhole \<Rightarrow> string list) \<Rightarrow> ('w \<times> wormhole, unit) go" where
  "redo ie r nodes order = bnd (client_get id) (\<lambda>c. svc (redoIPTablesSpratz ie r nodes c (order c)))"

definition addNode ::
  "'w ipt_env \<Rightarrow> 'w runner \<Rightarrow> (string \<rightharpoonup> KNode) \<Rightarrow> (wormhole \<Rightarrow> string list) \<Rightarrow> string \<Rightarrow> KNode \<Rightarrow> ('w \<times> wormhole, unit) go" where
  "addNode ie r nodes order key node = bnd (own (add_routes key node)) (\<lambda>_. redo ie r nodes order)"

text \<open>The errors of the deletions are dropped, and the entry of the store stays.\<close>

definition del_routes :: "string \<Rightarrow> (wormhole, unit) go" where
  "del_routes key =
     bnd (gets (\<lambda>c. case wh_store c key of None \<Rightarrow> [] | Some rs \<Rightarrow> rs)) (\<lambda>routes.
       for_each routes (\<lambda>route.
         bnd (ignore_err (on_tunnel (DeleteClientRoute (wr_cidr route) (wr_identifier route)))) (\<lambda>_.
         ignore_err (on_tunnel (DeleteRoute (wr_cidr route))))))"

definition delNode ::
  "'w ipt_env \<Rightarrow> 'w runner \<Rightarrow> (string \<rightharpoonup> KNode) \<Rightarrow> (wormhole \<Rightarrow> string list) \<Rightarrow> string \<Rightarrow> ('w \<times> wormhole, unit) go" where
  "delNode ie r nodes order key = bnd (own (del_routes key)) (\<lambda>_. redo ie r nodes order)"

definition wh_reconcile ::
  "'w ipt_env \<Rightarrow> 'w runner \<Rightarrow> (string \<rightharpoonup> KNode) \<Rightarrow> (wormhole \<Rightarrow> string list) \<Rightarrow> string \<Rightarrow> ('w \<times> wormhole, unit) go" where
  "wh_reconcile ie r nodes order key =
     (case nodes key of
        None \<Rightarrow> delNode ie r nodes order key
      | Some node \<Rightarrow> addNode ie r nodes order key node)"

section \<open>The worker\<close>

definition handleErr :: "'q RateLimitingInterface \<Rightarrow> goerr option \<Rightarrow> string \<Rightarrow> 'q \<Rightarrow> 'q" where
  "handleErr ops err key q =
     (case err of
        None \<Rightarrow> rl_Forget ops key q
      | Some e \<Rightarrow> if rl_NumRequeues ops key q < 5 then rl_AddRateLimited ops key q else rl_Forget ops key q)"

text \<open>\<open>None\<close> is a call that waits for an item; a panic passes \<open>handleErr\<close> by, but not the deferred \<open>Done\<close>.\<close>

definition wh_processNextWorkItem ::
  "'q RateLimitingInterface \<Rightarrow> 'w ipt_env \<Rightarrow> 'w runner \<Rightarrow> (string \<rightharpoonup> KNode) \<Rightarrow> (wormhole \<Rightarrow> string list) \<Rightarrow> 'q \<times> 'w \<times> wormhole
     \<Rightarrow> (bool outcome \<times> 'q \<times> 'w \<times> wormhole) option" where
  "wh_processNextWorkItem ops ie r nodes order = (\<lambda>(q, s).
     (case rl_Get ops q of
        (Blocked, q') \<Rightarrow> None
      | (Quit, q') \<Rightarrow> Some (Ok False, q', s)
      | (Item key, q') \<Rightarrow>
          (case wh_reconcile ie r nodes order key s of
             (Ok _, s') \<Rightarrow> Some (Ok True, rl_Done ops key (handleErr ops None key q'), s')
           | (Fail e, s') \<Rightarrow> Some (Ok True, rl_Done ops key (handleErr ops (Some e) key q'), s')
           | (Panics m, s') \<Rightarrow> Some (Panics m, rl_Done ops key q', s'))))"

text \<open>The periodic recheck queues every node of the store.\<close>

definition recheck :: "'q RateLimitingInterface \<Rightarrow> string list \<Rightarrow> 'q \<Rightarrow> 'q" where
  "recheck ops keys q = fold (rl_Add ops) keys q"

section \<open>Routes\<close>

lemma identifier_of_simps [simp]: "identifier_of a = identifier_of b \<longleftrightarrow> a = b" "identifier_of a \<noteq> []"
  by (simp_all add: identifier_of_def)

text \<open>Every client route of the tunnel is one the store remembers under the key of its node.\<close>

definition remembered :: "wormhole \<Rightarrow> bool" where
  "remembered c \<longleftrightarrow> (\<forall>k net i. gt_clientRoutes (wh_tunnel c) k = Some (net, i) \<longrightarrow> k = net @ i \<and>
     (\<exists>key rs route. i = identifier_of key \<and> wh_store c key = Some rs \<and> route \<in> set rs \<and>
        wr_identifier route = i \<and> canonical (wr_cidr route) = Ok net))"

text \<open>After a client route has been added, only that one may be missing from the store.\<close>

definition remembered_but :: "string \<Rightarrow> string \<Rightarrow> wormhole \<Rightarrow> bool" where
  "remembered_but cidr identifier c \<longleftrightarrow> (\<exists>net. canonical cidr = Ok net) \<and>
     (\<forall>k net i. gt_clientRoutes (wh_tunnel c) k = Some (net, i) \<longrightarrow> k = net @ i \<and>
       (i = identifier \<and> canonical cidr = Ok net \<or>
        (\<exists>key rs route. i = identifier_of key \<and> wh_store c key = Some rs \<and> route \<in> set rs \<and>
          wr_identifier route = i \<and> canonical (wr_cidr route) = Ok net)))"

lemma AddClientRoute_step:
  "triple remembered (on_tunnel (AddClientRoute cidr identifier)) (\<lambda>_. remembered_but cidr identifier) remembered"
  by (cases "canonical cidr")
    (auto simp: triple_def on_tunnel_def AddClientRoute_def bnd_def remembered_def remembered_but_def)

lemma remember_step:
  assumes "identifier = identifier_of key"
  shows "triple (remembered_but cidr identifier) (modify_world (remember key cidr identifier)) (\<lambda>_. remembered) remembered"
proof (rule tripleI)
  fix c x c'
  assume c: "remembered_but cidr identifier c" and "modify_world (remember key cidr identifier) c = (Ok x, c')"
  then have c': "c' = remember key cidr identifier c" by simp
  show "remembered c'"
    unfolding remembered_def c'
  proof (intro allI impI conjI)
    fix k net i assume k: "gt_clientRoutes (wh_tunnel (remember key cidr identifier c)) k = Some (net, i)"
    then have k: "gt_clientRoutes (wh_tunnel c) k = Some (net, i)" by (simp add: remember_def)
    then show "k = net @ i" using c by (auto simp: remembered_but_def)
    from k c consider "i = identifier" "canonical cidr = Ok net"
      | key2 rs route where "i = identifier_of key2" "wh_store c key2 = Some rs" "route \<in> set rs"
        "wr_identifier route = i" "canonical (wr_cidr route) = Ok net"
      unfolding remembered_but_def by blast
    then show "\<exists>key2 rs route. i = identifier_of key2 \<and> wh_store (remember key cidr identifier c) key2 = Some rs \<and>
        route \<in> set rs \<and> wr_identifier route = i \<and> canonical (wr_cidr route) = Ok net"
    proof cases
      case 1
      then show ?thesis using assms by (intro exI [of _ key]) (auto simp: remember_def)
    next
      case 2
      then show ?thesis by (intro exI [of _ key2]) (auto simp: remember_def)
    qed
  qed
qed simp_all

lemma AddRoute_step: "keeps remembered (on_tunnel (AddRoute cidr))"
  by (cases "canonical cidr") (auto simp: keeps_def on_tunnel_def AddRoute_def bnd_def remembered_def)

lemma add_routes_remembered:
  assumes "kn_Name node = key"
  shows "keeps remembered (add_routes key node)"
proof -
  have "triple remembered (add_routes key node) (\<lambda>_. remembered) remembered"
    unfolding add_routes_def Let_def assms
    by (rule triple_bnd [OF triple_lift_outcome], assumption, assumption,
        rule triple_bnd [OF AddClientRoute_step], rule triple_bnd [OF remember_step [OF refl]],
        rule triple_bnd [OF triple_keeps [OF AddRoute_step]], rule triple_bnd [OF AddClientRoute_step],
        rule triple_bnd [OF remember_step [OF refl]], rule triple_keeps [OF AddRoute_step])
  then show ?thesis by (rule keeps_triple)
qed

text \<open>The deletion of the routes of a list: the store stays, and exactly the client routes of the
  list are gone.\<close>

definition delete_all :: "wroute list \<Rightarrow> (wormhole, unit) go" where
  "delete_all routes = for_each routes (\<lambda>route.
     bnd (ignore_err (on_tunnel (DeleteClientRoute (wr_cidr route) (wr_identifier route)))) (\<lambda>_.
     ignore_err (on_tunnel (DeleteRoute (wr_cidr route)))))"

definition gone :: "wroute list \<Rightarrow> string \<Rightarrow> bool" where
  "gone routes k \<longleftrightarrow> (\<exists>route \<in> set routes. \<exists>net. canonical (wr_cidr route) = Ok net \<and>
     wr_identifier route \<noteq> [] \<and> k = net @ wr_identifier route)"

lemma canonical_no_panic: "canonical cidr \<noteq> Panics s"
  by (auto simp: canonical_def ParseCIDR_def Let_def split: option.splits prod.splits)

lemma delete_one:
  "\<exists>c'. bnd (ignore_err (on_tunnel (DeleteClientRoute (wr_cidr route) (wr_identifier route)))) (\<lambda>_.
     ignore_err (on_tunnel (DeleteRoute (wr_cidr route)))) c = (Ok (), c') \<and>
   wh_store c' = wh_store c \<and>
   gt_clientRoutes (wh_tunnel c') = (\<lambda>k. if gone [route] k then None else gt_clientRoutes (wh_tunnel c) k)"
proof (cases "canonical (wr_cidr route)")
  case (Ok net)
  then show ?thesis
    by (auto simp: on_tunnel_def DeleteClientRoute_def DeleteRoute_def bnd_def ignore_err_def tryc_def gone_def fun_eq_iff)
next
  case (Fail e)
  then show ?thesis
    by (auto simp: on_tunnel_def DeleteClientRoute_def DeleteRoute_def bnd_def ignore_err_def tryc_def gone_def fun_eq_iff)
next
  case (Panics s)
  then show ?thesis by (simp add: canonical_no_panic)
qed

lemma delete_all_routes:
  "\<exists>c'. delete_all routes c = (Ok (), c') \<and> wh_store c' = wh_store c \<and>
     gt_clientRoutes (wh_tunnel c') = (\<lambda>k. if gone routes k then None else gt_clientRoutes (wh_tunnel c) k)"
proof (induction routes arbitrary: c)
  case Nil
  then show ?case by (simp add: delete_all_def gone_def)
next
  case (Cons route routes)
  obtain c1 where 1: "bnd (ignore_err (on_tunnel (DeleteClientRoute (wr_cidr route) (wr_identifier route)))) (\<lambda>_.
     ignore_err (on_tunnel (DeleteRoute (wr_cidr route)))) c = (Ok (), c1)" "wh_store c1 = wh_store c"
    "gt_clientRoutes (wh_tunnel c1) = (\<lambda>k. if gone [route] k then None else gt_clientRoutes (wh_tunnel c) k)"
    using delete_one by blast
  obtain c2 where 2: "delete_all routes c1 = (Ok (), c2)" "wh_store c2 = wh_store c1"
    "gt_clientRoutes (wh_tunnel c2) = (\<lambda>k. if gone routes k then None else gt_clientRoutes (wh_tunnel c1) k)"
    using Cons.IH by blast
  have "delete_all (route # routes) c = (Ok (), c2)"
    using 1(1) 2(1) by (simp add: delete_all_def bnd_def split: prod.splits outcome.splits)
  then show ?case using 1 2 by (auto simp: gone_def fun_eq_iff)
qed

lemma del_routes_all:
  "del_routes key c = delete_all (case wh_store c key of None \<Rightarrow> [] | Some rs \<Rightarrow> rs) c"
  by (simp add: del_routes_def delete_all_def bnd_def)

lemma del_routes_remembered:
  assumes "remembered c"
  shows "\<exists>c'. del_routes key c = (Ok (), c') \<and> wh_store c' = wh_store c \<and> remembered c' \<and>
    (\<forall>k net. gt_clientRoutes (wh_tunnel c') k \<noteq> Some (net, identifier_of key))"
proof -
  let ?rs = "case wh_store c key of None \<Rightarrow> [] | Some rs \<Rightarrow> rs"
  obtain c' where c': "del_routes key c = (Ok (), c')" "wh_store c' = wh_store c"
    "gt_clientRoutes (wh_tunnel c') = (\<lambda>k. if gone ?rs k then None else gt_clientRoutes (wh_tunnel c) k)"
    using delete_all_routes [of ?rs c] by (auto simp: del_routes_all)
  have "remembered c'" using assms c'(2,3) by (auto simp: remembered_def split: if_splits)
  moreover have "gt_clientRoutes (wh_tunnel c') k \<noteq> Some (net, identifier_of key)" for k net
  proof
    assume k: "gt_clientRoutes (wh_tunnel c') k = Some (net, identifier_of key)"
    then have k2: "gt_clientRoutes (wh_tunnel c) k = Some (net, identifier_of key)" "\<not> gone ?rs k"
      using c'(3) by (auto split: if_splits)
    then obtain key2 rs route where "k = net @ identifier_of key" "identifier_of key = identifier_of key2"
      "wh_store c key2 = Some rs" "route \<in> set rs" "wr_identifier route = identifier_of key"
      "canonical (wr_cidr route) = Ok net"
      using assms unfolding remembered_def by blast
    then have "gone ?rs k" unfolding gone_def by (intro bexI [of _ route] exI [of _ net]) auto
    with k2 show False by simp
  qed
  ultimately show ?thesis using c' by blast
qed

text \<open>The reachable states of the controller: it reconciles one key after the other, on any view of
  the nodes (under their own names), any iptables and any iteration order, with any outcome.\<close>

definition named_nodes :: "(string \<rightharpoonup> KNode) \<Rightarrow> bool" where
  "named_nodes nodes \<longleftrightarrow> (\<forall>key node. nodes key = Some node \<longrightarrow> kn_Name node = key)"

inductive wh_reachable :: "'w ipt_env \<Rightarrow> 'w runner \<Rightarrow> wormhole \<Rightarrow> bool" for ie r where
  start: "wh_reachable ie r (NewController serviceCIDR)"
| step: "wh_reachable ie r c \<Longrightarrow> named_nodes nodes \<Longrightarrow>
    wh_reconcile ie r nodes order key (w, c) = (res, w', c') \<Longrightarrow> wh_reachable ie r c'"

lemma redo_same: "redo ie r nodes order (w, c) = (res, w', c') \<Longrightarrow> c' = c"
  by (auto simp: redo_def bnd_def split: prod.splits)

lemma own_redo:
  assumes "bnd (own m) (\<lambda>_. redo ie r nodes order) (w, c) = (res, w', c')" "m c = (x, c1)"
  shows "c' = c1"
  using assms redo_same by (cases x) (auto simp: bnd_def own_def)

lemma reconcile_own:
  assumes "wh_reconcile ie r nodes order key (w, c) = (res, w', c')"
  shows "c' = snd ((case nodes key of None \<Rightarrow> del_routes key | Some node \<Rightarrow> add_routes key node) c)"
proof (cases "nodes key")
  case None
  obtain x c1 where "del_routes key c = (x, c1)" by (cases "del_routes key c")
  with own_redo [of "del_routes key"] assms None show ?thesis by (auto simp: wh_reconcile_def delNode_def)
next
  case (Some node)
  obtain x c1 where "add_routes key node c = (x, c1)" by (cases "add_routes key node c")
  with own_redo [of "add_routes key node"] assms Some show ?thesis by (auto simp: wh_reconcile_def addNode_def)
qed

lemma wh_reachable_remembered: "wh_reachable ie r c \<Longrightarrow> remembered c"
proof (induction rule: wh_reachable.induct)
  case (start serviceCIDR)
  then show ?case by (simp add: remembered_def NewController_def)
next
  case (step c nodes order key w res w' c')
  show ?case
  proof (cases "nodes key")
    case None
    obtain c2 where "del_routes key c = (Ok (), c2)" "remembered c2"
      using del_routes_remembered [OF step.IH, of key] by blast
    then show ?thesis using reconcile_own [OF step.hyps(3)] None by simp
  next
    case (Some node)
    then have "kn_Name node = key" using step.hyps(2) by (simp add: named_nodes_def)
    from add_routes_remembered [OF this] step.IH show ?thesis
      using reconcile_own [OF step.hyps(3)] Some by (simp add: keeps_def)
  qed
qed

text \<open>C24: No route outlives its node. Whatever the controller has done before, after it has
  reconciled the key of a node that is gone, the tunnel has no client route for that node, also
  if an earlier attempt to add the node had failed half way or rewriting the NAT rules fails
  now; and every client route of another node is still remembered under that node's key.\<close>

theorem wormhole_no_stale_route:
  assumes "wh_reachable ie r c" "nodes key = None" "wh_reconcile ie r nodes order key (w, c) = (res, w', c')"
  shows "(\<forall>k net. gt_clientRoutes (wh_tunnel c') k \<noteq> Some (net, identifier_of key)) \<and> remembered c'"
  using del_routes_remembered [OF wh_reachable_remembered [OF assms(1)], of key] reconcile_own [OF assms(3)] assms(2)
  by auto

lemma add_routes_store:
  assumes "add_routes key node c = (Ok (), c')"
  shows "\<exists>new. wh_store c' = (wh_store c)(key \<mapsto> (case wh_store c key of None \<Rightarrow> [] | Some rs \<Rightarrow> rs) @ new) \<and> length new = 2"
proof -
  have t: "on_tunnel m d = (x, d') \<Longrightarrow> wh_store d' = wh_store d" for m d and x :: "unit outcome" and d'
    by (auto simp: on_tunnel_def split: prod.splits)
  from assms show ?thesis
    by (auto simp: add_routes_def Let_def bnd_eq_Ok_iff remember_def dest!: t)
qed

text \<open>The store only grows. Every successful reconcile of an existing node (the periodic
  recheck queues all of them every five minutes) appends two routes to the node's entry, and the
  reconcile of a node that is gone leaves the entry as it is: after \<open>n\<close> rechecks a node has \<open>2 * n\<close>
  more entries.\<close>

theorem wormhole_store_grows:
  assumes "wh_reconcile ie r nodes order key (w, c) = (Ok (), w', c')" "wh_store c key = Some rs"
  shows "\<exists>rs'. wh_store c' key = Some rs' \<and> length rs' = length rs + (if nodes key = None then 0 else 2)"
proof (cases "nodes key")
  case None
  with reconcile_own [OF assms(1)] delete_all_routes [of rs c] assms(2) show ?thesis by (auto simp: del_routes_all)
next
  case (Some node)
  from assms(1) Some obtain c1 where a: "add_routes key node c = (Ok (), c1)"
    by (auto simp: wh_reconcile_def addNode_def own_def bnd_eq_Ok_iff split: prod.splits)
  with reconcile_own [OF assms(1)] Some have "c' = c1" by simp
  with add_routes_store [OF a] assms(2) Some show ?thesis by auto
qed

section \<open>The text for iptables-restore\<close>

lemma writeLine_unlines: "writeLine ws = unlines [Join ws '' '']"
  by (simp add: writeLine_def)

lemma unlines_append: "unlines (xs @ ys) = unlines xs @ unlines ys"
  by (simp add: unlines_def)

lemma plain_lines_append [simp]: "plain_lines (xs @ ys) \<longleftrightarrow> plain_lines xs \<and> plain_lines ys"
  by (simp add: plain_lines_def)

lemma no_newline_number: "CHR 0x0A \<notin> set (Itoa i)" "CHR 0x0A \<notin> set (IP_String ip)"
proof -
  have d: "\<not> is_digit (CHR 0x0A)" by (simp add: is_digit_def)
  show "CHR 0x0A \<notin> set (Itoa i)" by (auto simp: Itoa_def nat_dec_no_char [OF d])
  show "CHR 0x0A \<notin> set (IP_String ip)"
    using set_Join [of "map (\<lambda>b. nat_dec (unat b)) ip" "''.''"] nat_dec_no_char [OF d] by (auto simp: IP_String_def)
qed

lemma redirect_line:
  assumes "CHR 0x0A \<notin> set comment" "CHR 0x0A \<notin> set dst"
  shows "CHR 0x0A \<notin> set (Join (redirect_words comment dst port) '' '')"
    "\<exists>t. Trim (Join (redirect_words comment dst port) '' '') CHR '' '' = CHR ''-'' # t"
  using assms no_newline_number(1) [of port]
  by (auto simp: redirect_words_def KUBERNIKUS_TUNNELS_def Trim_Cons)

definition plain_node :: "string \<times> KNode \<Rightarrow> bool" where
  "plain_node x \<longleftrightarrow> CHR 0x0A \<notin> set (fst x) \<and> CHR 0x0A \<notin> set (kn_PodCIDR (snd x))"

definition rule_lines :: "string list \<Rightarrow> bool" where
  "rule_lines ls \<longleftrightarrow> plain_lines ls \<and> list_all (\<lambda>l. \<exists>t. Trim l CHR '' '' = CHR ''-'' # t) ls"

lemma node_rules_lines:
  assumes "node_rules nodes c keys = Ok out" "\<And>key node. nodes key = Some node \<Longrightarrow> plain_node (key, node)"
  shows "\<exists>ls. out = unlines ls \<and> rule_lines ls"
  using assms(1)
proof (induction keys arbitrary: out)
  case Nil
  then show ?case by (intro exI [of _ "[]"]) (simp add: rule_lines_def)
next
  case (Cons key keys)
  from Cons.prems obtain r rs where r: "writeTunnelRedirect nodes c key = Ok r" "node_rules nodes c keys = Ok rs" "out = r @ rs"
    by (auto elim!: obind_OkE)
  from Cons.IH [OF r(2)] obtain ls where ls: "rs = unlines ls" "rule_lines ls" by blast
  have "\<exists>ks. r = unlines ks \<and> rule_lines ks"
  proof (cases "nodes key")
    case None
    then show ?thesis using r(1) by (intro exI [of _ "[]"]) (simp add: writeTunnelRedirect_def rule_lines_def)
  next
    case (Some node)
    let ?a = "\<lambda>ip. Join (redirect_words (''node ip tunnel redirect for '' @ key) (IP_String ip) (wh_hijackPort c)) '' ''"
    let ?b = "Join (redirect_words (''pod cidr tunnel redirect for '' @ key) (kn_PodCIDR node) (wh_hijackPort c)) '' ''"
    from r(1) Some obtain ip where "r = unlines [?a ip, ?b]"
      by (auto simp: writeTunnelRedirect_def writeLine_unlines elim!: obind_OkE)
    moreover have p: "plain_node (key, node)" using assms(2) Some by blast
    moreover have "rule_lines [?a ip, ?b]"
      using p redirect_line [of "''node ip tunnel redirect for '' @ key" "IP_String ip" "wh_hijackPort c"]
        redirect_line [of "''pod cidr tunnel redirect for '' @ key" "kn_PodCIDR node" "wh_hijackPort c"] no_newline_number(2) [of ip]
      by (simp add: rule_lines_def plain_node_def)
    ultimately show ?thesis by blast
  qed
  then obtain ks where "r = unlines ks" "rule_lines ks" by blast
  with ls r(3) show ?case by (intro exI [of _ "ks @ ls"]) (simp add: unlines_append rule_lines_def)
qed

lemma chain_line_MakeChainLine: "chain_line KUBERNIKUS_TUNNELS (MakeChainLine KUBERNIKUS_TUNNELS)"
  by (simp add: chain_line_def MakeChainLine_def KUBERNIKUS_TUNNELS_def chain_of_line_def Trim_def TrimRightFunc_def TrimLeftFunc_def)

text \<open>C25: The text written for iptables-restore is one table with one chain. Let the chains the text is
  made from be what \<open>GetChainLines\<close> reads in the output of iptables-save (or none, if that failed), and
  let no node name or network contain a line feed. Reading the text back gives exactly the tunnel
  chain, with the line it had before or a fresh one, so the restore (which does not flush)
  replaces the contents of that chain and touches no other.\<close>

theorem restore_text_one_chain:
  assumes "restore_text nodes c order existing = Ok out"
    "existing = Map.empty \<or> (save = [] \<or> last save = CHR 0x0A) \<and> GetChainLines ''nat'' save = Ok existing"
    "\<forall>key node. nodes key = Some node \<longrightarrow> plain_node (key, node)" "CHR 0x0A \<notin> set (wh_serviceCIDR c)"
  shows "\<exists>line. GetChainLines ''nat'' out = Ok [KUBERNIKUS_TUNNELS \<mapsto> line] \<and>
    (case existing KUBERNIKUS_TUNNELS of Some l \<Rightarrow> line = l | None \<Rightarrow> line = MakeChainLine KUBERNIKUS_TUNNELS)"
proof -
  define line where "line = (case existing KUBERNIKUS_TUNNELS of Some l \<Rightarrow> l | None \<Rightarrow> MakeChainLine KUBERNIKUS_TUNNELS)"
  have cl: "chain_line KUBERNIKUS_TUNNELS line"
  proof (cases "existing KUBERNIKUS_TUNNELS")
    case (Some l)
    then have s: "save = [] \<or> last save = CHR 0x0A" "GetChainLines ''nat'' save = Ok existing" using assms(2) by auto
    from lines_of_text [OF s(1)] s(2) GetChainLines_chain_line [of "butlast (Split CHR 0x0A save)" "''nat''"] Some
    show ?thesis by (auto simp: line_def)
  qed (simp add: line_def chain_line_MakeChainLine)
  let ?svc = "Join (redirect_words ''cluster service CIDR tunnel redirect'' (wh_serviceCIDR c) (wh_hijackPort c)) '' ''"
  from assms(1) obtain rules where "node_rules nodes c order = Ok rules" and
    t: "out = writeLine [''*nat''] @ writeLine [line] @ rules @ writeLine (redirect_words
       ''cluster service CIDR tunnel redirect'' (wh_serviceCIDR c) (wh_hijackPort c)) @ writeLine [''COMMIT'']"
    unfolding restore_text_def by (auto simp: line_def elim!: obind_OkE split: option.splits)
  with node_rules_lines assms(3) obtain ls where ls: "rules = unlines ls" "rule_lines ls" by blast
  have whole: "out = unlines ([''*nat'', line] @ (ls @ [?svc]) @ [''COMMIT''])"
    unfolding t by (simp add: writeLine_unlines unlines_append ls(1))
  have svc: "CHR 0x0A \<notin> set ?svc" "\<exists>u. Trim ?svc CHR '' '' = CHR ''-'' # u"
    by (rule redirect_line; use assms(4) in simp)+
  have plain: "plain_lines ([''*nat'', line] @ (ls @ [?svc]) @ [''COMMIT''])"
    using cl ls(2) svc by (simp add: chain_line_def rule_lines_def)
  have rl: "list_all (\<lambda>l. \<exists>u. l = CHR ''-'' # u) (map (\<lambda>l. Trim l CHR '' '') (ls @ [?svc]))"
    using ls(2) svc(2) by (simp add: rule_lines_def list_all_iff)
  have trimmed: "Trim line CHR '' '' = line" "\<exists>u. line = CHR '':'' # u" "chain_of_line line = Ok KUBERNIKUS_TUNNELS" "1 < length line"
    using cl by (auto simp: chain_line_def)
  have literal: "Trim ''*nat'' CHR '' '' = ''*nat''" "Trim ''COMMIT'' CHR '' '' = ''COMMIT''"
    by (simp_all add: Trim_def TrimRightFunc_def TrimLeftFunc_def)
  have "GetChainLines ''nat'' out =
      chain_lines (line # map (\<lambda>l. Trim l CHR '' '') (ls @ [?svc]) @ [''COMMIT'']) Map.empty"
    unfolding whole GetChainLines_unlines [OF plain]
    by (simp add: after_header_def trimmed(1) literal del: chain_lines.simps)
  also have "\<dots> = chain_lines (map (\<lambda>l. Trim l CHR '' '') (ls @ [?svc]) @ [''COMMIT'']) [KUBERNIKUS_TUNNELS \<mapsto> line]"
    using trimmed by auto
  also have "\<dots> = Ok [KUBERNIKUS_TUNNELS \<mapsto> line]"
    unfolding chain_lines_rules [OF rl] by simp
  finally show ?thesis by (auto simp: line_def split: option.splits)
qed

section \<open>An example\<close>

definition quiet_env :: "unit ipt_env" where
  "quiet_env = no_programs\<lparr>ie_exec := \<lambda>_ _ _ w. (([], None), w)\<rparr>"

definition demo_knode :: KNode where
  "demo_knode = \<lparr>kn_Name = ''n1'', kn_PodCIDR = ''198.19.1.0/24'', kn_Addresses = [(''InternalIP'', ''10.180.0.5'')]\<rparr>"

definition demo_nodes :: "string \<rightharpoonup> KNode" where
  "demo_nodes = [''n1'' \<mapsto> demo_knode]"

definition demo_wormhole :: wormhole where
  "demo_wormhole = snd (add_routes ''n1'' demo_knode (NewController ''198.18.128.0/17''))"

lemma add_routes_succeeds:
  assumes "GetNodeHostIP node = Ok ip" "canonical (kn_PodCIDR node) = Ok n1" "canonical (IP_String ip @ ''/32'') = Ok n2"
  shows "\<exists>c'. add_routes key node c = (Ok (), c')"
  using assms
  by (simp add: add_routes_def Let_def bnd_def on_tunnel_def AddClientRoute_def AddRoute_def)

lemma demo_knode_routes:
  "GetNodeHostIP demo_knode = Ok [10, 180, 0, 5]" "canonical (kn_PodCIDR demo_knode) = Ok ''198.19.1.0/24''"
  "canonical (IP_String [10, 180, 0, 5] @ ''/32'') = Ok ''10.180.0.5/32''"
  by code_simp+

lemma demo_add_again: "\<exists>c'. add_routes ''n1'' demo_knode c = (Ok (), c')"
  using add_routes_succeeds demo_knode_routes by blast

lemma demo_add: "add_routes ''n1'' demo_knode (NewController ''198.18.128.0/17'') = (Ok (), demo_wormhole)"
  using demo_add_again [of "NewController ''198.18.128.0/17''"] by (auto simp: demo_wormhole_def)

lemma quiet_redo:
  assumes "node_rules nodes c (order c) = Ok x"
  shows "redo quiet_env demo_runner nodes order ((), c) = (Ok (), (), c)"
  using assms
  by (simp add: redo_def redoIPTablesSpratz_def EnsureChain_def EnsureRule_def checkRule_def checkRuleUsingCheck_def
      SaveInto_def run_op_def CombinedOutput_def bnd_def quiet_env_def no_programs_def demo_runner_def GetChainLines_def
      find_table.simps table_lines.simps restore_text_def RestoreAll_def restoreInternal_def grabIptablesLocks_def tryc_def
      PollImmediate_def attempt_def restore_run_def locker_Close_def close_if_def ignore_err_def)

lemma demo_reconcile:
  "wh_reconcile quiet_env demo_runner demo_nodes (\<lambda>_. [''n1'']) ''n1'' ((), NewController ''198.18.128.0/17'') = (Ok (), (), demo_wormhole)"
proof -
  have "\<exists>x. node_rules demo_nodes demo_wormhole [''n1''] = Ok x"
    by (simp add: demo_nodes_def demo_knode_def writeTunnelRedirect_def GetNodeHostIP_def)
  then show ?thesis
    using demo_add quiet_redo [of demo_nodes demo_wormhole "\<lambda>_. [''n1'']"]
    by (auto simp: wh_reconcile_def demo_nodes_def addNode_def bnd_def own_def)
qed

lemma demo_reachable: "wh_reachable quiet_env demo_runner demo_wormhole"
  by (rule wh_reachable.step [OF wh_reachable.start _ demo_reconcile]) (simp add: named_nodes_def demo_nodes_def demo_knode_def)

theorem wormhole_no_stale_route_witness:
  "gt_clientRoutes (wh_tunnel demo_wormhole) ''198.19.1.0/24system:node:n1'' = Some (''198.19.1.0/24'', identifier_of ''n1'') \<and>
   (\<exists>res w' c'. wh_reconcile quiet_env demo_runner Map.empty (\<lambda>_. []) ''n1'' ((), demo_wormhole) = (res, w', c') \<and>
      gt_clientRoutes (wh_tunnel c') ''198.19.1.0/24system:node:n1'' \<noteq> Some (''198.19.1.0/24'', identifier_of ''n1''))"
proof -
  obtain res w' c' where r: "wh_reconcile quiet_env demo_runner Map.empty (\<lambda>_. []) ''n1'' ((), demo_wormhole) = (res, w', c')"
    by (metis prod.collapse)
  have "gt_clientRoutes (wh_tunnel demo_wormhole) ''198.19.1.0/24system:node:n1'' = Some (''198.19.1.0/24'', identifier_of ''n1'')"
    unfolding demo_wormhole_def by code_simp
  with wormhole_no_stale_route [OF demo_reachable _ r] r show ?thesis by auto
qed

theorem wormhole_store_grows_witness:
  "\<exists>w' c' rs'. wh_reconcile quiet_env demo_runner demo_nodes (\<lambda>_. [''n1'']) ''n1'' ((), demo_wormhole) = (Ok (), w', c') \<and>
     wh_store c' ''n1'' = Some rs' \<and> length rs' = 4"
proof -
  have two: "map_option length (wh_store demo_wormhole ''n1'') = Some 2" unfolding demo_wormhole_def by code_simp
  then obtain rs where rs: "wh_store demo_wormhole ''n1'' = Some rs" "length rs = 2" by auto
  obtain c' where a: "add_routes ''n1'' demo_knode demo_wormhole = (Ok (), c')" using demo_add_again by blast
  have "\<exists>x. node_rules demo_nodes c' [''n1''] = Ok x"
    by (simp add: demo_nodes_def demo_knode_def writeTunnelRedirect_def GetNodeHostIP_def)
  with a quiet_redo [of demo_nodes c' "\<lambda>_. [''n1'']"]
  have r: "wh_reconcile quiet_env demo_runner demo_nodes (\<lambda>_. [''n1'']) ''n1'' ((), demo_wormhole) = (Ok (), (), c')"
    by (auto simp: wh_reconcile_def demo_nodes_def addNode_def bnd_def own_def)
  from wormhole_store_grows [OF r rs(1)] r rs(2) show ?thesis by (auto simp: demo_nodes_def)
qed

theorem restore_text_one_chain_witness:
  "\<exists>out line. restore_text demo_nodes demo_wormhole [''n1''] Map.empty = Ok out \<and>
     GetChainLines ''nat'' out = Ok [KUBERNIKUS_TUNNELS \<mapsto> line]"
proof -
  obtain out where r: "restore_text demo_nodes demo_wormhole [''n1''] Map.empty = Ok out"
    by (simp add: restore_text_def demo_nodes_def demo_knode_def writeTunnelRedirect_def GetNodeHostIP_def)
  have "wh_serviceCIDR demo_wormhole = ''198.18.128.0/17''" unfolding demo_wormhole_def by code_simp
  then have "CHR 0x0A \<notin> set (wh_serviceCIDR demo_wormhole)" by simp
  from restore_text_one_chain [OF r _ _ this, of "[]"] r show ?thesis
    by (auto simp: demo_nodes_def demo_knode_def plain_node_def)
qed

end
