(* ===== verification/GoFmt.thy ===== *)
theory GoFmt
  imports GoStrings
begin

text \<open>
  \<open>fmt.Sprintf\<close> called with a format and no operands, which is what the API does with the text of
  an error (\<open>src/pkg/api/handlers/errors.go\<close>): every verb of the format misses its operand. The
  functions follow \<open>doPrintf\<close> of Go's \<open>fmt\<close> package; \<open>format[i:]\<close> is the list that is left.
\<close>

definition is_flag :: "char \<Rightarrow> bool" where
  "is_flag c \<longleftrightarrow> c \<in> {CHR ''#'', CHR ''0'', CHR ''+'', CHR ''-'', CHR '' ''}"

text \<open>\<open>parsenum\<close>: whether there is a number, and the rest. Beyond a million it gives up and
  moves to the end of the format.\<close>

fun parsenum_from :: "nat \<Rightarrow> bool \<Rightarrow> string \<Rightarrow> bool \<times> string" where
  "parsenum_from num isnum [] = (isnum, [])"
| "parsenum_from num isnum (c # s) =
     (if is_digit c then (if num > 1000000 then (False, []) else parsenum_from (10 * num + digit_val c) True s)
      else (isnum, c # s))"

definition parsenum :: "string \<Rightarrow> bool \<times> string" where
  "parsenum s = parsenum_from 0 False s"

text \<open>\<open>parseArgNumber\<close> on a format that begins with a bracket: how many bytes the index takes and
  whether it is a number.\<close>

definition parseArgNumber :: "string \<Rightarrow> nat \<times> bool" where
  "parseArgNumber s =
     (let inner = takeWhile (\<lambda>c. c \<noteq> CHR '']'') (tl s)
      in if length s < 3 \<or> CHR '']'' \<notin> set (tl s) then (1, False)
         else (length inner + 2, parsenum inner = (True, [])))"

text \<open>\<open>argNumber\<close> with no operands: an index is never in range. The rest, whether an index was
  there, and whether it was a number.\<close>

definition argNumber :: "string \<Rightarrow> string \<times> bool \<times> bool" where
  "argNumber s =
     (if s \<noteq> [] \<and> hd s = CHR ''['' then let (wid, ok) = parseArgNumber s in (drop wid s, True, ok)
      else (s, False, False))"

text \<open>The first rune of a text: its bytes, or U+FFFD for a byte that begins no rune, and the
  number of bytes it takes.\<close>

definition byte_in :: "nat \<Rightarrow> nat \<Rightarrow> string \<Rightarrow> nat \<Rightarrow> bool" where
  "byte_in lo hi s i \<longleftrightarrow> i < length s \<and> lo \<le> (of_char (s ! i) :: nat) \<and> (of_char (s ! i) :: nat) \<le> hi"

definition rune_width :: "string \<Rightarrow> nat option" where
  "rune_width s =
     (if byte_in 0 0x7F s 0 then Some 1
      else if byte_in 0xC2 0xDF s 0 \<and> byte_in 0x80 0xBF s 1 then Some 2
      else if (byte_in 0xE0 0xE0 s 0 \<and> byte_in 0xA0 0xBF s 1 \<or>
               byte_in 0xE1 0xEF s 0 \<and> \<not> byte_in 0xED 0xED s 0 \<and> byte_in 0x80 0xBF s 1 \<or>
               byte_in 0xED 0xED s 0 \<and> byte_in 0x80 0x9F s 1) \<and> byte_in 0x80 0xBF s 2 then Some 3
      else if (byte_in 0xF0 0xF0 s 0 \<and> byte_in 0x90 0xBF s 1 \<or>
               byte_in 0xF1 0xF3 s 0 \<and> byte_in 0x80 0xBF s 1 \<or>
               byte_in 0xF4 0xF4 s 0 \<and> byte_in 0x80 0x8F s 1) \<and>
              byte_in 0x80 0xBF s 2 \<and> byte_in 0x80 0xBF s 3 then Some 4
      else None)"

definition DecodeRune :: "string \<Rightarrow> string \<times> nat" where
  "DecodeRune s =
     (case rune_width s of Some n \<Rightarrow> (take n s, n) | None \<Rightarrow> ([CHR 0xEF, CHR 0xBF, CHR 0xBD], 1))"

text \<open>What follows a percent sign: flags, an index, a width, a precision, an index and the
  verb. The result is what is written and the rest of the format.\<close>

definition directive_width :: "string \<Rightarrow> string \<times> string \<times> bool \<times> bool" where
  "directive_width s =
     (let (s1, bad1, after1) = argNumber (dropWhile is_flag s)
      in if s1 \<noteq> [] \<and> hd s1 = CHR ''*'' then (''%!(BADWIDTH)'', tl s1, bad1, False)
         else let (isnum, s2) = parsenum s1 in ([], s2, bad1 \<or> (after1 \<and> isnum), after1))"

definition directive_precision :: "string \<Rightarrow> bool \<Rightarrow> bool \<Rightarrow> string \<times> string \<times> bool \<times> bool" where
  "directive_precision s bad after =
     (if 1 < length s \<and> hd s = CHR ''.'' then
        (let (s1, bad1, after1) = argNumber (tl s);
             bad' = (bad \<or> after \<or> bad1)
         in if s1 \<noteq> [] \<and> hd s1 = CHR ''*'' then (''%!(BADPREC)'', tl s1, bad', False)
            else ([], snd (parsenum s1), bad', after1))
      else ([], s, bad, after))"

definition directive_verb :: "string \<Rightarrow> bool \<Rightarrow> string \<times> string" where
  "directive_verb s bad =
     (if s = [] then (''%!(NOVERB)'', [])
      else let (verb, n) = DecodeRune s
           in (if verb = ''%'' then ''%''
               else ''%!'' @ verb @ (if bad then ''(BADINDEX)'' else ''(MISSING)''), drop n s))"

definition directive :: "string \<Rightarrow> string \<times> string" where
  "directive s =
     (let (o1, s1, bad1, after1) = directive_width s;
          (o2, s2, bad2, after2) = directive_precision s1 bad1 after1;
          (s3, bad3) = (if after2 then (s2, bad2) else let (t, b, _) = argNumber s2 in (t, bad2 \<or> b));
          (o3, s4) = directive_verb s3 bad3
      in (o1 @ o2 @ o3, s4))"

lemma length_parsenum_from: "length (snd (parsenum_from n b s)) \<le> length s"
  by (induction n b s rule: parsenum_from.induct) auto

lemma length_parsenum: "parsenum s = (b, t) \<Longrightarrow> length t \<le> length s"
  using length_parsenum_from [of 0 False s] by (simp add: parsenum_def)

lemma length_argNumber: "argNumber s = (t, a, b) \<Longrightarrow> length t \<le> length s"
  by (auto simp: argNumber_def split: if_splits prod.splits)

lemma length_directive_width: "directive_width s = (out, t, a, b) \<Longrightarrow> length t \<le> length s"
  using length_dropWhile_le [of is_flag s]
  by (auto simp: directive_width_def split: if_splits prod.splits
      dest!: length_argNumber length_parsenum)

lemma length_directive_precision:
  assumes "directive_precision s x y = (out, t, a, b)"
  shows "length t \<le> length s"
proof -
  obtain s1 bad1 after1 where 1: "argNumber (tl s) = (s1, bad1, after1)" by (metis prod_cases3)
  obtain isnum s2 where 2: "parsenum s1 = (isnum, s2)" by fastforce
  from length_argNumber [OF 1] length_parsenum [OF 2] assms show ?thesis
    by (auto simp: directive_precision_def Let_def 1 2 split: if_splits)
qed

lemma length_directive: "length (snd (directive s)) \<le> length s"
proof -
  obtain o1 s1 bad1 after1 where 1: "directive_width s = (o1, s1, bad1, after1)" by (metis prod_cases4)
  obtain o2 s2 bad2 after2 where 2: "directive_precision s1 bad1 after1 = (o2, s2, bad2, after2)" by (metis prod_cases4)
  obtain t b c where 3: "argNumber s2 = (t, b, c)" by (metis prod_cases3)
  have "length t \<le> length s2" "length s2 \<le> length s"
    using length_directive_width [OF 1] length_directive_precision [OF 2] length_argNumber [OF 3] by simp_all
  then show ?thesis by (auto simp: directive_def directive_verb_def 1 2 3 split: prod.split)
qed

function Sprintf0 :: "string \<Rightarrow> string" where
  "Sprintf0 [] = []"
| "Sprintf0 (c # s) =
     (if c = CHR ''%'' then fst (directive s) @ Sprintf0 (snd (directive s)) else c # Sprintf0 s)"
  by pat_completeness auto
termination
  by (relation "measure length") (use length_directive in \<open>auto simp: le_imp_less_Suc\<close>)

lemma Sprintf0_plain: "CHR ''%'' \<notin> set s \<Longrightarrow> Sprintf0 s = s"
  by (induction s) auto

end
