(* ===== verification/Certificates.thy ===== *)
theory Certificates
  imports KubeUtil Factory
begin

text \<open>
  The certificates of a kluster (\<open>src/pkg/util/certificates.go\<close>): six certificate authorities and
  the eleven certificates they sign, the names under which they are stored, and their use by the
  other components. Key generation, the serial numbers, the clock and \<open>crypto/x509\<close> are
  parameters over the world; times are nanoseconds. The errors the code drops leave a nil
  certificate behind, which the model keeps: the next access to it panics. The kubeconfig and the
  secrets of other components refer to the names computed here.
\<close>

section \<open>Names\<close>

text \<open>\<open>strings.ToLower\<close> and \<open>sanitize.BaseName\<close> on ASCII texts.\<close>

definition ToLower :: "string \<Rightarrow> string" where
  "ToLower s = map (\<lambda>c. if 65 \<le> (of_char c :: nat) \<and> (of_char c :: nat) \<le> 90 then char_of ((of_char c :: nat) + 32) else c) s"

definition is_alnum :: "char \<Rightarrow> bool" where
  "is_alnum c \<longleftrightarrow> is_digit c \<or> is_lower c \<or> (65 \<le> (of_char c :: nat) \<and> (of_char c :: nat) \<le> 90)"

fun squeeze_dashes :: "string \<Rightarrow> string" where
  "squeeze_dashes (a # b # s) =
     (if a = CHR ''-'' \<and> b = CHR ''-'' then squeeze_dashes (b # s) else a # squeeze_dashes (b # s))"
| "squeeze_dashes s = s"

definition cleanString :: "string \<Rightarrow> string" where
  "cleanString s =
     squeeze_dashes (filter (\<lambda>c. is_alnum c \<or> c = CHR ''-'' \<or> c = CHR ''.'')
       (map (\<lambda>c. if c \<in> {CHR '' '', CHR ''&'', CHR ''_'', CHR ''='', CHR ''+'', CHR '':''} then CHR ''-'' else c)
         (Trim s CHR '' '')))"

definition BaseName :: "string \<Rightarrow> string" where
  "BaseName s = cleanString (map (\<lambda>c. if c \<in> {CHR ''.'', CHR ''/''} then CHR ''-'' else c) s)"

section \<open>Bundles\<close>

datatype ExtKeyUsage = ExtKeyUsageClientAuth | ExtKeyUsageServerAuth
datatype KeyUsage = KeyUsageKeyEncipherment | KeyUsageDigitalSignature | KeyUsageCertSign

record pkix_Name =
  nm_CommonName :: string
  nm_Organization :: "string list"
  nm_OrganizationalUnit :: "string list"
  nm_Province :: "string list"
  nm_Locality :: "string list"

record Certificate =
  crt_Subject :: pkix_Name
  crt_Issuer :: pkix_Name
  crt_IsCA :: bool
  crt_Serial :: "int option"
  crt_NotBefore :: int
  crt_NotAfter :: int
  crt_KeyUsage :: "KeyUsage list"
  crt_ExtKeyUsage :: "ExtKeyUsage list"
  crt_DNSNames :: "string list"
  crt_IPAddresses :: "IP list"

record 'key Bundle =
  bnl_Certificate :: "Certificate option"
  bnl_PrivateKey :: "'key option"

record AltNames =
  alt_DNSNames :: "string list"
  alt_IPs :: "IP list"

record Config =
  cnf_Sign :: string
  cnf_Organization :: "string list"
  cnf_OrganizationalUnit :: "string list"
  cnf_Province :: "string list"
  cnf_Locality :: "string list"
  cnf_AltNames :: AltNames
  cnf_Usages :: "ExtKeyUsage list"
  cnf_ValidFor :: int

text \<open>\<open>x509\<close> is \<open>x509.CreateCertificate\<close> for the public part of the second key, signed with the
  third argument's key, followed by \<open>x509.ParseCertificate\<close>.\<close>

record ('w, 'key) crypto =
  cr_NewPrivateKey :: "('w, 'key) go"
  cr_Serial :: "('w, int) go"
  cr_now :: "('w, int) go"
  cr_x509 :: "Certificate \<Rightarrow> Certificate \<Rightarrow> 'key \<Rightarrow> 'key \<Rightarrow> ('w, Certificate) go"
  cr_EncodeCertPEM :: "Certificate \<Rightarrow> string"
  cr_EncodePrivateKeyPEM :: "'key \<Rightarrow> string"
  cr_ParseCertsPEM :: "string \<Rightarrow> Certificate list outcome"
  cr_ParsePrivateKeyPEM :: "string \<Rightarrow> 'key option outcome"

definition hour :: int where "hour = 3600 * 10 ^ 9"
definition defaultCertValidity :: int where "defaultCertValidity = 2 * hour * 24 * 365"
definition caValidity :: int where "caValidity = 10 * hour * 24 * 365"

text \<open>\<open>x, _ := m\<close>: nil after an error.\<close>

definition or_nil :: "('w, 'a) go \<Rightarrow> ('w, 'a option) go" where
  "or_nil m = tryc m (\<lambda>_. ret None) (\<lambda>x. ret (Some x))"

definition nil_deref :: "'a option \<Rightarrow> ('w, 'a) go" where
  "nil_deref x = (case x of None \<Rightarrow> panic ''invalid memory address or nil pointer dereference'' | Some y \<Rightarrow> ret y)"

definition plain_Name :: "string \<Rightarrow> pkix_Name" where
  "plain_Name cn = \<lparr>nm_CommonName = cn, nm_Organization = [], nm_OrganizationalUnit = [], nm_Province = [], nm_Locality = []\<rparr>"

text \<open>A key that is not RSA parses to \<open>None\<close>.\<close>

definition NewBundle :: "('w, 'key) crypto \<Rightarrow> string \<Rightarrow> string \<Rightarrow> 'key Bundle outcome" where
  "NewBundle cr key cert =
     obind (cr_ParseCertsPEM cr cert) (\<lambda>certificates.
       if length certificates < 1 then Fail (Errorf ''No certificates found'')
       else obind (cr_ParsePrivateKeyPEM cr key) (\<lambda>k.
         case k of
           None \<Rightarrow> Fail (Errorf ''Key does not seem to be of type RSA'')
         | Some rsaKey \<Rightarrow> Ok \<lparr>bnl_Certificate = Some (hd certificates), bnl_PrivateKey = Some rsaKey\<rparr>))"

definition basename :: "Certificate \<Rightarrow> string" where
  "basename c =
     (let (stem, suff) =
        (if crt_IsCA c then (nm_CommonName (crt_Subject c), ''ca'')
         else (nm_CommonName (crt_Issuer c), nm_CommonName (crt_Subject c)))
      in BaseName (ToLower (stem @ ''-'' @ suff)))"

definition NameForKey :: "Certificate \<Rightarrow> string" where
  "NameForKey c = basename c @ ''-key.pem''"

definition NameForCert :: "Certificate \<Rightarrow> string" where
  "NameForCert c = basename c @ ''.pem''"

definition createCA :: "('w, 'key) crypto \<Rightarrow> string \<Rightarrow> string \<Rightarrow> ('w, 'key Bundle) go" where
  "createCA cr klusterName name =
     bnd (or_nil (cr_NewPrivateKey cr)) (\<lambda>k.
     bnd (cr_now cr) (\<lambda>now.
     bnd (nil_deref k) (\<lambda>key.
       let tmpl = \<lparr>crt_Subject = (plain_Name name)\<lparr>nm_OrganizationalUnit :=
                       [''SAP Converged Cloud'', ''Kubernikus'', klusterName]\<rparr>,
                   crt_Issuer = plain_Name [], crt_IsCA = True, crt_Serial = Some 0,
                   crt_NotBefore = now, crt_NotAfter = now + caValidity,
                   crt_KeyUsage = [KeyUsageKeyEncipherment, KeyUsageDigitalSignature, KeyUsageCertSign],
                   crt_ExtKeyUsage = [], crt_DNSNames = [], crt_IPAddresses = []\<rparr>
       in bnd (or_nil (cr_x509 cr tmpl tmpl key key)) (\<lambda>cert.
          ret \<lparr>bnl_Certificate = cert, bnl_PrivateKey = Some key\<rparr>))))"

definition Sign :: "('w, 'key) crypto \<Rightarrow> 'key Bundle \<Rightarrow> Config \<Rightarrow> ('w, 'key Bundle) go" where
  "Sign cr ca config =
     bnd (nil_deref (bnl_Certificate ca)) (\<lambda>caCert.
       if \<not> crt_IsCA caCert then panic ''You can't use this certificate for signing. It's not a CA...''
       else
         let validFor = (if cnf_ValidFor config = 0 then defaultCertValidity else cnf_ValidFor config)
         in bnd (or_nil (cr_NewPrivateKey cr)) (\<lambda>k.
            bnd (or_nil (cr_Serial cr)) (\<lambda>serial.
            bnd (cr_now cr) (\<lambda>now.
            bnd (nil_deref k) (\<lambda>key.
            bnd (nil_deref (bnl_PrivateKey ca)) (\<lambda>caKey.
              let tmpl = \<lparr>crt_Subject = \<lparr>nm_CommonName = cnf_Sign config, nm_Organization = cnf_Organization config,
                            nm_OrganizationalUnit = cnf_OrganizationalUnit config, nm_Province = cnf_Province config,
                            nm_Locality = cnf_Locality config\<rparr>,
                          crt_Issuer = plain_Name [], crt_IsCA = False, crt_Serial = serial,
                          crt_NotBefore = crt_NotBefore caCert, crt_NotAfter = now + validFor,
                          crt_KeyUsage = [KeyUsageKeyEncipherment, KeyUsageDigitalSignature],
                          crt_ExtKeyUsage = cnf_Usages config, crt_DNSNames = alt_DNSNames (cnf_AltNames config),
                          crt_IPAddresses = alt_IPs (cnf_AltNames config)\<rparr>
              in bnd (or_nil (cr_x509 cr tmpl caCert key caKey)) (\<lambda>cert.
                 ret \<lparr>bnl_Certificate = cert, bnl_PrivateKey = Some key\<rparr>)))))))"

section \<open>The certificates of a kluster\<close>

definition plain_Config :: "string \<Rightarrow> ExtKeyUsage list \<Rightarrow> Config" where
  "plain_Config name usages = \<lparr>cnf_Sign = name, cnf_Organization = [], cnf_OrganizationalUnit = [],
     cnf_Province = [], cnf_Locality = [], cnf_AltNames = \<lparr>alt_DNSNames = [], alt_IPs = []\<rparr>,
     cnf_Usages = usages, cnf_ValidFor = 0\<rparr>"

definition signEtcdClient :: "('w, 'key) crypto \<Rightarrow> 'key Bundle \<Rightarrow> string \<Rightarrow> ('w, 'key Bundle) go" where
  "signEtcdClient cr ca name = Sign cr ca (plain_Config name [ExtKeyUsageClientAuth])"

definition signEtcdPeer :: "('w, 'key) crypto \<Rightarrow> 'key Bundle \<Rightarrow> string \<Rightarrow> ('w, 'key Bundle) go" where
  "signEtcdPeer cr ca name = Sign cr ca (plain_Config name [ExtKeyUsageClientAuth, ExtKeyUsageServerAuth])"

definition signApiServerClient :: "('w, 'key) crypto \<Rightarrow> 'key Bundle \<Rightarrow> string \<Rightarrow> string list \<Rightarrow> ('w, 'key Bundle) go" where
  "signApiServerClient cr ca name groups =
     Sign cr ca ((plain_Config name [ExtKeyUsageClientAuth])\<lparr>cnf_Organization := groups\<rparr>)"

definition signApiServerNode :: "('w, 'key) crypto \<Rightarrow> 'key Bundle \<Rightarrow> string \<Rightarrow> ('w, 'key Bundle) go" where
  "signApiServerNode cr ca name =
     Sign cr ca ((plain_Config name [ExtKeyUsageClientAuth])\<lparr>cnf_Organization := [''system:nodes'']\<rparr>)"

definition signKubeletClient :: "('w, 'key) crypto \<Rightarrow> 'key Bundle \<Rightarrow> string \<Rightarrow> ('w, 'key Bundle) go" where
  "signKubeletClient cr ca name = Sign cr ca (plain_Config name [ExtKeyUsageClientAuth])"

definition signTLS :: "('w, 'key) crypto \<Rightarrow> 'key Bundle \<Rightarrow> string \<Rightarrow> string list \<Rightarrow> IP list \<Rightarrow> ('w, 'key Bundle) go" where
  "signTLS cr ca name dnsNames ips =
     Sign cr ca ((plain_Config name [ExtKeyUsageServerAuth])
       \<lparr>cnf_AltNames := \<lparr>alt_DNSNames = dnsNames, alt_IPs = ips\<rparr>\<rparr>)"

record 'key CertificateSet =
  cs_EtcdClientsCA :: "'key Bundle"
  cs_EtcdClientsApiServer :: "'key Bundle"
  cs_EtcdPeersCA :: "'key Bundle"
  cs_EtcdPeersUniversal :: "'key Bundle"
  cs_ApiServerClientsCA :: "'key Bundle"
  cs_ApiServerClientsControllerManager :: "'key Bundle"
  cs_ApiServerClientsScheduler :: "'key Bundle"
  cs_ApiServerClientsProxy :: "'key Bundle"
  cs_ApiServerClientsClusterAdmin :: "'key Bundle"
  cs_ApiServerClientsWormhole :: "'key Bundle"
  cs_ApiServerNodesCA :: "'key Bundle"
  cs_ApiServerNodesUniversal :: "'key Bundle"
  cs_KubeletClientsCA :: "'key Bundle"
  cs_KubeletClientsApiServer :: "'key Bundle"
  cs_TLSCA :: "'key Bundle"
  cs_TLSApiServer :: "'key Bundle"
  cs_TLSWormhole :: "'key Bundle"

definition all_bundles :: "'key CertificateSet \<Rightarrow> 'key Bundle list" where
  "all_bundles c =
     [cs_EtcdClientsCA c, cs_EtcdClientsApiServer c, cs_EtcdPeersCA c, cs_EtcdPeersUniversal c,
      cs_ApiServerClientsCA c, cs_ApiServerClientsControllerManager c, cs_ApiServerClientsScheduler c,
      cs_ApiServerClientsProxy c, cs_ApiServerClientsClusterAdmin c, cs_ApiServerClientsWormhole c,
      cs_ApiServerNodesCA c, cs_ApiServerNodesUniversal c, cs_KubeletClientsCA c,
      cs_KubeletClientsApiServer c, cs_TLSCA c, cs_TLSApiServer c, cs_TLSWormhole c]"

text \<open>The map of the certificates: a later entry of the same name replaces an earlier one.\<close>

primrec bundle_map :: "('w, 'key) crypto \<Rightarrow> 'key Bundle list \<Rightarrow> (string \<times> string) list \<Rightarrow> ('w, (string \<times> string) list) go" where
  "bundle_map cr [] result = ret result"
| "bundle_map cr (b # bs) result =
     bnd (nil_deref (bnl_Certificate b)) (\<lambda>c.
     bnd (nil_deref (bnl_PrivateKey b)) (\<lambda>k.
       bundle_map cr bs ((NameForKey c, cr_EncodePrivateKeyPEM cr k) # (NameForCert c, cr_EncodeCertPEM cr c) # result)))"

definition toMap :: "('w, 'key) crypto \<Rightarrow> 'key CertificateSet \<Rightarrow> ('w, (string \<times> string) list) go" where
  "toMap cr c = bundle_map cr (all_bundles c) []"

definition sign_all ::
  "('w, 'key) crypto \<Rightarrow> Kluster \<Rightarrow> IP \<Rightarrow> string \<Rightarrow> ('w, 'key CertificateSet) go" where
  "sign_all cr kluster apiIP dm =
     bnd (createCA cr (k_Name kluster) ''Etcd Clients'') (\<lambda>etcdClientsCA.
     bnd (createCA cr (k_Name kluster) ''Etcd Peers'') (\<lambda>etcdPeersCA.
     bnd (createCA cr (k_Name kluster) ''ApiServer Clients'') (\<lambda>apiClientsCA.
     bnd (createCA cr (k_Name kluster) ''ApiServer Nodes'') (\<lambda>apiNodesCA.
     bnd (createCA cr (k_Name kluster) ''Kubelet Clients'') (\<lambda>kubeletCA.
     bnd (createCA cr (k_Name kluster) ''TLS'') (\<lambda>tlsCA.
     bnd (signEtcdClient cr etcdClientsCA ''apiserver'') (\<lambda>etcdClient.
     bnd (signEtcdPeer cr etcdPeersCA ''universal'') (\<lambda>etcdPeer.
     bnd (signApiServerClient cr apiClientsCA ''cluster-admin'' [''system:masters'']) (\<lambda>admin.
     bnd (signApiServerClient cr apiClientsCA ''system:kube-controller-manager'' []) (\<lambda>controllerManager.
     bnd (signApiServerClient cr apiClientsCA ''system:kube-proxy'' []) (\<lambda>proxy.
     bnd (signApiServerClient cr apiClientsCA ''system:kube-scheduler'' []) (\<lambda>scheduler.
     bnd (signApiServerClient cr apiClientsCA ''kubernikus:wormhole'' []) (\<lambda>whole.
     bnd (signApiServerNode cr apiNodesCA ''universal'') (\<lambda>node.
     bnd (signKubeletClient cr kubeletCA ''apiserver'') (\<lambda>kubelet.
     bnd (signTLS cr tlsCA ''apiserver''
            [''kubernetes'', ''kubernetes.default'', ''apiserver'', k_Name kluster, k_Name kluster @ ''.'' @ dm]
            [[127, 0, 0, 1], apiIP]) (\<lambda>tlsApi.
     bnd (signTLS cr tlsCA ''wormhole'' [k_Name kluster @ ''-wormhole.'' @ dm] []) (\<lambda>tlsWormhole.
       ret \<lparr>cs_EtcdClientsCA = etcdClientsCA, cs_EtcdClientsApiServer = etcdClient, cs_EtcdPeersCA = etcdPeersCA,
            cs_EtcdPeersUniversal = etcdPeer, cs_ApiServerClientsCA = apiClientsCA,
            cs_ApiServerClientsControllerManager = controllerManager, cs_ApiServerClientsScheduler = scheduler,
            cs_ApiServerClientsProxy = proxy, cs_ApiServerClientsClusterAdmin = admin,
            cs_ApiServerClientsWormhole = whole, cs_ApiServerNodesCA = apiNodesCA, cs_ApiServerNodesUniversal = node,
            cs_KubeletClientsCA = kubeletCA, cs_KubeletClientsApiServer = kubelet, cs_TLSCA = tlsCA,
            cs_TLSApiServer = tlsApi, cs_TLSWormhole = tlsWormhole\<rparr>)))))))))))))))))"

definition CreateCertificates ::
  "('w, 'key) crypto \<Rightarrow> Kluster \<Rightarrow> string \<Rightarrow> string \<Rightarrow> string \<Rightarrow> ('w, (string \<times> string) list) go" where
  "CreateCertificates cr kluster apiURL authURL dm =
     bnd (lift_outcome (ApiServiceIP kluster)) (\<lambda>apiIP.
     bnd (sign_all cr kluster apiIP dm) (\<lambda>certs.
     toMap cr certs))"

section \<open>What is issued\<close>

text \<open>What \<open>crypto/x509\<close> and the key generator are relied on for: they succeed, and a parsed
  certificate has the subject, the authority flag and the usages of its template and the subject
  of its parent as issuer. The organizations may come back in another order.\<close>

definition issued :: "Certificate \<Rightarrow> Certificate \<Rightarrow> Certificate \<Rightarrow> bool" where
  "issued t p c \<longleftrightarrow>
     nm_CommonName (crt_Subject c) = nm_CommonName (crt_Subject t) \<and>
     nm_CommonName (crt_Issuer c) = nm_CommonName (crt_Subject p) \<and>
     set (nm_Organization (crt_Subject c)) = set (nm_Organization (crt_Subject t)) \<and>
     crt_IsCA c = crt_IsCA t \<and> crt_ExtKeyUsage c = crt_ExtKeyUsage t"

definition crypto_works :: "('w, 'key) crypto \<Rightarrow> bool" where
  "crypto_works cr \<longleftrightarrow>
     returns (cr_NewPrivateKey cr) (\<lambda>_. True) \<and> returns (cr_Serial cr) (\<lambda>_. True) \<and> returns (cr_now cr) (\<lambda>_. True) \<and>
     (\<forall>t p a b. returns (cr_x509 cr t p a b) (issued t p))"

text \<open>One row of the certificate plan: the name of the files, whether it is an authority, the
  common names of issuer and subject, the groups and the usages.\<close>

record CertRow =
  row_File :: string
  row_IsCA :: bool
  row_Issuer :: string
  row_Subject :: string
  row_Groups :: "string list"
  row_Usages :: "ExtKeyUsage list"

definition ca_row :: "string \<Rightarrow> string \<Rightarrow> CertRow" where
  "ca_row f n = \<lparr>row_File = f, row_IsCA = True, row_Issuer = n, row_Subject = n, row_Groups = [], row_Usages = []\<rparr>"

definition leaf_row :: "string \<Rightarrow> string \<Rightarrow> string \<Rightarrow> string list \<Rightarrow> ExtKeyUsage list \<Rightarrow> CertRow" where
  "leaf_row f i n g u = \<lparr>row_File = f, row_IsCA = False, row_Issuer = i, row_Subject = n, row_Groups = g, row_Usages = u\<rparr>"

definition cert_plan :: "CertRow list" where
  "cert_plan =
     [ca_row ''etcd-clients-ca'' ''Etcd Clients'',
      leaf_row ''etcd-clients-apiserver'' ''Etcd Clients'' ''apiserver'' [] [ExtKeyUsageClientAuth],
      ca_row ''etcd-peers-ca'' ''Etcd Peers'',
      leaf_row ''etcd-peers-universal'' ''Etcd Peers'' ''universal'' [] [ExtKeyUsageClientAuth, ExtKeyUsageServerAuth],
      ca_row ''apiserver-clients-ca'' ''ApiServer Clients'',
      leaf_row ''apiserver-clients-system-kube-controller-manager'' ''ApiServer Clients'' ''system:kube-controller-manager'' [] [ExtKeyUsageClientAuth],
      leaf_row ''apiserver-clients-system-kube-scheduler'' ''ApiServer Clients'' ''system:kube-scheduler'' [] [ExtKeyUsageClientAuth],
      leaf_row ''apiserver-clients-system-kube-proxy'' ''ApiServer Clients'' ''system:kube-proxy'' [] [ExtKeyUsageClientAuth],
      leaf_row ''apiserver-clients-cluster-admin'' ''ApiServer Clients'' ''cluster-admin'' [''system:masters''] [ExtKeyUsageClientAuth],
      leaf_row ''apiserver-clients-kubernikus-wormhole'' ''ApiServer Clients'' ''kubernikus:wormhole'' [] [ExtKeyUsageClientAuth],
      ca_row ''apiserver-nodes-ca'' ''ApiServer Nodes'',
      leaf_row ''apiserver-nodes-universal'' ''ApiServer Nodes'' ''universal'' [''system:nodes''] [ExtKeyUsageClientAuth],
      ca_row ''kubelet-clients-ca'' ''Kubelet Clients'',
      leaf_row ''kubelet-clients-apiserver'' ''Kubelet Clients'' ''apiserver'' [] [ExtKeyUsageClientAuth],
      ca_row ''tls-ca'' ''TLS'',
      leaf_row ''tls-apiserver'' ''TLS'' ''apiserver'' [] [ExtKeyUsageServerAuth],
      leaf_row ''tls-wormhole'' ''TLS'' ''wormhole'' [] [ExtKeyUsageServerAuth]]"

definition cert_matches :: "CertRow \<Rightarrow> Certificate \<Rightarrow> bool" where
  "cert_matches r c \<longleftrightarrow> crt_IsCA c = row_IsCA r \<and> nm_CommonName (crt_Issuer c) = row_Issuer r \<and>
     nm_CommonName (crt_Subject c) = row_Subject r \<and> set (nm_Organization (crt_Subject c)) = set (row_Groups r) \<and>
     crt_ExtKeyUsage c = row_Usages r"

definition row_name :: "CertRow \<Rightarrow> string" where
  "row_name r = BaseName (ToLower ((if row_IsCA r then row_Subject r else row_Issuer r) @ ''-'' @
     (if row_IsCA r then ''ca'' else row_Subject r)))"

lemma cert_plan_names: "list_all (\<lambda>r. row_name r = row_File r) cert_plan"
  by code_simp

definition row_keys :: "CertRow \<Rightarrow> string list" where
  "row_keys r = [row_File r @ ''.pem'', row_File r @ ''-key.pem'']"

lemma cert_plan_distinct: "distinct (concat (map row_keys cert_plan))"
  by code_simp

lemma basename_row: "cert_matches r c \<Longrightarrow> basename c = row_name r"
  by (auto simp: basename_def cert_matches_def row_name_def)

text \<open>A bundle that is complete and matches a row.\<close>

definition bundle_matches :: "CertRow \<Rightarrow> 'key Bundle \<Rightarrow> bool" where
  "bundle_matches r b \<longleftrightarrow> (\<exists>c k. b = \<lparr>bnl_Certificate = Some c, bnl_PrivateKey = Some k\<rparr> \<and> cert_matches r c)"

lemma returns_or_nil: "returns m Q \<Longrightarrow> returns (or_nil m) (\<lambda>x. \<exists>y. x = Some y \<and> Q y)"
  unfolding returns_def or_nil_def by (metis ret_apply tryc_Ok)

lemma returns_nil_deref: "x = Some y \<Longrightarrow> Q y \<Longrightarrow> returns (nil_deref x) Q"
  by (simp add: nil_deref_def returns_ret)

lemma crypto_returns:
  assumes "crypto_works cr"
  shows "returns (or_nil (cr_NewPrivateKey cr)) (\<lambda>k. \<exists>y. k = Some y)"
    "returns (or_nil (cr_Serial cr)) (\<lambda>_. True)" "returns (cr_now cr) (\<lambda>_. True)"
    "returns (or_nil (cr_x509 cr t p a b)) (\<lambda>x. \<exists>c. x = Some c \<and> issued t p c)"
  using assms unfolding crypto_works_def
  by (auto intro: returns_weaken [OF returns_or_nil] returns_or_nil [of _ "issued t p"])

lemma createCA_returns:
  assumes "crypto_works cr"
  shows "returns (createCA cr kn name) (bundle_matches (ca_row f name))"
  unfolding createCA_def Let_def
  by (rule returns_bnd [OF crypto_returns(1) [OF assms]], rule returns_bnd [OF crypto_returns(3) [OF assms]])
    (auto intro!: returns_bnd [OF returns_nil_deref [where Q = "\<lambda>_. True"]] returns_bnd [OF crypto_returns(4) [OF assms]]
       returns_ret simp: bundle_matches_def cert_matches_def issued_def ca_row_def plain_Name_def)

lemma Sign_returns:
  assumes "crypto_works cr" "bundle_matches (ca_row f i) ca"
  shows "returns (Sign cr ca cfg)
    (bundle_matches (leaf_row f' i (cnf_Sign cfg) (cnf_Organization cfg) (cnf_Usages cfg)))"
proof -
  obtain c k where ca: "ca = \<lparr>bnl_Certificate = Some c, bnl_PrivateKey = Some k\<rparr>" and c: "cert_matches (ca_row f i) c"
    using assms(2) by (auto simp: bundle_matches_def)
  have isca: "crt_IsCA c" "nm_CommonName (crt_Subject c) = i" using c by (simp_all add: cert_matches_def ca_row_def)
  show ?thesis
    unfolding Sign_def Let_def ca
    by (rule returns_bnd [OF returns_nil_deref [where Q = "\<lambda>x. x = c"]])
      (auto simp: isca bundle_matches_def cert_matches_def issued_def leaf_row_def
        intro!: returns_bnd [OF crypto_returns(1) [OF assms(1)]] returns_bnd [OF crypto_returns(2) [OF assms(1)]]
          returns_bnd [OF crypto_returns(3) [OF assms(1)]] returns_bnd [OF returns_nil_deref [where Q = "\<lambda>_. True"]]
          returns_bnd [OF crypto_returns(4) [OF assms(1)]] returns_ret)
qed

lemmas sign_defs = signEtcdClient_def signEtcdPeer_def signApiServerClient_def signApiServerNode_def
  signKubeletClient_def signTLS_def

lemma bundle_matches_file:
  "f \<noteq> [] \<Longrightarrow> bundle_matches (ca_row f i) b \<longleftrightarrow> bundle_matches (ca_row [] i) b"
  "f \<noteq> [] \<Longrightarrow> bundle_matches (leaf_row f i n g u) b \<longleftrightarrow> bundle_matches (leaf_row [] i n g u) b"
  by (simp_all add: bundle_matches_def cert_matches_def ca_row_def leaf_row_def)

text \<open>The bundles of a kluster match the plan, row by row.\<close>

lemma sign_all_returns:
  assumes "crypto_works cr"
  shows "returns (sign_all cr kluster ip dm) (\<lambda>cs. list_all2 bundle_matches cert_plan (all_bundles cs))"
proof -
  note ca = returns_bnd [OF createCA_returns [OF assms, where f = "[]"]]
  note leaf = returns_bnd [OF Sign_returns [OF assms, where f = "[]" and f' = "[]"]]
  show ?thesis
    unfolding sign_all_def sign_defs
    by (rule ca)+ ((rule leaf, assumption)+,
        rule returns_ret, simp add: cert_plan_def all_bundles_def plain_Config_def bundle_matches_file)
qed

lemma bundle_map_apply:
  assumes "list_all2 bundle_matches rows bs"
  shows "\<exists>cks. length cks = length rows \<and> list_all2 (\<lambda>r ck. cert_matches r (fst ck)) rows cks \<and>
    bundle_map cr bs acc w = (Ok (rev (concat (map (\<lambda>(c, k).
       [(NameForCert c, cr_EncodeCertPEM cr c), (NameForKey c, cr_EncodePrivateKeyPEM cr k)]) cks)) @ acc), w)"
  using assms
proof (induction rows bs arbitrary: acc rule: list_all2_induct)
  case (Cons r rows b bs)
  obtain c k where b: "b = \<lparr>bnl_Certificate = Some c, bnl_PrivateKey = Some k\<rparr>" "cert_matches r c"
    using Cons.hyps(1) by (auto simp: bundle_matches_def)
  from Cons.IH [of "(NameForKey c, cr_EncodePrivateKeyPEM cr k) # (NameForCert c, cr_EncodeCertPEM cr c) # acc"]
  obtain cks where "length cks = length rows" "list_all2 (\<lambda>r ck. cert_matches r (fst ck)) rows cks"
    "bundle_map cr bs ((NameForKey c, cr_EncodePrivateKeyPEM cr k) # (NameForCert c, cr_EncodeCertPEM cr c) # acc) w =
      (Ok (rev (concat (map (\<lambda>(c, k).
       [(NameForCert c, cr_EncodeCertPEM cr c), (NameForKey c, cr_EncodePrivateKeyPEM cr k)]) cks)) @
        (NameForKey c, cr_EncodePrivateKeyPEM cr k) # (NameForCert c, cr_EncodeCertPEM cr c) # acc), w)" by blast
  with b show ?case by (intro exI [of _ "(c, k) # cks"]) (simp add: nil_deref_def)
qed simp

text \<open>The entries of certificates that match the rows of a plan.\<close>

definition cert_entries :: "('w, 'key) crypto \<Rightarrow> (Certificate \<times> 'key) list \<Rightarrow> (string \<times> string) list" where
  "cert_entries cr cks = concat (map (\<lambda>(c, k).
     [(NameForCert c, cr_EncodeCertPEM cr c), (NameForKey c, cr_EncodePrivateKeyPEM cr k)]) cks)"

lemma cert_entries_keys:
  assumes "list_all2 (\<lambda>r ck. cert_matches r (fst ck)) rows cks" "list_all (\<lambda>r. row_name r = row_File r) rows"
  shows "map fst (cert_entries cr cks) = concat (map row_keys rows)"
  using assms
  by (induction rows cks rule: list_all2_induct)
    (auto simp: cert_entries_def row_keys_def NameForCert_def NameForKey_def dest: basename_row)

lemma cert_entries_mem:
  assumes "list_all2 (\<lambda>r ck. cert_matches r (fst ck)) rows cks" "list_all (\<lambda>r. row_name r = row_File r) rows" "r \<in> set rows"
  shows "\<exists>c k. cert_matches r c \<and> (row_File r @ ''.pem'', cr_EncodeCertPEM cr c) \<in> set (cert_entries cr cks) \<and>
     (row_File r @ ''-key.pem'', cr_EncodePrivateKeyPEM cr k) \<in> set (cert_entries cr cks)"
  using assms
proof (induction rows cks rule: list_all2_induct)
  case (Cons r' rows ck cks)
  then show ?case
  proof (cases "r = r'")
    case True
    with Cons.hyps(1) Cons.prems(1) basename_row [of r' "fst ck"] show ?thesis
      by (auto simp: cert_entries_def NameForCert_def NameForKey_def split: prod.split
          intro!: exI [of _ "fst ck"] exI [of _ "snd ck"])
  next
    case False
    with Cons obtain c k where "cert_matches r c" "(row_File r @ ''.pem'', cr_EncodeCertPEM cr c) \<in> set (cert_entries cr cks)"
      "(row_File r @ ''-key.pem'', cr_EncodePrivateKeyPEM cr k) \<in> set (cert_entries cr cks)" by auto
    then show ?thesis by (intro exI [of _ c] exI [of _ k]) (auto simp: cert_entries_def)
  qed
qed simp

lemma CreateCertificates_result:
  assumes "crypto_works cr" "ApiServiceIP kluster = Ok ip"
  shows "\<exists>m w'. CreateCertificates cr kluster apiURL authURL dm w = (Ok m, w') \<and> length m = 34 \<and> distinct (map fst m) \<and>
    fst ` set m = (\<Union>r\<in>set cert_plan. {row_File r @ ''.pem'', row_File r @ ''-key.pem''}) \<and>
    (\<forall>r\<in>set cert_plan. \<exists>c k. cert_matches r c \<and>
       map_of m (row_File r @ ''.pem'') = Some (cr_EncodeCertPEM cr c) \<and>
       map_of m (row_File r @ ''-key.pem'') = Some (cr_EncodePrivateKeyPEM cr k))"
proof -
  obtain cs w1 where cs: "sign_all cr kluster ip dm w = (Ok cs, w1)" "list_all2 bundle_matches cert_plan (all_bundles cs)"
    using sign_all_returns [OF assms(1)] by (rule returnsE)
  obtain cks where cks: "list_all2 (\<lambda>r ck. cert_matches r (fst ck)) cert_plan cks"
    and m: "bundle_map cr (all_bundles cs) [] w1 = (Ok (rev (cert_entries cr cks)), w1)"
    using bundle_map_apply [OF cs(2), of cr "[]" w1] by (auto simp: cert_entries_def)
  let ?m = "rev (cert_entries cr cks)"
  have keys: "map fst (cert_entries cr cks) = concat (map row_keys cert_plan)"
    by (rule cert_entries_keys [OF cks cert_plan_names])
  then have d: "distinct (map fst ?m)" using cert_plan_distinct by (simp add: rev_map [symmetric])
  have "length ?m = length (map fst (cert_entries cr cks))" by simp
  also have "\<dots> = 34" unfolding keys by (simp add: cert_plan_def row_keys_def)
  finally have len: "length ?m = 34" .
  have "fst ` set ?m = set (map fst (cert_entries cr cks))" by simp
  also have "\<dots> = (\<Union>r\<in>set cert_plan. {row_File r @ ''.pem'', row_File r @ ''-key.pem''})"
    unfolding keys by (auto simp: row_keys_def)
  finally have dm: "fst ` set ?m = (\<Union>r\<in>set cert_plan. {row_File r @ ''.pem'', row_File r @ ''-key.pem''})" .
  have "\<forall>r\<in>set cert_plan. \<exists>c k. cert_matches r c \<and>
       map_of ?m (row_File r @ ''.pem'') = Some (cr_EncodeCertPEM cr c) \<and>
       map_of ?m (row_File r @ ''-key.pem'') = Some (cr_EncodePrivateKeyPEM cr k)"
    using cert_entries_mem [OF cks cert_plan_names, of _ cr] d by (metis map_of_is_SomeI set_rev)
  moreover have "CreateCertificates cr kluster apiURL authURL dm w = (Ok ?m, w1)"
    using assms(2) cs(1) m by (simp add: CreateCertificates_def toMap_def)
  ultimately show ?thesis using len d dm by blast
qed

text \<open>C36: The certificates of a kluster are those of the plan \<open>cert_plan\<close>. If keys and certificates
  can be generated and the service network has an address for the API server, the map of files
  has exactly two entries for each of the seventeen rows, a certificate and its key under the
  name of the row. The certificate has the authority flag, the issuer, the subject, the groups
  and the usages of the row: every certificate is signed by the authority of its own part, only
  the cluster administrator is in the group \<open>system:masters\<close>, and no two certificates overwrite
  each other's file.\<close>

theorem CreateCertificates_plan:
  assumes "crypto_works cr" "ApiServiceIP kluster = Ok ip"
  shows "\<exists>m w'. CreateCertificates cr kluster apiURL authURL dm w = (Ok m, w') \<and> length m = 34 \<and> distinct (map fst m) \<and>
    fst ` set m = (\<Union>r\<in>set cert_plan. {row_File r @ ''.pem'', row_File r @ ''-key.pem''}) \<and>
    (\<forall>r\<in>set cert_plan. \<exists>c k. cert_matches r c \<and>
       map_of m (row_File r @ ''.pem'') = Some (cr_EncodeCertPEM cr c) \<and>
       map_of m (row_File r @ ''-key.pem'') = Some (cr_EncodePrivateKeyPEM cr k))"
  by (rule CreateCertificates_result [OF assms])

text \<open>A certificate authority that hands out numbered keys and copies the template.\<close>

definition demo_crypto :: "(nat, nat) crypto" where
  "demo_crypto = \<lparr>cr_NewPrivateKey = (\<lambda>w. (Ok w, Suc w)), cr_Serial = ret 7, cr_now = ret 0,
     cr_x509 = (\<lambda>t p a b. ret (t\<lparr>crt_Issuer := crt_Subject p\<rparr>)), cr_EncodeCertPEM = (\<lambda>c. nm_CommonName (crt_Subject c)),
     cr_EncodePrivateKeyPEM = (\<lambda>k. nat_dec k), cr_ParseCertsPEM = (\<lambda>_. Ok []), cr_ParsePrivateKeyPEM = (\<lambda>_. Ok None)\<rparr>"

lemma demo_crypto_works: "crypto_works demo_crypto"
  by (simp add: crypto_works_def demo_crypto_def returns_def issued_def)

definition cert_kluster :: Kluster where
  "cert_kluster = \<lparr>k_Name = ''demo'', k_Namespace = ''kubernikus'', k_UID = ''1'', k_Labels = [], k_Annotations = [],
     k_CreationTimestamp = 0, k_Spec = zero_KlusterSpec\<lparr>spec_ServiceCIDR := ''198.18.128.0/17''\<rparr>,
     k_Status = zero_KlusterStatus\<rparr>"

lemma cert_kluster_ip: "ApiServiceIP cert_kluster = Ok (nat_bytes 3323101185)"
proof -
  have "spec_ServiceCIDR (k_Spec cert_kluster) = DEFAULT_SERVICE_CIDR"
    by (simp add: cert_kluster_def DEFAULT_SERVICE_CIDR_def)
  then show ?thesis
    using GetIndexedIP_net4 [OF demo_facts(5), of 1] by (simp add: ApiServiceIP_def demo_ParseCIDR)
qed

theorem CreateCertificates_plan_witness:
  "\<exists>m w' c. CreateCertificates demo_crypto cert_kluster ''https://api'' ''https://auth'' ''example.com'' 0 = (Ok m, w') \<and>
     length m = 34 \<and> cert_matches (hd cert_plan) c \<and>
     map_of m (row_File (hd cert_plan) @ ''.pem'') = Some (cr_EncodeCertPEM demo_crypto c)"
proof -
  have "hd cert_plan \<in> set cert_plan" by (simp add: cert_plan_def)
  with CreateCertificates_plan [OF demo_crypto_works cert_kluster_ip, of "''https://api''" "''https://auth''" "''example.com''" 0]
  show ?thesis by blast
qed

end
