(* ===== verification/Handlers.thy ===== *)
theory Handlers
  imports GoFmt Certificates KlusterStore
begin

text \<open>
  The handlers of the REST API (\<open>src/pkg/api/handlers\<close>). A handler is a program over the world of
  the Kubernetes API servers that ends with a response, a success with its payload or an error
  with its status code and message; a panic is the third outcome. The typed client of the
  custom resource, secrets, namespaces, events, the GitHub client and the YAML encoder are
  parameters. The request body has passed \<open>Kluster_Validate\<close> when a handler runs, which the
  generated server calls; the laws say where that is needed.
\<close>

section \<open>Requests and responses\<close>

record Principal =
  pr_Account :: string
  pr_AuthURL :: string
  pr_Domain :: string
  pr_ID :: string
  pr_Name :: string
  pr_Roles :: "string list"

definition Principal_Validate :: "Principal \<Rightarrow> validation_error option" where
  "Principal_Validate m = CompositeValidationError [if pr_Roles m = [] then None else None]"

text \<open>\<open>models.Error\<close> repeats the status code.\<close>

datatype 'a response = Success nat 'a | ErrorResponse int string int

definition error_response :: "int \<Rightarrow> string \<Rightarrow> 'a response" where
  "error_response code msg = ErrorResponse code msg code"

text \<open>\<open>NewErrorResponse(resp, code, err.Error())\<close>: the text of the error is the format.\<close>

definition NewErrorResponse :: "int \<Rightarrow> string \<Rightarrow> 'a response" where
  "NewErrorResponse code msg = error_response code (Sprintf0 msg)"

record KubeEvent =
  ke_First :: int
  ke_Last :: int
  ke_Message :: string
  ke_Reason :: string
  ke_Count :: int
  ke_Type :: string

record 'w Runtime =
  rt_Klusters :: "'w KlusterClient"
  rt_GetSecret :: "string \<Rightarrow> string \<Rightarrow> ('w, secret) go"
  rt_getNs :: "string \<Rightarrow> ('w, unit) go"
  rt_createNs :: "string \<Rightarrow> ('w, unit) go"
  rt_ListEvents :: "string \<Rightarrow> ('w, KubeEvent list) go"
  rt_Namespace :: string

section \<open>Names and selectors\<close>

definition DEFAULT_IMAGE :: string where "DEFAULT_IMAGE = ''coreos-stable-amd64''"

definition qualifiedName :: "string \<Rightarrow> string \<Rightarrow> string" where
  "qualifiedName name accountId = (if Contains name accountId then name else name @ ''-'' @ accountId)"

text \<open>\<open>labels.SelectorFromSet\<close>: a value that is not a valid label value gives the selector of
  everything, which prints as the empty text.\<close>

definition label_value_re :: "string \<Rightarrow> bool" where
  "label_value_re v \<longleftrightarrow> v = [] \<or>
     (is_alnum (hd v) \<and> is_alnum (last v) \<and>
      list_all (\<lambda>c. is_alnum c \<or> c = CHR ''-'' \<or> c = CHR ''_'' \<or> c = CHR ''.'') v)"

definition IsValidLabelValue :: "string \<Rightarrow> bool" where
  "IsValidLabelValue v \<longleftrightarrow> length v \<le> 63 \<and> label_value_re v"

definition accountSelector :: "Principal \<Rightarrow> string" where
  "accountSelector princ =
     (if IsValidLabelValue (pr_Account princ) then ''account='' @ pr_Account princ else [])"

definition klusterFromCRD :: "Kluster \<Rightarrow> ModelsKluster" where
  "klusterFromCRD k = \<lparr>mk_Name = spec_Name (k_Spec k), mk_Spec = k_Spec k, mk_Status = k_Status k\<rparr>"

definition editCluster ::
  "'w Runtime \<Rightarrow> Principal \<Rightarrow> string \<Rightarrow> (Kluster \<Rightarrow> Kluster) \<Rightarrow> ('w, Kluster) go" where
  "editCluster rt princ name updateFunc =
     bnd (kc_Get (rt_Klusters rt) (rt_Namespace rt) (qualifiedName name (pr_Account princ))) (\<lambda>kluster.
     kc_Update (rt_Klusters rt) (rt_Namespace rt) (updateFunc kluster))"

section \<open>Clusters\<close>

definition not_found_or_500 :: "goerr \<Rightarrow> 'a response" where
  "not_found_or_500 err =
     (if IsNotFound err then NewErrorResponse 404 ''Not found'' else NewErrorResponse 500 (Error err))"

text \<open>\<open>validate.UniqueItems\<close> compares whole pools; its error has code 610.\<close>

fun UniqueItems :: "NodePool list \<Rightarrow> NodePool list \<Rightarrow> bool" where
  "UniqueItems unique [] = True"
| "UniqueItems unique (v # vs) = (if v \<in> set unique then False else UniqueItems (unique @ [v]) vs)"

definition default_image :: "NodePool \<Rightarrow> NodePool" where
  "default_image p = (if np_Image p = [] then p\<lparr>np_Image := DEFAULT_IMAGE\<rparr> else p)"

definition new_kluster :: "string \<Rightarrow> Principal \<Rightarrow> Kluster \<Rightarrow> Kluster" where
  "new_kluster name princ k = k\<lparr>k_Name := qualifiedName name (pr_Account princ), k_Namespace := [],
     k_UID := [], k_Labels := [(''account'', pr_Account princ)], k_Annotations := [(''creator'', pr_Name princ)],
     k_CreationTimestamp := 0\<rparr>"

text \<open>The error of the factory is not looked at: the nil resource is dereferenced. The error of
  \<open>EnsureNamespace\<close> is dropped.\<close>

definition createCluster ::
  "string \<Rightarrow> 'w Runtime \<Rightarrow> ModelsKluster \<Rightarrow> Principal \<Rightarrow> ('w, ModelsKluster response) go" where
  "createCluster GitCommit rt body princ =
     (let name = mk_Name body; spec = mk_Spec body in
      if \<not> UniqueItems [] (spec_NodePools spec)
      then ret (NewErrorResponse 610 ''name in body shouldn't contain duplicates'')
      else
        let spec1 = spec\<lparr>spec_Name := name, spec_NodePools := map default_image (spec_NodePools spec)\<rparr> in
        (case KlusterFor GitCommit spec1 of
           Panics s \<Rightarrow> panic s
         | Fail e \<Rightarrow> panic ''invalid memory address or nil pointer dereference''
         | Ok k \<Rightarrow>
             bnd (ignore_err (EnsureNamespace (rt_getNs rt) (rt_createNs rt) (rt_Namespace rt))) (\<lambda>_.
             tryc (kc_Create (rt_Klusters rt) (rt_Namespace rt) (new_kluster name princ k))
               (\<lambda>err. ret (if IsAlreadyExists err
                    then error_response 409 (''Cluster with name '' @ name @ '' already exists'')
                    else NewErrorResponse 500 (Error err)))
               (\<lambda>kluster. ret (Success 201 (klusterFromCRD kluster))))))"

definition updateCluster ::
  "'w Runtime \<Rightarrow> string \<Rightarrow> ModelsKluster \<Rightarrow> Principal \<Rightarrow> ('w, ModelsKluster response) go" where
  "updateCluster rt name body princ =
     tryc (editCluster rt princ name (\<lambda>kluster. kluster\<lparr>k_Spec := (k_Spec kluster)
             \<lparr>spec_NodePools := map default_image (spec_NodePools (mk_Spec body))\<rparr>\<rparr>))
       (\<lambda>err. ret (not_found_or_500 err))
       (\<lambda>kluster. ret (Success 200 (klusterFromCRD kluster)))"

definition terminating :: "Kluster \<Rightarrow> Kluster" where
  "terminating kluster = kluster\<lparr>k_Status := (k_Status kluster)
     \<lparr>st_Phase := KlusterPhaseTerminating, st_Message := ''Cluster terminating''\<rparr>\<rparr>"

definition has_running_nodes :: "Kluster \<Rightarrow> bool" where
  "has_running_nodes k = list_ex (\<lambda>info. npi_Running info > 0) (st_NodePools (k_Status k))"

definition terminateCluster :: "'w Runtime \<Rightarrow> string \<Rightarrow> Principal \<Rightarrow> ('w, unit response) go" where
  "terminateCluster rt name princ =
     tryc (kc_Get (rt_Klusters rt) (rt_Namespace rt) (qualifiedName name (pr_Account princ)))
       (\<lambda>err. ret (not_found_or_500 err))
       (\<lambda>k. if has_running_nodes k then ret (NewErrorResponse 409 ''Cluster still has Nodes in a Pool'')
            else tryc (editCluster rt princ name terminating)
                   (\<lambda>err. ret (NewErrorResponse 500 (Error err)))
                   (\<lambda>_. ret (Success 202 ())))"

definition showCluster :: "'w Runtime \<Rightarrow> string \<Rightarrow> Principal \<Rightarrow> ('w, ModelsKluster response) go" where
  "showCluster rt name princ =
     tryc (kc_Get (rt_Klusters rt) (rt_Namespace rt) (qualifiedName name (pr_Account princ)))
       (\<lambda>err. ret (not_found_or_500 err))
       (\<lambda>kluster. ret (Success 200 (klusterFromCRD kluster)))"

definition listClusters :: "'w Runtime \<Rightarrow> Principal \<Rightarrow> ('w, ModelsKluster list response) go" where
  "listClusters rt princ =
     tryc (kc_List (rt_Klusters rt) (rt_Namespace rt) (accountSelector princ))
       (\<lambda>err. ret (NewErrorResponse 500 (Error err)))
       (\<lambda>klusterList. ret (Success 200 (map klusterFromCRD klusterList)))"

section \<open>Credentials\<close>

text \<open>The parts of the request that \<open>requestutil\<close> reads: the values of the forwarding headers, the
  host header and whether the connection is encrypted.\<close>

record HTTPRequest =
  req_Header :: "string \<Rightarrow> string list"
  req_Host :: string
  req_TLS :: bool

definition Header_Get :: "HTTPRequest \<Rightarrow> string \<Rightarrow> string" where
  "Header_Get req key = (case req_Header req key of [] \<Rightarrow> [] | v # _ \<Rightarrow> v)"

definition Scheme :: "HTTPRequest \<Rightarrow> string" where
  "Scheme req =
     (if Header_Get req ''X-Forwarded-Ssl'' = ''on'' then ''https''
      else if length (req_Header req ''X-Forwarded-Scheme'') > 0 then Header_Get req ''X-Forwarded-Scheme''
      else if length (req_Header req ''X-Forwarded-Proto'') > 0
        then hd (Split CHR '','' (Header_Get req ''X-Forwarded-Proto''))
      else if req_TLS req then ''https'' else ''http'')"

text \<open>Splitting at a comma and an optional space: every part but the first loses one leading
  white space character. White space in a regular expression does not include the vertical tab.\<close>

definition split_hosts :: "string \<Rightarrow> string list" where
  "split_hosts s =
     (case Split CHR '','' s of
        [] \<Rightarrow> []
      | h # hs \<Rightarrow> h # map (\<lambda>p. if p \<noteq> [] \<and> is_space (hd p) \<and> hd p \<noteq> CHR 0x0B then tl p else p) hs)"

definition HostWithPort :: "HTTPRequest \<Rightarrow> string" where
  "HostWithPort req =
     (case req_Header req ''X-Forwarded-Host'' of [] \<Rightarrow> req_Host req | v # _ \<Rightarrow> last (split_hosts v))"

definition credentials_config :: "HTTPRequest \<Rightarrow> Principal \<Rightarrow> Kluster \<Rightarrow> Config" where
  "credentials_config req princ kluster =
     \<lparr>cnf_Sign = pr_Name princ @ ''@'' @ pr_Domain princ,
      cnf_Organization = map (\<lambda>role. ''os:'' @ role) (pr_Roles princ), cnf_OrganizationalUnit = [],
      cnf_Province = [pr_AuthURL princ, os_ProjectID (spec_Openstack (k_Spec kluster))],
      cnf_Locality = [Scheme req @ ''://'' @ HostWithPort req],
      cnf_AltNames = \<lparr>alt_DNSNames = [], alt_IPs = []\<rparr>, cnf_Usages = [ExtKeyUsageClientAuth],
      cnf_ValidFor = 24 * hour\<rparr>"

text \<open>From the bundle of the clients' authority to the kubeconfig.\<close>

definition sign_credentials ::
  "('w, 'key) crypto \<Rightarrow> (KubeConfig \<Rightarrow> string outcome) \<Rightarrow> HTTPRequest \<Rightarrow> string \<Rightarrow> Principal \<Rightarrow> Kluster \<Rightarrow> 'key Bundle \<Rightarrow>
     string \<Rightarrow> ('w, string response) go" where
  "sign_credentials cr yaml_Marshal req name princ kluster bundle serverCACert =
     bnd (Sign cr bundle (credentials_config req princ kluster)) (\<lambda>cert.
     bnd (nil_deref (bnl_PrivateKey cert)) (\<lambda>key.
     bnd (nil_deref (bnl_Certificate cert)) (\<lambda>crt.
       case yaml_Marshal (NewClientConfigV1 name (pr_Name princ @ ''@'' @ name) (st_Apiserver (k_Status kluster))
              (cr_EncodePrivateKeyPEM cr key) (cr_EncodeCertPEM cr crt) serverCACert) of
         Ok kubeconfig \<Rightarrow> ret (Success 200 kubeconfig)
       | Fail err \<Rightarrow> ret (error_response 500 (''Failed to generate YAML document: '' @ Error err))
       | Panics s \<Rightarrow> panic s)))"

definition getClusterCredentials ::
  "('w, 'key) crypto \<Rightarrow> (KubeConfig \<Rightarrow> string outcome) \<Rightarrow> 'w Runtime \<Rightarrow> HTTPRequest \<Rightarrow> string \<Rightarrow> Principal \<Rightarrow>
     ('w, string response) go" where
  "getClusterCredentials cr yaml_Marshal rt req name princ =
     tryc (rt_GetSecret rt (rt_Namespace rt) (qualifiedName name (pr_Account princ)))
       (\<lambda>err. ret (not_found_or_500 err))
       (\<lambda>secret.
         tryc (kc_Get (rt_Klusters rt) (rt_Namespace rt) (qualifiedName name (pr_Account princ)))
           (\<lambda>err. ret (not_found_or_500 err))
           (\<lambda>kluster.
             case map_of secret ''apiserver-clients-ca-key.pem'' of
               None \<Rightarrow> ret (NewErrorResponse 500 ''Clients CA key not found'')
             | Some clientCAKey \<Rightarrow>
                 (case map_of secret ''apiserver-clients-ca.pem'' of
                    None \<Rightarrow> ret (NewErrorResponse 500 ''Clients CA certificate not found'')
                  | Some clientCACert \<Rightarrow>
                      (case map_of secret ''tls-ca.pem'' of
                         None \<Rightarrow> ret (NewErrorResponse 500 ''Server CA certificate not found'')
                       | Some serverCACert \<Rightarrow>
                           (case NewBundle cr clientCAKey clientCACert of
                              Fail err \<Rightarrow> ret (error_response 500 (''Failed to parse CA certificate: '' @ Error err))
                            | Panics s \<Rightarrow> panic s
                            | Ok bundle \<Rightarrow>
                                sign_credentials cr yaml_Marshal req name princ kluster bundle serverCACert)))))"

section \<open>Events and information\<close>

text \<open>A field selector escapes backslash, comma and equals sign in its values. Its two terms stand
  in the order in which the map of fields is iterated, which Go leaves open: \<open>nameFirst\<close>.\<close>

definition EscapeValue :: "string \<Rightarrow> string" where
  "EscapeValue s = concat (map (\<lambda>c. if c = CHR 0x5C \<or> c = CHR '','' \<or> c = CHR ''='' then [CHR 0x5C, c] else [c]) s)"

definition event_selector :: "bool \<Rightarrow> string \<Rightarrow> string \<Rightarrow> string" where
  "event_selector nameFirst klusterName ns =
     (let n = ''involvedObject.name='' @ EscapeValue klusterName; m = ''involvedObject.namespace='' @ EscapeValue ns
      in if nameFirst then n @ '','' @ m else m @ '','' @ n)"

definition getClusterEvents :: "bool \<Rightarrow> 'w Runtime \<Rightarrow> string \<Rightarrow> Principal \<Rightarrow> ('w, KubeEvent list response) go" where
  "getClusterEvents nameFirst rt name princ =
     tryc (rt_ListEvents rt (event_selector nameFirst (qualifiedName name (pr_Account princ)) (rt_Namespace rt)))
       (\<lambda>err. ret (NewErrorResponse 500 (Error err)))
       (\<lambda>kEvents. ret (Success 200 kEvents))"

record Link =
  ln_Link :: string
  ln_Platform :: string

record Asset =
  as_Name :: string
  as_DownloadURL :: string

record KlusterInfo =
  ki_SetupCommand :: string
  ki_Binaries :: "(string \<times> Link list) list"

text \<open>An answer of GitHub: its status code and status line, and the assets its body decodes to.\<close>

record GitHubResponse =
  gh_StatusCode :: int
  gh_Status :: string
  gh_Assets :: "Asset list outcome"

fun asset_links :: "Asset list \<Rightarrow> Link list" where
  "asset_links [] = []"
| "asset_links (a # assets) =
     (if Contains (as_Name a) ''darwin'' then \<lparr>ln_Link = as_DownloadURL a, ln_Platform = ''darwin''\<rparr> # asset_links assets
      else if Contains (as_Name a) ''linux'' then \<lparr>ln_Link = as_DownloadURL a, ln_Platform = ''linux''\<rparr> # asset_links assets
      else if Contains (as_Name a) ''windows'' then \<lparr>ln_Link = as_DownloadURL a, ln_Platform = ''windows''\<rparr> # asset_links assets
      else asset_links assets)"

text \<open>The handler keeps the links it has fetched, \<open>None\<close> as long as the slice is nil. The whole of
  \<open>getLinks\<close> runs under a mutex.\<close>

definition getLinks ::
  "string \<Rightarrow> string \<Rightarrow> (string \<Rightarrow> ('w, GitHubResponse) go) \<Rightarrow> string \<Rightarrow> ('w \<times> Link list option, Link list) go" where
  "getLinks VERSION GitCommit http_Get githubApiURL =
     bnd (client_get id) (\<lambda>cached.
       case cached of
         Some links \<Rightarrow> ret links
       | None \<Rightarrow>
           (let release = (if GitCommit \<noteq> ''HEAD'' then ''v'' @ VERSION @ ''+'' @ GitCommit else ''latest'')
            in tryc (svc (http_Get (githubApiURL @ ''/repos/sapcc/kubernikus/releases/tags/'' @ release)))
                 (\<lambda>err. fail (Errorf (''Failed to fetch release '' @ release @ '': '' @ Error err)))
                 (\<lambda>resp.
                   if gh_StatusCode resp \<ge> 400
                   then fail (Errorf (''Failed to fetch release '' @ release @ '': '' @ gh_Status resp))
                   else bnd (lift_outcome (gh_Assets resp)) (\<lambda>assets.
                     let links = asset_links assets
                     in if links = [] then fail (Errorf (''No downloads found for release '' @ release))
                        else bnd (client_set (\<lambda>_. Some links)) (\<lambda>_. ret links)))))"

definition createSetupCommand :: "Principal \<Rightarrow> string" where
  "createSetupCommand princ =
     ''kubernikusctl auth init --username '' @ pr_Name princ @ '' --user-domain-name '' @ pr_Domain princ
     @ '' --project-id '' @ pr_Account princ @ '' --auth-url '' @ pr_AuthURL princ"

definition getClusterInfo ::
  "string \<Rightarrow> string \<Rightarrow> (string \<Rightarrow> ('w, GitHubResponse) go) \<Rightarrow> string \<Rightarrow> Principal \<Rightarrow>
     ('w \<times> Link list option, KlusterInfo response) go" where
  "getClusterInfo VERSION GitCommit http_Get githubApiURL princ =
     tryc (getLinks VERSION GitCommit http_Get githubApiURL)
       (\<lambda>err. ret (NewErrorResponse 500 (Error err)))
       (\<lambda>links. ret (Success 200 \<lparr>ki_SetupCommand = createSetupCommand princ,
          ki_Binaries = [(''kubernikusctl'', links)]\<rparr>))"

definition info :: "string \<Rightarrow> string response" where
  "info GitCommit = Success 200 GitCommit"

definition listAPIVersions :: "string list response" where
  "listAPIVersions = Success 200 [''v1'']"

text \<open>The handler of the root path: a redirect for browsers, the list of paths for others, and the
  next handler for every other path.\<close>

datatype root_response = Redirect string int | Content string | Next

definition RootContent :: string where
  "RootContent = ''{'' @ nl @ ''  '' @ [CHR 0x22] @ ''paths'' @ [CHR 0x22] @ '': ['' @ nl
     @ concat (map (\<lambda>(p, s). ''    '' @ [CHR 0x22] @ p @ [CHR 0x22] @ s @ nl)
         [(''/api'', '',''), (''/api/v1'', '',''), (''/docs'', '',''), (''/swagger'', [])])
     @ ''  ]'' @ nl @ ''}''"

definition RootHandler :: "string \<Rightarrow> string \<Rightarrow> root_response" where
  "RootHandler urlPath accept =
     (if urlPath = ''/'' then
        (if list_ex (\<lambda>a. TrimSpace a = ''text/html'') (Split CHR '','' accept) then Redirect ''/docs'' 301
         else Content RootContent)
      else Next)"

end
