(* ===== verification/HandlersLaws.thy ===== *)
theory HandlersLaws
  imports Handlers
begin

text \<open>
  What the handlers of the API promise: which resources a principal can reach, how a cluster is
  created, shown and terminated, what its credentials are good for, and the cache of the download
  links.
\<close>

section \<open>Names\<close>

text \<open>A text without a separator lies on one side of it.\<close>

lemma sublist_around_sep:
  assumes "sublist b (n @ c # a)" "c \<notin> set b"
  shows "sublist b n \<or> sublist b a"
  using assms by (auto simp: sublist_append sublist_Cons_right prefix_Cons suffix_imp_sublist prefix_imp_sublist)

lemma sublist_same_length: "sublist b a \<Longrightarrow> length b = length a \<Longrightarrow> b = a"
  by (auto simp: sublist_def)

text \<open>The identifiers of two accounts: different, equally long and without a dash.\<close>

definition account_ids :: "string \<Rightarrow> string \<Rightarrow> bool" where
  "account_ids a b \<longleftrightarrow> a \<noteq> b \<and> length a = length b \<and> CHR ''-'' \<notin> set a \<and> CHR ''-'' \<notin> set b"

lemma qualifiedName_contains: "Contains (qualifiedName name account) account"
  by (auto simp: qualifiedName_def Contains_def sublist_append sublist_Cons_right)

lemma qualifiedName_idem [simp]: "qualifiedName (qualifiedName name account) account = qualifiedName name account"
  using qualifiedName_contains [of name account] by (auto simp: qualifiedName_def [of "qualifiedName name account"])

lemma Contains_qualifiedName:
  assumes "account_ids a b"
  shows "Contains (qualifiedName n a) b \<longleftrightarrow> Contains n b"
proof -
  have "\<not> sublist b a" using assms sublist_same_length [of b a] by (auto simp: account_ids_def)
  then have "sublist b (n @ ''-'' @ a) \<longleftrightarrow> sublist b n"
    using sublist_around_sep [of b n "CHR ''-''" a] assms
    by (auto simp: account_ids_def intro: sublist_order.order_trans)
  then show ?thesis by (simp add: qualifiedName_def Contains_def)
qed

lemma qualifiedName_reaches:
  assumes "account_ids a b"
  shows "(\<exists>req. qualifiedName req b = qualifiedName n a) \<longleftrightarrow> Contains n b"
proof
  assume "\<exists>req. qualifiedName req b = qualifiedName n a"
  then show "Contains n b" using qualifiedName_contains [of _ b] Contains_qualifiedName [OF assms, of n] by metis
next
  assume "Contains n b"
  then have "Contains (qualifiedName n a) b" using Contains_qualifiedName [OF assms] by simp
  then show "\<exists>req. qualifiedName req b = qualifiedName n a" by (auto simp: qualifiedName_def [of _ b])
qed

section \<open>Which resources a request changes\<close>

text \<open>Namespaces are not custom resources.\<close>

definition api_frame :: "'w Runtime \<Rightarrow> ('w \<Rightarrow> kluster_store) \<Rightarrow> bool" where
  "api_frame rt st \<longleftrightarrow> (\<forall>ns. leaves st (rt_getNs rt ns)) \<and> (\<forall>ns. leaves st (rt_createNs rt ns))"

text \<open>Two stores agree on every resource whose name does not contain the account.\<close>

definition agree_outside :: "string \<Rightarrow> string \<Rightarrow> kluster_store \<Rightarrow> kluster_store \<Rightarrow> bool" where
  "agree_outside ns account m m' \<longleftrightarrow> (\<forall>ns' n. ns' \<noteq> ns \<or> \<not> Contains n account \<longrightarrow> m' (ns', n) = m (ns', n))"

lemma agree_outside_refl [simp]: "agree_outside ns account m m"
  by (simp add: agree_outside_def)

lemma agree_outside_upd:
  "agree_outside ns account m m' \<Longrightarrow> Contains n account \<Longrightarrow> agree_outside ns account m (m'((ns, n) \<mapsto> k))"
  by (auto simp: agree_outside_def)

lemma keeps_EnsureNamespace:
  assumes "api_frame rt st"
  shows "keeps (\<lambda>w. Q (st w)) (EnsureNamespace (rt_getNs rt) (rt_createNs rt) ns)"
proof -
  have "keeps (\<lambda>w. Q (st w)) (rt_getNs rt ns)" "keeps (\<lambda>w. Q (st w)) (rt_createNs rt ns)"
    using assms by (simp_all add: api_frame_def leaves_keeps)
  then show ?thesis unfolding EnsureNamespace_def by (intro keeps_intro)
qed

lemma Create_triple:
  assumes "kluster_create_api kc st"
  shows "triple (\<lambda>w. Q (st w)) (kc_Create kc ns k)
     (\<lambda>k' w. \<exists>m. Q m \<and> m (ns, k_Name k) = None \<and> st w = m((ns, k_Name k) \<mapsto> k') \<and> k_Name k' = k_Name k \<and> k_Namespace k' = ns \<and>
        k_Labels k' = k_Labels k \<and> k_Annotations k' = k_Annotations k \<and> k_Spec k' = k_Spec k \<and> k_Status k' = k_Status k)
     (\<lambda>w. Q (st w))"
proof -
  have "case r of
           Ok k' \<Rightarrow> st w (ns, k_Name k) = None \<and> st w' = (st w)((ns, k_Name k) \<mapsto> k') \<and>
             k_Name k' = k_Name k \<and> k_Namespace k' = ns \<and> k_Labels k' = k_Labels k \<and>
             k_Annotations k' = k_Annotations k \<and> k_Spec k' = k_Spec k \<and> k_Status k' = k_Status k
         | _ \<Rightarrow> st w' = st w" if "kc_Create kc ns k w = (r, w')" for w r w'
    using assms that unfolding kluster_create_api_def by blast
  then show ?thesis by (intro tripleI) fastforce+
qed

text \<open>An edit replaces the resource it has read, or changes nothing.\<close>

lemma editCluster_triple:
  assumes "kluster_api (rt_Klusters rt) st" and nm: "\<And>k. k_Name (f k) = k_Name k"
  shows "triple (\<lambda>w. st w = m) (editCluster rt princ name f)
     (\<lambda>_ w. \<exists>k. m (rt_Namespace rt, qualifiedName name (pr_Account princ)) = Some k \<and>
        st w = m((rt_Namespace rt, qualifiedName name (pr_Account princ)) \<mapsto> f k)) (\<lambda>w. st w = m)"
  unfolding editCluster_def
proof (rule triple_bnd [OF Get_triple [OF assms(1), where Q = "\<lambda>s. s = m"]])
  fix k
  let ?q = "qualifiedName name (pr_Account princ)"
  show "triple (\<lambda>w. st w = m \<and> st w (rt_Namespace rt, ?q) = Some k \<and> k_Name k = ?q \<and> k_Namespace k = rt_Namespace rt)
      (kc_Update (rt_Klusters rt) (rt_Namespace rt) (f k))
      (\<lambda>_ w. \<exists>k. m (rt_Namespace rt, ?q) = Some k \<and> st w = m((rt_Namespace rt, ?q) \<mapsto> f k)) (\<lambda>w. st w = m)"
    by (rule triple_conseq [OF Update_triple [OF assms(1), where Q = "\<lambda>s. s = m" and
          R = "\<lambda>s. \<exists>k. m (rt_Namespace rt, ?q) = Some k \<and> s = m((rt_Namespace rt, ?q) \<mapsto> f k)"]])
      (auto simp: nm)
qed

text \<open>What each of the three writing handlers does to the store: the error answers leave it alone.\<close>

lemma createCluster_store:
  assumes "kluster_create_api (rt_Klusters rt) st" "api_frame rt st"
  shows "triple (\<lambda>w. st w = m) (createCluster commit rt body princ)
     (\<lambda>r w. case r of
        Success code mk \<Rightarrow> \<exists>k k'. KlusterFor commit ((mk_Spec body)\<lparr>spec_Name := mk_Name body,
             spec_NodePools := map default_image (spec_NodePools (mk_Spec body))\<rparr>) = Ok k \<and> code = 201 \<and>
           mk = klusterFromCRD k' \<and> m (rt_Namespace rt, qualifiedName (mk_Name body) (pr_Account princ)) = None \<and>
           st w = m((rt_Namespace rt, qualifiedName (mk_Name body) (pr_Account princ)) \<mapsto> k') \<and>
           k_Name k' = qualifiedName (mk_Name body) (pr_Account princ) \<and> k_Namespace k' = rt_Namespace rt \<and>
           k_Labels k' = [(''account'', pr_Account princ)] \<and> k_Annotations k' = [(''creator'', pr_Name princ)] \<and>
           k_Spec k' = k_Spec k \<and> k_Status k' = k_Status k
      | ErrorResponse a b c \<Rightarrow> st w = m)
     (\<lambda>w. st w = m)"
proof -
  have ns: "triple (\<lambda>w. st w = m) (ignore_err (EnsureNamespace (rt_getNs rt) (rt_createNs rt) ns)) (\<lambda>_ w. st w = m) (\<lambda>w. st w = m)" for ns
    by (rule triple_ignore_err [OF triple_keeps [OF keeps_EnsureNamespace [OF assms(2)]]])
  have panics: "triple (\<lambda>w. st w = m) (panic s) Q (\<lambda>w. st w = m)" for s Q
    by (simp add: triple_def)
  note create = Create_triple [OF assms(1), where Q = "\<lambda>s. s = m"]
  show ?thesis
    unfolding createCluster_def Let_def
    by (intro triple_if)
      (auto split: outcome.split intro!: triple_ret panics triple_bnd [OF ns] triple_tryc [OF create]
        simp: NewErrorResponse_def error_response_def new_kluster_def)
qed

lemma updateCluster_store:
  assumes "kluster_api (rt_Klusters rt) st"
  shows "triple (\<lambda>w. st w = m) (updateCluster rt name body princ)
     (\<lambda>r w. case r of
        Success code mk \<Rightarrow> \<exists>k. m (rt_Namespace rt, qualifiedName name (pr_Account princ)) = Some k \<and>
           st w = m((rt_Namespace rt, qualifiedName name (pr_Account princ)) \<mapsto> k\<lparr>k_Spec := (k_Spec k)
             \<lparr>spec_NodePools := map default_image (spec_NodePools (mk_Spec body))\<rparr>\<rparr>)
      | ErrorResponse a b c \<Rightarrow> st w = m)
     (\<lambda>w. st w = m)"
  unfolding updateCluster_def
  by (rule triple_tryc [OF editCluster_triple [OF assms]])
    (auto intro!: triple_ret simp: not_found_or_500_def NewErrorResponse_def error_response_def)

lemma terminateCluster_store:
  assumes "kluster_api (rt_Klusters rt) st"
  shows "triple (\<lambda>w. st w = m) (terminateCluster rt name princ)
     (\<lambda>r w. case r of
        Success code _ \<Rightarrow> \<exists>k. m (rt_Namespace rt, qualifiedName name (pr_Account princ)) = Some k \<and> \<not> has_running_nodes k \<and>
           code = 202 \<and> st w = m((rt_Namespace rt, qualifiedName name (pr_Account princ)) \<mapsto> terminating k)
      | ErrorResponse a b c \<Rightarrow> st w = m)
     (\<lambda>w. st w = m)"
  unfolding terminateCluster_def
proof (rule triple_tryc [OF Get_triple [OF assms, where Q = "\<lambda>s. s = m"]], goal_cases)
  case (1 e)
  show ?case by (auto intro!: triple_ret simp: not_found_or_500_def NewErrorResponse_def error_response_def)
next
  case (2 k)
  let ?q = "(rt_Namespace rt, qualifiedName name (pr_Account princ))"
  have edit: "triple (\<lambda>w. st w = m \<and> m ?q = Some k) (editCluster rt princ name terminating)
      (\<lambda>_ w. m ?q = Some k \<and> st w = m(?q \<mapsto> terminating k)) (\<lambda>w. st w = m)"
  proof (cases "m ?q = Some k")
    case True
    then show ?thesis
      by (intro triple_conseq [OF editCluster_triple [OF assms, of terminating m princ name]])
        (auto simp: terminating_def)
  qed (simp add: triple_def)
  show ?case
    by (intro triple_if triple_tryc [OF triple_pre [OF edit]])
      (auto intro!: triple_ret simp: NewErrorResponse_def error_response_def)
qed simp

lemma store_agree:
  assumes "triple (\<lambda>w. st w = m) h (\<lambda>r w. case r of Success c x \<Rightarrow> S c x w | ErrorResponse a b c \<Rightarrow> st w = m) (\<lambda>w. st w = m)"
    and "\<And>c x w. S c x w \<Longrightarrow> agree_outside ns account m (st w)"
    and "st w = m"
  shows "agree_outside ns account m (st (snd (h w)))"
proof -
  obtain r w' where h: "h w = (r, w')" by (cases "h w")
  show ?thesis
  proof (cases r)
    case (Ok x)
    with tripleD(1) [OF assms(1,3)] h assms(2) show ?thesis by (cases x) fastforce+
  qed (use h tripleD(2,3) [OF assms(1,3)] in auto)
qed

lemma handlers_agree:
  assumes "kluster_api (rt_Klusters rt) st" "kluster_create_api (rt_Klusters rt) st" "api_frame rt st"
  shows "agree_outside (rt_Namespace rt) (pr_Account princ) (st w) (st (snd (createCluster commit rt body princ w)))"
    "agree_outside (rt_Namespace rt) (pr_Account princ) (st w) (st (snd (updateCluster rt name body princ w)))"
    "agree_outside (rt_Namespace rt) (pr_Account princ) (st w) (st (snd (terminateCluster rt name princ w)))"
proof -
  show "agree_outside (rt_Namespace rt) (pr_Account princ) (st w) (st (snd (createCluster commit rt body princ w)))"
    by (rule store_agree [OF createCluster_store [OF assms(2,3)]]) (auto simp: agree_outside_def qualifiedName_contains)
  show "agree_outside (rt_Namespace rt) (pr_Account princ) (st w) (st (snd (updateCluster rt name body princ w)))"
    by (rule store_agree [OF updateCluster_store [OF assms(1)]]) (auto simp: agree_outside_def qualifiedName_contains)
  show "agree_outside (rt_Namespace rt) (pr_Account princ) (st w) (st (snd (terminateCluster rt name princ w)))"
    by (rule store_agree [OF terminateCluster_store [OF assms(1)]]) (auto simp: agree_outside_def qualifiedName_contains)
qed

text \<open>C30: The isolation of accounts rests on names alone, and on one condition. For two accounts
  with different identifiers of equal length and without a dash, some request of the second
  account reaches the cluster \<open>n\<close> of the first exactly if \<open>n\<close> contains the second account's
  identifier. No create, update or terminate request of the second account changes any other
  cluster of the first.\<close>

theorem account_isolation:
  assumes "kluster_api (rt_Klusters rt) st" "kluster_create_api (rt_Klusters rt) st" "api_frame rt st"
    "account_ids a (pr_Account princ)"
    "w' \<in> {snd (createCluster commit rt body princ w), snd (updateCluster rt name body princ w),
            snd (terminateCluster rt name princ w)}"
  shows "((\<exists>req. qualifiedName req (pr_Account princ) = qualifiedName n a) \<longleftrightarrow> Contains n (pr_Account princ)) \<and>
    (\<not> Contains n (pr_Account princ) \<longrightarrow> st w' (rt_Namespace rt, qualifiedName n a) = st w (rt_Namespace rt, qualifiedName n a))"
proof -
  have "agree_outside (rt_Namespace rt) (pr_Account princ) (st w) (st w')"
    using handlers_agree [OF assms(1-3)] assms(5) by auto
  then show ?thesis
    using qualifiedName_reaches [OF assms(4)] Contains_qualifiedName [OF assms(4)] by (simp add: agree_outside_def)
qed

definition demo_runtime :: "kluster_store Runtime" where
  "demo_runtime = \<lparr>rt_Klusters = stored_klusters, rt_GetSecret = \<lambda>ns n. fail (ApiNotFound n), rt_getNs = \<lambda>_. ret (),
     rt_createNs = \<lambda>_. ret (), rt_ListEvents = \<lambda>_. ret [], rt_Namespace = ''kubernikus''\<rparr>"

definition demo_principal :: Principal where
  "demo_principal = \<lparr>pr_Account = ''b42'', pr_AuthURL = ''https://keystone/v3'', pr_Domain = ''ccadmin'', pr_ID = ''u1'',
     pr_Name = ''eve'', pr_Roles = [''kubernetes_admin'']\<rparr>"

lemma demo_runtime_laws:
  "kluster_api (rt_Klusters demo_runtime) id" "kluster_create_api (rt_Klusters demo_runtime) id" "api_frame demo_runtime id"
  using stored_klusters_api by (simp_all add: demo_runtime_def api_frame_def leaves_def)

theorem account_isolation_witness:
  "(\<exists>req. qualifiedName req ''b42'' = qualifiedName ''x-b42'' ''a17'') \<and>
   snd (terminateCluster demo_runtime ''prod-a17'' demo_principal [(''kubernikus'', ''prod-a17'') \<mapsto> cert_kluster])
     (''kubernikus'', qualifiedName ''prod'' ''a17'') = Some cert_kluster"
proof -
  have q: "qualifiedName ''prod'' ''a17'' = ''prod-a17''" "Contains ''x-b42'' ''b42''" "\<not> Contains ''prod'' ''b42''"
    by code_simp+
  have ids: "account_ids ''a17'' (pr_Account demo_principal)"
    by (simp add: account_ids_def demo_principal_def)
  let ?w = "[(''kubernikus'', ''prod-a17'') \<mapsto> cert_kluster]"
  let ?body = "\<lparr>mk_Name = [], mk_Spec = zero_KlusterSpec, mk_Status = zero_KlusterStatus\<rparr>"
  have mem: "snd (terminateCluster demo_runtime ''prod-a17'' demo_principal ?w) \<in>
      {snd (createCluster [] demo_runtime ?body demo_principal ?w), snd (updateCluster demo_runtime ''prod-a17'' ?body demo_principal ?w),
       snd (terminateCluster demo_runtime ''prod-a17'' demo_principal ?w)}" by simp
  note iso = account_isolation [OF demo_runtime_laws ids mem]
  have acc: "pr_Account demo_principal = ''b42''" "rt_Namespace demo_runtime = ''kubernikus''"
    by (simp_all add: demo_principal_def demo_runtime_def)
  from iso [of "''x-b42''"] iso [of "''prod''"] q show ?thesis by (simp add: acc)
qed

section \<open>Answers of the handlers when the API server is up\<close>

text \<open>The server is up: \<open>Get\<close> returns what is stored, \<open>Update\<close> of a stored resource succeeds.\<close>

definition keyed :: "kluster_store \<Rightarrow> bool" where
  "keyed m \<longleftrightarrow> (\<forall>ns n k. m (ns, n) = Some k \<longrightarrow> k_Name k = n \<and> k_Namespace k = ns)"

locale kluster_up =
  fixes kc :: "'w KlusterClient" and st :: "'w \<Rightarrow> kluster_store"
  assumes Get_answers: "keyed (st w) \<Longrightarrow>
      \<exists>w'. kc_Get kc ns n w = ((case st w (ns, n) of Some k \<Rightarrow> Ok k | None \<Rightarrow> Fail (ApiNotFound n)), w') \<and> st w' = st w"
    and Update_answers: "keyed (st w) \<Longrightarrow> st w (ns, k_Name k) \<noteq> None \<Longrightarrow>
      \<exists>w'. kc_Update kc ns k w = (Ok k, w') \<and> st w' = (st w)((ns, k_Name k) \<mapsto> k)"
begin

text \<open>A resource is read and written back under its own name.\<close>

lemma edit_stored:
  assumes "keyed (st w)" "st w (ns, n) = Some k" "k_Name k2 = k_Name k"
  obtains w1 w2 where "kc_Get kc ns n w = (Ok k, w1)" "st w1 = st w"
    "kc_Update kc ns k2 w1 = (Ok k2, w2)" "st w2 = (st w)((ns, n) \<mapsto> k2)"
proof -
  have n: "k_Name k2 = n" using assms by (simp add: keyed_def)
  obtain w1 where w1: "kc_Get kc ns n w = (Ok k, w1)" "st w1 = st w"
    using Get_answers [OF assms(1), of ns n] assms(2) by auto
  then obtain w2 where "kc_Update kc ns k2 w1 = (Ok k2, w2)" "st w2 = (st w)((ns, n) \<mapsto> k2)"
    using Update_answers [of w1 ns k2] assms(1,2) n by auto
  with w1 show ?thesis by (rule that)
qed

end

interpretation stored: kluster_up stored_klusters id
  by unfold_locales (auto simp: stored_klusters_def keyed_def split: option.split)

lemmas stored_klusters_up = stored.kluster_up_axioms

lemmas kluster_upD = kluster_up.Get_answers kluster_up.Update_answers

lemma editCluster_up:
  assumes "kluster_up (rt_Klusters rt) st" "keyed (st w)" "\<And>k. k_Name (f k) = k_Name k"
  shows "\<exists>w'. editCluster rt princ name f w =
     ((case st w (rt_Namespace rt, qualifiedName name (pr_Account princ)) of
         Some k \<Rightarrow> Ok (f k) | None \<Rightarrow> Fail (ApiNotFound (qualifiedName name (pr_Account princ)))), w') \<and>
     st w' = (case st w (rt_Namespace rt, qualifiedName name (pr_Account princ)) of
         Some k \<Rightarrow> (st w)((rt_Namespace rt, qualifiedName name (pr_Account princ)) \<mapsto> f k) | None \<Rightarrow> st w)"
proof -
  let ?q = "qualifiedName name (pr_Account princ)"
  show ?thesis
  proof (cases "st w (rt_Namespace rt, ?q)")
    case None
    with kluster_upD(1) [OF assms(1,2), of "rt_Namespace rt" ?q] show ?thesis by (auto simp: editCluster_def)
  next
    case (Some k)
    from kluster_up.edit_stored [OF assms(1,2) Some assms(3)]
    obtain w1 w2 where "kc_Get (rt_Klusters rt) (rt_Namespace rt) ?q w = (Ok k, w1)"
      "kc_Update (rt_Klusters rt) (rt_Namespace rt) (f k) w1 = (Ok (f k), w2)" "st w2 = (st w)((rt_Namespace rt, ?q) \<mapsto> f k)" .
    with Some show ?thesis by (simp add: editCluster_def)
  qed
qed

lemma response_texts [simp]:
  "Sprintf0 ''Not found'' = ''Not found''"
  "Sprintf0 ''Cluster still has Nodes in a Pool'' = ''Cluster still has Nodes in a Pool''"
  "Sprintf0 ''name in body shouldn't contain duplicates'' = ''name in body shouldn't contain duplicates''"
  by (simp_all add: Sprintf0_plain)

lemma terminateCluster_up:
  assumes "kluster_up (rt_Klusters rt) st" "keyed (st w)"
  shows "\<exists>w'. terminateCluster rt name princ w =
     (Ok (case st w (rt_Namespace rt, qualifiedName name (pr_Account princ)) of
            None \<Rightarrow> ErrorResponse 404 ''Not found'' 404
          | Some k \<Rightarrow> if \<exists>p\<in>set (st_NodePools (k_Status k)). npi_Running p > 0
                      then ErrorResponse 409 ''Cluster still has Nodes in a Pool'' 409 else Success 202 ()), w') \<and>
     st w' = (case st w (rt_Namespace rt, qualifiedName name (pr_Account princ)) of
            None \<Rightarrow> st w
          | Some k \<Rightarrow> if \<exists>p\<in>set (st_NodePools (k_Status k)). npi_Running p > 0 then st w
                      else (st w)((rt_Namespace rt, qualifiedName name (pr_Account princ)) \<mapsto>
                        k\<lparr>k_Status := (k_Status k)\<lparr>st_Phase := KlusterPhaseTerminating,
                            st_Message := ''Cluster terminating''\<rparr>\<rparr>))"
proof -
  let ?q = "qualifiedName name (pr_Account princ)"
  obtain w1 where g: "kc_Get (rt_Klusters rt) (rt_Namespace rt) ?q w =
      ((case st w (rt_Namespace rt, ?q) of Some k \<Rightarrow> Ok k | None \<Rightarrow> Fail (ApiNotFound ?q)), w1)" "st w1 = st w"
    using kluster_upD(1) [OF assms] by blast
  show ?thesis
  proof (cases "st w (rt_Namespace rt, ?q)")
    case None
    with g show ?thesis
      by (simp add: terminateCluster_def not_found_or_500_def NewErrorResponse_def error_response_def)
  next
    case (Some k)
    obtain w2 where "editCluster rt princ name terminating w1 = (Ok (terminating k), w2)"
      "st w2 = (st w)((rt_Namespace rt, ?q) \<mapsto> terminating k)"
      using editCluster_up [OF assms(1), of w1 terminating princ name] assms(2) g Some
      by (auto simp: terminating_def)
    with g Some show ?thesis
      by (auto simp: terminateCluster_def NewErrorResponse_def error_response_def has_running_nodes_def
          list_ex_iff terminating_def)
  qed
qed


definition busy_kluster :: Kluster where
  "busy_kluster = cert_kluster\<lparr>k_Status := zero_KlusterStatus\<lparr>st_Phase := KlusterPhaseRunning, st_NodePools :=
     [\<lparr>npi_Healthy = 1, npi_Name = ''small'', npi_Running = 1, npi_Schedulable = 1, npi_Size = 1\<rparr>]\<rparr>\<rparr>"

lemma demo_keyed: "keyed [(''kubernikus'', ''demo'') \<mapsto> k] \<longleftrightarrow> k_Name k = ''demo'' \<and> k_Namespace k = ''kubernikus''"
  by (auto simp: keyed_def)

definition demo_account :: Principal where
  "demo_account = demo_principal\<lparr>pr_Account := ''demo''\<rparr>"

lemma demo_account_facts:
  "qualifiedName ''demo'' (pr_Account demo_account) = ''demo''" "rt_Namespace demo_runtime = ''kubernikus''"
  "kluster_up (rt_Klusters demo_runtime) id"
  using stored_klusters_up
  by (simp_all add: demo_account_def demo_principal_def qualifiedName_def Contains_def demo_runtime_def)


section \<open>Creating a cluster\<close>

text \<open>The spec the handler gives to the factory.\<close>

definition request_spec :: "ModelsKluster \<Rightarrow> KlusterSpec" where
  "request_spec body = (mk_Spec body)\<lparr>spec_Name := mk_Name body,
     spec_NodePools := map default_image (spec_NodePools (mk_Spec body))\<rparr>"

lemma UniqueItems_iff: "distinct unique \<Longrightarrow> UniqueItems unique vs \<longleftrightarrow> distinct (unique @ vs)"
  by (induction unique vs rule: UniqueItems.induct) auto

lemma UniqueItems_Nil [simp]: "UniqueItems [] vs \<longleftrightarrow> distinct vs"
  by (simp add: UniqueItems_iff)

lemma request_spec_validate:
  "KlusterSpec_Validate (request_spec body) = KlusterSpec_Validate (mk_Spec body)"
  by (simp add: request_spec_def KlusterSpec_Validate_def KlusterSpec_validateClusterCIDR_def KlusterSpec_validateNodePools_def
      KlusterSpec_validateOpenstack_def KlusterSpec_validateServiceCIDR_def)

lemma request_service_cidr: "service_cidr (request_spec body) = service_cidr (mk_Spec body)"
  by (simp add: request_spec_def service_cidr_def)

lemma createCluster_eq:
  "createCluster commit rt body princ =
     (if \<not> distinct (spec_NodePools (mk_Spec body)) then ret (ErrorResponse 610 ''name in body shouldn't contain duplicates'' 610)
      else (case KlusterFor commit (request_spec body) of
              Ok k \<Rightarrow> bnd (ignore_err (EnsureNamespace (rt_getNs rt) (rt_createNs rt) (rt_Namespace rt))) (\<lambda>_.
                tryc (kc_Create (rt_Klusters rt) (rt_Namespace rt) (new_kluster (mk_Name body) princ k))
               (\<lambda>err. ret (if IsAlreadyExists err
                    then error_response 409 (''Cluster with name '' @ mk_Name body @ '' already exists'')
                    else NewErrorResponse 500 (Error err)))
               (\<lambda>kluster. ret (Success 201 (klusterFromCRD kluster))))
            | Fail e \<Rightarrow> panic ''invalid memory address or nil pointer dereference'' | Panics s \<Rightarrow> panic s))"
  by (simp add: createCluster_def Let_def request_spec_def NewErrorResponse_def error_response_def split: outcome.split)

definition no_panic :: "('w, 'a) go \<Rightarrow> bool" where
  "no_panic m \<longleftrightarrow> (\<forall>w. \<not> is_panic (fst (m w)))"

lemma no_panicE:
  assumes "no_panic m"
  obtains x w' where "m w = (Ok x, w')" | e w' where "m w = (Fail e, w')"
  using assms unfolding no_panic_def by (metis is_panic.simps(1) outcome.exhaust prod.collapse)

lemma EnsureNamespace_no_panic:
  assumes "no_panic (getNs ns)" "no_panic (createNs ns)"
  shows "no_panic (EnsureNamespace getNs createNs ns)"
  unfolding no_panic_def
proof
  fix w
  show "\<not> is_panic (fst (EnsureNamespace getNs createNs ns w))"
  proof (rule no_panicE [OF assms(1), of w])
    fix e w1 assume g: "getNs ns w = (Fail e, w1)"
    show ?thesis
      by (rule no_panicE [OF assms(2), of w1]) (use g in \<open>auto simp: EnsureNamespace_def\<close>)
  qed (simp add: EnsureNamespace_def)
qed

lemma ignore_err_returns: "no_panic m \<Longrightarrow> returns (ignore_err m) (\<lambda>_. True)"
  unfolding returns_def by (metis no_panicE ignore_err_Ok ignore_err_Fail)

lemma KlusterFor_request:
  assumes "Kluster_Validate body = None" "ParseCIDR (service_cidr (mk_Spec body)) = Ok (ip, net)" "net4 n base net"
  shows "is_ok (KlusterFor commit (request_spec body)) \<longleftrightarrow> n \<le> 30 \<and> 2 ^ 24 \<le> base"
    and "\<not> is_panic (KlusterFor commit (request_spec body))"
proof -
  have "spec_Name (request_spec body) \<noteq> []"
    using assms(1) by (auto simp: request_spec_def Kluster_Validate_iff kluster_name_re_def)
  then show "is_ok (KlusterFor commit (request_spec body)) \<longleftrightarrow> n \<le> 30 \<and> 2 ^ 24 \<le> base"
    "\<not> is_panic (KlusterFor commit (request_spec body))"
    using assms(2) GetIndexedIP_2 [OF assms(3)] by (auto simp: KlusterFor_eq request_service_cidr)
qed

text \<open>C33: Which answer a create request gets whose body passed the API's validation, for a service
  network of prefix length \<open>n\<close> and address \<open>base\<close>: duplicate pools get the status 610; a network
  without room for the DNS address or in the range 0.0.0.0/8 makes the handler panic, because
  the error of the factory is dropped; every other request is answered 201, 409 or 500 by the
  outcome of the call that creates the resource.\<close>

theorem createCluster_outcome:
  assumes "Kluster_Validate body = None" "ParseCIDR (service_cidr (mk_Spec body)) = Ok (ip, net)" "net4 n base net"
    "no_panic (rt_getNs rt (rt_Namespace rt))" "no_panic (rt_createNs rt (rt_Namespace rt))"
    "\<And>k. no_panic (kc_Create (rt_Klusters rt) (rt_Namespace rt) k)"
  shows "if \<not> distinct (spec_NodePools (mk_Spec body))
     then createCluster commit rt body princ w =
       (Ok (ErrorResponse 610 ''name in body shouldn't contain duplicates'' 610), w)
     else if n \<le> 30 \<and> 2 ^ 24 \<le> base
     then \<exists>w1 w2 k. (\<exists>x. ignore_err (EnsureNamespace (rt_getNs rt) (rt_createNs rt) (rt_Namespace rt)) w = (Ok x, w1)) \<and>
       KlusterFor commit (request_spec body) = Ok k \<and>
       (case kc_Create (rt_Klusters rt) (rt_Namespace rt) (new_kluster (mk_Name body) princ k) w1 of
          (Ok k', w2) \<Rightarrow> createCluster commit rt body princ w = (Ok (Success 201 (klusterFromCRD k')), w2)
        | (Fail e, w2) \<Rightarrow> \<exists>msg. createCluster commit rt body princ w =
             (Ok (if IsAlreadyExists e then ErrorResponse 409 msg 409 else ErrorResponse 500 msg 500), w2)
        | (Panics s, w2) \<Rightarrow> False)
     else createCluster commit rt body princ w = (Panics ''invalid memory address or nil pointer dereference'', w)"
proof (cases "distinct (spec_NodePools (mk_Spec body)) \<and> n \<le> 30 \<and> 2 ^ 24 \<le> base")
  case True
  note ok = KlusterFor_request [OF assms(1-3), of commit]
  obtain k where k: "KlusterFor commit (request_spec body) = Ok k"
    using True ok(1) by (cases "KlusterFor commit (request_spec body)") auto
  obtain x w1 where ns: "ignore_err (EnsureNamespace (rt_getNs rt) (rt_createNs rt) (rt_Namespace rt)) w = (Ok x, w1)"
    using ignore_err_returns [OF EnsureNamespace_no_panic [where getNs = "rt_getNs rt" and createNs = "rt_createNs rt"
        and ns = "rt_Namespace rt", OF assms(4,5)]] by (rule returnsE)
  let ?c = "kc_Create (rt_Klusters rt) (rt_Namespace rt) (new_kluster (mk_Name body) princ k) w1"
  have "case ?c of
          (Ok k', w2) \<Rightarrow> createCluster commit rt body princ w = (Ok (Success 201 (klusterFromCRD k')), w2)
        | (Fail e, w2) \<Rightarrow> \<exists>msg. createCluster commit rt body princ w =
             (Ok (if IsAlreadyExists e then ErrorResponse 409 msg 409 else ErrorResponse 500 msg 500), w2)
        | (Panics s, w2) \<Rightarrow> False"
    by (rule no_panicE [OF assms(6), of "new_kluster (mk_Name body) princ k" w1])
      (use True k ns in \<open>auto simp: createCluster_eq NewErrorResponse_def error_response_def\<close>)
  with True k ns show ?thesis by auto
next
  case False
  note ok = KlusterFor_request [OF assms(1-3), of commit]
  show ?thesis
    using False ok by (cases "KlusterFor commit (request_spec body)") (auto simp: createCluster_eq)
qed

text \<open>A request for a service network of two addresses.\<close>

definition tiny_body :: ModelsKluster where
  "tiny_body = \<lparr>mk_Name = ''demo'', mk_Spec = demo_spec\<lparr>spec_ServiceCIDR := ''198.18.128.0/31''\<rparr>, mk_Status = zero_KlusterStatus\<rparr>"

lemma tiny_ParseCIDR: "ParseCIDR ''198.18.128.0/31'' =
    Ok ([198, 18, 128, 0], \<lparr>ipnet_IP = [198, 18, 128, 0], ipnet_Mask = [255, 255, 255, 254]\<rparr>)"
  by code_simp

lemma tiny_facts:
  "Kluster_Validate tiny_body = None"
  "ParseCIDR (service_cidr (mk_Spec tiny_body)) =
     Ok ([198, 18, 128, 0], \<lparr>ipnet_IP = [198, 18, 128, 0], ipnet_Mask = [255, 255, 255, 254]\<rparr>)"
  "net4 31 3323101184 \<lparr>ipnet_IP = [198, 18, 128, 0], ipnet_Mask = [255, 255, 255, 254]\<rparr>"
  "distinct (spec_NodePools (mk_Spec tiny_body))"
proof -
  have m: "CIDRMask 31 4 = [255, 255, 255, 254]" "cidr_re ''198.18.128.0/31''" "kluster_name_re ''demo''"
    "KlusterStatus_Validate zero_KlusterStatus = None" by code_simp+
  then show "Kluster_Validate tiny_body = None"
    by (simp add: Kluster_Validate_iff KlusterSpec_Validate_iff tiny_body_def demo_spec_def zero_KlusterSpec_def)
  show "ParseCIDR (service_cidr (mk_Spec tiny_body)) =
     Ok ([198, 18, 128, 0], \<lparr>ipnet_IP = [198, 18, 128, 0], ipnet_Mask = [255, 255, 255, 254]\<rparr>)"
    by (simp add: tiny_body_def service_cidr_def default_string_def tiny_ParseCIDR)
  show "net4 31 3323101184 \<lparr>ipnet_IP = [198, 18, 128, 0], ipnet_Mask = [255, 255, 255, 254]\<rparr>"
    by (simp add: net4_def m)
  show "distinct (spec_NodePools (mk_Spec tiny_body))" by (simp add: tiny_body_def demo_spec_def)
qed

lemma demo_runtime_no_panic:
  "no_panic (rt_getNs demo_runtime ns)" "no_panic (rt_createNs demo_runtime ns)"
  "no_panic (kc_Create (rt_Klusters demo_runtime) ns k)"
  by (simp_all add: no_panic_def demo_runtime_def stored_klusters_def)

theorem createCluster_outcome_witness:
  "createCluster ''HEAD'' demo_runtime tiny_body demo_principal Map.empty =
     (Panics ''invalid memory address or nil pointer dereference'', Map.empty)"
  using createCluster_outcome [OF tiny_facts(1-3), of demo_runtime "''HEAD''" demo_principal Map.empty]
    demo_runtime_no_panic tiny_facts(4) by simp

lemma KlusterFor_OkD:
  assumes "KlusterFor commit spec = Ok k"
  shows "spec_Name (k_Spec k) = spec_Name spec" "spec_NodePools (k_Spec k) = spec_NodePools spec"
    "st_Phase (k_Status k) = KlusterPhasePending" "st_NodePools (k_Status k) = map pool_info_for (spec_NodePools spec)"
    "spec_Name spec \<noteq> []"
  using assms by (auto simp: KlusterFor_eq elim!: obind_OkE split: if_splits)


definition demo_body :: ModelsKluster where
  "demo_body = \<lparr>mk_Name = ''demo'', mk_Spec = demo_spec, mk_Status = zero_KlusterStatus\<rparr>"

lemma demo_create: "\<exists>mk w'. createCluster ''HEAD'' demo_runtime demo_body demo_principal Map.empty = (Ok (Success 201 mk), w')"
proof -
  have "kluster_name_re ''demo''" "KlusterStatus_Validate zero_KlusterStatus = None" by code_simp+
  then have "Kluster_Validate demo_body = None" using demo_facts(1) by (simp add: Kluster_Validate_iff demo_body_def)
  moreover have "ParseCIDR (service_cidr (mk_Spec demo_body)) = Ok ([198, 18, 128, 0], demo_net)"
    using demo_facts(4) by (simp add: demo_body_def)
  ultimately have "is_ok (KlusterFor ''HEAD'' (request_spec demo_body))"
    using KlusterFor_request(1) [OF _ _ demo_facts(5)] by simp
  then obtain k where "KlusterFor ''HEAD'' (request_spec demo_body) = Ok k"
    by (cases "KlusterFor ''HEAD'' (request_spec demo_body)") auto
  then show ?thesis
    by (simp add: createCluster_eq demo_body_def demo_spec_def demo_runtime_def EnsureNamespace_def stored_klusters_def new_kluster_def)
qed


section \<open>Credentials\<close>

text \<open>Reading the PEM text of an authority or of a key back gives what was written.\<close>

definition pem_roundtrip :: "('w, 'key) crypto \<Rightarrow> bool" where
  "pem_roundtrip cr \<longleftrightarrow>
     (\<forall>f n c. cert_matches (ca_row f n) c \<longrightarrow>
        (\<exists>c'. cr_ParseCertsPEM cr (cr_EncodeCertPEM cr c) = Ok [c'] \<and> cert_matches (ca_row f n) c')) \<and>
     (\<forall>k. cr_ParsePrivateKeyPEM cr (cr_EncodePrivateKeyPEM cr k) = Ok (Some k))"

lemma plan_rows:
  "ca_row ''apiserver-clients-ca'' ''ApiServer Clients'' \<in> set cert_plan" "ca_row ''tls-ca'' ''TLS'' \<in> set cert_plan"
  by (simp_all add: cert_plan_def)

lemma CreateCertificates_entry:
  assumes "crypto_works cr" "CreateCertificates cr kluster u a dm w = (Ok m, w')" "ca_row f n \<in> set cert_plan"
  shows "\<exists>c k. cert_matches (ca_row f n) c \<and> map_of m (f @ ''.pem'') = Some (cr_EncodeCertPEM cr c) \<and>
     map_of m (f @ ''-key.pem'') = Some (cr_EncodePrivateKeyPEM cr k)"
proof -
  obtain ip where "ApiServiceIP kluster = Ok ip"
    using assms(2) by (auto simp: CreateCertificates_def bnd_eq_Ok_iff)
  from CreateCertificates_result [OF assms(1) this, of u a dm w] assms(2,3) show ?thesis
    by (fastforce simp: ca_row_def)
qed

text \<open>The authority for clients that is read back from the files of a kluster.\<close>

lemma stored_authority:
  assumes "crypto_works cr" "pem_roundtrip cr" "CreateCertificates cr k0 u a dm w0 = (Ok m, w0')"
  obtains key cert tls b where "map_of m ''apiserver-clients-ca.pem'' = Some cert"
    "map_of m ''apiserver-clients-ca-key.pem'' = Some key" "map_of m ''tls-ca.pem'' = Some tls"
    "NewBundle cr key cert = Ok b" "bundle_matches (ca_row ''apiserver-clients-ca'' ''ApiServer Clients'') b"
proof -
  obtain ca k where ca: "cert_matches (ca_row ''apiserver-clients-ca'' ''ApiServer Clients'') ca"
    "map_of m ''apiserver-clients-ca.pem'' = Some (cr_EncodeCertPEM cr ca)"
    "map_of m ''apiserver-clients-ca-key.pem'' = Some (cr_EncodePrivateKeyPEM cr k)"
    using CreateCertificates_entry [OF assms(1,3) plan_rows(1)] by auto
  obtain tls where tls: "map_of m ''tls-ca.pem'' = Some tls"
    using CreateCertificates_entry [OF assms(1,3) plan_rows(2)] by auto
  obtain ca' where ca': "cr_ParseCertsPEM cr (cr_EncodeCertPEM cr ca) = Ok [ca']"
    "cert_matches (ca_row ''apiserver-clients-ca'' ''ApiServer Clients'') ca'"
    using assms(2) ca(1) unfolding pem_roundtrip_def by blast
  let ?b = "\<lparr>bnl_Certificate = Some ca', bnl_PrivateKey = Some k\<rparr>"
  have "NewBundle cr (cr_EncodePrivateKeyPEM cr k) (cr_EncodeCertPEM cr ca) = Ok ?b"
    using assms(2) ca'(1) by (simp add: NewBundle_def pem_roundtrip_def)
  moreover have "bundle_matches (ca_row ''apiserver-clients-ca'' ''ApiServer Clients'') ?b"
    using ca'(2) by (simp add: bundle_matches_def)
  ultimately show ?thesis by (rule that [OF ca(2,3) tls])
qed

text \<open>C34: The credentials the API hands out, for a secret that holds the two authorities created for
  the kluster. The request succeeds; the kubeconfig has one cluster, one context and one user, and
  its certificate is signed by the kluster's authority for clients of the API server, for the
  subject \<open>name@domain\<close> of the principal, for client authentication only. Its groups are exactly
  the roles of the principal behind the prefix \<open>os:\<close>, so that no role, whatever its name, gives
  the group \<open>system:masters\<close>.\<close>

theorem credentials_issued:
  assumes "crypto_works cr" "pem_roundtrip cr" "CreateCertificates cr k0 u a dm w0 = (Ok m, w0')"
    "rt_GetSecret rt (rt_Namespace rt) (qualifiedName name (pr_Account princ)) w = (Ok secret, w1)"
    "map_of secret ''apiserver-clients-ca.pem'' = map_of m ''apiserver-clients-ca.pem''"
    "map_of secret ''apiserver-clients-ca-key.pem'' = map_of m ''apiserver-clients-ca-key.pem''"
    "map_of secret ''tls-ca.pem'' = map_of m ''tls-ca.pem''"
    "kc_Get (rt_Klusters rt) (rt_Namespace rt) (qualifiedName name (pr_Account princ)) w1 = (Ok kluster, w2)"
    "\<And>cfg. \<exists>y. yaml_Marshal cfg = Ok y"
  shows "\<exists>c key ca y w'. getClusterCredentials cr yaml_Marshal rt req name princ w = (Ok (Success 200 y), w') \<and>
    yaml_Marshal \<lparr>kcfg_CurrentContext = name,
      kcfg_Clusters = [\<lparr>nc_Name = name, nc_Server = st_Apiserver (k_Status kluster), nc_CA = ca\<rparr>],
      kcfg_Contexts = [\<lparr>nx_Name = name, nx_Cluster = name, nx_AuthInfo = pr_Name princ @ ''@'' @ name\<rparr>],
      kcfg_AuthInfos = [\<lparr>na_Name = pr_Name princ @ ''@'' @ name, na_Cert = cr_EncodeCertPEM cr c,
        na_Key = cr_EncodePrivateKeyPEM cr key\<rparr>]\<rparr> = Ok y \<and>
    map_of m ''tls-ca.pem'' = Some ca \<and> \<not> crt_IsCA c \<and> nm_CommonName (crt_Issuer c) = ''ApiServer Clients'' \<and>
    nm_CommonName (crt_Subject c) = pr_Name princ @ ''@'' @ pr_Domain princ \<and> crt_ExtKeyUsage c = [ExtKeyUsageClientAuth] \<and>
    set (nm_Organization (crt_Subject c)) = {''os:'' @ r | r. r \<in> set (pr_Roles princ)} \<and>
    ''system:masters'' \<notin> set (nm_Organization (crt_Subject c))"
proof -
  obtain key0 cert0 tls b0 where m: "map_of m ''apiserver-clients-ca.pem'' = Some cert0"
    "map_of m ''apiserver-clients-ca-key.pem'' = Some key0" and tls: "map_of m ''tls-ca.pem'' = Some tls"
    and nb: "NewBundle cr key0 cert0 = Ok b0" and b0: "bundle_matches (ca_row ''apiserver-clients-ca'' ''ApiServer Clients'') b0"
    by (rule stored_authority [OF assms(1-3)])
  note sec = trans [OF assms(5) m(1)] trans [OF assms(6) m(2)] trans [OF assms(7) tls]
  from Sign_returns [OF assms(1) b0, of "credentials_config req princ kluster" "[]"]
  obtain b w3 where s: "Sign cr b0 (credentials_config req princ kluster) w2 = (Ok b, w3)"
    "bundle_matches (leaf_row [] ''ApiServer Clients'' (pr_Name princ @ ''@'' @ pr_Domain princ)
       (map (\<lambda>role. ''os:'' @ role) (pr_Roles princ)) [ExtKeyUsageClientAuth]) b"
    by (rule returnsE) (auto simp: credentials_config_def)
  then obtain c key where b: "b = \<lparr>bnl_Certificate = Some c, bnl_PrivateKey = Some key\<rparr>" and
    c: "cert_matches (leaf_row [] ''ApiServer Clients'' (pr_Name princ @ ''@'' @ pr_Domain princ)
       (map (\<lambda>role. ''os:'' @ role) (pr_Roles princ)) [ExtKeyUsageClientAuth]) c" by (auto simp: bundle_matches_def)
  obtain y where y: "yaml_Marshal (NewClientConfigV1 name (pr_Name princ @ ''@'' @ name) (st_Apiserver (k_Status kluster))
       (cr_EncodePrivateKeyPEM cr key) (cr_EncodeCertPEM cr c) tls) = Ok y" using assms(9) by blast
  have "getClusterCredentials cr yaml_Marshal rt req name princ w = (Ok (Success 200 y), w3)"
    using assms(4,8) s(1) y
    by (simp add: getClusterCredentials_def sec nb sign_credentials_def b nil_deref_def)
  moreover have groups: "set (nm_Organization (crt_Subject c)) = {''os:'' @ r | r. r \<in> set (pr_Roles princ)}"
    using c by (auto simp: cert_matches_def leaf_row_def)
  moreover have "''system:masters'' \<notin> set (nm_Organization (crt_Subject c))" by (simp add: groups)
  moreover have "\<not> crt_IsCA c" "nm_CommonName (crt_Issuer c) = ''ApiServer Clients''"
    "nm_CommonName (crt_Subject c) = pr_Name princ @ ''@'' @ pr_Domain princ" "crt_ExtKeyUsage c = [ExtKeyUsageClientAuth]"
    using c by (simp_all add: cert_matches_def leaf_row_def)
  ultimately show ?thesis using y tls unfolding NewClientConfigV1_def by blast
qed

text \<open>The text of a certificate is its subject, which is enough to read an authority back.\<close>

definition demo_certificate :: "string \<Rightarrow> Certificate" where
  "demo_certificate s = \<lparr>crt_Subject = plain_Name s, crt_Issuer = plain_Name s, crt_IsCA = True, crt_Serial = Some 0,
     crt_NotBefore = 0, crt_NotAfter = 0, crt_KeyUsage = [], crt_ExtKeyUsage = [], crt_DNSNames = [], crt_IPAddresses = []\<rparr>"

definition pem_crypto :: "(nat, nat) crypto" where
  "pem_crypto = demo_crypto\<lparr>cr_ParseCertsPEM := (\<lambda>s. Ok [demo_certificate s]),
     cr_ParsePrivateKeyPEM := (\<lambda>s. Ok (Some (digits_val s)))\<rparr>"

lemma pem_crypto_laws: "crypto_works pem_crypto" "pem_roundtrip pem_crypto"
  using demo_crypto_works
  by (auto simp: pem_crypto_def crypto_works_def pem_roundtrip_def demo_crypto_def cert_matches_def ca_row_def
      demo_certificate_def plain_Name_def)

definition cred_runtime :: "secret \<Rightarrow> nat Runtime" where
  "cred_runtime m = \<lparr>rt_Klusters = \<lparr>kc_Get = \<lambda>_ _. ret cert_kluster, kc_List = \<lambda>_ _. ret [], kc_Create = \<lambda>_ k. ret k,
       kc_Update = \<lambda>_ k. ret k, kc_Delete = \<lambda>_ _. ret ()\<rparr>,
     rt_GetSecret = \<lambda>_ _. ret m, rt_getNs = \<lambda>_. ret (), rt_createNs = \<lambda>_. ret (), rt_ListEvents = \<lambda>_. ret [],
     rt_Namespace = ''kubernikus''\<rparr>"

definition demo_request :: HTTPRequest where
  "demo_request = \<lparr>req_Header = \<lambda>_. [], req_Host = ''api'', req_TLS = True\<rparr>"

theorem credentials_issued_witness:
  "\<exists>m w' w2. CreateCertificates pem_crypto cert_kluster ''api'' ''auth'' ''example.com'' 0 = (Ok m, w') \<and>
     getClusterCredentials pem_crypto (\<lambda>cfg. Ok (na_Cert (hd (kcfg_AuthInfos cfg)))) (cred_runtime m) demo_request ''demo''
       demo_principal 0 = (Ok (Success 200 ''eve@ccadmin''), w2)"
proof -
  obtain m w' where m: "CreateCertificates pem_crypto cert_kluster ''api'' ''auth'' ''example.com'' 0 = (Ok m, w')"
    using CreateCertificates_result [OF pem_crypto_laws(1) cert_kluster_ip] by blast
  let ?q = "qualifiedName ''demo'' (pr_Account demo_principal)"
  have reads: "rt_GetSecret (cred_runtime m) (rt_Namespace (cred_runtime m)) ?q 0 = (Ok m, 0)"
    "kc_Get (rt_Klusters (cred_runtime m)) (rt_Namespace (cred_runtime m)) ?q 0 = (Ok cert_kluster, 0)"
    by (simp_all add: cred_runtime_def)
  from credentials_issued [where yaml_Marshal = "\<lambda>cfg. Ok (na_Cert (hd (kcfg_AuthInfos cfg)))" and req = demo_request,
      OF pem_crypto_laws m reads(1) refl refl refl reads(2)]
  obtain c y w2 where g: "getClusterCredentials pem_crypto (\<lambda>cfg. Ok (na_Cert (hd (kcfg_AuthInfos cfg)))) (cred_runtime m)
      demo_request ''demo'' demo_principal 0 = (Ok (Success 200 y), w2)" "Ok (cr_EncodeCertPEM pem_crypto c) = Ok y"
    "nm_CommonName (crt_Subject c) = pr_Name demo_principal @ ''@'' @ pr_Domain demo_principal" by fastforce
  then have "y = ''eve@ccadmin''" by (simp add: pem_crypto_def demo_crypto_def demo_principal_def)
  with g(1) m show ?thesis by (intro exI [of _ m] exI [of _ w'] exI [of _ w2] conjI) simp_all
qed

section \<open>Download links\<close>

text \<open>The links of the assets, in their order, each with the first of the three platforms its name
  mentions.\<close>

lemma asset_links_mem:
  "l \<in> set (asset_links assets) \<Longrightarrow>
     \<exists>a\<in>set assets. ln_Link l = as_DownloadURL a \<and> Contains (as_Name a) (ln_Platform l) \<and>
       ln_Platform l \<in> {''darwin'', ''linux'', ''windows''}"
  by (induction assets) (auto split: if_splits)

text \<open>The links to the command line tool are fetched until a fetch succeeds and never again. A
  failed fetch leaves the handler without links. After a successful one the handler has at least
  one link, every link names a platform that the name of its asset mentions, and from then on the
  handler answers with the same links from any state of the network, without a request.\<close>

theorem links_cached:
  assumes "getLinks VERSION GitCommit http_Get url (w, None) = (r, w', cache)"
  shows "(is_ok r \<longleftrightarrow> cache \<noteq> None) \<and>
    (\<forall>links. r = Ok links \<longrightarrow> cache = Some links \<and> links \<noteq> [] \<and>
       (\<exists>resp w1. http_Get (url @ ''/repos/sapcc/kubernikus/releases/tags/'' @
            (if GitCommit = ''HEAD'' then ''latest'' else ''v'' @ VERSION @ ''+'' @ GitCommit)) w = (Ok resp, w1) \<and>
          gh_StatusCode resp < 400 \<and> (\<exists>assets. gh_Assets resp = Ok assets \<and>
            (\<forall>l\<in>set links. \<exists>a\<in>set assets. ln_Link l = as_DownloadURL a \<and> Contains (as_Name a) (ln_Platform l) \<and>
               ln_Platform l \<in> {''darwin'', ''linux'', ''windows''}))) \<and>
       (\<forall>w2. getClusterInfo VERSION GitCommit http_Get url princ (w2, cache) =
          (Ok (Success 200 \<lparr>ki_SetupCommand = createSetupCommand princ, ki_Binaries = [(''kubernikusctl'', links)]\<rparr>), w2, cache)))"
proof -
  let ?u = "url @ ''/repos/sapcc/kubernikus/releases/tags/'' @
            (if GitCommit = ''HEAD'' then ''latest'' else ''v'' @ VERSION @ ''+'' @ GitCommit)"
  have hit: "getClusterInfo VERSION GitCommit http_Get url princ (w2, Some links) =
      (Ok (Success 200 \<lparr>ki_SetupCommand = createSetupCommand princ, ki_Binaries = [(''kubernikusctl'', links)]\<rparr>), w2, Some links)"
    for w2 links by (simp add: getClusterInfo_def getLinks_def)
  obtain r1 w1 where h: "http_Get ?u w = (r1, w1)" by (cases "http_Get ?u w")
  show ?thesis
  proof (cases "\<exists>resp assets. r1 = Ok resp \<and> gh_StatusCode resp < 400 \<and> gh_Assets resp = Ok assets \<and> asset_links assets \<noteq> []")
    case True
    then obtain resp assets where ok: "r1 = Ok resp" "gh_StatusCode resp < 400" "gh_Assets resp = Ok assets" "asset_links assets \<noteq> []"
      by blast
    then have "r = Ok (asset_links assets)" "cache = Some (asset_links assets)"
      using assms h by (auto simp: getLinks_def Let_def split: if_splits)
    then show ?thesis using h ok asset_links_mem [of _ assets] hit by auto
  next
    case False
    then have "\<not> is_ok r \<and> cache = None"
      using assms h by (cases r1) (auto simp: getLinks_def Let_def bnd_def split: if_splits outcome.splits)
    then show ?thesis by (cases r) auto
  qed
qed

definition demo_github :: "string \<Rightarrow> (nat, GitHubResponse) go" where
  "demo_github u = (\<lambda>n. (Ok \<lparr>gh_StatusCode = 200, gh_Status = ''200 OK'',
     gh_Assets = Ok [\<lparr>as_Name = ''kubernikusctl_linux_amd64'', as_DownloadURL = u\<rparr>, \<lparr>as_Name = ''README'', as_DownloadURL = u\<rparr>]\<rparr>, Suc n))"

lemma demo_github_links:
  "getLinks ''1'' ''HEAD'' demo_github ''gh'' (0, None) =
     (Ok [\<lparr>ln_Link = ''gh/repos/sapcc/kubernikus/releases/tags/latest'', ln_Platform = ''linux''\<rparr>], 1,
      Some [\<lparr>ln_Link = ''gh/repos/sapcc/kubernikus/releases/tags/latest'', ln_Platform = ''linux''\<rparr>])"
  by code_simp

theorem links_cached_witness:
  "getClusterInfo ''1'' ''HEAD'' demo_github ''gh'' demo_principal
     (5, Some [\<lparr>ln_Link = ''gh/repos/sapcc/kubernikus/releases/tags/latest'', ln_Platform = ''linux''\<rparr>]) =
   (Ok (Success 200 \<lparr>ki_SetupCommand = createSetupCommand demo_principal, ki_Binaries =
      [(''kubernikusctl'', [\<lparr>ln_Link = ''gh/repos/sapcc/kubernikus/releases/tags/latest'', ln_Platform = ''linux''\<rparr>])]\<rparr>), 5,
    Some [\<lparr>ln_Link = ''gh/repos/sapcc/kubernikus/releases/tags/latest'', ln_Platform = ''linux''\<rparr>])"
  using links_cached [OF demo_github_links, of demo_principal] by simp

end
