(* ===== verification/RouteGC.thy ===== *)
theory RouteGC
  imports Openstack
begin

text \<open>
  The route garbage collector (\<open>src/pkg/controller/routegc/controller.go\<close>): it removes from a
  router the routes into the pod network whose next hop is no longer the address of a server.
  The compute and network services are parameters; a route is an IPv4 route (a destination
  that the model of \<open>net.ParseCIDR\<close> does not parse is none the collector is responsible for).
\<close>

unbundle bit_operations_syntax

section \<open>The code\<close>

text \<open>The addresses of a server are decoded JSON: each network has a list of entries, an entry is
  an object that may have an address.\<close>

datatype addr_value = AddrString string | AddrOther
datatype addr_entry = NotAnObject | AddrObject "addr_value option"
datatype addr_list = NotAList | AddrList "addr_entry list"

record RServer =
  rs_ID :: string
  rs_Addresses :: "addr_list list"

record Route =
  ro_NextHop :: string
  ro_DestinationCIDR :: string

record 'w RouteGarbageCollector =
  gc_listServers :: "('w, RServer pages) go"
  gc_getRouter :: "string \<Rightarrow> ('w, Route list) go"
  gc_updateRouter :: "string \<Rightarrow> Route list \<Rightarrow> ('w, unit) go"
  gc_routerID :: string
  gc_clusterCIDR :: IPNet

text \<open>\<open>lastIP[i] = cidr.IP[i] | ^cidr.Mask[i]\<close>\<close>

definition last_ip :: "IPNet \<Rightarrow> IP" where
  "last_ip cidr = map2 (\<lambda>b m. b OR NOT m) (ipnet_IP cidr) (ipnet_Mask cidr)"

definition isResponsibleForRoute :: "IPNet \<Rightarrow> Route \<Rightarrow> bool" where
  "isResponsibleForRoute clusterCIDR route =
     (case ParseCIDR (ro_DestinationCIDR route) of
        Ok (_, cidr) \<Rightarrow>
          (if \<not> IPNet_Contains clusterCIDR (ipnet_IP cidr) \<or> \<not> IPNet_Contains clusterCIDR (last_ip cidr) then False
           else True)
      | _ \<Rightarrow> False)"

text \<open>The body of the loops over the addresses; \<open>validNexthops\<close> is the map of the addresses.\<close>

fun add_entries :: "string \<Rightarrow> addr_entry list \<Rightarrow> (string \<rightharpoonup> string) \<Rightarrow> (string \<rightharpoonup> string) outcome" where
  "add_entries srvID [] hops = Ok hops"
| "add_entries srvID (NotAnObject # es) hops = add_entries srvID es hops"
| "add_entries srvID (AddrObject None # es) hops = add_entries srvID es hops"
| "add_entries srvID (AddrObject (Some (AddrString a)) # es) hops = add_entries srvID es (hops(a \<mapsto> srvID))"
| "add_entries srvID (AddrObject (Some AddrOther) # es) hops = Panics ''interface conversion''"

fun add_networks :: "string \<Rightarrow> addr_list list \<Rightarrow> (string \<rightharpoonup> string) \<Rightarrow> (string \<rightharpoonup> string) outcome" where
  "add_networks srvID [] hops = Ok hops"
| "add_networks srvID (NotAList # ls) hops = Panics ''interface conversion''"
| "add_networks srvID (AddrList es # ls) hops = obind (add_entries srvID es hops) (add_networks srvID ls)"

text \<open>\<open>foreachServer\<close> with the handler's captured state.\<close>

fun servers_loop ::
  "(RServer \<Rightarrow> 's \<Rightarrow> ('w, bool \<times> 's) go) \<Rightarrow> RServer list \<Rightarrow> 's \<Rightarrow> ('w, bool \<times> 's) go" where
  "servers_loop handler [] s = ret (True, s)"
| "servers_loop handler (srv # srvs) s =
     bnd (handler srv s) (\<lambda>(ok, s'). if \<not> ok then ret (False, s') else servers_loop handler srvs s')"

definition foreachServer ::
  "('w, RServer pages) go \<Rightarrow> (RServer \<Rightarrow> 's \<Rightarrow> ('w, bool \<times> 's) go) \<Rightarrow> 's \<Rightarrow> ('w, 's) go" where
  "foreachServer listServers handler s = bnd listServers (\<lambda>pages. EachPage pages (servers_loop handler) s)"

definition add_server :: "RServer \<Rightarrow> (string \<rightharpoonup> string) \<Rightarrow> ('w, bool \<times> (string \<rightharpoonup> string)) go" where
  "add_server srv hops =
     bnd (lift_outcome (add_networks (rs_ID srv) (rs_Addresses srv) hops)) (\<lambda>hops'. ret (True, hops'))"

fun live_routes :: "IPNet \<Rightarrow> (string \<rightharpoonup> string) \<Rightarrow> Route list \<Rightarrow> Route list \<times> bool" where
  "live_routes cluster hops [] = ([], False)"
| "live_routes cluster hops (route # routes) =
     (let (newRoutes, updated) = live_routes cluster hops routes
      in if isResponsibleForRoute cluster route \<and> hops (ro_NextHop route) = None then (newRoutes, True)
         else (route # newRoutes, updated))"

text \<open>Every error is logged and ends the round.\<close>

definition routegc_Reconcile :: "'w RouteGarbageCollector \<Rightarrow> ('w, unit) go" where
  "routegc_Reconcile r =
     tryc (foreachServer (gc_listServers r) add_server Map.empty)
       (\<lambda>_. ret ())
       (\<lambda>validNexthops.
         tryc (gc_getRouter r (gc_routerID r))
           (\<lambda>_. ret ())
           (\<lambda>routes.
             let (newRoutes, updated) = live_routes (gc_clusterCIDR r) validNexthops routes
             in if updated then ignore_err (gc_updateRouter r (gc_routerID r) newRoutes) else ret ()))"

section \<open>Which routes the collector is responsible for\<close>

lemma unat_or_disjoint:
  fixes a b :: "8 word"
  assumes "a AND b = 0"
  shows "unat (a OR b) = unat a + unat b"
proof -
  have "unat a AND unat b = 0" using assms by (metis unsigned_0 unsigned_and_eq)
  then have "unat a OR unat b = unat a + unat b" by (simp add: disjunctive_add_eq_or)
  then show ?thesis by (simp add: unsigned_or_eq)
qed

lemma bytes_val_or_not:
  "length ip = length m \<Longrightarrow> bytes_val (map2 (\<lambda>b m. b OR NOT m) (Mask ip m) m) =
     bytes_val (Mask ip m) + bytes_val (map NOT m)"
proof (induction ip m rule: list_induct2)
  case (Cons b bs m ms)
  have "(b AND m) AND NOT m = 0" by (rule bit_eqI) (auto simp: bit_simps)
  with Cons show ?case
    by (simp add: Mask_def unat_or_disjoint algebra_simps)
qed (simp add: Mask_def)

lemma CIDRMask_not_table: "list_all (\<lambda>n. bytes_val (map NOT (CIDRMask n 4)) + 1 = 2 ^ (32 - n)) [0..<33]"
  by code_simp

lemma CIDRMask_not: "n \<le> 32 \<Longrightarrow> bytes_val (map NOT (CIDRMask n 4)) = 2 ^ (32 - n) - 1"
  using CIDRMask_not_table by (auto simp: list_all_iff dest!: bspec [of _ _ n])

lemma net4_masked:
  assumes "net4 n base net"
  shows "Mask (ipnet_IP net) (CIDRMask n 4) = ipnet_IP net"
proof (rule bytes_val_inject)
  show "bytes_val (Mask (ipnet_IP net) (CIDRMask n 4)) = bytes_val (ipnet_IP net)"
    using assms bytes_val_Mask [of "ipnet_IP net" 4 n] by (auto simp: net4_def)
qed (use assms in \<open>simp add: net4_def\<close>)

lemma last_ip_net4:
  assumes "net4 n base net"
  shows "length (last_ip net) = 4" "bytes_val (last_ip net) = base + (2 ^ (32 - n) - 1)"
proof -
  show "length (last_ip net) = 4" using assms by (simp add: last_ip_def net4_def)
  have "bytes_val (last_ip net) = bytes_val (map2 (\<lambda>b m. b OR NOT m) (Mask (ipnet_IP net) (CIDRMask n 4)) (CIDRMask n 4))"
    using assms by (simp add: last_ip_def net4_masked [OF assms]) (simp add: net4_def)
  also have "\<dots> = base + (2 ^ (32 - n) - 1)"
    using assms bytes_val_or_not [of "ipnet_IP net" "CIDRMask n 4"] CIDRMask_not [of n]
    by (simp add: net4_masked [OF assms]) (simp add: net4_def)
  finally show "bytes_val (last_ip net) = base + (2 ^ (32 - n) - 1)" .
qed

text \<open>The destination of a route, as a network of the cluster.\<close>

definition inside_cluster :: "nat \<Rightarrow> nat \<Rightarrow> Route \<Rightarrow> bool" where
  "inside_cluster nc basec route \<longleftrightarrow>
     (\<exists>ip net n base. ParseCIDR (ro_DestinationCIDR route) = Ok (ip, net) \<and> net4 n base net \<and>
        basec \<le> base \<and> base + 2 ^ (32 - n) \<le> basec + 2 ^ (32 - nc))"

lemma net4_unique: "net4 n base net \<Longrightarrow> net4 n' base' net \<Longrightarrow> base' = base \<and> (2 :: nat) ^ (32 - n') = 2 ^ (32 - n)"
proof
  assume a: "net4 n base net" "net4 n' base' net"
  then show "base' = base" by (simp add: net4_def)
  show "(2 :: nat) ^ (32 - n') = 2 ^ (32 - n)"
  proof -
    have "(2 :: nat) ^ (32 - n') - 1 = 2 ^ (32 - n) - 1"
      using CIDRMask_not [of n] CIDRMask_not [of n'] a by (simp add: net4_def)
    moreover have "(1 :: nat) \<le> 2 ^ (32 - n')" "(1 :: nat) \<le> 2 ^ (32 - n)" by simp_all
    ultimately show ?thesis by linarith
  qed
qed

lemma inside_interval:
  "0 < P \<Longrightarrow> (c \<le> b \<and> b < c + Q) \<and> (c \<le> b + (P - 1) \<and> b + (P - 1) < c + Q) \<longleftrightarrow> c \<le> b \<and> b + P \<le> c + (Q :: nat)"
  by arith

lemma isResponsibleForRoute_iff:
  assumes "net4 nc basec cluster"
  shows "isResponsibleForRoute cluster route \<longleftrightarrow> inside_cluster nc basec route"
proof (cases "\<exists>ip net. ParseCIDR (ro_DestinationCIDR route) = Ok (ip, net)")
  case True
  then obtain ip net where p: "ParseCIDR (ro_DestinationCIDR route) = Ok (ip, net)" by blast
  from ParseCIDR_net4 [OF p] obtain n base where net: "net4 n base net" by blast
  note last = last_ip_net4 [OF net]
  have len: "length (ipnet_IP net) = 4" "bytes_val (ipnet_IP net) = base" using net by (simp_all add: net4_def)
  have "isResponsibleForRoute cluster route \<longleftrightarrow> (basec \<le> base \<and> base < basec + 2 ^ (32 - nc)) \<and>
      (basec \<le> base + (2 ^ (32 - n) - 1) \<and> base + (2 ^ (32 - n) - 1) < basec + 2 ^ (32 - nc))"
    unfolding isResponsibleForRoute_def p
    using Contains_net4 [OF assms len(1)] Contains_net4 [OF assms last(1)] by (simp add: len last)
  also have "\<dots> \<longleftrightarrow> basec \<le> base \<and> base + 2 ^ (32 - n) \<le> basec + 2 ^ (32 - nc)"
    by (rule inside_interval) simp
  finally have "isResponsibleForRoute cluster route \<longleftrightarrow> basec \<le> base \<and> base + 2 ^ (32 - n) \<le> basec + 2 ^ (32 - nc)" .
  moreover have "inside_cluster nc basec route \<longleftrightarrow> basec \<le> base \<and> base + 2 ^ (32 - n) \<le> basec + 2 ^ (32 - nc)"
  proof
    assume "inside_cluster nc basec route"
    then obtain n' base' where n': "net4 n' base' net" "basec \<le> base'" "base' + 2 ^ (32 - n') \<le> basec + 2 ^ (32 - nc)"
      using p unfolding inside_cluster_def by auto
    with net4_unique [OF net n'(1)] show "basec \<le> base \<and> base + 2 ^ (32 - n) \<le> basec + 2 ^ (32 - nc)" by simp
  qed (use p net in \<open>unfold inside_cluster_def, blast\<close>)
  ultimately show ?thesis by simp
next
  case False
  then show ?thesis
    by (cases "ParseCIDR (ro_DestinationCIDR route)") (auto simp: isResponsibleForRoute_def inside_cluster_def)
qed

section \<open>A round of the collector\<close>

text \<open>The servers the loop over the pages sees: an empty page ends it, an error of a page is an
  error of the listing.\<close>

fun seen_servers :: "'a pages \<Rightarrow> 'a list option" where
  "seen_servers [] = Some []"
| "seen_servers (Inl e # ps) = None"
| "seen_servers (Inr items # ps) = (if items = [] then Some [] else map_option (append items) (seen_servers ps))"

definition server_addrs :: "RServer \<Rightarrow> string set" where
  "server_addrs srv = {a. \<exists>es. AddrList es \<in> set (rs_Addresses srv) \<and> AddrObject (Some (AddrString a)) \<in> set es}"

text \<open>The decoded JSON has the documented form.\<close>

definition wf_server :: "RServer \<Rightarrow> bool" where
  "wf_server srv \<longleftrightarrow> list_all (\<lambda>l. case l of NotAList \<Rightarrow> False | AddrList es \<Rightarrow> AddrObject (Some AddrOther) \<notin> set es) (rs_Addresses srv)"

lemma add_entries_ok:
  "AddrObject (Some AddrOther) \<notin> set es \<Longrightarrow> \<exists>hops'. add_entries srvID es hops = Ok hops' \<and>
     dom hops' = dom hops \<union> {a. AddrObject (Some (AddrString a)) \<in> set es}"
  by (induction srvID es hops rule: add_entries.induct) auto

lemma add_networks_ok:
  "list_all (\<lambda>l. case l of NotAList \<Rightarrow> False | AddrList es \<Rightarrow> AddrObject (Some AddrOther) \<notin> set es) ls \<Longrightarrow>
     \<exists>hops'. add_networks srvID ls hops = Ok hops' \<and>
       dom hops' = dom hops \<union> {a. \<exists>es. AddrList es \<in> set ls \<and> AddrObject (Some (AddrString a)) \<in> set es}"
proof (induction srvID ls hops rule: add_networks.induct)
  case (3 srvID es ls hops)
  obtain h1 where h1: "add_entries srvID es hops = Ok h1" "dom h1 = dom hops \<union> {a. AddrObject (Some (AddrString a)) \<in> set es}"
    using add_entries_ok [of es srvID hops] 3(2) by auto
  with 3(1) [of h1] 3(2) show ?case by auto
qed auto

lemma add_server_apply:
  "add_networks (rs_ID srv) (rs_Addresses srv) hops = Ok h \<Longrightarrow> add_server srv hops w = (Ok (True, h), w)"
  by (simp add: add_server_def)

lemma servers_loop_ok:
  "list_all wf_server srvs \<Longrightarrow> \<exists>hops'. servers_loop add_server srvs hops w = (Ok (True, hops'), w) \<and>
     dom hops' = dom hops \<union> (\<Union>srv\<in>set srvs. server_addrs srv)"
proof (induction srvs arbitrary: hops)
  case (Cons srv srvs)
  obtain h1 where h1: "add_networks (rs_ID srv) (rs_Addresses srv) hops = Ok h1" "dom h1 = dom hops \<union> server_addrs srv"
    using add_networks_ok [of "rs_Addresses srv" "rs_ID srv" hops] Cons.prems by (auto simp: wf_server_def server_addrs_def)
  from Cons.IH [of h1] Cons.prems obtain h2 where "servers_loop add_server srvs h1 w = (Ok (True, h2), w)"
    "dom h2 = dom h1 \<union> (\<Union>srv\<in>set srvs. server_addrs srv)" by auto
  with h1 show ?case by (auto simp: bnd_def add_server_apply [OF h1(1)])
qed simp

lemma EachPage_servers:
  "seen_servers pages = Some srvs \<Longrightarrow> list_all wf_server srvs \<Longrightarrow>
     \<exists>hops'. EachPage pages (servers_loop add_server) hops w = (Ok hops', w) \<and>
       dom hops' = dom hops \<union> (\<Union>srv\<in>set srvs. server_addrs srv)"
proof (induction pages arbitrary: srvs hops rule: seen_servers.induct)
  case (3 items ps)
  show ?case
  proof (cases "items = []")
    case False
    with 3(2) obtain rest where rest: "seen_servers ps = Some rest" "srvs = items @ rest" by auto
    with 3(3) servers_loop_ok [of items hops w] obtain h1 where
      h1: "servers_loop add_server items hops w = (Ok (True, h1), w)" "dom h1 = dom hops \<union> (\<Union>srv\<in>set items. server_addrs srv)"
      by auto
    with 3(1) [OF False rest(1), of h1] 3(3) rest False show ?thesis by (auto simp: bnd_def)
  qed (use 3 in simp)
qed auto

lemma live_routes_eq:
  "live_routes cluster hops routes =
     (filter (\<lambda>r. \<not> (isResponsibleForRoute cluster r \<and> hops (ro_NextHop r) = None)) routes,
      list_ex (\<lambda>r. isResponsibleForRoute cluster r \<and> hops (ro_NextHop r) = None) routes)"
  by (induction routes) auto

text \<open>The network service keeps the routes \<open>rts w\<close> of the router.\<close>

definition routes_api :: "'w RouteGarbageCollector \<Rightarrow> ('w \<Rightarrow> Route list) \<Rightarrow> bool" where
  "routes_api r rts \<longleftrightarrow> leaves rts (gc_listServers r) \<and>
     (\<forall>w res w'. gc_getRouter r (gc_routerID r) w = (res, w') \<longrightarrow> rts w' = rts w \<and> (\<forall>routes. res = Ok routes \<longrightarrow> routes = rts w)) \<and>
     (\<forall>w routes res w'. gc_updateRouter r (gc_routerID r) routes w = (res, w') \<longrightarrow>
        rts w' = (if is_ok res then routes else rts w))"

definition kept_routes :: "nat \<Rightarrow> nat \<Rightarrow> RServer list \<Rightarrow> Route list \<Rightarrow> Route list" where
  "kept_routes nc basec srvs = filter (\<lambda>r. inside_cluster nc basec r \<longrightarrow> ro_NextHop r \<in> (\<Union>srv\<in>set srvs. server_addrs srv))"

lemma live_routes_kept:
  assumes "net4 nc basec cluster" "dom hops = (\<Union>srv\<in>set srvs. server_addrs srv)"
  shows "live_routes cluster hops routes = (kept_routes nc basec srvs routes, kept_routes nc basec srvs routes \<noteq> routes)"
proof -
  have "hops a = None \<longleftrightarrow> a \<notin> (\<Union>srv\<in>set srvs. server_addrs srv)" for a using assms(2) by (metis domIff)
  then show ?thesis
    by (auto simp: live_routes_eq kept_routes_def isResponsibleForRoute_iff [OF assms(1)] list_ex_iff filter_id_conv
        intro: filter_cong)
qed

lemma kept_routes_idem: "kept_routes nc basec srvs (kept_routes nc basec srvs rs) = kept_routes nc basec srvs rs"
  by (simp add: kept_routes_def)

lemma Reconcile_round:
  assumes "routes_api r rts" "net4 nc basec (gc_clusterCIDR r)"
    "gc_listServers r w = (Ok pages, w1)" "seen_servers pages = Some srvs" "list_all wf_server srvs"
    "\<And>w. is_ok (fst (gc_getRouter r (gc_routerID r) w))"
    "\<And>w routes. is_ok (fst (gc_updateRouter r (gc_routerID r) routes w))"
  shows "\<exists>w'. routegc_Reconcile r w = (Ok (), w') \<and> rts w' = kept_routes nc basec srvs (rts w)"
proof -
  obtain hops where h: "EachPage pages (servers_loop add_server) Map.empty w1 = (Ok hops, w1)"
    "dom hops = (\<Union>srv\<in>set srvs. server_addrs srv)"
    using EachPage_servers [OF assms(4,5), of Map.empty w1] by auto
  have rts1: "rts w1 = rts w" using assms(1,3) by (auto simp: routes_api_def dest: leavesD)
  obtain w2 where g: "gc_getRouter r (gc_routerID r) w1 = (Ok (rts w), w2)" "rts w2 = rts w"
    using assms(1) assms(6) [of w1] rts1 unfolding routes_api_def
    by (cases "gc_getRouter r (gc_routerID r) w1", cases "fst (gc_getRouter r (gc_routerID r) w1)") force+
  let ?k = "kept_routes nc basec srvs (rts w)"
  obtain w3 where u: "gc_updateRouter r (gc_routerID r) ?k w2 = (Ok (), w3)" "rts w3 = ?k"
    using assms(1) assms(7) [of ?k w2] unfolding routes_api_def
    by (cases "gc_updateRouter r (gc_routerID r) ?k w2", cases "fst (gc_updateRouter r (gc_routerID r) ?k w2)") force+
  have "routegc_Reconcile r w = (if ?k \<noteq> rts w then (Ok (), w3) else (Ok (), w2))"
    using assms(3) h(1) g(1) u(1)
    by (simp add: routegc_Reconcile_def foreachServer_def live_routes_kept [OF assms(2) h(2)])
  with u(2) g(2) show ?thesis by auto
qed

text \<open>C37: A round of the collector in which the services answer removes exactly the orphaned routes:
  those whose destination lies inside the cluster network and whose next hop is no address of
  any server. The other routes stay, in their order, and the router is written only if a route
  is removed; a second round with the same servers changes nothing.\<close>

theorem routegc_exact:
  assumes "routes_api r rts" "net4 nc basec (gc_clusterCIDR r)"
    "gc_listServers r w = (Ok pages, w1)" "seen_servers pages = Some srvs" "list_all wf_server srvs"
    "\<And>w. is_ok (fst (gc_getRouter r (gc_routerID r) w))"
    "\<And>w routes. is_ok (fst (gc_updateRouter r (gc_routerID r) routes w))"
  shows "\<exists>w'. routegc_Reconcile r w = (Ok (), w') \<and> rts w' = kept_routes nc basec srvs (rts w) \<and>
    kept_routes nc basec srvs (rts w') = rts w'"
  using Reconcile_round [OF assms] kept_routes_idem by metis

definition demo_collector :: "Route list RouteGarbageCollector" where
  "demo_collector = \<lparr>gc_listServers = ret [Inr [\<lparr>rs_ID = ''s1'', rs_Addresses = [AddrList [AddrObject (Some (AddrString ''10.0.0.5''))]]\<rparr>]],
     gc_getRouter = \<lambda>_ w. (Ok w, w), gc_updateRouter = \<lambda>_ routes w. (Ok (), routes), gc_routerID = ''router'',
     gc_clusterCIDR = \<lparr>ipnet_IP = [198, 19, 0, 0], ipnet_Mask = [255, 255, 0, 0]\<rparr>\<rparr>"

definition demo_routes :: "Route list" where
  "demo_routes = [\<lparr>ro_NextHop = ''10.0.0.5'', ro_DestinationCIDR = ''198.19.1.0/24''\<rparr>,
     \<lparr>ro_NextHop = ''10.0.0.9'', ro_DestinationCIDR = ''198.19.2.0/24''\<rparr>,
     \<lparr>ro_NextHop = ''10.0.0.9'', ro_DestinationCIDR = ''10.1.0.0/16''\<rparr>]"

lemma demo_collector_run:
  "routegc_Reconcile demo_collector demo_routes = (Ok (), [demo_routes ! 0, demo_routes ! 2])"
  by code_simp

theorem routegc_exact_witness:
  "kept_routes 16 3323133952 [\<lparr>rs_ID = ''s1'', rs_Addresses = [AddrList [AddrObject (Some (AddrString ''10.0.0.5''))]]\<rparr>] demo_routes =
     [demo_routes ! 0, demo_routes ! 2]"
proof -
  let ?srvs = "[\<lparr>rs_ID = ''s1'', rs_Addresses = [AddrList [AddrObject (Some (AddrString ''10.0.0.5''))]]\<rparr>]"
  have m: "CIDRMask 16 4 = [255, 255, 0, 0]" by code_simp
  have "routes_api demo_collector id" by (simp add: routes_api_def demo_collector_def leaves_def)
  moreover have "net4 16 3323133952 (gc_clusterCIDR demo_collector)" by (simp add: net4_def demo_collector_def m)
  moreover have "gc_listServers demo_collector demo_routes = (Ok [Inr ?srvs], demo_routes)" "seen_servers [Inr ?srvs] = Some ?srvs"
    by (simp_all add: demo_collector_def)
  moreover have "list_all wf_server ?srvs" by (simp add: wf_server_def)
  moreover have "is_ok (fst (gc_getRouter demo_collector (gc_routerID demo_collector) w))"
    "is_ok (fst (gc_updateRouter demo_collector (gc_routerID demo_collector) routes w))" for w routes
    by (simp_all add: demo_collector_def)
  ultimately show ?thesis
    using routegc_exact [where r = demo_collector and rts = id and w = demo_routes] demo_collector_run by fastforce
qed

end
