(* ===== verification/Auth.thy ===== *)
theory Auth
  imports Handlers
begin

text \<open>
  Authentication and authorization of API requests (\<open>src/pkg/api/auth\<close>). The keystone client
  and the parser of policy rules are parameters; the evaluation of parsed rules follows the
  vendored policy engine (\<open>github.com/databus23/goslo.policy\<close>), the router of the vendored
  \<open>denco\<close> package is a parameter over the routes the code builds. The policy of the repository
  (\<open>src/etc/policy.json\<close>) and the operations of its API are given as data.
\<close>

section \<open>Paths\<close>

text \<open>\<open>path.Clean\<close>: \<open>acc\<close> holds the elements of the result, the last one first.\<close>

fun clean_elems :: "bool \<Rightarrow> string list \<Rightarrow> string list \<Rightarrow> string list" where
  "clean_elems rooted [] acc = rev acc"
| "clean_elems rooted (e # es) acc =
     (if e = [] \<or> e = ''.'' then clean_elems rooted es acc
      else if e = ''..'' then
        (case acc of
           [] \<Rightarrow> clean_elems rooted es (if rooted then [] else [''..''])
         | a # as \<Rightarrow> if a = ''..'' then clean_elems rooted es (''..'' # a # as) else clean_elems rooted es as)
      else clean_elems rooted es (e # acc))"

definition path_Clean :: "string \<Rightarrow> string" where
  "path_Clean p =
     (let rooted = (p \<noteq> [] \<and> hd p = CHR ''/'');
          body = Join (clean_elems rooted (Split CHR ''/'' p) []) ''/''
      in if rooted then ''/'' @ body else if body = [] then ''.'' else body)"

text \<open>The path converter replaces \<open>{x}\<close> by \<open>:x\<close>: a brace, then as few characters as possible but at
  least one, none of them a line feed, up to a closing brace.\<close>

function convert_path :: "string \<Rightarrow> string" where
  "convert_path [] = []"
| "convert_path (c # s) =
     (let inner = takeWhile (\<lambda>x. x \<noteq> CHR ''}'') (tl s)
      in if c = CHR ''{'' \<and> s \<noteq> [] \<and> CHR 0x0A \<notin> set (hd s # inner) \<and> CHR ''}'' \<in> set (tl s)
         then CHR '':'' # hd s # inner @ convert_path (drop (length inner + 2) s)
         else c # convert_path s)"
  by pat_completeness auto
termination by (relation "measure length") auto

section \<open>Policies\<close>

datatype prule =
    PAnd prule prule
  | POr prule prule
  | PNot prule
  | PCheck string string bool
  | PVariable string string
  | PTrue
  | PFalse

record PolicyContext =
  pc_Auth :: "string \<rightharpoonup> string"
  pc_Roles :: "string list"
  pc_Request :: "string \<rightharpoonup> string"

text \<open>The evaluation of a rule; \<open>fuel\<close> bounds the nesting of references to other rules, \<open>None\<close> is
  a chain that does not end. \<open>||\<close> and \<open>&&\<close> evaluate their right operand only if needed.\<close>

fun eval_rule :: "nat \<Rightarrow> (string \<rightharpoonup> prule) \<Rightarrow> PolicyContext \<Rightarrow> prule \<Rightarrow> bool option" where
  "eval_rule fuel rules c (PAnd a b) =
     (case eval_rule fuel rules c a of None \<Rightarrow> None | Some x \<Rightarrow> if x then eval_rule fuel rules c b else Some False)"
| "eval_rule fuel rules c (POr a b) =
     (case eval_rule fuel rules c a of None \<Rightarrow> None | Some x \<Rightarrow> if x then Some True else eval_rule fuel rules c b)"
| "eval_rule fuel rules c (PNot a) = map_option Not (eval_rule fuel rules c a)"
| "eval_rule fuel rules c PTrue = Some True"
| "eval_rule fuel rules c PFalse = Some False"
| "eval_rule fuel rules c (PVariable variable match) = Some (pc_Request c variable = Some match)"
| "eval_rule 0 rules c (PCheck key match isVariable) = None"
| "eval_rule (Suc fuel) rules c (PCheck key match isVariable) =
     (case (if isVariable then pc_Request c match else Some match) of
        None \<Rightarrow> Some False
      | Some m \<Rightarrow>
          if key = ''rule'' then
            (case rules m of None \<Rightarrow> Some False | Some r \<Rightarrow> eval_rule fuel rules c r)
          else if key = ''role'' then Some (m \<in> set (pc_Roles c))
          else if key = ''http'' then Some False
          else if key = ''default'' then Some (pc_Auth c ''default'' = Some m)
          else Some (pc_Auth c key = Some m))"

definition Enforce :: "nat \<Rightarrow> (string \<rightharpoonup> prule) \<Rightarrow> string \<Rightarrow> PolicyContext \<Rightarrow> bool option" where
  "Enforce fuel rules name c = (case rules name of None \<Rightarrow> Some False | Some r \<Rightarrow> eval_rule fuel rules c r)"

section \<open>The authorizer\<close>

text \<open>What a router finds for a path: the operation and the values of the path parameters.\<close>

type_synonym path_router = "string \<Rightarrow> (string \<times> (string \<times> string) list) option"

record osloPolicyAuthorizer =
  pa_rules :: "string \<rightharpoonup> prule"
  pa_routers :: "string \<rightharpoonup> path_router"

text \<open>The operations of the document: method, path and operation id. The routes of one method are
  built together.\<close>

type_synonym operations = "(string \<times> string \<times> string) list"

definition routes_for :: "operations \<Rightarrow> string \<Rightarrow> (string \<times> string) list" where
  "routes_for ops meth = map (\<lambda>(_, p, op). (convert_path p, op)) (filter (\<lambda>(m, _, _). m = meth) ops)"

fun build_routers ::
  "((string \<times> string) list \<Rightarrow> path_router outcome) \<Rightarrow> operations \<Rightarrow> string list \<Rightarrow> (string \<rightharpoonup> path_router) \<Rightarrow>
     (string \<rightharpoonup> path_router) outcome" where
  "build_routers denco_Build ops [] routers = Ok routers"
| "build_routers denco_Build ops (m # ms) routers =
     obind (denco_Build (routes_for ops m)) (\<lambda>r. build_routers denco_Build ops ms (routers(m \<mapsto> r)))"

text \<open>\<open>parseRule\<close> is the parser of the policy engine; \<open>rules\<close> is the decoded policy file. The errors
  are met in the order of Go's map iteration, the model takes the order of the lists.\<close>

fun NewEnforcer :: "(string \<Rightarrow> prule option) \<Rightarrow> (string \<times> string) list \<Rightarrow> (string \<rightharpoonup> prule) outcome" where
  "NewEnforcer parseRule [] = Ok Map.empty"
| "NewEnforcer parseRule ((name, str) # rules) =
     (case parseRule str of
        None \<Rightarrow> Fail (Errorf (''Failed to parse rule '' @ name))
      | Some r \<Rightarrow> obind (NewEnforcer parseRule rules) (\<lambda>m. Ok (m(name \<mapsto> r))))"

definition NewOsloPolicyAuthorizer ::
  "((string \<times> string) list \<Rightarrow> path_router outcome) \<Rightarrow> (string \<Rightarrow> prule option) \<Rightarrow> operations \<Rightarrow>
     (string \<times> string) list \<Rightarrow> osloPolicyAuthorizer outcome" where
  "NewOsloPolicyAuthorizer denco_Build parseRule ops rules =
     obind (build_routers denco_Build ops (remdups (map fst ops)) Map.empty) (\<lambda>routers.
     obind (NewEnforcer parseRule rules) (\<lambda>enforcer.
     Ok \<lparr>pa_rules = enforcer, pa_routers = routers\<rparr>))"

text \<open>A request is its method, its escaped path and its path.\<close>

definition policy_context :: "Principal \<Rightarrow> (string \<times> string) list \<Rightarrow> PolicyContext" where
  "policy_context user params =
     \<lparr>pc_Auth = [''user_id'' \<mapsto> pr_ID user, ''project_id'' \<mapsto> pr_Account user],
      pc_Roles = pr_Roles user, pc_Request = map_of (rev params)\<rparr>"

definition Authorize ::
  "nat \<Rightarrow> osloPolicyAuthorizer \<Rightarrow> string \<Rightarrow> string \<Rightarrow> string \<Rightarrow> Principal \<Rightarrow> unit outcome" where
  "Authorize fuel auth meth escapedPath urlPath user =
     (case pa_routers auth meth of
        None \<Rightarrow> Fail (Errorf (''No router found for method '' @ meth))
      | Some router \<Rightarrow>
          (case router (path_Clean escapedPath) of
             None \<Rightarrow> Fail (Errorf (''Operation not found for '' @ meth @ '' '' @ urlPath))
           | Some (operationID, params) \<Rightarrow>
               (case Enforce fuel (pa_rules auth) operationID (policy_context user params) of
                  None \<Rightarrow> Panics ''stack overflow''
                | Some allowed \<Rightarrow>
                    if \<not> allowed then
                      Fail (Errorf (''Authorization failed for user '' @ pr_Name user @ '' for operation '' @ operationID))
                    else Ok ())))"

section \<open>Authentication\<close>

record KeystoneToken =
  kt_UserID :: string
  kt_UserName :: string
  kt_UserDomain :: string
  kt_Project :: "string option"
  kt_Roles :: "string list"

text \<open>\<open>authURL\<close> is completed once, when the API is configured.\<close>

definition keystone_url :: "string \<Rightarrow> string" where
  "keystone_url authURL =
     (if HasSuffix authURL ''/v3'' \<or> HasSuffix authURL ''/v3/'' then authURL
      else TrimRight authURL CHR ''/'' @ ''/'' @ ''/v3'')"

text \<open>An error of the API has a status code and a message.\<close>

definition Keystone ::
  "(string \<Rightarrow> string \<Rightarrow> ('w, KeystoneToken) go) \<Rightarrow> string \<Rightarrow> string \<Rightarrow> ('w, (int \<times> string) + Principal) go" where
  "Keystone validate authURL token =
     (let url = keystone_url authURL in
      tryc (validate url token)
        (\<lambda>err. ret (Inl (401, ''Authentication failed: '' @ Error err)))
        (\<lambda>t. case kt_Project t of
               None \<Rightarrow> ret (Inl (401, ''Auth token isn't project scoped''))
             | Some project \<Rightarrow> ret (Inr \<lparr>pr_Account = project, pr_AuthURL = url, pr_Domain = kt_UserDomain t,
                 pr_ID = kt_UserID t, pr_Name = kt_UserName t, pr_Roles = kt_Roles t\<rparr>)))"

section \<open>The policy of the repository\<close>

definition policy_json :: "(string \<times> string) list" where
  "policy_json =
     [(''kubernetes_admin'', ''role:kubernetes_admin''),
      (''kubernetes_user'', ''role:kubernetes_member or role:kubernetes_admin''),
      (''GetOpenstackMetadata'', ''rule:kubernetes_admin''),
      (''ListClusters'', ''rule:kubernetes_user''),
      (''CreateCluster'', ''rule:kubernetes_admin''),
      (''ShowCluster'', ''rule:kubernetes_user''),
      (''TerminateCluster'', ''rule:kubernetes_admin''),
      (''UpdateCluster'', ''rule:kubernetes_admin''),
      (''GetClusterCredentials'', ''rule:kubernetes_user''),
      (''GetClusterEvents'', ''rule:kubernetes_user''),
      (''GetClusterInfo'', ''rule:kubernetes_user'')]"

text \<open>The rules of this file as the grammar of the policy engine reads them.\<close>

definition policy_parses :: "(string \<Rightarrow> prule option) \<Rightarrow> bool" where
  "policy_parses parseRule \<longleftrightarrow>
     parseRule ''role:kubernetes_admin'' = Some (PCheck ''role'' ''kubernetes_admin'' False) \<and>
     parseRule ''role:kubernetes_member or role:kubernetes_admin'' =
       Some (POr (PCheck ''role'' ''kubernetes_member'' False) (PCheck ''role'' ''kubernetes_admin'' False)) \<and>
     parseRule ''rule:kubernetes_admin'' = Some (PCheck ''rule'' ''kubernetes_admin'' False) \<and>
     parseRule ''rule:kubernetes_user'' = Some (PCheck ''rule'' ''kubernetes_user'' False)"

definition admin_operations :: "string list" where
  "admin_operations = [''GetOpenstackMetadata'', ''CreateCluster'', ''TerminateCluster'', ''UpdateCluster'']"

definition user_operations :: "string list" where
  "user_operations = [''ListClusters'', ''ShowCluster'', ''GetClusterCredentials'', ''GetClusterEvents'', ''GetClusterInfo'']"

definition allowed_by_policy :: "string \<Rightarrow> string list \<Rightarrow> bool" where
  "allowed_by_policy op roles \<longleftrightarrow>
     (op \<in> set admin_operations \<and> ''kubernetes_admin'' \<in> set roles) \<or>
     (op \<in> set user_operations \<and> (''kubernetes_admin'' \<in> set roles \<or> ''kubernetes_member'' \<in> set roles))"

lemma policy_enforcer:
  assumes "policy_parses parseRule"
  obtains m where "NewEnforcer parseRule policy_json = Ok m"
    "m ''kubernetes_admin'' = Some (PCheck ''role'' ''kubernetes_admin'' False)"
    "m ''kubernetes_user'' = Some (POr (PCheck ''role'' ''kubernetes_member'' False) (PCheck ''role'' ''kubernetes_admin'' False))"
    "\<And>op. op \<in> set admin_operations \<Longrightarrow> m op = Some (PCheck ''rule'' ''kubernetes_admin'' False)"
    "\<And>op. op \<in> set user_operations \<Longrightarrow> m op = Some (PCheck ''rule'' ''kubernetes_user'' False)"
    "\<And>op. op \<notin> set admin_operations \<Longrightarrow> op \<notin> set user_operations \<Longrightarrow> op \<noteq> ''kubernetes_admin'' \<Longrightarrow> op \<noteq> ''kubernetes_user'' \<Longrightarrow> m op = None"
proof -
  obtain m where m: "NewEnforcer parseRule policy_json = Ok m"
    using assms by (simp add: policy_parses_def policy_json_def)
  with assms show ?thesis
    by (intro that [of m]) (auto simp: policy_parses_def policy_json_def admin_operations_def user_operations_def)
qed

lemma Enforce_policy:
  assumes "policy_parses parseRule" "2 \<le> fuel"
    "NewOsloPolicyAuthorizer denco_Build parseRule ops policy_json = Ok auth"
    "op \<noteq> ''kubernetes_admin''" "op \<noteq> ''kubernetes_user''"
  shows "Enforce fuel (pa_rules auth) op (policy_context user params) = Some (allowed_by_policy op (pr_Roles user))"
proof -
  obtain m where m: "NewEnforcer parseRule policy_json = Ok m"
    "m ''kubernetes_admin'' = Some (PCheck ''role'' ''kubernetes_admin'' False)"
    "m ''kubernetes_user'' = Some (POr (PCheck ''role'' ''kubernetes_member'' False) (PCheck ''role'' ''kubernetes_admin'' False))"
    "\<And>op. op \<in> set admin_operations \<Longrightarrow> m op = Some (PCheck ''rule'' ''kubernetes_admin'' False)"
    "\<And>op. op \<in> set user_operations \<Longrightarrow> m op = Some (PCheck ''rule'' ''kubernetes_user'' False)"
    "\<And>op. op \<notin> set admin_operations \<Longrightarrow> op \<notin> set user_operations \<Longrightarrow> op \<noteq> ''kubernetes_admin'' \<Longrightarrow> op \<noteq> ''kubernetes_user'' \<Longrightarrow> m op = None"
    using policy_enforcer [OF assms(1)] by blast
  have rules: "pa_rules auth = m"
    using assms(3) m(1) by (auto simp: NewOsloPolicyAuthorizer_def elim!: obind_OkE)
  obtain f where fuel: "fuel = Suc (Suc f)" using assms(2) by (metis Suc_le_D numeral_2_eq_2 Suc_le_mono)
  have disjoint: "op \<in> set admin_operations \<Longrightarrow> op \<notin> set user_operations" for op
    by (auto simp: admin_operations_def user_operations_def)
  show ?thesis
  proof (cases "op \<in> set admin_operations \<or> op \<in> set user_operations")
    case True
    then show ?thesis
      using m(2-5) disjoint [of op] by (auto simp: Enforce_def fuel allowed_by_policy_def policy_context_def rules)
  next
    case False
    then show ?thesis using m(6) [of op] assms(4,5) by (simp add: Enforce_def allowed_by_policy_def rules)
  qed
qed

lemma Authorize_by_policy:
  assumes "policy_parses parseRule" "2 \<le> fuel"
    "NewOsloPolicyAuthorizer denco_Build parseRule ops policy_json = Ok auth"
    "op \<noteq> ''kubernetes_admin''" "op \<noteq> ''kubernetes_user''"
    "pa_routers auth meth = Some router" "router (path_Clean path) = Some (op, params)"
  shows "Authorize fuel auth meth path urlPath user =
    (if allowed_by_policy op (pr_Roles user) then Ok ()
     else Fail (Errorf (''Authorization failed for user '' @ pr_Name user @ '' for operation '' @ op)))"
  using Enforce_policy [OF assms(1-5), of user params] assms(6,7) by (simp add: Authorize_def)

text \<open>C38: Who may call what, under the policy of the repository. Whatever the routers, a request
  that is routed to an operation other than a rule name is authorized exactly if the policy
  lists the operation for a role of the user: the four writing operations for administrators,
  the five reading operations for administrators and members, nothing for anyone else. A
  request of an unknown method or path is refused, and no check runs without end.\<close>

theorem access_matrix:
  assumes "policy_parses parseRule" "2 \<le> fuel"
    "NewOsloPolicyAuthorizer denco_Build parseRule ops policy_json = Ok auth"
    "\<And>router p op params. pa_routers auth meth = Some router \<Longrightarrow> router p = Some (op, params) \<Longrightarrow>
       op \<noteq> ''kubernetes_admin'' \<and> op \<noteq> ''kubernetes_user''"
  shows "(Authorize fuel auth meth path urlPath user = Ok () \<longleftrightarrow>
      (\<exists>router op params. pa_routers auth meth = Some router \<and> router (path_Clean path) = Some (op, params) \<and>
         allowed_by_policy op (pr_Roles user))) \<and>
    \<not> is_panic (Authorize fuel auth meth path urlPath user)"
proof -
  show ?thesis
  proof (cases "\<exists>router op params. pa_routers auth meth = Some router \<and> router (path_Clean path) = Some (op, params)")
    case True
    then obtain router op params where r: "pa_routers auth meth = Some router" "router (path_Clean path) = Some (op, params)" by blast
    with assms(4) have "op \<noteq> ''kubernetes_admin''" "op \<noteq> ''kubernetes_user''" by blast+
    from Authorize_by_policy [OF assms(1-3) this r] r show ?thesis by auto
  next
    case False
    then show ?thesis by (auto simp: Authorize_def split: option.splits)
  qed
qed

text \<open>A router for paths without parameters, and a parser for the rules of the policy.\<close>

definition plain_router :: "(string \<times> string) list \<Rightarrow> path_router" where
  "plain_router routes p = map_option (\<lambda>op. (op, [])) (map_of routes p)"

definition plain_Build :: "(string \<times> string) list \<Rightarrow> path_router outcome" where
  "plain_Build routes = Ok (plain_router routes)"

definition demo_parse :: "string \<Rightarrow> prule option" where
  "demo_parse s = map_of
     [(''role:kubernetes_admin'', PCheck ''role'' ''kubernetes_admin'' False),
      (''role:kubernetes_member or role:kubernetes_admin'',
         POr (PCheck ''role'' ''kubernetes_member'' False) (PCheck ''role'' ''kubernetes_admin'' False)),
      (''rule:kubernetes_admin'', PCheck ''rule'' ''kubernetes_admin'' False),
      (''rule:kubernetes_user'', PCheck ''rule'' ''kubernetes_user'' False)] s"

definition demo_ops :: operations where
  "demo_ops = [(''GET'', ''/api/v1/clusters'', ''ListClusters''), (''POST'', ''/api/v1/clusters'', ''CreateCluster'')]"

definition demo_user_admin :: Principal where
  "demo_user_admin = \<lparr>pr_Account = ''b42'', pr_AuthURL = [], pr_Domain = [], pr_ID = ''u1'', pr_Name = ''eve'',
     pr_Roles = [''kubernetes_admin'']\<rparr>"

definition demo_user_member :: Principal where
  "demo_user_member = demo_user_admin\<lparr>pr_Roles := [''kubernetes_member'']\<rparr>"

lemma demo_parses: "policy_parses demo_parse"
  by (simp add: policy_parses_def demo_parse_def)

lemma demo_methods: "remdups (map fst demo_ops) = [''GET'', ''POST'']"
  by code_simp

lemma demo_paths: "routes_for demo_ops ''POST'' = [(''/api/v1/clusters'', ''CreateCluster'')]"
    "path_Clean ''/api//v1/x/../clusters/'' = ''/api/v1/clusters''"
    "convert_path ''/api/v1/clusters/{name}/info'' = ''/api/v1/clusters/:name/info''"
  by code_simp+

theorem access_matrix_witness:
  "\<exists>auth. NewOsloPolicyAuthorizer plain_Build demo_parse demo_ops policy_json = Ok auth \<and>
     Authorize 2 auth ''POST'' ''/api//v1/x/../clusters/'' [] demo_user_admin = Ok () \<and>
     Authorize 2 auth ''POST'' ''/api//v1/x/../clusters/'' [] demo_user_member \<noteq> Ok ()"
proof -
  obtain m where m: "NewEnforcer demo_parse policy_json = Ok m" by (rule policy_enforcer [OF demo_parses])
  have ops: "plain_router (routes_for demo_ops ''POST'') p = Some (op, params) \<Longrightarrow> op = ''CreateCluster''" for p op params
    by (auto simp: demo_paths plain_router_def split: if_splits)
  let ?auth = "\<lparr>pa_rules = m, pa_routers = [''GET'' \<mapsto> plain_router (routes_for demo_ops ''GET''),
     ''POST'' \<mapsto> plain_router (routes_for demo_ops ''POST'')]\<rparr>"
  have a: "NewOsloPolicyAuthorizer plain_Build demo_parse demo_ops policy_json = Ok ?auth"
    unfolding NewOsloPolicyAuthorizer_def demo_methods m by (simp add: plain_Build_def)
  have nm: "op \<noteq> ''kubernetes_admin'' \<and> op \<noteq> ''kubernetes_user''"
    if "pa_routers ?auth ''POST'' = Some router" "router p = Some (op, params)" for router p op params
  proof -
    from that(1) have "router = plain_router (routes_for demo_ops ''POST'')" by simp
    with ops [of p op params] that(2) have "op = ''CreateCluster''" by simp
    then show ?thesis by simp
  qed
  have matrix: "(Authorize 2 ?auth ''POST'' path [] user = Ok () \<longleftrightarrow>
      (\<exists>router op params. pa_routers ?auth ''POST'' = Some router \<and> router (path_Clean path) = Some (op, params) \<and>
         allowed_by_policy op (pr_Roles user))) \<and>
    \<not> is_panic (Authorize 2 ?auth ''POST'' path [] user)" for path user
    by (rule access_matrix [OF demo_parses order_refl a]) (rule nm)
  have "allowed_by_policy ''CreateCluster'' (pr_Roles demo_user_admin)" "\<not> allowed_by_policy ''CreateCluster'' (pr_Roles demo_user_member)"
    by (simp_all add: allowed_by_policy_def admin_operations_def user_operations_def demo_user_admin_def demo_user_member_def)
  moreover note matrix [of "''/api//v1/x/../clusters/''" demo_user_admin]
  moreover note matrix [of "''/api//v1/x/../clusters/''" demo_user_member]
  moreover have "plain_router (routes_for demo_ops ''POST'') ''/api/v1/clusters'' = Some (''CreateCluster'', [])"
    by (simp add: demo_paths plain_router_def)
  ultimately show ?thesis using a by (intro exI [of _ ?auth]) (simp add: demo_paths)
qed

end
