(* ===== verification/Ctl.thy ===== *)
theory Ctl
  imports Auth
begin

text \<open>
  The command line tool (\<open>src/pkg/cmd/kubernikusctl\<close>) and the part of the generated API client it
  uses (\<open>src/pkg/api/client/operations\<close>): how a response of the API is read, what the client
  methods make of it, the OpenStack options with their validation, and the commands \<open>get\<close>,
  \<open>create\<close> and \<open>delete\<close>. A parsed URL is represented by its text. The HTTP transport, keystone, the kubeconfig files
  and the terminal are parameters. A command ends with the text it prints or with the error
  that \<open>CheckError\<close> reports.
\<close>

section \<open>Reading responses\<close>

text \<open>A response on the wire: the status code, the payload that its body decodes to in case of
  success and in case of an error (the message may be missing), or the error of decoding.\<close>

record 'a http_response =
  hr_Code :: int
  hr_Payload :: "'a outcome"
  hr_Error :: "string option outcome"

datatype 'a api_result = ApiOK 'a | ApiDefault int "string option" | ApiError goerr | ApiPanic string

text \<open>A code of the 2xx range other than the documented one is returned as a success of the wrong
  type: the type assertion of the client method panics.\<close>

definition read_response :: "int \<Rightarrow> 'a http_response \<Rightarrow> 'a api_result" where
  "read_response okCode r =
     (if hr_Code r = okCode then
        (case hr_Payload r of Ok x \<Rightarrow> ApiOK x | Fail e \<Rightarrow> ApiError e | Panics s \<Rightarrow> ApiPanic s)
      else
        (case hr_Error r of
           Ok msg \<Rightarrow> if hr_Code r div 100 = 2 then ApiPanic ''interface conversion'' else ApiDefault (hr_Code r) msg
         | Fail e \<Rightarrow> ApiError e
         | Panics s \<Rightarrow> ApiPanic s))"

definition read_GetClusterCredentials :: "string http_response \<Rightarrow> string api_result" where
  "read_GetClusterCredentials = read_response 200"

definition read_CreateCluster :: "ModelsKluster http_response \<Rightarrow> ModelsKluster api_result" where
  "read_CreateCluster = read_response 201"

text \<open>A termination that was accepted has no payload.\<close>

definition read_TerminateCluster :: "unit http_response \<Rightarrow> unit api_result" where
  "read_TerminateCluster r = read_response 202 (r\<lparr>hr_Payload := Ok ()\<rparr>)"

definition read_ShowCluster :: "ModelsKluster http_response \<Rightarrow> ModelsKluster api_result" where
  "read_ShowCluster = read_response 200"

definition read_ListClusters :: "ModelsKluster list http_response \<Rightarrow> ModelsKluster list api_result" where
  "read_ListClusters = read_response 200"

section \<open>The client\<close>

text \<open>The transport sends a request with the token and returns the response or an error.\<close>

record 'w Transport =
  tr_GetClusterCredentials :: "string \<Rightarrow> string \<Rightarrow> ('w, string http_response) go"
  tr_CreateCluster :: "string \<Rightarrow> ModelsKluster \<Rightarrow> ('w, ModelsKluster http_response) go"
  tr_TerminateCluster :: "string \<Rightarrow> string \<Rightarrow> ('w, unit http_response) go"
  tr_ShowCluster :: "string \<Rightarrow> string \<Rightarrow> ('w, ModelsKluster http_response) go"
  tr_ListClusters :: "string \<Rightarrow> ('w, ModelsKluster list http_response) go"

record 'w KubernikusClient =
  kcl_token :: string
  kcl_transport :: "'w Transport"

definition Wrap :: "string \<Rightarrow> goerr \<Rightarrow> goerr" where
  "Wrap msg err = Errorf (msg @ '': '' @ Error err)"

text \<open>The type switch on the error of a call: an answer of the API, with its message used as a
  format, or any other error, which is wrapped.\<close>

definition api_call ::
  "('w, 'b http_response) go \<Rightarrow> ('b http_response \<Rightarrow> 'b api_result) \<Rightarrow> (int \<Rightarrow> string \<Rightarrow> string) \<Rightarrow> string \<Rightarrow> ('w, 'b) go" where
  "api_call call reader message wrap =
     tryc call (\<lambda>err. fail (Wrap wrap err)) (\<lambda>resp.
       case reader resp of
         ApiOK x \<Rightarrow> ret x
       | ApiDefault code None \<Rightarrow> panic ''invalid memory address or nil pointer dereference''
       | ApiDefault code (Some msg) \<Rightarrow> fail (Errorf (message code msg))
       | ApiError err \<Rightarrow> fail (Wrap wrap err)
       | ApiPanic s \<Rightarrow> panic s)"

definition plain_message :: "int \<Rightarrow> string \<Rightarrow> string" where
  "plain_message code msg = Sprintf0 msg"

text \<open>For the code 404 the message is not looked at.\<close>

definition GetCredentials :: "'w KubernikusClient \<Rightarrow> string \<Rightarrow> ('w, string) go" where
  "GetCredentials k name =
     tryc (tr_GetClusterCredentials (kcl_transport k) (kcl_token k) name)
       (\<lambda>err. fail (Wrap ''A generic error occured'' err))
       (\<lambda>resp.
         case read_GetClusterCredentials resp of
           ApiOK x \<Rightarrow> ret x
         | ApiDefault code msg \<Rightarrow>
             if code = 404 then fail (Errorf (''Cluster '' @ name @ '' not found''))
             else (case msg of
                     None \<Rightarrow> panic ''invalid memory address or nil pointer dereference''
                   | Some m \<Rightarrow> fail (Errorf (Sprintf0 m)))
         | ApiError err \<Rightarrow> fail (Wrap ''A generic error occured'' err)
         | ApiPanic s \<Rightarrow> panic s)"

definition ctl_CreateCluster :: "'w KubernikusClient \<Rightarrow> ModelsKluster \<Rightarrow> ('w, unit) go" where
  "ctl_CreateCluster k cluster =
     bnd (api_call (tr_CreateCluster (kcl_transport k) (kcl_token k) cluster) read_CreateCluster plain_message
            ''Error creating cluster'') (\<lambda>_. ret ())"

definition ctl_DeleteCluster :: "'w KubernikusClient \<Rightarrow> string \<Rightarrow> ('w, unit) go" where
  "ctl_DeleteCluster k name =
     api_call (tr_TerminateCluster (kcl_transport k) (kcl_token k) name) read_TerminateCluster plain_message
       ''Error deleting cluster''"

definition ctl_ShowCluster :: "'w KubernikusClient \<Rightarrow> string \<Rightarrow> ('w, ModelsKluster) go" where
  "ctl_ShowCluster k name =
     api_call (tr_ShowCluster (kcl_transport k) (kcl_token k) name) read_ShowCluster plain_message
       ''Getting cluster failed''"

definition no_cluster :: goerr where
  "no_cluster = Errorf ''There's no cluster in this project''"

definition ListAllClusters :: "'w KubernikusClient \<Rightarrow> ('w, ModelsKluster list) go" where
  "ListAllClusters k =
     bnd (api_call (tr_ListClusters (kcl_transport k) (kcl_token k)) read_ListClusters plain_message
            ''Listing clusters failed'') (\<lambda>payload.
       if length payload = 0 then fail no_cluster else ret payload)"

definition ListNodePools :: "'w KubernikusClient \<Rightarrow> string \<Rightarrow> ('w, NodePool list) go" where
  "ListNodePools k clusterName = bnd (ctl_ShowCluster k clusterName) (\<lambda>c. ret (spec_NodePools (mk_Spec c)))"

text \<open>A pool that does not exist is a nil pool without an error.\<close>

definition ShowNodePool :: "'w KubernikusClient \<Rightarrow> string \<Rightarrow> string \<Rightarrow> ('w, NodePool option) go" where
  "ShowNodePool k clusterName nodePoolName =
     bnd (ctl_ShowCluster k clusterName) (\<lambda>c.
     ret (List.find (\<lambda>p. np_Name p = nodePoolName) (spec_NodePools (mk_Spec c))))"

definition GetDefaultCluster :: "'w KubernikusClient \<Rightarrow> ('w, ModelsKluster) go" where
  "GetDefaultCluster k =
     bnd (api_call (tr_ListClusters (kcl_transport k) (kcl_token k)) read_ListClusters plain_message
            ''Listing clusters failed'') (\<lambda>payload.
       case payload of
         [] \<Rightarrow> fail no_cluster
       | [c] \<Rightarrow> ret c
       | _ \<Rightarrow> fail (Errorf ''There's more than one cluster in this project.''))"

section \<open>OpenStack options\<close>

record OpenstackAuth =
  oa_IdentityEndpoint :: string
  oa_Username :: string
  oa_UserID :: string
  oa_Password :: string
  oa_DomainID :: string
  oa_DomainName :: string
  oa_ProjectID :: string
  oa_ProjectName :: string
  oa_ScopeDomainID :: string
  oa_ScopeDomainName :: string

text \<open>\<open>getenv\<close> is \<open>os.Getenv\<close>: a variable that is not set is empty.\<close>

definition NewOpenstackClient :: "(string \<Rightarrow> string) \<Rightarrow> OpenstackAuth" where
  "NewOpenstackClient getenv =
     \<lparr>oa_IdentityEndpoint = getenv ''OS_AUTH_URL'', oa_Username = getenv ''OS_USERNAME'', oa_UserID = getenv ''OS_USER_ID'',
      oa_Password = getenv ''OS_PASSWORD'', oa_DomainID = getenv ''OS_USER_DOMAIN_ID'',
      oa_DomainName = getenv ''OS_USER_DOMAIN_NAME'', oa_ProjectID = getenv ''OS_PROJECT_ID'',
      oa_ProjectName = getenv ''OS_PROJECT_NAME'', oa_ScopeDomainID = getenv ''OS_PROJECT_DOMAIN_ID'',
      oa_ScopeDomainName = getenv ''OS_PROJECT_DOMAIN_NAME''\<rparr>"

text \<open>A flag that is given replaces the value; the default of the password flag is empty, so that the
  password of the environment is dropped here and read again by \<open>Setup\<close>.\<close>

definition BindFlags :: "(string \<rightharpoonup> string) \<Rightarrow> OpenstackAuth \<Rightarrow> OpenstackAuth" where
  "BindFlags flag o1 =
     (let v = (\<lambda>name old. case flag name of Some x \<Rightarrow> x | None \<Rightarrow> old)
      in \<lparr>oa_IdentityEndpoint = v ''auth-url'' (oa_IdentityEndpoint o1), oa_Username = v ''username'' (oa_Username o1),
          oa_UserID = v ''user-id'' (oa_UserID o1), oa_Password = v ''password'' [],
          oa_DomainID = v ''user-domain-id'' (oa_DomainID o1), oa_DomainName = v ''user-domain-name'' (oa_DomainName o1),
          oa_ProjectID = v ''project-id'' (oa_ProjectID o1), oa_ProjectName = v ''project-name'' (oa_ProjectName o1),
          oa_ScopeDomainID = v ''project-domain-id'' (oa_ScopeDomainID o1),
          oa_ScopeDomainName = v ''project-domain-name'' (oa_ScopeDomainName o1)\<rparr>)"

text \<open>\<open>url_ok\<close> tells whether \<open>url.Parse\<close> succeeds. The last test reads the domain of the user.\<close>

definition OpenstackAuth_Validate :: "(string \<Rightarrow> bool) \<Rightarrow> OpenstackAuth \<Rightarrow> goerr option" where
  "OpenstackAuth_Validate url_ok o1 =
     (if oa_IdentityEndpoint o1 = [] then Some (Errorf ''You need to provide --auth-url or OS_AUTH_URL'')
      else if \<not> url_ok (oa_IdentityEndpoint o1) then Some (Errorf ''The URL for the Kubernikus API is not parsable'')
      else if oa_Username o1 = [] \<and> oa_UserID o1 = []
      then Some (Errorf ''You need to provide --username/--user-id or OS_USERNAME/OS_USER_ID'')
      else if oa_Username o1 \<noteq> [] \<and> oa_DomainName o1 = [] \<and> oa_DomainID o1 = []
      then Some (Errorf ''You need to provide --user-domain-name/--user-domain-id or OS_USER_DOMAIN_NAME/OS_USER_DOMAIN_ID'')
      else if oa_ProjectName o1 = [] \<and> oa_ProjectID o1 = []
      then Some (Errorf ''You need to provide --project-name/--project-id or OS_PROJECT_NAME/OS_PROJECT_ID'')
      else if oa_ProjectName o1 \<noteq> [] \<and> oa_ScopeDomainName o1 = [] \<and> oa_DomainID o1 = []
      then Some (Errorf ''You need to provide --project-domain-name/--project-domain-id or OS_PROJECT_DOMAIN_NAME/OS_PROJECT_DOMAIN_ID'')
      else None)"

definition PrintAuthInfo :: "OpenstackAuth \<Rightarrow> string" where
  "PrintAuthInfo o1 =
     (let user = (if oa_UserID o1 \<noteq> [] then oa_UserID o1
                  else (if oa_DomainID o1 \<noteq> [] then oa_DomainID o1 else oa_DomainName o1) @ ''/'' @ oa_Username o1);
          scope = (if oa_ProjectID o1 \<noteq> [] then oa_ProjectID o1
                   else (if oa_ScopeDomainID o1 \<noteq> [] then oa_ScopeDomainID o1 else oa_ScopeDomainName o1)
                        @ ''/'' @ oa_ProjectName o1)
      in ''Authenticating '' @ user @ '' at '' @ scope)"

text \<open>A service catalog: the services with their endpoints, each an interface and a URL.\<close>

type_synonym catalog = "(string \<times> (string \<times> string) list) list"

text \<open>What the tool reads from and writes to: keystone, files, the terminal, the clock. \<open>'p\<close> is a
  provider client, \<open>'c\<close> a loaded kubeconfig.\<close>

record ('w, 'p) ctl_services =
  cv_getenv :: "string \<Rightarrow> string"
  cv_NewClient :: "string \<Rightarrow> ('w, 'p) go"
  cv_NewIdentityV3 :: "'p \<Rightarrow> ('w, unit) go"
  cv_AuthenticateV3 :: "'p \<Rightarrow> OpenstackAuth \<Rightarrow> ('w, string) go"
  cv_Catalog :: "'p \<Rightarrow> OpenstackAuth \<Rightarrow> ('w, catalog) go"
  cv_url_Parse :: "string \<Rightarrow> unit outcome"
  cv_transport :: "string \<Rightarrow> 'w Transport"
  cv_GetPasswd :: "('w, string) go"
  cv_now :: "('w, int) go"
  cv_print :: "string \<Rightarrow> ('w, unit) go"

definition Setup :: "('w, 'p) ctl_services \<Rightarrow> OpenstackAuth \<Rightarrow> ('w, 'p \<times> OpenstackAuth) go" where
  "Setup sv o1 =
     (let o2 = (if oa_Password o1 = [] then o1\<lparr>oa_Password := cv_getenv sv ''OS_PASSWORD''\<rparr> else o1) in
      tryc (cv_NewClient sv (oa_IdentityEndpoint o2))
        (\<lambda>err. fail (Wrap ''Creating Gophercloud ProviderClient failed'' err))
        (\<lambda>p. tryc (cv_NewIdentityV3 sv p)
               (\<lambda>err. fail (Wrap ''Creating Identity ServiceClient failed'' err))
               (\<lambda>_. ret (p, o2))))"

text \<open>The last public endpoint of the last kubernikus service.\<close>

definition catalog_url :: "catalog \<Rightarrow> string" where
  "catalog_url entries =
     foldl (\<lambda>result (ty, endpoints). if ty = ''kubernikus''
        then foldl (\<lambda>r (iface, url). if iface = ''public'' then url else r) result endpoints else result) [] entries"

definition DefaultKubernikusURL :: "('w, 'p) ctl_services \<Rightarrow> 'p \<Rightarrow> OpenstackAuth \<Rightarrow> ('w, string) go" where
  "DefaultKubernikusURL sv p o1 =
     tryc (cv_Catalog sv p o1)
       (\<lambda>err. fail (Wrap ''Couldn't fetch service catalog'' err))
       (\<lambda>entries.
         let result = catalog_url entries in
         if result = [] then fail (Errorf ''No public Kubernikus service found in the service catalog'')
         else (case cv_url_Parse sv result of
                 Ok _ \<Rightarrow> ret result
               | Fail err \<Rightarrow> fail (Wrap ''The URL for the Kubernikus API is not parsable'' err)
               | Panics s \<Rightarrow> panic s))"

text \<open>\<open>NewKubernikusClient\<close> reads the scheme, the host and the path of the URL: a nil URL panics.\<close>

definition NewKubernikusClient :: "('w, 'p) ctl_services \<Rightarrow> string option \<Rightarrow> string \<Rightarrow> ('w, 'w KubernikusClient) go" where
  "NewKubernikusClient sv url token =
     (case url of
        None \<Rightarrow> panic ''invalid memory address or nil pointer dereference''
      | Some u \<Rightarrow> ret \<lparr>kcl_token = token, kcl_transport = cv_transport sv u\<rparr>)"

section \<open>The commands get, create and delete\<close>

text \<open>\<open>PersistentPreRun\<close> of all three: the token and the provider client.\<close>

definition PersistentPreRun ::
  "('w, 'p) ctl_services \<Rightarrow> OpenstackAuth \<Rightarrow> ('w, 'p \<times> string \<times> OpenstackAuth) go" where
  "PersistentPreRun sv o1 =
     (case OpenstackAuth_Validate (\<lambda>u. is_ok (cv_url_Parse sv u)) o1 of
        Some err \<Rightarrow> fail err
      | None \<Rightarrow>
          bnd (Setup sv o1) (\<lambda>(p, o2).
          bnd (cv_AuthenticateV3 sv p o2) (\<lambda>token.
          ret (p, token, o2))))"

definition detection_failed :: goerr where
  "detection_failed = Errorf ''You need to provide --url. Auto-Detection failed.''"

definition detect_url :: "('w, 'p) ctl_services \<Rightarrow> 'p \<Rightarrow> OpenstackAuth \<Rightarrow> ('w, string) go" where
  "detect_url sv p o1 =
     bnd (cv_print sv (''Auto-Detecting Kubernikus Host ...'' @ nl)) (\<lambda>_.
     tryc (DefaultKubernikusURL sv p o1) (\<lambda>_. fail detection_failed) ret)"

definition GetOptions_SetupKubernikusClient ::
  "('w, 'p) ctl_services \<Rightarrow> string \<Rightarrow> 'p \<times> string \<times> OpenstackAuth \<Rightarrow> ('w, 'w KubernikusClient) go" where
  "GetOptions_SetupKubernikusClient sv url_flag = (\<lambda>(p, token, o1).
     if url_flag = [] then bnd (detect_url sv p o1) (\<lambda>u. NewKubernikusClient sv (Some u) token)
     else (case cv_url_Parse sv url_flag of
             Ok _ \<Rightarrow> NewKubernikusClient sv (Some url_flag) token
           | Fail err \<Rightarrow> fail (Wrap ''Error parsing url'' err)
           | Panics s \<Rightarrow> panic s))"

text \<open>The commands create and delete never parse the URL they are given.\<close>

definition CreateOptions_SetupKubernikusClient ::
  "('w, 'p) ctl_services \<Rightarrow> string \<Rightarrow> 'p \<times> string \<times> OpenstackAuth \<Rightarrow> ('w, 'w KubernikusClient) go" where
  "CreateOptions_SetupKubernikusClient sv url_flag = (\<lambda>(p, token, o1).
     if url_flag = [] then bnd (detect_url sv p o1) (\<lambda>u. NewKubernikusClient sv (Some u) token)
     else NewKubernikusClient sv None token)"

definition DeleteOptions_SetupKubernikusClient ::
  "('w, 'p) ctl_services \<Rightarrow> string \<Rightarrow> 'p \<times> string \<times> OpenstackAuth \<Rightarrow> ('w, 'w KubernikusClient) go" where
  "DeleteOptions_SetupKubernikusClient sv url_flag = (\<lambda>(p, token, o1).
     if url_flag = [] then bnd (detect_url sv p o1) (\<lambda>u. NewKubernikusClient sv (Some u) token)
     else NewKubernikusClient sv None token)"

text \<open>Printing writes the text that was printed also when it ends with an error.\<close>

definition print_outcome :: "('w, 'p) ctl_services \<Rightarrow> string \<times> unit outcome \<Rightarrow> ('w, unit) go" where
  "print_outcome sv r = bnd (cv_print sv (fst r)) (\<lambda>_. lift_outcome (snd r))"

definition clusterList :: "('w, 'p) ctl_services \<Rightarrow> 'w KubernikusClient \<Rightarrow> ('w, unit) go" where
  "clusterList sv k =
     tryc (ListAllClusters k) (\<lambda>err. fail (Wrap ''Error listing clusters'' err))
       (\<lambda>clusters. print_outcome sv (PrintTable (map Kluster_Printable clusters)))"

definition clusterShow :: "('w, 'p) ctl_services \<Rightarrow> 'w KubernikusClient \<Rightarrow> string \<Rightarrow> ('w, unit) go" where
  "clusterShow sv k name =
     tryc (ctl_ShowCluster k name) (\<lambda>err. fail (Wrap ''Error getting cluster'' err))
       (\<lambda>cluster. bnd (lift_outcome (Kluster_Print Human \<lparr>WithHeaders = False\<rparr> cluster)) (cv_print sv))"

definition nodePoolList :: "('w, 'p) ctl_services \<Rightarrow> 'w KubernikusClient \<Rightarrow> string \<Rightarrow> ('w, unit) go" where
  "nodePoolList sv k cluster =
     tryc (ListNodePools k cluster) (\<lambda>err. fail (Wrap ''Error listing nodepools'' err))
       (\<lambda>nodePools. print_outcome sv (PrintTable (map NodePool_Printable nodePools)))"

text \<open>The nil pool is dereferenced.\<close>

definition nodePoolShow :: "('w, 'p) ctl_services \<Rightarrow> 'w KubernikusClient \<Rightarrow> string \<Rightarrow> string \<Rightarrow> ('w, unit) go" where
  "nodePoolShow sv k cluster nodePoolName =
     tryc (ShowNodePool k cluster nodePoolName) (\<lambda>err. fail (Wrap ''Error getting nodepool'' err))
       (\<lambda>pool. bnd (nil_deref pool) (\<lambda>p.
          bnd (lift_outcome (NodePool_Print Human \<lparr>WithHeaders = False\<rparr> p)) (cv_print sv)))"

text \<open>The list of the arguments, as \<open>fmt\<close> prints it.\<close>

definition fmt_args :: "string list \<Rightarrow> string" where
  "fmt_args args = ''['' @ Join args '' '' @ '']''"

definition get_cluster :: "('w, 'p) ctl_services \<Rightarrow> string \<Rightarrow> OpenstackAuth \<Rightarrow> string list \<Rightarrow> ('w, unit) go" where
  "get_cluster sv url_flag o1 args =
     bnd (PersistentPreRun sv o1) (\<lambda>st.
       if length args > 1 then fail (Errorf (''Surplus arguments to cluster, '' @ fmt_args args))
       else bnd (GetOptions_SetupKubernikusClient sv url_flag st) (\<lambda>k.
         case args of [name] \<Rightarrow> clusterShow sv k name | _ \<Rightarrow> clusterList sv k))"

definition get_nodepool :: "('w, 'p) ctl_services \<Rightarrow> string \<Rightarrow> OpenstackAuth \<Rightarrow> string list \<Rightarrow> ('w, unit) go" where
  "get_nodepool sv url_flag o1 args =
     bnd (PersistentPreRun sv o1) (\<lambda>st.
       if length args > 2 then fail (Errorf (''Surplus arguments to nodepool, '' @ fmt_args args))
       else if length args < 1 then fail (Errorf (''No clustername given, '' @ fmt_args args))
       else bnd (GetOptions_SetupKubernikusClient sv url_flag st) (\<lambda>k.
         case args of [cluster, name] \<Rightarrow> nodePoolShow sv k cluster name | cluster # _ \<Rightarrow> nodePoolList sv k cluster))"

text \<open>\<open>readFile\<close> and \<open>readStdin\<close> are \<open>ioutil.ReadFile\<close> and \<open>ioutil.ReadAll(os.Stdin)\<close>, \<open>unmarshal\<close> is
  the JSON decoder.\<close>

definition read_spec :: "(string \<Rightarrow> ('w, string) go) \<Rightarrow> ('w, string) go \<Rightarrow> string \<Rightarrow> ('w, string) go" where
  "read_spec readFile readStdin file =
     (if file \<noteq> [] then tryc (readFile file) (\<lambda>err. fail (Wrap ''Error reading from spec file'' err)) ret
      else tryc readStdin (\<lambda>err. fail (Wrap ''Error reading from Stdin'' err)) ret)"

definition create_cluster ::
  "('w, 'p) ctl_services \<Rightarrow> (string \<Rightarrow> ('w, string) go) \<Rightarrow> ('w, string) go \<Rightarrow> (string \<Rightarrow> ModelsKluster outcome) \<Rightarrow>
     string \<Rightarrow> string \<Rightarrow> OpenstackAuth \<Rightarrow> string list \<Rightarrow> ('w, unit) go" where
  "create_cluster sv readFile readStdin unmarshal file url_flag o1 args =
     bnd (PersistentPreRun sv o1) (\<lambda>st.
       if length args \<noteq> 0 then fail (Errorf (''Unexpected Argument to cluster: '' @ fmt_args args))
       else bnd (CreateOptions_SetupKubernikusClient sv url_flag st) (\<lambda>k.
            bnd (read_spec readFile readStdin file) (\<lambda>raw.
            bnd (lift_outcome (unmarshal raw)) (\<lambda>cluster.
            bnd (ctl_CreateCluster k cluster) (\<lambda>_.
            cv_print sv (''Cluster '' @ mk_Name cluster @ '' created.''))))))"

definition delete_cluster :: "('w, 'p) ctl_services \<Rightarrow> string \<Rightarrow> OpenstackAuth \<Rightarrow> string list \<Rightarrow> ('w, unit) go" where
  "delete_cluster sv url_flag o1 args =
     bnd (PersistentPreRun sv o1) (\<lambda>st.
       if length args > 1 then fail (Errorf ''Surplus arguments to cluster delete.'')
       else if length args < 1 then fail (Errorf ''Please supply the name of the cluster to be deleted.'')
       else bnd (DeleteOptions_SetupKubernikusClient sv url_flag st) (\<lambda>k.
            bnd (ctl_DeleteCluster k (hd args)) (\<lambda>_.
            cv_print sv (''Cluster '' @ hd args @ '' scheduled for deletion.''))))"

end
