(* ===== verification/CtlAuth.thy ===== *)
theory CtlAuth
  imports Ctl HandlersLaws
begin

text \<open>
  The commands \<open>kubernikusctl auth init\<close> and \<open>auth refresh\<close>
  (\<open>src/pkg/cmd/kubernikusctl/auth/init.go\<close>, \<open>refresh.go\<close>). \<open>refresh\<close> finds everything it needs in the
  client certificate of the kubeconfig, where the handler of \<open>src/pkg/api/handlers/get_cluster_credentials.go\<close>
  has put it. The files, the merge of two kubeconfigs and the decoding of certificates are parameters.
\<close>

section \<open>Kubeconfigs\<close>

record kube_context =
  kx_Cluster :: string
  kx_AuthInfo :: string

record kube_authinfo =
  ka_ClientCertificateData :: "string option"
  ka_ClientKeyData :: "string option"
  ka_Username :: string

record kube_cluster =
  ku_Server :: string
  ku_CertificateAuthorityData :: "string option"

record kubeconfig =
  kf_CurrentContext :: string
  kf_Contexts :: "string \<rightharpoonup> kube_context"
  kf_AuthInfos :: "string \<rightharpoonup> kube_authinfo"
  kf_Clusters :: "string \<rightharpoonup> kube_cluster"

text \<open>\<open>clientcmd\<close>, \<open>mergo\<close> and the decoders. \<open>ModifyConfig\<close> writes to the given path, or to the default
  one.\<close>

record 'w config_services =
  cf_LoadFromFile :: "string \<Rightarrow> ('w, kubeconfig) go"
  cf_GetStartingConfig :: "('w, kubeconfig) go"
  cf_Load :: "string \<Rightarrow> kubeconfig outcome"
  cf_MergeWithOverwrite :: "kubeconfig \<Rightarrow> kubeconfig \<Rightarrow> kubeconfig outcome"
  cf_ModifyConfig :: "string option \<Rightarrow> kubeconfig \<Rightarrow> ('w, unit) go"
  cf_DefaultFilename :: string
  cf_pem_Decode :: "string \<Rightarrow> string option"
  cf_ParseCertificate :: "string \<Rightarrow> Certificate outcome"

definition wrapo :: "string \<Rightarrow> 'a outcome \<Rightarrow> 'a outcome" where
  "wrapo msg r = (case r of Ok x \<Rightarrow> Ok x | Fail e \<Rightarrow> Fail (Wrap msg e) | Panics s \<Rightarrow> Panics s)"

definition wrap_err :: "string \<Rightarrow> ('w, 'a) go \<Rightarrow> ('w, 'a) go" where
  "wrap_err msg m = tryc m (\<lambda>e. fail (Wrap msg e)) ret"

definition loadKubeconfig :: "'w config_services \<Rightarrow> string \<Rightarrow> ('w, kubeconfig) go" where
  "loadKubeconfig cf path = wrap_err (''Failed to load kubeconfig from '' @ path) (cf_LoadFromFile cf path)"

definition starting_config :: "'w config_services \<Rightarrow> string \<Rightarrow> ('w, kubeconfig) go" where
  "starting_config cf path =
     (if path \<noteq> [] then wrap_err ''Loading the specified kubeconfig failed'' (loadKubeconfig cf path)
      else wrap_err ''Loading the default kubeconfig failed'' (cf_GetStartingConfig cf))"

definition ask_password :: "('w, 'p) ctl_services \<Rightarrow> OpenstackAuth \<Rightarrow> ('w, OpenstackAuth) go" where
  "ask_password sv o1 =
     (if oa_Password o1 = [] then
        bnd (cv_print sv ''Password: '') (\<lambda>_.
        bnd (cv_GetPasswd sv) (\<lambda>pw. ret (o1\<lparr>oa_Password := pw\<rparr>)))
      else ret o1)"

section \<open>The certificates of a context\<close>

text \<open>\<open>lookup\<close> is the part the two readers of certificates share.\<close>

definition context_entries :: "kubeconfig \<Rightarrow> string \<Rightarrow> (kube_context \<times> kube_authinfo \<times> kube_cluster) outcome" where
  "context_entries cfg ctx =
     (case kf_Contexts cfg ctx of
        None \<Rightarrow> Fail (Errorf (''Couldn't find context '' @ ctx))
      | Some x \<Rightarrow>
          (case kf_AuthInfos cfg (kx_AuthInfo x) of
             None \<Rightarrow> Fail (Errorf (''Couldn't find auth-info '' @ kx_AuthInfo x @ '' for context '' @ ctx))
           | Some a \<Rightarrow>
               (case kf_Clusters cfg (kx_Cluster x) of
                  None \<Rightarrow> Fail (Errorf (''Couldn't find cluster '' @ kx_Cluster x))
                | Some u \<Rightarrow> Ok (x, a, u))))"

definition getRawClientCertificate :: "kubeconfig \<Rightarrow> string \<Rightarrow> string outcome" where
  "getRawClientCertificate cfg ctx =
     obind (context_entries cfg ctx) (\<lambda>(x, a, u).
       case ka_ClientCertificateData a of
         None \<Rightarrow> Fail (Errorf (''Couldn't find client certificate for auth-info '' @ ka_Username a))
       | Some d \<Rightarrow> Ok d)"

definition getRawCACertificate :: "kubeconfig \<Rightarrow> string \<Rightarrow> string outcome" where
  "getRawCACertificate cfg ctx =
     obind (context_entries cfg ctx) (\<lambda>(x, a, u).
       case ku_CertificateAuthorityData u of
         None \<Rightarrow> Fail (Errorf (''Couldn't find CA certificate for cluster '' @ kx_Cluster x))
       | Some d \<Rightarrow> Ok d)"

definition parseRawPEM :: "'w config_services \<Rightarrow> string \<Rightarrow> Certificate outcome" where
  "parseRawPEM cf data =
     (case cf_pem_Decode cf data of
        None \<Rightarrow> Fail (Errorf ''Couldn't decode raw certificate'')
      | Some block \<Rightarrow> wrapo ''Couldn't parse certificate'' (cf_ParseCertificate cf block))"

definition getCACertifciate :: "'w config_services \<Rightarrow> kubeconfig \<Rightarrow> string \<Rightarrow> Certificate outcome" where
  "getCACertifciate cf cfg ctx = obind (getRawCACertificate cfg ctx) (parseRawPEM cf)"

definition getClientCertificate :: "'w config_services \<Rightarrow> kubeconfig \<Rightarrow> string \<Rightarrow> Certificate outcome" where
  "getClientCertificate cf cfg ctx = obind (getRawClientCertificate cfg ctx) (parseRawPEM cf)"

definition isKubernikusContext :: "'w config_services \<Rightarrow> kubeconfig \<Rightarrow> string \<Rightarrow> bool outcome" where
  "isKubernikusContext cf cfg ctx =
     obind (getCACertifciate cf cfg ctx) (\<lambda>caCert.
       let ou = nm_OrganizationalUnit (crt_Subject caCert) in
       if length ou < 2 then Ok False
       else Ok (ou ! 0 = ''SAP Converged Cloud'' \<and> ou ! 1 = ''Kubernikus''))"

text \<open>The clock is read a second time unless the certificate has expired.\<close>

definition isCertificateValid :: "('w, 'p) ctl_services \<Rightarrow> 'w config_services \<Rightarrow> kubeconfig \<Rightarrow> string \<Rightarrow> ('w, bool) go" where
  "isCertificateValid sv cf cfg ctx =
     bnd (lift_outcome (getClientCertificate cf cfg ctx)) (\<lambda>cert.
     bnd (cv_now sv) (\<lambda>t1.
       if t1 > crt_NotAfter cert then ret False
       else bnd (cv_now sv) (\<lambda>t2. ret (\<not> t2 < crt_NotBefore cert))))"

definition autoDetectKubernikusOpenstackMetadata :: "'w config_services \<Rightarrow> kubeconfig \<Rightarrow> string \<Rightarrow> (string \<times> string) outcome" where
  "autoDetectKubernikusOpenstackMetadata cf cfg ctx =
     obind (getClientCertificate cf cfg ctx) (\<lambda>cert.
       case nm_Province (crt_Subject cert) of
         a # b # _ \<Rightarrow> Ok (a, b)
       | _ \<Rightarrow> Fail (Errorf ''Client certificate didn't contain Kubernikus metadata''))"

definition autoDetectKubernikusClientMetadata :: "'w config_services \<Rightarrow> kubeconfig \<Rightarrow> string \<Rightarrow> (string \<times> string) outcome" where
  "autoDetectKubernikusClientMetadata cf cfg ctx =
     obind (getClientCertificate cf cfg ctx) (\<lambda>cert.
       if nm_CommonName (crt_Subject cert) = [] then Fail (Errorf ''Client certificate didn't contain username'')
       else let parts = Split CHR ''@'' (nm_CommonName (crt_Subject cert)) in
         if length parts \<noteq> 2
         then Fail (Errorf (''Couldln't extract username/domain from client certificate '' @ fmt_args parts))
         else Ok (parts ! 0, parts ! 1))"

definition autoDetectKubernikusURL :: "'w config_services \<Rightarrow> kubeconfig \<Rightarrow> string \<Rightarrow> string outcome" where
  "autoDetectKubernikusURL cf cfg ctx =
     obind (getClientCertificate cf cfg ctx) (\<lambda>cert.
       case nm_Locality (crt_Subject cert) of
         [] \<Rightarrow> Fail (Errorf ''CA certificate didn't contain Kubernikus metadata'')
       | l # _ \<Rightarrow> Ok l)"

definition autoDetectUsername :: "'w config_services \<Rightarrow> kubeconfig \<Rightarrow> string \<Rightarrow> string outcome" where
  "autoDetectUsername cf cfg ctx = obind (autoDetectKubernikusClientMetadata cf cfg ctx) (\<lambda>(user, dmn). Ok user)"

definition autoDetectUserDomainName :: "'w config_services \<Rightarrow> kubeconfig \<Rightarrow> string \<Rightarrow> string outcome" where
  "autoDetectUserDomainName cf cfg ctx = obind (autoDetectKubernikusClientMetadata cf cfg ctx) (\<lambda>(user, dmn). Ok dmn)"

section \<open>auth refresh\<close>

record RefreshOptions =
  ro_kubeconfigPath :: string
  ro_context :: string
  ro_force :: bool

text \<open>The flags of \<open>refresh\<close>: of the OpenStack options only the password can be given.\<close>

definition RefreshOptions_BindFlags :: "(string \<rightharpoonup> string) \<Rightarrow> bool \<Rightarrow> OpenstackAuth \<Rightarrow> OpenstackAuth \<times> RefreshOptions" where
  "RefreshOptions_BindFlags flag force o1 =
     (o1\<lparr>oa_Password := (case flag ''password'' of Some x \<Rightarrow> x | None \<Rightarrow> oa_Password o1)\<rparr>,
      \<lparr>ro_kubeconfigPath = (case flag ''kubeconfig'' of Some x \<Rightarrow> x | None \<Rightarrow> []),
       ro_context = (case flag ''context'' of Some x \<Rightarrow> x | None \<Rightarrow> []), ro_force = force\<rparr>)"

definition RefreshOptions_Complete ::
  "('w, 'p) ctl_services \<Rightarrow> 'w config_services \<Rightarrow> RefreshOptions \<Rightarrow> OpenstackAuth \<Rightarrow>
     ('w, OpenstackAuth \<times> RefreshOptions \<times> kubeconfig) go" where
  "RefreshOptions_Complete sv cf ro o1 =
     bnd (Setup sv o1) (\<lambda>(p, o2).
     bnd (starting_config cf (ro_kubeconfigPath ro)) (\<lambda>cfg.
       let ctx = (if ro_context ro = [] \<and> kf_CurrentContext cfg \<noteq> [] then kf_CurrentContext cfg else ro_context ro) in
       if kf_Contexts cfg ctx = None then fail (Errorf ''The context you provided does not exist'')
       else ret (o2, ro\<lparr>ro_context := ctx\<rparr>, cfg)))"

definition setupClients ::
  "('w, 'p) ctl_services \<Rightarrow> string \<Rightarrow> OpenstackAuth \<Rightarrow> ('w, 'w KubernikusClient) go" where
  "setupClients sv url o1 =
     bnd (Setup sv o1) (\<lambda>(p, o2).
     bnd (cv_print sv (PrintAuthInfo o2 @ nl)) (\<lambda>_.
     bnd (cv_AuthenticateV3 sv p o2) (\<lambda>token.
     NewKubernikusClient sv (Some url) token)))"

text \<open>The result goes to the default file, also when another one was read.\<close>

definition RefreshOptions_mergeAndPersist :: "'w config_services \<Rightarrow> kubeconfig \<Rightarrow> string \<Rightarrow> ('w, unit) go" where
  "RefreshOptions_mergeAndPersist cf cfg rawConfig =
     bnd (lift_outcome (wrapo (''Couldn't load kubernikus kubeconfig: '' @ rawConfig) (cf_Load cf rawConfig))) (\<lambda>config.
     bnd (lift_outcome (wrapo ''Couldn't merge kubeconfigs'' (cf_MergeWithOverwrite cf cfg config))) (\<lambda>merged.
     wrap_err (''Couldn't merge Kubernikus config with kubeconfig at '' @ cf_DefaultFilename cf @ '':'')
       (cf_ModifyConfig cf None merged)))"

text \<open>From the certificate to the options of the request.\<close>

definition detect_options ::
  "('w, 'p) ctl_services \<Rightarrow> 'w config_services \<Rightarrow> kubeconfig \<Rightarrow> string \<Rightarrow> OpenstackAuth \<Rightarrow> (string \<times> OpenstackAuth) outcome" where
  "detect_options sv cf cfg ctx o1 =
     obind (wrapo ''Auto-Detection of Openstack auth endpoint failed.'' (autoDetectKubernikusOpenstackMetadata cf cfg ctx))
       (\<lambda>(identityEndpoint, projectID).
     obind (wrapo ''Auto-Detection of Kubernikus URL caused an error'' (autoDetectKubernikusURL cf cfg ctx)) (\<lambda>kurl.
     obind (wrapo ''Couldn't parse Kubernikus URL. Rerun init.'' (cv_url_Parse sv kurl)) (\<lambda>_.
     obind (wrapo ''Auto-Detection of Username failed'' (autoDetectUsername cf cfg ctx)) (\<lambda>username.
     obind (wrapo ''Auto-Detection of user domain failed'' (autoDetectUserDomainName cf cfg ctx)) (\<lambda>domainName.
     Ok (kurl, o1\<lparr>oa_IdentityEndpoint := identityEndpoint, oa_ProjectID := projectID, oa_Username := username,
                   oa_DomainName := domainName\<rparr>))))))"

text \<open>The credentials of the cluster that has the name of the context, merged into the kubeconfig.\<close>

definition fetch_and_merge ::
  "('w, 'p) ctl_services \<Rightarrow> 'w KubernikusClient \<Rightarrow> string \<Rightarrow> string \<Rightarrow> (string \<Rightarrow> ('w, unit) go) \<Rightarrow> ('w, unit) go" where
  "fetch_and_merge sv k name url merge =
     bnd (cv_print sv (''Fetching credentials for '' @ name @ '' from '' @ url @ nl)) (\<lambda>_.
     bnd (wrap_err ''Couldn't fetch credentials from Kubernikus API'' (GetCredentials k name)) (\<lambda>raw.
     wrap_err ''Couldn't merge existing kubeconfig with fetched credentials'' (merge raw)))"

definition RefreshOptions_Run ::
  "('w, 'p) ctl_services \<Rightarrow> 'w config_services \<Rightarrow> RefreshOptions \<Rightarrow> kubeconfig \<Rightarrow> OpenstackAuth \<Rightarrow> ('w, unit) go" where
  "RefreshOptions_Run sv cf ro cfg o1 =
     (case isKubernikusContext cf cfg (ro_context ro) of
        Fail err \<Rightarrow> ret ()
      | Panics s \<Rightarrow> panic s
      | Ok False \<Rightarrow> ret ()
      | Ok True \<Rightarrow>
          bnd (wrap_err ''Verification of certifcates failed.'' (isCertificateValid sv cf cfg (ro_context ro))) (\<lambda>ok.
            if ok \<and> \<not> ro_force ro then ret ()
            else
              bnd (lift_outcome (detect_options sv cf cfg (ro_context ro) o1)) (\<lambda>(url, o2).
              bnd (ask_password sv o2) (\<lambda>o3.
              bnd (setupClients sv url o3) (\<lambda>k.
              bnd (fetch_and_merge sv k (ro_context ro) url (RefreshOptions_mergeAndPersist cf cfg)) (\<lambda>_.
              cv_print sv (''Wrote merged kubeconfig to '' @ cf_DefaultFilename cf @ nl)))))))"

definition auth_refresh ::
  "('w, 'p) ctl_services \<Rightarrow> 'w config_services \<Rightarrow> (string \<rightharpoonup> string) \<Rightarrow> bool \<Rightarrow> ('w, unit) go" where
  "auth_refresh sv cf flag force =
     (let (o1, ro) = RefreshOptions_BindFlags flag force (NewOpenstackClient (cv_getenv sv)) in
      bnd (RefreshOptions_Complete sv cf ro o1) (\<lambda>(o2, ro2, cfg). RefreshOptions_Run sv cf ro2 cfg o2))"

section \<open>auth init\<close>

record InitOptions =
  io_url :: string
  io_name :: string
  io_kubeconfigPath :: string

definition InitOptions_BindFlags :: "(string \<Rightarrow> string) \<Rightarrow> (string \<rightharpoonup> string) \<Rightarrow> InitOptions" where
  "InitOptions_BindFlags getenv flag =
     \<lparr>io_url = (case flag ''url'' of Some x \<Rightarrow> x | None \<Rightarrow> getenv ''KUBERNIKUS_URL''),
      io_name = (case flag ''name'' of Some x \<Rightarrow> x | None \<Rightarrow> getenv ''KUBERNIKUS_NAME''),
      io_kubeconfigPath = (case flag ''kubeconfig'' of Some x \<Rightarrow> x | None \<Rightarrow> [])\<rparr>"

definition InitOptions_Validate :: "('w, 'p) ctl_services \<Rightarrow> InitOptions \<Rightarrow> OpenstackAuth \<Rightarrow> goerr option" where
  "InitOptions_Validate sv io o1 =
     (if io_url io \<noteq> [] \<and> \<not> is_ok (cv_url_Parse sv (io_url io)) then Some (Errorf ''Parsing the Kubernikus URL failed'')
      else OpenstackAuth_Validate (\<lambda>u. is_ok (cv_url_Parse sv u)) o1)"

definition InitOptions_Complete ::
  "('w, 'p) ctl_services \<Rightarrow> 'w config_services \<Rightarrow> InitOptions \<Rightarrow> OpenstackAuth \<Rightarrow> ('w, 'p \<times> OpenstackAuth \<times> kubeconfig) go" where
  "InitOptions_Complete sv cf io o1 =
     bnd (Setup sv o1) (\<lambda>(p, o2).
     bnd (starting_config cf (io_kubeconfigPath io)) (\<lambda>cfg.
     bnd (ask_password sv o2) (\<lambda>o3.
     ret (p, o3, cfg))))"

definition init_setup ::
  "('w, 'p) ctl_services \<Rightarrow> InitOptions \<Rightarrow> 'p \<Rightarrow> OpenstackAuth \<Rightarrow> ('w, 'w KubernikusClient \<times> string) go" where
  "init_setup sv io p o1 =
     bnd (cv_print sv (PrintAuthInfo o1 @ nl)) (\<lambda>_.
     bnd (wrap_err ''Authentication failed'' (cv_AuthenticateV3 sv p o1)) (\<lambda>token.
     bnd (if io_url io = []
          then wrap_err ''You need to provide --url. Auto-Detection failed'' (DefaultKubernikusURL sv p o1)
          else ret (io_url io)) (\<lambda>url.
     bnd (NewKubernikusClient sv (Some url) token) (\<lambda>k.
     ret (k, url)))))"

definition InitOptions_mergeAndPersist :: "'w config_services \<Rightarrow> string \<Rightarrow> kubeconfig \<Rightarrow> string \<Rightarrow> ('w, unit) go" where
  "InitOptions_mergeAndPersist cf path cfg rawConfig =
     bnd (lift_outcome (wrapo (''Couldn't load kubernikus kubeconfig: '' @ rawConfig) (cf_Load cf rawConfig))) (\<lambda>config.
     bnd (lift_outcome (wrapo ''Couldn't merge kubeconfigs'' (cf_MergeWithOverwrite cf cfg config))) (\<lambda>merged.
     wrap_err ''Couldn't merge Kubernikus config with kubeconfig''
       (cf_ModifyConfig cf (if path \<noteq> [] then Some path else None) merged)))"

definition InitOptions_Run ::
  "('w, 'p) ctl_services \<Rightarrow> 'w config_services \<Rightarrow> InitOptions \<Rightarrow> 'p \<Rightarrow> kubeconfig \<Rightarrow> OpenstackAuth \<Rightarrow> ('w, unit) go" where
  "InitOptions_Run sv cf io p cfg o1 =
     bnd (init_setup sv io p o1) (\<lambda>(k, url).
     bnd (if io_name io = []
          then bnd (wrap_err ''You need to provide --name. Cluster Auto-Detection failed'' (GetDefaultCluster k)) (\<lambda>c. ret (mk_Name c))
          else ret (io_name io)) (\<lambda>name.
     bnd (fetch_and_merge sv k name url (InitOptions_mergeAndPersist cf (io_kubeconfigPath io) cfg)) (\<lambda>_.
     cv_print sv (''Wrote merged kubeconfig'' @ nl))))"

definition auth_init ::
  "('w, 'p) ctl_services \<Rightarrow> 'w config_services \<Rightarrow> (string \<rightharpoonup> string) \<Rightarrow> ('w, unit) go" where
  "auth_init sv cf flag =
     (let o1 = BindFlags flag (NewOpenstackClient (cv_getenv sv));
          io = InitOptions_BindFlags (cv_getenv sv) flag in
      case InitOptions_Validate sv io o1 of
        Some err \<Rightarrow> fail err
      | None \<Rightarrow> bnd (InitOptions_Complete sv cf io o1) (\<lambda>(p, o2, cfg). InitOptions_Run sv cf io p cfg o2))"

section \<open>Refreshing what the API has issued\<close>

text \<open>What \<open>crypto/x509\<close> is relied on for: the parsed certificate has the subject of its template.\<close>

definition subject_kept :: "('w, 'key) crypto \<Rightarrow> bool" where
  "subject_kept cr \<longleftrightarrow> (\<forall>t p a b w c w'. cr_x509 cr t p a b w = (Ok c, w') \<longrightarrow> crt_Subject c = crt_Subject t)"

lemma subject_keptD:
  "subject_kept cr \<Longrightarrow> cr_x509 cr t p a b w = (Ok c, w') \<Longrightarrow> crt_Subject c = crt_Subject t"
  unfolding subject_kept_def by blast

lemma bnd_OkE:
  assumes "bnd m f w = (Ok y, w')"
  obtains x w1 where "m w = (Ok x, w1)" "f x w1 = (Ok y, w')"
  using assms by (auto simp: bnd_def split: prod.splits outcome.splits)

lemma or_nil_SomeE:
  assumes "or_nil m w = (Ok (Some x), w')"
  obtains "m w = (Ok x, w')"
  using assms by (auto simp: or_nil_def tryc_def ret_def split: prod.splits outcome.splits)

lemma nil_deref_OkE:
  assumes "nil_deref x w = (Ok y, w')"
  obtains "x = Some y" "w' = w"
  using assms by (auto simp: nil_deref_def ret_def panic_def split: option.splits)

lemma Sign_subject:
  assumes "subject_kept cr" "Sign cr ca cfg w = (Ok b, w')" "bnl_Certificate b = Some c"
  shows "nm_CommonName (crt_Subject c) = cnf_Sign cfg" "nm_Province (crt_Subject c) = cnf_Province cfg"
    "nm_Locality (crt_Subject c) = cnf_Locality cfg"
  using assms(2,3) unfolding Sign_def Let_def
  by (auto dest!: subject_keptD [OF assms(1)] elim!: bnd_OkE or_nil_SomeE nil_deref_OkE simp: ret_def panic_def split: if_splits)

lemma createCA_subject:
  assumes "subject_kept cr" "createCA cr kn n w = (Ok b, w')" "bnl_Certificate b = Some c"
  shows "nm_OrganizationalUnit (crt_Subject c) = [''SAP Converged Cloud'', ''Kubernikus'', kn]"
  using assms(2,3) unfolding createCA_def Let_def
  by (auto dest!: subject_keptD [OF assms(1)] elim!: bnd_OkE or_nil_SomeE nil_deref_OkE simp: ret_def)

lemma Split_at_two:
  assumes "length (Split c (a @ c # b)) = 2"
  shows "c \<notin> set a \<and> c \<notin> set b"
  using assms by (simp add: length_Split count_list_0_iff)

lemma client_metadata_issued:
  assumes "getClientCertificate cf cfg ctx = Ok c" "nm_CommonName (crt_Subject c) = user @ CHR ''@'' # dmn"
  shows "autoDetectKubernikusClientMetadata cf cfg ctx =
    (if CHR ''@'' \<in> set user \<or> CHR ''@'' \<in> set dmn
     then Fail (Errorf (''Couldln't extract username/domain from client certificate '' @ fmt_args (Split CHR ''@'' (user @ CHR ''@'' # dmn))))
     else Ok (user, dmn))"
proof (cases "CHR ''@'' \<in> set user \<or> CHR ''@'' \<in> set dmn")
  case True
  then have "length (Split CHR ''@'' (user @ CHR ''@'' # dmn)) \<noteq> 2" using Split_at_two by metis
  with True assms show ?thesis by (simp only: autoDetectKubernikusClientMetadata_def obind.simps Let_def) simp
next
  case False
  then have "Split CHR ''@'' (user @ CHR ''@'' # dmn) = [user, dmn]" by (simp add: Split_append_sep Split_no_sep)
  with False assms show ?thesis by (simp add: autoDetectKubernikusClientMetadata_def)
qed

lemma detect_options_issued:
  assumes "getClientCertificate cf cfg ctx = Ok c" "cv_url_Parse sv url = Ok ()"
    "nm_CommonName (crt_Subject c) = user @ CHR ''@'' # dmn" "nm_Province (crt_Subject c) = [auth, project]"
    "nm_Locality (crt_Subject c) = [url]"
  shows "CHR ''@'' \<notin> set user \<Longrightarrow> CHR ''@'' \<notin> set dmn \<Longrightarrow> detect_options sv cf cfg ctx o1 =
      Ok (url, o1\<lparr>oa_IdentityEndpoint := auth, oa_ProjectID := project, oa_Username := user, oa_DomainName := dmn\<rparr>)"
    "CHR ''@'' \<in> set user \<or> CHR ''@'' \<in> set dmn \<Longrightarrow> \<exists>e. detect_options sv cf cfg ctx o1 = Fail e"
  using assms(2,4,5)
  by (simp_all add: detect_options_def autoDetectKubernikusOpenstackMetadata_def autoDetectKubernikusURL_def assms(1)
      autoDetectUsername_def autoDetectUserDomainName_def client_metadata_issued [OF assms(1,3)] wrapo_def)

text \<open>C40: \<open>kubernikusctl auth refresh\<close> undoes what the API has put into a certificate. For a
  kubeconfig that holds a certificate signed for a principal, and the authority of its kluster, and
  that has expired or is to be refreshed by force: the tool authenticates at the keystone of the
  principal, as its user in its domain, for the project of the kluster, and asks the host that has
  issued the certificate for the credentials of the cluster named like the context, with no other
  option changed. The result goes to the default kubeconfig, whichever file was read. For a name or
  domain that contains an \<open>@\<close> the certificate cannot be read back: the command fails before any request.\<close>

theorem refresh_roundtrip:
  assumes "subject_kept cr"
    "Sign cr ca (credentials_config req princ kluster) w0 = (Ok b, w0')" "bnl_Certificate b = Some c"
    "createCA cr kname caname wa = (Ok cab, wa')" "bnl_Certificate cab = Some cac"
    "getClientCertificate cf cfg ctx = Ok c" "getCACertifciate cf cfg ctx = Ok cac" "ro_context ro = ctx"
    "cv_url_Parse sv (Scheme req @ ''://'' @ HostWithPort req) = Ok ()" "oa_Password o1 \<noteq> []"
    "isCertificateValid sv cf cfg ctx w = (Ok valid, w1)" "valid \<longrightarrow> ro_force ro"
  shows "(if CHR ''@'' \<in> set (pr_Name princ) \<or> CHR ''@'' \<in> set (pr_Domain princ)
    then \<exists>e. RefreshOptions_Run sv cf ro cfg o1 w = (Fail e, w1)
    else RefreshOptions_Run sv cf ro cfg o1 w =
      bnd (setupClients sv (Scheme req @ ''://'' @ HostWithPort req)
             (o1\<lparr>oa_IdentityEndpoint := pr_AuthURL princ, oa_ProjectID := os_ProjectID (spec_Openstack (k_Spec kluster)),
                 oa_Username := pr_Name princ, oa_DomainName := pr_Domain princ\<rparr>)) (\<lambda>k.
      bnd (fetch_and_merge sv k ctx (Scheme req @ ''://'' @ HostWithPort req) (\<lambda>raw.
             bnd (lift_outcome (wrapo (''Couldn't load kubernikus kubeconfig: '' @ raw) (cf_Load cf raw))) (\<lambda>config.
             bnd (lift_outcome (wrapo ''Couldn't merge kubeconfigs'' (cf_MergeWithOverwrite cf cfg config))) (\<lambda>merged.
             wrap_err (''Couldn't merge Kubernikus config with kubeconfig at '' @ cf_DefaultFilename cf @ '':'')
               (cf_ModifyConfig cf None merged))))) (\<lambda>_.
      cv_print sv (''Wrote merged kubeconfig to '' @ cf_DefaultFilename cf @ nl))) w1)"
proof -
  let ?url = "Scheme req @ ''://'' @ HostWithPort req"
  have kub: "isKubernikusContext cf cfg ctx = Ok True"
    using createCA_subject [OF assms(1,4,5)] assms(7) by (simp add: isKubernikusContext_def)
  have run: "RefreshOptions_Run sv cf ro cfg o1 w =
    bnd (lift_outcome (detect_options sv cf cfg ctx o1)) (\<lambda>(url, o2). bnd (ask_password sv o2) (\<lambda>o3.
      bnd (setupClients sv url o3) (\<lambda>k.
      bnd (fetch_and_merge sv k ctx url (RefreshOptions_mergeAndPersist cf cfg)) (\<lambda>_.
      cv_print sv (''Wrote merged kubeconfig to '' @ cf_DefaultFilename cf @ nl))))) w1"
    using assms(8,11,12) by (auto simp: RefreshOptions_Run_def kub wrap_err_def)
  have subj: "nm_CommonName (crt_Subject c) = pr_Name princ @ CHR ''@'' # pr_Domain princ"
    "nm_Province (crt_Subject c) = [pr_AuthURL princ, os_ProjectID (spec_Openstack (k_Spec kluster))]"
    "nm_Locality (crt_Subject c) = [?url]"
    using Sign_subject [OF assms(1-3)] by (simp_all add: credentials_config_def)
  note det = detect_options_issued [OF assms(6,9) subj]
  show ?thesis
  proof (cases "CHR ''@'' \<in> set (pr_Name princ) \<or> CHR ''@'' \<in> set (pr_Domain princ)")
    case True
    from det(2) [OF this, of o1] show ?thesis using True by (auto simp: run)
  next
    case False
    then have "CHR ''@'' \<notin> set (pr_Name princ)" "CHR ''@'' \<notin> set (pr_Domain princ)" by simp_all
    from det(1) [OF this, of o1] False assms(10) show ?thesis
      by (simp add: run ask_password_def RefreshOptions_mergeAndPersist_def [abs_def])
  qed
qed

text \<open>A world that records the requests of the tool.\<close>

definition log_event :: "string \<Rightarrow> 'a \<Rightarrow> (string list, 'a) go" where
  "log_event e x = (\<lambda>w. (Ok x, w @ [e]))"

definition demo_transport :: "string \<Rightarrow> string list Transport" where
  "demo_transport url =
     \<lparr>tr_GetClusterCredentials = (\<lambda>token name. log_event (url @ '' '' @ token @ '' '' @ name)
        \<lparr>hr_Code = 200, hr_Payload = Ok ''fresh'', hr_Error = Ok None\<rparr>),
      tr_CreateCluster = (\<lambda>_ c. ret \<lparr>hr_Code = 201, hr_Payload = Ok c, hr_Error = Ok None\<rparr>),
      tr_TerminateCluster = (\<lambda>_ _. ret \<lparr>hr_Code = 202, hr_Payload = Ok (), hr_Error = Ok None\<rparr>),
      tr_ShowCluster = (\<lambda>_ _. ret \<lparr>hr_Code = 404, hr_Payload = Fail no_cluster, hr_Error = Ok None\<rparr>),
      tr_ListClusters = (\<lambda>_. ret \<lparr>hr_Code = 200, hr_Payload = Ok [], hr_Error = Ok None\<rparr>)\<rparr>"

definition demo_ctl :: "(string list, string) ctl_services" where
  "demo_ctl =
     \<lparr>cv_getenv = (\<lambda>_. []), cv_NewClient = (\<lambda>url. ret url), cv_NewIdentityV3 = (\<lambda>_. ret ()),
      cv_AuthenticateV3 = (\<lambda>p o1. log_event (p @ '' '' @ oa_DomainName o1 @ ''/'' @ oa_Username o1 @ '' '' @ oa_ProjectID o1) ''token''),
      cv_Catalog = (\<lambda>_ _. ret []), cv_url_Parse = (\<lambda>_. Ok ()), cv_transport = demo_transport,
      cv_GetPasswd = ret ''secret'', cv_now = ret 5, cv_print = (\<lambda>_. ret ())\<rparr>"

definition demo_credentials :: "Certificate \<times> Certificate" where
  "demo_credentials =
     (case createCA pem_crypto ''demo-acme'' ''ApiServer Clients'' 0 of
        (Ok cab, w) \<Rightarrow> (case Sign pem_crypto cab (credentials_config demo_request demo_principal cert_kluster) w of
            (Ok b, w2) \<Rightarrow> (the (bnl_Certificate b), the (bnl_Certificate cab))
          | _ \<Rightarrow> (demo_certificate [], demo_certificate []))
      | _ \<Rightarrow> (demo_certificate [], demo_certificate []))"

definition demo_kubeconfig :: kubeconfig where
  "demo_kubeconfig =
     \<lparr>kf_CurrentContext = ''demo'', kf_Contexts = [''demo'' \<mapsto> \<lparr>kx_Cluster = ''demo'', kx_AuthInfo = ''eve@demo''\<rparr>],
      kf_AuthInfos = [''eve@demo'' \<mapsto> \<lparr>ka_ClientCertificateData = Some ''client'', ka_ClientKeyData = None, ka_Username = []\<rparr>],
      kf_Clusters = [''demo'' \<mapsto> \<lparr>ku_Server = ''api'', ku_CertificateAuthorityData = Some ''ca''\<rparr>]\<rparr>"

definition demo_files :: "string list config_services" where
  "demo_files =
     \<lparr>cf_LoadFromFile = (\<lambda>_. ret demo_kubeconfig), cf_GetStartingConfig = ret demo_kubeconfig,
      cf_Load = (\<lambda>raw. Ok (demo_kubeconfig\<lparr>kf_CurrentContext := raw\<rparr>)), cf_MergeWithOverwrite = (\<lambda>a b. Ok b),
      cf_ModifyConfig = (\<lambda>path c. log_event (''write '' @ kf_CurrentContext c) ()), cf_DefaultFilename = ''config'',
      cf_pem_Decode = Some,
      cf_ParseCertificate = (\<lambda>s. if s = ''client'' then Ok (fst demo_credentials) else Ok (snd demo_credentials))\<rparr>"

lemma pem_crypto_subject_kept: "subject_kept pem_crypto"
  by (auto simp: subject_kept_def pem_crypto_def demo_crypto_def ret_def)

definition demo_auth :: OpenstackAuth where
  "demo_auth = (NewOpenstackClient (\<lambda>_. []))\<lparr>oa_Password := ''secret''\<rparr>"

definition demo_refresh :: RefreshOptions where
  "demo_refresh = \<lparr>ro_kubeconfigPath = ''other'', ro_context = ''demo'', ro_force = True\<rparr>"

lemma demo_issued:
  "\<exists>cab wa b w. createCA pem_crypto ''demo-acme'' ''ApiServer Clients'' 0 = (Ok cab, wa) \<and>
     bnl_Certificate cab = Some (snd demo_credentials) \<and>
     Sign pem_crypto cab (credentials_config demo_request demo_principal cert_kluster) wa = (Ok b, w) \<and>
     bnl_Certificate b = Some (fst demo_credentials)"
  by (simp add: demo_credentials_def createCA_def Sign_def pem_crypto_def demo_crypto_def or_nil_def nil_deref_def bnd_def
      tryc_def ret_def Let_def)

lemma demo_certificates:
  "getClientCertificate demo_files demo_kubeconfig ''demo'' = Ok (fst demo_credentials)"
  "getCACertifciate demo_files demo_kubeconfig ''demo'' = Ok (snd demo_credentials)"
  by (simp_all add: getClientCertificate_def getCACertifciate_def getRawClientCertificate_def getRawCACertificate_def
      context_entries_def parseRawPEM_def demo_files_def demo_kubeconfig_def wrapo_def)

lemma demo_valid:
  "\<exists>v. isCertificateValid demo_ctl demo_files demo_kubeconfig ''demo'' [] = (Ok v, [])"
  by (simp add: isCertificateValid_def demo_certificates demo_ctl_def bnd_def lift_outcome_def ret_def exI [of Not False])

theorem refresh_roundtrip_witness:
  "RefreshOptions_Run demo_ctl demo_files demo_refresh demo_kubeconfig demo_auth [] =
     (Ok (), [''https://keystone/v3 ccadmin/eve '', ''https://api token demo'', ''write fresh''])"
proof -
  obtain cab wa b w where i: "createCA pem_crypto ''demo-acme'' ''ApiServer Clients'' 0 = (Ok cab, wa)"
    "bnl_Certificate cab = Some (snd demo_credentials)"
    "Sign pem_crypto cab (credentials_config demo_request demo_principal cert_kluster) wa = (Ok b, w)"
    "bnl_Certificate b = Some (fst demo_credentials)"
    using demo_issued by (elim exE conjE) rule
  obtain v where v: "isCertificateValid demo_ctl demo_files demo_kubeconfig ''demo'' [] = (Ok v, [])"
    using demo_valid by (elim exE) rule
  have h: "ro_context demo_refresh = ''demo''" "cv_url_Parse demo_ctl (Scheme demo_request @ ''://'' @ HostWithPort demo_request) = Ok ()"
    "oa_Password demo_auth \<noteq> []" "v \<longrightarrow> ro_force demo_refresh"
    by (simp_all add: demo_refresh_def demo_ctl_def demo_auth_def)
  note run = refresh_roundtrip [OF pem_crypto_subject_kept i(3,4,1,2) demo_certificates h(1,2,3) v h(4)]
  have p: "CHR ''@'' \<notin> set (pr_Name demo_principal)" "CHR ''@'' \<notin> set (pr_Domain demo_principal)"
    by (simp_all add: demo_principal_def)
  show ?thesis
    using run p
    by (simp add: setupClients_def Setup_def demo_ctl_def demo_auth_def demo_request_def HostWithPort_def Scheme_def
        NewKubernikusClient_def fetch_and_merge_def GetCredentials_def demo_transport_def read_GetClusterCredentials_def
        read_response_def log_event_def demo_files_def wrap_err_def wrapo_def demo_principal_def cert_kluster_def
        zero_KlusterSpec_def zero_OpenstackSpec_def Header_Get_def bnd_def tryc_def ret_def lift_outcome_def)
qed

section \<open>The URL flag\<close>

text \<open>The commands with \<open>--url\<close>, once the user is authenticated. \<open>get\<close> talks to the URL it is given
  if that parses. \<open>create\<close> and \<open>delete\<close>, for which the flag is accepted as well, never parse it: with
  valid arguments and any URL they stop with a nil dereference, before the specification is read and
  without a request to the API.\<close>

theorem url_flag_outcome:
  assumes "PersistentPreRun sv o1 w = (Ok (p, token, o2), w1)" "url \<noteq> []" "cv_url_Parse sv url = Ok ()"
  shows "get_cluster sv url o1 [name] w = clusterShow sv \<lparr>kcl_token = token, kcl_transport = cv_transport sv url\<rparr> name w1 \<and>
    create_cluster sv readFile readStdin unmarshal file url o1 [] w =
      (Panics ''invalid memory address or nil pointer dereference'', w1) \<and>
    delete_cluster sv url o1 [name] w = (Panics ''invalid memory address or nil pointer dereference'', w1)"
  using assms
  by (simp add: get_cluster_def create_cluster_def delete_cluster_def GetOptions_SetupKubernikusClient_def
      CreateOptions_SetupKubernikusClient_def DeleteOptions_SetupKubernikusClient_def NewKubernikusClient_def)

definition demo_login :: OpenstackAuth where
  "demo_login = demo_auth\<lparr>oa_IdentityEndpoint := ''https://keystone/v3'', oa_UserID := ''u1'', oa_ProjectID := ''b42''\<rparr>"

lemma demo_login_ok:
  "PersistentPreRun demo_ctl demo_login [] = (Ok (''https://keystone/v3'', ''token'', demo_login), [''https://keystone/v3 / b42''])"
  by (simp add: PersistentPreRun_def OpenstackAuth_Validate_def Setup_def demo_login_def demo_auth_def demo_ctl_def
      NewOpenstackClient_def log_event_def bnd_def tryc_def ret_def)

theorem url_flag_outcome_witness:
  "delete_cluster demo_ctl ''https://api'' demo_login [''demo''] [] =
     (Panics ''invalid memory address or nil pointer dereference'', [''https://keystone/v3 / b42''])"
proof -
  have u: "''https://api'' \<noteq> []" "cv_url_Parse demo_ctl ''https://api'' = Ok ()" by (simp_all add: demo_ctl_def)
  show ?thesis using url_flag_outcome [OF demo_login_ok u, of "''demo''"] by simp
qed

end
