(* ===== verification/Logging.thy ===== *)
theory Logging
  imports GoStrings
begin

text \<open>
  Logging (\<open>src/pkg/util/log\<close>): the filter of trailing nil values, the fields of an authentication,
  the middleware that gives every request an id and a logger and writes the access log, and the
  round tripper that logs the requests to OpenStack. A logger of go-kit is the list of the key/value
  pairs it adds to every line, in front of the function that writes the line.
\<close>

section \<open>Loggers\<close>

datatype logval = LStr string | LInt int | LErr goerr | LNil

type_synonym keyvals = "logval list"

text \<open>\<open>With\<close> appends to the pairs of a logger, \<open>Log\<close> writes them in front of its own.\<close>

record 'w Logger =
  lg_keyvals :: keyvals
  lg_write :: "keyvals \<Rightarrow> ('w, unit) go"

definition With :: "'w Logger \<Rightarrow> keyvals \<Rightarrow> 'w Logger" where
  "With l kvs = l\<lparr>lg_keyvals := lg_keyvals l @ kvs\<rparr>"

definition Log :: "'w Logger \<Rightarrow> keyvals \<Rightarrow> ('w, unit) go" where
  "Log l kvs = lg_write l (lg_keyvals l @ kvs)"

section \<open>Trailing nil values\<close>

text \<open>The loop from the last value to the front; a positive index moves down by two.\<close>

fun nil_loop :: "keyvals \<Rightarrow> nat \<Rightarrow> keyvals" where
  "nil_loop kvs i = (if i > 0 then if kvs ! i \<noteq> LNil then take (i + 1) kvs else nil_loop kvs (i - 2) else kvs)"

declare nil_loop.simps [simp del]

definition nilFilter_Log :: "'w Logger \<Rightarrow> keyvals \<Rightarrow> ('w, unit) go" where
  "nilFilter_Log next kvs = Log next (nil_loop kvs (length kvs - 1))"

definition NewTrailingNilFilter :: "'w Logger \<Rightarrow> 'w Logger" where
  "NewTrailingNilFilter l = \<lparr>lg_keyvals = [], lg_write = nilFilter_Log l\<rparr>"

section \<open>Fields of an authentication\<close>

record LogAuthOptions =
  la_TokenID :: string
  la_UserID :: string
  la_Username :: string
  la_Password :: string
  la_DomainID :: string
  la_DomainName :: string
  la_ScopeProjectID :: string
  la_ScopeProjectName :: string
  la_ScopeDomainID :: string
  la_ScopeDomainName :: string

definition getProject :: "LogAuthOptions \<Rightarrow> string" where
  "getProject a =
     (if la_ScopeProjectID a \<noteq> [] then la_ScopeProjectID a
      else (if la_ScopeDomainID a \<noteq> [] then la_ScopeDomainID a else la_ScopeDomainName a) @ ''/'' @ la_ScopeProjectName a)"

definition getAuthMethod :: "LogAuthOptions \<Rightarrow> string" where
  "getAuthMethod a =
     (if la_TokenID a \<noteq> [] then ''token'' else if la_Password a \<noteq> [] then ''password'' else [])"

definition getPrincipal :: "LogAuthOptions \<Rightarrow> string" where
  "getPrincipal a =
     (if la_TokenID a \<noteq> [] then []
      else if la_UserID a \<noteq> [] then la_UserID a
      else (if la_DomainID a \<noteq> [] then la_DomainID a else la_DomainName a) @ ''/'' @ la_Username a)"

definition With_nonempty :: "'w Logger \<Rightarrow> string \<Rightarrow> string \<Rightarrow> 'w Logger" where
  "With_nonempty l key v = (if v \<noteq> [] then With l [LStr key, LStr v] else l)"

definition NewAuthLogger :: "'w Logger \<Rightarrow> LogAuthOptions \<Rightarrow> 'w Logger" where
  "NewAuthLogger l a =
     With_nonempty (With_nonempty (With_nonempty l ''project'' (getProject a)) ''auth'' (getAuthMethod a)) ''principal'' (getPrincipal a)"

section \<open>Requests\<close>

text \<open>\<open>net.SplitHostPort\<close>: the port follows the last colon; a host with colons is in brackets.\<close>

definition missing_port :: "string \<Rightarrow> goerr" where
  "missing_port hp = Errorf (''address '' @ hp @ '': missing port in address'')"

definition too_many_colons :: "string \<Rightarrow> goerr" where
  "too_many_colons hp = Errorf (''address '' @ hp @ '': too many colons in address'')"

definition unexpected_bracket :: "string \<Rightarrow> string \<Rightarrow> goerr" where
  "unexpected_bracket hp b = Errorf (''address '' @ hp @ '': unexpected '' @ b @ '' in address'')"

definition SplitHostPort :: "string \<Rightarrow> (string \<times> string) outcome" where
  "SplitHostPort hp =
     (if CHR '':'' \<notin> set hp then Fail (missing_port hp)
      else
        let port = rev (takeWhile (\<lambda>c. c \<noteq> CHR '':'') (rev hp));
            i = length hp - length port - 1
        in if hd hp = CHR ''['' then
             (if CHR '']'' \<notin> set hp then Fail (Errorf (''address '' @ hp @ '': missing ']' in address''))
              else
                let e = length (takeWhile (\<lambda>c. c \<noteq> CHR '']'') hp)
                in if e + 1 = length hp then Fail (missing_port hp)
                   else if e + 1 \<noteq> i then
                     (if hp ! (e + 1) = CHR '':'' then Fail (too_many_colons hp) else Fail (missing_port hp))
                   else if CHR ''['' \<in> set (drop 1 hp) then Fail (unexpected_bracket hp ''['')
                   else if CHR '']'' \<in> set (drop (e + 1) hp) then Fail (unexpected_bracket hp '']'')
                   else Ok (take (e - 1) (drop 1 hp), port))
           else if CHR '':'' \<in> set (take i hp) then Fail (too_many_colons hp)
           else if CHR ''['' \<in> set hp then Fail (unexpected_bracket hp ''['')
           else if CHR '']'' \<in> set hp then Fail (unexpected_bracket hp '']'')
           else Ok (take i hp, port))"

text \<open>A request: \<open>lr_Query\<close> in the order in which the loop visits the map, \<open>lr_ID\<close> the request id in its
  context, \<open>lr_Logger\<close> the pairs of the logger in its context.\<close>

record LRequest =
  lr_RemoteAddr :: string
  lr_Method :: string
  lr_Host :: string
  lr_EscapedPath :: string
  lr_Query :: "(string \<times> string list) list"
  lr_UserAgent :: string
  lr_ID :: "string option"
  lr_Logger :: "keyvals option"

definition request_fields :: "LRequest \<Rightarrow> keyvals" where
  "request_fields r =
     (let source_ip = (case SplitHostPort (lr_RemoteAddr r) of Ok (ip, _) \<Rightarrow> ip | _ \<Rightarrow> lr_RemoteAddr r)
      in (if source_ip \<noteq> [] then [LStr ''source_ip'', LStr source_ip] else []) @
         [LStr ''method'', LStr (lr_Method r)] @
         (case SplitHostPort (lr_Host r) of
            Ok (host, port) \<Rightarrow> (if host \<noteq> [] then [LStr ''host'', LStr host] else []) @
                               (if port \<noteq> [] then [LStr ''port'', LStr port] else [])
          | _ \<Rightarrow> []) @
         [LStr ''path'', LStr (lr_EscapedPath r)] @
         concat (map (\<lambda>(k, vs). [LStr k, LStr (Join vs '','')]) (lr_Query r)) @
         [LStr ''user_agent'', LStr (lr_UserAgent r)])"

definition log_request :: "'w Logger \<Rightarrow> LRequest \<Rightarrow> keyvals \<Rightarrow> ('w, unit) go" where
  "log_request l r extra = Log l (request_fields r @ extra)"

section \<open>The response writer\<close>

text \<open>What the middleware is given; the optional interfaces may be missing.\<close>

record 'w ResponseWriter =
  w_Write :: "string \<Rightarrow> ('w, int \<times> goerr option) go"
  w_WriteHeader :: "int \<Rightarrow> ('w, unit) go"
  w_Flush :: "('w, unit) go option"
  w_Push :: "(string \<Rightarrow> ('w, unit) go) option"
  w_Hijack :: "('w, unit) go option"
  w_CloseNotify :: bool

record responseLogger =
  rl_status :: int
  rl_size :: int

datatype wrapper_kind = ResponseLogger | HijackLogger | CloseNotifyWriter | HijackCloseNotifier

definition makeWrapper :: "'w ResponseWriter \<Rightarrow> wrapper_kind \<times> responseLogger" where
  "makeWrapper rw =
     (let hij = (w_Hijack rw \<noteq> None) in
      (if hij \<and> w_CloseNotify rw then HijackCloseNotifier
       else if w_CloseNotify rw then CloseNotifyWriter
       else if hij then HijackLogger else ResponseLogger,
       \<lparr>rl_status = 200, rl_size = 0\<rparr>))"

text \<open>Operations of the wrapper, on the world and its two fields.\<close>

definition on_writer :: "('w, 'a) go \<Rightarrow> ('w \<times> 's, 'a) go" where
  "on_writer m = (\<lambda>(w, s). case m w of (r, w') \<Rightarrow> (r, (w', s)))"

definition rl_Write :: "'w ResponseWriter \<Rightarrow> string \<Rightarrow> ('w \<times> responseLogger, int \<times> goerr option) go" where
  "rl_Write rw b =
     bnd (on_writer (w_Write rw b)) (\<lambda>(n, err).
     bnd (modify_world (\<lambda>(w, l). (w, l\<lparr>rl_size := rl_size l + n\<rparr>))) (\<lambda>_.
     ret (n, err)))"

definition rl_WriteHeader :: "'w ResponseWriter \<Rightarrow> int \<Rightarrow> ('w \<times> responseLogger, unit) go" where
  "rl_WriteHeader rw s =
     bnd (on_writer (w_WriteHeader rw s)) (\<lambda>_. modify_world (\<lambda>(w, l). (w, l\<lparr>rl_status := s\<rparr>)))"

definition rl_Flush :: "'w ResponseWriter \<Rightarrow> ('w \<times> responseLogger, unit) go" where
  "rl_Flush rw = (case w_Flush rw of Some f \<Rightarrow> on_writer f | None \<Rightarrow> ret ())"

definition rl_Push :: "'w ResponseWriter \<Rightarrow> string \<Rightarrow> ('w \<times> responseLogger, unit) go" where
  "rl_Push rw target =
     (case w_Push rw of
        Some p \<Rightarrow> on_writer (p target)
      | None \<Rightarrow> fail (Errorf ''responseLogger does not implement http.Pusher''))"

text \<open>The status is never zero: it starts as 200.\<close>

definition rl_Hijack :: "'w ResponseWriter \<Rightarrow> ('w \<times> responseLogger, unit) go" where
  "rl_Hijack rw =
     (case w_Hijack rw of
        None \<Rightarrow> panic ''interface conversion''
      | Some h \<Rightarrow> bnd (on_writer h) (\<lambda>_. modify_world (\<lambda>(w, l). (w, if rl_status l = 0 then l\<lparr>rl_status := 101\<rparr> else l))))"

section \<open>Middleware\<close>

text \<open>\<open>uuid\<close> is \<open>uuid.NewV4\<close>.\<close>

definition RequestIDHandler :: "('w, string) go \<Rightarrow> (LRequest \<Rightarrow> ('w, unit) go) \<Rightarrow> LRequest \<Rightarrow> ('w, unit) go" where
  "RequestIDHandler uuid next r =
     (case lr_ID r of
        None \<Rightarrow> bnd uuid (\<lambda>u. next (r\<lparr>lr_ID := Some u\<rparr>))
      | Some _ \<Rightarrow> next r)"

text \<open>\<open>defer\<close>: the deferred call runs after the body however that ends, and can see its result.\<close>

definition defer_run :: "('w, 'a) go \<Rightarrow> ('a outcome \<Rightarrow> ('w, unit) go) \<Rightarrow> ('w, 'a) go" where
  "defer_run m d = (\<lambda>w. case m w of (r, w1) \<Rightarrow>
     (case d r w1 of (Panics s, w2) \<Rightarrow> (Panics s, w2) | (_, w2) \<Rightarrow> (r, w2)))"

definition access_fields :: "responseLogger \<Rightarrow> int \<Rightarrow> string \<Rightarrow> keyvals" where
  "access_fields l took rid =
     [LStr ''status'', LInt (rl_status l), LStr ''size'', LInt (rl_size l), LStr ''took'', LInt took] @
     (if rid \<noteq> [] then [LStr ''id'', LStr rid] else [])"

text \<open>The inner handler with the access log behind it, for a request that has its logger.\<close>

definition serve_request ::
  "('w, int) go \<Rightarrow> 'w Logger \<Rightarrow> 'w ResponseWriter \<Rightarrow> (LRequest \<Rightarrow> ('w \<times> responseLogger, unit) go) \<Rightarrow> LRequest \<Rightarrow>
     ('w \<times> responseLogger, unit) go" where
  "serve_request now ingress rw next r =
     bnd (on_writer now) (\<lambda>t1.
     defer_run (next r) (\<lambda>_ (w1, l).
       on_writer (bnd now (\<lambda>t2. log_request ingress r
         (access_fields l (t2 - t1) (case lr_ID r of Some i \<Rightarrow> i | None \<Rightarrow> [])))) (w1, l)))"

text \<open>The state of a handler is the world and the variable \<open>logger\<close> that the closure has captured: the
  assignment for one request is what the next request finds.\<close>

definition LoggingHandler ::
  "('w, int) go \<Rightarrow> 'w Logger \<Rightarrow> 'w ResponseWriter \<Rightarrow> (LRequest \<Rightarrow> ('w \<times> responseLogger, unit) go) \<Rightarrow> LRequest \<Rightarrow>
     ('w \<times> 'w Logger, unit) go" where
  "LoggingHandler now ingress rw next r = (\<lambda>(w, logger).
     let logger' = (case lr_ID r of Some i \<Rightarrow> With logger [LStr ''id'', LStr i] | None \<Rightarrow> logger)
     in case serve_request now ingress rw next (r\<lparr>lr_Logger := Some (lg_keyvals logger')\<rparr>) (w, snd (makeWrapper rw)) of
          (res, (w2, l)) \<Rightarrow> (res, (w2, logger')))"

definition ingress_logger :: "'w Logger \<Rightarrow> 'w Logger" where
  "ingress_logger l = With l [LStr ''api'', LStr ''ingress'']"

section \<open>Requests to OpenStack\<close>

text \<open>\<open>header\<close> is \<open>response.Header.Get\<close>.\<close>

record LResponse =
  lp_StatusCode :: int
  lp_Header :: "string \<Rightarrow> string"

definition requestIds :: "LResponse \<Rightarrow> string list" where
  "requestIds r =
     (if lp_Header r ''X-Openstack-Request-ID'' \<noteq> [] then [lp_Header r ''X-Openstack-Request-ID''] else []) @
     (if lp_Header r ''X-Compute-Request-ID'' \<noteq> [] then [lp_Header r ''X-Compute-Request-ID''] else [])"

definition egress_fields :: "LRequest \<Rightarrow> LResponse outcome \<Rightarrow> int \<Rightarrow> keyvals" where
  "egress_fields r res took =
     (case res of
        Ok p \<Rightarrow> [LStr ''status'', LInt (lp_StatusCode p), LStr ''openstack_id'', LStr (Join (requestIds p) '','')]
      | _ \<Rightarrow> []) @
     (case lr_ID r of Some i \<Rightarrow> [LStr ''id'', LStr i] | None \<Rightarrow> []) @
     [LStr ''took'', LInt took, LStr ''v'', LInt 2, LStr ''err'', (case res of Fail e \<Rightarrow> LErr e | _ \<Rightarrow> LNil)]"

definition RoundTrip ::
  "('w, int) go \<Rightarrow> 'w Logger \<Rightarrow> (LRequest \<Rightarrow> ('w, LResponse) go) \<Rightarrow> LRequest \<Rightarrow> ('w, LResponse) go" where
  "RoundTrip now logger rt r =
     bnd now (\<lambda>t1.
     defer_run (rt r) (\<lambda>res. bnd now (\<lambda>t2. log_request logger r (egress_fields r res (t2 - t1)))))"

definition egress_logger :: "'w Logger \<Rightarrow> 'w Logger" where
  "egress_logger l = With l [LStr ''api'', LStr ''egress'']"

section \<open>What the filter removes\<close>

definition flat_pairs :: "(logval \<times> logval) list \<Rightarrow> keyvals" where
  "flat_pairs ps = concat (map (\<lambda>(k, v). [k, v]) ps)"

text \<open>The pairs without those at the end that have no value.\<close>

definition strip_nils :: "(logval \<times> logval) list \<Rightarrow> (logval \<times> logval) list" where
  "strip_nils ps = rev (dropWhile (\<lambda>p. snd p = LNil) (rev ps))"

lemma flat_pairs_simps [simp]:
  "flat_pairs [] = []" "flat_pairs (ps @ qs) = flat_pairs ps @ flat_pairs qs" "flat_pairs [(k, v)] = [k, v]"
  by (simp_all add: flat_pairs_def)

lemma length_flat_pairs [simp]: "length (flat_pairs ps) = 2 * length ps"
  by (induction ps) (auto simp: flat_pairs_def)

lemma nil_loop_pairs:
  "nil_loop (flat_pairs ps @ rest) (2 * length ps - 1) =
     (if \<forall>p\<in>set ps. snd p = LNil then flat_pairs ps @ rest else flat_pairs (strip_nils ps))"
proof (induction ps arbitrary: rest rule: rev_induct)
  case Nil
  then show ?case by (simp add: nil_loop.simps)
next
  case (snoc p ps)
  obtain k v where p: "p = (k, v)" by (cases p)
  have "nil_loop (flat_pairs (ps @ [p]) @ rest) (2 * length (ps @ [p]) - 1) =
      (if v \<noteq> LNil then flat_pairs (ps @ [p]) else nil_loop (flat_pairs ps @ k # v # rest) (2 * length ps - 1))"
    by (subst nil_loop.simps) (simp add: p nth_append)
  also have "\<dots> = (if \<forall>q\<in>set (ps @ [p]). snd q = LNil then flat_pairs (ps @ [p]) @ rest else flat_pairs (strip_nils (ps @ [p])))"
    by (auto simp: snoc.IH [unfolded One_nat_def] p strip_nils_def)
  finally show ?case .
qed

text \<open>The filter in front of the log writer, for a line of key/value pairs: it cuts off exactly the
  pairs at the end whose value is nil and leaves every pair before them, also those without a value,
  in their order. A line on which no pair has a value is written as it is, its nil values included.\<close>

theorem nil_filter_exact:
  "Log (NewTrailingNilFilter l) (flat_pairs ps) =
     Log l (if \<forall>p\<in>set ps. snd p = LNil then flat_pairs ps else flat_pairs (strip_nils ps))"
  using nil_loop_pairs [of ps "[]"]
  by (simp add: NewTrailingNilFilter_def Log_def [of "\<lparr>lg_keyvals = [], lg_write = _\<rparr>"] nilFilter_Log_def)

theorem nil_filter_exact_witness:
  "lg_write (NewTrailingNilFilter \<lparr>lg_keyvals = [], lg_write = (\<lambda>kvs w. (Ok (), kvs))\<rparr>)
     [LStr ''msg'', LNil, LStr ''v'', LInt 2, LStr ''err'', LNil] [] =
   (Ok (), [LStr ''msg'', LNil, LStr ''v'', LInt 2])"
  using nil_filter_exact [of "\<lparr>lg_keyvals = [], lg_write = (\<lambda>kvs w. (Ok (), kvs))\<rparr>"
      "[(LStr ''msg'', LNil), (LStr ''v'', LInt 2), (LStr ''err'', LNil)]"]
  by (simp add: Log_def flat_pairs_def strip_nils_def NewTrailingNilFilter_def)

section \<open>The logger of a request\<close>

text \<open>The state after a sequence of requests.\<close>

primrec serve_all ::
  "('w, int) go \<Rightarrow> 'w Logger \<Rightarrow> 'w ResponseWriter \<Rightarrow> (LRequest \<Rightarrow> ('w \<times> responseLogger, unit) go) \<Rightarrow> LRequest list \<Rightarrow>
     'w \<times> 'w Logger \<Rightarrow> 'w \<times> 'w Logger" where
  "serve_all now ingress rw next [] st = st"
| "serve_all now ingress rw next (r # rs) st =
     serve_all now ingress rw next rs (snd (LoggingHandler now ingress rw next r st))"

definition id_fields :: "LRequest list \<Rightarrow> keyvals" where
  "id_fields rs = concat (map (\<lambda>r. case lr_ID r of Some i \<Rightarrow> [LStr ''id'', LStr i] | None \<Rightarrow> []) rs)"

lemma With_id [simp]: "With l [] = l" "With (With l a) b = With l (a @ b)" "lg_keyvals (With l a) = lg_keyvals l @ a"
  by (simp_all add: With_def)

lemma LoggingHandler_With:
  "LoggingHandler now ingress rw next r (w, l) =
     (case serve_request now ingress rw next (r\<lparr>lr_Logger := Some (lg_keyvals l @ id_fields [r])\<rparr>) (w, \<lparr>rl_status = 200, rl_size = 0\<rparr>) of
        (res, (w2, _)) \<Rightarrow> (res, (w2, With l (id_fields [r]))))"
  by (cases "lr_ID r") (simp_all add: LoggingHandler_def id_fields_def makeWrapper_def Let_def)

lemma serve_all_logger:
  "\<exists>w'. serve_all now ingress rw next rs (w, l) = (w', With l (id_fields rs))"
proof (induction rs arbitrary: w l)
  case Nil
  then show ?case by (simp add: id_fields_def)
next
  case (Cons r rs)
  obtain res w2 x where "serve_request now ingress rw next (r\<lparr>lr_Logger := Some (lg_keyvals l @ id_fields [r])\<rparr>)
      (w, \<lparr>rl_status = 200, rl_size = 0\<rparr>) = (res, (w2, x))"
    by (metis surj_pair)
  then have s: "LoggingHandler now ingress rw next r (w, l) = (res, (w2, With l (id_fields [r])))"
    by (simp add: LoggingHandler_With)
  have "id_fields (r # rs) = id_fields [r] @ id_fields rs" by (simp add: id_fields_def)
  then show ?case using Cons.IH [of w2 "With l (id_fields [r])"] s by simp
qed

text \<open>The logger in the context of a request, which its handler logs with. After any sequence of
  requests, whatever their handlers did, it carries the ids of all requests served before, oldest
  first, in front of the request's own id: the middleware assigns the extended logger to the variable
  all requests share, which grows by one pair for every request.\<close>

theorem request_logger_grows:
  "\<exists>w'. LoggingHandler now ingress rw next r (serve_all now ingress rw next rs (w, l)) =
     (case serve_request now ingress rw next (r\<lparr>lr_Logger := Some (lg_keyvals l @ id_fields rs @ id_fields [r])\<rparr>)
             (w', \<lparr>rl_status = 200, rl_size = 0\<rparr>) of
        (res, (w2, _)) \<Rightarrow> (res, (w2, With l (id_fields rs @ id_fields [r]))))"
proof -
  obtain w' where "serve_all now ingress rw next rs (w, l) = (w', With l (id_fields rs))"
    by (rule exE [OF serve_all_logger])
  then show ?thesis by (intro exI [of _ w']) (simp add: LoggingHandler_With)
qed

end
