(* ===== verification/Ignition.thy ===== *)
theory Ignition
  imports Certificates KubeUtil Clients
begin

text \<open>
  From the values of a release to a node: the secret of the chart
  (\<open>src/charts/kube-master/templates/secrets.yaml\<close>) and the ignition of a node
  (\<open>src/pkg/templates/ignition.go\<close>), which reads that secret. Rendering of the node template and the
  transpiler of Container Linux configurations are parameters.
\<close>

section \<open>The secret of a release\<close>

text \<open>\<open>required\<close> of helm fails for a missing and for an empty value.\<close>

definition required :: "string \<Rightarrow> string option \<Rightarrow> string outcome" where
  "required msg v = (case v of Some (c # s) \<Rightarrow> Ok (c # s) | _ \<Rightarrow> Fail (Errorf msg))"

definition required_entry :: "string \<Rightarrow> string \<Rightarrow> string \<Rightarrow> (string \<times> string) outcome" where
  "required_entry key msg v = obind (required msg (Some v)) (\<lambda>x. Ok (key, x))"

primrec omap :: "('a \<Rightarrow> 'b outcome) \<Rightarrow> 'a list \<Rightarrow> 'b list outcome" where
  "omap f [] = Ok []"
| "omap f (x # xs) = obind (f x) (\<lambda>y. obind (omap f xs) (\<lambda>ys. Ok (y # ys)))"

definition openstack_config :: "HelmValues \<Rightarrow> string outcome" where
  "openstack_config v =
     (let os = hv_Openstack v in
      obind (required ''missing openstack.authURL'' (Some (oo_AuthURL os))) (\<lambda>authURL.
      obind (required ''missing openstack.username'' (Some (oo_Username os))) (\<lambda>username.
      obind (required ''missing openstack.password'' (Some (oo_Password os))) (\<lambda>password.
      obind (required ''missing openstack.domainName'' (Some (oo_DomainName os))) (\<lambda>domainName.
      obind (required ''missing openstack.lbSubnetID'' (Some (hv_LbSubnetID v))) (\<lambda>lbSubnetID.
      obind (required ''missing openstack.routerID'' (Some (hv_RouterID v))) (\<lambda>routerID.
      Ok (Join ([''[Global]'', ''auth-url = '' @ authURL, ''username = '' @ username, ''password = '' @ password,
                 ''domain-name = '' @ domainName] @
                (if oo_Region os \<noteq> [] then [''region = '' @ oo_Region os] else []) @
                [''[LoadBalancer]'', ''lb-version=v2'', ''subnet-id= '' @ lbSubnetID, ''create-monitor = yes'',
                 ''monitor-delay = 1m'', ''monitor-timeout = 30s'', ''monitor-max-retries = 3'', ''[BlockStorage]'',
                 ''trust-device-path = no'', ''[Route]'', ''router-id = '' @ routerID, []]) nl))))))))"

definition token_csv :: "HelmValues \<Rightarrow> string outcome" where
  "token_csv v =
     obind (required ''missing boostrapToken'' (Some (hv_BootstrapToken v))) (\<lambda>t.
     Ok (t @ '',kubelet-bootstrap,10001,'' @ [CHR 0x22] @ ''system:bootstrappers'' @ [CHR 0x22] @ nl))"

definition chart_certs :: "string list" where
  "chart_certs =
     [''apiserver-clients-ca-key.pem'', ''apiserver-clients-ca.pem'', ''apiserver-clients-cluster-admin-key.pem'',
      ''apiserver-clients-cluster-admin.pem'', ''apiserver-clients-system-kube-controller-manager-key.pem'',
      ''apiserver-clients-system-kube-controller-manager.pem'', ''apiserver-clients-system-kube-proxy-key.pem'',
      ''apiserver-clients-system-kube-proxy.pem'', ''apiserver-clients-system-kube-scheduler-key.pem'',
      ''apiserver-clients-system-kube-scheduler.pem'', ''apiserver-clients-kubernikus-wormhole.pem'',
      ''apiserver-clients-kubernikus-wormhole-key.pem'', ''apiserver-nodes-ca-key.pem'', ''apiserver-nodes-ca.pem'',
      ''etcd-clients-apiserver-key.pem'', ''etcd-clients-apiserver.pem'', ''etcd-clients-ca-key.pem'', ''etcd-clients-ca.pem'',
      ''etcd-peers-ca-key.pem'', ''etcd-peers-ca.pem'', ''kubelet-clients-apiserver-key.pem'',
      ''kubelet-clients-apiserver.pem'', ''kubelet-clients-ca-key.pem'', ''kubelet-clients-ca.pem'', ''tls-ca-key.pem'',
      ''tls-ca.pem'', ''tls-apiserver.pem'', ''tls-apiserver-key.pem'', ''tls-wormhole.pem'', ''tls-wormhole-key.pem'']"

text \<open>\<open>.Values.certsSecretName\<close> is not among the values the program passes.\<close>

definition chart_secret :: "HelmValues \<Rightarrow> secret outcome" where
  "chart_secret v =
     obind (openstack_config v) (\<lambda>config.
     obind (omap (\<lambda>(key, x). required_entry key (''missing '' @ key) x)
       [(''openstack-auth-url'', oo_AuthURL (hv_Openstack v)), (''openstack-username'', oo_Username (hv_Openstack v)),
        (''openstack-password'', oo_Password (hv_Openstack v)), (''openstack-domain-name'', oo_DomainName (hv_Openstack v)),
        (''openstack-lb-subnet-id'', hv_LbSubnetID v), (''openstack-router-id'', hv_RouterID v),
        (''openstack-project-id'', hv_ProjectID v), (''openstack-region'', oo_Region (hv_Openstack v))]) (\<lambda>os.
     obind (required_entry ''bootstrapToken'' ''missing boostrapToken'' (hv_BootstrapToken v)) (\<lambda>token.
     obind (token_csv v) (\<lambda>csv.
     obind (omap (\<lambda>f. obind (required (''missing cert/key: '' @ f) (map_of (hv_Certs v) f)) (\<lambda>x. Ok (f, x))) chart_certs) (\<lambda>certs.
     Ok ([(''openstack.config'', config)] @ os @ [token, (''token.csv'', csv)] @ certs @
         [(''apiserver-clients-and-nodes-ca.pem'',
           label_of (hv_Certs v) ''apiserver-clients-ca.pem'' @ label_of (hv_Certs v) ''apiserver-nodes-ca.pem'')]))))))"

section \<open>The ignition of a node\<close>

definition requiredNodeSecrets :: "string list" where
  "requiredNodeSecrets =
     [''tls-ca.pem'', ''kubelet-clients-ca.pem'', ''apiserver-clients-system-kube-proxy.pem'',
      ''apiserver-clients-system-kube-proxy-key.pem'', ''bootstrapToken'', ''openstack-auth-url'', ''openstack-username'',
      ''openstack-password'', ''openstack-domain-name'', ''openstack-region'']"

record NodeData =
  nd_TLSCA :: string
  nd_KubeletClientsCA :: string
  nd_ApiserverClientsSystemKubeProxy :: string
  nd_ApiserverClientsSystemKubeProxyKey :: string
  nd_ClusterDomain :: string
  nd_ClusterDNSAddress :: string
  nd_ClusterCIDR :: string
  nd_ApiserverURL :: string
  nd_ApiserverIP :: string
  nd_BootstrapToken :: string
  nd_OpenstackAuthURL :: string
  nd_OpenstackUsername :: string
  nd_OpenstackPassword :: string
  nd_OpenstackDomain :: string
  nd_OpenstackRegion :: string
  nd_OpenstackLBSubnetID :: string
  nd_OpenstackRouterID :: string
  nd_KubernikusImage :: string
  nd_KubernikusImageTag :: string

definition node_data :: "string \<Rightarrow> Kluster \<Rightarrow> secret \<Rightarrow> NodeData" where
  "node_data GitCommit kluster secret =
     \<lparr>nd_TLSCA = label_of secret ''tls-ca.pem'',
      nd_KubeletClientsCA = label_of secret ''kubelet-clients-ca.pem'',
      nd_ApiserverClientsSystemKubeProxy = label_of secret ''apiserver-clients-system-kube-proxy.pem'',
      nd_ApiserverClientsSystemKubeProxyKey = label_of secret ''apiserver-clients-system-kube-proxy-key.pem'',
      nd_ClusterDomain = spec_DNSDomain (k_Spec kluster),
      nd_ClusterDNSAddress = spec_DNSAddress (k_Spec kluster),
      nd_ClusterCIDR = spec_ClusterCIDR (k_Spec kluster),
      nd_ApiserverURL = st_Apiserver (k_Status kluster),
      nd_ApiserverIP = spec_AdvertiseAddress (k_Spec kluster),
      nd_BootstrapToken = label_of secret ''bootstrapToken'',
      nd_OpenstackAuthURL = label_of secret ''openstack-auth-url'',
      nd_OpenstackUsername = label_of secret ''openstack-username'',
      nd_OpenstackPassword = label_of secret ''openstack-password'',
      nd_OpenstackDomain = label_of secret ''openstack-domain-name'',
      nd_OpenstackRegion = label_of secret ''openstack-region'',
      nd_OpenstackLBSubnetID = os_LBSubnetID (spec_Openstack (k_Spec kluster)),
      nd_OpenstackRouterID = os_RouterID (spec_Openstack (k_Spec kluster)),
      nd_KubernikusImage = ''sapcc/kubernikus'',
      nd_KubernikusImageTag = GitCommit\<rparr>"

text \<open>A report of the transpiler: its text and whether it has a fatal entry.\<close>

record ct_report =
  rp_text :: string
  rp_fatal :: bool

text \<open>\<open>ig_Execute\<close> parses and executes the template \<open>Node\<close>.\<close>

record ('c, 'i) ignition_services =
  ig_Execute :: "NodeData \<Rightarrow> string outcome"
  ig_Parse :: "string \<Rightarrow> 'c \<times> ct_report"
  ig_ConvertAs2_0 :: "'c \<Rightarrow> 'i \<times> ct_report"
  ig_MarshalIndent :: "'i \<Rightarrow> string outcome"

definition generate ::
  "('c, 'i) ignition_services \<Rightarrow> NodeData \<Rightarrow> string outcome" where
  "generate ig data =
     obind (ig_Execute ig data) (\<lambda>buffer.
       let (cfg, report) = ig_Parse ig buffer in
       if rp_fatal report then Fail (Errorf (''Couldn't transpile ignition file: '' @ rp_text report))
       else
         let (cfg2, report2) = ig_ConvertAs2_0 ig cfg in
         if rp_fatal report2 then Fail (Errorf (''Couldn't convert ignition config: '' @ rp_text report2))
         else obind (ig_MarshalIndent ig cfg2) (\<lambda>dataOut. Ok (dataOut @ nl)))"

primrec first_missing :: "secret \<Rightarrow> string list \<Rightarrow> string option" where
  "first_missing secret [] = None"
| "first_missing secret (f # fs) = (if map_of secret f = None then Some f else first_missing secret fs)"

definition GenerateNode :: "('c, 'i) ignition_services \<Rightarrow> string \<Rightarrow> Kluster \<Rightarrow> secret \<Rightarrow> string outcome" where
  "GenerateNode ig GitCommit kluster secret =
     (case first_missing secret requiredNodeSecrets of
        Some f \<Rightarrow> Fail (Errorf (''Field '' @ f @ '' missing in secret''))
      | None \<Rightarrow> generate ig (node_data GitCommit kluster secret))"

section \<open>From the certificates to the node\<close>

definition plan_files :: "string list" where
  "plan_files = concat (map (\<lambda>r. [row_File r @ ''.pem'', row_File r @ ''-key.pem'']) cert_plan)"

lemma chart_certs_planned: "list_all (\<lambda>f. f \<in> set plan_files) chart_certs"
  by code_simp

lemma planned_file:
  assumes "f \<in> set plan_files"
  obtains r where "r \<in> set cert_plan" "f = row_File r @ ''.pem'' \<or> f = row_File r @ ''-key.pem''"
  using assms unfolding plan_files_def by auto

text \<open>What the PEM encoders are relied on for: they never write an empty text.\<close>

definition pem_nonempty :: "('w, 'key) crypto \<Rightarrow> bool" where
  "pem_nonempty cr \<longleftrightarrow> (\<forall>c. cr_EncodeCertPEM cr c \<noteq> []) \<and> (\<forall>k. cr_EncodePrivateKeyPEM cr k \<noteq> [])"

lemma chart_cert_present:
  assumes "crypto_works cr" "pem_nonempty cr" "CreateCertificates cr kluster apiURL authURL dm w = (Ok m, w')" "f \<in> set chart_certs"
  shows "\<exists>x. map_of m f = Some x \<and> x \<noteq> []"
proof -
  obtain ip where "ApiServiceIP kluster = Ok ip"
    using assms(3) by (auto simp: CreateCertificates_def bnd_eq_Ok_iff)
  from CreateCertificates_result [OF assms(1) this, of apiURL authURL dm w]
  have m: "\<forall>r\<in>set cert_plan. \<exists>c k. cert_matches r c \<and>
       map_of m (row_File r @ ''.pem'') = Some (cr_EncodeCertPEM cr c) \<and>
       map_of m (row_File r @ ''-key.pem'') = Some (cr_EncodePrivateKeyPEM cr k)"
    unfolding assms(3) prod.inject outcome.inject by (elim exE conjE) simp
  have "f \<in> set plan_files" using chart_certs_planned assms(4) by (simp add: list_all_iff)
  then obtain r where r: "r \<in> set cert_plan" "f = row_File r @ ''.pem'' \<or> f = row_File r @ ''-key.pem''"
    by (rule planned_file)
  with m assms(2) show ?thesis by (auto simp: pem_nonempty_def dest!: bspec [OF _ r(1)])
qed

lemma required_Some: "x \<noteq> [] \<Longrightarrow> required msg (Some x) = Ok x"
  by (cases x) (simp_all add: required_def)

lemma required_eq: "obind (required msg (Some x)) f = (if x = [] then Fail (Errorf msg) else f x)"
  by (cases x) (simp_all add: required_def)

lemma obind_if: "obind (if b then Fail e else r) f = (if b then Fail e else obind r f)"
  by simp

lemma omap_certs:
  assumes "\<forall>f\<in>set fs. \<exists>x. map_of m f = Some x \<and> x \<noteq> []"
  shows "omap (\<lambda>f. obind (required (msg f) (map_of m f)) (\<lambda>x. Ok (f, x))) fs = Ok (map (\<lambda>f. (f, label_of m f)) fs)"
  using assms by (induction fs) (auto simp: required_Some label_of_def)

text \<open>The values a release needs besides the certificates.\<close>

definition values_present :: "HelmValues \<Rightarrow> bool" where
  "values_present v \<longleftrightarrow> oo_AuthURL (hv_Openstack v) \<noteq> [] \<and> oo_Username (hv_Openstack v) \<noteq> [] \<and>
     oo_Password (hv_Openstack v) \<noteq> [] \<and> oo_DomainName (hv_Openstack v) \<noteq> [] \<and> oo_Region (hv_Openstack v) \<noteq> [] \<and>
     hv_LbSubnetID v \<noteq> [] \<and> hv_RouterID v \<noteq> [] \<and> hv_ProjectID v \<noteq> [] \<and> hv_BootstrapToken v \<noteq> []"

lemma chart_secret_values:
  assumes "\<forall>f\<in>set chart_certs. \<exists>x. map_of (hv_Certs v) f = Some x \<and> x \<noteq> []"
  shows "values_present v \<Longrightarrow> \<exists>config csv both. chart_secret v =
      Ok ([(''openstack.config'', config), (''openstack-auth-url'', oo_AuthURL (hv_Openstack v)),
          (''openstack-username'', oo_Username (hv_Openstack v)), (''openstack-password'', oo_Password (hv_Openstack v)),
          (''openstack-domain-name'', oo_DomainName (hv_Openstack v)), (''openstack-lb-subnet-id'', hv_LbSubnetID v),
          (''openstack-router-id'', hv_RouterID v), (''openstack-project-id'', hv_ProjectID v),
          (''openstack-region'', oo_Region (hv_Openstack v)), (''bootstrapToken'', hv_BootstrapToken v), (''token.csv'', csv)] @
          map (\<lambda>f. (f, label_of (hv_Certs v) f)) chart_certs @ [(''apiserver-clients-and-nodes-ca.pem'', both)])"
    "\<not> values_present v \<Longrightarrow> \<exists>e. chart_secret v = Fail e"
  by (simp_all add: values_present_def chart_secret_def openstack_config_def token_csv_def required_entry_def required_eq
      obind_if omap_certs [OF assms] Let_def) blast

lemma label_of_Some: "map_of s k = Some x \<Longrightarrow> label_of s k = x"
  by (simp add: label_of_def)

lemma first_missing_None: "first_missing secret fs = None \<longleftrightarrow> (\<forall>f\<in>set fs. map_of secret f \<noteq> None)"
  by (induction fs) simp_all

lemma secret_lookups:
  assumes "secret = [(''openstack.config'', config), (''openstack-auth-url'', a), (''openstack-username'', b),
      (''openstack-password'', c), (''openstack-domain-name'', d), (''openstack-lb-subnet-id'', e), (''openstack-router-id'', f),
      (''openstack-project-id'', g), (''openstack-region'', h), (''bootstrapToken'', i), (''token.csv'', csv)] @
      map (\<lambda>f. (f, val f)) chart_certs @ [(''apiserver-clients-and-nodes-ca.pem'', both)]"
  shows "map_of secret ''openstack-auth-url'' = Some a" "map_of secret ''openstack-username'' = Some b"
    "map_of secret ''openstack-password'' = Some c" "map_of secret ''openstack-domain-name'' = Some d"
    "map_of secret ''openstack-project-id'' = Some g" "map_of secret ''openstack-region'' = Some h"
    "map_of secret ''bootstrapToken'' = Some i"
    "map_of secret ''tls-ca.pem'' = Some (val ''tls-ca.pem'')"
    "map_of secret ''kubelet-clients-ca.pem'' = Some (val ''kubelet-clients-ca.pem'')"
    "map_of secret ''apiserver-clients-system-kube-proxy.pem'' = Some (val ''apiserver-clients-system-kube-proxy.pem'')"
    "map_of secret ''apiserver-clients-system-kube-proxy-key.pem'' = Some (val ''apiserver-clients-system-kube-proxy-key.pem'')"
  by (simp_all add: assms chart_certs_def)


text \<open>A kluster in a project, and a transpiler that keeps the bootstrap token.\<close>

definition node_crypto :: "(nat, nat) crypto" where
  "node_crypto = demo_crypto\<lparr>cr_EncodeCertPEM := (\<lambda>c. ''CERT '' @ nm_CommonName (crt_Subject c)),
     cr_EncodePrivateKeyPEM := (\<lambda>k. ''KEY '' @ nat_dec k)\<rparr>"

lemma node_crypto_laws: "crypto_works node_crypto" "pem_nonempty node_crypto"
  using demo_crypto_works by (simp_all add: node_crypto_def crypto_works_def pem_nonempty_def)

definition node_kluster :: Kluster where
  "node_kluster = cert_kluster\<lparr>k_Spec := (k_Spec cert_kluster)\<lparr>spec_Openstack :=
     \<lparr>os_LBSubnetID = ''lb'', os_NetworkID = ''net'', os_ProjectID = ''p1'', os_RouterID = ''r1'', os_SecurityGroupID = ''default''\<rparr>\<rparr>\<rparr>"

lemma node_kluster_ip: "ApiServiceIP node_kluster = Ok (nat_bytes 3323101185)"
  using cert_kluster_ip by (simp add: ApiServiceIP_def node_kluster_def)

definition node_user :: OpenstackOptions where
  "node_user = \<lparr>oo_AuthURL = ''https://auth'', oo_Username = ''kubernikus-demo'', oo_Password = ''pw'',
     oo_DomainName = ''kubernikus'', oo_Region = ''eu''\<rparr>"

definition demo_ignition :: "(string, string) ignition_services" where
  "demo_ignition = \<lparr>ig_Execute = (\<lambda>d. Ok (nd_BootstrapToken d)), ig_Parse = (\<lambda>b. (b, \<lparr>rp_text = [], rp_fatal = False\<rparr>)),
     ig_ConvertAs2_0 = (\<lambda>b. (b, \<lparr>rp_text = [], rp_fatal = False\<rparr>)), ig_MarshalIndent = Ok\<rparr>"


end
