(* ===== verification/Lifecycle.thy ===== *)
theory Lifecycle
  imports Ground HandlersLaws
begin

text \<open>
  The life of a kluster across components: the API (\<open>src/pkg/api/handlers\<close>) creates the custom
  resource, ground control (\<open>src/pkg/controller/ground.go\<close>) takes it to the phase Running, the API
  marks it Terminating and ground control removes it. Both work on one store of resources; the
  services of ground control are assumed to succeed.
\<close>

section \<open>Services that succeed\<close>

text \<open>A call that succeeds from every world, leaves the custom resources alone and returns a value
  with a property.\<close>

definition fine :: "('w \<Rightarrow> kluster_store) \<Rightarrow> ('w, 'a) go \<Rightarrow> ('a \<Rightarrow> bool) \<Rightarrow> bool" where
  "fine st m Q \<longleftrightarrow> (\<forall>w. \<exists>x w'. m w = (Ok x, w') \<and> st w' = st w \<and> Q x)"

abbreviation "anything \<equiv> (\<lambda>_. True)"

named_theorems fine_intro

lemma fineE:
  assumes "fine st m Q"
  obtains x w' where "m w = (Ok x, w')" "st w' = st w" "Q x"
  using assms unfolding fine_def by blast

lemma fine_ret [fine_intro]: "Q x \<Longrightarrow> fine st (ret x) Q"
  by (simp add: fine_def)

lemma fine_bnd [fine_intro]:
  assumes "fine st m P" "\<And>x. P x \<Longrightarrow> fine st (f x) Q"
  shows "fine st (bnd m f) Q"
  unfolding fine_def
proof
  fix w
  obtain x w1 where "m w = (Ok x, w1)" "st w1 = st w" "P x" by (rule fineE [OF assms(1)])
  moreover obtain y w2 where "f x w1 = (Ok y, w2)" "st w2 = st w1" "Q y"
    by (rule fineE [OF assms(2) [OF \<open>P x\<close>]])
  ultimately show "\<exists>y w'. bnd m f w = (Ok y, w') \<and> st w' = st w \<and> Q y" by simp
qed

lemma fine_tryc [fine_intro]:
  assumes "fine st m P" "\<And>x. P x \<Longrightarrow> fine st (f x) Q"
  shows "fine st (tryc m h f) Q"
  unfolding fine_def
proof
  fix w
  obtain x w1 where "m w = (Ok x, w1)" "st w1 = st w" "P x" by (rule fineE [OF assms(1)])
  moreover obtain y w2 where "f x w1 = (Ok y, w2)" "st w2 = st w1" "Q y"
    by (rule fineE [OF assms(2) [OF \<open>P x\<close>]])
  ultimately show "\<exists>y w'. tryc m h f w = (Ok y, w') \<and> st w' = st w \<and> Q y" by simp
qed

lemma fine_if [fine_intro]: "(b \<Longrightarrow> fine st m Q) \<Longrightarrow> (\<not> b \<Longrightarrow> fine st m2 Q) \<Longrightarrow> fine st (if b then m else m2) Q"
  by simp

lemma fine_lift_outcome [fine_intro]: "\<exists>x. r = Ok x \<and> Q x \<Longrightarrow> fine st (lift_outcome r) Q"
  by (auto simp: fine_def)

definition ground_healthy :: "'w GroundEnv \<Rightarrow> ('w \<Rightarrow> kluster_store) \<Rightarrow> Kluster \<Rightarrow> bool" where
  "ground_healthy ge st k \<longleftrightarrow>
     (let cl = ge_Clients ge; os = cl_Openstack cl in
      kluster_up (cl_Klusters cl) st \<and>
      (\<forall>w ns n. st w (ns, n) \<noteq> None \<longrightarrow>
         (\<exists>w'. kc_Delete (cl_Klusters cl) ns n w = (Ok (), w') \<and> st w' = (st w)((ns, n) := None))) \<and>
      (\<forall>w. ge_GetByKey ge w (kluster_key k) = st w (k_Namespace k, k_Name k)) \<and>
      fine st (ge_tick ge) anything \<and> fine st (ge_listStorageClasses ge) anything \<and> fine st (ge_listVolumes ge) anything \<and>
      (\<forall>k2 a b c. spec_ServiceCIDR (k_Spec k2) = spec_ServiceCIDR (k_Spec k) \<longrightarrow> fine st (ge_CreateCertificates ge k2 a b c) anything) \<and>
      (\<forall>n. fine st (ge_Random ge n) anything) \<and> (\<forall>v. \<exists>y. ge_yaml_Marshal ge v = Ok y) \<and>
      fine st (oc_GetKubernikusCatalogEntry os) anything \<and> fine st (oc_GetRegion os) anything \<and>
      (\<forall>a b c d. fine st (oc_CreateKlusterServiceUser os a b c d) anything) \<and> (\<forall>a b. fine st (oc_DeleteUser os a b) anything) \<and>
      (\<forall>p n. fine st (oc_GetSecurityGroupID os p n) anything) \<and>
      fine st (oc_GetRouters os (Account k)) (\<lambda>routers.
        \<exists>os2. select_openstack routers (Account k) (spec_Openstack (k_Spec k)) = Ok os2 \<and> complete_openstack os2) \<and>
      (\<forall>a b c d. fine st (cl_helm_Install cl a b c d) anything) \<and> (\<forall>a. fine st (cl_helm_Delete cl a) anything) \<and>
      (\<forall>ns n. fine st (cl_GetSecret cl ns n) anything) \<and>
      fine st (ge_podsByIndex ge (k_Name k)) (\<lambda>pods. length (filter IsPodReady pods) = 4) \<and>
      (\<forall>k2. fine st (ge_ClientFor ge k2) (\<lambda>api. \<forall>obj. fine st (ka_Create api obj) anything)) \<and>
      (\<forall>x. \<exists>d. ge_render ge x = Ok d) \<and> (\<forall>ip. \<exists>s. ge_render_svc ge ip = Ok s))"

text \<open>What no step changes.\<close>

definition same_kluster :: "Kluster \<Rightarrow> Kluster \<Rightarrow> bool" where
  "same_kluster k k' \<longleftrightarrow> k_Name k' = k_Name k \<and> k_Namespace k' = k_Namespace k \<and> k_Labels k' = k_Labels k \<and>
     spec_ServiceCIDR (k_Spec k') = spec_ServiceCIDR (k_Spec k) \<and> spec_DNSAddress (k_Spec k') = spec_DNSAddress (k_Spec k) \<and>
     st_NodePools (k_Status k') = st_NodePools (k_Status k)"

lemma fine_then: "fine st m anything \<Longrightarrow> (\<And>x. fine st (f x) Q) \<Longrightarrow> fine st (bnd m f) Q"
  by (rule fine_bnd)

lemma fine_or: "fine st m anything \<Longrightarrow> (\<And>x. fine st (f x) Q) \<Longrightarrow> fine st (tryc m h f) Q"
  by (rule fine_tryc)

lemma fine_lift: "\<exists>x. r = Ok x \<Longrightarrow> fine st (lift_outcome r) anything"
  by (auto simp: fine_def)

lemma healthyD:
  assumes "ground_healthy ge st k"
  shows "kluster_up (cl_Klusters (ge_Clients ge)) st"
    "st w (ns, n) \<noteq> None \<Longrightarrow> \<exists>w'. kc_Delete (cl_Klusters (ge_Clients ge)) ns n w = (Ok (), w') \<and> st w' = (st w)((ns, n) := None)"
    "ge_GetByKey ge w (kluster_key k) = st w (k_Namespace k, k_Name k)"
    "fine st (ge_tick ge) anything" "fine st (ge_listStorageClasses ge) anything" "fine st (ge_listVolumes ge) anything"
    "spec_ServiceCIDR (k_Spec k2) = spec_ServiceCIDR (k_Spec k) \<Longrightarrow> fine st (ge_CreateCertificates ge k2 a b c) anything"
    "fine st (ge_Random ge i) anything" "\<exists>y. ge_yaml_Marshal ge v = Ok y"
    "fine st (oc_GetKubernikusCatalogEntry (cl_Openstack (ge_Clients ge))) anything"
    "fine st (oc_GetRegion (cl_Openstack (ge_Clients ge))) anything"
    "fine st (oc_CreateKlusterServiceUser (cl_Openstack (ge_Clients ge)) a b c d) anything"
    "fine st (oc_DeleteUser (cl_Openstack (ge_Clients ge)) a b) anything"
    "fine st (oc_GetSecurityGroupID (cl_Openstack (ge_Clients ge)) a b) anything"
    "fine st (oc_GetRouters (cl_Openstack (ge_Clients ge)) (Account k)) (\<lambda>routers.
        \<exists>os2. select_openstack routers (Account k) (spec_Openstack (k_Spec k)) = Ok os2 \<and> complete_openstack os2)"
    "fine st (cl_helm_Install (ge_Clients ge) a b c d) anything" "fine st (cl_helm_Delete (ge_Clients ge) a) anything"
    "fine st (cl_GetSecret (ge_Clients ge) ns n) anything"
    "fine st (ge_podsByIndex ge (k_Name k)) (\<lambda>pods. length (filter IsPodReady pods) = 4)"
    "fine st (ge_ClientFor ge k2) (\<lambda>api. \<forall>obj. fine st (ka_Create api obj) anything)"
    "\<exists>x. ge_render ge opts = Ok x" "\<exists>x. ge_render_svc ge ip = Ok x"
  using assms unfolding ground_healthy_def Let_def by simp_all

lemma fine_createKluster:
  assumes h: "ground_healthy ge st k" and "spec_ServiceCIDR (k_Spec k1) = spec_ServiceCIDR (k_Spec k)"
  shows "fine st (createKluster ge k1) anything"
  unfolding createKluster_def Let_def wrap_err_def PVAccessMode_def KlusterToHelmValues_def
  by (intro fine_then fine_or fine_if fine_ret fine_lift healthyD(5-12,16) [OF h] assms(2) TrueI)

lemma fine_create: "(\<And>obj. fine st (ka_Create api obj) anything) \<Longrightarrow> fine st (create_or_update api c u obj) anything"
  unfolding create_or_update_def by (intro fine_or fine_ret) auto

lemma fine_SeedKluster:
  assumes h: "ground_healthy ge st k" and api: "\<And>obj. fine st (ka_Create api obj) anything"
    and addr: "spec_DNSAddress (k_Spec k1) \<noteq> []"
  shows "fine st (SeedKluster (ge_render ge) (ge_render_svc ge) api k1) anything"
  unfolding SeedKluster_def SeedAllowBootstrapTokensToPostCSRs_def SeedAutoApproveNodeBootstrapTokens_def
    SeedKubernikusAdmin_def SeedCinderStorageClass_def SeedKubeDNS_def CreateOrUpdateClusterRoleBinding_def
    CreateOrUpdateClusterRole_def createKubeDNSServiceAccount_def createKubeDNSConfigMap_def
    createKubeDNSDeployment_def createKubeDNSService_def CreateOrUpdateServiceAccount_def
    CreateOrUpdateConfigMap_def CreateOrUpdateDeployment_def CreateOrUpdateService_def
  by (intro fine_then fine_or fine_if fine_ret fine_lift fine_create api healthyD(21,22) [OF h]) (auto simp: addr)

section \<open>One turn of ground control\<close>

text \<open>How many turns a kluster is away from Running.\<close>

definition stage :: "Kluster \<Rightarrow> nat" where
  "stage k = (case st_Phase (k_Status k) of
       KlusterPhasePending \<Rightarrow> if requiresOpenstackInfo k then 4 else if requiresKubernikusInfo k then 3 else 2
     | KlusterPhaseCreating \<Rightarrow> 1
     | _ \<Rightarrow> 0)"

abbreviation "entry k \<equiv> (k_Namespace k, k_Name k)"

lemma same_kluster_key: "same_kluster k k1 \<Longrightarrow> kluster_key k1 = kluster_key k \<and> entry k1 = entry k"
  by (simp add: same_kluster_def kluster_key_def)

lemma Get_up:
  assumes "ground_healthy ge st k" "keyed (st w)" "st w (ns, n) = Some k1"
  obtains w' where "kc_Get (cl_Klusters (ge_Clients ge)) ns n w = (Ok k1, w')" "st w' = st w"
  using kluster_upD(1) [OF healthyD(1) [OF assms(1)] assms(2), of ns n] assms(3) by auto

lemma Update_up:
  assumes "ground_healthy ge st k" "keyed (st w)" "st w (entry k1) = Some k1" "st w1 = st w" "k_Name k2 = k_Name k1"
  obtains w2 where "kc_Update (cl_Klusters (ge_Clients ge)) (k_Namespace k1) k2 w1 = (Ok k2, w2)"
    "st w2 = (st w)(entry k1 \<mapsto> k2)"
  using kluster_upD(2) [OF healthyD(1) [OF assms(1)], of w1 "k_Namespace k1" k2] assms(2-5) by auto

lemma svc_fine:
  assumes "fine st m Q"
  obtains x w' where "svc m (w, g) = (Ok x, w', g)" "st w' = st w" "Q x"
proof -
  obtain x w' where "m w = (Ok x, w')" "st w' = st w" "Q x" by (rule fineE [OF assms])
  then show ?thesis by (intro that [of x w']) simp_all
qed

lemma updatePhase_up:
  assumes h: "ground_healthy ge st k" and keyed: "keyed (st w)" and k1: "st w (entry k1) = Some k1"
    and key: "kluster_key k1 = kluster_key k" "entry k1 = entry k" and ph: "st_Phase (k_Status k1) \<noteq> ph"
  shows "\<exists>w' g'. updatePhase ge k1 ph msg (w, g) = (Ok (), w', g') \<and>
    st w' = (st w)(entry k1 \<mapsto> k1\<lparr>k_Status := (k_Status k1)\<lparr>st_Message := msg, st_Phase := ph\<rparr>\<rparr>)"
proof -
  let ?k2 = "k1\<lparr>k_Status := (k_Status k1)\<lparr>st_Message := msg, st_Phase := ph\<rparr>\<rparr>"
  obtain w1 where w1: "kc_Get (cl_Klusters (ge_Clients ge)) (k_Namespace k1) (k_Name k1) w = (Ok k1, w1)" "st w1 = st w"
    by (rule Get_up [OF h keyed k1])
  obtain w2 where w2:
    "kc_Update (cl_Klusters (ge_Clients ge)) (k_Namespace k1) ?k2 w1 = (Ok ?k2, w2)" "st w2 = (st w)(entry k1 \<mapsto> ?k2)"
    by (rule Update_up [OF h keyed k1 w1(2), where ?k2.0 = ?k2]) simp_all
  obtain w3 where w3: "ge_tick ge w2 = (Ok (), w3)" "st w3 = st w2"
    by (rule fineE [OF healthyD(4) [OF h], of w2]) auto
  have "kluster_key ?k2 = kluster_key k1" by (simp add: kluster_key_def)
  then have "kluster_key ?k2 = kluster_key k" using key(1) by (rule trans)
  then have "ge_GetByKey ge w3 (kluster_key ?k2) = Some ?k2"
    using healthyD(3) [OF h, of w3] w3(2) w2(2) key(2) by simp
  then have "WaitForKluster (ge_tick ge) (ge_GetByKey ge) (kluster_key ?k2) (\<lambda>c. st_Phase (k_Status c) = ph) w2 = (Ok (), w3)"
    by (rule WaitForKluster_hit [where k = ?k2 and c = "\<lambda>c. st_Phase (k_Status c) = ph", rotated]) (simp, rule w3(1))
  with w1 w2 w3 ph show ?thesis
    by (simp add: updatePhase_def Eventf_def ignore_err_def Let_def)
qed

text \<open>A turn succeeds, replaces the kluster by one nearer to Running and leaves the others alone.\<close>

definition advances :: "('w \<Rightarrow> kluster_store) \<Rightarrow> Kluster \<Rightarrow> ('w \<times> gctl, unit) go \<Rightarrow> 'w \<Rightarrow> gctl \<Rightarrow> bool" where
  "advances st k1 m w g \<longleftrightarrow> (\<exists>w' g' k2. m (w, g) = (Ok (), w', g') \<and> st w' = (st w)(entry k1 \<mapsto> k2) \<and>
     same_kluster k1 k2 \<and> stage k2 < stage k1 \<and>
     st_Phase (k_Status k2) \<in> {KlusterPhasePending, KlusterPhaseCreating, KlusterPhaseRunning})"

lemma advancesI:
  assumes "m (w, g) = (Ok (), w', g')" "st w' = (st w)(entry k1 \<mapsto> k2)" "same_kluster k1 k2" "stage k2 < stage k1"
    "st_Phase (k_Status k2) \<in> {KlusterPhasePending, KlusterPhaseCreating, KlusterPhaseRunning}"
  shows "advances st k1 m w g"
  using assms unfolding advances_def by blast

lemma or_event_up: "m (w, g) = (Ok (), w', g') \<Longrightarrow> or_event k1 reason msg m (w, g) = (Ok (), w', g')"
  by (simp add: or_event_def)

lemma discoverOpenstack_advances:
  assumes h: "ground_healthy ge st k" and keyed: "keyed (st w)" and k1: "st w (entry k1) = Some k1"
    and same: "same_kluster k k1" "spec_Openstack (k_Spec k1) = spec_Openstack (k_Spec k)"
    and ph: "st_Phase (k_Status k1) = KlusterPhasePending" "requiresOpenstackInfo k1"
  shows "advances st k1 (handle_pending ge k1) w g"
proof -
  have acc: "Account k1 = Account k" using same(1) by (simp add: same_kluster_def Account_def)
  obtain routers w1 os2 where w1: "oc_GetRouters (cl_Openstack (ge_Clients ge)) (Account k1) w = (Ok routers, w1)" "st w1 = st w"
    and sel: "select_openstack routers (Account k1) (spec_Openstack (k_Spec k1)) = Ok os2" "complete_openstack os2"
    using healthyD(15) [OF h] unfolding acc same(2) fine_def by blast
  have "keyed (st w1)" "st w1 (k_Namespace k1, k_Name k1) = Some k1" using keyed k1 w1(2) by simp_all
  then obtain w2 where w2: "kc_Get (cl_Klusters (ge_Clients ge)) (k_Namespace k1) (k_Name k1) w1 = (Ok k1, w2)" "st w2 = st w"
    using Get_up [OF h, of w1 "k_Namespace k1" "k_Name k1" k1] w1(2) by metis
  obtain sg w3 where w3: "oc_GetSecurityGroupID (cl_Openstack (ge_Clients ge)) (Account k1) ''default'' w2 = (Ok sg, w3)" "st w3 = st w2"
    by (rule fineE [OF healthyD(14) [OF h]])
  define os3 where "os3 = (if os_SecurityGroupID os2 \<noteq> [] then os2 else os2\<lparr>os_SecurityGroupID := sg\<rparr>)"
  define w' where "w' = (if os_SecurityGroupID os2 \<noteq> [] then w2 else w3)"
  have os3: "complete_openstack os3" using sel(2) by (simp add: os3_def complete_openstack_def)
  define k2 where "k2 = k1\<lparr>k_Spec := (k_Spec k1)\<lparr>spec_Openstack := os3\<rparr>\<rparr>"
  have "st w' = st w" "k_Name k2 = k_Name k1" using w2(2) w3(2) by (simp_all add: w'_def k2_def)
  from Update_up [OF h keyed k1 this] obtain w4 where w4:
    "kc_Update (cl_Klusters (ge_Clients ge)) (k_Namespace k1) k2 w' = (Ok k2, w4)" "st w4 = (st w)(entry k1 \<mapsto> k2)" .
  have "discoverOpenstackInfo ge k1 w = (Ok (), w4)"
    using w1(1) w2(1) w3(1) w4(1) sel(1) by (simp add: discoverOpenstackInfo_def os3_def w'_def k2_def split: if_splits)
  then have "handle_pending ge k1 (w, g) = (Ok (), w4, g)"
    using ph(2) by (simp add: handle_pending_def or_event_up)
  moreover have "\<not> requiresOpenstackInfo k2" using os3 by (auto simp: k2_def requiresOpenstackInfo_def complete_openstack_def)
  moreover have "same_kluster k1 k2" "st_Phase (k_Status k2) = KlusterPhasePending" using ph by (simp_all add: k2_def same_kluster_def)
  ultimately show ?thesis
    using ph w4(2) by (intro advancesI [of _ w g w4 g _ _ k2]) (simp_all add: stage_def)
qed

lemma discoverKubernikus_advances:
  assumes h: "ground_healthy ge st k" and keyed: "keyed (st w)" and k1: "st w (entry k1) = Some k1"
    and ph: "st_Phase (k_Status k1) = KlusterPhasePending" "\<not> requiresOpenstackInfo k1" "requiresKubernikusInfo k1"
  shows "advances st k1 (handle_pending ge k1) w g"
proof -
  obtain w1 where w1: "kc_Get (cl_Klusters (ge_Clients ge)) (k_Namespace k1) (k_Name k1) w = (Ok k1, w1)" "st w1 = st w"
    by (rule Get_up [OF h keyed k1])
  define st1 where "st1 = (if st_Apiserver (k_Status k1) = []
    then (k_Status k1)\<lparr>st_Apiserver := ''https://'' @ k_Name k1 @ ''.'' @ ge_Domain ge\<rparr> else k_Status k1)"
  define st2 where "st2 = (if st_Wormhole st1 = []
    then st1\<lparr>st_Wormhole := ''https://'' @ k_Name k1 @ ''-wormhole.'' @ ge_Domain ge\<rparr> else st1)"
  define k2 where "k2 = k1\<lparr>k_Status := st2\<rparr>"
  have "k_Name k2 = k_Name k1" by (simp add: k2_def)
  from Update_up [OF h keyed k1 w1(2) this] obtain w2 where w2:
    "kc_Update (cl_Klusters (ge_Clients ge)) (k_Namespace k1) k2 w1 = (Ok k2, w2)" "st w2 = (st w)(entry k1 \<mapsto> k2)" .
  have "discoverKubernikusInfo ge k1 w = (Ok (), w2)"
    by (simp only: discoverKubernikusInfo_def bnd_def w1(1) prod.case outcome.case Let_def st1_def [symmetric] st2_def [symmetric]
        k2_def [symmetric] w2(1) ret_apply)
  then have "handle_pending ge k1 (w, g) = (Ok (), w2, g)"
    using ph by (simp add: handle_pending_def or_event_up)
  moreover have "\<not> requiresOpenstackInfo k2" using ph(2) by (simp add: k2_def requiresOpenstackInfo_def)
  moreover have "\<not> requiresKubernikusInfo k2" by (simp add: requiresKubernikusInfo_def k2_def st2_def st1_def)
  moreover have "st_Phase st2 = KlusterPhasePending" "st_NodePools st2 = st_NodePools (k_Status k1)"
    using ph(1) by (simp_all add: st2_def st1_def)
  ultimately show ?thesis
    using ph w2(2) by (intro advancesI [of _ w g w2 g _ _ k2]) (simp_all add: stage_def same_kluster_def k2_def)
qed

lemma same_kluster_spec: "same_kluster k k1 \<Longrightarrow> spec_ServiceCIDR (k_Spec k1) = spec_ServiceCIDR (k_Spec k)"
  by (simp add: same_kluster_def)

lemma create_advances:
  assumes h: "ground_healthy ge st k" and keyed: "keyed (st w)" and k1: "st w (entry k1) = Some k1" and same: "same_kluster k k1"
    and ph: "st_Phase (k_Status k1) = KlusterPhasePending" "\<not> requiresOpenstackInfo k1" "\<not> requiresKubernikusInfo k1"
  shows "advances st k1 (handle_pending ge k1) w g"
proof -
  obtain x w1 where w1: "svc (createKluster ge k1) (w, g) = (Ok x, w1, g)" "st w1 = st w"
    by (rule svc_fine [OF fine_createKluster [OF h same_kluster_spec [OF same]]])
  have up: "keyed (st w1)" "st w1 (entry k1) = Some k1" "kluster_key k1 = kluster_key k" "entry k1 = entry k"
    "st_Phase (k_Status k1) \<noteq> KlusterPhaseCreating"
    using keyed k1 w1(2) same_kluster_key [OF same] ph(1) by simp_all
  from updatePhase_up [OF h up, of "''Creating Cluster''" g] obtain w' g' where u:
    "updatePhase ge k1 KlusterPhaseCreating ''Creating Cluster'' (w1, g) = (Ok (), w', g')"
    "st w' = (st w1)(entry k1 \<mapsto> k1\<lparr>k_Status := (k_Status k1)\<lparr>st_Message := ''Creating Cluster'', st_Phase := KlusterPhaseCreating\<rparr>\<rparr>)"
    by (elim exE conjE) rule
  have "handle_pending ge k1 (w, g) = (Ok (), w', g')"
    using ph(2,3) w1(1) u(1) by (simp add: handle_pending_def or_event_def ignore_err_def del: svc_apply)
  then show ?thesis
    using u(2) [unfolded w1(2)] by (rule advancesI) (simp_all add: same_kluster_def stage_def ph)
qed

lemma creating_advances:
  assumes h: "ground_healthy ge st k" and keyed: "keyed (st w)" and k1: "st w (entry k1) = Some k1" and same: "same_kluster k k1"
    and ph: "st_Phase (k_Status k1) = KlusterPhaseCreating" and addr: "spec_DNSAddress (k_Spec k) \<noteq> []"
  shows "advances st k1 (handle_creating ge k1) w g"
proof -
  have name: "k_Name k1 = k_Name k" "spec_DNSAddress (k_Spec k1) \<noteq> []" using same addr by (simp_all add: same_kluster_def)
  obtain pods w1 where w1: "svc (ge_podsByIndex ge (k_Name k1)) (w, g) = (Ok pods, w1, g)" "st w1 = st w"
    "length (filter IsPodReady pods) = 4"
    by (rule svc_fine [OF healthyD(19) [OF h], folded name(1)])
  obtain api w2 where w2: "svc (ge_ClientFor ge k1) (w1, g) = (Ok api, w2, g)" "st w2 = st w1"
    "\<forall>obj. fine st (ka_Create api obj) anything"
    by (rule svc_fine [OF healthyD(20) [OF h]])
  have seed: "fine st (SeedKluster (ge_render ge) (ge_render_svc ge) api k1) anything"
    using w2(3) by (intro fine_SeedKluster [OF h _ name(2)]) blast
  obtain x w3 where w3: "svc (SeedKluster (ge_render ge) (ge_render_svc ge) api k1) (w2, g) = (Ok x, w3, g)" "st w3 = st w2"
    by (rule svc_fine [OF seed])
  have up: "keyed (st w3)" "st w3 (entry k1) = Some k1" "kluster_key k1 = kluster_key k" "entry k1 = entry k"
    "st_Phase (k_Status k1) \<noteq> KlusterPhaseRunning"
    using keyed k1 w1(2) w2(2) w3(2) same_kluster_key [OF same] ph by simp_all
  from updatePhase_up [OF h up, of "[]" g] obtain w' g' where u:
    "updatePhase ge k1 KlusterPhaseRunning [] (w3, g) = (Ok (), w', g')"
    "st w' = (st w3)(entry k1 \<mapsto> k1\<lparr>k_Status := (k_Status k1)\<lparr>st_Message := [], st_Phase := KlusterPhaseRunning\<rparr>\<rparr>)"
    by (elim exE conjE) rule
  obtain g'' where "handle_creating ge k1 (w, g) = (Ok (), w', g'')"
    using w1 w2(1) w3(1) u(1)
    by (simp add: handle_creating_def ignore_err_def set_metric_def del: svc_apply)
  then show ?thesis
    using u(2) [unfolded w3(2) w2(2) w1(2)] by (rule advancesI) (simp_all add: same_kluster_def stage_def ph)
qed

section \<open>From the API and back\<close>

text \<open>A turn of the controller on a key that ends without an error.\<close>

definition turn :: "'w GroundEnv \<Rightarrow> string \<Rightarrow> 'w \<times> gctl \<Rightarrow> 'w \<times> gctl \<Rightarrow> bool" where
  "turn ge key s s' \<longleftrightarrow> handler ge key s = (Ok (), s')"

lemma handler_stored:
  assumes h: "ground_healthy ge st k" and k1: "st w (entry k) = Some k1"
  shows "\<exists>g'. handler ge (kluster_key k) (w, g) =
     (case st_Phase (k_Status k1) of
        KlusterPhasePending \<Rightarrow> handle_pending ge k1
      | KlusterPhaseCreating \<Rightarrow> handle_creating ge k1
      | KlusterPhaseTerminating \<Rightarrow> handle_terminating ge k1
      | _ \<Rightarrow> ret ()) (w, g')"
  using healthyD(3) [OF h, of w] k1 by (auto simp: handler_def handle_kluster_def set_metric_def gets_def)

lemma turn_advances:
  assumes h: "ground_healthy ge st k" and keyed: "keyed (st w)" and k1: "st w (entry k) = Some k1" and same: "same_kluster k k1"
    and spec: "st_Phase (k_Status k1) = KlusterPhasePending \<and> requiresOpenstackInfo k1 \<longrightarrow> spec_Openstack (k_Spec k1) = spec_Openstack (k_Spec k)"
    and ph: "st_Phase (k_Status k1) \<in> {KlusterPhasePending, KlusterPhaseCreating}" and addr: "spec_DNSAddress (k_Spec k) \<noteq> []"
  shows "\<exists>w' g' k2. turn ge (kluster_key k) (w, g) (w', g') \<and> st w' = (st w)(entry k \<mapsto> k2) \<and> same_kluster k1 k2 \<and>
    stage k2 < stage k1 \<and> st_Phase (k_Status k2) \<in> {KlusterPhasePending, KlusterPhaseCreating, KlusterPhaseRunning}"
proof -
  have e: "entry k1 = entry k" using same_kluster_key [OF same] by simp
  obtain g' where t: "handler ge (kluster_key k) (w, g) = (case st_Phase (k_Status k1) of
        KlusterPhasePending \<Rightarrow> handle_pending ge k1 | KlusterPhaseCreating \<Rightarrow> handle_creating ge k1
      | KlusterPhaseTerminating \<Rightarrow> handle_terminating ge k1 | _ \<Rightarrow> ret ()) (w, g')"
    by (rule exE [OF handler_stored [OF h k1]])
  have k1': "st w (entry k1) = Some k1" using k1 e by simp
  have "advances st k1 (case st_Phase (k_Status k1) of
        KlusterPhasePending \<Rightarrow> handle_pending ge k1 | KlusterPhaseCreating \<Rightarrow> handle_creating ge k1
      | KlusterPhaseTerminating \<Rightarrow> handle_terminating ge k1 | _ \<Rightarrow> ret ()) w g'"
    using ph discoverOpenstack_advances [OF h keyed k1' same] discoverKubernikus_advances [OF h keyed k1']
      create_advances [OF h keyed k1' same] creating_advances [OF h keyed k1' same _ addr] spec
    by (cases "requiresOpenstackInfo k1"; cases "requiresKubernikusInfo k1") auto
  then show ?thesis unfolding advances_def turn_def t e by blast
qed

lemma turns_to_running:
  assumes h: "ground_healthy ge st k" and addr: "spec_DNSAddress (k_Spec k) \<noteq> []"
  shows "keyed (st w) \<Longrightarrow> st w (entry k) = Some k1 \<Longrightarrow> same_kluster k k1 \<Longrightarrow>
    (st_Phase (k_Status k1) = KlusterPhasePending \<and> requiresOpenstackInfo k1 \<longrightarrow> spec_Openstack (k_Spec k1) = spec_Openstack (k_Spec k)) \<Longrightarrow>
    st_Phase (k_Status k1) \<in> {KlusterPhasePending, KlusterPhaseCreating, KlusterPhaseRunning} \<Longrightarrow>
    \<exists>n w' g' k2. n \<le> stage k1 \<and> (turn ge (kluster_key k) ^^ n) (w, g) (w', g') \<and> st w' = (st w)(entry k \<mapsto> k2) \<and>
      same_kluster k k2 \<and> st_Phase (k_Status k2) = KlusterPhaseRunning"
proof (induction "stage k1" arbitrary: k1 w g rule: less_induct)
  case less
  show ?case
  proof (cases "st_Phase (k_Status k1) = KlusterPhaseRunning")
    case True
    then show ?thesis
      using less.prems by (intro exI [of _ 0] exI [of _ w] exI [of _ g] exI [of _ k1]) (simp add: fun_upd_idem)
  next
    case False
    then have "st_Phase (k_Status k1) \<in> {KlusterPhasePending, KlusterPhaseCreating}" using less.prems(5) by simp
    from turn_advances [OF h less.prems(1-4) this addr, of g] obtain w' g' k2 where
      t: "turn ge (kluster_key k) (w, g) (w', g')" "st w' = (st w)(entry k \<mapsto> k2)" "same_kluster k1 k2" "stage k2 < stage k1"
      "st_Phase (k_Status k2) \<in> {KlusterPhasePending, KlusterPhaseCreating, KlusterPhaseRunning}"
      by (elim exE conjE) rule
    have same: "same_kluster k k2" using less.prems(3) t(3) by (simp add: same_kluster_def)
    have p: "keyed (st w')" "st w' (entry k) = Some k2" using less.prems(1) t(2) same by (auto simp: keyed_def same_kluster_def)
    have "stage k1 \<le> 4" by (simp add: stage_def split: KlusterPhase.split)
    then have "st_Phase (k_Status k2) = KlusterPhasePending \<and> requiresOpenstackInfo k2 \<longrightarrow> spec_Openstack (k_Spec k2) = spec_Openstack (k_Spec k)"
      using t(4) by (auto simp: stage_def [of k2])
    from less.hyps [OF t(4) p same this t(5), of g'] obtain n w2 g2 k3 where
      n: "n \<le> stage k2" "(turn ge (kluster_key k) ^^ n) (w', g') (w2, g2)" "st w2 = (st w')(entry k \<mapsto> k3)"
      "same_kluster k k3" "st_Phase (k_Status k3) = KlusterPhaseRunning" by (elim exE conjE) rule
    have "(turn ge (kluster_key k) ^^ Suc n) (w, g) (w2, g2)" by (rule relpowp_Suc_I2 [OF t(1) n(2)])
    with n t(2,4) show ?thesis
      by (intro exI [of _ "Suc n"] exI [of _ w2] exI [of _ g2] exI [of _ k3]) simp
  qed
qed

lemma turn_terminates:
  assumes h: "ground_healthy ge st k" and k1: "st w (entry k) = Some k1" and same: "same_kluster k k1"
    and ph: "st_Phase (k_Status k1) = KlusterPhaseTerminating"
  shows "\<exists>w' g'. turn ge (kluster_key k) (w, g) (w', g') \<and> st w' = (st w)(entry k := None)"
proof -
  have e: "entry k1 = entry k" "kluster_key k1 = kluster_key k" using same_kluster_key [OF same] by simp_all
  obtain g1 where t: "handler ge (kluster_key k) (w, g) = handle_terminating ge k1 (w, g1)"
    by (rule exE [OF handler_stored [OF h k1, of g]]) (simp add: ph)
  let ?user = "tryc (cl_GetSecret (ge_Clients ge) (k_Namespace k1) (k_Name k1)) (\<lambda>err. if IsNotFound err then ret () else fail err)
    (\<lambda>secret. oc_DeleteUser (cl_Openstack (ge_Clients ge)) (secret_data secret ''openstack-username'')
      (secret_data secret ''openstack-domain-name''))"
  have "fine st ?user anything" by (intro fine_or healthyD(13,18) [OF h])
  then obtain x w1 where w1: "?user w = (Ok x, w1)" "st w1 = st w" by (rule fineE)
  obtain y w2 where w2: "cl_helm_Delete (ge_Clients ge) (k_Name k1) w1 = (Ok y, w2)" "st w2 = st w1"
    by (rule fineE [OF healthyD(17) [OF h]])
  obtain w3 where w3: "kc_Delete (cl_Klusters (ge_Clients ge)) (k_Namespace k1) (k_Name k1) w2 = (Ok (), w3)"
    "st w3 = (st w)(entry k := None)"
    using healthyD(2) [OF h, of w2 "k_Namespace k1" "k_Name k1"] k1 w1(2) w2(2) e by auto
  obtain w4 where w4: "ge_tick ge w3 = (Ok (), w4)" "st w4 = st w3"
    by (rule fineE [OF healthyD(4) [OF h], of w3]) auto
  have "ge_GetByKey ge w4 (kluster_key k1) = None"
    using healthyD(3) [OF h, of w4] w3(2) w4(2) e by simp
  from WaitForKluster_gone [where tick = "ge_tick ge" and GetByKey = "ge_GetByKey ge", OF w4(1) this]
  have "WaitForKlusterDeletion (ge_tick ge) (ge_GetByKey ge) (kluster_key k1) w3 = (Ok (), w4)"
    by (simp add: WaitForKlusterDeletion_def)
  then have "terminateKluster ge k1 w = (Ok (), w4)"
    using w1(1) w2(1) w3(1) by (simp add: terminateKluster_def ignore_err_def)
  then show ?thesis
    using t w3(2) w4(2) by (auto simp: turn_def handle_terminating_def or_event_def set_metric_def)
qed

lemma IP_String_not_Nil: "IP_String ip \<noteq> []"
proof (cases ip)
  case (Cons b bs)
  then show ?thesis by (cases bs) (simp_all add: IP_String_def)
qed (simp add: IP_String_def)

lemma KlusterFor_DNSAddress: "KlusterFor commit spec = Ok k \<Longrightarrow> spec_DNSAddress (k_Spec k) \<noteq> []"
  by (auto simp: KlusterFor_eq default_string_def IP_String_not_Nil elim!: obind_OkE split: if_splits)


text \<open>The control plane of \<open>demo_ground\<close> with a router, four ready pods and a client for the satellite.\<close>

definition boot_router :: Router where
  "boot_router = \<lparr>rt_ID = ''r1'', rt_Networks = [\<lparr>nw_ID = ''n1'', nw_Subnets = [\<lparr>sn_ID = ''s1'', sn_CIDR = ''10.0.0.0/24''\<rparr>]\<rparr>]\<rparr>"

definition boot_pod :: Pod where
  "boot_pod = \<lparr>pod_Name = ''etcd'', pod_Namespace = ''kubernikus'', pod_Labels = [],
     pod_Conditions = [\<lparr>pc_Type = ''Ready'', pc_Status = ''True''\<rparr>]\<rparr>"

definition boot_ground :: "(kluster_store \<times> string set) GroundEnv" where
  "boot_ground = demo_ground\<lparr>
     ge_Clients := (ge_Clients demo_ground)\<lparr>cl_Openstack := idle_openstack\<lparr>oc_GetRouters := \<lambda>_. ret [boot_router]\<rparr>,
       cl_GetSecret := \<lambda>_ _. ret []\<rparr>,
     ge_podsByIndex := \<lambda>_. ret (replicate 4 boot_pod),
     ge_ClientFor := \<lambda>_. ret \<lparr>ka_Create = \<lambda>_. ret (), ka_Update = \<lambda>_. ret ()\<rparr>,
     ge_render := \<lambda>_. Ok bootstrap_binding, ge_render_svc := \<lambda>_. Ok bootstrap_binding\<rparr>"

definition boot_runtime :: "(kluster_store \<times> string set) Runtime" where
  "boot_runtime = \<lparr>rt_Klusters = cl_Klusters (ge_Clients boot_ground), rt_GetSecret = \<lambda>ns n. fail (ApiNotFound n),
     rt_getNs = \<lambda>_. ret (), rt_createNs = \<lambda>_. ret (), rt_ListEvents = \<lambda>_. ret [], rt_Namespace = ''kubernikus''\<rparr>"

lemma boot_laws:
  "kluster_create_api (rt_Klusters boot_runtime) fst" "api_frame boot_runtime fst"
  by (auto simp: kluster_create_api_def api_frame_def leaves_def boot_runtime_def boot_ground_def demo_ground_def
      stored_klusters_def svc_def split: option.splits if_splits)

lemma boot_healthy:
  assumes "k_Namespace k = ''kubernikus''" "Account k = ''b42''" "spec_Openstack (k_Spec k) = zero_OpenstackSpec"
  shows "ground_healthy boot_ground fst k"
proof -
  have "kluster_up (cl_Klusters (ge_Clients boot_ground)) fst"
    by (auto simp: kluster_up_def boot_ground_def demo_ground_def stored_klusters_def keyed_def svc_def split: option.split)
  moreover have "\<forall>w. ge_GetByKey boot_ground w (kluster_key k) = fst w (k_Namespace k, k_Name k)"
    using assms(1) by (simp add: boot_ground_def demo_ground_def kluster_key_def)
  moreover have "\<exists>os2. select_openstack [boot_router] ''b42'' zero_OpenstackSpec = Ok os2 \<and> complete_openstack os2"
    by (simp add: select_openstack_def select_router_def select_network_def select_subnet_def boot_router_def
        zero_OpenstackSpec_def complete_openstack_def)
  moreover have "IsPodReady boot_pod"
    by (simp add: IsPodReady_def IsPodReadyConditionTrue_def GetPodReadyCondition_def GetPodCondition_def boot_pod_def)
  ultimately show ?thesis
    using assms(2,3)
    by (auto simp: ground_healthy_def Let_def fine_def boot_ground_def demo_ground_def idle_openstack_def stored_klusters_def
        svc_def client_set_def)
qed

lemma demo_body_valid: "Kluster_Validate demo_body = None"
proof -
  have "kluster_name_re ''demo''" "KlusterStatus_Validate zero_KlusterStatus = None" by code_simp+
  then show ?thesis using demo_facts(1) by (simp add: Kluster_Validate_iff demo_body_def)
qed

lemma boot_created:
  obtains k0 k w0 where "KlusterFor ''HEAD'' (request_spec demo_body) = Ok k0"
    "createCluster ''HEAD'' boot_runtime demo_body demo_principal (Map.empty, {}) = (Ok (Success 201 (klusterFromCRD k)), w0)"
    "fst w0 (''kubernikus'', ''demo-b42'') = Some k" "k_Namespace k = ''kubernikus''" "k_Name k = ''demo-b42''"
    "k_Labels k = [(''account'', ''b42'')]" "k_Spec k = k_Spec k0"
proof -
  have "ParseCIDR (service_cidr (mk_Spec demo_body)) = Ok ([198, 18, 128, 0], demo_net)"
    using demo_facts(4) by (simp add: demo_body_def)
  then have "is_ok (KlusterFor ''HEAD'' (request_spec demo_body))"
    using KlusterFor_request(1) [OF demo_body_valid _ demo_facts(5)] by simp
  then obtain k0 where k0: "KlusterFor ''HEAD'' (request_spec demo_body) = Ok k0"
    by (cases "KlusterFor ''HEAD'' (request_spec demo_body)") auto
  have q: "qualifiedName ''demo'' ''b42'' = ''demo-b42''" by code_simp
  obtain k w0 where "createCluster ''HEAD'' boot_runtime demo_body demo_principal (Map.empty, {}) =
      (Ok (Success 201 (klusterFromCRD k)), w0)"
    "fst w0 (''kubernikus'', ''demo-b42'') = Some k" "k_Namespace k = ''kubernikus''" "k_Name k = ''demo-b42''"
    "k_Labels k = [(''account'', ''b42'')]" "k_Spec k = k_Spec k0"
    using k0 q
    by (simp add: createCluster_eq demo_body_def demo_spec_def boot_runtime_def boot_ground_def demo_ground_def EnsureNamespace_def
        stored_klusters_def new_kluster_def demo_principal_def ignore_err_def svc_def tryc_def)
  then show ?thesis by (rule that [OF k0])
qed


end
