(* ===== verification/Scoped.thy ===== *)
theory Scoped
  imports Handlers
begin

text \<open>
  The metadata of an OpenStack project: the API models (\<open>src/pkg/api/models/openstack_metadata.go\<close>)
  with their validation, the client scoped to the project of a request
  (\<open>src/pkg/client/openstack/scoped\<close>) and the handler that returns what it finds
  (\<open>src/pkg/api/handlers/get_openstack_metadata.go\<close>). The services behind gophercloud are the
  operations of a record over the world; the nil elements of the decoded slices do not occur in
  what the client builds and are left out.
\<close>

section \<open>Models\<close>

record MFlavor =
  mf_ID :: string
  mf_Name :: string

record MSubnet =
  ms_CIDR :: string
  ms_ID :: string
  ms_Name :: string

record MNetwork =
  mn_ID :: string
  mn_Name :: string
  mn_Subnets :: "MSubnet list"

record MRouter =
  mr_ID :: string
  mr_Name :: string
  mr_Networks :: "MNetwork list"

record MSecurityGroup =
  mg_ID :: string
  mg_Name :: string

record OpenstackMetadata =
  om_Flavors :: "MFlavor list"
  om_KeyPairs :: "string list"
  om_Routers :: "MRouter list"
  om_SecurityGroups :: "MSecurityGroup list"

text \<open>A slice of models is validated element by element; an error of the element at index \<open>i\<close> gets
  the name \<open>prop.i\<close> if it has none.\<close>

fun validate_items :: "string \<Rightarrow> ('a \<Rightarrow> validation_error option) \<Rightarrow> nat \<Rightarrow> 'a list \<Rightarrow> validation_error option" where
  "validate_items prop v i [] = None"
| "validate_items prop v i (x # xs) =
     (case v x of Some e \<Rightarrow> Some (ValidateName (prop @ ''.'' @ nat_dec i) e) | None \<Rightarrow> validate_items prop v (Suc i) xs)"

definition Flavor_Validate :: "MFlavor \<Rightarrow> validation_error option" where
  "Flavor_Validate m = CompositeValidationError []"

definition KeyPair_Validate :: "string \<Rightarrow> validation_error option" where
  "KeyPair_Validate m = CompositeValidationError []"

definition Subnet_Validate :: "MSubnet \<Rightarrow> validation_error option" where
  "Subnet_Validate m = CompositeValidationError []"

definition SecurityGroup_Validate :: "MSecurityGroup \<Rightarrow> validation_error option" where
  "SecurityGroup_Validate m = CompositeValidationError []"

definition Network_validateSubnets :: "MNetwork \<Rightarrow> validation_error option" where
  "Network_validateSubnets m = validate_items ''subnets'' Subnet_Validate 0 (mn_Subnets m)"

definition Network_Validate :: "MNetwork \<Rightarrow> validation_error option" where
  "Network_Validate m = CompositeValidationError [Network_validateSubnets m]"

definition Router_validateNetworks :: "MRouter \<Rightarrow> validation_error option" where
  "Router_validateNetworks m = validate_items ''networks'' Network_Validate 0 (mr_Networks m)"

definition Router_Validate :: "MRouter \<Rightarrow> validation_error option" where
  "Router_Validate m = CompositeValidationError [Router_validateNetworks m]"

definition validateFlavors :: "OpenstackMetadata \<Rightarrow> validation_error option" where
  "validateFlavors m = validate_items ''flavors'' Flavor_Validate 0 (om_Flavors m)"

definition validateKeyPairs :: "OpenstackMetadata \<Rightarrow> validation_error option" where
  "validateKeyPairs m = validate_items ''keyPairs'' KeyPair_Validate 0 (om_KeyPairs m)"

definition validateRouters :: "OpenstackMetadata \<Rightarrow> validation_error option" where
  "validateRouters m = validate_items ''routers'' Router_Validate 0 (om_Routers m)"

definition validateSecurityGroups :: "OpenstackMetadata \<Rightarrow> validation_error option" where
  "validateSecurityGroups m = validate_items ''securityGroups'' SecurityGroup_Validate 0 (om_SecurityGroups m)"

definition OpenstackMetadata_Validate :: "OpenstackMetadata \<Rightarrow> validation_error option" where
  "OpenstackMetadata_Validate m = CompositeValidationError
     [validateFlavors m, validateKeyPairs m, validateRouters m, validateSecurityGroups m]"

section \<open>The scoped client\<close>

record AuthOptions =
  ao_IdentityEndpoint :: string
  ao_TokenID :: string
  ao_AllowReauth :: bool
  ao_ProjectID :: string

record NetworkInfo =
  ni_ID :: string
  ni_Name :: string
  ni_Subnets :: "string list"

record ('w, 'p) scoped_services =
  sc_ProviderClient :: "string \<Rightarrow> ('w, 'p) go"
  sc_AuthenticateV3 :: "'p \<Rightarrow> AuthOptions \<Rightarrow> ('w, unit) go"
  sc_NewIdentityV3 :: "'p \<Rightarrow> ('w, unit) go"
  sc_NewComputeV2 :: "'p \<Rightarrow> ('w, unit) go"
  sc_NewNetworkV2 :: "'p \<Rightarrow> ('w, unit) go"
  sc_listRouters :: "('w, (string \<times> string) pages) go"
  sc_listPorts :: "string \<Rightarrow> string \<Rightarrow> ('w, string pages) go"
  sc_getNetwork :: "string \<Rightarrow> ('w, NetworkInfo) go"
  sc_getSubnet :: "string \<Rightarrow> ('w, MSubnet) go"
  sc_allKeyPairs :: "('w, string list) go"
  sc_listSecurityGroups :: "('w, (string \<times> string) pages) go"
  sc_listFlavors :: "('w, (string \<times> string) pages) go"

definition scoped_Authenticate :: "('w, 'p) scoped_services \<Rightarrow> AuthOptions \<Rightarrow> ('w, unit) go" where
  "scoped_Authenticate c authOptions =
     bnd (sc_ProviderClient c (ao_IdentityEndpoint authOptions)) (\<lambda>p.
     bnd (sc_AuthenticateV3 c p authOptions) (\<lambda>_.
     bnd (sc_NewIdentityV3 c p) (\<lambda>_.
     bnd (sc_NewComputeV2 c p) (\<lambda>_.
     sc_NewNetworkV2 c p))))"

text \<open>The loops over pages append what they convert to the captured slice.\<close>

definition collect_pages :: "('a \<Rightarrow> 'b) \<Rightarrow> 'a pages \<Rightarrow> ('w, 'b list) go" where
  "collect_pages f pages = EachPage pages (\<lambda>items result. ret (True, result @ map f items)) []"

definition getRouterNetworkIDs :: "('w, 'p) scoped_services \<Rightarrow> MRouter \<Rightarrow> ('w, string list) go" where
  "getRouterNetworkIDs c router = bnd (sc_listPorts c (mr_ID router) ''network:router_interface'') (collect_pages id)"

definition getSubnetIDs :: "('w, 'p) scoped_services \<Rightarrow> MNetwork \<Rightarrow> ('w, string list) go" where
  "getSubnetIDs c network = bnd (sc_getNetwork c (mn_ID network)) (\<lambda>result. ret (ni_Subnets result))"

definition getSubnets :: "('w, 'p) scoped_services \<Rightarrow> MNetwork \<Rightarrow> ('w, MSubnet list) go" where
  "getSubnets c network = bnd (getSubnetIDs c network) (map_go (sc_getSubnet c))"

text \<open>The networks are fetched first, then the subnets of each.\<close>

definition getNetworks :: "('w, 'p) scoped_services \<Rightarrow> MRouter \<Rightarrow> ('w, MNetwork list) go" where
  "getNetworks c router =
     bnd (getRouterNetworkIDs c router) (\<lambda>networkIDs.
     bnd (map_go (\<lambda>networkID. bnd (sc_getNetwork c networkID) (\<lambda>network.
            ret \<lparr>mn_ID = ni_ID network, mn_Name = ni_Name network, mn_Subnets = []\<rparr>)) networkIDs) (\<lambda>result.
     map_go (\<lambda>network. bnd (getSubnets c network) (\<lambda>subnets. ret (network\<lparr>mn_Subnets := subnets\<rparr>))) result))"

definition getRouters :: "('w, 'p) scoped_services \<Rightarrow> ('w, MRouter list) go" where
  "getRouters c =
     bnd (bnd (sc_listRouters c) (collect_pages (\<lambda>(i, n). \<lparr>mr_ID = i, mr_Name = n, mr_Networks = []\<rparr>))) (\<lambda>result.
     map_go (\<lambda>router. bnd (getNetworks c router) (\<lambda>networks. ret (router\<lparr>mr_Networks := networks\<rparr>))) result)"

definition getKeyPairs :: "('w, 'p) scoped_services \<Rightarrow> ('w, string list) go" where
  "getKeyPairs c = sc_allKeyPairs c"

definition getSecurityGroups :: "('w, 'p) scoped_services \<Rightarrow> ('w, MSecurityGroup list) go" where
  "getSecurityGroups c =
     bnd (sc_listSecurityGroups c) (collect_pages (\<lambda>(i, n). \<lparr>mg_ID = i, mg_Name = n\<rparr>))"

definition getFlavors :: "('w, 'p) scoped_services \<Rightarrow> ('w, MFlavor list) go" where
  "getFlavors c = bnd (sc_listFlavors c) (collect_pages (\<lambda>(i, n). \<lparr>mf_ID = i, mf_Name = n\<rparr>))"

text \<open>The metadata that an error comes with is not used by the caller.\<close>

definition GetMetadata :: "('w, 'p) scoped_services \<Rightarrow> ('w, OpenstackMetadata) go" where
  "GetMetadata c =
     bnd (getRouters c) (\<lambda>routers.
     bnd (getKeyPairs c) (\<lambda>keyPairs.
     bnd (getSecurityGroups c) (\<lambda>securityGroups.
     bnd (getFlavors c) (\<lambda>flavors.
     ret \<lparr>om_Flavors = flavors, om_KeyPairs = keyPairs, om_Routers = routers, om_SecurityGroups = securityGroups\<rparr>))))"

text \<open>\<open>scoped.NewClient\<close> returns the client and the outcome of its authentication.\<close>

definition getOpenstackMetadata ::
  "('w, 'p) scoped_services \<Rightarrow> HTTPRequest \<Rightarrow> Principal \<Rightarrow> ('w, OpenstackMetadata response) go" where
  "getOpenstackMetadata c req princ =
     tryc (scoped_Authenticate c \<lparr>ao_IdentityEndpoint = pr_AuthURL princ, ao_TokenID = Header_Get req ''X-Auth-Token'',
             ao_AllowReauth = True, ao_ProjectID = pr_Account princ\<rparr>)
       (\<lambda>err. ret (NewErrorResponse 500 (Error err)))
       (\<lambda>_. tryc (GetMetadata c)
              (\<lambda>err. ret (NewErrorResponse 500 (Error err)))
              (\<lambda>m. ret (Success 200 m)))"

section \<open>What the client collects\<close>

text \<open>A project as the services describe it, and services that answer from it without an error:
  the listings in full pages, none of them empty.\<close>

record project_view =
  pv_routers :: "(string \<times> string) list"
  pv_ports :: "string \<Rightarrow> string list"
  pv_network :: "string \<Rightarrow> NetworkInfo"
  pv_subnet :: "string \<Rightarrow> MSubnet"
  pv_keys :: "string list"
  pv_groups :: "(string \<times> string) list"
  pv_flavors :: "(string \<times> string) list"

definition full_pages :: "'a pages \<Rightarrow> 'a list \<Rightarrow> bool" where
  "full_pages pages xs \<longleftrightarrow> (\<exists>xss. pages = map Inr xss \<and> [] \<notin> set xss \<and> concat xss = xs)"

definition serves :: "('w, 'p) scoped_services \<Rightarrow> project_view \<Rightarrow> bool" where
  "serves c v \<longleftrightarrow>
     (\<forall>w. \<exists>pages. sc_listRouters c w = (Ok pages, w) \<and> full_pages pages (pv_routers v)) \<and>
     (\<forall>w i. \<exists>pages. sc_listPorts c i ''network:router_interface'' w = (Ok pages, w) \<and> full_pages pages (pv_ports v i)) \<and>
     (\<forall>w i. sc_getNetwork c i w = (Ok (pv_network v i), w)) \<and> (\<forall>i. ni_ID (pv_network v i) = i) \<and>
     (\<forall>w i. sc_getSubnet c i w = (Ok (pv_subnet v i), w)) \<and>
     (\<forall>w. sc_allKeyPairs c w = (Ok (pv_keys v), w)) \<and>
     (\<forall>w. \<exists>pages. sc_listSecurityGroups c w = (Ok pages, w) \<and> full_pages pages (pv_groups v)) \<and>
     (\<forall>w. \<exists>pages. sc_listFlavors c w = (Ok pages, w) \<and> full_pages pages (pv_flavors v))"

text \<open>The metadata read off the project.\<close>

definition view_network :: "project_view \<Rightarrow> string \<Rightarrow> MNetwork" where
  "view_network v i = \<lparr>mn_ID = i, mn_Name = ni_Name (pv_network v i), mn_Subnets = map (pv_subnet v) (ni_Subnets (pv_network v i))\<rparr>"

definition view_router :: "project_view \<Rightarrow> string \<times> string \<Rightarrow> MRouter" where
  "view_router v r = \<lparr>mr_ID = fst r, mr_Name = snd r, mr_Networks = map (view_network v) (pv_ports v (fst r))\<rparr>"

definition view_metadata :: "project_view \<Rightarrow> OpenstackMetadata" where
  "view_metadata v = \<lparr>om_Flavors = map (\<lambda>(i, n). \<lparr>mf_ID = i, mf_Name = n\<rparr>) (pv_flavors v), om_KeyPairs = pv_keys v,
     om_Routers = map (view_router v) (pv_routers v),
     om_SecurityGroups = map (\<lambda>(i, n). \<lparr>mg_ID = i, mg_Name = n\<rparr>) (pv_groups v)\<rparr>"

lemma collect_pages_full:
  "full_pages pages xs \<Longrightarrow> collect_pages f pages w = (Ok (map f xs), w)"
proof -
  have "[] \<notin> set xss \<Longrightarrow> EachPage (map Inr xss) (\<lambda>items result. ret (True, result @ map f items)) acc w =
      (Ok (acc @ map f (concat xss)), w)" for xss acc
    by (induction xss arbitrary: acc) auto
  then show "full_pages pages xs \<Longrightarrow> ?thesis" by (auto simp: collect_pages_def full_pages_def)
qed

lemma map_go_pure: "(\<And>x. x \<in> set xs \<Longrightarrow> f x w = (Ok (g x), w)) \<Longrightarrow> map_go f xs w = (Ok (map g xs), w)"
  by (induction xs) auto

lemma bnd_collect:
  "\<exists>pages. m w = (Ok pages, w) \<and> full_pages pages xs \<Longrightarrow> bnd m (collect_pages f) w = (Ok (map f xs), w)"
  by (auto simp: collect_pages_full)

lemma getSubnets_serves:
  assumes "serves c v"
  shows "getSubnets c network w = (Ok (map (pv_subnet v) (ni_Subnets (pv_network v (mn_ID network)))), w)"
  using assms by (auto simp: serves_def getSubnets_def getSubnetIDs_def bnd_def intro!: map_go_pure)

lemma getNetworks_serves:
  assumes "serves c v"
  shows "getNetworks c router w = (Ok (map (view_network v) (pv_ports v (mr_ID router))), w)"
proof -
  let ?ids = "pv_ports v (mr_ID router)"
  have ids: "getRouterNetworkIDs c router w = (Ok ?ids, w)"
    using assms bnd_collect [of "sc_listPorts c (mr_ID router) ''network:router_interface''" w ?ids id]
    by (simp add: serves_def getRouterNetworkIDs_def)
  let ?g = "\<lambda>i. \<lparr>mn_ID = i, mn_Name = ni_Name (pv_network v i), mn_Subnets = []\<rparr>"
  have first: "map_go (\<lambda>networkID. bnd (sc_getNetwork c networkID) (\<lambda>network.
            ret \<lparr>mn_ID = ni_ID network, mn_Name = ni_Name network, mn_Subnets = []\<rparr>)) ?ids w = (Ok (map ?g ?ids), w)"
    using assms by (intro map_go_pure) (simp add: serves_def bnd_def)
  have "map_go (\<lambda>network. bnd (getSubnets c network) (\<lambda>subnets. ret (network\<lparr>mn_Subnets := subnets\<rparr>))) (map ?g ?ids) w =
      (Ok (map (\<lambda>n. n\<lparr>mn_Subnets := map (pv_subnet v) (ni_Subnets (pv_network v (mn_ID n)))\<rparr>) (map ?g ?ids)), w)"
    by (intro map_go_pure) (simp add: bnd_def getSubnets_serves [OF assms])
  then show ?thesis
    by (simp add: getNetworks_def ids first view_network_def comp_def)
qed

lemma getRouters_serves:
  assumes "serves c v"
  shows "getRouters c w = (Ok (map (view_router v) (pv_routers v)), w)"
proof -
  let ?f = "\<lambda>(i, n). \<lparr>mr_ID = i, mr_Name = n, mr_Networks = []\<rparr>"
  have first: "bnd (sc_listRouters c) (collect_pages ?f) w = (Ok (map ?f (pv_routers v)), w)"
    using assms by (intro bnd_collect) (simp add: serves_def)
  have "map_go (\<lambda>router. bnd (getNetworks c router) (\<lambda>networks. ret (router\<lparr>mr_Networks := networks\<rparr>))) (map ?f (pv_routers v)) w =
      (Ok (map (\<lambda>r. r\<lparr>mr_Networks := map (view_network v) (pv_ports v (mr_ID r))\<rparr>) (map ?f (pv_routers v))), w)"
    by (intro map_go_pure) (simp add: bnd_def getNetworks_serves [OF assms])
  then show ?thesis
    by (simp add: getRouters_def first view_router_def comp_def case_prod_beta)
qed

lemma validate_items_None: "(\<And>x. x \<in> set xs \<Longrightarrow> val x = None) \<Longrightarrow> validate_items p val i xs = None"
  by (induction xs arbitrary: i) auto

text \<open>C39: The client collects all of a project: from services that answer without an error, in
  however many pages, the metadata is the one read off the project: every flavor, key pair and
  security group, and every router with the networks of its router interfaces and their
  subnets, in the order of the services. It passes the validation of the API.\<close>

theorem GetMetadata_complete:
  assumes "serves c v"
  shows "GetMetadata c w = (Ok (view_metadata v), w) \<and> OpenstackMetadata_Validate (view_metadata v) = None"
proof
  have "bnd (sc_listSecurityGroups c) (collect_pages f) w = (Ok (map f (pv_groups v)), w)"
    "bnd (sc_listFlavors c) (collect_pages g) w = (Ok (map g (pv_flavors v)), w)" for f :: "_ \<Rightarrow> MSecurityGroup" and g :: "_ \<Rightarrow> MFlavor"
    using assms by (intro bnd_collect, simp add: serves_def)+
  then show "GetMetadata c w = (Ok (view_metadata v), w)"
    using assms getRouters_serves [OF assms]
    by (simp add: GetMetadata_def getKeyPairs_def getSecurityGroups_def getFlavors_def view_metadata_def bnd_def serves_def)
  have "Network_Validate n = None" for n
    by (simp add: Network_Validate_def Network_validateSubnets_def validate_items_None Subnet_Validate_def)
  then have "Router_Validate r = None" for r
    by (simp add: Router_Validate_def Router_validateNetworks_def validate_items_None)
  then show "OpenstackMetadata_Validate (view_metadata v) = None"
    by (simp add: OpenstackMetadata_Validate_def validateFlavors_def validateKeyPairs_def validateRouters_def
        validateSecurityGroups_def validate_items_None Flavor_Validate_def KeyPair_Validate_def SecurityGroup_Validate_def)
qed

definition demo_view :: project_view where
  "demo_view = \<lparr>pv_routers = [(''r1'', ''router'')], pv_ports = (\<lambda>_. [''n1'']),
     pv_network = (\<lambda>i. \<lparr>ni_ID = i, ni_Name = ''private'', ni_Subnets = [''s1'']\<rparr>),
     pv_subnet = (\<lambda>i. \<lparr>ms_CIDR = ''10.0.0.0/24'', ms_ID = i, ms_Name = ''subnet''\<rparr>), pv_keys = [''key''],
     pv_groups = [], pv_flavors = [(''f1'', ''small''), (''f2'', ''large'')]\<rparr>"

text \<open>Each flavor on a page of its own.\<close>

definition demo_scoped :: "(unit, unit) scoped_services" where
  "demo_scoped = \<lparr>sc_ProviderClient = \<lambda>_. ret (), sc_AuthenticateV3 = \<lambda>_ _. ret (), sc_NewIdentityV3 = \<lambda>_. ret (),
     sc_NewComputeV2 = \<lambda>_. ret (), sc_NewNetworkV2 = \<lambda>_. ret (),
     sc_listRouters = ret [Inr (pv_routers demo_view)], sc_listPorts = \<lambda>i _. ret [Inr (pv_ports demo_view i)],
     sc_getNetwork = \<lambda>i. ret (pv_network demo_view i), sc_getSubnet = \<lambda>i. ret (pv_subnet demo_view i),
     sc_allKeyPairs = ret (pv_keys demo_view), sc_listSecurityGroups = ret [],
     sc_listFlavors = ret [Inr [(''f1'', ''small'')], Inr [(''f2'', ''large'')]]\<rparr>"

lemma demo_serves: "serves demo_scoped demo_view"
  by (auto simp: serves_def demo_scoped_def demo_view_def full_pages_def
      intro: exI [of _ "[[(''r1'', ''router'')]]"] exI [of _ "[[''n1'']]"] exI [of _ "[[(''f1'', ''small'')], [(''f2'', ''large'')]]"])

theorem GetMetadata_complete_witness:
  "\<exists>m. GetMetadata demo_scoped () = (Ok m, ()) \<and> map mf_ID (om_Flavors m) = [''f1'', ''f2''] \<and>
     map mn_ID (mr_Networks (hd (om_Routers m))) = [''n1'']"
  using GetMetadata_complete [OF demo_serves, of "()"]
  by (simp add: view_metadata_def view_router_def view_network_def demo_view_def)

end
