(* ===== verification/Tools.thy ===== *)
theory Tools
  imports CtlAuth Ground
begin

text \<open>
  The programs around the controllers: the options of the operator and its controllers
  (\<open>src/pkg/controller/operator.go\<close>), how the helm client finds tiller (\<open>src/pkg/client/helm\<close>), the
  commands \<open>kubernikus certificates\<close>, \<open>kubernikus helm\<close> and \<open>kubernikus seed dns\<close>
  (\<open>src/pkg/cmd/kubernikus\<close>), and the defaults of the swagger document (\<open>src/pkg/api/spec/document.go\<close>).
  Clients, files and the terminal are parameters.
\<close>

section \<open>The operator\<close>

record OperatorOptions =
  op_AuthURL :: string
  op_AuthUsername :: string
  op_AuthPassword :: string
  op_AuthDomain :: string
  op_AuthProject :: string
  op_AuthProjectDomain :: string
  op_ChartDirectory :: string
  op_KubernikusDomain :: string
  op_KubernikusProjectID :: string
  op_KubernikusNetworkID :: string
  op_Namespace :: string
  op_Controllers :: "string list"
  op_MetricPort :: int

definition NewOperatorOptions :: OperatorOptions where
  "NewOperatorOptions =
     \<lparr>op_AuthURL = ''http://keystone.monsoon3:5000/v3'', op_AuthUsername = ''kubernikus'', op_AuthPassword = [],
      op_AuthDomain = ''Default'', op_AuthProject = [], op_AuthProjectDomain = [], op_ChartDirectory = ''charts/'',
      op_KubernikusDomain = ''kluster.staging.cloud.sap'', op_KubernikusProjectID = [], op_KubernikusNetworkID = [],
      op_Namespace = ''kubernikus'', op_Controllers = [''groundctl'', ''launchctl''], op_MetricPort = 9091\<rparr>"

definition OperatorOptions_Validate :: "OperatorOptions \<Rightarrow> goerr option" where
  "OperatorOptions_Validate o1 =
     (if op_AuthPassword o1 = [] then Some (Errorf ''you must specify the auth-password flag'') else None)"

record OpenstackConfig =
  oc_AuthURL :: string
  oc_AuthUsername :: string
  oc_AuthPassword :: string
  oc_AuthDomain :: string
  oc_AuthProject :: string
  oc_AuthProjectDomain :: string

record OperatorConfig =
  og_Openstack :: OpenstackConfig
  og_ChartDirectory :: string
  og_Domain :: string
  og_Namespace :: string
  og_ProjectID :: string
  og_NetworkID :: string
  og_Controllers :: "string set"

definition OperatorOptions_BindFlags ::
  "(string \<rightharpoonup> string) \<Rightarrow> int option \<Rightarrow> string list option \<Rightarrow> OperatorOptions \<Rightarrow> OperatorOptions" where
  "OperatorOptions_BindFlags flags metricPort controllers o1 =
     (let flag = (\<lambda>n x. case flags n of Some v \<Rightarrow> v | None \<Rightarrow> x) in
      o1\<lparr>op_ChartDirectory := flag ''chart-directory'' (op_ChartDirectory o1), op_AuthURL := flag ''auth-url'' (op_AuthURL o1),
         op_AuthUsername := flag ''auth-username'' (op_AuthUsername o1), op_AuthPassword := flag ''auth-password'' (op_AuthPassword o1),
         op_AuthDomain := flag ''auth-domain'' (op_AuthDomain o1), op_AuthProject := flag ''auth-project'' (op_AuthProject o1),
         op_AuthProjectDomain := flag ''auth-project-domain'' (op_AuthProjectDomain o1),
         op_KubernikusDomain := flag ''kubernikus-domain'' (op_KubernikusDomain o1),
         op_KubernikusProjectID := flag ''kubernikus-projectid'' (op_KubernikusProjectID o1),
         op_KubernikusNetworkID := flag ''kubernikus-networkid'' (op_KubernikusNetworkID o1),
         op_Namespace := flag ''namespace'' (op_Namespace o1),
         op_MetricPort := (case metricPort of Some p \<Rightarrow> p | None \<Rightarrow> op_MetricPort o1),
         op_Controllers := (case controllers of Some cs \<Rightarrow> cs | None \<Rightarrow> op_Controllers o1)\<rparr>)"

text \<open>The domain of the user is not set, and the project gets the value of its domain.\<close>

definition operator_config :: "OperatorOptions \<Rightarrow> OperatorConfig" where
  "operator_config o1 =
     \<lparr>og_Openstack = \<lparr>oc_AuthURL = op_AuthURL o1, oc_AuthUsername = op_AuthUsername o1, oc_AuthPassword = op_AuthPassword o1,
        oc_AuthDomain = [], oc_AuthProject = op_AuthProjectDomain o1, oc_AuthProjectDomain = op_AuthProjectDomain o1\<rparr>,
      og_ChartDirectory = op_ChartDirectory o1, og_Domain = op_KubernikusDomain o1, og_Namespace = op_Namespace o1,
      og_ProjectID = op_KubernikusProjectID o1, og_NetworkID = op_KubernikusNetworkID o1, og_Controllers = {}\<rparr>"

text \<open>The OpenStack client is given the options themselves.\<close>

definition operator_openstack :: "OperatorOptions \<Rightarrow> osc_config" where
  "operator_openstack o1 =
     \<lparr>cf_authURL = op_AuthURL o1, cf_authUsername = op_AuthUsername o1, cf_authPassword = op_AuthPassword o1,
      cf_authDomain = op_AuthDomain o1, cf_authProject = op_AuthProject o1, cf_authProjectDomain = op_AuthProjectDomain o1\<rparr>"

text \<open>The controllers that are created, in a map by their name, and the number of their workers: a name
  that is not one of the two is ignored.\<close>

definition CONTROLLER_OPTIONS :: "string \<Rightarrow> nat" where
  "CONTROLLER_OPTIONS name =
     (if name = ''groundctl'' then 10 else if name = ''launchctl'' then 1 else if name = ''wormholegenerator'' then 1 else 0)"

definition operator_controllers :: "OperatorOptions \<Rightarrow> string set" where
  "operator_controllers o1 = set (filter (\<lambda>k. k = ''groundctl'' \<or> k = ''launchctl'') (op_Controllers o1))"

text \<open>The arguments are the results of creating the clients and of \<open>EnsureCRD\<close>.\<close>

definition NewKubernikusOperator ::
  "('w, unit) go \<Rightarrow> ('w, unit) go \<Rightarrow> ('w, unit) go \<Rightarrow> ('w, unit) go \<Rightarrow> ('w, unit) go \<Rightarrow> ('w, unit) go \<Rightarrow> OperatorOptions \<Rightarrow>
     ('w, OperatorConfig \<times> osc_config) go" where
  "NewKubernikusOperator kubernetes kubernikus kubeconfig helm apiextensions ensureCRD o1 =
     bnd (CtlAuth.wrap_err ''Failed to create kubernetes clients'' kubernetes) (\<lambda>_.
     bnd (CtlAuth.wrap_err ''Failed to create kubernikus clients'' kubernikus) (\<lambda>_.
     bnd (CtlAuth.wrap_err ''Failed to create kubernetes config'' kubeconfig) (\<lambda>_.
     bnd (CtlAuth.wrap_err ''Failed to create helm client'' helm) (\<lambda>_.
     bnd (CtlAuth.wrap_err ''Failed to create apiextenstionsclient'' apiextensions) (\<lambda>_.
     bnd (CtlAuth.wrap_err ''Couldn't create CRD'' ensureCRD) (\<lambda>_.
       ret ((operator_config o1)\<lparr>og_Controllers := operator_controllers o1\<rparr>, operator_openstack o1)))))))"

definition started_workers :: "OperatorOptions \<Rightarrow> (string \<times> nat) set" where
  "started_workers o1 = (\<lambda>name. (name, CONTROLLER_OPTIONS name)) ` operator_controllers o1"

text \<open>The default options start both controllers: ten workers for the life of klusters, one for their
  nodes.\<close>

lemma default_workers: "started_workers NewOperatorOptions = {(''groundctl'', 10), (''launchctl'', 1)}"
  by (auto simp: started_workers_def operator_controllers_def NewOperatorOptions_def CONTROLLER_OPTIONS_def)

definition MetaLabelReleaseIndexFunc :: "(string \<times> string) list option \<Rightarrow> string list \<times> goerr option" where
  "MetaLabelReleaseIndexFunc labels =
     (case labels of
        None \<Rightarrow> ([[]], Some (Errorf ''object has no meta: object does not implement the Object interfaces''))
      | Some ls \<Rightarrow> (case map_of ls ''release'' of
            Some release \<Rightarrow> ([release], None)
          | None \<Rightarrow> ([[]], Some (Errorf ''object has no release label''))))"

section \<open>Tiller\<close>

definition tiller_host :: "(string \<Rightarrow> string) \<Rightarrow> string" where
  "tiller_host getenv =
     (let host = getenv ''TILLER_DEPLOY_SERVICE_HOST''; port = getenv ''TILLER_DEPLOY_SERVICE_PORT'' in
      (if host = [] then ''tiller-deploy.kube-system'' else host) @ '':'' @ (if port = [] then ''44134'' else port))"

definition getFirstRunningPod :: "(string \<Rightarrow> ('w, Pod list) go) \<Rightarrow> string \<Rightarrow> ('w, Pod) go" where
  "getFirstRunningPod listPods selector =
     bnd (listPods selector) (\<lambda>pods.
       if length pods < 1 then fail (Errorf ''could not find tiller'')
       else (case List.find IsPodReady pods of
               Some p \<Rightarrow> ret p
             | None \<Rightarrow> fail (Errorf ''could not find a ready tiller pod'')))"

definition getTillerPodName :: "(string \<Rightarrow> ('w, Pod list) go) \<Rightarrow> ('w, string) go" where
  "getTillerPodName listPods = bnd (getFirstRunningPod listPods ''app=helm,name=tiller'') (\<lambda>p. ret (pod_Name p))"

text \<open>\<open>tunnel\<close> opens a tunnel to a pod and returns the local port.\<close>

definition helm_NewClient ::
  "(string \<Rightarrow> string) \<Rightarrow> bool \<Rightarrow> (string \<Rightarrow> ('w, Pod list) go) \<Rightarrow> (string \<Rightarrow> nat \<Rightarrow> ('w, nat) go) \<Rightarrow> ('w, string) go" where
  "helm_NewClient getenv inCluster listPods tunnel =
     (if \<not> inCluster then
        bnd (getTillerPodName listPods) (\<lambda>podName.
        bnd (tunnel podName 44134) (\<lambda>local. ret (''localhost:'' @ nat_dec local)))
      else ret (tiller_host getenv))"

section \<open>Waiting for an API server\<close>

text \<open>The first argument is the sequence of answers of \<open>/healthz\<close> (status and text) until the stop channel is
  closed. The text is only kept on success, so the error never shows it.\<close>

fun WaitForServer :: "(int \<times> string) list \<Rightarrow> unit outcome" where
  "WaitForServer [] = Fail (Errorf ''Failed to contact apiserver. Last health:   Error: timed out waiting for the condition'')"
| "WaitForServer ((healthStatus, content) # answers) = (if healthStatus \<noteq> 200 then WaitForServer answers else Ok ())"

lemma WaitForServer_healthy: "WaitForServer answers = Ok () \<longleftrightarrow> (\<exists>a\<in>set answers. fst a = 200)"
  by (induction answers rule: WaitForServer.induct) auto

section \<open>Certificates from the command line\<close>

record SignOptions =
  so_Name :: string
  so_Namespace :: string
  so_CN :: string
  so_CA :: string
  so_Organization :: string
  so_ApiURL :: string

definition NewSignOptions :: "(string \<Rightarrow> string) \<Rightarrow> SignOptions" where
  "NewSignOptions getenv = \<lparr>so_Name = [], so_Namespace = ''kubernikus'', so_CN = getenv ''USER'', so_CA = ''apiserver-clients-ca'',
     so_Organization = ''system:masters'', so_ApiURL = []\<rparr>"

definition SignOptions_Validate :: "SignOptions \<Rightarrow> string list \<Rightarrow> goerr option" where
  "SignOptions_Validate o1 args =
     (if length args \<noteq> 1 then Some (Errorf ''you must specify the kluster resource name'')
      else if so_CN o1 = [] then Some (Errorf ''You must specify a common name'')
      else if so_ApiURL o1 = [] then Some (Errorf ''You must specify an apiserver URL'') else None)"

definition SignOptions_BindFlags :: "(string \<rightharpoonup> string) \<Rightarrow> SignOptions \<Rightarrow> SignOptions" where
  "SignOptions_BindFlags flags o1 =
     (let flag = (\<lambda>n x. case flags n of Some v \<Rightarrow> v | None \<Rightarrow> x) in
      o1\<lparr>so_Namespace := flag ''namespace'' (so_Namespace o1), so_CN := flag ''cn'' (so_CN o1),
         so_Organization := flag ''organizaion'' (so_Organization o1), so_ApiURL := flag ''api-url'' (so_ApiURL o1)\<rparr>)"

text \<open>The messages for the key and for the certificate are exchanged.\<close>

definition SignOptions_Run ::
  "('w, 'key) crypto \<Rightarrow> (KubeConfig \<Rightarrow> string outcome) \<Rightarrow> (string \<Rightarrow> string) \<Rightarrow> (string \<Rightarrow> string \<Rightarrow> ('w, secret) go) \<Rightarrow>
     (string \<Rightarrow> ('w, unit) go) \<Rightarrow> SignOptions \<Rightarrow> ('w, unit) go" where
  "SignOptions_Run cr yaml_Marshal getenv getSecret println o1 =
     bnd (getSecret (so_Namespace o1) (so_Name o1)) (\<lambda>secret.
       case map_of secret (so_CA o1 @ ''-key.pem'') of
         None \<Rightarrow> fail (Errorf (''CA '' @ so_CA o1 @ '' not found in kluster secrets''))
       | Some clientCAKey \<Rightarrow>
           (case map_of secret (so_CA o1 @ ''.pem'') of
              None \<Rightarrow> fail (Errorf (''Key for CA '' @ so_CA o1 @ '' not found in kluster secrets''))
            | Some clientCACert \<Rightarrow>
                (case map_of secret ''tls-ca.pem'' of
                   None \<Rightarrow> fail (Errorf ''Server CA certificate not found'')
                 | Some serverCACert \<Rightarrow>
                     bnd (lift_outcome (NewBundle cr clientCAKey clientCACert)) (\<lambda>bundle.
                     bnd (Sign cr bundle ((plain_Config (so_CN o1) [ExtKeyUsageClientAuth])
                            \<lparr>cnf_Organization := [so_Organization o1]\<rparr>)) (\<lambda>cert.
                     bnd (nil_deref (bnl_PrivateKey cert)) (\<lambda>key.
                     bnd (nil_deref (bnl_Certificate cert)) (\<lambda>crt.
                     bnd (lift_outcome (yaml_Marshal (NewClientConfigV1 (so_Name o1) (getenv ''USER'') (so_ApiURL o1)
                            (cr_EncodePrivateKeyPEM cr key) (cr_EncodeCertPEM cr crt) serverCACert))) println)))))))"

text \<open>\<open>plain\<close> prints the certificates of a kluster of the given name, \<open>files\<close> writes them below a
  directory.\<close>

definition PlainPersister_WriteConfig :: "(string \<Rightarrow> ('w, unit) go) \<Rightarrow> (string \<times> string) list \<Rightarrow> ('w, unit) go" where
  "PlainPersister_WriteConfig println certificates =
     for_each certificates (\<lambda>(filename, contents). bnd (println filename) (\<lambda>_. println contents))"

record 'w file_system =
  fs_MkdirAll :: "string \<Rightarrow> ('w, unit) go"
  fs_WriteFile :: "string \<Rightarrow> string \<Rightarrow> ('w, unit) go"

text \<open>\<open>filepath.Dir\<close>: the path up to its last slash, cleaned.\<close>

definition filepath_Dir :: "string \<Rightarrow> string" where
  "filepath_Dir p = path_Clean (rev (dropWhile (\<lambda>c. c \<noteq> CHR ''/'') (rev p)))"

definition write_cert :: "'w file_system \<Rightarrow> string \<Rightarrow> string \<Rightarrow> ('w, unit) go" where
  "write_cert fs certPath data = bnd (fs_MkdirAll fs (filepath_Dir certPath)) (\<lambda>_. fs_WriteFile fs certPath data)"

definition FilePersister_WriteConfig :: "'w file_system \<Rightarrow> string \<Rightarrow> (string \<times> string) list \<Rightarrow> ('w, unit) go" where
  "FilePersister_WriteConfig fs baseDir certificates =
     for_each certificates (\<lambda>(filename, contents). write_cert fs (path_Clean (baseDir @ ''/'' @ filename)) contents)"

definition certificates_of ::
  "('w, 'key) crypto \<Rightarrow> string \<Rightarrow> string \<Rightarrow> string \<Rightarrow> string list \<Rightarrow> ('w, (string \<times> string) list) go" where
  "certificates_of cr GitCommit apiURL authURL args =
     (if length args \<noteq> 1 then fail (Errorf ''you must specify the cluster's name'')
      else bnd (lift_outcome (KlusterFor GitCommit (zero_KlusterSpec\<lparr>spec_Name := hd args\<rparr>))) (\<lambda>kluster.
           CreateCertificates cr kluster apiURL authURL ''kubernikus.cloud.sap''))"

definition certificates_plain :: "('w, 'key) crypto \<Rightarrow> string \<Rightarrow> (string \<Rightarrow> ('w, unit) go) \<Rightarrow> string list \<Rightarrow> ('w, unit) go" where
  "certificates_plain cr GitCommit println args =
     bnd (certificates_of cr GitCommit ''https://api.kubernikus.cloud.sap'' ''https://auth.openstack.com'' args)
       (PlainPersister_WriteConfig println)"

definition certificates_files ::
  "('w, 'key) crypto \<Rightarrow> string \<Rightarrow> 'w file_system \<Rightarrow> string list \<Rightarrow> ('w, unit) go" where
  "certificates_files cr GitCommit fs args =
     bnd (certificates_of cr GitCommit ''https://api.kubernikus.cloud.sap'' ''https://identity.openstack.com'' args)
       (FilePersister_WriteConfig fs ''.'')"

section \<open>Helm values from the command line\<close>

record HelmOptions =
  ho_Name :: string
  ho_AuthURL :: string
  ho_AuthUsername :: string
  ho_AuthPassword :: string
  ho_AuthDomain :: string
  ho_AuthProject :: string
  ho_AuthProjectDomain :: string
  ho_ProjectID :: string
  ho_KubernikusAPI :: string

definition NewHelmOptions :: "(string \<Rightarrow> string) \<Rightarrow> HelmOptions" where
  "NewHelmOptions getenv = \<lparr>ho_Name = [], ho_AuthURL = [], ho_AuthUsername = getenv ''USER'', ho_AuthPassword = [],
     ho_AuthDomain = ''ccadmin'', ho_AuthProject = ''cloud_admin'', ho_AuthProjectDomain = ''ccadmin'',
     ho_ProjectID = [], ho_KubernikusAPI = []\<rparr>"

definition HelmOptions_BindFlags :: "(string \<rightharpoonup> string) \<Rightarrow> HelmOptions \<Rightarrow> HelmOptions" where
  "HelmOptions_BindFlags flags o1 =
     (let flag = (\<lambda>n x. case flags n of Some v \<Rightarrow> v | None \<Rightarrow> x) in
      o1\<lparr>ho_AuthURL := flag ''auth-url'' (ho_AuthURL o1), ho_AuthUsername := flag ''auth-username'' (ho_AuthUsername o1),
         ho_AuthPassword := flag ''auth-password'' (ho_AuthPassword o1), ho_AuthDomain := flag ''auth-domain'' (ho_AuthDomain o1),
         ho_AuthProject := flag ''auth-project'' (ho_AuthProject o1),
         ho_AuthProjectDomain := flag ''auth-project-domain'' (ho_AuthProjectDomain o1),
         ho_ProjectID := flag ''project-id'' (ho_ProjectID o1), ho_KubernikusAPI := flag ''api'' (ho_KubernikusAPI o1)\<rparr>)"

text \<open>The check also takes the password from the environment. With a password from the environment the
  options are changed, which is why it returns them.\<close>

definition HelmOptions_Validate :: "(string \<Rightarrow> string) \<Rightarrow> HelmOptions \<Rightarrow> string list \<Rightarrow> HelmOptions outcome" where
  "HelmOptions_Validate getenv o1 args =
     (if length args < 1 then Fail (Errorf ''you must specify the cluster's name'')
      else if \<not> Contains (hd args) ''.'' then Fail (Errorf ''Name must be the fqdn of the apiserver'')
      else obind
        (if ho_AuthURL o1 = [] then Ok o1
         else if ho_ProjectID o1 = [] then Fail (Errorf ''project-id is required when specifying an auth-url'')
         else if ho_AuthPassword o1 \<noteq> [] then Ok o1
         else if getenv ''OS_PASSWORD'' = [] then Fail (Errorf ''password is required'')
         else Ok (o1\<lparr>ho_AuthPassword := getenv ''OS_PASSWORD''\<rparr>))
        (\<lambda>o2. if ho_KubernikusAPI o2 = [] then Fail (Errorf ''--api is required'') else Ok o2))"

definition HelmOptions_Complete :: "HelmOptions \<Rightarrow> string list \<Rightarrow> HelmOptions" where
  "HelmOptions_Complete o1 args = o1\<lparr>ho_Name := hd args\<rparr>"

text \<open>\<open>SplitN\<close> of a name with a dot into two parts.\<close>

definition split_name :: "string \<Rightarrow> string \<times> string" where
  "split_name s = (takeWhile (\<lambda>c. c \<noteq> CHR ''.'') s, tl (dropWhile (\<lambda>c. c \<noteq> CHR ''.'') s))"

definition GenerateBootstrapToken :: "(nat \<Rightarrow> ('w, string) go) \<Rightarrow> ('w, string) go" where
  "GenerateBootstrapToken Random = tryc (Random 16) (\<lambda>_. ret []) ret"

definition HelmOptions_Run ::
  "('w, 'key) crypto \<Rightarrow> string \<Rightarrow> (nat \<Rightarrow> ('w, string) go) \<Rightarrow> (HelmValues \<Rightarrow> string outcome) \<Rightarrow> (string \<Rightarrow> ('w, unit) go) \<Rightarrow>
     HelmOptions \<Rightarrow> ('w, unit) go" where
  "HelmOptions_Run cr GitCommit Random yaml_Marshal println o1 =
     (let (name, dm) = split_name (ho_Name o1) in
      bnd (lift_outcome (KlusterFor GitCommit (zero_KlusterSpec\<lparr>spec_Name := name,
             spec_Openstack := zero_OpenstackSpec\<lparr>os_ProjectID := ho_ProjectID o1\<rparr>\<rparr>))) (\<lambda>kluster.
      bnd (CreateCertificates cr kluster (ho_KubernikusAPI o1) (ho_AuthURL o1) dm) (\<lambda>certificates.
      bnd (GenerateBootstrapToken Random) (\<lambda>token.
      bnd (lift_outcome (KlusterToHelmValues yaml_Marshal kluster
             \<lparr>oo_AuthURL = ho_AuthURL o1, oo_Username = ho_AuthUsername o1, oo_Password = ho_AuthPassword o1,
              oo_DomainName = ho_AuthDomain o1, oo_Region = []\<rparr> certificates token [])) println))))"

definition kubernikus_helm ::
  "('w, 'key) crypto \<Rightarrow> string \<Rightarrow> (string \<Rightarrow> string) \<Rightarrow> (nat \<Rightarrow> ('w, string) go) \<Rightarrow> (HelmValues \<Rightarrow> string outcome) \<Rightarrow>
     (string \<Rightarrow> ('w, unit) go) \<Rightarrow> HelmOptions \<Rightarrow> string list \<Rightarrow> ('w, unit) go" where
  "kubernikus_helm cr GitCommit getenv Random yaml_Marshal println o1 args =
     bnd (lift_outcome (HelmOptions_Validate getenv o1 args)) (\<lambda>o2.
       HelmOptions_Run cr GitCommit Random yaml_Marshal println (HelmOptions_Complete o2 args))"

section \<open>Seeding the DNS from the command line\<close>

record KubeDNSOptions =
  kd_kubeConfig :: string
  kd_context :: string
  kd_repository :: string
  kd_version :: string
  kd_domain :: string
  kd_clusterIP :: string

definition NewKubeDNSOptions :: KubeDNSOptions where
  "NewKubeDNSOptions = \<lparr>kd_kubeConfig = [], kd_context = [], kd_repository = DEFAULT_REPOSITORY, kd_version = DEFAULT_VERSION,
     kd_domain = DEFAULT_DOMAIN, kd_clusterIP = []\<rparr>"

definition KubeDNSOptions_Validate :: "KubeDNSOptions \<Rightarrow> goerr option" where
  "KubeDNSOptions_Validate o1 = (if kd_clusterIP o1 = [] then Some (Errorf ''--cluster-ip is required'') else None)"

definition KubeDNSOptions_Run ::
  "(string \<Rightarrow> string \<Rightarrow> ('w, 'w KubeApi) go) \<Rightarrow> (DeploymentOptions \<Rightarrow> kobj outcome) \<Rightarrow> (string \<Rightarrow> kobj outcome) \<Rightarrow>
     KubeDNSOptions \<Rightarrow> ('w, unit) go" where
  "KubeDNSOptions_Run connect render render_svc o1 =
     bnd (connect (kd_kubeConfig o1) (kd_context o1)) (\<lambda>client.
       SeedKubeDNS render render_svc client (kd_repository o1) (kd_version o1) (kd_domain o1) (kd_clusterIP o1))"

definition seed_dns ::
  "(string \<Rightarrow> string \<Rightarrow> ('w, 'w KubeApi) go) \<Rightarrow> (DeploymentOptions \<Rightarrow> kobj outcome) \<Rightarrow> (string \<Rightarrow> kobj outcome) \<Rightarrow>
     KubeDNSOptions \<Rightarrow> ('w, unit) go" where
  "seed_dns connect render render_svc o1 =
     (case KubeDNSOptions_Validate o1 of Some err \<Rightarrow> fail err | None \<Rightarrow> KubeDNSOptions_Run connect render render_svc o1)"

section \<open>Defaults of the swagger document\<close>

text \<open>A default value is a string or something else. The document is loaded once; a failure is not
  remembered.\<close>

datatype default_value = DefaultText string | DefaultOther

type_synonym swagger_doc = "string \<rightharpoonup> (string \<rightharpoonup> default_value option)"

definition swagger_Spec :: "swagger_doc outcome \<Rightarrow> swagger_doc option \<Rightarrow> swagger_doc outcome \<times> swagger_doc option" where
  "swagger_Spec analyzed doc =
     (case doc of Some d \<Rightarrow> (Ok d, doc)
      | None \<Rightarrow> (case analyzed of Ok d \<Rightarrow> (Ok d, Some d) | r \<Rightarrow> (r, None)))"

definition lookupDefault :: "swagger_doc \<Rightarrow> string \<Rightarrow> string \<Rightarrow> default_value outcome" where
  "lookupDefault d df property =
     (case d df of
        None \<Rightarrow> Fail (Errorf (''definition '' @ df @ '' not found''))
      | Some props \<Rightarrow>
          (case props property of
             None \<Rightarrow> Fail (Errorf (''property '' @ property @ '' not found in definition '' @ df))
           | Some None \<Rightarrow> Fail (Errorf (''No default found for property '' @ property))
           | Some (Some v) \<Rightarrow> Ok v))"

definition DefaultString :: "swagger_doc outcome \<Rightarrow> string \<Rightarrow> string \<Rightarrow> string outcome" where
  "DefaultString doc df property =
     obind doc (\<lambda>d. obind (lookupDefault d df property) (\<lambda>v.
       case v of DefaultText s \<Rightarrow> Ok s | DefaultOther \<Rightarrow> Fail (Errorf ''default value is not of type string'')))"

definition MustDefaultString :: "swagger_doc outcome \<Rightarrow> string \<Rightarrow> string \<Rightarrow> string outcome" where
  "MustDefaultString doc df property =
     (case DefaultString doc df property of Fail e \<Rightarrow> Panics (Error e) | r \<Rightarrow> r)"

end
