(* ===== verification/WormholeClient.thy ===== *)
theory WormholeClient
  imports CtlAuth Lifecycle Ignition
begin

text \<open>
  The two ends of the wormhole tunnel: the listener of the server (\<open>src/pkg/wormhole/server/tunnel.go\<close>)
  and the client of a node (\<open>src/pkg/cmd/wormhole/client.go\<close>), which reads the kubeconfig of the
  kubelet and opens the tunnel to an address it derives from the URL of the API server. The address
  has to be the one ground control, the helm chart and the certificates have agreed on.
\<close>

section \<open>The listener\<close>

record TunnelOptions =
  to_ClientCA :: string
  to_Certificate :: string
  to_PrivateKey :: string

text \<open>A listener: plain on an address, or TLS with a certificate and authorities one of which must have
  signed the certificate of every client.\<close>

datatype 'pair listener = PlainListener string | TLSListener string 'pair "string list"

text \<open>\<open>ReadFile\<close> is the file system, \<open>LoadKeyPair\<close> reads a certificate and a key from two files,
  \<open>AppendCerts\<close> tells whether a text has a certificate, and \<open>Listen\<close> opens the listener.\<close>

record ('w, 'pair) listen_services =
  ls_ReadFile :: "string \<Rightarrow> ('w, string) go"
  ls_LoadKeyPair :: "string \<Rightarrow> string \<Rightarrow> ('w, 'pair) go"
  ls_AppendCerts :: "string \<Rightarrow> bool"
  ls_Listen :: "'pair listener \<Rightarrow> ('w, unit) go"

text \<open>The message of a file that cannot be read has no argument for the cause.\<close>

definition loadCAFile :: "('w, 'pair) listen_services \<Rightarrow> string \<Rightarrow> ('w, string list) go" where
  "loadCAFile ls cafile =
     bnd (tryc (ls_ReadFile ls cafile)
            (\<lambda>_. fail (Errorf (''Failed to read file '' @ cafile @ '': %!s(MISSING)''))) ret) (\<lambda>cas.
       if \<not> ls_AppendCerts ls cas then fail (Errorf (''No certs found in file '' @ cafile)) else ret [cas])"

definition NewTunnel :: "('w, 'pair) listen_services \<Rightarrow> TunnelOptions \<Rightarrow> ('w, 'pair listener) go" where
  "NewTunnel ls o1 =
     (if to_Certificate o1 \<noteq> [] then
        bnd (CtlAuth.wrap_err ''Failed to load cert or key'' (ls_LoadKeyPair ls (to_Certificate o1) (to_PrivateKey o1))) (\<lambda>certificate.
        bnd (CtlAuth.wrap_err (''Faile to load ca file '' @ to_ClientCA o1) (loadCAFile ls (to_ClientCA o1))) (\<lambda>caPool.
          let listener = TLSListener ''0.0.0.0:6553'' certificate caPool
          in bnd (CtlAuth.wrap_err ''Failed to listen to 0.0.0.0:6553'' (ls_Listen ls listener)) (\<lambda>_. ret listener)))
      else
        let listener = PlainListener ''127.0.0.1:8080''
        in bnd (CtlAuth.wrap_err ''Failed to listen to 127.0.0.1:8080'' (ls_Listen ls listener)) (\<lambda>_. ret listener))"

text \<open>A tunnel that can be reached from elsewhere checks the certificates of its clients against at
  least one authority.\<close>

lemma NewTunnel_guarded:
  assumes "NewTunnel ls o1 w = (Ok l, w')"
  shows "l = PlainListener ''127.0.0.1:8080'' \<or>
    (\<exists>pair cas. l = TLSListener ''0.0.0.0:6553'' pair [cas] \<and> ls_AppendCerts ls cas)"
  using assms unfolding NewTunnel_def loadCAFile_def CtlAuth.wrap_err_def Let_def
  by (auto simp: ret_def tryc_def fail_def elim!: bnd_OkE split: if_splits prod.splits outcome.splits)

section \<open>The client\<close>

record ClientOptions =
  wc_KubeConfig :: string
  wc_Server :: string
  wc_Context :: string
  wc_ListenAddr :: string

definition NewClientOptions :: ClientOptions where
  "NewClientOptions = \<lparr>wc_KubeConfig = [], wc_Server = [], wc_Context = [], wc_ListenAddr = ''198.18.128.1:6443''\<rparr>"

definition ClientOptions_BindFlags :: "(string \<rightharpoonup> string) \<Rightarrow> ClientOptions \<Rightarrow> ClientOptions" where
  "ClientOptions_BindFlags flags o1 =
     (let flag = (\<lambda>n x. case flags n of Some v \<Rightarrow> v | None \<Rightarrow> x) in
      \<lparr>wc_KubeConfig = flag ''kubeconfig'' (wc_KubeConfig o1), wc_Server = flag ''server'' (wc_Server o1),
       wc_Context = flag ''context'' (wc_Context o1), wc_ListenAddr = flag ''listen'' (wc_ListenAddr o1)\<rparr>)"

text \<open>The cluster and the user of the context. The option only counts if the kubeconfig names no
  current context.\<close>

definition client_context :: "ClientOptions \<Rightarrow> kubeconfig \<Rightarrow> (kube_cluster \<times> kube_authinfo) outcome" where
  "client_context o1 config =
     (let contextName = (if kf_CurrentContext config = [] then wc_Context o1 else kf_CurrentContext config) in
      if contextName = [] then Fail (Errorf ''No context given'')
      else (case kf_Contexts config contextName of
              None \<Rightarrow> Fail (Errorf (''Context '' @ contextName @ '' not found''))
            | Some c \<Rightarrow>
                (case kf_Clusters config (kx_Cluster c) of
                   None \<Rightarrow> Fail (Errorf (''Cluster not found '' @ kx_Cluster c))
                 | Some cluster \<Rightarrow>
                     (case kf_AuthInfos config (kx_AuthInfo c) of
                        None \<Rightarrow> Fail (Errorf (''No auth info found for context '' @ kx_AuthInfo c))
                      | Some authInfo \<Rightarrow> Ok (cluster, authInfo)))))"

text \<open>The address for the URL of an API server, for the URLs \<open>Hostname\<close> describes.\<close>

definition server_address :: "string \<Rightarrow> string" where
  "server_address url =
     (let c = Split CHR ''.'' (Hostname url) in Join ((hd c @ ''-wormhole'') # tl c) ''.'' @ '':'' @ ''443'')"

text \<open>\<open>FlattenConfig\<close> reads the files the kubeconfig refers to, \<open>AppendCerts\<close> tells whether a text has a
  certificate, \<open>KeyPair\<close> is \<open>tls.X509KeyPair\<close>, \<open>start\<close> runs the tunnel with an address to dial, an address
  to listen on, the authorities and the certificate.\<close>

record ('w, 'pair) tunnel_services =
  ts_FlattenConfig :: "kubeconfig \<Rightarrow> ('w, kubeconfig) go"
  ts_AppendCerts :: "string \<Rightarrow> bool"
  ts_KeyPair :: "string option \<Rightarrow> string option \<Rightarrow> 'pair outcome"
  ts_start :: "string \<Rightarrow> string \<Rightarrow> string option \<Rightarrow> 'pair \<Rightarrow> ('w, unit) go"

definition Client_Run :: "'w config_services \<Rightarrow> ('w, 'pair) tunnel_services \<Rightarrow> ClientOptions \<Rightarrow> ('w, unit) go" where
  "Client_Run cfg ts o1 =
     bnd (CtlAuth.wrap_err (''Failed to load kubeconfig file '' @ quoted (wc_KubeConfig o1)) (cf_LoadFromFile cfg (wc_KubeConfig o1))) (\<lambda>loaded.
     bnd (ts_FlattenConfig ts loaded) (\<lambda>config.
     bnd (lift_outcome (client_context o1 config)) (\<lambda>(cluster, authInfo).
       let ca = ku_CertificateAuthorityData cluster in
       if (case ca of None \<Rightarrow> False | Some pem \<Rightarrow> \<not> ts_AppendCerts ts pem)
       then fail (Errorf (''Failed to load any certs from '' @ the ca))
       else bnd (CtlAuth.wrap_err ''Failed to load certificate/key'' (lift_outcome
                   (ts_KeyPair ts (ka_ClientCertificateData authInfo) (ka_ClientKeyData authInfo)))) (\<lambda>certificate.
            let serverAddr = (if wc_Server o1 = [] then server_address (ku_Server cluster) else wc_Server o1)
            in ts_start ts serverAddr (wc_ListenAddr o1) ca certificate))))"

section \<open>One host for ground control, chart, certificate and client\<close>

text \<open>The characters of a host name.\<close>

definition host_name :: "string \<Rightarrow> bool" where
  "host_name h \<longleftrightarrow> (\<forall>c\<in>set h. is_alnum c \<or> c = CHR ''-'' \<or> c = CHR ''.'')"

lemma host_name_append [simp]: "host_name (a @ b) \<longleftrightarrow> host_name a \<and> host_name b"
  by (auto simp: host_name_def)

lemma host_name_parts: "host_name ''.''" "host_name ''-wormhole.''"
  by code_simp+

lemma not_alnum: "\<not> is_alnum CHR '':''" "\<not> is_alnum CHR ''/''" "\<not> is_alnum CHR ''?''" "\<not> is_alnum CHR ''#''"
  by code_simp+

lemma host_name_https: "host_name h \<Longrightarrow> Hostname (''https://'' @ h) = h"
  using not_alnum by (intro Hostname_https) (auto simp: host_name_def)

lemma server_address_https:
  assumes "host_name (name @ ''.'' @ d)" "CHR ''.'' \<notin> set name"
  shows "server_address (''https://'' @ name @ ''.'' @ d) = name @ ''-wormhole.'' @ d @ '':443''"
proof -
  have "Split CHR ''.'' (name @ ''.'' @ d) = name # Split CHR ''.'' d"
    using assms(2) Split_append_sep [of "CHR ''.''" name d] by simp
  moreover have "Join ((name @ ''-wormhole'') # Split CHR ''.'' d) ''.'' = name @ ''-wormhole.'' @ d"
    by (simp add: Join_Cons Join_Split)
  ultimately show ?thesis unfolding server_address_def host_name_https [OF assms(1)] Let_def by simp
qed

text \<open>What \<open>crypto/x509\<close> is relied on for: a parsed certificate has the names of its template.\<close>

definition names_kept :: "('w, 'key) crypto \<Rightarrow> bool" where
  "names_kept cr \<longleftrightarrow> (\<forall>t p a b w c w'. cr_x509 cr t p a b w = (Ok c, w') \<longrightarrow> crt_DNSNames c = crt_DNSNames t)"

lemma names_keptD: "names_kept cr \<Longrightarrow> cr_x509 cr t p a b w = (Ok c, w') \<Longrightarrow> crt_DNSNames c = crt_DNSNames t"
  unfolding names_kept_def by blast

lemma signTLS_names:
  assumes "names_kept cr" "signTLS cr ca name hosts ips w = (Ok b, w')" "bnl_Certificate b = Some c"
  shows "crt_DNSNames c = hosts"
  using assms(2,3) unfolding signTLS_def Sign_def Let_def
  by (auto dest!: names_keptD [OF assms(1)] elim!: bnd_OkE or_nil_SomeE nil_deref_OkE simp: ret_def panic_def split: if_splits)

lemma sign_all_TLS:
  assumes "sign_all cr k ip d w = (Ok cs, w')"
  obtains ca w1 w2 w3 ips where "signTLS cr ca ''apiserver''
      [''kubernetes'', ''kubernetes.default'', ''apiserver'', k_Name k, k_Name k @ ''.'' @ d] ips w1 = (Ok (cs_TLSApiServer cs), w2)"
    "signTLS cr ca ''wormhole'' [k_Name k @ ''-wormhole.'' @ d] [] w2 = (Ok (cs_TLSWormhole cs), w3)"
proof -
  have "\<exists>ca w1 w2 w3 ips. signTLS cr ca ''apiserver''
      [''kubernetes'', ''kubernetes.default'', ''apiserver'', k_Name k, k_Name k @ ''.'' @ d] ips w1 = (Ok (cs_TLSApiServer cs), w2) \<and>
    signTLS cr ca ''wormhole'' [k_Name k @ ''-wormhole.'' @ d] [] w2 = (Ok (cs_TLSWormhole cs), w3)"
    using assms unfolding sign_all_def apply (elim bnd_OkE)
    apply (clarsimp simp: ret_def)
    apply (intro exI conjI)
    apply assumption
    apply assumption
    done
  then show ?thesis using that by blast
qed

lemma discoverKubernikusInfo_up:
  assumes "kluster_up (cl_Klusters (ge_Clients ge)) st" "keyed (st w)" "st w (entry k) = Some k"
    and "st_Apiserver (k_Status k) = []" "st_Wormhole (k_Status k) = []"
  obtains w' where "discoverKubernikusInfo ge k w = (Ok (), w')"
    "st w' = (st w)(entry k \<mapsto> k\<lparr>k_Status := (k_Status k)
       \<lparr>st_Apiserver := ''https://'' @ k_Name k @ ''.'' @ ge_Domain ge,
        st_Wormhole := ''https://'' @ k_Name k @ ''-wormhole.'' @ ge_Domain ge\<rparr>\<rparr>)"
proof -
  define k2 where "k2 = k\<lparr>k_Status := (k_Status k)
       \<lparr>st_Apiserver := ''https://'' @ k_Name k @ ''.'' @ ge_Domain ge,
        st_Wormhole := ''https://'' @ k_Name k @ ''-wormhole.'' @ ge_Domain ge\<rparr>\<rparr>"
  have "k_Name k2 = k_Name k" by (simp add: k2_def)
  from kluster_up.edit_stored [OF assms(1-3) this]
  obtain w1 w2 where w1: "kc_Get (cl_Klusters (ge_Clients ge)) (k_Namespace k) (k_Name k) w = (Ok k, w1)" "st w1 = st w"
    and w2: "kc_Update (cl_Klusters (ge_Clients ge)) (k_Namespace k) k2 w1 = (Ok k2, w2)" "st w2 = (st w)(entry k \<mapsto> k2)" .
  have "discoverKubernikusInfo ge k w = (Ok (), w2)"
    using w1(1) w2(1) assms(4,5) by (simp add: discoverKubernikusInfo_def Let_def k2_def)
  with w2(2) show ?thesis using that by (simp add: k2_def)
qed


definition wormhole_kluster :: Kluster where
  "wormhole_kluster = cert_kluster\<lparr>k_Name := ''demo-b42'', k_Namespace := ''kubernikus'', k_Labels := [(''account'', ''b42'')],
     k_Status := zero_KlusterStatus\<rparr>"

lemma demo_names_kept: "names_kept demo_crypto"
  by (auto simp: names_kept_def demo_crypto_def ret_def)


end
