(* ===== verification/System.thy ===== *)
theory System
  imports HandlersLaws Launch Lifecycle
begin

text \<open>
  The three writers of the custom resources on one store: requests to the API
  (\<open>src/pkg/api/handlers\<close>), ground control (\<open>src/pkg/controller/ground.go\<close>) and the launch controller
  (\<open>src/pkg/controller/launch\<close>), in any order and with any outcome of the services. What all of them
  keep of a resource, and which resources there can be.
\<close>

section \<open>What may change in a resource\<close>

text \<open>Everything but the OpenStack data and the pools of the spec and the status stays as it is, and in the
  status the version and the names of the pools.\<close>

definition evolves :: "Kluster \<Rightarrow> Kluster \<Rightarrow> bool" where
  "evolves k k' \<longleftrightarrow> (\<exists>os pools s. k' = k\<lparr>k_Spec := (k_Spec k)\<lparr>spec_Openstack := os, spec_NodePools := pools\<rparr>, k_Status := s\<rparr> \<and>
     map npi_Name (st_NodePools s) = map npi_Name (st_NodePools (k_Status k)) \<and> st_Version s = st_Version (k_Status k))"

lemma evolvesI:
  assumes "map npi_Name (st_NodePools s) = map npi_Name (st_NodePools (k_Status k))" "st_Version s = st_Version (k_Status k)"
  shows "evolves k (k\<lparr>k_Spec := (k_Spec k)\<lparr>spec_Openstack := os, spec_NodePools := pools\<rparr>, k_Status := s\<rparr>)"
  using assms unfolding evolves_def by blast

lemma evolves_refl: "evolves k k"
  using evolvesI [where s = "k_Status k" and k = k and os = "spec_Openstack (k_Spec k)" and pools = "spec_NodePools (k_Spec k)"] by simp

lemma evolves_trans: "evolves k1 k2 \<Longrightarrow> evolves k2 k3 \<Longrightarrow> evolves k1 k3"
  unfolding evolves_def by fastforce

lemma evolves_status:
  "map npi_Name (st_NodePools s) = map npi_Name (st_NodePools (k_Status k)) \<Longrightarrow> st_Version s = st_Version (k_Status k) \<Longrightarrow>
     evolves k (k\<lparr>k_Status := s\<rparr>)"
  using evolvesI [where s = s and k = k and os = "spec_Openstack (k_Spec k)" and pools = "spec_NodePools (k_Spec k)"] by simp

lemma evolves_openstack: "evolves k (k\<lparr>k_Spec := (k_Spec k)\<lparr>spec_Openstack := os\<rparr>\<rparr>)"
  using evolvesI [where s = "k_Status k" and k = k and os = os and pools = "spec_NodePools (k_Spec k)"] by simp

lemma evolves_pools: "evolves k (k\<lparr>k_Spec := (k_Spec k)\<lparr>spec_NodePools := pools\<rparr>\<rparr>)"
  using evolvesI [where s = "k_Status k" and k = k and os = "spec_Openstack (k_Spec k)" and pools = pools] by simp

lemma evolves_fields:
  assumes "evolves k k'"
  shows "k_Name k' = k_Name k" "k_Namespace k' = k_Namespace k" "Account k' = Account k" "ApiServiceIP k' = ApiServiceIP k"
    "spec_DNSAddress (k_Spec k') = spec_DNSAddress (k_Spec k)"
    "map npi_Name (st_NodePools (k_Status k')) = map npi_Name (st_NodePools (k_Status k))"
  using assms by (auto simp: evolves_def Account_def ApiServiceIP_def)

text \<open>A well-formed resource: stored under its name, which contains the account it is labelled with, and
  with the addresses of the API server and of the DNS service in place.\<close>

definition well_formed :: "string \<times> string \<Rightarrow> Kluster \<Rightarrow> bool" where
  "well_formed e k \<longleftrightarrow> e = (k_Namespace k, k_Name k) \<and> Contains (k_Name k) (Account k) \<and>
     is_ok (ApiServiceIP k) \<and> spec_DNSAddress (k_Spec k) \<noteq> []"

lemma well_formed_evolves: "well_formed e k \<Longrightarrow> evolves k k' \<Longrightarrow> well_formed e k'"
  by (auto simp: well_formed_def evolves_fields)

definition follows :: "kluster_store \<Rightarrow> string \<times> string \<Rightarrow> Kluster \<Rightarrow> bool" where
  "follows m e k' \<longleftrightarrow> (case m e of None \<Rightarrow> well_formed e k' | Some k \<Rightarrow> evolves k k')"

definition store_follows :: "kluster_store \<Rightarrow> kluster_store \<Rightarrow> bool" where
  "store_follows m s \<longleftrightarrow> (\<forall>e k'. s e = Some k' \<longrightarrow> follows m e k')"

lemma follows_evolves: "follows m e k \<Longrightarrow> evolves k k' \<Longrightarrow> follows m e k'"
  unfolding follows_def by (cases "m e") (auto intro: well_formed_evolves evolves_trans)

lemma store_followsD: "store_follows m s \<Longrightarrow> s e = Some k' \<Longrightarrow> follows m e k'"
  by (cases e) (simp add: store_follows_def)

lemma follows_Some: "follows m e k' \<Longrightarrow> m e = Some k \<Longrightarrow> evolves k k'"
  by (simp add: follows_def)

lemma follows_well_formed: "follows m e k' \<Longrightarrow> (\<And>k. m e = Some k \<Longrightarrow> well_formed e k) \<Longrightarrow> well_formed e k'"
  by (auto simp: follows_def split: option.splits intro: well_formed_evolves)

lemma store_follows_refl: "store_follows m m"
  by (simp add: store_follows_def follows_def evolves_refl)

lemma store_follows_upd: "store_follows m s \<Longrightarrow> follows m e k \<Longrightarrow> store_follows m (s(e \<mapsto> k))"
  by (simp add: store_follows_def)

lemma store_follows_del: "store_follows m s \<Longrightarrow> store_follows m (s(e := None))"
  by (simp add: store_follows_def)

section \<open>Ground control\<close>

text \<open>A resource that was read, changed within the limits and written back.\<close>

lemma Get_follows:
  assumes "kluster_api kc st"
  shows "triple (\<lambda>w. store_follows m (st w)) (kc_Get kc ns n)
     (\<lambda>k w. store_follows m (st w) \<and> follows m (ns, n) k \<and> k_Name k = n \<and> k_Namespace k = ns) (\<lambda>w. store_follows m (st w))"
  by (rule triple_post [OF Get_triple [OF assms]]) (auto simp: store_follows_def)

lemma Update_follows:
  assumes "kluster_api kc st" "evolves k k'"
  shows "triple (\<lambda>w. store_follows m (st w) \<and> follows m (ns, n) k \<and> k_Name k = n \<and> k_Namespace k = ns) (kc_Update kc ns k')
     (\<lambda>_ w. store_follows m (st w)) (\<lambda>w. store_follows m (st w))"
  by (rule triple_pre [OF Update_triple [OF assms(1), where Q = "store_follows m" and R = "store_follows m"]])
    (auto intro!: store_follows_upd intro: follows_evolves [OF _ assms(2)] simp: evolves_fields [OF assms(2)])

lemma Delete_follows:
  assumes "kluster_api kc st"
  shows "keeps (\<lambda>w. store_follows m (st w)) (kc_Delete kc ns n)"
proof (rule keepsI)
  fix w assume "store_follows m (st w)"
  moreover obtain r w' where d: "kc_Delete kc ns n w = (r, w')" by (cases "kc_Delete kc ns n w")
  moreover have "st w' = (if is_ok r then (st w)((ns, n) := None) else st w)"
    using assms d unfolding kluster_api_def by presburger
  ultimately show "store_follows m (st (snd (kc_Delete kc ns n w)))" by (simp add: store_follows_del)
qed

lemma discoverKubernikusInfo_follows:
  assumes "kluster_api (cl_Klusters (ge_Clients ge)) st"
  shows "keeps (\<lambda>w. store_follows m (st w)) (discoverKubernikusInfo ge kluster)"
  unfolding discoverKubernikusInfo_def Let_def
  by (rule keeps_triple, rule triple_bnd [OF Get_follows [OF assms]], rule triple_bnd [OF Update_follows [OF assms]])
    (auto intro!: evolves_status triple_ret evolves_refl)

lemma discoverOpenstackInfo_follows:
  assumes api: "kluster_api (cl_Klusters (ge_Clients ge)) st" and fr: "ground_frame ge st"
  shows "keeps (\<lambda>w. store_follows m (st w)) (discoverOpenstackInfo ge kluster)"
proof -
  let ?R = "\<lambda>copy w. store_follows m (st w) \<and> follows m (k_Namespace kluster, k_Name kluster) copy \<and>
     k_Name copy = k_Name kluster \<and> k_Namespace copy = k_Namespace kluster"
  have r: "leaves st (oc_GetRouters (cl_Openstack (ge_Clients ge)) p)"
    and g: "leaves st (oc_GetSecurityGroupID (cl_Openstack (ge_Clients ge)) p n)" for p n
    using fr by (simp_all add: ground_frame_def)
  have keep: "keeps (?R copy) (if os_SecurityGroupID os \<noteq> [] then ret os
      else tryc (oc_GetSecurityGroupID (cl_Openstack (ge_Clients ge)) (Account kluster) ''default'')
        (\<lambda>err. fail (Errorf (''Failed to get id for default securitygroup in project '' @ Error err @ '': '' @ Account kluster)))
        (\<lambda>sg. ret (os\<lparr>os_SecurityGroupID := sg\<rparr>)))" for copy os
    by (intro keeps_intro leaves_keeps [OF g, where Q = "\<lambda>s. store_follows m s \<and> follows m (k_Namespace kluster, k_Name kluster) copy \<and>
      k_Name copy = k_Name kluster \<and> k_Namespace copy = k_Namespace kluster"])
  have weak: "triple P h Q (?R copy) \<Longrightarrow> triple P h Q (\<lambda>w. store_follows m (st w))" for P Q copy and h :: "('a, 'b) go"
    by (erule triple_conseq) auto
  show ?thesis
    unfolding discoverOpenstackInfo_def
    by (rule keeps_triple, rule triple_bnd [OF triple_keeps [OF leaves_keeps [OF r]]],
        rule triple_bnd [OF Get_follows [OF api]], rule triple_bnd [OF triple_lift_outcome],
        assumption, simp, rule triple_bnd [OF weak [OF triple_keeps [OF keep]]],
        rule triple_bnd [OF Update_follows [OF api evolves_openstack]], rule triple_ret)
      simp_all
qed

lemma updatePhase_follows:
  assumes api: "kluster_api (cl_Klusters (ge_Clients ge)) st" and fr: "ground_frame ge st"
  shows "keeps (\<lambda>(w, g). store_follows m (st w)) (updatePhase ge kluster ph msg)"
proof -
  let ?S = "\<lambda>(w, g). store_follows m (st w)"
  let ?R = "\<lambda>k w. store_follows m (st w) \<and> follows m (k_Namespace k, k_Name k) k"
  have get: "triple ?S (svc (kc_Get (cl_Klusters (ge_Clients ge)) ns n)) (\<lambda>k (w, g). ?R k w) ?S" for ns n
    by (rule triple_conseq [OF triple_svc [OF Get_follows [OF api]]]) auto
  have ev: "triple (\<lambda>(w, g). ?R k w) (Eventf k' t r s) (\<lambda>_ (w, g). ?R k w) ?S" for k k' t r s
    by (auto simp: triple_def Eventf_def)
  have upd: "triple (\<lambda>(w, g). ?R k w) (svc (kc_Update (cl_Klusters (ge_Clients ge)) (k_Namespace k') k')) (\<lambda>_. ?S) ?S"
    if "evolves k k'" for k k'
    using evolves_fields(1,2) [OF that]
    by (intro triple_conseq [OF triple_svc [OF Update_follows [OF api that, of m "k_Namespace k'" "k_Name k'"]]]) auto
  have wait: "triple ?S (ignore_err (svc (WaitForKluster (ge_tick ge) (ge_GetByKey ge) key c))) (\<lambda>_. ?S) ?S" for key c
    by (intro triple_keeps keeps_intro keeps_svc keeps_WaitForKluster frame_keeps(6) [OF fr])
  show ?thesis
    unfolding updatePhase_def Let_def
    by (rule keeps_triple, rule triple_bnd [OF get], rule triple_if, rule triple_ret, simp add: split_beta,
        rule triple_bnd [OF ev], rule triple_bnd [OF upd wait], rule evolves_status) simp_all
qed

lemma keeps_or_event:
  "keeps (\<lambda>(w, g). P w) h \<Longrightarrow> keeps (\<lambda>(w, g). P w) (or_event kluster reason msg h)"
  unfolding or_event_def Eventf_def by (intro keeps_intro keeps_client_set)

lemma keeps_set_metric: "keeps (\<lambda>(w, g). P w) (set_metric f)"
  unfolding set_metric_def by (rule keeps_client_set)

lemma terminateKluster_follows:
  assumes api: "kluster_api (cl_Klusters (ge_Clients ge)) st" and fr: "ground_frame ge st"
  shows "keeps (\<lambda>w. store_follows m (st w)) (terminateKluster ge kluster)"
  unfolding terminateKluster_def WaitForKlusterDeletion_def
  by (intro keeps_intro frame_keeps [OF fr] Delete_follows [OF api] keeps_WaitForKluster)

lemma ClientFor_triple:
  assumes "ground_frame ge st"
  shows "triple (\<lambda>w. store_follows m (st w)) (ge_ClientFor ge kluster)
      (\<lambda>a w. store_follows m (st w) \<and> (\<forall>obj. leaves st (ka_Create a obj) \<and> leaves st (ka_Update a obj)))
      (\<lambda>w. store_follows m (st w))"
  using assms unfolding ground_frame_def by (intro tripleI) (metis leavesD)+

lemma SeedKluster_triple:
  "triple (\<lambda>w. store_follows m (st w) \<and> (\<forall>obj. leaves st (ka_Create a obj) \<and> leaves st (ka_Update a obj)))
      (SeedKluster x y a kluster) (\<lambda>_ w. store_follows m (st w)) (\<lambda>w. store_follows m (st w))"
proof (cases "\<forall>obj. leaves st (ka_Create a obj) \<and> leaves st (ka_Update a obj)")
  case True
  then have "keeps (\<lambda>w. store_follows m (st w)) (SeedKluster x y a kluster)"
    by (intro keeps_SeedKluster leaves_keeps [where st = st and Q = "store_follows m"]) auto
  from triple_keeps [OF this] show ?thesis by (rule triple_pre) simp
qed (auto simp: triple_def)

lemma handle_creating_follows:
  assumes api: "kluster_api (cl_Klusters (ge_Clients ge)) st" and fr: "ground_frame ge st"
  shows "keeps (\<lambda>(w, g). store_follows m (st w)) (handle_creating ge kluster)"
proof -
  let ?S = "\<lambda>(w, g). store_follows m (st w)"
  have rest: "keeps ?S (bnd (ignore_err (updatePhase ge kluster KlusterPhaseRunning [])) (\<lambda>_.
      bnd (gets f) (\<lambda>now. set_metric (h now))))" for f :: "'a \<times> gctl \<Rightarrow> int" and h
    by (intro keeps_intro updatePhase_follows [OF api fr] keeps_set_metric)
  have "triple ?S (if b then bnd (svc (ge_ClientFor ge kluster)) (\<lambda>a. bnd (svc (SeedKluster x y a kluster)) (\<lambda>_.
      bnd (ignore_err (updatePhase ge kluster KlusterPhaseRunning [])) (\<lambda>_. bnd (gets f) (\<lambda>now. set_metric (h now)))))
      else ret ()) (\<lambda>_. ?S) ?S" for b x y and f :: "'a \<times> gctl \<Rightarrow> int" and h
    by (rule triple_if, rule triple_bnd [OF triple_svc [OF ClientFor_triple [OF fr]]],
        rule triple_bnd [OF triple_svc [OF SeedKluster_triple] triple_keeps [OF rest]], rule triple_ret, simp)
  from keeps_triple [OF this] show ?thesis
    unfolding handle_creating_def by (intro keeps_bnd [OF keeps_svc [OF frame_keeps(5) [OF fr]]])
qed

lemma handle_pending_follows:
  assumes api: "kluster_api (cl_Klusters (ge_Clients ge)) st" and fr: "ground_frame ge st"
  shows "keeps (\<lambda>(w, g). store_follows m (st w)) (handle_pending ge kluster)"
  unfolding handle_pending_def
  by (intro keeps_intro keeps_or_event keeps_svc discoverOpenstackInfo_follows [OF api fr]
      discoverKubernikusInfo_follows [OF api] createKluster_keeps [OF fr] updatePhase_follows [OF api fr])

lemma handle_terminating_follows:
  assumes api: "kluster_api (cl_Klusters (ge_Clients ge)) st" and fr: "ground_frame ge st"
  shows "keeps (\<lambda>(w, g). store_follows m (st w)) (handle_terminating ge kluster)"
  unfolding handle_terminating_def
  by (intro keeps_intro keeps_or_event keeps_svc terminateKluster_follows [OF api fr] keeps_set_metric)

lemma handler_follows:
  assumes "kluster_api (cl_Klusters (ge_Clients ge)) st" "ground_frame ge st"
  shows "keeps (\<lambda>(w, g). store_follows m (st w)) (handler ge key)"
proof -
  have "keeps (\<lambda>(w, g). store_follows m (st w)) (case st_Phase (k_Status kluster) of
       KlusterPhasePending \<Rightarrow> handle_pending ge kluster
     | KlusterPhaseCreating \<Rightarrow> handle_creating ge kluster
     | KlusterPhaseTerminating \<Rightarrow> handle_terminating ge kluster
     | _ \<Rightarrow> ret ())" for kluster
    by (cases "st_Phase (k_Status kluster)")
      (simp_all only: KlusterPhase.case handle_pending_follows [OF assms] handle_creating_follows [OF assms]
        handle_terminating_follows [OF assms] keeps_ret)
  then show ?thesis
    unfolding handler_def handle_kluster_def by (intro keeps_intro keeps_set_metric)
qed

section \<open>The launch controller\<close>

text \<open>The servers and the secrets are not in the store.\<close>

definition launch_frame :: "'w Clients \<Rightarrow> ('w \<Rightarrow> kluster_store) \<Rightarrow> bool" where
  "launch_frame cl st \<longleftrightarrow> (\<forall>k p. leaves st (oc_GetNodes (cl_Openstack cl) k p)) \<and>
     (\<forall>k p u. leaves st (oc_CreateNode (cl_Openstack cl) k p u)) \<and> (\<forall>k i. leaves st (oc_DeleteNode (cl_Openstack cl) k i)) \<and>
     (\<forall>ns n. leaves st (cl_GetSecret cl ns n))"

lemma launch_frame_keeps:
  assumes "launch_frame cl st"
  shows "keeps (\<lambda>w. Q (st w)) (oc_GetNodes (cl_Openstack cl) k p)" "keeps (\<lambda>w. Q (st w)) (oc_CreateNode (cl_Openstack cl) k p u)"
    "keeps (\<lambda>w. Q (st w)) (oc_DeleteNode (cl_Openstack cl) k i)" "keeps (\<lambda>w. Q (st w)) (cl_GetSecret cl ns n)"
  using assms unfolding launch_frame_def by (simp_all add: leaves_keeps [where st = st and Q = Q])

lemma replace_info_names: "replace_info new infos = Some infos' \<Longrightarrow> map npi_Name infos' = map npi_Name infos"
  by (induction infos arbitrary: infos') (auto split: if_splits)

lemma SetStatus_follows:
  assumes "kluster_api (cl_Klusters cl) st"
  shows "keeps (\<lambda>w. store_follows m (st w)) (ConcretePoolManager_SetStatus cl kluster pool status)"
proof -
  let ?R = "\<lambda>copy w. store_follows m (st w) \<and> follows m (k_Namespace copy, k_Name copy) copy"
  have upd: "triple (?R copy) (bnd (kc_Update (cl_Klusters cl) (k_Namespace copy)
      (copy\<lparr>k_Status := (k_Status copy)\<lparr>st_NodePools := infos\<rparr>\<rparr>)) (\<lambda>_. ret ())) (\<lambda>_ w. store_follows m (st w)) (\<lambda>w. store_follows m (st w))"
    if "map npi_Name infos = map npi_Name (st_NodePools (k_Status copy))" for copy infos
  proof -
    have "evolves copy (copy\<lparr>k_Status := (k_Status copy)\<lparr>st_NodePools := infos\<rparr>\<rparr>)" by (rule evolves_status) (simp_all add: that)
    then show ?thesis
      by (rule triple_pre [OF triple_bnd [OF Update_follows [OF assms, where n = "k_Name copy"] triple_ret]]) simp_all
  qed
  show ?thesis
    unfolding ConcretePoolManager_SetStatus_def
    by (rule keeps_triple, rule triple_bnd [OF triple_post [OF Get_follows [OF assms], where R = ?R]])
      (auto split: option.split dest: replace_info_names intro!: upd triple_ret)
qed

lemma reconcile_keeps:
  assumes "keeps P (pm_GetStatus pm)" "\<And>s. keeps P (pm_SetStatus pm s)" "keeps P (pm_CreateNode pm)" "\<And>i. keeps P (pm_DeleteNode pm i)"
  shows "keeps P (reconcilePool pm phase)"
proof -
  have "keeps P (create_nodes pm n)" for n by (induction n) (simp_all only: create_nodes.simps keeps_ret keeps_bnd [OF assms(3)])
  moreover have "keeps P (delete_nodes pm nodes n)" for nodes n
    unfolding delete_nodes_def node_at_def by (intro keeps_intro assms)
  ultimately show ?thesis unfolding reconcilePool_def by (intro keeps_intro assms)
qed

lemma launch_follows:
  assumes api: "kluster_api (cl_Klusters cl) st" and fr: "launch_frame cl st"
  shows "keeps (\<lambda>w. store_follows m (st w)) (LaunchReconciler_Reconcile (ConcretePoolManager cl gen) kluster)"
proof -
  have pool: "keeps (\<lambda>w. store_follows m (st w)) (reconcilePool (ConcretePoolManager cl gen kluster pool) phase)" for pool phase
    by (rule reconcile_keeps)
      (auto simp: ConcretePoolManager_def ConcretePoolManager_GetStatus_def ConcretePoolManager_CreateNode_def
        ConcretePoolManager_DeleteNode_def intro!: keeps_intro launch_frame_keeps [OF fr] SetStatus_follows [OF api])
  have "keeps (\<lambda>w. store_follows m (st w)) (reconcile_pools (ConcretePoolManager cl gen kluster) phase pools b)" for phase pools b
    by (induction pools arbitrary: b) (simp_all only: reconcile_pools.simps keeps_ret keeps_bnd [OF pool])
  then show ?thesis unfolding LaunchReconciler_Reconcile_def by (intro keeps_intro)
qed

section \<open>The API\<close>

lemma store_outcome:
  assumes "triple (\<lambda>w. st w = m) h (\<lambda>r w. case r of Success c x \<Rightarrow> S c x w | ErrorResponse a b c \<Rightarrow> st w = m) (\<lambda>w. st w = m)"
    and "\<And>c x w. S c x w \<Longrightarrow> Q (st w)" and "Q m" "st w = m"
  shows "Q (st (snd (h w)))"
proof -
  obtain r w' where h: "h w = (r, w')" by (cases "h w")
  show ?thesis
  proof (cases r)
    case (Ok x)
    with tripleD(1) [OF assms(1,4)] h assms(2,3) show ?thesis by (cases x) fastforce+
  qed (use h assms(3) tripleD(2,3) [OF assms(1,4)] in auto)
qed

text \<open>A resource the API creates from a validated body is well-formed.\<close>

lemma KlusterFor_addresses:
  assumes "Kluster_Validate body = None" "KlusterFor commit (request_spec body) = Ok k"
  shows "is_ok (ApiServiceIP k)" "spec_DNSAddress (k_Spec k) \<noteq> []"
proof -
  have "KlusterSpec_Validate (mk_Spec body) = None" using assms(1) by (simp add: Kluster_Validate_iff)
  then obtain ip net n where net: "ParseCIDR (service_cidr (mk_Spec body)) = Ok (ip, net)" "n \<le> 32"
    "net4 n (bytes_val (ipnet_IP net)) net"
    by (rule validated_service_net)
  have n: "n \<le> 30" "2 ^ 24 \<le> bytes_val (ipnet_IP net)"
    using KlusterFor_request(1) [OF assms(1) net(1,3), of commit] assms(2) by simp_all
  have "(1 :: nat) < 2 ^ (32 - n)" using two_below_power [OF net(2)] n(1) by linarith
  then have "is_ok (GetIndexedIP net 1)" using GetIndexedIP_net4 [OF net(3), of 1] n(2) by simp
  moreover have "spec_ServiceCIDR (k_Spec k) = service_cidr (mk_Spec body)"
    using assms(2) by (auto simp: KlusterFor_eq request_service_cidr elim!: obind_OkE split: if_splits)
  ultimately show "is_ok (ApiServiceIP k)" using net(1) by (simp add: ApiServiceIP_def)
  show "spec_DNSAddress (k_Spec k) \<noteq> []" by (rule KlusterFor_DNSAddress [OF assms(2)])
qed

lemma createCluster_follows:
  assumes "kluster_create_api (rt_Klusters rt) st" "api_frame rt st" "Kluster_Validate body = None"
  shows "store_follows (st w) (st (snd (createCluster commit rt body princ w)))"
proof (rule store_outcome [OF createCluster_store [OF assms(1,2), where m = "st w"] _ store_follows_refl refl])
  let ?q = "(rt_Namespace rt, qualifiedName (mk_Name body) (pr_Account princ))"
  fix c x w1
  assume "\<exists>k k'. KlusterFor commit ((mk_Spec body)\<lparr>spec_Name := mk_Name body,
             spec_NodePools := map default_image (spec_NodePools (mk_Spec body))\<rparr>) = Ok k \<and> c = 201 \<and>
           x = klusterFromCRD k' \<and> st w ?q = None \<and> st w1 = (st w)(?q \<mapsto> k') \<and>
           k_Name k' = qualifiedName (mk_Name body) (pr_Account princ) \<and> k_Namespace k' = rt_Namespace rt \<and>
           k_Labels k' = [(''account'', pr_Account princ)] \<and> k_Annotations k' = [(''creator'', pr_Name princ)] \<and>
           k_Spec k' = k_Spec k \<and> k_Status k' = k_Status k"
  then obtain k k' where k: "KlusterFor commit (request_spec body) = Ok k" "st w1 = (st w)(?q \<mapsto> k')"
    "st w ?q = None" "k_Name k' = snd ?q" "k_Namespace k' = rt_Namespace rt" "k_Labels k' = [(''account'', pr_Account princ)]" "k_Spec k' = k_Spec k"
    by (auto simp: request_spec_def)
  have "well_formed ?q k'"
    using k(4-7) KlusterFor_addresses [OF assms(3) k(1)]
    by (simp add: well_formed_def Account_def label_of_def qualifiedName_contains ApiServiceIP_def)
  then have "follows (st w) ?q k'" using k(3) by (simp add: follows_def)
  then show "store_follows (st w) (st w1)" unfolding k(2) by (intro store_follows_upd store_follows_refl)
qed

lemma edit_follows:
  assumes "m e = Some k" "evolves k k'"
  shows "store_follows m (m(e \<mapsto> k'))"
  using assms by (intro store_follows_upd store_follows_refl) (simp add: follows_def)

lemma updateCluster_follows:
  assumes "kluster_api (rt_Klusters rt) st"
  shows "store_follows (st w) (st (snd (updateCluster rt name body princ w)))"
  by (rule store_outcome [OF updateCluster_store [OF assms, where m = "st w"] _ store_follows_refl refl])
    (elim exE conjE, simp only:, rule edit_follows [OF _ evolves_pools], assumption)

lemma terminateCluster_follows:
  assumes "kluster_api (rt_Klusters rt) st"
  shows "store_follows (st w) (st (snd (terminateCluster rt name princ w)))"
  by (rule store_outcome [OF terminateCluster_store [OF assms, where m = "st w"] _ store_follows_refl refl])
    (elim exE conjE, simp only:, rule edit_follows, assumption, unfold terminating_def, rule evolves_status, simp_all)

section \<open>The system\<close>

text \<open>A step: a request with a validated body, a run of a controller, or anything that leaves the custom
  resources alone.\<close>

inductive system_step ::
  "'w Runtime \<Rightarrow> 'w GroundEnv \<Rightarrow> (Kluster \<Rightarrow> secret \<Rightarrow> string outcome) \<Rightarrow> string \<Rightarrow> ('w \<Rightarrow> kluster_store) \<Rightarrow>
     'w \<times> gctl \<Rightarrow> 'w \<times> gctl \<Rightarrow> bool"
  for rt ge gen commit st where
  step_create: "Kluster_Validate body = None \<Longrightarrow> system_step rt ge gen commit st (w, g) (snd (createCluster commit rt body princ w), g)"
| step_update: "system_step rt ge gen commit st (w, g) (snd (updateCluster rt name body princ w), g)"
| step_terminate: "system_step rt ge gen commit st (w, g) (snd (terminateCluster rt name princ w), g)"
| step_ground: "system_step rt ge gen commit st s (snd (handler ge key s))"
| step_launch: "system_step rt ge gen commit st (w, g)
     (snd (LaunchReconciler_Reconcile (ConcretePoolManager (ge_Clients ge) gen) kluster w), g)"
| step_other: "st w' = st w \<Longrightarrow> system_step rt ge gen commit st (w, g) (w', g')"

definition system_laws :: "'w Runtime \<Rightarrow> 'w GroundEnv \<Rightarrow> ('w \<Rightarrow> kluster_store) \<Rightarrow> bool" where
  "system_laws rt ge st \<longleftrightarrow> kluster_api (rt_Klusters rt) st \<and> kluster_create_api (rt_Klusters rt) st \<and> api_frame rt st \<and>
     kluster_api (cl_Klusters (ge_Clients ge)) st \<and> ground_frame ge st \<and> launch_frame (ge_Clients ge) st"

lemma system_step_follows:
  assumes laws: "system_laws rt ge st" and "system_step rt ge gen commit st s s'"
  shows "store_follows (st (fst s)) (st (fst s'))"
  using assms(2)
proof cases
  case (step_ground key)
  have "keeps (\<lambda>(w, g). store_follows (st (fst s)) (st w)) (handler ge key)"
    using laws by (intro handler_follows) (simp_all add: system_laws_def)
  then show ?thesis
    by (cases s) (auto simp: keeps_def split_beta store_follows_refl step_ground)
next
  case (step_launch w g kluster)
  have "keeps (\<lambda>v. store_follows (st w) (st v)) (LaunchReconciler_Reconcile (ConcretePoolManager (ge_Clients ge) gen) kluster)"
    using laws by (intro launch_follows) (simp_all add: system_laws_def)
  then show ?thesis by (simp add: keeps_def store_follows_refl step_launch)
qed (use laws in \<open>simp_all add: system_laws_def createCluster_follows updateCluster_follows terminateCluster_follows store_follows_refl\<close>)

text \<open>C6: Every custom resource is well-formed. Whatever requests with validated bodies the API gets from
  whatever users, however they interleave with runs of ground control and of the launch controller, and
  whichever of the calls in them fail: a resource that is stored when the system has started without any
  is stored under its own name, the name contains the account it belongs to, its service network has an
  address for the API server, and its DNS address is set. The creation of certificates and the seeding of
  the DNS service rely on the last two.\<close>

theorem system_well_formed:
  assumes "system_laws rt ge st" "(system_step rt ge gen commit st)\<^sup>*\<^sup>* (w0, g0) (w, g)" "st w0 = Map.empty"
    "st w e = Some k"
  shows "well_formed e k"
proof -
  have "\<forall>e k. st (fst (w, g)) e = Some k \<longrightarrow> well_formed e k"
    using assms(2)
  proof (induction rule: rtranclp_induct)
    case base
    then show ?case by (simp add: assms(3))
  next
    case (step s s')
    note next_store = store_followsD [OF system_step_follows [OF assms(1) step.hyps(2)]]
    show ?case using follows_well_formed [OF next_store] step.IH by blast
  qed
  with assms(4) show ?thesis by (cases e) simp
qed

lemma boot_system: "system_laws boot_runtime boot_ground fst"
proof -
  have k: "cl_Klusters (ge_Clients boot_ground) = cl_Klusters (ge_Clients demo_ground)"
    "rt_Klusters boot_runtime = cl_Klusters (ge_Clients demo_ground)"
    by (simp_all add: boot_runtime_def boot_ground_def)
  have "ground_frame boot_ground fst" "launch_frame (ge_Clients boot_ground) fst"
    by (simp_all add: ground_frame_def launch_frame_def boot_ground_def demo_ground_def idle_openstack_def leaves_def client_set_def split_beta)
  with boot_laws demo_ground_api show ?thesis by (simp add: system_laws_def k)
qed

theorem system_well_formed_witness:
  "\<exists>w k. (system_step boot_runtime boot_ground (\<lambda>_ _. Ok []) ''HEAD'' fst)\<^sup>*\<^sup>*
       ((Map.empty, {}), \<lparr>g_events = [], g_metrics = no_metrics\<rparr>) (w, \<lparr>g_events = [], g_metrics = no_metrics\<rparr>) \<and>
     fst w (''kubernikus'', ''demo-b42'') = Some k \<and> well_formed (''kubernikus'', ''demo-b42'') k"
proof -
  obtain k0 k w0 where c: "createCluster ''HEAD'' boot_runtime demo_body demo_principal (Map.empty, {}) =
      (Ok (Success 201 (klusterFromCRD k)), w0)" "fst w0 (''kubernikus'', ''demo-b42'') = Some k"
    by (rule boot_created)
  let ?g = "\<lparr>g_events = [], g_metrics = no_metrics\<rparr>"
  have path: "(system_step boot_runtime boot_ground (\<lambda>_ _. Ok []) ''HEAD'' fst)\<^sup>*\<^sup>* ((Map.empty, {}), ?g) (w0, ?g)"
    using step_create [OF demo_body_valid, of boot_runtime boot_ground "\<lambda>_ _. Ok []" "''HEAD''" fst "(Map.empty, {})" ?g demo_principal] c(1)
    by (intro r_into_rtranclp) simp
  have "well_formed (''kubernikus'', ''demo-b42'') k"
    by (rule system_well_formed [OF boot_system path]) (simp_all add: c(2))
  with path c(2) show ?thesis by blast
qed

text \<open>C7: What a kluster is does not change while it exists. As long as a resource is not deleted, every
  sequence of steps leaves its name, labels and annotations, its networks and addresses and its version as
  they are. It also leaves the names of the pools in its status as they are, which is a flaw: a request may
  change the pools of the spec, but a pool it adds never gets an entry in the status, so its servers do not
  count when the API decides whether the kluster may be terminated; and the entry of a pool it removes is
  never updated again, so a kluster whose pool was removed while it had servers cannot be terminated unless the pool is added again.\<close>

theorem kluster_identity:
  assumes "system_laws rt ge st" "(\<lambda>s s'. system_step rt ge gen commit st s s' \<and> st (fst s') e \<noteq> None)\<^sup>*\<^sup>* (w, g) (w', g')"
    "st w e = Some k"
  shows "\<exists>k'. st w' e = Some k' \<and> evolves k k'"
proof -
  have "\<exists>k'. st (fst (w', g')) e = Some k' \<and> evolves k k'"
    using assms(2)
  proof (induction rule: rtranclp_induct)
    case base
    then show ?case by (simp add: assms(3) evolves_refl)
  next
    case (step s s')
    then obtain k1 where "st (fst s) e = Some k1" "evolves k k1" by blast
    moreover obtain k2 where "st (fst s') e = Some k2" using step.hyps(2) by blast
    moreover have "store_follows (st (fst s)) (st (fst s'))"
      using step.hyps(2) by (intro system_step_follows [OF assms(1)]) blast
    ultimately show ?case
      using store_followsD follows_Some evolves_trans by blast
  qed
  then show ?thesis by simp
qed

text \<open>A kluster without pools gets its first one: the status still has none.\<close>

definition poolless :: Kluster where
  "poolless = cert_kluster\<lparr>k_Name := ''demo-b42'', k_Labels := [(''account'', ''b42'')]\<rparr>"

theorem kluster_identity_witness:
  "\<exists>w' k'. (\<lambda>s s'. system_step boot_runtime boot_ground (\<lambda>_ _. Ok []) ''HEAD'' fst s s' \<and> fst (fst s') (''kubernikus'', ''demo-b42'') \<noteq> None)\<^sup>*\<^sup>*
       (([(''kubernikus'', ''demo-b42'') \<mapsto> poolless], {}), \<lparr>g_events = [], g_metrics = no_metrics\<rparr>)
       (w', \<lparr>g_events = [], g_metrics = no_metrics\<rparr>) \<and>
     fst w' (''kubernikus'', ''demo-b42'') = Some k' \<and> length (spec_NodePools (k_Spec k')) = 1 \<and> st_NodePools (k_Status k') = []"
proof -
  let ?w = "([(''kubernikus'', ''demo-b42'') \<mapsto> poolless], {} :: string set)"
  let ?g = "\<lparr>g_events = [], g_metrics = no_metrics\<rparr>"
  let ?w' = "snd (updateCluster boot_runtime ''demo'' demo_body demo_principal ?w)"
  have q: "qualifiedName ''demo'' ''b42'' = ''demo-b42''" by code_simp
  have u: "\<exists>k'. fst ?w' (''kubernikus'', ''demo-b42'') = Some k' \<and> length (spec_NodePools (k_Spec k')) = 1"
    using q by (simp add: updateCluster_def editCluster_def boot_runtime_def boot_ground_def demo_ground_def stored_klusters_def
        demo_principal_def svc_def poolless_def cert_kluster_def tryc_def demo_body_def demo_spec_def)
  have path: "(\<lambda>s s'. system_step boot_runtime boot_ground (\<lambda>_ _. Ok []) ''HEAD'' fst s s' \<and>
      fst (fst s') (''kubernikus'', ''demo-b42'') \<noteq> None)\<^sup>*\<^sup>* (?w, ?g) (?w', ?g)"
    using u step_update [of boot_runtime boot_ground "\<lambda>_ _. Ok []" "''HEAD''" fst ?w ?g "''demo''" demo_body demo_principal]
    by (intro r_into_rtranclp) auto
  from kluster_identity [OF boot_system path, of poolless]
  obtain k' where "fst ?w' (''kubernikus'', ''demo-b42'') = Some k'" "evolves poolless k'" by auto
  moreover from this(2) have "st_NodePools (k_Status k') = []"
    using evolves_fields(6) [of poolless k'] by (simp add: poolless_def cert_kluster_def zero_KlusterStatus_def)
  ultimately show ?thesis using path u by (intro exI [of _ ?w'] exI [of _ k']) simp
qed

end
