(* ===== verification/HttpUrl.thy ===== *)
theory HttpUrl
  imports Auth
begin

text \<open>
  The part of Go's \<open>net/url\<close>, \<open>path\<close> and \<open>net/http\<close> packages that the REST API and its client
  rest on: escaping of paths, the two representations a parsed URL has of its path, joining of
  paths, and the names of headers. A segment is plain if all its characters are unreserved and
  it is neither empty nor \<open>.\<close> nor \<open>..\<close>: such a segment travels unchanged.
\<close>

section \<open>Escaping\<close>

definition is_hex :: "char \<Rightarrow> bool" where
  "is_hex c \<longleftrightarrow> is_digit c \<or> (97 \<le> (of_char c :: nat) \<and> (of_char c :: nat) \<le> 102) \<or>
     (65 \<le> (of_char c :: nat) \<and> (of_char c :: nat) \<le> 70)"

definition unhex :: "char \<Rightarrow> nat" where
  "unhex c =
     (if is_digit c then digit_val c
      else if 97 \<le> (of_char c :: nat) then (of_char c :: nat) - 87 else (of_char c :: nat) - 55)"

definition upper_hex :: "nat \<Rightarrow> char" where
  "upper_hex n = (if n < 10 then digit_char n else char_of (n + 55))"

definition unreserved :: "char \<Rightarrow> bool" where
  "unreserved c \<longleftrightarrow> is_alnum c \<or> c \<in> set ''-_.~''"

text \<open>\<open>shouldEscape(c, encodePath)\<close>: of the reserved characters only the question mark.\<close>

definition shouldEscape :: "char \<Rightarrow> bool" where
  "shouldEscape c \<longleftrightarrow> \<not> (unreserved c \<or> c \<in> set ''$&+,/:;=@'')"

definition url_escape :: "string \<Rightarrow> string" where
  "url_escape s = concat (map (\<lambda>c.
     if shouldEscape c then [CHR ''%'', upper_hex ((of_char c :: nat) div 16), upper_hex ((of_char c :: nat) mod 16)]
     else [c]) s)"

text \<open>\<open>unescape\<close> for a path: a percent sign needs two hexadecimal digits.\<close>

fun url_unescape :: "string \<Rightarrow> string option" where
  "url_unescape [] = Some []"
| "url_unescape (c # s) =
     (if c = CHR ''%'' then
        (case s of
           a # b # t \<Rightarrow>
             if is_hex a \<and> is_hex b then map_option ((#) (char_of (16 * unhex a + unhex b))) (url_unescape t) else None
         | _ \<Rightarrow> None)
      else map_option ((#) c) (url_unescape s))"

definition validEncoded :: "string \<Rightarrow> bool" where
  "validEncoded s \<longleftrightarrow> list_all (\<lambda>c. c \<in> set ''!$&()*+,;=:@[]%'' \<or> c = CHR 0x27 \<or> \<not> shouldEscape c) s"

section \<open>Parsed URLs\<close>

text \<open>\<open>RawPath\<close> is kept only where the default encoding of \<open>Path\<close> is another text.\<close>

record URL =
  url_Path :: string
  url_RawPath :: string

definition bad_escape :: goerr where
  "bad_escape = Errorf ''invalid URL escape''"

definition setPath :: "string \<Rightarrow> URL outcome" where
  "setPath p =
     (case url_unescape p of
        None \<Rightarrow> Fail bad_escape
      | Some path \<Rightarrow> Ok \<lparr>url_Path = path, url_RawPath = (if url_escape path = p then [] else p)\<rparr>)"

definition EscapedPath :: "URL \<Rightarrow> string" where
  "EscapedPath u =
     (if url_RawPath u \<noteq> [] \<and> validEncoded (url_RawPath u) \<and> url_unescape (url_RawPath u) = Some (url_Path u)
      then url_RawPath u
      else if url_Path u = ''*'' then ''*''
      else url_escape (url_Path u))"

text \<open>\<open>url.Parse\<close> on a text that starts with one slash: the fragment goes, then the query; the
  fragment has to be well escaped too.\<close>

definition before :: "char \<Rightarrow> string \<Rightarrow> string" where
  "before c s = takeWhile (\<lambda>x. x \<noteq> c) s"

definition after :: "char \<Rightarrow> string \<Rightarrow> string" where
  "after c s = drop (Suc (length (before c s))) s"

definition parse_path :: "string \<Rightarrow> URL outcome" where
  "parse_path s =
     (if url_unescape (after CHR ''#'' s) = None then Fail bad_escape
      else setPath (before CHR ''?'' (before CHR ''#'' s)))"

definition path_Join :: "string list \<Rightarrow> string" where
  "path_Join elems =
     (case dropWhile (\<lambda>e. e = []) elems of [] \<Rightarrow> [] | es \<Rightarrow> path_Clean (Join es ''/''))"

section \<open>Headers\<close>

text \<open>\<open>textproto.CanonicalMIMEHeaderKey\<close> on a text of letters, digits and dashes; \<open>up\<close> tells
  whether the next letter is upper case.\<close>

definition upper_char :: "char \<Rightarrow> char" where
  "upper_char c = (if is_lower c then char_of ((of_char c :: nat) - 32) else c)"

definition lower_char :: "char \<Rightarrow> char" where
  "lower_char c = (if 65 \<le> (of_char c :: nat) \<and> (of_char c :: nat) \<le> 90 then char_of ((of_char c :: nat) + 32) else c)"

fun canonical_from :: "bool \<Rightarrow> string \<Rightarrow> string" where
  "canonical_from up [] = []"
| "canonical_from up (c # s) = (if up then upper_char c else lower_char c) # canonical_from (c = CHR ''-'') s"

definition CanonicalHeaderKey :: "string \<Rightarrow> string" where
  "CanonicalHeaderKey s = canonical_from True s"

definition ToUpper :: "string \<Rightarrow> string" where
  "ToUpper s = map upper_char s"

section \<open>Segments of a path\<close>

text \<open>A segment that cleaning keeps, and one that also passes through the parser of URLs unread.\<close>

definition clean_segment :: "string \<Rightarrow> bool" where
  "clean_segment s \<longleftrightarrow> s \<noteq> [] \<and> s \<noteq> ''.'' \<and> s \<noteq> ''..'' \<and> CHR ''/'' \<notin> set s"

definition good_name :: "string \<Rightarrow> bool" where
  "good_name s \<longleftrightarrow> clean_segment s \<and> CHR ''%'' \<notin> set s \<and> CHR ''?'' \<notin> set s \<and> CHR ''#'' \<notin> set s"

definition slashed :: "string list \<Rightarrow> string" where
  "slashed es = concat (map (\<lambda>e. CHR ''/'' # e) es)"

lemma slashed_Nil [simp]: "slashed [] = []"
  by (simp add: slashed_def)

lemma slashed_Cons [simp]: "slashed (e # es) = CHR ''/'' # e @ slashed es"
  by (simp add: slashed_def)

lemma slashed_Join: "es \<noteq> [] \<Longrightarrow> slashed es = CHR ''/'' # Join es ''/''"
  by (induction es "''/''" rule: Join.induct) auto

lemma good_clean: "list_all good_name es \<Longrightarrow> list_all clean_segment es"
  by (simp add: good_name_def list_all_iff)

lemma Split_slashed:
  "list_all clean_segment es \<Longrightarrow> Split CHR ''/'' (slashed es) = [] # (if es = [] then [] else es)"
proof (induction es)
  case (Cons e es)
  then have "CHR ''/'' \<notin> set e" by (simp add: clean_segment_def)
  with Cons show ?case by (cases es) (auto simp: Split_no_sep Split_append_sep)
qed simp

lemma clean_elems_slashed: "list_all clean_segment es \<Longrightarrow> clean_elems r es acc = rev acc @ es"
  by (induction es arbitrary: acc) (auto simp: clean_segment_def)

lemma path_Clean_slashed:
  assumes "list_all clean_segment es" "es \<noteq> []"
  shows "path_Clean (slashed es) = slashed es"
proof -
  have "Split CHR ''/'' (slashed es) = [] # es" "slashed es = CHR ''/'' # Join es ''/''"
    using Split_slashed [OF assms(1)] slashed_Join assms(2) by auto
  then show ?thesis using assms(1) by (simp add: path_Clean_def clean_elems_slashed Let_def del: Split.simps)
qed

lemma path_Join_root:
  assumes "list_all clean_segment es" "es \<noteq> []"
  shows "path_Join [''/'', slashed es] = slashed es"
proof -
  have "Split CHR ''/'' (''/'' @ ''/'' @ slashed es) = [] # [] # [] # es"
    using Split_slashed [OF assms(1)] assms(2) Split_append_sep [of "CHR ''/''" "[]"] by simp
  then show ?thesis using assms
    by (simp add: path_Join_def path_Clean_def clean_elems_slashed slashed_Join Let_def)
qed

section \<open>Escaping is undone by unescaping\<close>

lemma hex_digits: "n < 16 \<Longrightarrow> is_hex (upper_hex n) \<and> unhex (upper_hex n) = n \<and> upper_hex n \<notin> {CHR ''/'', CHR ''?'', CHR ''#''}"
proof -
  have "\<forall>n\<in>set [0..<16]. is_hex (upper_hex n) \<and> unhex (upper_hex n) = n \<and> upper_hex n \<notin> {CHR ''/'', CHR ''?'', CHR ''#''}"
    by code_simp
  then show "n < 16 \<Longrightarrow> ?thesis" by simp
qed

lemma char_bytes: "(of_char c :: nat) div 16 < 16" "(of_char c :: nat) mod 16 < 16"
  "char_of (16 * ((of_char c :: nat) div 16) + (of_char c :: nat) mod 16) = c"
proof -
  have "(of_char c :: nat) < 256" by (rule nat_of_char_less_256)
  then show "(of_char c :: nat) div 16 < 16" by (rule less_mult_imp_div_less [of _ 16 16, simplified])
qed simp_all

lemma shouldEscape_percent: "shouldEscape CHR ''%''" "shouldEscape CHR ''?''" "shouldEscape CHR ''#''" "\<not> shouldEscape CHR ''/''"
  by code_simp+

lemma url_escape_Nil [simp]: "url_escape [] = []"
  by (simp add: url_escape_def)

lemma url_escape_Cons: "url_escape (c # s) =
    (if shouldEscape c then [CHR ''%'', upper_hex ((of_char c :: nat) div 16), upper_hex ((of_char c :: nat) mod 16)]
     else [c]) @ url_escape s"
  by (simp add: url_escape_def)

lemma unescape_escape: "url_unescape (url_escape s) = Some s"
proof (induction s)
  case (Cons c s)
  then show ?case
    using hex_digits [OF char_bytes(1) [of c]] hex_digits [OF char_bytes(2) [of c]] char_bytes(3) [of c]
    by (cases "shouldEscape c") (auto simp: url_escape_Cons shouldEscape_percent)
qed simp

lemma unescape_plain: "CHR ''%'' \<notin> set s \<Longrightarrow> url_unescape s = Some s"
  by (induction s) auto

lemma escape_chars: "set (url_escape s) \<inter> {CHR ''?'', CHR ''#''} = {}"
  "CHR ''/'' \<in> set (url_escape s) \<Longrightarrow> CHR ''/'' \<in> set s"
proof (induction s)
  case (Cons c s)
  have h: "upper_hex ((of_char c :: nat) div 16) \<notin> {CHR ''/'', CHR ''?'', CHR ''#''}"
    "upper_hex ((of_char c :: nat) mod 16) \<notin> {CHR ''/'', CHR ''?'', CHR ''#''}"
    using hex_digits char_bytes by blast+
  { case 1 then show ?case using Cons(1) h by (auto simp: url_escape_Cons shouldEscape_percent split: if_splits) }
  { case 2 then show ?case using Cons(2) h by (auto simp: url_escape_Cons split: if_splits) }
qed simp_all

lemma escape_slashed: "url_escape (slashed es) = slashed (map url_escape es)"
proof -
  have "url_escape (s @ t) = url_escape s @ url_escape t" for s t by (simp add: url_escape_def)
  then show ?thesis by (induction es) (simp_all add: url_escape_Cons shouldEscape_percent)
qed

lemma escape_clean: "clean_segment s \<Longrightarrow> clean_segment (url_escape s)"
proof -
  assume s: "clean_segment s"
  have "url_unescape (url_escape s) \<notin> {Some [], Some ''.'', Some ''..''}"
    using s by (simp add: unescape_escape clean_segment_def)
  then have "url_escape s \<notin> {[], ''.'', ''..''}" by auto
  with s escape_chars(2) [of s] show ?thesis by (auto simp: clean_segment_def)
qed

section \<open>A path on the wire\<close>

text \<open>The text that is sent for a path of good names: the path itself or its escaped form. It is
  read back as the same path, is sent again as the same text, and its segments are the names,
  escaped or not.\<close>

lemma before_absent: "c \<notin> set s \<Longrightarrow> before c s = s"
  by (auto simp: before_def takeWhile_eq_all_conv)

lemma slashed_chars: "c \<in> set (slashed es) \<Longrightarrow> c = CHR ''/'' \<or> (\<exists>e\<in>set es. c \<in> set e)"
  by (induction es) auto

lemma setPath_wire:
  assumes u: "setPath p = Ok u" and star: "url_Path u \<noteq> ''*''"
  shows "setPath (EscapedPath u) = Ok \<lparr>url_Path = url_Path u,
     url_RawPath = (if url_escape (url_Path u) = EscapedPath u then [] else EscapedPath u)\<rparr>"
    "EscapedPath \<lparr>url_Path = url_Path u,
     url_RawPath = (if url_escape (url_Path u) = EscapedPath u then [] else EscapedPath u)\<rparr> = EscapedPath u"
  using assms by (auto simp: setPath_def EscapedPath_def unescape_escape split: option.splits if_splits)

lemma wire_text:
  assumes es: "list_all good_name es" "es \<noteq> []"
  obtains u f where "parse_path (slashed es) = Ok u" "url_Path u = slashed es"
    "EscapedPath u = slashed (map f es)" "f = id \<or> f = url_escape"
proof -
  have chars: "CHR ''%'' \<notin> set (slashed es)" "CHR ''?'' \<notin> set (slashed es)" "CHR ''#'' \<notin> set (slashed es)"
    using es(1) slashed_chars by (fastforce simp: good_name_def list_all_iff)+
  have star: "slashed es \<noteq> ''*''" using es(2) by (cases es) auto
  define u where "u = \<lparr>url_Path = slashed es, url_RawPath = (if url_escape (slashed es) = slashed es then [] else slashed es)\<rparr>"
  have "parse_path (slashed es) = Ok u"
    using chars by (simp add: parse_path_def after_def before_absent setPath_def unescape_plain u_def)
  moreover have "EscapedPath u = slashed es \<or> EscapedPath u = url_escape (slashed es)"
    using star by (auto simp: EscapedPath_def u_def)
  then obtain f where "EscapedPath u = slashed (map f es)" "f = id \<or> f = url_escape"
    by (metis escape_slashed list.map_id)
  moreover have "url_Path u = slashed es" by (simp add: u_def)
  ultimately show ?thesis using that by blast
qed

lemma name_unescaped:
  assumes "good_name n" "f = id \<or> f = url_escape"
  shows "url_unescape (f n) = Some n" "clean_segment (f n)" "CHR ''?'' \<notin> set (f n)" "CHR ''#'' \<notin> set (f n)"
  using assms escape_clean [of n] escape_chars [of n] by (auto simp: good_name_def unescape_plain unescape_escape)

end
