(* ===== verification/RestContext.thy ===== *)
theory RestContext
  imports HttpUrl Scoped
begin

text \<open>
  The data the generated REST server works on, and the vendored middleware of
  \<open>github.com/go-openapi\<close> it calls (\<open>runtime/middleware/context.go\<close>, \<open>errors/api.go\<close>): requests,
  payloads and answers on the wire, the errors of the API with their status codes, matched
  routes, authorization, binding and rendering. A body on the wire has a type \<open>'b\<close> of its own;
  the JSON codec, the parser of media types, the negotiation of content types and the texts of
  validation errors are parameters. A request keeps its route and principal in its context,
  which a second lookup returns again: the model looks them up once.
\<close>

section \<open>Requests, payloads and answers\<close>

text \<open>A request without a body is one whose length is not positive and that is not chunked. The keys
  of the headers are canonical.\<close>

record 'b ApiRequest = HTTPRequest +
  aq_Method :: string
  aq_URL :: URL
  aq_Body :: "'b option"

datatype payload =
    PCluster ModelsKluster
  | PClusters "ModelsKluster list"
  | PCredentials string
  | PEvents "KubeEvent list"
  | PClusterInfo KlusterInfo
  | PMetadata OpenstackMetadata
  | PInfo string
  | PVersions "string list"
  | PError int string
  | PText string

text \<open>What a responder writes: the status, the payload if there is one, and whether the content type
  stays.\<close>

record rendered =
  rd_Code :: int
  rd_Payload :: "payload option"
  rd_KeepType :: bool

record 'b wire =
  wr_Code :: int
  wr_ContentType :: string
  wr_Allow :: string
  wr_Body :: "'b option"

text \<open>A handler returns a responder: a response of its operation, or the one of an operation that is
  not implemented.\<close>

datatype 'a responder = Reply "'a response" | NotImplementedReply string

text \<open>What the consumer makes of a request body: an API object, the end of the input, or an error.\<close>

datatype body_read = Decoded ModelsKluster | AtEOF | Unreadable string

section \<open>Errors of the API\<close>

datatype api_error =
    ApiErr int string
  | MethodNotAllowedErr string "string list"
  | CompositeErr "api_error list"
  | PlainErr string

fun kind_code :: "validation_kind \<Rightarrow> int" where
  "kind_code Required = 602"
| "kind_code FailedPattern = 605"
| "kind_code EnumFail = 606"
| "kind_code ExceedsMaximumInt = 608"
| "kind_code ExceedsMinimumInt = 609"

fun of_validation :: "(string \<Rightarrow> validation_kind \<Rightarrow> string) \<Rightarrow> validation_error \<Rightarrow> api_error" where
  "of_validation msg (Validation p k) = ApiErr (kind_code k) (msg p k)"
| "of_validation msg (Composite es) = CompositeErr (map (of_validation msg) es)"

definition required_body :: api_error where
  "required_body = ApiErr 602 ''body in body is required''"

definition NewParseError :: "string \<Rightarrow> string \<Rightarrow> string \<Rightarrow> string \<Rightarrow> api_error" where
  "NewParseError nm inn val reason =
     ApiErr 400 (''parsing '' @ nm @ '' '' @ inn @ '' from '' @ quoted val @ '' failed, because '' @ reason)"

definition bracketed :: "string list \<Rightarrow> string" where
  "bracketed xs = ''['' @ Join xs '' '' @ '']''"

definition InvalidContentType :: "string \<Rightarrow> string list \<Rightarrow> api_error" where
  "InvalidContentType val allowed =
     ApiErr 415 (''unsupported media type '' @ quoted val @ '', only '' @ bracketed allowed @ '' are allowed'')"

definition InvalidResponseFormat :: "string list \<Rightarrow> api_error" where
  "InvalidResponseFormat allowed =
     ApiErr 406 (''unsupported media type requested, only '' @ bracketed allowed @ '' are available'')"

definition Unauthenticated :: "string \<Rightarrow> api_error" where
  "Unauthenticated scheme = ApiErr 401 (''unauthenticated for '' @ scheme)"

definition MethodNotAllowed :: "string \<Rightarrow> string list \<Rightarrow> api_error" where
  "MethodNotAllowed requested allow =
     MethodNotAllowedErr (''method '' @ requested @ '' is not allowed, but ['' @ Join allow '','' @ ''] are'') allow"

fun flattenComposite :: "api_error \<Rightarrow> api_error list" where
  "flattenComposite (CompositeErr es) = concat (map flattenComposite es)"
| "flattenComposite e = [e]"

definition asHTTPCode :: "int \<Rightarrow> int" where
  "asHTTPCode code = (if code \<ge> 600 then 422 else code)"

text \<open>The libraries: \<open>lib_errorAsJSON\<close> is the JSON text of a code and a message.\<close>

record 'b rest_lib =
  lib_ParseMediaType :: "string \<Rightarrow> string outcome"
  lib_Negotiate :: "'b ApiRequest \<Rightarrow> string list \<Rightarrow> string \<Rightarrow> string"
  lib_Message :: "string \<Rightarrow> validation_kind \<Rightarrow> string"
  lib_errorAsJSON :: "int \<Rightarrow> string \<Rightarrow> 'b"

definition error_body :: "'b rest_lib \<Rightarrow> string \<Rightarrow> int \<Rightarrow> string \<Rightarrow> 'b option" where
  "error_body lib meth code msg = (if meth = ''HEAD'' then None else Some (lib_errorAsJSON lib code msg))"

text \<open>\<open>ServeError\<close> answers a composite error with its first flattened error.\<close>

definition ServeError :: "'b rest_lib \<Rightarrow> string \<Rightarrow> api_error \<Rightarrow> 'b wire outcome" where
  "ServeError lib meth err =
     (case flattenComposite err of
        [] \<Rightarrow> Panics ''index out of range''
      | e # _ \<Rightarrow>
          (case e of
             ApiErr code msg \<Rightarrow> Ok \<lparr>wr_Code = asHTTPCode code, wr_ContentType = ''application/json'', wr_Allow = [],
               wr_Body = error_body lib meth code msg\<rparr>
           | MethodNotAllowedErr msg allow \<Rightarrow> Ok \<lparr>wr_Code = 405, wr_ContentType = ''application/json'',
               wr_Allow = Join allow '','', wr_Body = error_body lib meth 405 msg\<rparr>
           | PlainErr msg \<Rightarrow> Ok \<lparr>wr_Code = 500, wr_ContentType = ''application/json'', wr_Allow = [],
               wr_Body = error_body lib meth 500 msg\<rparr>
           | CompositeErr es \<Rightarrow> Panics ''unreachable''))"

section \<open>Routes\<close>

type_synonym ('w, 'b) authenticator = "'b ApiRequest \<Rightarrow> ('w, (api_error + Principal) option) go"

record ('w, 'b) MatchedRoute =
  mr_OperationID :: string
  mr_PathPattern :: string
  mr_Consumes :: "string list"
  mr_Produces :: "string list"
  mr_Consumers :: "string \<rightharpoonup> ('b \<Rightarrow> body_read)"
  mr_Producers :: "string \<rightharpoonup> (payload \<Rightarrow> 'b outcome)"
  mr_Authenticators :: "('w, 'b) authenticator list"
  mr_Authorizer :: "'b ApiRequest \<Rightarrow> Principal \<Rightarrow> unit outcome"
  mr_Params :: "(string \<times> string) list"
  mr_Consumer :: "('b \<Rightarrow> body_read) option"

definition GetOK :: "(string \<times> string) list \<Rightarrow> string \<Rightarrow> string list \<times> bool" where
  "GetOK params name = (case map_of params name of Some v \<Rightarrow> ([v], True) | None \<Rightarrow> ([], False))"

text \<open>An API key in a header: without the header the scheme does not apply.\<close>

definition APIKeyAuth :: "string \<Rightarrow> (string \<Rightarrow> ('w, api_error + Principal) go) \<Rightarrow> ('w, 'b) authenticator" where
  "APIKeyAuth name authenticate req =
     (let token = Header_Get (HTTPRequest.truncate req) (CanonicalHeaderKey name) in
      if token = [] then ret None else bnd (authenticate token) (\<lambda>r. ret (Some r)))"

fun try_authenticators ::
  "('w, 'b) MatchedRoute \<Rightarrow> 'b ApiRequest \<Rightarrow> api_error option \<Rightarrow> ('w, 'b) authenticator list \<Rightarrow>
     ('w, api_error + Principal option) go" where
  "try_authenticators route req lastError [] =
     ret (Inl (case lastError of Some e \<Rightarrow> e | None \<Rightarrow> Unauthenticated ''invalid credentials''))"
| "try_authenticators route req lastError (a # as) =
     bnd (a req) (\<lambda>r. case r of
        None \<Rightarrow> try_authenticators route req lastError as
      | Some (Inl e) \<Rightarrow> try_authenticators route req (Some e) as
      | Some (Inr usr) \<Rightarrow>
          (case mr_Authorizer route req usr of
             Ok _ \<Rightarrow> ret (Inr (Some usr))
           | Fail err \<Rightarrow> ret (Inl (ApiErr 403 (Error err)))
           | Panics s \<Rightarrow> panic s))"

definition AuthorizeRequest ::
  "('w, 'b) MatchedRoute \<Rightarrow> 'b ApiRequest \<Rightarrow> ('w, api_error + Principal option) go" where
  "AuthorizeRequest route req =
     (if mr_Authenticators route = [] then ret (Inr None)
      else try_authenticators route req None (mr_Authenticators route))"

section \<open>Binding\<close>

definition ContainsStringsCI :: "string list \<Rightarrow> string \<Rightarrow> bool" where
  "ContainsStringsCI coll item \<longleftrightarrow> list_ex (\<lambda>a. ToLower a = ToLower item) coll"

definition validateContentType :: "'b rest_lib \<Rightarrow> string list \<Rightarrow> string \<Rightarrow> api_error option" where
  "validateContentType lib allowed actual =
     (if allowed = [] then None
      else case lib_ParseMediaType lib actual of
        Ok mt \<Rightarrow>
          if ContainsStringsCI allowed mt \<or> ContainsStringsCI allowed ''*/*'' \<or>
             (case Split CHR ''/'' actual of [a, b] \<Rightarrow> ContainsStringsCI allowed (a @ ''/*'') | _ \<Rightarrow> False)
          then None else Some (InvalidContentType actual allowed)
      | _ \<Rightarrow> Some (InvalidContentType actual allowed))"

definition request_ContentType :: "'b rest_lib \<Rightarrow> 'b ApiRequest \<Rightarrow> api_error + string" where
  "request_ContentType lib req =
     (let orig = Header_Get (HTTPRequest.truncate req) ''Content-Type'';
          ct = (if orig = [] then ''application/octet-stream'' else orig)
      in case lib_ParseMediaType lib ct of
           Ok mt \<Rightarrow> Inr mt
         | Fail e \<Rightarrow> Inl (NewParseError ''Content-Type'' ''header'' orig (Error e))
         | Panics s \<Rightarrow> Inl (PlainErr s))"

text \<open>The consumer for the body: \<open>BindValidRequest\<close> up to the call of the binder.\<close>

definition select_consumer ::
  "'b rest_lib \<Rightarrow> 'b ApiRequest \<Rightarrow> ('w, 'b) MatchedRoute \<Rightarrow> api_error + ('w, 'b) MatchedRoute" where
  "select_consumer lib req route =
     (if aq_Body req = None then Inr route
      else case request_ContentType lib req of
        Inl e \<Rightarrow> Inl (CompositeErr [e])
      | Inr ct \<Rightarrow>
          (case validateContentType lib (mr_Consumes route) ct of
             Some e \<Rightarrow> Inl (CompositeErr [e])
           | None \<Rightarrow>
               (case mr_Consumers route ct of
                  None \<Rightarrow> Inl (CompositeErr [ApiErr 500 (''no consumer registered for '' @ ct)])
                | Some cons \<Rightarrow>
                    if lib_Negotiate lib req (mr_Produces route) ct = []
                    then Inl (CompositeErr [InvalidResponseFormat (mr_Produces route)])
                    else Inr (route\<lparr>mr_Consumer := Some cons\<rparr>))))"

type_synonym ('w, 'b, 'p) request_binder = "'b ApiRequest \<Rightarrow> ('w, 'b) MatchedRoute \<Rightarrow> (api_error + 'p) outcome"

definition BindValidRequest ::
  "'b rest_lib \<Rightarrow> ('w, 'b, 'p) request_binder \<Rightarrow> 'b ApiRequest \<Rightarrow> ('w, 'b) MatchedRoute \<Rightarrow> (api_error + 'p) outcome" where
  "BindValidRequest lib BindRequest req route =
     (case select_consumer lib req route of Inl e \<Rightarrow> Ok (Inl e) | Inr route' \<Rightarrow> BindRequest req route')"

section \<open>Rendering\<close>

definition normalizeOffer :: "string \<Rightarrow> string" where
  "normalizeOffer orig = hd (Split CHR '';'' orig)"

text \<open>The default producer is offered last.\<close>

definition response_format :: "'b rest_lib \<Rightarrow> string \<Rightarrow> 'b ApiRequest \<Rightarrow> string list \<Rightarrow> string" where
  "response_format lib defaultProduces req produces =
     lib_Negotiate lib req (filter (\<lambda>mt. mt \<noteq> defaultProduces) produces @ [defaultProduces]) []"

definition write_rendered :: "string \<Rightarrow> (payload \<Rightarrow> 'b outcome) \<Rightarrow> rendered \<Rightarrow> 'b wire outcome" where
  "write_rendered format produce r =
     obind (case rd_Payload r of None \<Rightarrow> Ok None | Some p \<Rightarrow>
              (case produce p of Ok b \<Rightarrow> Ok (Some b) | Fail e \<Rightarrow> Panics (Error e) | Panics s \<Rightarrow> Panics s)) (\<lambda>body.
     Ok \<lparr>wr_Code = rd_Code r, wr_ContentType = (if rd_KeepType r then format else []), wr_Allow = [], wr_Body = body\<rparr>)"

text \<open>\<open>Respond\<close> on a responder; \<open>producersFor\<close> are the producers of the API.\<close>

definition RespondWith ::
  "'b rest_lib \<Rightarrow> string \<Rightarrow> (string list \<Rightarrow> string \<rightharpoonup> (payload \<Rightarrow> 'b outcome)) \<Rightarrow> 'b ApiRequest \<Rightarrow>
     ('w, 'b) MatchedRoute \<Rightarrow> rendered \<Rightarrow> 'b wire outcome" where
  "RespondWith lib defaultProduces producersFor req route r =
     (let format = response_format lib defaultProduces req (mr_Produces route) in
      case mr_Producers route format of
        Some produce \<Rightarrow> write_rendered format produce r
      | None \<Rightarrow>
          (case producersFor [normalizeOffer defaultProduces] defaultProduces of
             Some produce \<Rightarrow> write_rendered format produce r
           | None \<Rightarrow> Panics (''can't find a producer for '' @ format)))"

text \<open>The rendering of a response: \<open>ok\<close> is the constant of the success writer, a default response
  whose code is not positive has the code 500.\<close>

definition default_code :: "int \<Rightarrow> int" where
  "default_code code = (if code \<le> 0 then 500 else code)"

definition render :: "int \<Rightarrow> ('a \<Rightarrow> payload) \<Rightarrow> 'a response \<Rightarrow> rendered" where
  "render ok f r =
     (case r of
        Success _ x \<Rightarrow> \<lparr>rd_Code = ok, rd_Payload = Some (f x), rd_KeepType = True\<rparr>
      | ErrorResponse code msg inner \<Rightarrow>
          \<lparr>rd_Code = default_code code, rd_Payload = Some (PError inner msg), rd_KeepType = True\<rparr>)"

definition render_responder :: "('a response \<Rightarrow> rendered) \<Rightarrow> 'a responder \<Rightarrow> rendered" where
  "render_responder write r =
     (case r of
        Reply x \<Rightarrow> write x
      | NotImplementedReply msg \<Rightarrow> \<lparr>rd_Code = 501, rd_Payload = Some (PText msg), rd_KeepType = True\<rparr>)"

end
