(* ===== verification/RestOperations.thy ===== *)
theory RestOperations
  imports RestContext
begin

text \<open>
  The eleven operations of the generated server (\<open>src/pkg/api/rest/operations\<close>): how the parameters
  of each are bound and validated, what its response writers write, how its URL builder builds
  a URL, and the handler of its route. A field of the parameters that an operation does not
  have keeps its zero value.
\<close>

section \<open>Parameters\<close>

record BoundParams =
  bp_HTTPRequest :: HTTPRequest
  bp_Body :: "ModelsKluster option"
  bp_Name :: string

definition new_params :: "HTTPRequest \<Rightarrow> BoundParams" where
  "new_params r = \<lparr>bp_HTTPRequest = r, bp_Body = None, bp_Name = []\<rparr>"

text \<open>The errors met and the value bound: of a body that is required, and of a path parameter.\<close>

definition bind_body ::
  "'b rest_lib \<Rightarrow> 'b ApiRequest \<Rightarrow> ('w, 'b) MatchedRoute \<Rightarrow> (api_error list \<times> ModelsKluster option) outcome" where
  "bind_body lib r route =
     (case aq_Body r of
        None \<Rightarrow> Ok ([required_body], None)
      | Some bytes \<Rightarrow>
          (case mr_Consumer route of
             None \<Rightarrow> Panics ''invalid memory address or nil pointer dereference''
           | Some consume \<Rightarrow>
               (case consume bytes of
                  AtEOF \<Rightarrow> Ok ([required_body], None)
                | Unreadable err \<Rightarrow> Ok ([NewParseError ''body'' ''body'' [] err], None)
                | Decoded body \<Rightarrow>
                    (case Kluster_Validate body of
                       Some err \<Rightarrow> Ok ([of_validation (lib_Message lib) err], None)
                     | None \<Rightarrow> Ok ([], Some body)))))"

definition bind_name :: "string list \<Rightarrow> string" where
  "bind_name rawData = (if rawData \<noteq> [] then last rawData else [])"

definition bound_or_errors :: "api_error list \<Rightarrow> BoundParams \<Rightarrow> api_error + BoundParams" where
  "bound_or_errors res params = (if res \<noteq> [] then Inl (CompositeErr res) else Inr params)"

definition CreateCluster_BindRequest :: "'b rest_lib \<Rightarrow> ('w, 'b, BoundParams) request_binder" where
  "CreateCluster_BindRequest lib r route =
     obind (bind_body lib r route) (\<lambda>(res, body).
     Ok (bound_or_errors res ((new_params (HTTPRequest.truncate r))\<lparr>bp_Body := body\<rparr>)))"

definition GetClusterCredentials_BindRequest :: "'b rest_lib \<Rightarrow> ('w, 'b, BoundParams) request_binder" where
  "GetClusterCredentials_BindRequest lib r route =
     Ok (bound_or_errors [] ((new_params (HTTPRequest.truncate r))
          \<lparr>bp_Name := bind_name (fst (GetOK (mr_Params route) ''name''))\<rparr>))"

definition GetClusterEvents_BindRequest :: "'b rest_lib \<Rightarrow> ('w, 'b, BoundParams) request_binder" where
  "GetClusterEvents_BindRequest lib r route =
     Ok (bound_or_errors [] ((new_params (HTTPRequest.truncate r))
          \<lparr>bp_Name := bind_name (fst (GetOK (mr_Params route) ''name''))\<rparr>))"

definition GetClusterInfo_BindRequest :: "'b rest_lib \<Rightarrow> ('w, 'b, BoundParams) request_binder" where
  "GetClusterInfo_BindRequest lib r route =
     Ok (bound_or_errors [] ((new_params (HTTPRequest.truncate r))
          \<lparr>bp_Name := bind_name (fst (GetOK (mr_Params route) ''name''))\<rparr>))"

definition GetOpenstackMetadata_BindRequest :: "'b rest_lib \<Rightarrow> ('w, 'b, BoundParams) request_binder" where
  "GetOpenstackMetadata_BindRequest lib r route =
     Ok (bound_or_errors [] (new_params (HTTPRequest.truncate r)))"

definition Info_BindRequest :: "'b rest_lib \<Rightarrow> ('w, 'b, BoundParams) request_binder" where
  "Info_BindRequest lib r route =
     Ok (bound_or_errors [] (new_params (HTTPRequest.truncate r)))"

definition ListAPIVersions_BindRequest :: "'b rest_lib \<Rightarrow> ('w, 'b, BoundParams) request_binder" where
  "ListAPIVersions_BindRequest lib r route =
     Ok (bound_or_errors [] (new_params (HTTPRequest.truncate r)))"

definition ListClusters_BindRequest :: "'b rest_lib \<Rightarrow> ('w, 'b, BoundParams) request_binder" where
  "ListClusters_BindRequest lib r route =
     Ok (bound_or_errors [] (new_params (HTTPRequest.truncate r)))"

definition ShowCluster_BindRequest :: "'b rest_lib \<Rightarrow> ('w, 'b, BoundParams) request_binder" where
  "ShowCluster_BindRequest lib r route =
     Ok (bound_or_errors [] ((new_params (HTTPRequest.truncate r))
          \<lparr>bp_Name := bind_name (fst (GetOK (mr_Params route) ''name''))\<rparr>))"

definition TerminateCluster_BindRequest :: "'b rest_lib \<Rightarrow> ('w, 'b, BoundParams) request_binder" where
  "TerminateCluster_BindRequest lib r route =
     Ok (bound_or_errors [] ((new_params (HTTPRequest.truncate r))
          \<lparr>bp_Name := bind_name (fst (GetOK (mr_Params route) ''name''))\<rparr>))"

definition UpdateCluster_BindRequest :: "'b rest_lib \<Rightarrow> ('w, 'b, BoundParams) request_binder" where
  "UpdateCluster_BindRequest lib r route =
     obind (bind_body lib r route) (\<lambda>(res, body).
     Ok (bound_or_errors res ((new_params (HTTPRequest.truncate r))
          \<lparr>bp_Body := body, bp_Name := bind_name (fst (GetOK (mr_Params route) ''name''))\<rparr>)))"

section \<open>Responses\<close>

text \<open>A termination has no payload and loses its content type.\<close>

definition CreateCluster_WriteResponse :: "ModelsKluster response \<Rightarrow> rendered" where
  "CreateCluster_WriteResponse r = render 201 PCluster r"

definition GetClusterCredentials_WriteResponse :: "string response \<Rightarrow> rendered" where
  "GetClusterCredentials_WriteResponse r = render 200 PCredentials r"

definition GetClusterEvents_WriteResponse :: "KubeEvent list response \<Rightarrow> rendered" where
  "GetClusterEvents_WriteResponse r = render 200 PEvents r"

definition GetClusterInfo_WriteResponse :: "KlusterInfo response \<Rightarrow> rendered" where
  "GetClusterInfo_WriteResponse r = render 200 PClusterInfo r"

definition GetOpenstackMetadata_WriteResponse :: "OpenstackMetadata response \<Rightarrow> rendered" where
  "GetOpenstackMetadata_WriteResponse r = render 200 PMetadata r"

definition Info_WriteResponse :: "string response \<Rightarrow> rendered" where
  "Info_WriteResponse r = render 200 PInfo r"

definition ListAPIVersions_WriteResponse :: "string list response \<Rightarrow> rendered" where
  "ListAPIVersions_WriteResponse r = render 200 PVersions r"

definition ListClusters_WriteResponse :: "ModelsKluster list response \<Rightarrow> rendered" where
  "ListClusters_WriteResponse r = render 200 PClusters r"

definition ShowCluster_WriteResponse :: "ModelsKluster response \<Rightarrow> rendered" where
  "ShowCluster_WriteResponse r = render 200 PCluster r"

definition TerminateCluster_WriteResponse :: "unit response \<Rightarrow> rendered" where
  "TerminateCluster_WriteResponse r =
     (case r of
        Success _ _ \<Rightarrow> \<lparr>rd_Code = 202, rd_Payload = None, rd_KeepType = False\<rparr>
      | ErrorResponse code msg inner \<Rightarrow>
          \<lparr>rd_Code = default_code code, rd_Payload = Some (PError inner msg), rd_KeepType = True\<rparr>)"

definition UpdateCluster_WriteResponse :: "ModelsKluster response \<Rightarrow> rendered" where
  "UpdateCluster_WriteResponse r = render 200 PCluster r"

section \<open>URL builders\<close>

text \<open>\<open>strings.Replace\<close> of a pattern that occurs once.\<close>

fun replace_name :: "string \<Rightarrow> string \<Rightarrow> string" where
  "replace_name name [] = []"
| "replace_name name (c # s) =
     (if take 6 (c # s) = ''{name}'' then name @ replace_name name (drop 5 s) else c # replace_name name s)"

text \<open>A URL: scheme, host and path.\<close>

record FullURL =
  fu_Scheme :: string
  fu_Host :: string
  fu_Path :: string

definition url_of_path :: "string \<Rightarrow> FullURL" where
  "url_of_path p = \<lparr>fu_Scheme = [], fu_Host = [], fu_Path = p\<rparr>"

definition named_url :: "string \<Rightarrow> string \<Rightarrow> string \<Rightarrow> string \<Rightarrow> FullURL outcome" where
  "named_url typ pattern basePath name =
     (if name = [] then Fail (Errorf (''Name is required on '' @ typ))
      else Ok (url_of_path (path_Join [basePath, replace_name name pattern])))"

definition BuildFull :: "string \<Rightarrow> FullURL outcome \<Rightarrow> string \<Rightarrow> string \<Rightarrow> FullURL outcome" where
  "BuildFull typ build scheme host =
     (if scheme = [] then Fail (Errorf (''scheme is required for a full url on '' @ typ))
      else if host = [] then Fail (Errorf (''host is required for a full url on '' @ typ))
      else obind build (\<lambda>base. Ok (base\<lparr>fu_Scheme := scheme, fu_Host := host\<rparr>)))"

text \<open>\<open>Must\<close> panics on an error.\<close>

definition MustURL :: "FullURL outcome \<Rightarrow> FullURL outcome" where
  "MustURL u = (case u of Ok x \<Rightarrow> Ok x | Fail e \<Rightarrow> Panics (Error e) | Panics s \<Rightarrow> Panics s)"

definition CreateClusterURL_Build :: "string \<Rightarrow> FullURL outcome" where
  "CreateClusterURL_Build basePath = Ok (url_of_path (path_Join [basePath, ''/api/v1/clusters'']))"

definition GetClusterCredentialsURL_Build :: "string \<Rightarrow> string \<Rightarrow> FullURL outcome" where
  "GetClusterCredentialsURL_Build basePath name = named_url ''GetClusterCredentialsURL'' ''/api/v1/clusters/{name}/credentials'' basePath name"

definition GetClusterEventsURL_Build :: "string \<Rightarrow> string \<Rightarrow> FullURL outcome" where
  "GetClusterEventsURL_Build basePath name = named_url ''GetClusterEventsURL'' ''/api/v1/clusters/{name}/events'' basePath name"

definition GetClusterInfoURL_Build :: "string \<Rightarrow> string \<Rightarrow> FullURL outcome" where
  "GetClusterInfoURL_Build basePath name = named_url ''GetClusterInfoURL'' ''/api/v1/clusters/{name}/info'' basePath name"

definition GetOpenstackMetadataURL_Build :: "string \<Rightarrow> FullURL outcome" where
  "GetOpenstackMetadataURL_Build basePath = Ok (url_of_path (path_Join [basePath, ''/api/v1/openstack/metadata'']))"

definition InfoURL_Build :: "string \<Rightarrow> FullURL outcome" where
  "InfoURL_Build basePath = Ok (url_of_path (path_Join [basePath, ''/info'']))"

definition ListAPIVersionsURL_Build :: "string \<Rightarrow> FullURL outcome" where
  "ListAPIVersionsURL_Build basePath = Ok (url_of_path (path_Join [basePath, ''/api'']))"

definition ListClustersURL_Build :: "string \<Rightarrow> FullURL outcome" where
  "ListClustersURL_Build basePath = Ok (url_of_path (path_Join [basePath, ''/api/v1/clusters'']))"

definition ShowClusterURL_Build :: "string \<Rightarrow> string \<Rightarrow> FullURL outcome" where
  "ShowClusterURL_Build basePath name = named_url ''ShowClusterURL'' ''/api/v1/clusters/{name}'' basePath name"

definition TerminateClusterURL_Build :: "string \<Rightarrow> string \<Rightarrow> FullURL outcome" where
  "TerminateClusterURL_Build basePath name = named_url ''TerminateClusterURL'' ''/api/v1/clusters/{name}'' basePath name"

definition UpdateClusterURL_Build :: "string \<Rightarrow> string \<Rightarrow> FullURL outcome" where
  "UpdateClusterURL_Build basePath name = named_url ''UpdateClusterURL'' ''/api/v1/clusters/{name}'' basePath name"

definition CreateClusterURL_BuildFull :: "string \<Rightarrow> string \<Rightarrow> string \<Rightarrow> FullURL outcome" where
  "CreateClusterURL_BuildFull basePath = BuildFull ''CreateClusterURL'' (CreateClusterURL_Build basePath)"

definition GetClusterCredentialsURL_BuildFull :: "string \<Rightarrow> string \<Rightarrow> string \<Rightarrow> string \<Rightarrow> FullURL outcome" where
  "GetClusterCredentialsURL_BuildFull basePath name = BuildFull ''GetClusterCredentialsURL'' (GetClusterCredentialsURL_Build basePath name)"

definition GetClusterEventsURL_BuildFull :: "string \<Rightarrow> string \<Rightarrow> string \<Rightarrow> string \<Rightarrow> FullURL outcome" where
  "GetClusterEventsURL_BuildFull basePath name = BuildFull ''GetClusterEventsURL'' (GetClusterEventsURL_Build basePath name)"

definition GetClusterInfoURL_BuildFull :: "string \<Rightarrow> string \<Rightarrow> string \<Rightarrow> string \<Rightarrow> FullURL outcome" where
  "GetClusterInfoURL_BuildFull basePath name = BuildFull ''GetClusterInfoURL'' (GetClusterInfoURL_Build basePath name)"

definition GetOpenstackMetadataURL_BuildFull :: "string \<Rightarrow> string \<Rightarrow> string \<Rightarrow> FullURL outcome" where
  "GetOpenstackMetadataURL_BuildFull basePath = BuildFull ''GetOpenstackMetadataURL'' (GetOpenstackMetadataURL_Build basePath)"

definition InfoURL_BuildFull :: "string \<Rightarrow> string \<Rightarrow> string \<Rightarrow> FullURL outcome" where
  "InfoURL_BuildFull basePath = BuildFull ''InfoURL'' (InfoURL_Build basePath)"

definition ListAPIVersionsURL_BuildFull :: "string \<Rightarrow> string \<Rightarrow> string \<Rightarrow> FullURL outcome" where
  "ListAPIVersionsURL_BuildFull basePath = BuildFull ''ListAPIVersionsURL'' (ListAPIVersionsURL_Build basePath)"

definition ListClustersURL_BuildFull :: "string \<Rightarrow> string \<Rightarrow> string \<Rightarrow> FullURL outcome" where
  "ListClustersURL_BuildFull basePath = BuildFull ''ListClustersURL'' (ListClustersURL_Build basePath)"

definition ShowClusterURL_BuildFull :: "string \<Rightarrow> string \<Rightarrow> string \<Rightarrow> string \<Rightarrow> FullURL outcome" where
  "ShowClusterURL_BuildFull basePath name = BuildFull ''ShowClusterURL'' (ShowClusterURL_Build basePath name)"

definition TerminateClusterURL_BuildFull :: "string \<Rightarrow> string \<Rightarrow> string \<Rightarrow> string \<Rightarrow> FullURL outcome" where
  "TerminateClusterURL_BuildFull basePath name = BuildFull ''TerminateClusterURL'' (TerminateClusterURL_Build basePath name)"

definition UpdateClusterURL_BuildFull :: "string \<Rightarrow> string \<Rightarrow> string \<Rightarrow> string \<Rightarrow> FullURL outcome" where
  "UpdateClusterURL_BuildFull basePath name = BuildFull ''UpdateClusterURL'' (UpdateClusterURL_Build basePath name)"

end
