(* ===== verification/RestServer.thy ===== *)
theory RestServer
  imports RestOperations
begin

text \<open>
  The API object of the generated server (\<open>src/pkg/api/rest/operations/kubernikus_api.go\<close>), the
  handlers of its routes, the vendored router, and its configuration
  (\<open>src/pkg/api/rest/configure.go\<close>). A handler field that is nil is \<open>None\<close>. The producers and
  consumers are those of the API when the routes are built, which is when it is served.
\<close>

section \<open>The API object\<close>

type_synonym ('w, 'b) op_handler = "'b ApiRequest \<Rightarrow> ('w, 'b) MatchedRoute \<Rightarrow> ('w, 'b wire) go"

type_synonym ('w, 'a) operation = "BoundParams \<Rightarrow> Principal option \<Rightarrow> ('w, 'a responder) go"

type_synonym ('w, 'a) open_operation = "BoundParams \<Rightarrow> ('w, 'a responder) go"

record ('w, 'b) KubernikusAPI =
  api_handlers :: "string \<rightharpoonup> (string \<rightharpoonup> ('w, 'b) op_handler)"
  api_defaultConsumes :: string
  api_defaultProduces :: string
  api_JSONConsumer :: "('b \<Rightarrow> body_read) option"
  api_JSONProducer :: "(payload \<Rightarrow> 'b outcome) option"
  api_KeystoneAuth :: "(string \<Rightarrow> ('w, api_error + Principal) go) option"
  api_Authorizer :: "'b ApiRequest \<Rightarrow> Principal \<Rightarrow> unit outcome"
  api_CreateClusterHandler :: "('w, ModelsKluster) operation option"
  api_GetClusterCredentialsHandler :: "('w, string) operation option"
  api_GetClusterEventsHandler :: "('w, KubeEvent list) operation option"
  api_GetClusterInfoHandler :: "('w, KlusterInfo) operation option"
  api_GetOpenstackMetadataHandler :: "('w, OpenstackMetadata) operation option"
  api_InfoHandler :: "('w, string) open_operation option"
  api_ListAPIVersionsHandler :: "('w, string list) open_operation option"
  api_ListClustersHandler :: "('w, ModelsKluster list) operation option"
  api_ShowClusterHandler :: "('w, ModelsKluster) operation option"
  api_TerminateClusterHandler :: "('w, unit) operation option"
  api_UpdateClusterHandler :: "('w, ModelsKluster) operation option"

definition not_implemented :: "string \<Rightarrow> ('w, 'a responder) go" where
  "not_implemented op = ret (NotImplementedReply (''operation '' @ op @ '' has not yet been implemented''))"

text \<open>\<open>consumer\<close> and \<open>producer\<close> are those of JSON.\<close>

definition NewKubernikusAPI ::
  "('b \<Rightarrow> body_read) \<Rightarrow> (payload \<Rightarrow> 'b outcome) \<Rightarrow> ('w, 'b) KubernikusAPI" where
  "NewKubernikusAPI consumer producer = \<lparr>
     api_handlers = Map.empty,
     api_defaultConsumes = ''application/json'',
     api_defaultProduces = ''application/json'',
     api_JSONConsumer = Some consumer,
     api_JSONProducer = Some producer,
     api_KeystoneAuth = Some (\<lambda>token. ret (Inl (ApiErr 501 (''api key auth (keystone) x-auth-token from header param''
       @ '' [x-auth-token] has not yet been implemented'')))),
     api_Authorizer = (\<lambda>_ _. Ok ()),
     api_CreateClusterHandler = Some (\<lambda>_ _. not_implemented ''CreateCluster''),
     api_GetClusterCredentialsHandler = Some (\<lambda>_ _. not_implemented ''GetClusterCredentials''),
     api_GetClusterEventsHandler = Some (\<lambda>_ _. not_implemented ''GetClusterEvents''),
     api_GetClusterInfoHandler = Some (\<lambda>_ _. not_implemented ''GetClusterInfo''),
     api_GetOpenstackMetadataHandler = Some (\<lambda>_ _. not_implemented ''GetOpenstackMetadata''),
     api_InfoHandler = Some (\<lambda>_. not_implemented ''Info''),
     api_ListAPIVersionsHandler = Some (\<lambda>_. not_implemented ''ListAPIVersions''),
     api_ListClustersHandler = Some (\<lambda>_ _. not_implemented ''ListClusters''),
     api_ShowClusterHandler = Some (\<lambda>_ _. not_implemented ''ShowCluster''),
     api_TerminateClusterHandler = Some (\<lambda>_ _. not_implemented ''TerminateCluster''),
     api_UpdateClusterHandler = Some (\<lambda>_ _. not_implemented ''UpdateCluster'')\<rparr>"

definition unregistered :: "('w, 'b) KubernikusAPI \<Rightarrow> string list" where
  "unregistered api =
     (if api_JSONConsumer api = None then [''JSONConsumer''] else []) @
     (if api_JSONProducer api = None then [''JSONProducer''] else []) @
     (if api_KeystoneAuth api = None then [''XAuthTokenAuth''] else []) @
     (if api_CreateClusterHandler api = None then [''CreateClusterHandler''] else []) @
     (if api_GetClusterCredentialsHandler api = None then [''GetClusterCredentialsHandler''] else []) @
     (if api_GetClusterEventsHandler api = None then [''GetClusterEventsHandler''] else []) @
     (if api_GetClusterInfoHandler api = None then [''GetClusterInfoHandler''] else []) @
     (if api_GetOpenstackMetadataHandler api = None then [''GetOpenstackMetadataHandler''] else []) @
     (if api_InfoHandler api = None then [''InfoHandler''] else []) @
     (if api_ListAPIVersionsHandler api = None then [''ListAPIVersionsHandler''] else []) @
     (if api_ListClustersHandler api = None then [''ListClustersHandler''] else []) @
     (if api_ShowClusterHandler api = None then [''ShowClusterHandler''] else []) @
     (if api_TerminateClusterHandler api = None then [''TerminateClusterHandler''] else []) @
     (if api_UpdateClusterHandler api = None then [''UpdateClusterHandler''] else [])"

definition KubernikusAPI_Validate :: "('w, 'b) KubernikusAPI \<Rightarrow> goerr option" where
  "KubernikusAPI_Validate api =
     (if length (unregistered api) > 0
      then Some (Errorf (''missing registration: '' @ Join (unregistered api) '', ''))
      else None)"

text \<open>A security scheme of the document: its name in the header.\<close>

definition AuthenticatorsFor ::
  "('w, 'b) KubernikusAPI \<Rightarrow> (string \<times> string) list \<Rightarrow> ('w, 'b) authenticator list" where
  "AuthenticatorsFor api schemes =
     map (\<lambda>(_, header). APIKeyAuth header (\<lambda>token.
        case api_KeystoneAuth api of Some auth \<Rightarrow> auth token
        | None \<Rightarrow> panic ''invalid memory address or nil pointer dereference''))
       (filter (\<lambda>(name, _). name = ''keystone'') schemes)"

definition ConsumersFor :: "('w, 'b) KubernikusAPI \<Rightarrow> string list \<Rightarrow> string \<rightharpoonup> ('b \<Rightarrow> body_read)" where
  "ConsumersFor api mediaTypes =
     (if ''application/json'' \<in> set mediaTypes then (\<lambda>mt. if mt = ''application/json'' then api_JSONConsumer api else None)
      else Map.empty)"

definition ProducersFor :: "('w, 'b) KubernikusAPI \<Rightarrow> string list \<Rightarrow> string \<rightharpoonup> (payload \<Rightarrow> 'b outcome)" where
  "ProducersFor api mediaTypes =
     (if ''application/json'' \<in> set mediaTypes then (\<lambda>mt. if mt = ''application/json'' then api_JSONProducer api else None)
      else Map.empty)"

definition HandlerFor :: "('w, 'b) KubernikusAPI \<Rightarrow> string \<Rightarrow> string \<Rightarrow> ('w, 'b) op_handler option" where
  "HandlerFor api meth path =
     (case api_handlers api (ToUpper meth) of
        None \<Rightarrow> None
      | Some paths \<Rightarrow> paths (if path = ''/'' then [] else path))"

section \<open>Serving an operation\<close>

definition respond_error :: "'b rest_lib \<Rightarrow> 'b ApiRequest \<Rightarrow> api_error \<Rightarrow> ('w, 'b wire) go" where
  "respond_error lib req err = lift_outcome (ServeError lib (aq_Method req) err)"

definition respond_with ::
  "'b rest_lib \<Rightarrow> ('w, 'b) KubernikusAPI \<Rightarrow> 'b ApiRequest \<Rightarrow> ('w, 'b) MatchedRoute \<Rightarrow> rendered \<Rightarrow> ('w, 'b wire) go" where
  "respond_with lib api req route r =
     lift_outcome (RespondWith lib (api_defaultProduces api) (ProducersFor api) req route r)"

text \<open>Bind, handle, respond; \<open>run\<close> is the handler of the operation, nil or not.\<close>

definition bind_and_handle ::
  "'b rest_lib \<Rightarrow> ('w, 'b) KubernikusAPI \<Rightarrow> ('w, 'b, BoundParams) request_binder \<Rightarrow> ('a response \<Rightarrow> rendered) \<Rightarrow>
     (BoundParams \<Rightarrow> ('w, 'a responder) go) option \<Rightarrow> ('w, 'b) op_handler" where
  "bind_and_handle lib api BindRequest WriteResponse run req route =
     bnd (lift_outcome (BindValidRequest lib BindRequest req route)) (\<lambda>bound.
       case bound of
         Inl err \<Rightarrow> respond_error lib req err
       | Inr params \<Rightarrow>
           (case run of
              None \<Rightarrow> panic ''invalid memory address or nil pointer dereference''
            | Some handle \<Rightarrow> bnd (handle params) (\<lambda>res.
                respond_with lib api req route (render_responder WriteResponse res))))"

text \<open>With authorization in front.\<close>

definition authorize_bind_and_handle ::
  "'b rest_lib \<Rightarrow> ('w, 'b) KubernikusAPI \<Rightarrow> ('w, 'b, BoundParams) request_binder \<Rightarrow> ('a response \<Rightarrow> rendered) \<Rightarrow>
     ('w, 'a) operation option \<Rightarrow> ('w, 'b) op_handler" where
  "authorize_bind_and_handle lib api BindRequest WriteResponse operation req route =
     bnd (AuthorizeRequest route req) (\<lambda>auth.
       case auth of
         Inl err \<Rightarrow> respond_error lib req err
       | Inr princ \<Rightarrow> bind_and_handle lib api BindRequest WriteResponse
           (map_option (\<lambda>op params. op params princ) operation) req route)"

definition CreateCluster_ServeHTTP :: "'b rest_lib \<Rightarrow> ('w, 'b) KubernikusAPI \<Rightarrow> ('w, 'b) op_handler" where
  "CreateCluster_ServeHTTP lib api =
     authorize_bind_and_handle lib api (CreateCluster_BindRequest lib) CreateCluster_WriteResponse (api_CreateClusterHandler api)"

definition GetClusterCredentials_ServeHTTP :: "'b rest_lib \<Rightarrow> ('w, 'b) KubernikusAPI \<Rightarrow> ('w, 'b) op_handler" where
  "GetClusterCredentials_ServeHTTP lib api =
     authorize_bind_and_handle lib api (GetClusterCredentials_BindRequest lib) GetClusterCredentials_WriteResponse (api_GetClusterCredentialsHandler api)"

definition GetClusterEvents_ServeHTTP :: "'b rest_lib \<Rightarrow> ('w, 'b) KubernikusAPI \<Rightarrow> ('w, 'b) op_handler" where
  "GetClusterEvents_ServeHTTP lib api =
     authorize_bind_and_handle lib api (GetClusterEvents_BindRequest lib) GetClusterEvents_WriteResponse (api_GetClusterEventsHandler api)"

definition GetClusterInfo_ServeHTTP :: "'b rest_lib \<Rightarrow> ('w, 'b) KubernikusAPI \<Rightarrow> ('w, 'b) op_handler" where
  "GetClusterInfo_ServeHTTP lib api =
     authorize_bind_and_handle lib api (GetClusterInfo_BindRequest lib) GetClusterInfo_WriteResponse (api_GetClusterInfoHandler api)"

definition GetOpenstackMetadata_ServeHTTP :: "'b rest_lib \<Rightarrow> ('w, 'b) KubernikusAPI \<Rightarrow> ('w, 'b) op_handler" where
  "GetOpenstackMetadata_ServeHTTP lib api =
     authorize_bind_and_handle lib api (GetOpenstackMetadata_BindRequest lib) GetOpenstackMetadata_WriteResponse (api_GetOpenstackMetadataHandler api)"

definition Info_ServeHTTP :: "'b rest_lib \<Rightarrow> ('w, 'b) KubernikusAPI \<Rightarrow> ('w, 'b) op_handler" where
  "Info_ServeHTTP lib api =
     bind_and_handle lib api (Info_BindRequest lib) Info_WriteResponse (api_InfoHandler api)"

definition ListAPIVersions_ServeHTTP :: "'b rest_lib \<Rightarrow> ('w, 'b) KubernikusAPI \<Rightarrow> ('w, 'b) op_handler" where
  "ListAPIVersions_ServeHTTP lib api =
     bind_and_handle lib api (ListAPIVersions_BindRequest lib) ListAPIVersions_WriteResponse (api_ListAPIVersionsHandler api)"

definition ListClusters_ServeHTTP :: "'b rest_lib \<Rightarrow> ('w, 'b) KubernikusAPI \<Rightarrow> ('w, 'b) op_handler" where
  "ListClusters_ServeHTTP lib api =
     authorize_bind_and_handle lib api (ListClusters_BindRequest lib) ListClusters_WriteResponse (api_ListClustersHandler api)"

definition ShowCluster_ServeHTTP :: "'b rest_lib \<Rightarrow> ('w, 'b) KubernikusAPI \<Rightarrow> ('w, 'b) op_handler" where
  "ShowCluster_ServeHTTP lib api =
     authorize_bind_and_handle lib api (ShowCluster_BindRequest lib) ShowCluster_WriteResponse (api_ShowClusterHandler api)"

definition TerminateCluster_ServeHTTP :: "'b rest_lib \<Rightarrow> ('w, 'b) KubernikusAPI \<Rightarrow> ('w, 'b) op_handler" where
  "TerminateCluster_ServeHTTP lib api =
     authorize_bind_and_handle lib api (TerminateCluster_BindRequest lib) TerminateCluster_WriteResponse (api_TerminateClusterHandler api)"

definition UpdateCluster_ServeHTTP :: "'b rest_lib \<Rightarrow> ('w, 'b) KubernikusAPI \<Rightarrow> ('w, 'b) op_handler" where
  "UpdateCluster_ServeHTTP lib api =
     authorize_bind_and_handle lib api (UpdateCluster_BindRequest lib) UpdateCluster_WriteResponse (api_UpdateClusterHandler api)"

section \<open>The table of handlers\<close>

definition add_handler ::
  "string \<Rightarrow> string \<Rightarrow> ('w, 'b) op_handler \<Rightarrow> (string \<rightharpoonup> (string \<rightharpoonup> ('w, 'b) op_handler)) \<Rightarrow> (string \<rightharpoonup> (string \<rightharpoonup> ('w, 'b) op_handler))" where
  "add_handler meth path h handlers =
     handlers(meth \<mapsto> (case handlers meth of Some paths \<Rightarrow> paths | None \<Rightarrow> Map.empty)(path \<mapsto> h))"

definition initHandlerCache :: "'b rest_lib \<Rightarrow> ('w, 'b) KubernikusAPI \<Rightarrow> ('w, 'b) KubernikusAPI" where
  "initHandlerCache lib api = api\<lparr>api_handlers :=
     add_handler ''PUT'' ''/api/v1/clusters/{name}'' (UpdateCluster_ServeHTTP lib api) (
     add_handler ''DELETE'' ''/api/v1/clusters/{name}'' (TerminateCluster_ServeHTTP lib api) (
     add_handler ''GET'' ''/api/v1/clusters/{name}'' (ShowCluster_ServeHTTP lib api) (
     add_handler ''GET'' ''/api/v1/clusters'' (ListClusters_ServeHTTP lib api) (
     add_handler ''GET'' ''/api'' (ListAPIVersions_ServeHTTP lib api) (
     add_handler ''GET'' ''/info'' (Info_ServeHTTP lib api) (
     add_handler ''GET'' ''/api/v1/openstack/metadata'' (GetOpenstackMetadata_ServeHTTP lib api) (
     add_handler ''GET'' ''/api/v1/clusters/{name}/info'' (GetClusterInfo_ServeHTTP lib api) (
     add_handler ''GET'' ''/api/v1/clusters/{name}/events'' (GetClusterEvents_ServeHTTP lib api) (
     add_handler ''GET'' ''/api/v1/clusters/{name}/credentials'' (GetClusterCredentials_ServeHTTP lib api) (
     add_handler ''POST'' ''/api/v1/clusters'' (CreateCluster_ServeHTTP lib api) (
     api_handlers api)))))))))))\<rparr>"

text \<open>\<open>len(o.handlers) == 0\<close>\<close>

definition Init :: "'b rest_lib \<Rightarrow> ('w, 'b) KubernikusAPI \<Rightarrow> ('w, 'b) KubernikusAPI" where
  "Init lib api = (if list_all (\<lambda>m. api_handlers api m = None) [''GET'', ''POST'', ''PUT'', ''DELETE'']
     then initHandlerCache lib api else api)"

section \<open>The router\<close>

text \<open>The operations of \<open>src/swagger.yml\<close>: method, path, operation id, and whether the document asks
  for the keystone scheme. The media types of all of them are those of the document, and the
  base path is the root.\<close>

type_synonym swagger_operation = "string \<times> string \<times> string \<times> bool"

definition swagger_operations :: "swagger_operation list" where
  "swagger_operations =
     [(''GET'', ''/info'', ''Info'', False),
      (''GET'', ''/api'', ''ListAPIVersions'', False),
      (''GET'', ''/api/v1/openstack/metadata'', ''GetOpenstackMetadata'', True),
      (''GET'', ''/api/v1/clusters'', ''ListClusters'', True),
      (''POST'', ''/api/v1/clusters'', ''CreateCluster'', True),
      (''GET'', ''/api/v1/clusters/{name}'', ''ShowCluster'', True),
      (''DELETE'', ''/api/v1/clusters/{name}'', ''TerminateCluster'', True),
      (''PUT'', ''/api/v1/clusters/{name}'', ''UpdateCluster'', True),
      (''GET'', ''/api/v1/clusters/{name}/credentials'', ''GetClusterCredentials'', True),
      (''GET'', ''/api/v1/clusters/{name}/info'', ''GetClusterInfo'', True),
      (''GET'', ''/api/v1/clusters/{name}/events'', ''GetClusterEvents'', True)]"

definition operation_routes :: "swagger_operation list \<Rightarrow> operations" where
  "operation_routes ops = map (\<lambda>(m, p, op, _). (m, p, op)) ops"

definition json_types :: "string list" where
  "json_types = [''application/json'']"

text \<open>\<open>AddRoute\<close>: an operation without a handler has no route.\<close>

definition with_handler :: "('w, 'b) KubernikusAPI \<Rightarrow> swagger_operation list \<Rightarrow> swagger_operation list" where
  "with_handler api ops = filter (\<lambda>(m, p, _, _). HandlerFor api m p \<noteq> None) ops"

definition route_entry :: "('w, 'b) KubernikusAPI \<Rightarrow> swagger_operation \<Rightarrow> (string \<times> string) list \<Rightarrow> ('w, 'b) MatchedRoute" where
  "route_entry api op params =
     (case op of (_, path, operationID, secured) \<Rightarrow>
        \<lparr>mr_OperationID = operationID, mr_PathPattern = path, mr_Consumes = json_types, mr_Produces = json_types,
         mr_Consumers = ConsumersFor api (map normalizeOffer json_types),
         mr_Producers = ProducersFor api (map normalizeOffer json_types),
         mr_Authenticators = AuthenticatorsFor api (if secured then [(''keystone'', ''x-auth-token'')] else []),
         mr_Authorizer = api_Authorizer api, mr_Params = params, mr_Consumer = None\<rparr>)"

type_synonym router_builder = "(string \<times> string) list \<Rightarrow> path_router outcome"

text \<open>The error of building a router is dropped; such a router finds nothing.\<close>

definition DefaultRouter :: "router_builder \<Rightarrow> swagger_operation list \<Rightarrow> string \<Rightarrow> path_router option" where
  "DefaultRouter denco_Build ops meth =
     (let routes = routes_for (operation_routes ops) meth in
      if routes = [] then None else Some (case denco_Build routes of Ok r \<Rightarrow> r | _ \<Rightarrow> (\<lambda>_. None)))"

definition unescape_param :: "string \<times> string \<Rightarrow> string \<times> string" where
  "unescape_param p = (fst p, case url_unescape (snd p) of Some v \<Rightarrow> v | None \<Rightarrow> snd p)"

definition Lookup ::
  "router_builder \<Rightarrow> ('w, 'b) KubernikusAPI \<Rightarrow> swagger_operation list \<Rightarrow> string \<Rightarrow> string \<Rightarrow> ('w, 'b) MatchedRoute option" where
  "Lookup denco_Build api ops meth path =
     (case DefaultRouter denco_Build ops (ToUpper meth) of
        None \<Rightarrow> None
      | Some router \<Rightarrow>
          (case router (path_Clean path) of
             None \<Rightarrow> None
           | Some (operationID, params) \<Rightarrow>
               map_option (\<lambda>op. route_entry api op (map unescape_param params))
                 (List.find (\<lambda>(m, _, op, _). m = ToUpper meth \<and> op = operationID) ops)))"

text \<open>The methods are in the order of the list; Go iterates over a map.\<close>

definition OtherMethods :: "router_builder \<Rightarrow> swagger_operation list \<Rightarrow> string \<Rightarrow> string \<Rightarrow> string list" where
  "OtherMethods denco_Build ops meth path =
     filter (\<lambda>m. m \<noteq> ToUpper meth \<and>
        (case DefaultRouter denco_Build ops m of None \<Rightarrow> False | Some router \<Rightarrow> router (path_Clean path) \<noteq> None))
       (remdups (map fst ops))"

text \<open>The router in front of the handlers: the handler of the route runs, a path of another method is
  refused with the methods it has, any other path is not found.\<close>

definition RoutesHandler ::
  "'b rest_lib \<Rightarrow> router_builder \<Rightarrow> ('w, 'b) KubernikusAPI \<Rightarrow> swagger_operation list \<Rightarrow> 'b ApiRequest \<Rightarrow> ('w, 'b wire) go" where
  "RoutesHandler lib denco_Build api operations req =
     (let ops = with_handler api operations;
          path = EscapedPath (aq_URL req) in
      case Lookup denco_Build api ops (aq_Method req) path of
        Some route \<Rightarrow>
          (case HandlerFor api (aq_Method req) (mr_PathPattern route) of
             Some h \<Rightarrow> h req route
           | None \<Rightarrow> panic ''invalid memory address or nil pointer dereference'')
      | None \<Rightarrow>
          (let others = OtherMethods denco_Build ops (aq_Method req) path in
           respond_error lib req
             (if others \<noteq> [] then MethodNotAllowed (aq_Method req) others
              else ApiErr 404 (''path '' @ path @ '' was not found''))))"

section \<open>Configuration\<close>

text \<open>What \<open>Configure\<close> takes from the rest of the program: the keystone client, the policy file and
  the document with the libraries that read them, and the runtime of the handlers. The
  download links of \<open>GetClusterInfo\<close> are kept beside the world.\<close>

record ('w, 'b, 'key, 'p) rest_deps =
  rd_consumer :: "'b \<Rightarrow> body_read"
  rd_producer :: "payload \<Rightarrow> 'b outcome"
  rd_Keystone :: "string \<Rightarrow> ('w, (int \<times> string) + Principal) go"
  rd_LoadPolicy :: "(string \<times> string) list outcome"
  rd_Spec :: "operations outcome"
  rd_denco :: router_builder
  rd_parseRule :: "string \<Rightarrow> prule option"
  rd_fuel :: nat
  rd_Runtime :: "'w Runtime"
  rd_GitCommit :: string
  rd_VERSION :: string
  rd_crypto :: "('w, 'key) crypto"
  rd_yaml :: "KubeConfig \<Rightarrow> string outcome"
  rd_nameFirst :: bool
  rd_http_Get :: "string \<Rightarrow> ('w, GitHubResponse) go"
  rd_githubURL :: string
  rd_scoped :: "('w, 'p) scoped_services"

definition reply :: "('w, 'a response) go \<Rightarrow> ('w, 'a responder) go" where
  "reply m = bnd m (\<lambda>r. ret (Reply r))"

definition keystone_auth ::
  "('w, 'b, 'key, 'p) rest_deps \<Rightarrow> string \<Rightarrow> ('w \<times> Link list option, api_error + Principal) go" where
  "keystone_auth d token = bnd (svc (rd_Keystone d token)) (\<lambda>r.
     ret (case r of Inl (code, msg) \<Rightarrow> Inl (ApiErr code msg) | Inr p \<Rightarrow> Inr p))"

definition policy_authorizer :: "nat \<Rightarrow> osloPolicyAuthorizer \<Rightarrow> 'b ApiRequest \<Rightarrow> Principal \<Rightarrow> unit outcome" where
  "policy_authorizer fuel auth req usr =
     Authorize fuel auth (aq_Method req) (EscapedPath (aq_URL req)) (url_Path (aq_URL req)) usr"

text \<open>An operation of a handler that needs the principal.\<close>

definition on_principal :: "(BoundParams \<Rightarrow> Principal \<Rightarrow> ('w, 'a response) go) \<Rightarrow> ('w \<times> 'c, 'a) operation" where
  "on_principal f params princ = bnd (nil_deref princ) (\<lambda>p. svc (reply (f params p)))"

definition with_body :: "BoundParams \<Rightarrow> (ModelsKluster \<Rightarrow> ('w, 'a) go) \<Rightarrow> ('w, 'a) go" where
  "with_body params f = bnd (nil_deref (bp_Body params)) f"

definition configured_api ::
  "('w, 'b, 'key, 'p) rest_deps \<Rightarrow> osloPolicyAuthorizer \<Rightarrow> ('w \<times> Link list option, 'b) KubernikusAPI \<Rightarrow>
     ('w \<times> Link list option, 'b) KubernikusAPI" where
  "configured_api d authorizer api = (let rt = rd_Runtime d in api\<lparr>
     api_JSONConsumer := Some (rd_consumer d),
     api_JSONProducer := Some (rd_producer d),
     api_KeystoneAuth := Some (keystone_auth d),
     api_Authorizer := policy_authorizer (rd_fuel d) authorizer,
     api_InfoHandler := Some (\<lambda>_. ret (Reply (info (rd_GitCommit d)))),
     api_ListAPIVersionsHandler := Some (\<lambda>_. ret (Reply listAPIVersions)),
     api_ListClustersHandler := Some (on_principal (\<lambda>_. listClusters rt)),
     api_CreateClusterHandler := Some (on_principal (\<lambda>params p.
       with_body params (\<lambda>body. createCluster (rd_GitCommit d) rt body p))),
     api_ShowClusterHandler := Some (on_principal (\<lambda>params. showCluster rt (bp_Name params))),
     api_TerminateClusterHandler := Some (on_principal (\<lambda>params. terminateCluster rt (bp_Name params))),
     api_UpdateClusterHandler := Some (on_principal (\<lambda>params p.
       with_body params (\<lambda>body. updateCluster rt (bp_Name params) body p))),
     api_GetClusterCredentialsHandler := Some (on_principal (\<lambda>params.
       getClusterCredentials (rd_crypto d) (rd_yaml d) rt (bp_HTTPRequest params) (bp_Name params))),
     api_GetClusterInfoHandler := Some (\<lambda>_ princ. bnd (nil_deref princ) (\<lambda>p.
       reply (getClusterInfo (rd_VERSION d) (rd_GitCommit d) (rd_http_Get d) (rd_githubURL d) p))),
     api_GetOpenstackMetadataHandler := Some (on_principal (\<lambda>params.
       getOpenstackMetadata (rd_scoped d) (bp_HTTPRequest params))),
     api_GetClusterEventsHandler := Some (on_principal (\<lambda>params.
       getClusterEvents (rd_nameFirst d) rt (bp_Name params)))\<rparr>)"

definition Configure ::
  "('w, 'b, 'key, 'p) rest_deps \<Rightarrow> ('w \<times> Link list option, 'b) KubernikusAPI \<Rightarrow>
     ('w \<times> Link list option, 'b) KubernikusAPI outcome" where
  "Configure d api =
     obind (rd_LoadPolicy d) (\<lambda>rules.
     obind (rd_Spec d) (\<lambda>document.
     obind (NewOsloPolicyAuthorizer (rd_denco d) (rd_parseRule d) document rules) (\<lambda>authorizer.
     Ok (configured_api d authorizer api))))"

section \<open>The middleware around the API\<close>

text \<open>What a visitor of the server gets: an answer of the API, the reply of the root handler, the
  page that renders the specification, the specification itself, a file of the documentation, or
  the answer to a preflight request.\<close>

datatype 'b site_reply =
    ApiReply "'b wire" | RootReply root_response | RedocPage | SpecDocument | DocsFile string | PreflightReply

definition redoc :: "string \<Rightarrow> ('b ApiRequest \<Rightarrow> ('w, 'b site_reply) go) \<Rightarrow> 'b ApiRequest \<Rightarrow> ('w, 'b site_reply) go" where
  "redoc path next_handler r = (if url_Path (aq_URL r) = path_Join [''/'', path] then ret RedocPage else next_handler r)"

definition staticHandler :: "('b ApiRequest \<Rightarrow> ('w, 'b site_reply) go) \<Rightarrow> 'b ApiRequest \<Rightarrow> ('w, 'b site_reply) go" where
  "staticHandler next_handler r =
     (if HasPrefix (url_Path (aq_URL r)) ''/docs'' then ret (DocsFile (drop 5 (url_Path (aq_URL r)))) else next_handler r)"

definition corsHandler :: "('b ApiRequest \<Rightarrow> ('w, 'b site_reply) go) \<Rightarrow> 'b ApiRequest \<Rightarrow> ('w, 'b site_reply) go" where
  "corsHandler next_handler r =
     (if aq_Method r = ''OPTIONS'' \<and> Header_Get (HTTPRequest.truncate r) ''Access-Control-Request-Method'' \<noteq> []
      then ret PreflightReply else next_handler r)"

definition root_handler :: "('b ApiRequest \<Rightarrow> ('w, 'b site_reply) go) \<Rightarrow> 'b ApiRequest \<Rightarrow> ('w, 'b site_reply) go" where
  "root_handler next_handler r =
     (case RootHandler (url_Path (aq_URL r)) (Header_Get (HTTPRequest.truncate r) ''Accept'') of
        Next \<Rightarrow> next_handler r
      | rep \<Rightarrow> ret (RootReply rep))"

text \<open>The vendored handler of the specification and of its page in front of the routes.\<close>

definition APIHandler ::
  "('b ApiRequest \<Rightarrow> ('w, 'b wire) go) \<Rightarrow> 'b ApiRequest \<Rightarrow> ('w, 'b site_reply) go" where
  "APIHandler routes r =
     (if url_Path (aq_URL r) = ''/swagger.json'' then ret SpecDocument
      else redoc ''docs'' (\<lambda>r. bnd (routes r) (\<lambda>w. ret (ApiReply w))) r)"

text \<open>The request id and the access log are decorators of any handler.\<close>

type_synonym ('w, 'b) site_decorator = "('b ApiRequest \<Rightarrow> ('w, 'b site_reply) go) \<Rightarrow> 'b ApiRequest \<Rightarrow> ('w, 'b site_reply) go"

definition setupGlobalMiddleware ::
  "('w, 'b) site_decorator \<Rightarrow> ('w, 'b) site_decorator \<Rightarrow> ('w, 'b) site_decorator" where
  "setupGlobalMiddleware requestIDHandler loggingHandler handler =
     requestIDHandler (loggingHandler (root_handler (redoc ''swagger'' (staticHandler (corsHandler handler)))))"

text \<open>\<open>configureAPI\<close>: the API is initialised and served through the middleware that \<open>Configure\<close> set.\<close>

definition configureAPI ::
  "'b rest_lib \<Rightarrow> router_builder \<Rightarrow> swagger_operation list \<Rightarrow> ('w, 'b) site_decorator \<Rightarrow> ('w, 'b) site_decorator \<Rightarrow>
     ('w, 'b) KubernikusAPI \<Rightarrow> 'b ApiRequest \<Rightarrow> ('w, 'b site_reply) go" where
  "configureAPI lib denco_Build ops requestIDHandler loggingHandler api =
     setupGlobalMiddleware requestIDHandler loggingHandler
       (APIHandler (RoutesHandler lib denco_Build (Init lib api) ops))"

end
