(* ===== verification/RestClient.thy ===== *)
theory RestClient
  imports RestServer Ctl
begin

text \<open>
  The generated client of the API (\<open>src/pkg/api/client\<close>): its configuration, what each operation
  writes to a request, the requests it submits and how it reads the answers, over the vendored
  runtime (\<open>github.com/go-openapi/runtime/client\<close>), which builds the URL, sends the request and
  picks the consumer. The connection is an operation over the world; the JSON codec is a
  parameter. Contexts and HTTP clients of a call are handed through and not modelled.
\<close>

section \<open>The configuration\<close>

record TransportConfig =
  tc_Host :: string
  tc_BasePath :: string
  tc_Schemes :: "string list"

definition DefaultTransportConfig :: TransportConfig where
  "DefaultTransportConfig = \<lparr>tc_Host = ''localhost'', tc_BasePath = ''/'', tc_Schemes = [''https'']\<rparr>"

definition WithHost :: "string \<Rightarrow> TransportConfig \<Rightarrow> TransportConfig" where
  "WithHost host cfg = cfg\<lparr>tc_Host := host\<rparr>"

definition WithBasePath :: "string \<Rightarrow> TransportConfig \<Rightarrow> TransportConfig" where
  "WithBasePath basePath cfg = cfg\<lparr>tc_BasePath := basePath\<rparr>"

definition WithSchemes :: "string list \<Rightarrow> TransportConfig \<Rightarrow> TransportConfig" where
  "WithSchemes schemes cfg = cfg\<lparr>tc_Schemes := schemes\<rparr>"

text \<open>The codec of the payloads a client reads and of the body it sends.\<close>

record 'b codec =
  cd_Cluster :: "'b \<Rightarrow> ModelsKluster outcome"
  cd_Clusters :: "'b \<Rightarrow> ModelsKluster list outcome"
  cd_Credentials :: "'b \<Rightarrow> string outcome"
  cd_Events :: "'b \<Rightarrow> KubeEvent list outcome"
  cd_ClusterInfo :: "'b \<Rightarrow> KlusterInfo outcome"
  cd_Metadata :: "'b \<Rightarrow> OpenstackMetadata outcome"
  cd_Info :: "'b \<Rightarrow> string outcome"
  cd_Versions :: "'b \<Rightarrow> string list outcome"
  cd_Error :: "'b \<Rightarrow> string option outcome"
  cd_encode :: "ModelsKluster \<Rightarrow> 'b outcome"

text \<open>A request as it leaves the client.\<close>

record 'b sent =
  sn_Method :: string
  sn_Scheme :: string
  sn_Host :: string
  sn_URL :: URL
  sn_Header :: "string \<Rightarrow> string list"
  sn_Body :: "'b option"

record ('w, 'b) client_runtime =
  cr_Host :: string
  cr_BasePath :: string
  cr_schemes :: "string list"
  cr_codec :: "'b codec"
  cr_ParseMediaType :: "string \<Rightarrow> string outcome"
  cr_do :: "'b sent \<Rightarrow> ('w, 'b wire) go"

text \<open>\<open>httptransport.New\<close>: the base path starts with a slash.\<close>

definition new_runtime ::
  "'b codec \<Rightarrow> (string \<Rightarrow> string outcome) \<Rightarrow> ('b sent \<Rightarrow> ('w, 'b wire) go) \<Rightarrow> string \<Rightarrow> string \<Rightarrow> string list \<Rightarrow>
     ('w, 'b) client_runtime" where
  "new_runtime codec ParseMediaType send host basePath schemes =
     \<lparr>cr_Host = host, cr_BasePath = (if HasPrefix basePath ''/'' then basePath else ''/'' @ basePath),
      cr_schemes = schemes, cr_codec = codec, cr_ParseMediaType = ParseMediaType, cr_do = send\<rparr>"

definition NewHTTPClientWithConfig ::
  "'b codec \<Rightarrow> (string \<Rightarrow> string outcome) \<Rightarrow> ('b sent \<Rightarrow> ('w, 'b wire) go) \<Rightarrow> TransportConfig option \<Rightarrow>
     ('w, 'b) client_runtime" where
  "NewHTTPClientWithConfig codec ParseMediaType send cfg =
     (let c = (case cfg of Some c \<Rightarrow> c | None \<Rightarrow> DefaultTransportConfig)
      in new_runtime codec ParseMediaType send (tc_Host c) (tc_BasePath c) (tc_Schemes c))"

section \<open>Parameters of the requests\<close>

record ClientParams =
  cp_Body :: "ModelsKluster option"
  cp_Name :: string
  cp_timeout :: int

text \<open>The parameters of every operation start with the default timeout of 30 seconds.\<close>

definition NewParams :: ClientParams where
  "NewParams = \<lparr>cp_Body = None, cp_Name = [], cp_timeout = 30000000000\<rparr>"

definition WithName :: "string \<Rightarrow> ClientParams \<Rightarrow> ClientParams" where
  "WithName name prm = prm\<lparr>cp_Name := name\<rparr>"

definition WithBody :: "ModelsKluster \<Rightarrow> ClientParams \<Rightarrow> ClientParams" where
  "WithBody body prm = prm\<lparr>cp_Body := Some body\<rparr>"

text \<open>The request that the runtime builds; its setters do not fail.\<close>

record client_request =
  crq_timeout :: int
  crq_pathParams :: "(string \<times> string) list"
  crq_header :: "string \<Rightarrow> string list"
  crq_payload :: "ModelsKluster option"

definition SetHeaderParam :: "string \<Rightarrow> string list \<Rightarrow> client_request \<Rightarrow> client_request" where
  "SetHeaderParam name vals r = r\<lparr>crq_header := (crq_header r)(CanonicalHeaderKey name := vals)\<rparr>"

definition SetPathParam :: "string \<Rightarrow> string \<Rightarrow> client_request \<Rightarrow> client_request" where
  "SetPathParam name val r = r\<lparr>crq_pathParams := (name, val) # crq_pathParams r\<rparr>"

definition SetBodyParam :: "ModelsKluster option \<Rightarrow> client_request \<Rightarrow> client_request" where
  "SetBodyParam body r = (case body of None \<Rightarrow> r | Some b \<Rightarrow> r\<lparr>crq_payload := Some b\<rparr>)"

definition CreateCluster_WriteToRequest :: "ClientParams \<Rightarrow> client_request \<Rightarrow> client_request" where
  "CreateCluster_WriteToRequest prm r = SetBodyParam (cp_Body prm) (r\<lparr>crq_timeout := cp_timeout prm\<rparr>)"

definition GetClusterCredentials_WriteToRequest :: "ClientParams \<Rightarrow> client_request \<Rightarrow> client_request" where
  "GetClusterCredentials_WriteToRequest prm r = SetPathParam ''name'' (cp_Name prm) (r\<lparr>crq_timeout := cp_timeout prm\<rparr>)"

definition GetClusterEvents_WriteToRequest :: "ClientParams \<Rightarrow> client_request \<Rightarrow> client_request" where
  "GetClusterEvents_WriteToRequest prm r = SetPathParam ''name'' (cp_Name prm) (r\<lparr>crq_timeout := cp_timeout prm\<rparr>)"

definition GetClusterInfo_WriteToRequest :: "ClientParams \<Rightarrow> client_request \<Rightarrow> client_request" where
  "GetClusterInfo_WriteToRequest prm r = SetPathParam ''name'' (cp_Name prm) (r\<lparr>crq_timeout := cp_timeout prm\<rparr>)"

definition GetOpenstackMetadata_WriteToRequest :: "ClientParams \<Rightarrow> client_request \<Rightarrow> client_request" where
  "GetOpenstackMetadata_WriteToRequest prm r = r\<lparr>crq_timeout := cp_timeout prm\<rparr>"

definition Info_WriteToRequest :: "ClientParams \<Rightarrow> client_request \<Rightarrow> client_request" where
  "Info_WriteToRequest prm r = r\<lparr>crq_timeout := cp_timeout prm\<rparr>"

definition ListAPIVersions_WriteToRequest :: "ClientParams \<Rightarrow> client_request \<Rightarrow> client_request" where
  "ListAPIVersions_WriteToRequest prm r = r\<lparr>crq_timeout := cp_timeout prm\<rparr>"

definition ListClusters_WriteToRequest :: "ClientParams \<Rightarrow> client_request \<Rightarrow> client_request" where
  "ListClusters_WriteToRequest prm r = r\<lparr>crq_timeout := cp_timeout prm\<rparr>"

definition ShowCluster_WriteToRequest :: "ClientParams \<Rightarrow> client_request \<Rightarrow> client_request" where
  "ShowCluster_WriteToRequest prm r = SetPathParam ''name'' (cp_Name prm) (r\<lparr>crq_timeout := cp_timeout prm\<rparr>)"

definition TerminateCluster_WriteToRequest :: "ClientParams \<Rightarrow> client_request \<Rightarrow> client_request" where
  "TerminateCluster_WriteToRequest prm r = SetPathParam ''name'' (cp_Name prm) (r\<lparr>crq_timeout := cp_timeout prm\<rparr>)"

definition UpdateCluster_WriteToRequest :: "ClientParams \<Rightarrow> client_request \<Rightarrow> client_request" where
  "UpdateCluster_WriteToRequest prm r = SetPathParam ''name'' (cp_Name prm) (SetBodyParam (cp_Body prm) (r\<lparr>crq_timeout := cp_timeout prm\<rparr>))"

section \<open>Submitting an operation\<close>

record ClientOperation =
  op_ID :: string
  op_Method :: string
  op_PathPattern :: string
  op_Produces :: "string list"
  op_Consumes :: "string list"
  op_Schemes :: "string list"

definition json_operation :: "string \<Rightarrow> string \<Rightarrow> string \<Rightarrow> ClientOperation" where
  "json_operation ident meth pattern =
     \<lparr>op_ID = ident, op_Method = meth, op_PathPattern = pattern, op_Produces = [''application/json''],
      op_Consumes = [''application/json''], op_Schemes = [''https'']\<rparr>"

definition selectScheme :: "string list \<Rightarrow> string" where
  "selectScheme schemes =
     (case schemes of
        [] \<Rightarrow> []
      | s # rest \<Rightarrow> if s \<noteq> ''https'' \<and> rest \<noteq> [] \<and> ''https'' \<in> set schemes then ''https'' else s)"

definition pickScheme :: "string list \<Rightarrow> string list \<Rightarrow> string" where
  "pickScheme own schemes =
     (if selectScheme own \<noteq> [] then selectScheme own
      else if selectScheme schemes \<noteq> [] then selectScheme schemes else ''http'')"

text \<open>The values of the path parameters are not escaped when they replace their places.\<close>

fun replace_params :: "(string \<times> string) list \<Rightarrow> string \<Rightarrow> string" where
  "replace_params [] path = path"
| "replace_params ((k, v) # ps) path = (if k = ''name'' then replace_params ps (replace_name v path) else replace_params ps path)"

definition CanHaveBody :: "string \<Rightarrow> bool" where
  "CanHaveBody meth \<longleftrightarrow> ToUpper meth \<in> {''POST'', ''PUT'', ''PATCH'', ''DELETE''}"

text \<open>\<open>BuildHTTP\<close>: the URL and the headers with the body.\<close>

definition BuildHTTP ::
  "'b codec \<Rightarrow> string \<Rightarrow> string \<Rightarrow> string \<Rightarrow> client_request \<Rightarrow> (URL \<times> (string \<Rightarrow> string list) \<times> 'b option) outcome" where
  "BuildHTTP codec meth pattern mediaType r =
     obind (parse_path (replace_params (crq_pathParams r) pattern)) (\<lambda>url.
       case crq_payload r of
         Some body \<Rightarrow> obind (cd_encode codec body) (\<lambda>bytes.
           Ok (url, (crq_header r)(''Content-Type'' := [mediaType]), Some bytes))
       | None \<Rightarrow>
           if CanHaveBody meth \<and> crq_header r ''Content-Type'' = []
           then Ok (url, (crq_header r)(''Content-Type'' := [mediaType]), None)
           else Ok (url, crq_header r, None))"

definition join_base :: "string \<Rightarrow> URL \<Rightarrow> URL" where
  "join_base basePath u =
     (let p = url_Path u; reinstateSlash = (p \<noteq> [] \<and> p \<noteq> ''/'' \<and> last p = CHR ''/'')
      in u\<lparr>url_Path := path_Join [basePath, p] @ (if reinstateSlash then ''/'' else [])\<rparr>)"

definition first_nonempty :: "string \<Rightarrow> string list \<Rightarrow> string" where
  "first_nonempty def xs = (case filter (\<lambda>x. x \<noteq> []) xs of [] \<Rightarrow> def | x # _ \<Rightarrow> x)"

text \<open>The request that \<open>Submit\<close> sends; \<open>auth\<close> writes the credentials.\<close>

definition prepare ::
  "('w, 'b) client_runtime \<Rightarrow> ClientOperation \<Rightarrow> (client_request \<Rightarrow> client_request) \<Rightarrow> (client_request \<Rightarrow> client_request) \<Rightarrow>
     'b sent outcome" where
  "prepare rt operation WriteToRequest auth =
     (let r0 = \<lparr>crq_timeout = 30000000000, crq_pathParams = [], crq_header = (\<lambda>_. []), crq_payload = None\<rparr>;
          r = WriteToRequest (auth (SetHeaderParam ''Accept'' (op_Produces operation) r0))
      in obind (BuildHTTP (cr_codec rt) (op_Method operation) (op_PathPattern operation)
                  (first_nonempty ''application/json'' (op_Consumes operation)) r) (\<lambda>(url, header, body).
         Ok \<lparr>sn_Method = op_Method operation, sn_Scheme = pickScheme (cr_schemes rt) (op_Schemes operation),
             sn_Host = cr_Host rt, sn_URL = join_base (cr_BasePath rt) url, sn_Header = header, sn_Body = body\<rparr>))"

text \<open>A body that is missing leaves the payload at its zero value; \<open>application/json\<close> is the only
  content type of the API, and the consumers of other types are not read.\<close>

definition consume :: "'a \<Rightarrow> ('b \<Rightarrow> 'a outcome) \<Rightarrow> 'b option \<Rightarrow> 'a outcome" where
  "consume zero dec body = (case body of None \<Rightarrow> Ok zero | Some bytes \<Rightarrow> dec bytes)"

definition no_consumer :: "string \<Rightarrow> goerr" where
  "no_consumer ct = Errorf (''no consumer: '' @ quoted ct)"

definition read_wire :: "('w, 'b) client_runtime \<Rightarrow> 'a \<Rightarrow> ('b \<Rightarrow> 'a outcome) \<Rightarrow> 'b wire \<Rightarrow> 'a http_response outcome" where
  "read_wire rt zero dec res =
     (let ct = (if wr_ContentType res = [] then ''application/json'' else wr_ContentType res) in
      case cr_ParseMediaType rt ct of
        Fail err \<Rightarrow> Fail (Errorf (''parse content type: '' @ Error err))
      | Panics s \<Rightarrow> Panics s
      | Ok mt \<Rightarrow>
          if mt \<noteq> ''application/json'' then Fail (no_consumer ct)
          else Ok \<lparr>hr_Code = wr_Code res, hr_Payload = consume zero dec (wr_Body res),
                   hr_Error = consume None (cd_Error (cr_codec rt)) (wr_Body res)\<rparr>)"

definition Submit ::
  "('w, 'b) client_runtime \<Rightarrow> ClientOperation \<Rightarrow> (client_request \<Rightarrow> client_request) \<Rightarrow> (client_request \<Rightarrow> client_request) \<Rightarrow>
     'a \<Rightarrow> ('b \<Rightarrow> 'a outcome) \<Rightarrow> ('w, 'a http_response) go" where
  "Submit rt operation WriteToRequest auth zero dec =
     bnd (lift_outcome (prepare rt operation WriteToRequest auth)) (\<lambda>req.
     bnd (cr_do rt req) (\<lambda>res.
     lift_outcome (read_wire rt zero dec res)))"

section \<open>The operations\<close>

definition zero_ModelsKluster :: ModelsKluster where
  "zero_ModelsKluster = \<lparr>mk_Name = [], mk_Spec = zero_KlusterSpec, mk_Status = zero_KlusterStatus\<rparr>"

definition zero_KlusterInfo :: KlusterInfo where
  "zero_KlusterInfo = \<lparr>ki_SetupCommand = [], ki_Binaries = []\<rparr>"

definition zero_OpenstackMetadata :: OpenstackMetadata where
  "zero_OpenstackMetadata = \<lparr>om_Flavors = [], om_KeyPairs = [], om_Routers = [], om_SecurityGroups = []\<rparr>"

text \<open>Two operations accept one status only: any other is an error without a payload.\<close>

definition read_single :: "'a http_response \<Rightarrow> 'a api_result" where
  "read_single r =
     (if hr_Code r = 200 then (case hr_Payload r of Ok x \<Rightarrow> ApiOK x | Fail e \<Rightarrow> ApiError e | Panics s \<Rightarrow> ApiPanic s)
      else ApiError (Errorf (''unknown error (status '' @ Itoa (hr_Code r) @ '')'')))"

definition CreateCluster_Submit ::
  "('w, 'b) client_runtime \<Rightarrow> ClientParams \<Rightarrow> (client_request \<Rightarrow> client_request) \<Rightarrow> ('w, ModelsKluster http_response) go" where
  "CreateCluster_Submit rt params authInfo =
     Submit rt (json_operation ''CreateCluster'' ''POST'' ''/api/v1/clusters'') (CreateCluster_WriteToRequest params) authInfo
       zero_ModelsKluster (cd_Cluster (cr_codec rt))"

definition GetClusterCredentials_Submit ::
  "('w, 'b) client_runtime \<Rightarrow> ClientParams \<Rightarrow> (client_request \<Rightarrow> client_request) \<Rightarrow> ('w, string http_response) go" where
  "GetClusterCredentials_Submit rt params authInfo =
     Submit rt (json_operation ''GetClusterCredentials'' ''GET'' ''/api/v1/clusters/{name}/credentials'') (GetClusterCredentials_WriteToRequest params) authInfo
       [] (cd_Credentials (cr_codec rt))"

definition GetClusterEvents_Submit ::
  "('w, 'b) client_runtime \<Rightarrow> ClientParams \<Rightarrow> (client_request \<Rightarrow> client_request) \<Rightarrow> ('w, KubeEvent list http_response) go" where
  "GetClusterEvents_Submit rt params authInfo =
     Submit rt (json_operation ''GetClusterEvents'' ''GET'' ''/api/v1/clusters/{name}/events'') (GetClusterEvents_WriteToRequest params) authInfo
       [] (cd_Events (cr_codec rt))"

definition GetClusterInfo_Submit ::
  "('w, 'b) client_runtime \<Rightarrow> ClientParams \<Rightarrow> (client_request \<Rightarrow> client_request) \<Rightarrow> ('w, KlusterInfo http_response) go" where
  "GetClusterInfo_Submit rt params authInfo =
     Submit rt (json_operation ''GetClusterInfo'' ''GET'' ''/api/v1/clusters/{name}/info'') (GetClusterInfo_WriteToRequest params) authInfo
       zero_KlusterInfo (cd_ClusterInfo (cr_codec rt))"

definition GetOpenstackMetadata_Submit ::
  "('w, 'b) client_runtime \<Rightarrow> ClientParams \<Rightarrow> (client_request \<Rightarrow> client_request) \<Rightarrow> ('w, OpenstackMetadata http_response) go" where
  "GetOpenstackMetadata_Submit rt params authInfo =
     Submit rt (json_operation ''GetOpenstackMetadata'' ''GET'' ''/api/v1/openstack/metadata'') (GetOpenstackMetadata_WriteToRequest params) authInfo
       zero_OpenstackMetadata (cd_Metadata (cr_codec rt))"

definition Info_Submit ::
  "('w, 'b) client_runtime \<Rightarrow> ClientParams \<Rightarrow> (client_request \<Rightarrow> client_request) \<Rightarrow> ('w, string http_response) go" where
  "Info_Submit rt params authInfo =
     Submit rt (json_operation ''Info'' ''GET'' ''/info'') (Info_WriteToRequest params) authInfo
       [] (cd_Info (cr_codec rt))"

definition ListAPIVersions_Submit ::
  "('w, 'b) client_runtime \<Rightarrow> ClientParams \<Rightarrow> (client_request \<Rightarrow> client_request) \<Rightarrow> ('w, string list http_response) go" where
  "ListAPIVersions_Submit rt params authInfo =
     Submit rt (json_operation ''ListAPIVersions'' ''GET'' ''/api'') (ListAPIVersions_WriteToRequest params) authInfo
       [] (cd_Versions (cr_codec rt))"

definition ListClusters_Submit ::
  "('w, 'b) client_runtime \<Rightarrow> ClientParams \<Rightarrow> (client_request \<Rightarrow> client_request) \<Rightarrow> ('w, ModelsKluster list http_response) go" where
  "ListClusters_Submit rt params authInfo =
     Submit rt (json_operation ''ListClusters'' ''GET'' ''/api/v1/clusters'') (ListClusters_WriteToRequest params) authInfo
       [] (cd_Clusters (cr_codec rt))"

definition ShowCluster_Submit ::
  "('w, 'b) client_runtime \<Rightarrow> ClientParams \<Rightarrow> (client_request \<Rightarrow> client_request) \<Rightarrow> ('w, ModelsKluster http_response) go" where
  "ShowCluster_Submit rt params authInfo =
     Submit rt (json_operation ''ShowCluster'' ''GET'' ''/api/v1/clusters/{name}'') (ShowCluster_WriteToRequest params) authInfo
       zero_ModelsKluster (cd_Cluster (cr_codec rt))"

definition TerminateCluster_Submit ::
  "('w, 'b) client_runtime \<Rightarrow> ClientParams \<Rightarrow> (client_request \<Rightarrow> client_request) \<Rightarrow> ('w, unit http_response) go" where
  "TerminateCluster_Submit rt params authInfo =
     Submit rt (json_operation ''TerminateCluster'' ''DELETE'' ''/api/v1/clusters/{name}'') (TerminateCluster_WriteToRequest params) authInfo
       () (\<lambda>_. Ok ())"

definition UpdateCluster_Submit ::
  "('w, 'b) client_runtime \<Rightarrow> ClientParams \<Rightarrow> (client_request \<Rightarrow> client_request) \<Rightarrow> ('w, ModelsKluster http_response) go" where
  "UpdateCluster_Submit rt params authInfo =
     Submit rt (json_operation ''UpdateCluster'' ''PUT'' ''/api/v1/clusters/{name}'') (UpdateCluster_WriteToRequest params) authInfo
       zero_ModelsKluster (cd_Cluster (cr_codec rt))"

definition read_GetClusterEvents :: "KubeEvent list http_response \<Rightarrow> KubeEvent list api_result" where
  "read_GetClusterEvents = read_response 200"

definition read_GetClusterInfo :: "KlusterInfo http_response \<Rightarrow> KlusterInfo api_result" where
  "read_GetClusterInfo = read_response 200"

definition read_GetOpenstackMetadata :: "OpenstackMetadata http_response \<Rightarrow> OpenstackMetadata api_result" where
  "read_GetOpenstackMetadata = read_response 200"

definition read_UpdateCluster :: "ModelsKluster http_response \<Rightarrow> ModelsKluster api_result" where
  "read_UpdateCluster = read_response 200"

definition read_Info :: "string http_response \<Rightarrow> string api_result" where
  "read_Info = read_single"

definition read_ListAPIVersions :: "string list http_response \<Rightarrow> string list api_result" where
  "read_ListAPIVersions = read_single"

section \<open>The transport of the command line tool\<close>

definition authFunc :: "string \<Rightarrow> client_request \<Rightarrow> client_request" where
  "authFunc token r = SetHeaderParam ''X-AUTH-TOKEN'' [token] r"

definition rest_transport :: "('w, 'b) client_runtime \<Rightarrow> 'w Transport" where
  "rest_transport rt = \<lparr>
     tr_GetClusterCredentials = (\<lambda>token name. GetClusterCredentials_Submit rt (WithName name NewParams) (authFunc token)),
     tr_CreateCluster = (\<lambda>token cluster. CreateCluster_Submit rt (WithBody cluster NewParams) (authFunc token)),
     tr_TerminateCluster = (\<lambda>token name. TerminateCluster_Submit rt (WithName name NewParams) (authFunc token)),
     tr_ShowCluster = (\<lambda>token name. ShowCluster_Submit rt (WithName name NewParams) (authFunc token)),
     tr_ListClusters = (\<lambda>token. ListClusters_Submit rt NewParams (authFunc token))\<rparr>"

text \<open>\<open>NewKubernikusClient\<close> for a URL given by its scheme, its host and its escaped path.\<close>

definition rest_client ::
  "'b codec \<Rightarrow> (string \<Rightarrow> string outcome) \<Rightarrow> ('b sent \<Rightarrow> ('w, 'b wire) go) \<Rightarrow> string \<Rightarrow> string \<Rightarrow> string \<Rightarrow> string \<Rightarrow>
     'w KubernikusClient" where
  "rest_client codec ParseMediaType send scheme host escapedPath token =
     \<lparr>kcl_token = token, kcl_transport = rest_transport (NewHTTPClientWithConfig codec ParseMediaType send
        (Some (WithBasePath escapedPath (WithHost host (WithSchemes [scheme] DefaultTransportConfig)))))\<rparr>"

end
