(* ===== verification/RestRoundtrip.thy ===== *)
theory RestRoundtrip
  imports RestClient HandlersLaws
begin

text \<open>
  The command line tool against the API server: a request that the generated client sends, the
  generated server routes, authorizes, binds, handles and answers, and that the client reads
  again. The laws of the libraries are stated for the operations of this API only.
\<close>

section \<open>The router of the API\<close>

text \<open>The records of denco match a path element by element; a parameter takes a whole element.\<close>

fun match_elems :: "string list \<Rightarrow> string list \<Rightarrow> (string \<times> string) list option" where
  "match_elems [] [] = Some []"
| "match_elems (p # ps) (e # es) =
     (if p \<noteq> [] \<and> hd p = CHR '':'' then (if e = [] then None else map_option ((#) (tl p, e)) (match_elems ps es))
      else if p = e then match_elems ps es else None)"
| "match_elems _ _ = None"

definition matches :: "(string \<times> string) list \<Rightarrow> string \<Rightarrow> (string \<times> (string \<times> string) list) list" where
  "matches routes path =
     [(snd r, the ps). r \<leftarrow> routes, ps \<leftarrow> [match_elems (Split CHR ''/'' (fst r)) (Split CHR ''/'' path)], ps \<noteq> None]"

text \<open>What denco promises: the routers of this API are built, and a path that one record alone matches
  is found with the elements that its parameters take.\<close>

definition denco_serves :: "router_builder \<Rightarrow> bool" where
  "denco_serves denco_Build \<longleftrightarrow>
     (\<forall>meth. \<exists>r. denco_Build (routes_for (operation_routes swagger_operations) meth) = Ok r \<and>
        (\<forall>path found. matches (routes_for (operation_routes swagger_operations) meth) path = [found] \<longrightarrow>
           r path = Some found))"

definition first_match :: router_builder where
  "first_match routes = Ok (\<lambda>path. case matches routes path of [] \<Rightarrow> None | f # _ \<Rightarrow> Some f)"

lemma first_match_serves: "denco_serves first_match"
  by (simp add: denco_serves_def first_match_def)

text \<open>The operations on one cluster: method, id and the element behind the name.\<close>

definition named_operations :: "(string \<times> string \<times> string list) list" where
  "named_operations =
     [(''GET'', ''ShowCluster'', []), (''DELETE'', ''TerminateCluster'', []), (''PUT'', ''UpdateCluster'', []),
      (''GET'', ''GetClusterCredentials'', [''credentials'']), (''GET'', ''GetClusterInfo'', [''info'']),
      (''GET'', ''GetClusterEvents'', [''events''])]"

definition named_pattern :: "string list \<Rightarrow> string" where
  "named_pattern suff = ''/api/v1/clusters/{name}'' @ slashed suff"

definition named_elems :: "string \<Rightarrow> string list \<Rightarrow> string list" where
  "named_elems name suff = [''api'', ''v1'', ''clusters'', name] @ suff"

lemma routes_of_methods:
  "routes_for (operation_routes swagger_operations) ''GET'' =
     [(''/info'', ''Info''), (''/api'', ''ListAPIVersions''), (''/api/v1/openstack/metadata'', ''GetOpenstackMetadata''),
      (''/api/v1/clusters'', ''ListClusters''), (''/api/v1/clusters/:name'', ''ShowCluster''),
      (''/api/v1/clusters/:name/credentials'', ''GetClusterCredentials''),
      (''/api/v1/clusters/:name/info'', ''GetClusterInfo''), (''/api/v1/clusters/:name/events'', ''GetClusterEvents'')]"
  "routes_for (operation_routes swagger_operations) ''POST'' = [(''/api/v1/clusters'', ''CreateCluster'')]"
  "routes_for (operation_routes swagger_operations) ''DELETE'' = [(''/api/v1/clusters/:name'', ''TerminateCluster'')]"
  "routes_for (operation_routes swagger_operations) ''PUT'' = [(''/api/v1/clusters/:name'', ''UpdateCluster'')]"
  by code_simp+

lemma split_patterns:
  "Split CHR ''/'' ''/info'' = [[], ''info'']" "Split CHR ''/'' ''/api'' = [[], ''api'']"
  "Split CHR ''/'' ''/api/v1/openstack/metadata'' = [[], ''api'', ''v1'', ''openstack'', ''metadata'']"
  "Split CHR ''/'' ''/api/v1/clusters'' = [[], ''api'', ''v1'', ''clusters'']"
  "Split CHR ''/'' ''/api/v1/clusters/:name'' = [[], ''api'', ''v1'', ''clusters'', '':name'']"
  "Split CHR ''/'' ''/api/v1/clusters/:name/credentials'' = [[], ''api'', ''v1'', ''clusters'', '':name'', ''credentials'']"
  "Split CHR ''/'' ''/api/v1/clusters/:name/info'' = [[], ''api'', ''v1'', ''clusters'', '':name'', ''info'']"
  "Split CHR ''/'' ''/api/v1/clusters/:name/events'' = [[], ''api'', ''v1'', ''clusters'', '':name'', ''events'']"
  by code_simp+

lemma named_cases:
  assumes "(meth, op, suff) \<in> set named_operations"
  obtains "meth = ''GET''" "op = ''ShowCluster''" "suff = []" | "meth = ''DELETE''" "op = ''TerminateCluster''" "suff = []"
    | "meth = ''PUT''" "op = ''UpdateCluster''" "suff = []"
    | "meth = ''GET''" "op = ''GetClusterCredentials''" "suff = [''credentials'']"
    | "meth = ''GET''" "op = ''GetClusterInfo''" "suff = [''info'']"
    | "meth = ''GET''" "op = ''GetClusterEvents''" "suff = [''events'']"
  using assms unfolding named_operations_def list.set insert_iff empty_iff prod.inject
  by - (elim disjE conjE FalseE; (rule that, assumption, assumption, assumption))

lemma named_elems_clean:
  assumes "(meth, op, suff) \<in> set named_operations" "clean_segment name"
  shows "list_all clean_segment (named_elems name suff)" "named_elems name suff \<noteq> []"
  using assms by (auto simp: named_elems_def clean_segment_def elim!: named_cases)

lemma named_matches:
  assumes "(meth, op, suff) \<in> set named_operations" "clean_segment name"
  shows "matches (routes_for (operation_routes swagger_operations) meth) (slashed (named_elems name suff)) = [(op, [(''name'', name)])]"
proof -
  have split: "Split CHR ''/'' (slashed (named_elems name suff)) = [] # named_elems name suff"
    using Split_slashed named_elems_clean assms by auto
  have "name \<noteq> []" using assms(2) by (simp add: clean_segment_def)
  with assms(1) show ?thesis unfolding matches_def split
    by (elim named_cases) (simp_all add: routes_of_methods split_patterns named_elems_def)
qed

lemma list_matches:
  assumes "(meth, op) \<in> {(''GET'', ''ListClusters''), (''POST'', ''CreateCluster'')}"
  shows "matches (routes_for (operation_routes swagger_operations) meth) (slashed [''api'', ''v1'', ''clusters'']) = [(op, [])]"
proof -
  have split: "Split CHR ''/'' (slashed [''api'', ''v1'', ''clusters'']) = [[], ''api'', ''v1'', ''clusters'']" by code_simp
  show ?thesis using assms unfolding matches_def split insert_iff empty_iff prod.inject
    by (elim disjE conjE) (simp_all add: routes_of_methods split_patterns)
qed

section \<open>A deployment\<close>

text \<open>The program is deployed with the document and the policy of the repository, and its libraries
  keep the promises it relies on: the keystone client, the router, the parser of rules, the parser
  of media types, and a negotiation that gives a client that accepts JSON only JSON.\<close>

definition deployed :: "('w, 'b, 'key, 'p) rest_deps \<Rightarrow> 'b rest_lib \<Rightarrow> bool" where
  "deployed d lib \<longleftrightarrow>
     rd_Spec d = Ok (operation_routes swagger_operations) \<and> rd_LoadPolicy d = Ok policy_json \<and>
     policy_parses (rd_parseRule d) \<and> 2 \<le> rd_fuel d \<and> denco_serves (rd_denco d) \<and>
     lib_ParseMediaType lib ''application/json'' = Ok ''application/json'' \<and>
     (\<exists>validate authURL. rd_Keystone d = Keystone validate authURL) \<and>
     (\<forall>req offers other. req_Header req ''Accept'' = [''application/json''] \<and> ''application/json'' \<in> set offers \<longrightarrow>
        lib_Negotiate lib req offers other = ''application/json'')"

text \<open>The site of a configured API, without the two decorators that log. A request comes as the path
  the client wrote, and every reply that is not one of the API is a page.\<close>

definition site ::
  "('w, 'b, 'key, 'p) rest_deps \<Rightarrow> 'b rest_lib \<Rightarrow> 'b ApiRequest \<Rightarrow> ('w \<times> Link list option, 'b site_reply) go" where
  "site d lib req =
     (case Configure d (NewKubernikusAPI (rd_consumer d) (rd_producer d)) of
        Ok api \<Rightarrow> configureAPI lib (rd_denco d) swagger_operations (\<lambda>h. h) (\<lambda>h. h) api req
      | Fail e \<Rightarrow> fail e
      | Panics s \<Rightarrow> panic s)"

definition bad_request :: "'b wire" where
  "bad_request = \<lparr>wr_Code = 400, wr_ContentType = ''text/plain'', wr_Allow = [], wr_Body = None\<rparr>"

definition received :: "'b sent \<Rightarrow> URL \<Rightarrow> 'b ApiRequest" where
  "received s u =
     \<lparr>req_Header = sn_Header s, req_Host = sn_Host s, req_TLS = (sn_Scheme s = ''https''),
      aq_Method = sn_Method s, aq_URL = u, aq_Body = sn_Body s\<rparr>"

definition http_connect ::
  "('b site_reply \<Rightarrow> 'b wire) \<Rightarrow> ('b ApiRequest \<Rightarrow> ('w, 'b site_reply) go) \<Rightarrow> 'b sent \<Rightarrow> ('w, 'b wire) go" where
  "http_connect page serve s =
     (case setPath (EscapedPath (sn_URL s)) of
        Ok u \<Rightarrow> bnd (serve (received s u)) (\<lambda>rep. ret (case rep of ApiReply w \<Rightarrow> w | _ \<Rightarrow> page rep))
      | _ \<Rightarrow> ret bad_request)"

section \<open>Configuration\<close>

lemma build_routers_found:
  assumes "build_routers B ops ms routers = Ok m" "meth \<in> set ms"
  shows "\<exists>r. B (routes_for ops meth) = Ok r \<and> m meth = Some r"
proof -
  have keep: "build_routers B ops ms routers = Ok m \<Longrightarrow> meth \<notin> set ms \<Longrightarrow> m meth = routers meth" for ms routers
    by (induction ms arbitrary: routers) (auto elim!: obind_OkE)
  show ?thesis using assms
  proof (induction ms arbitrary: routers)
    case (Cons k ms)
    then obtain r where r: "B (routes_for ops k) = Ok r" "build_routers B ops ms (routers(k \<mapsto> r)) = Ok m"
      by (auto elim!: obind_OkE)
    show ?case
    proof (cases "meth \<in> set ms")
      case True
      then show ?thesis using Cons.IH [OF r(2)] by simp
    next
      case False
      then show ?thesis using keep [OF r(2)] r(1) Cons.prems(2) by auto
    qed
  qed simp
qed

lemma build_routers_ok:
  "(\<And>meth. \<exists>r. B (routes_for ops meth) = Ok r) \<Longrightarrow> \<exists>m. build_routers B ops ms routers = Ok m"
proof (induction ms arbitrary: routers)
  case (Cons k ms)
  then obtain r where "B (routes_for ops k) = Ok r" by blast
  with Cons show ?case by simp
qed simp

lemma methods_of_operations: "{''GET'', ''POST'', ''DELETE'', ''PUT''} = set (remdups (map fst (operation_routes swagger_operations)))"
  by code_simp

lemma configured:
  assumes "deployed d lib"
  obtains auth where
    "Configure d api = Ok (configured_api d auth api)"
    "NewOsloPolicyAuthorizer (rd_denco d) (rd_parseRule d) (operation_routes swagger_operations) policy_json = Ok auth"
    "\<And>meth. meth \<in> {''GET'', ''POST'', ''DELETE'', ''PUT''} \<Longrightarrow>
       \<exists>r. rd_denco d (routes_for (operation_routes swagger_operations) meth) = Ok r \<and> pa_routers auth meth = Some r"
proof -
  let ?ops = "operation_routes swagger_operations"
  have builds: "\<exists>r. rd_denco d (routes_for ?ops meth) = Ok r" for meth
    using assms by (auto simp: deployed_def denco_serves_def)
  obtain routers where routers: "build_routers (rd_denco d) ?ops (remdups (map fst ?ops)) Map.empty = Ok routers"
    using build_routers_ok [where B = "rd_denco d", OF builds] by blast
  obtain enforcer where enforcer: "NewEnforcer (rd_parseRule d) policy_json = Ok enforcer"
    using policy_enforcer assms unfolding deployed_def by metis
  let ?auth = "\<lparr>pa_rules = enforcer, pa_routers = routers\<rparr>"
  have auth: "NewOsloPolicyAuthorizer (rd_denco d) (rd_parseRule d) ?ops policy_json = Ok ?auth"
    by (simp add: NewOsloPolicyAuthorizer_def routers enforcer)
  moreover have "Configure d api = Ok (configured_api d ?auth api)"
    using assms auth by (simp add: Configure_def deployed_def)
  moreover have "\<exists>r. rd_denco d (routes_for ?ops meth) = Ok r \<and> pa_routers ?auth meth = Some r"
    if "meth \<in> {''GET'', ''POST'', ''DELETE'', ''PUT''}" for meth
    using build_routers_found [OF routers] that unfolding methods_of_operations by simp
  ultimately show ?thesis using that by blast
qed

section \<open>From the request to the handler of its operation\<close>

lemma upper_methods: "ToUpper ''GET'' = ''GET''" "ToUpper ''POST'' = ''POST''" "ToUpper ''PUT'' = ''PUT''" "ToUpper ''DELETE'' = ''DELETE''"
  by code_simp+

lemma initial_handlers:
  assumes "api_handlers api = Map.empty"
  shows "HandlerFor (Init lib api) ''GET'' ''/api/v1/clusters/{name}'' = Some (ShowCluster_ServeHTTP lib api)"
    "HandlerFor (Init lib api) ''DELETE'' ''/api/v1/clusters/{name}'' = Some (TerminateCluster_ServeHTTP lib api)"
    "HandlerFor (Init lib api) ''PUT'' ''/api/v1/clusters/{name}'' = Some (UpdateCluster_ServeHTTP lib api)"
    "HandlerFor (Init lib api) ''GET'' ''/api/v1/clusters/{name}/credentials'' = Some (GetClusterCredentials_ServeHTTP lib api)"
    "HandlerFor (Init lib api) ''GET'' ''/api/v1/clusters/{name}/info'' = Some (GetClusterInfo_ServeHTTP lib api)"
    "HandlerFor (Init lib api) ''GET'' ''/api/v1/clusters/{name}/events'' = Some (GetClusterEvents_ServeHTTP lib api)"
    "HandlerFor (Init lib api) ''GET'' ''/api/v1/clusters'' = Some (ListClusters_ServeHTTP lib api)"
    "HandlerFor (Init lib api) ''POST'' ''/api/v1/clusters'' = Some (CreateCluster_ServeHTTP lib api)"
    "HandlerFor (Init lib api) ''GET'' ''/api/v1/openstack/metadata'' = Some (GetOpenstackMetadata_ServeHTTP lib api)"
    "HandlerFor (Init lib api) ''GET'' ''/info'' = Some (Info_ServeHTTP lib api)"
    "HandlerFor (Init lib api) ''GET'' ''/api'' = Some (ListAPIVersions_ServeHTTP lib api)"
  using assms by (simp_all add: Init_def initHandlerCache_def HandlerFor_def upper_methods add_handler_def)

lemma all_have_handlers:
  assumes "api_handlers api = Map.empty"
  shows "with_handler (Init lib api) swagger_operations = swagger_operations"
  by (simp add: with_handler_def swagger_operations_def initial_handlers [OF assms])

lemma Init_keeps:
  "api_defaultProduces (Init lib api) = api_defaultProduces api" "api_JSONConsumer (Init lib api) = api_JSONConsumer api"
  "api_JSONProducer (Init lib api) = api_JSONProducer api" "api_KeystoneAuth (Init lib api) = api_KeystoneAuth api"
  "api_Authorizer (Init lib api) = api_Authorizer api"
  by (simp_all add: Init_def initHandlerCache_def)

lemma Init_codecs:
  "ConsumersFor (Init lib api) = ConsumersFor api" "ProducersFor (Init lib api) = ProducersFor api"
  "AuthenticatorsFor (Init lib api) = AuthenticatorsFor api"
  unfolding ConsumersFor_def ProducersFor_def AuthenticatorsFor_def Init_keeps by simp_all

lemma Init_entry: "route_entry (Init lib api) op params = route_entry api op params"
  by (simp add: route_entry_def Init_codecs Init_keeps split: prod.split)

text \<open>The routed path: a request whose path one route matches runs the handler of that route.\<close>

lemma RoutesHandler_found:
  assumes "deployed d lib" "api_handlers api = Map.empty" "meth \<in> {''GET'', ''POST'', ''DELETE'', ''PUT''}"
    "aq_Method req = meth" "path_Clean (EscapedPath (aq_URL req)) = path"
    "matches (routes_for (operation_routes swagger_operations) meth) path = [(op, ps)]"
    "List.find (\<lambda>(m, _, o', _). m = meth \<and> o' = op) swagger_operations = Some (meth, pattern, op, sec)"
    "HandlerFor (Init lib api) meth pattern = Some h"
  shows "RoutesHandler lib (rd_denco d) (Init lib api) swagger_operations req =
    h req (route_entry api (meth, pattern, op, sec) (map unescape_param ps))"
proof -
  have up: "ToUpper meth = meth" using assms(3) upper_methods by auto
  obtain r where r: "rd_denco d (routes_for (operation_routes swagger_operations) meth) = Ok r" "r path = Some (op, ps)"
    using assms(1,6) unfolding deployed_def denco_serves_def by blast
  have "routes_for (operation_routes swagger_operations) meth \<noteq> []"
    using assms(6) by (auto simp: matches_def)
  then have "DefaultRouter (rd_denco d) swagger_operations meth = Some r"
    using r(1) by (simp add: DefaultRouter_def)
  then have "Lookup (rd_denco d) (Init lib api) swagger_operations (aq_Method req) (EscapedPath (aq_URL req)) =
      Some (route_entry api (meth, pattern, op, sec) (map unescape_param ps))"
    using r(2) assms(4,5,7) up by (simp add: Lookup_def Init_entry)
  moreover have "mr_PathPattern (route_entry api (meth, pattern, op, sec) (map unescape_param ps)) = pattern"
    by (simp add: route_entry_def)
  ultimately show ?thesis
    using assms(4,8) by (simp add: RoutesHandler_def all_have_handlers [OF assms(2)] Let_def)
qed

text \<open>No page of the site is at a path of the API.\<close>

lemma site_api:
  assumes "Configure d (NewKubernikusAPI (rd_consumer d) (rd_producer d)) = Ok api"
    "url_Path (aq_URL req) = slashed (''api'' # ''v1'' # rest)" "aq_Method req \<noteq> ''OPTIONS''"
  shows "site d lib req = bnd (RoutesHandler lib (rd_denco d) (Init lib api) swagger_operations req) (\<lambda>w. ret (ApiReply w))"
proof -
  have p: "path_Join [''/'', ''swagger''] = ''/swagger''" "path_Join [''/'', ''docs''] = ''/docs''" by code_simp+
  have "url_Path (aq_URL req) = ''/api/v1'' @ slashed rest" using assms(2) by simp
  then show ?thesis using assms(1,3)
    by (simp add: site_def configureAPI_def setupGlobalMiddleware_def root_handler_def RootHandler_def redoc_def p
      staticHandler_def corsHandler_def APIHandler_def)
qed

section \<open>What a call answers\<close>

text \<open>The answer of an operation that needs a principal, without the network: keystone looks at the
  token, the policy at the roles, and then the handler runs.\<close>

definition denied :: "Principal \<Rightarrow> string \<Rightarrow> string" where
  "denied p op = ''Authorization failed for user '' @ pr_Name p @ '' for operation '' @ op"

definition authorized_call ::
  "('w, 'b, 'key, 'p) rest_deps \<Rightarrow> string \<Rightarrow> string \<Rightarrow> (Principal \<Rightarrow> ('w, 'a response) go) \<Rightarrow> ('w, 'a response) go" where
  "authorized_call d op token handle =
     bnd (rd_Keystone d token) (\<lambda>r. case r of
        Inl (code, msg) \<Rightarrow> ret (error_response code msg)
      | Inr p \<Rightarrow> if allowed_by_policy op (pr_Roles p) then handle p else ret (error_response 403 (denied p op)))"

text \<open>The payloads \<open>J\<close> that the JSON codec represents faithfully: the client reads what the server wrote.\<close>

fun decodes :: "'b codec \<Rightarrow> payload \<Rightarrow> 'b \<Rightarrow> bool" where
  "decodes c (PCluster k) b \<longleftrightarrow> cd_Cluster c b = Ok k"
| "decodes c (PClusters ks) b \<longleftrightarrow> cd_Clusters c b = Ok ks"
| "decodes c (PCredentials s) b \<longleftrightarrow> cd_Credentials c b = Ok s"
| "decodes c (PEvents es) b \<longleftrightarrow> cd_Events c b = Ok es"
| "decodes c (PClusterInfo i) b \<longleftrightarrow> cd_ClusterInfo c b = Ok i"
| "decodes c (PMetadata m) b \<longleftrightarrow> cd_Metadata c b = Ok m"
| "decodes c (PInfo s) b \<longleftrightarrow> cd_Info c b = Ok s"
| "decodes c (PVersions vs) b \<longleftrightarrow> cd_Versions c b = Ok vs"
| "decodes c (PError code msg) b \<longleftrightarrow> cd_Error c b = Ok (Some msg)"
| "decodes c (PText s) b \<longleftrightarrow> True"

definition json_codec ::
  "('w, 'b, 'key, 'p) rest_deps \<Rightarrow> 'b rest_lib \<Rightarrow> 'b codec \<Rightarrow> payload set \<Rightarrow> bool" where
  "json_codec d lib c J \<longleftrightarrow>
     (\<forall>p\<in>J. \<exists>b. rd_producer d p = Ok b \<and> decodes c p b) \<and>
     (\<forall>code msg. PError code msg \<in> J \<longrightarrow> decodes c (PError code msg) (lib_errorAsJSON lib code msg))"

text \<open>An answer on the wire shows a response as its operation renders it.\<close>

definition wire_shows :: "'b codec \<Rightarrow> rendered \<Rightarrow> 'b wire \<Rightarrow> bool" where
  "wire_shows c r wire \<longleftrightarrow>
     wr_Code wire = rd_Code r \<and> wr_ContentType wire = (if rd_KeepType r then ''application/json'' else []) \<and>
     (case rd_Payload r of None \<Rightarrow> wr_Body wire = None | Some p \<Rightarrow> \<exists>b. wr_Body wire = Some b \<and> decodes c p b)"

definition json_request :: "string \<Rightarrow> 'b ApiRequest \<Rightarrow> bool" where
  "json_request token req \<longleftrightarrow>
     req_Header req ''Accept'' = [''application/json''] \<and> req_Header req ''X-Auth-Token'' = [token] \<and> token \<noteq> [] \<and>
     aq_Method req \<noteq> ''HEAD'' \<and> aq_Method req \<noteq> ''OPTIONS''"

lemma token_header: "CanonicalHeaderKey ''x-auth-token'' = ''X-Auth-Token''" "CanonicalHeaderKey ''X-AUTH-TOKEN'' = ''X-Auth-Token''"
    "CanonicalHeaderKey ''Accept'' = ''Accept''" "map normalizeOffer json_types = json_types"
  by code_simp+

lemma request_truncate [simp]: "req_Header (HTTPRequest.truncate r) = req_Header r"
  by (simp add: HTTPRequest.defs)

lemma authorize_entry:
  assumes "api_KeystoneAuth api = Some (keystone_auth d)" "json_request token req"
    "\<And>usr. api_Authorizer api req usr = (if allowed_by_policy op (pr_Roles usr) then Ok () else Fail (Errorf (denied usr op)))"
  shows "AuthorizeRequest (route_entry api (meth, pattern, op, True) ps) req =
    bnd (svc (rd_Keystone d token)) (\<lambda>r. ret (case r of
        Inl (code, msg) \<Rightarrow> Inl (ApiErr code msg)
      | Inr p \<Rightarrow> if allowed_by_policy op (pr_Roles p) then Inr (Some p) else Inl (ApiErr 403 (denied p op))))"
  using assms(1,2)
  by (auto simp: AuthorizeRequest_def route_entry_def AuthenticatorsFor_def APIKeyAuth_def token_header json_request_def
    Header_Get_def Let_def keystone_auth_def assms(3) fun_eq_iff bnd_def split: outcome.splits prod.splits sum.splits)

lemma api_response:
  assumes "deployed d lib" "json_codec d lib c J" "json_request token req" "rd_Payload r \<in> insert None (Some ` J)"
    "api_defaultProduces api = ''application/json''" "api_JSONProducer api = Some (rd_producer d)"
  shows "\<exists>wire. respond_with lib api req (route_entry api op ps) r s = (Ok wire, s) \<and> wire_shows c r wire"
proof -
  have neg: "response_format lib ''application/json'' req json_types = ''application/json''"
    using assms(1,3) by (simp add: response_format_def deployed_def json_request_def json_types_def)
  have "respond_with lib api req (route_entry api op ps) r s = (write_rendered ''application/json'' (rd_producer d) r, s)"
  proof -
    have "mr_Producers (route_entry api op ps) = ProducersFor api json_types" "mr_Produces (route_entry api op ps) = json_types"
      by (cases op, simp add: route_entry_def token_header)+
    moreover have "ProducersFor api json_types ''application/json'' = Some (rd_producer d)"
      using assms(6) by (simp add: ProducersFor_def json_types_def)
    ultimately show ?thesis using assms(5) neg by (simp add: respond_with_def RespondWith_def Let_def)
  qed
  with assms(2,4) show ?thesis
    by (fastforce simp: write_rendered_def wire_shows_def json_codec_def split: option.splits)
qed

lemma error_answer:
  assumes "json_codec d lib c J" "json_request token req" "PError code msg \<in> J" "code < 600"
  shows "\<exists>wire. respond_error lib req (ApiErr code msg) s = (Ok wire, s) \<and>
    wire_shows c \<lparr>rd_Code = code, rd_Payload = Some (PError code msg), rd_KeepType = True\<rparr> wire"
  using assms by (simp add: respond_error_def ServeError_def asHTTPCode_def wire_shows_def json_codec_def error_body_def json_request_def)

text \<open>The server side of an operation that needs a principal.\<close>

lemma secured_wire:
  assumes dep: "deployed d lib" and codec: "json_codec d lib c J" and req: "json_request token req"
    and api: "api_KeystoneAuth api = Some (keystone_auth d)" "api_defaultProduces api = ''application/json''"
      "api_JSONProducer api = Some (rd_producer d)"
    and policy: "\<And>usr. api_Authorizer api req usr =
      (if allowed_by_policy op (pr_Roles usr) then Ok () else Fail (Errorf (denied usr op)))"
    and bind: "BindValidRequest lib B req (route_entry api (meth, pattern, op, True) ps) = Ok (Inr params)"
    and W: "\<And>code msg. 0 < code \<Longrightarrow> W (error_response code msg) = \<lparr>rd_Code = code, rd_Payload = Some (PError code msg), rd_KeepType = True\<rparr>"
    and call: "authorized_call d op token (g params) w = (Ok r, w')" and J: "rd_Payload (W r) \<in> insert None (Some ` J)"
  shows "\<exists>wire. authorize_bind_and_handle lib api B W (Some (on_principal g)) req
      (route_entry api (meth, pattern, op, True) ps) (w, cache) = (Ok wire, w', cache) \<and> wire_shows c (W r) wire"
proof -
  obtain a w1 where k: "rd_Keystone d token w = (Ok a, w1)"
    using call by (auto simp: authorized_call_def bnd_eq_Ok_iff)
  have auth: "AuthorizeRequest (route_entry api (meth, pattern, op, True) ps) req (w, cache) =
      (Ok (case a of Inl (code, msg) \<Rightarrow> Inl (ApiErr code msg)
        | Inr p \<Rightarrow> if allowed_by_policy op (pr_Roles p) then Inr (Some p) else Inl (ApiErr 403 (denied p op))), w1, cache)"
    using k by (simp add: authorize_entry [OF api(1) req policy])
  obtain validate url where ks: "rd_Keystone d = Keystone validate url" using dep by (auto simp: deployed_def)
  consider (unknown) code msg where "a = Inl (code, msg)" "code = 401" | (denied) p where "a = Inr p" "\<not> allowed_by_policy op (pr_Roles p)"
    | (allowed) p where "a = Inr p" "allowed_by_policy op (pr_Roles p)"
  proof (cases a)
    case (Inl e)
    obtain code msg where "e = (code, msg)" by fastforce
    moreover have "code = 401" using k Inl \<open>e = (code, msg)\<close> unfolding ks Keystone_def Let_def
      by (auto simp: tryc_def split: prod.splits outcome.splits option.splits)
    ultimately show ?thesis using that(1) Inl by simp
  qed (use that in auto)
  then show ?thesis
  proof cases
    case unknown
    then have r: "r = error_response 401 msg" "w' = w1" using call k by (auto simp: authorized_call_def)
    then have "PError 401 msg \<in> J" using J W by auto
    from error_answer [OF codec req this, of "(w1, cache)"] auth unknown r W
    show ?thesis by (simp add: authorize_bind_and_handle_def)
  next
    case denied
    then have r: "r = error_response 403 (denied p op)" "w' = w1" using call k by (auto simp: authorized_call_def)
    then have "PError 403 (denied p op) \<in> J" using J W by auto
    from error_answer [OF codec req this, of "(w1, cache)"] auth denied r W
    show ?thesis by (simp add: authorize_bind_and_handle_def)
  next
    case allowed
    then have g: "g params p w1 = (Ok r, w')" using call k by (simp add: authorized_call_def)
    from api_response [OF dep codec req J api(2,3), of "(meth, pattern, op, True)" ps "(w', cache)"]
    obtain wire where "respond_with lib api req (route_entry api (meth, pattern, op, True) ps) (W r) (w', cache) = (Ok wire, w', cache)"
      "wire_shows c (W r) wire" by blast
    then show ?thesis using auth allowed g bind
      by (simp add: authorize_bind_and_handle_def bind_and_handle_def on_principal_def nil_deref_def reply_def render_responder_def)
  qed
qed

section \<open>From the client to the server\<close>

lemma good_elems:
  assumes "good_name name"
  shows "list_all good_name (named_elems name suff) \<longleftrightarrow> list_all good_name suff"
    "named_elems name suff \<noteq> []"
    "f = id \<or> f = url_escape \<Longrightarrow> list_all (\<lambda>e. f e = e) suff \<Longrightarrow> map f (named_elems name suff) = named_elems (f name) suff"
proof -
  have "good_name ''api'' \<and> good_name ''v1'' \<and> good_name ''clusters''" by code_simp
  then show "list_all good_name (named_elems name suff) \<longleftrightarrow> list_all good_name suff"
    using assms by (simp add: named_elems_def)
  have "url_escape ''api'' = ''api'' \<and> url_escape ''v1'' = ''v1'' \<and> url_escape ''clusters'' = ''clusters''" by code_simp
  then show "f = id \<or> f = url_escape \<Longrightarrow> list_all (\<lambda>e. f e = e) suff \<Longrightarrow> map f (named_elems name suff) = named_elems (f name) suff"
    by (auto simp: named_elems_def list_all_iff intro: map_idI)
qed (simp add: named_elems_def)

lemma named_suffixes:
  assumes "(meth, op, suff) \<in> set named_operations"
  shows "list_all good_name suff" "f = id \<or> f = url_escape \<Longrightarrow> list_all (\<lambda>e. f e = e) suff"
    "replace_name name (named_pattern suff) = slashed (named_elems name suff)"
    "meth \<in> {''GET'', ''POST'', ''DELETE'', ''PUT''}"
    "List.find (\<lambda>(m, _, o', _). m = meth \<and> o' = op) swagger_operations = Some (meth, named_pattern suff, op, True)"
proof -
  have good: "good_name ''credentials'' \<and> good_name ''info'' \<and> good_name ''events''" by code_simp
  have esc: "url_escape ''credentials'' = ''credentials'' \<and> url_escape ''info'' = ''info'' \<and> url_escape ''events'' = ''events''" by code_simp
  show "list_all good_name suff" using good assms by (elim named_cases) simp_all
  show "f = id \<or> f = url_escape \<Longrightarrow> list_all (\<lambda>e. f e = e) suff" using esc assms by (elim named_cases) auto
  show "replace_name name (named_pattern suff) = slashed (named_elems name suff)"
    using assms by (elim named_cases) (simp_all add: named_pattern_def named_elems_def)
  show "meth \<in> {''GET'', ''POST'', ''DELETE'', ''PUT''}" using assms by (elim named_cases) simp_all
  have "\<forall>x\<in>set named_operations. case x of (meth, op, suff) \<Rightarrow>
      List.find (\<lambda>(m, _, o', _). m = meth \<and> o' = op) swagger_operations = Some (meth, named_pattern suff, op, True)"
    by code_simp
  with assms show "List.find (\<lambda>(m, _, o', _). m = meth \<and> o' = op) swagger_operations = Some (meth, named_pattern suff, op, True)"
    by fast
qed

text \<open>A path of good names under the root: what is sent for it, and what arrives.\<close>

lemma sent_path:
  assumes es: "list_all good_name es" "es \<noteq> []"
  obtains u u' f where "parse_path (slashed es) = Ok u" "f = id \<or> f = url_escape"
    "setPath (EscapedPath (join_base ''/'' u)) = Ok u'" "url_Path u' = slashed es" "EscapedPath u' = slashed (map f es)"
proof -
  obtain u f where u: "parse_path (slashed es) = Ok u" "url_Path u = slashed es" "EscapedPath u = slashed (map f es)"
    "f = id \<or> f = url_escape" using wire_text [OF es] by blast
  obtain es' e where e: "es = es' @ [e]" using es(2) by (metis rev_exhaust)
  have "e \<noteq> []" "CHR ''/'' \<notin> set e" using es(1) e by (auto simp: good_name_def clean_segment_def)
  then have "last e \<noteq> CHR ''/''" by (metis last_in_set)
  with \<open>e \<noteq> []\<close> have "last (slashed es) \<noteq> CHR ''/''" unfolding e by (simp add: slashed_def last_append)
  then have join: "join_base ''/'' u = u"
    using path_Join_root [OF good_clean [OF es(1)] es(2)] u(2) by (simp add: join_base_def Let_def)
  have star: "url_Path u \<noteq> ''*''" using u(2) es(2) by (cases es) auto
  obtain p where set: "setPath p = Ok u" using u(1) by (auto simp: parse_path_def split: if_splits)
  show ?thesis
    using that [OF u(1,4), unfolded join, OF setPath_wire(1) [OF set star]] setPath_wire(2) [OF set star] u(2,3) by simp
qed

lemma json_operation_fields [simp]:
  "op_ID (json_operation i m p) = i" "op_Method (json_operation i m p) = m" "op_PathPattern (json_operation i m p) = p"
  "op_Produces (json_operation i m p) = [''application/json'']" "op_Consumes (json_operation i m p) = [''application/json'']"
  by (simp_all add: json_operation_def)

text \<open>The request of the client for a path of good names: \<open>body\<close> is the API object it sends, if any.\<close>

lemma client_sends:
  assumes rt: "cr_BasePath rt = ''/''" and es: "list_all good_name es" "es \<noteq> []"
    and path: "\<And>r. crq_pathParams r = [] \<Longrightarrow> replace_params (crq_pathParams (Wr r)) pattern = slashed es"
    and hdr: "\<And>r. crq_header (Wr r) = crq_header r" and pay: "\<And>r. crq_payload r = None \<Longrightarrow> crq_payload (Wr r) = body"
    and enc: "\<And>k. body = Some k \<Longrightarrow> cd_encode (cr_codec rt) k = Ok (bytes k)"
    and token: "token \<noteq> []" and meth: "meth \<noteq> ''HEAD''" "meth \<noteq> ''OPTIONS''"
  shows "\<exists>s u f. prepare rt (json_operation op meth pattern) Wr (authFunc token) = Ok s \<and>
    setPath (EscapedPath (sn_URL s)) = Ok u \<and> url_Path u = slashed es \<and> EscapedPath u = slashed (map f es) \<and> (f = id \<or> f = url_escape) \<and>
    json_request token (received s u) \<and> aq_Method (received s u) = meth \<and> aq_Body (received s u) = map_option bytes body \<and>
    aq_URL (received s u) = u \<and> (body \<noteq> None \<longrightarrow> req_Header (received s u) ''Content-Type'' = [''application/json''])"
proof -
  obtain url u f where u: "parse_path (slashed es) = Ok url" "f = id \<or> f = url_escape"
    "setPath (EscapedPath (join_base ''/'' url)) = Ok u" "url_Path u = slashed es" "EscapedPath u = slashed (map f es)"
    using sent_path [OF es] by blast
  define r where "r = Wr (authFunc token (SetHeaderParam ''Accept'' [''application/json'']
     \<lparr>crq_timeout = 30000000000, crq_pathParams = [], crq_header = (\<lambda>_. []), crq_payload = None\<rparr>))"
  have r: "replace_params (crq_pathParams r) pattern = slashed es" "crq_payload r = body"
    "crq_header r = (\<lambda>_. [])(''Accept'' := [''application/json''], ''X-Auth-Token'' := [token])"
    by (simp_all add: r_def path hdr pay authFunc_def SetHeaderParam_def token_header)
  obtain header where header: "BuildHTTP (cr_codec rt) meth pattern ''application/json'' r = Ok (url, header, map_option bytes body)"
    "header ''Accept'' = [''application/json'']" "header ''X-Auth-Token'' = [token]"
    "body \<noteq> None \<Longrightarrow> header ''Content-Type'' = [''application/json'']"
    using enc by (cases body; cases "CanHaveBody meth") (auto simp: BuildHTTP_def r u(1))
  define s where "s = \<lparr>sn_Method = meth, sn_Scheme = pickScheme (cr_schemes rt) (op_Schemes (json_operation op meth pattern)),
    sn_Host = cr_Host rt, sn_URL = join_base ''/'' url, sn_Header = header, sn_Body = map_option bytes body\<rparr>"
  have "prepare rt (json_operation op meth pattern) Wr (authFunc token) = Ok s"
    using header(1) by (simp add: prepare_def first_nonempty_def rt r_def [symmetric] s_def Let_def)
  then show ?thesis
    using u header token meth by (intro exI [of _ s] exI [of _ u] exI [of _ f]) (simp add: s_def received_def json_request_def)
qed

section \<open>An operation over the wire\<close>

text \<open>A client whose base path is the root, connected to the site of a deployment.\<close>

definition connected ::
  "('w, 'b, 'key, 'p) rest_deps \<Rightarrow> 'b rest_lib \<Rightarrow> ('b site_reply \<Rightarrow> 'b wire) \<Rightarrow>
     ('w \<times> Link list option, 'b) client_runtime \<Rightarrow> bool" where
  "connected d lib page rt \<longleftrightarrow>
     cr_BasePath rt = ''/'' \<and> cr_do rt = http_connect page (site d lib) \<and>
     cr_ParseMediaType rt ''application/json'' = Ok ''application/json''"

lemma read_wire_shows:
  assumes "cr_ParseMediaType rt ''application/json'' = Ok ''application/json''" "wire_shows c r wire"
  shows "read_wire rt zero dec wire = Ok \<lparr>hr_Code = rd_Code r, hr_Payload = consume zero dec (wr_Body wire),
     hr_Error = consume None (cd_Error (cr_codec rt)) (wr_Body wire)\<rparr>"
  using assms by (simp add: read_wire_def wire_shows_def Let_def)

abbreviation new_api :: "('w, 'b, 'key, 'p) rest_deps \<Rightarrow> ('w \<times> Link list option, 'b) KubernikusAPI" where
  "new_api d \<equiv> NewKubernikusAPI (rd_consumer d) (rd_producer d)"

lemma configured_fields:
  "api_handlers (configured_api d auth (new_api d)) = Map.empty"
  "api_defaultProduces (configured_api d auth (new_api d)) = ''application/json''"
  "api_JSONProducer (configured_api d auth (new_api d)) = Some (rd_producer d)"
  "api_JSONConsumer (configured_api d auth (new_api d)) = Some (rd_consumer d)"
  "api_KeystoneAuth (configured_api d auth (new_api d)) = Some (keystone_auth d)"
  "api_Authorizer (configured_api d auth (new_api d)) = policy_authorizer (rd_fuel d) auth"
  by (simp_all add: configured_api_def NewKubernikusAPI_def Let_def)

lemma configured_handlers:
  "api_ShowClusterHandler (configured_api d auth api) = Some (on_principal (\<lambda>params. showCluster (rd_Runtime d) (bp_Name params)))"
  "api_TerminateClusterHandler (configured_api d auth api) = Some (on_principal (\<lambda>params. terminateCluster (rd_Runtime d) (bp_Name params)))"
  "api_ListClustersHandler (configured_api d auth api) = Some (on_principal (\<lambda>_. listClusters (rd_Runtime d)))"
  "api_CreateClusterHandler (configured_api d auth api) = Some (on_principal (\<lambda>params p.
     with_body params (\<lambda>body. createCluster (rd_GitCommit d) (rd_Runtime d) body p)))"
  by (simp_all add: configured_api_def Let_def)

text \<open>What the server makes of a request for one operation.\<close>

lemma operation_served:
  assumes dep: "deployed d lib" and codec: "json_codec d lib c J" and req: "json_request token req"
    and path: "url_Path (aq_URL req) = slashed (''api'' # ''v1'' # rest)" "path_Clean (EscapedPath (aq_URL req)) = path"
    and route: "aq_Method req = meth" "meth \<in> {''GET'', ''POST'', ''DELETE'', ''PUT''}"
      "matches (routes_for (operation_routes swagger_operations) meth) path = [(op, ps)]"
      "List.find (\<lambda>(m, _, o', _). m = meth \<and> o' = op) swagger_operations = Some (meth, pattern, op, True)"
    and served: "\<And>auth. let api = configured_api d auth (new_api d) in
      HandlerFor (Init lib api) meth pattern = Some (authorize_bind_and_handle lib api B W (Some (on_principal g)))"
    and bind: "\<And>auth. BindValidRequest lib B req
      (route_entry (configured_api d auth (new_api d)) (meth, pattern, op, True) (map unescape_param ps)) = Ok (Inr params)"
    and W: "\<And>code msg. 0 < code \<Longrightarrow> W (error_response code msg) = \<lparr>rd_Code = code, rd_Payload = Some (PError code msg), rd_KeepType = True\<rparr>"
    and op: "op \<noteq> ''kubernetes_admin''" "op \<noteq> ''kubernetes_user''"
    and call: "authorized_call d op token (g params) w = (Ok r, w')" and J: "rd_Payload (W r) \<in> insert None (Some ` J)"
  shows "\<exists>wire. site d lib req (w, cache) = (Ok (ApiReply wire), w', cache) \<and> wire_shows c (W r) wire"
proof -
  obtain auth where auth: "Configure d (new_api d) = Ok (configured_api d auth (new_api d))"
    "NewOsloPolicyAuthorizer (rd_denco d) (rd_parseRule d) (operation_routes swagger_operations) policy_json = Ok auth"
    "\<And>meth. meth \<in> {''GET'', ''POST'', ''DELETE'', ''PUT''} \<Longrightarrow>
       \<exists>r. rd_denco d (routes_for (operation_routes swagger_operations) meth) = Ok r \<and> pa_routers auth meth = Some r"
    using configured [OF dep] by blast
  let ?api = "configured_api d auth (new_api d)"
  let ?route = "route_entry ?api (meth, pattern, op, True) (map unescape_param ps)"
  obtain router where router: "rd_denco d (routes_for (operation_routes swagger_operations) meth) = Ok router"
    "pa_routers auth meth = Some router" using auth(3) [OF route(2)] by blast
  have found: "router path = Some (op, ps)"
    using dep route(3) router(1) unfolding deployed_def denco_serves_def by (metis outcome.inject(1))
  have policy: "api_Authorizer ?api req usr = (if allowed_by_policy op (pr_Roles usr) then Ok () else Fail (Errorf (denied usr op)))" for usr
    unfolding configured_fields policy_authorizer_def denied_def route(1)
    using dep by (intro Authorize_by_policy [OF _ _ auth(2) op router(2)])
      (simp_all add: deployed_def path(2) found)
  have "RoutesHandler lib (rd_denco d) (Init lib ?api) swagger_operations req =
      authorize_bind_and_handle lib ?api B W (Some (on_principal g)) req ?route"
    using RoutesHandler_found [OF dep configured_fields(1) route(2,1) path(2) route(3,4)] served [of auth] by (simp add: Let_def)
  moreover have "aq_Method req \<noteq> ''OPTIONS''" using req by (simp add: json_request_def)
  ultimately have "site d lib req = bnd (authorize_bind_and_handle lib ?api B W (Some (on_principal g)) req ?route) (\<lambda>w. ret (ApiReply w))"
    using site_api [OF auth(1) path(1)] by simp
  moreover have "\<exists>wire. authorize_bind_and_handle lib ?api B W (Some (on_principal g)) req ?route (w, cache) = (Ok wire, w', cache) \<and>
      wire_shows c (W r) wire"
    by (rule secured_wire [where params = params and g = g and token = token])
      (fact dep codec req configured_fields policy bind W call J)+
  ultimately show ?thesis by auto
qed

lemma operation_over_wire:
  assumes dep: "deployed d lib" and codec: "json_codec d lib (cr_codec rt) J" and conn: "connected d lib page rt"
    and es: "list_all good_name (''api'' # ''v1'' # rest)"
    and path: "\<And>r. crq_pathParams r = [] \<Longrightarrow> replace_params (crq_pathParams (Wr r)) pattern = slashed (''api'' # ''v1'' # rest)"
    and hdr: "\<And>r. crq_header (Wr r) = crq_header r" and pay: "\<And>r. crq_payload r = None \<Longrightarrow> crq_payload (Wr r) = body"
    and enc: "\<And>k. body = Some k \<Longrightarrow> cd_encode (cr_codec rt) k = Ok (bytes k)"
    and token: "token \<noteq> []"
    and route: "meth \<in> {''GET'', ''POST'', ''DELETE'', ''PUT''}"
      "\<And>f. f = id \<or> f = url_escape \<Longrightarrow> matches (routes_for (operation_routes swagger_operations) meth)
         (slashed (map f (''api'' # ''v1'' # rest))) = [(op, ps f)]"
      "List.find (\<lambda>(m, _, o', _). m = meth \<and> o' = op) swagger_operations = Some (meth, pattern, op, True)"
    and served: "\<And>auth. let api = configured_api d auth (new_api d) in
      HandlerFor (Init lib api) meth pattern = Some (authorize_bind_and_handle lib api B W (Some (on_principal g)))"
    and bind: "\<And>f req. f = id \<or> f = url_escape \<Longrightarrow> json_request token req \<Longrightarrow> aq_Body req = map_option bytes body \<Longrightarrow>
      (body \<noteq> None \<longrightarrow> req_Header req ''Content-Type'' = [''application/json'']) \<Longrightarrow>
      \<exists>params. (\<forall>auth. BindValidRequest lib B req
        (route_entry (configured_api d auth (new_api d)) (meth, pattern, op, True) (map unescape_param (ps f))) = Ok (Inr params)) \<and>
        g params = handle"
    and W: "\<And>code msg. 0 < code \<Longrightarrow> W (error_response code msg) = \<lparr>rd_Code = code, rd_Payload = Some (PError code msg), rd_KeepType = True\<rparr>"
    and op: "op \<noteq> ''kubernetes_admin''" "op \<noteq> ''kubernetes_user''"
    and call: "authorized_call d op token handle w = (Ok r, w')" and J: "rd_Payload (W r) \<in> insert None (Some ` J)"
  shows "\<exists>resp. Submit rt (json_operation op meth pattern) Wr (authFunc token) zero dec (w, cache) = (Ok resp, w', cache) \<and>
    hr_Code resp = rd_Code (W r) \<and>
    (case rd_Payload (W r) of
       None \<Rightarrow> hr_Payload resp = Ok zero
     | Some p \<Rightarrow> \<exists>b. decodes (cr_codec rt) p b \<and> hr_Payload resp = dec b \<and> hr_Error resp = cd_Error (cr_codec rt) b)"
proof -
  let ?es = "''api'' # ''v1'' # rest"
  have base: "cr_BasePath rt = ''/''" using conn by (simp add: connected_def)
  have meths: "meth \<noteq> ''HEAD''" "meth \<noteq> ''OPTIONS''" using route(1) by auto
  have "\<exists>s u f. prepare rt (json_operation op meth pattern) Wr (authFunc token) = Ok s \<and>
    setPath (EscapedPath (sn_URL s)) = Ok u \<and> url_Path u = slashed ?es \<and> EscapedPath u = slashed (map f ?es) \<and> (f = id \<or> f = url_escape) \<and>
    json_request token (received s u) \<and> aq_Method (received s u) = meth \<and> aq_Body (received s u) = map_option bytes body \<and>
    aq_URL (received s u) = u \<and> (body \<noteq> None \<longrightarrow> req_Header (received s u) ''Content-Type'' = [''application/json''])"
    by (rule client_sends) (fact base es list.distinct(2) path hdr pay enc token meths)+
  then obtain s u f where sent: "prepare rt (json_operation op meth pattern) Wr (authFunc token) = Ok s"
    "setPath (EscapedPath (sn_URL s)) = Ok u" "url_Path u = slashed ?es" "EscapedPath u = slashed (map f ?es)" "f = id \<or> f = url_escape"
    "json_request token (received s u)" "aq_Method (received s u) = meth" "aq_Body (received s u) = map_option bytes body"
    "aq_URL (received s u) = u" "body \<noteq> None \<longrightarrow> req_Header (received s u) ''Content-Type'' = [''application/json'']" by blast
  have clean: "path_Clean (EscapedPath u) = slashed (map f ?es)"
  proof -
    have "clean_segment (f e)" if "e \<in> set ?es" for e
    proof (rule name_unescaped(2) [OF _ sent(5)])
      show "good_name e" using es that unfolding list_all_iff by blast
    qed
    then have "list_all clean_segment (map f ?es)" unfolding list_all_iff by auto
    from path_Clean_slashed [OF this] show ?thesis by (simp add: sent(4))
  qed
  have "\<exists>wire. site d lib (received s u) (w, cache) = (Ok (ApiReply wire), w', cache) \<and> wire_shows (cr_codec rt) (W r) wire"
  proof -
    obtain params where bound: "\<And>auth. BindValidRequest lib B (received s u)
        (route_entry (configured_api d auth (new_api d)) (meth, pattern, op, True) (map unescape_param (ps f))) = Ok (Inr params)"
      "g params = handle" using bind [OF sent(5,6,8,10)] by blast
    show ?thesis
      by (rule operation_served [where params = params and rest = rest and ps = "ps f" and g = g,
            OF dep codec sent(6) _ _ sent(7) route(1) route(2) [OF sent(5)] route(3)])
        (use sent clean served bound W op call J in simp_all)
  qed
  then obtain wire where wire: "site d lib (received s u) (w, cache) = (Ok (ApiReply wire), w', cache)"
    "wire_shows (cr_codec rt) (W r) wire" by blast
  have "cr_do rt s (w, cache) = (Ok wire, w', cache)"
    using conn wire(1) sent(2) by (simp add: connected_def http_connect_def)
  then have "Submit rt (json_operation op meth pattern) Wr (authFunc token) zero dec (w, cache) =
      (read_wire rt zero dec wire, w', cache)"
    by (simp add: Submit_def sent(1))
  moreover have "read_wire rt zero dec wire = Ok \<lparr>hr_Code = rd_Code (W r), hr_Payload = consume zero dec (wr_Body wire),
      hr_Error = consume None (cd_Error (cr_codec rt)) (wr_Body wire)\<rparr>"
    by (rule read_wire_shows [OF _ wire(2)]) (use conn in \<open>simp add: connected_def\<close>)
  ultimately show ?thesis using wire(2) by (auto simp: wire_shows_def consume_def split: option.splits)
qed

section \<open>The commands over the wire\<close>

definition error_codes :: "int list" where
  "error_codes = [401, 403, 404, 409, 500, 610]"

definition fine_response :: "'a response \<Rightarrow> bool" where
  "fine_response r \<longleftrightarrow> (case r of Success _ _ \<Rightarrow> True | ErrorResponse code _ _ \<Rightarrow> code \<in> set error_codes)"

text \<open>Every answer of a handler is a success or has one of a few codes.\<close>

lemma fine_NewErrorResponse: "fine_response (NewErrorResponse 404 msg)" "fine_response (NewErrorResponse 500 msg)"
  "fine_response (NewErrorResponse 409 msg)" "fine_response (NewErrorResponse 610 msg)" "fine_response (Success n x)"
  "fine_response (error_response 409 msg)" "fine_response (error_response 401 msg)" "fine_response (error_response 403 msg)"
  "fine_response (not_found_or_500 err)"
  by (simp_all add: fine_response_def NewErrorResponse_def error_response_def not_found_or_500_def error_codes_def)

lemma handlers_fine:
  "showCluster rt name p w = (Ok r1, w') \<Longrightarrow> fine_response r1"
  "listClusters rt p w = (Ok r2, w') \<Longrightarrow> fine_response r2"
  "terminateCluster rt name p w = (Ok r3, w') \<Longrightarrow> fine_response r3"
  "createCluster commit rt body p w = (Ok r4, w') \<Longrightarrow> fine_response r4"
  by (auto simp: showCluster_def listClusters_def terminateCluster_def createCluster_def tryc_def bnd_def Let_def fine_NewErrorResponse
    split: prod.splits outcome.splits if_splits)

lemma call_fine:
  assumes "deployed d lib" "authorized_call d op token handle w = (Ok r, w')"
    "\<And>p w1. handle p w1 = (Ok r, w') \<Longrightarrow> fine_response r"
  shows "fine_response r"
proof -
  obtain validate url where ks: "rd_Keystone d = Keystone validate url" using assms(1) by (auto simp: deployed_def)
  obtain a w1 where k: "rd_Keystone d token w = (Ok a, w1)" using assms(2) by (auto simp: authorized_call_def bnd_eq_Ok_iff)
  show ?thesis
  proof (cases a)
    case (Inl e)
    obtain code msg where e: "e = (code, msg)" by fastforce
    then have "code = 401" using k Inl unfolding ks Keystone_def Let_def
      by (auto simp: tryc_def split: prod.splits outcome.splits option.splits)
    then show ?thesis using assms(2) k Inl e by (auto simp: authorized_call_def fine_NewErrorResponse)
  next
    case (Inr p)
    then show ?thesis using assms(2,3) k by (auto simp: authorized_call_def fine_NewErrorResponse split: if_splits)
  qed
qed

definition client_outcome :: "'a response \<Rightarrow> 'a outcome" where
  "client_outcome r = (case r of Success _ x \<Rightarrow> Ok x | ErrorResponse _ msg _ \<Rightarrow> Fail (Errorf (Sprintf0 msg)))"

text \<open>How a response that was rendered for the wire is read.\<close>

lemma read_rendered:
  assumes "fine_response r" "ok \<in> {200, 201, 202}"
    "hr_Code resp = (case r of Success _ _ \<Rightarrow> ok | ErrorResponse code _ _ \<Rightarrow> default_code code)"
    "\<And>n x. r = Success n x \<Longrightarrow> hr_Payload resp = Ok x"
    "\<And>code msg i. r = ErrorResponse code msg i \<Longrightarrow> hr_Error resp = Ok (Some msg)"
  shows "read_response ok resp = (case r of Success _ x \<Rightarrow> ApiOK x | ErrorResponse code msg _ \<Rightarrow> ApiDefault (default_code code) (Some msg))"
proof (cases r)
  case (ErrorResponse code msg i)
  then have "code \<in> set error_codes" using assms(1) by (simp add: fine_response_def)
  then have "default_code code \<noteq> ok" "default_code code div 100 \<noteq> 2"
    using assms(2) by (auto simp: error_codes_def default_code_def)
  then show ?thesis using assms(3,5) ErrorResponse by (simp add: read_response_def)
qed (use assms in \<open>simp add: read_response_def\<close>)

lemma api_call_rendered:
  assumes "call s = (Ok resp, s')"
    "reader resp = (case r of Success _ x \<Rightarrow> ApiOK x | ErrorResponse code msg _ \<Rightarrow> ApiDefault (default_code code) (Some msg))"
  shows "api_call call reader plain_message wrap s = (client_outcome r, s')"
  using assms by (cases r) (simp_all add: api_call_def client_outcome_def plain_message_def)

lemma render_standard:
  "0 < code \<Longrightarrow> render ok f (error_response code msg) = \<lparr>rd_Code = code, rd_Payload = Some (PError code msg), rd_KeepType = True\<rparr>"
  by (simp add: render_def error_response_def default_code_def)

lemma writers:
  "ShowCluster_WriteResponse = render 200 PCluster" "CreateCluster_WriteResponse = render 201 PCluster"
  "ListClusters_WriteResponse = render 200 PClusters"
  by (simp_all add: fun_eq_iff ShowCluster_WriteResponse_def CreateCluster_WriteResponse_def ListClusters_WriteResponse_def)

lemma unescape_name: "good_name name \<Longrightarrow> f = id \<or> f = url_escape \<Longrightarrow> unescape_param (n, f name) = (n, name)"
  using name_unescaped(1) [of name f] by (simp add: unescape_param_def)

abbreviation wire_client :: "('w \<times> Link list option, 'b) client_runtime \<Rightarrow> string \<Rightarrow> ('w \<times> Link list option) KubernikusClient" where
  "wire_client crt token \<equiv> \<lparr>kcl_token = token, kcl_transport = rest_transport crt\<rparr>"

text \<open>The operations on a cluster without a body differ in their binder, writer and handler only.\<close>

lemma named_over_wire:
  assumes dep: "deployed d lib" "json_codec d lib (cr_codec crt) J" "connected d lib page crt" and token: "token \<noteq> []"
    and name: "good_name name" and named: "(meth, op, suff) \<in> set named_operations"
    and Wr: "\<And>r. crq_pathParams (Wr r) = (''name'', name) # crq_pathParams r" "\<And>r. crq_header (Wr r) = crq_header r"
      "\<And>r. crq_payload (Wr r) = crq_payload r"
    and B: "\<And>req route. B req route = Ok (bound_or_errors [] ((new_params (HTTPRequest.truncate req))
      \<lparr>bp_Name := bind_name (fst (GetOK (mr_Params route) ''name''))\<rparr>))"
    and g: "\<And>params. bp_Name params = name \<Longrightarrow> g params = handle"
    and served: "\<And>auth. let api = configured_api d auth (new_api d) in
      HandlerFor (Init lib api) meth (named_pattern suff) = Some (authorize_bind_and_handle lib api B W (Some (on_principal g)))"
    and W: "\<And>code msg. 0 < code \<Longrightarrow> W (error_response code msg) = \<lparr>rd_Code = code, rd_Payload = Some (PError code msg), rd_KeepType = True\<rparr>"
    and call: "authorized_call d op token handle w = (Ok r, w')" "rd_Payload (W r) \<in> insert None (Some ` J)"
  shows "\<exists>resp. Submit crt (json_operation op meth (named_pattern suff)) Wr (authFunc token) zero dec (w, cache) = (Ok resp, w', cache) \<and>
    hr_Code resp = rd_Code (W r) \<and>
    (case rd_Payload (W r) of
       None \<Rightarrow> hr_Payload resp = Ok zero
     | Some p \<Rightarrow> \<exists>b. decodes (cr_codec crt) p b \<and> hr_Payload resp = dec b \<and> hr_Error resp = cd_Error (cr_codec crt) b)"
proof (rule operation_over_wire [where rest = "[''clusters'', name] @ suff" and body = None and bytes = undefined
      and ps = "\<lambda>f. [(''name'', f name)]" and B = B and g = g and handle = handle, OF dep])
  have elems: "''api'' # ''v1'' # [''clusters'', name] @ suff = named_elems name suff" by (simp add: named_elems_def)
  show "list_all good_name (''api'' # ''v1'' # [''clusters'', name] @ suff)"
    unfolding elems good_elems(1) [OF name] by (rule named_suffixes(1) [OF named])
  show "replace_params (crq_pathParams (Wr r)) (named_pattern suff) = slashed (''api'' # ''v1'' # [''clusters'', name] @ suff)"
    if "crq_pathParams r = []" for r
    unfolding elems using that named_suffixes(3) [OF named, of name] by (simp add: Wr)
  show "matches (routes_for (operation_routes swagger_operations) meth) (slashed (map f (''api'' # ''v1'' # [''clusters'', name] @ suff))) =
      [(op, [(''name'', f name)])]" if "f = id \<or> f = url_escape" for f
    unfolding elems good_elems(3) [OF name that named_suffixes(2) [OF named that]]
    by (rule named_matches [OF named name_unescaped(2) [OF name that]])
  show "\<exists>params. (\<forall>auth. BindValidRequest lib B req
      (route_entry (configured_api d auth (new_api d)) (meth, named_pattern suff, op, True)
        (map unescape_param [(''name'', f name)])) = Ok (Inr params)) \<and> g params = handle"
    if "f = id \<or> f = url_escape" "json_request token req" "aq_Body req = map_option undefined None" for f req
    using that name by (intro exI [of _ "(new_params (HTTPRequest.truncate req))\<lparr>bp_Name := name\<rparr>"])
      (simp add: BindValidRequest_def select_consumer_def B route_entry_def unescape_name GetOK_def bind_name_def bound_or_errors_def g)
  show "op \<noteq> ''kubernetes_admin''" "op \<noteq> ''kubernetes_user''" using named by (elim named_cases; simp)+
qed (use token served call W named_suffixes(4,5) [OF named] in \<open>simp_all add: Wr\<close>)

lemma read_payload:
  assumes "fine_response r" "ok \<in> {200, 201, 202}" "hr_Code resp = rd_Code (render ok f r)"
    "case rd_Payload (render ok f r) of None \<Rightarrow> hr_Payload resp = Ok zero
     | Some p \<Rightarrow> \<exists>b. decodes c p b \<and> hr_Payload resp = dec b \<and> hr_Error resp = cd_Error c b"
    "\<And>x b. decodes c (f x) b \<Longrightarrow> dec b = Ok x"
  shows "read_response ok resp = (case r of Success _ x \<Rightarrow> ApiOK x | ErrorResponse code msg _ \<Rightarrow> ApiDefault (default_code code) (Some msg))"
  using assms by (intro read_rendered) (auto simp: render_def split: response.splits)

text \<open>The answer of a call is carried if JSON represents what is written of it.\<close>

definition carried :: "payload set \<Rightarrow> rendered \<Rightarrow> bool" where
  "carried J r \<longleftrightarrow> (case rd_Payload r of None \<Rightarrow> True | Some p \<Rightarrow> p \<in> J)"

lemma carried_insert: "carried J r \<longleftrightarrow> rd_Payload r \<in> insert None (Some ` J)"
  by (auto simp: carried_def split: option.splits)

lemma carried_render: "carried J (render ok f r) \<longleftrightarrow> rd_Payload (render ok f r) \<in> Some ` J"
  by (auto simp: carried_def render_def split: response.splits)

lemma show_over_wire:
  assumes dep: "deployed d lib" "json_codec d lib (cr_codec crt) J" "connected d lib page crt" and token: "token \<noteq> []"
    and name: "good_name name"
    and call: "authorized_call d ''ShowCluster'' token (showCluster (rd_Runtime d) name) w = (Ok r, w')"
      "carried J (ShowCluster_WriteResponse r)"
  shows "ctl_ShowCluster (wire_client crt token) name (w, cache) = (client_outcome r, w', cache)"
proof -
  have pat: "named_pattern [] = ''/api/v1/clusters/{name}''" by (simp add: named_pattern_def)
  have fine: "fine_response r" by (rule call_fine [OF dep(1) call(1)]) (rule handlers_fine(1))
  have "\<exists>resp. Submit crt (json_operation ''ShowCluster'' ''GET'' (named_pattern [])) (ShowCluster_WriteToRequest (WithName name NewParams))
      (authFunc token) zero_ModelsKluster (cd_Cluster (cr_codec crt)) (w, cache) = (Ok resp, w', cache) \<and>
    hr_Code resp = rd_Code (render 200 PCluster r) \<and>
    (case rd_Payload (render 200 PCluster r) of
       None \<Rightarrow> hr_Payload resp = Ok zero_ModelsKluster
     | Some p \<Rightarrow> \<exists>b. decodes (cr_codec crt) p b \<and> hr_Payload resp = cd_Cluster (cr_codec crt) b \<and> hr_Error resp = cd_Error (cr_codec crt) b)"
    by (rule named_over_wire [OF dep token name, where B = "ShowCluster_BindRequest lib" and
          g = "\<lambda>params. showCluster (rd_Runtime d) (bp_Name params)" and handle = "showCluster (rd_Runtime d) name"])
      (use call in \<open>auto simp: named_operations_def ShowCluster_WriteToRequest_def SetPathParam_def WithName_def ShowCluster_BindRequest_def
        pat initial_handlers configured_fields ShowCluster_ServeHTTP_def configured_handlers Let_def writers render_standard carried_render\<close>)
  then obtain resp where resp: "ShowCluster_Submit crt (WithName name NewParams) (authFunc token) (w, cache) = (Ok resp, w', cache)"
    "hr_Code resp = rd_Code (render 200 PCluster r)"
    "case rd_Payload (render 200 PCluster r) of None \<Rightarrow> hr_Payload resp = Ok zero_ModelsKluster
     | Some p \<Rightarrow> \<exists>b. decodes (cr_codec crt) p b \<and> hr_Payload resp = cd_Cluster (cr_codec crt) b \<and> hr_Error resp = cd_Error (cr_codec crt) b"
    unfolding ShowCluster_Submit_def pat by blast
  have "read_response 200 resp = (case r of Success _ x \<Rightarrow> ApiOK x | ErrorResponse code msg _ \<Rightarrow> ApiDefault (default_code code) (Some msg))"
    by (rule read_payload [OF fine _ resp(2,3)]) simp_all
  then show ?thesis
    using resp(1) by (simp add: ctl_ShowCluster_def rest_transport_def read_ShowCluster_def api_call_rendered)
qed

lemma delete_over_wire:
  assumes dep: "deployed d lib" "json_codec d lib (cr_codec crt) J" "connected d lib page crt" and token: "token \<noteq> []"
    and name: "good_name name"
    and call: "authorized_call d ''TerminateCluster'' token (terminateCluster (rd_Runtime d) name) w = (Ok r, w')"
      "carried J (TerminateCluster_WriteResponse r)"
  shows "ctl_DeleteCluster (wire_client crt token) name (w, cache) = (client_outcome r, w', cache)"
proof -
  have pat: "named_pattern [] = ''/api/v1/clusters/{name}''" by (simp add: named_pattern_def)
  have fine: "fine_response r" by (rule call_fine [OF dep(1) call(1)]) (rule handlers_fine(3))
  have std: "0 < code \<Longrightarrow> TerminateCluster_WriteResponse (error_response code msg) =
      \<lparr>rd_Code = code, rd_Payload = Some (PError code msg), rd_KeepType = True\<rparr>" for code msg
    by (simp add: TerminateCluster_WriteResponse_def error_response_def default_code_def)
  have "\<exists>resp. Submit crt (json_operation ''TerminateCluster'' ''DELETE'' (named_pattern [])) (TerminateCluster_WriteToRequest (WithName name NewParams))
      (authFunc token) () (\<lambda>_. Ok ()) (w, cache) = (Ok resp, w', cache) \<and>
    hr_Code resp = rd_Code (TerminateCluster_WriteResponse r) \<and>
    (case rd_Payload (TerminateCluster_WriteResponse r) of
       None \<Rightarrow> hr_Payload resp = Ok ()
     | Some p \<Rightarrow> \<exists>b. decodes (cr_codec crt) p b \<and> hr_Payload resp = Ok () \<and> hr_Error resp = cd_Error (cr_codec crt) b)"
    by (rule named_over_wire [OF dep token name, where B = "TerminateCluster_BindRequest lib" and
          g = "\<lambda>params. terminateCluster (rd_Runtime d) (bp_Name params)" and handle = "terminateCluster (rd_Runtime d) name"])
      (use call in \<open>auto simp: named_operations_def TerminateCluster_WriteToRequest_def SetPathParam_def WithName_def TerminateCluster_BindRequest_def
        pat initial_handlers configured_fields TerminateCluster_ServeHTTP_def configured_handlers Let_def std carried_insert\<close>)
  then obtain resp where resp: "TerminateCluster_Submit crt (WithName name NewParams) (authFunc token) (w, cache) = (Ok resp, w', cache)"
    "hr_Code resp = rd_Code (TerminateCluster_WriteResponse r)"
    "case rd_Payload (TerminateCluster_WriteResponse r) of None \<Rightarrow> hr_Payload resp = Ok ()
     | Some p \<Rightarrow> \<exists>b. decodes (cr_codec crt) p b \<and> hr_Payload resp = Ok () \<and> hr_Error resp = cd_Error (cr_codec crt) b"
    unfolding TerminateCluster_Submit_def pat by blast
  have "read_response 202 (resp\<lparr>hr_Payload := Ok ()\<rparr>) =
      (case r of Success _ x \<Rightarrow> ApiOK x | ErrorResponse code msg _ \<Rightarrow> ApiDefault (default_code code) (Some msg))"
    using resp(2,3) by (intro read_rendered fine) (auto simp: TerminateCluster_WriteResponse_def split: response.splits)
  then show ?thesis
    using resp(1) by (simp add: ctl_DeleteCluster_def rest_transport_def read_TerminateCluster_def api_call_rendered)
qed

lemma clusters_elems:
  "list_all good_name [''api'', ''v1'', ''clusters'']" "slashed [''api'', ''v1'', ''clusters''] = ''/api/v1/clusters''"
  "f = id \<or> f = url_escape \<Longrightarrow> map f [''api'', ''v1'', ''clusters''] = [''api'', ''v1'', ''clusters'']"
  "List.find (\<lambda>(m, _, o', _). m = ''GET'' \<and> o' = ''ListClusters'') swagger_operations = Some (''GET'', ''/api/v1/clusters'', ''ListClusters'', True)"
  "List.find (\<lambda>(m, _, o', _). m = ''POST'' \<and> o' = ''CreateCluster'') swagger_operations = Some (''POST'', ''/api/v1/clusters'', ''CreateCluster'', True)"
proof -
  have "map url_escape [''api'', ''v1'', ''clusters''] = [''api'', ''v1'', ''clusters'']" by code_simp
  then show "f = id \<or> f = url_escape \<Longrightarrow> map f [''api'', ''v1'', ''clusters''] = [''api'', ''v1'', ''clusters'']" by auto
qed code_simp+

lemma list_over_wire:
  assumes dep: "deployed d lib" "json_codec d lib (cr_codec crt) J" "connected d lib page crt" and token: "token \<noteq> []"
    and call: "authorized_call d ''ListClusters'' token (listClusters (rd_Runtime d)) w = (Ok r, w')"
      "carried J (ListClusters_WriteResponse r)"
  shows "ListAllClusters (wire_client crt token) (w, cache) =
    ((case client_outcome r of Ok ks \<Rightarrow> if ks = [] then Fail no_cluster else Ok ks | out \<Rightarrow> out), w', cache)"
proof -
  have fine: "fine_response r" by (rule call_fine [OF dep(1) call(1)]) (rule handlers_fine(2))
  have "\<exists>resp. Submit crt (json_operation ''ListClusters'' ''GET'' ''/api/v1/clusters'') (ListClusters_WriteToRequest NewParams)
      (authFunc token) [] (cd_Clusters (cr_codec crt)) (w, cache) = (Ok resp, w', cache) \<and>
    hr_Code resp = rd_Code (render 200 PClusters r) \<and>
    (case rd_Payload (render 200 PClusters r) of
       None \<Rightarrow> hr_Payload resp = Ok []
     | Some p \<Rightarrow> \<exists>b. decodes (cr_codec crt) p b \<and> hr_Payload resp = cd_Clusters (cr_codec crt) b \<and> hr_Error resp = cd_Error (cr_codec crt) b)"
  proof (rule operation_over_wire [where rest = "[''clusters'']" and body = None and bytes = undefined and ps = "\<lambda>_. []"
        and B = "ListClusters_BindRequest lib" and g = "\<lambda>_. listClusters (rd_Runtime d)" and handle = "listClusters (rd_Runtime d)", OF dep])
    show "list_all good_name [''api'', ''v1'', ''clusters'']" by (rule clusters_elems(1))
    show "List.find (\<lambda>(m, _, o', _). m = ''GET'' \<and> o' = ''ListClusters'') swagger_operations = Some (''GET'', ''/api/v1/clusters'', ''ListClusters'', True)"
      by (rule clusters_elems(4))
    show "matches (routes_for (operation_routes swagger_operations) ''GET'') (slashed (map f [''api'', ''v1'', ''clusters''])) = [(''ListClusters'', [])]"
      if "f = id \<or> f = url_escape" for f
      unfolding clusters_elems(3) [OF that] by (rule list_matches) simp
    show "\<exists>params. (\<forall>auth. BindValidRequest lib (ListClusters_BindRequest lib) req
        (route_entry (configured_api d auth (new_api d)) (''GET'', ''/api/v1/clusters'', ''ListClusters'', True)
          (map unescape_param [])) = Ok (Inr params)) \<and> listClusters (rd_Runtime d) = listClusters (rd_Runtime d)"
      if "aq_Body req = map_option undefined None" for req
      using that by (simp add: BindValidRequest_def select_consumer_def ListClusters_BindRequest_def bound_or_errors_def)
  qed (use token call in \<open>auto simp: clusters_elems ListClusters_WriteToRequest_def NewParams_def
        initial_handlers configured_fields ListClusters_ServeHTTP_def configured_handlers Let_def writers render_standard carried_render
        simp del: slashed_Cons\<close>)
  then obtain resp where resp: "ListClusters_Submit crt NewParams (authFunc token) (w, cache) = (Ok resp, w', cache)"
    "hr_Code resp = rd_Code (render 200 PClusters r)"
    "case rd_Payload (render 200 PClusters r) of None \<Rightarrow> hr_Payload resp = Ok []
     | Some p \<Rightarrow> \<exists>b. decodes (cr_codec crt) p b \<and> hr_Payload resp = cd_Clusters (cr_codec crt) b \<and> hr_Error resp = cd_Error (cr_codec crt) b"
    unfolding ListClusters_Submit_def by blast
  have "read_response 200 resp = (case r of Success _ x \<Rightarrow> ApiOK x | ErrorResponse code msg _ \<Rightarrow> ApiDefault (default_code code) (Some msg))"
    by (rule read_payload [OF fine _ resp(2,3)]) simp_all
  then have "api_call (tr_ListClusters (rest_transport crt) token) read_ListClusters plain_message ''Listing clusters failed'' (w, cache) =
      (client_outcome r, w', cache)"
    using resp(1) by (simp add: rest_transport_def read_ListClusters_def api_call_rendered)
  then show ?thesis by (simp add: ListAllClusters_def bnd_def split: outcome.split)
qed

lemma create_over_wire:
  assumes dep: "deployed d lib" "json_codec d lib (cr_codec crt) J" "connected d lib page crt" and token: "token \<noteq> []"
    and body: "Kluster_Validate body = None" "cd_encode (cr_codec crt) body = Ok text" "rd_consumer d text = Decoded body"
    and call: "authorized_call d ''CreateCluster'' token (createCluster (rd_GitCommit d) (rd_Runtime d) body) w = (Ok r, w')"
      "carried J (CreateCluster_WriteResponse r)"
  shows "ctl_CreateCluster (wire_client crt token) body (w, cache) = (case client_outcome r of Ok _ \<Rightarrow> Ok () | Fail e \<Rightarrow> Fail e | Panics s \<Rightarrow> Panics s, w', cache)"
proof -
  have fine: "fine_response r" by (rule call_fine [OF dep(1) call(1)]) (rule handlers_fine(4))
  let ?g = "\<lambda>params p. with_body params (\<lambda>body. createCluster (rd_GitCommit d) (rd_Runtime d) body p)"
  have types: "ContainsStringsCI json_types ''application/json''" "normalizeOffer ''application/json'' = ''application/json''" by code_simp+
  have "\<exists>resp. Submit crt (json_operation ''CreateCluster'' ''POST'' ''/api/v1/clusters'') (CreateCluster_WriteToRequest (WithBody body NewParams))
      (authFunc token) zero_ModelsKluster (cd_Cluster (cr_codec crt)) (w, cache) = (Ok resp, w', cache) \<and>
    hr_Code resp = rd_Code (render 201 PCluster r) \<and>
    (case rd_Payload (render 201 PCluster r) of
       None \<Rightarrow> hr_Payload resp = Ok zero_ModelsKluster
     | Some p \<Rightarrow> \<exists>b. decodes (cr_codec crt) p b \<and> hr_Payload resp = cd_Cluster (cr_codec crt) b \<and> hr_Error resp = cd_Error (cr_codec crt) b)"
  proof (rule operation_over_wire [where rest = "[''clusters'']" and body = "Some body" and bytes = "\<lambda>_. text" and ps = "\<lambda>_. []"
        and B = "CreateCluster_BindRequest lib" and g = ?g and handle = "createCluster (rd_GitCommit d) (rd_Runtime d) body", OF dep])
    show "list_all good_name [''api'', ''v1'', ''clusters'']" by (rule clusters_elems(1))
    show "List.find (\<lambda>(m, _, o', _). m = ''POST'' \<and> o' = ''CreateCluster'') swagger_operations = Some (''POST'', ''/api/v1/clusters'', ''CreateCluster'', True)"
      by (rule clusters_elems(5))
    show "matches (routes_for (operation_routes swagger_operations) ''POST'') (slashed (map f [''api'', ''v1'', ''clusters''])) = [(''CreateCluster'', [])]"
      if "f = id \<or> f = url_escape" for f
      unfolding clusters_elems(3) [OF that] by (rule list_matches) simp
    show "\<exists>params. (\<forall>auth. BindValidRequest lib (CreateCluster_BindRequest lib) req
        (route_entry (configured_api d auth (new_api d)) (''POST'', ''/api/v1/clusters'', ''CreateCluster'', True)
          (map unescape_param [])) = Ok (Inr params)) \<and> ?g params = createCluster (rd_GitCommit d) (rd_Runtime d) body"
      if req: "json_request token req" "aq_Body req = map_option (\<lambda>_. text) (Some body)"
        "Some body \<noteq> None \<longrightarrow> req_Header req ''Content-Type'' = [''application/json'']" for req
    proof -
      have ct: "request_ContentType lib req = Inr ''application/json''"
        using dep(1) req(3) by (simp add: request_ContentType_def Header_Get_def deployed_def Let_def)
      have allowed: "validateContentType lib json_types ''application/json'' = None"
        using dep(1) types(1) by (simp add: validateContentType_def deployed_def)
      have neg: "lib_Negotiate lib req json_types ''application/json'' = ''application/json''"
        using dep(1) req(1) by (simp add: deployed_def json_request_def json_types_def)
      have cons: "ConsumersFor (configured_api d auth (new_api d)) json_types ''application/json'' = Some (rd_consumer d)" for auth
        by (simp add: ConsumersFor_def configured_fields json_types_def)
      show ?thesis
        using req(2) body by (intro exI [of _ "(new_params (HTTPRequest.truncate req))\<lparr>bp_Body := Some body\<rparr>"])
          (simp add: BindValidRequest_def select_consumer_def ct allowed neg cons route_entry_def token_header
            CreateCluster_BindRequest_def bind_body_def bound_or_errors_def with_body_def nil_deref_def)
    qed
  qed (use token call body in \<open>auto simp: clusters_elems CreateCluster_WriteToRequest_def WithBody_def SetBodyParam_def NewParams_def
        initial_handlers configured_fields CreateCluster_ServeHTTP_def configured_handlers Let_def writers render_standard carried_render
        simp del: slashed_Cons\<close>)
  then obtain resp where resp: "CreateCluster_Submit crt (WithBody body NewParams) (authFunc token) (w, cache) = (Ok resp, w', cache)"
    "hr_Code resp = rd_Code (render 201 PCluster r)"
    "case rd_Payload (render 201 PCluster r) of None \<Rightarrow> hr_Payload resp = Ok zero_ModelsKluster
     | Some p \<Rightarrow> \<exists>b. decodes (cr_codec crt) p b \<and> hr_Payload resp = cd_Cluster (cr_codec crt) b \<and> hr_Error resp = cd_Error (cr_codec crt) b"
    unfolding CreateCluster_Submit_def by blast
  have "read_response 201 resp = (case r of Success _ x \<Rightarrow> ApiOK x | ErrorResponse code msg _ \<Rightarrow> ApiDefault (default_code code) (Some msg))"
    by (rule read_payload [OF fine _ resp(2,3)]) simp_all
  then have "api_call (tr_CreateCluster (rest_transport crt) token body) read_CreateCluster plain_message ''Error creating cluster'' (w, cache) =
      (client_outcome r, w', cache)"
    using resp(1) by (simp add: rest_transport_def read_CreateCluster_def api_call_rendered)
  then show ?thesis by (simp add: ctl_CreateCluster_def bnd_def split: outcome.split)
qed

text \<open>C2: The command line tool over the wire. Whatever \<open>authorized_call\<close> says of an operation, which is
  keystone, then the policy, then the handler and no network, is what the command gets that
  sends the request through the generated client, the URL, the site with its middleware, the
  router, the authorizer, the binding and validation of parameters and body, the handler, the
  response writer and back through the reader of the client: the same value, the same error
  text, and the same effect on the world. This holds for showing, deleting, listing and creating
  clusters, for every name without a slash and without the characters that a URL gives a
  meaning, and for every body that is valid and that JSON represents.\<close>

theorem commands_over_the_wire:
  assumes "deployed d lib" "json_codec d lib (cr_codec crt) J" "connected d lib page crt" "token \<noteq> []"
  shows "(\<forall>name w r w' cache. good_name name \<longrightarrow>
      authorized_call d ''ShowCluster'' token (showCluster (rd_Runtime d) name) w = (Ok r, w') \<longrightarrow>
      carried J (ShowCluster_WriteResponse r) \<longrightarrow>
      ctl_ShowCluster (wire_client crt token) name (w, cache) = (client_outcome r, w', cache)) \<and>
    (\<forall>name w r w' cache. good_name name \<longrightarrow>
      authorized_call d ''TerminateCluster'' token (terminateCluster (rd_Runtime d) name) w = (Ok r, w') \<longrightarrow>
      carried J (TerminateCluster_WriteResponse r) \<longrightarrow>
      ctl_DeleteCluster (wire_client crt token) name (w, cache) = (client_outcome r, w', cache)) \<and>
    (\<forall>w r w' cache. authorized_call d ''ListClusters'' token (listClusters (rd_Runtime d)) w = (Ok r, w') \<longrightarrow>
      carried J (ListClusters_WriteResponse r) \<longrightarrow>
      ListAllClusters (wire_client crt token) (w, cache) =
        ((case client_outcome r of Ok ks \<Rightarrow> if ks = [] then Fail no_cluster else Ok ks | out \<Rightarrow> out), w', cache)) \<and>
    (\<forall>body text w r w' cache. Kluster_Validate body = None \<longrightarrow> cd_encode (cr_codec crt) body = Ok text \<longrightarrow>
      rd_consumer d text = Decoded body \<longrightarrow>
      authorized_call d ''CreateCluster'' token (createCluster (rd_GitCommit d) (rd_Runtime d) body) w = (Ok r, w') \<longrightarrow>
      carried J (CreateCluster_WriteResponse r) \<longrightarrow>
      ctl_CreateCluster (wire_client crt token) body (w, cache) =
        (case client_outcome r of Ok _ \<Rightarrow> Ok () | Fail e \<Rightarrow> Fail e | Panics s \<Rightarrow> Panics s, w', cache))"
  by (intro conjI allI impI)
    (rule show_over_wire [OF assms] delete_over_wire [OF assms] list_over_wire [OF assms] create_over_wire [OF assms], assumption+)+

section \<open>A name that is not escaped\<close>

text \<open>The client puts the name into the path as it is: what follows a question mark in a name is cut
  off as the query of the URL, so that the request is the one for another cluster.\<close>

lemma SetPathParam_fields:
  "crq_payload (SetPathParam k v r) = crq_payload r" "crq_header (SetPathParam k v r) = crq_header r"
  "crq_pathParams (SetPathParam k v r) = (k, v) # crq_pathParams r"
  by (simp_all add: SetPathParam_def)

lemma parse_cut:
  assumes "CHR ''?'' \<notin> set p" "CHR ''#'' \<notin> set p" "CHR ''#'' \<notin> set junk"
  shows "parse_path (p @ ''?'' @ junk) = parse_path p"
proof -
  have "before CHR ''#'' (p @ ''?'' @ junk) = p @ ''?'' @ junk"
    using assms(2,3) by (intro before_absent) simp
  moreover have "before CHR ''?'' (p @ ''?'' @ junk) = p"
    using assms(1) unfolding before_def by (subst takeWhile_append2) auto
  moreover have "before CHR ''?'' p = p" "before CHR ''#'' p = p" using assms before_absent by blast+
  ultimately show ?thesis by (simp add: parse_path_def after_def)
qed

theorem name_cut_at_question_mark:
  assumes "good_name name" "CHR ''#'' \<notin> set junk"
  shows "TerminateCluster_Submit rt (WithName (name @ ''?'' @ junk) NewParams) (authFunc token) =
    TerminateCluster_Submit rt (WithName name NewParams) (authFunc token)"
proof -
  let ?pat = "''/api/v1/clusters/{name}''"
  have path: "replace_params [(''name'', n)] ?pat = ''/api/v1/clusters/'' @ n" for n by simp
  have chars: "CHR ''?'' \<notin> set (''/api/v1/clusters/'' @ name)" "CHR ''#'' \<notin> set (''/api/v1/clusters/'' @ name)"
    using assms(1) by (simp_all add: good_name_def)
  have writes: "TerminateCluster_WriteToRequest (WithName n NewParams) r = SetPathParam ''name'' n (r\<lparr>crq_timeout := 30000000000\<rparr>)" for n r
    by (simp add: TerminateCluster_WriteToRequest_def WithName_def NewParams_def)
  have same: "parse_path (replace_params [(''name'', name @ ''?'' @ junk)] ?pat) = parse_path (replace_params [(''name'', name)] ?pat)"
    unfolding path using parse_cut [OF chars assms(2)] by (simp only: append_assoc)
  have build: "BuildHTTP c m ?pat mt (SetPathParam ''name'' (name @ ''?'' @ junk) r) = BuildHTTP c m ?pat mt (SetPathParam ''name'' name r)"
    if "crq_pathParams r = []" for c :: "'b codec" and m mt r
    by (simp only: BuildHTTP_def SetPathParam_fields that same)
  define r0 where "r0 = authFunc token (SetHeaderParam ''Accept'' [''application/json'']
     \<lparr>crq_timeout = 30000000000, crq_pathParams = [], crq_header = (\<lambda>_. []), crq_payload = None\<rparr>)"
  have "crq_pathParams (r0\<lparr>crq_timeout := 30000000000\<rparr>) = []" by (simp add: r0_def authFunc_def SetHeaderParam_def)
  from build [OF this] show ?thesis
    by (simp only: TerminateCluster_Submit_def Submit_def prepare_def Let_def json_operation_fields writes r0_def [symmetric])
qed

text \<open>A deployment over stored resources whose bytes are the payloads themselves.\<close>

definition demo_token :: KeystoneToken where
  "demo_token = \<lparr>kt_UserID = ''u1'', kt_UserName = ''eve'', kt_UserDomain = ''ccadmin'', kt_Project = Some ''b42'',
     kt_Roles = [''kubernetes_admin'']\<rparr>"

definition no_services :: "(kluster_store, unit) scoped_services" where
  "no_services = \<lparr>sc_ProviderClient = \<lambda>_. ret (), sc_AuthenticateV3 = \<lambda>_ _. ret (), sc_NewIdentityV3 = \<lambda>_. ret (),
     sc_NewComputeV2 = \<lambda>_. ret (), sc_NewNetworkV2 = \<lambda>_. ret (),
     sc_listRouters = ret [], sc_listPorts = \<lambda>i _. ret [],
     sc_getNetwork = \<lambda>i. fail DoesNotExist, sc_getSubnet = \<lambda>i. fail DoesNotExist,
     sc_allKeyPairs = ret [], sc_listSecurityGroups = ret [], sc_listFlavors = ret []\<rparr>"

definition no_crypto :: "(kluster_store, unit) crypto" where
  "no_crypto = \<lparr>cr_NewPrivateKey = ret (), cr_Serial = ret 1, cr_now = ret 0, cr_x509 = (\<lambda>c _ _ _. ret c),
     cr_EncodeCertPEM = (\<lambda>_. ''cert''), cr_EncodePrivateKeyPEM = (\<lambda>_. ''key''), cr_ParseCertsPEM = (\<lambda>_. Ok []),
     cr_ParsePrivateKeyPEM = (\<lambda>_. Ok None)\<rparr>"

definition demo_deps :: "(kluster_store, payload, unit, unit) rest_deps" where
  "demo_deps = \<lparr>rd_consumer = (\<lambda>b. case b of PCluster k \<Rightarrow> Decoded k | _ \<Rightarrow> Unreadable ''json''), rd_producer = Ok,
     rd_Keystone = Keystone (\<lambda>_ token. if token = ''t1'' then ret demo_token else fail (Errorf ''401'')) ''https://keystone/v3'',
     rd_LoadPolicy = Ok policy_json, rd_Spec = Ok (operation_routes swagger_operations), rd_denco = first_match,
     rd_parseRule = demo_parse, rd_fuel = 2, rd_Runtime = demo_runtime, rd_GitCommit = ''HEAD'', rd_VERSION = ''1'',
     rd_crypto = no_crypto, rd_yaml = (\<lambda>_. Ok []), rd_nameFirst = True, rd_http_Get = (\<lambda>_. fail (Errorf ''offline'')),
     rd_githubURL = [], rd_scoped = no_services\<rparr>"

definition demo_lib :: "payload rest_lib" where
  "demo_lib = \<lparr>lib_ParseMediaType = Ok, lib_Negotiate = (\<lambda>_ offers other. case offers of [] \<Rightarrow> other | _ \<Rightarrow> ''application/json''),
     lib_Message = (\<lambda>p _. p @ '' is invalid''), lib_errorAsJSON = PError\<rparr>"

definition demo_codec :: "payload codec" where
  "demo_codec = \<lparr>cd_Cluster = (\<lambda>b. case b of PCluster k \<Rightarrow> Ok k | _ \<Rightarrow> Fail (Errorf ''json'')),
     cd_Clusters = (\<lambda>b. case b of PClusters k \<Rightarrow> Ok k | _ \<Rightarrow> Fail (Errorf ''json'')),
     cd_Credentials = (\<lambda>b. case b of PCredentials k \<Rightarrow> Ok k | _ \<Rightarrow> Fail (Errorf ''json'')),
     cd_Events = (\<lambda>b. case b of PEvents k \<Rightarrow> Ok k | _ \<Rightarrow> Fail (Errorf ''json'')),
     cd_ClusterInfo = (\<lambda>b. case b of PClusterInfo k \<Rightarrow> Ok k | _ \<Rightarrow> Fail (Errorf ''json'')),
     cd_Metadata = (\<lambda>b. case b of PMetadata k \<Rightarrow> Ok k | _ \<Rightarrow> Fail (Errorf ''json'')),
     cd_Info = (\<lambda>b. case b of PInfo k \<Rightarrow> Ok k | _ \<Rightarrow> Fail (Errorf ''json'')),
     cd_Versions = (\<lambda>b. case b of PVersions k \<Rightarrow> Ok k | _ \<Rightarrow> Fail (Errorf ''json'')),
     cd_Error = (\<lambda>b. case b of PError _ msg \<Rightarrow> Ok (Some msg) | _ \<Rightarrow> Fail (Errorf ''json'')),
     cd_encode = (\<lambda>k. Ok (PCluster k))\<rparr>"

definition demo_page :: "payload site_reply \<Rightarrow> payload wire" where
  "demo_page _ = \<lparr>wr_Code = 200, wr_ContentType = ''text/html'', wr_Allow = [], wr_Body = None\<rparr>"

definition demo_connection :: "(kluster_store \<times> Link list option, payload) client_runtime" where
  "demo_connection = NewHTTPClientWithConfig demo_codec Ok (http_connect demo_page (site demo_deps demo_lib))
     (Some (WithBasePath [] (WithHost ''kubernikus.example'' (WithSchemes [''https''] DefaultTransportConfig))))"

lemma demo_deployed: "deployed demo_deps demo_lib"
  by (auto simp: deployed_def demo_deps_def demo_parses first_match_serves demo_lib_def split: list.split)

lemma demo_connection_codec: "cr_codec demo_connection = demo_codec"
  by (simp add: demo_connection_def NewHTTPClientWithConfig_def new_runtime_def Let_def)

lemma demo_json: "json_codec demo_deps demo_lib (cr_codec demo_connection) UNIV"
proof -
  have "decodes demo_codec p p" for p by (cases p) (simp_all add: demo_codec_def)
  moreover have "rd_producer demo_deps = Ok" "lib_errorAsJSON demo_lib = PError" by (simp_all add: demo_deps_def demo_lib_def)
  ultimately show ?thesis by (simp add: json_codec_def demo_connection_codec del: decodes.simps)
qed

lemma demo_connected: "connected demo_deps demo_lib demo_page demo_connection"
  by (simp add: connected_def demo_connection_def NewHTTPClientWithConfig_def new_runtime_def WithBasePath_def
    DefaultTransportConfig_def)

lemma demo_call: "allowed_by_policy op [''kubernetes_admin''] \<Longrightarrow> authorized_call demo_deps op ''t1'' handle w = handle demo_principal w"
  by (simp add: authorized_call_def demo_deps_def Keystone_def keystone_url_def HasSuffix_def suffix_def demo_token_def demo_principal_def bnd_def tryc_def)

theorem commands_over_the_wire_witness:
  "(\<exists>w'. ctl_CreateCluster (wire_client demo_connection ''t1'') demo_body (Map.empty, None) = (Ok (), w', None)) \<and>
   ctl_ShowCluster (wire_client demo_connection ''t1'') ''gone'' (Map.empty, None) = (Fail (Errorf ''Not found''), Map.empty, None)"
proof -
  note wire = commands_over_the_wire [OF demo_deployed demo_json demo_connected, of "''t1''"]
  obtain mk w' where c: "createCluster ''HEAD'' demo_runtime demo_body demo_principal Map.empty = (Ok (Success 201 mk), w')"
    using demo_create by blast
  have fields: "rd_Runtime demo_deps = demo_runtime" "rd_GitCommit demo_deps = ''HEAD''" "rd_consumer demo_deps (PCluster k) = Decoded k"
    "cd_encode (cr_codec demo_connection) k = Ok (PCluster k)" for k
    by (simp_all add: demo_connection_codec demo_codec_def) (simp_all add: demo_deps_def)
  have valid: "Kluster_Validate demo_body = None"
  proof -
    have "kluster_name_re ''demo''" "KlusterStatus_Validate zero_KlusterStatus = None" by code_simp+
    then show ?thesis using demo_facts(1) by (simp add: Kluster_Validate_iff demo_body_def)
  qed
  have carried: "carried UNIV r" for r by (simp add: carried_def split: option.split)
  have pol: "allowed_by_policy ''CreateCluster'' [''kubernetes_admin'']" "allowed_by_policy ''ShowCluster'' [''kubernetes_admin'']"
    by code_simp+
  have shown: "showCluster demo_runtime ''gone'' demo_principal Map.empty = (Ok (ErrorResponse 404 ''Not found'' 404), Map.empty)"
    by (simp add: showCluster_def demo_runtime_def stored_klusters_def tryc_def not_found_or_500_def NewErrorResponse_def error_response_def
      Sprintf0_plain)
  have name: "good_name ''gone''" by code_simp
  have "ctl_CreateCluster (wire_client demo_connection ''t1'') demo_body (Map.empty, None) = (Ok (), w', None)"
    using wire valid carried c by (simp add: fields demo_call [OF pol(1)] client_outcome_def)
  moreover have "ctl_ShowCluster (wire_client demo_connection ''t1'') ''gone'' (Map.empty, None) = (Fail (Errorf ''Not found''), Map.empty, None)"
    using wire name carried shown by (simp add: fields demo_call [OF pol(2)] client_outcome_def Sprintf0_plain)
  ultimately show ?thesis by blast
qed

end
