(* ===== verification/RestGuard.thy ===== *)
theory RestGuard
  imports RestRoundtrip
begin

text \<open>
  What the REST server guards: no operation that asks for the keystone scheme has an effect unless
  keystone knows the token and the policy allows the operation, a body that is not valid
  reaches no handler, a configured API lacks no registration, and the URLs that the generated
  builders build are routed to their own operations.
\<close>

section \<open>Refusals\<close>

text \<open>A refused call: the status, and the world as keystone left it.\<close>

definition refused :: "('w, 'b wire) go \<Rightarrow> 'w \<Rightarrow> int \<Rightarrow> 'w \<Rightarrow> bool" where
  "refused m s code s' \<longleftrightarrow> (\<exists>wire. m s = (Ok wire, s') \<and> wr_Code wire = code)"

lemma refused_error:
  "code < 600 \<Longrightarrow> refused (respond_error lib req (ApiErr code msg)) s code s"
  by (simp add: refused_def respond_error_def ServeError_def asHTTPCode_def)

text \<open>The cases in which authorization refuses a request of a route with the keystone scheme, and the
  status each has.\<close>

definition guarded :: "('w, 'b, 'key, 'p) rest_deps \<Rightarrow> ('w \<times> Link list option, 'b) KubernikusAPI \<Rightarrow> 'b ApiRequest \<Rightarrow>
     ('w \<times> Link list option, 'b wire) go \<Rightarrow> bool" where
  "guarded d api req m \<longleftrightarrow>
     (\<forall>s. Header_Get (HTTPRequest.truncate req) ''X-Auth-Token'' = [] \<longrightarrow> refused m s 401 s) \<and>
     (\<forall>token msg w w1 cache. Header_Get (HTTPRequest.truncate req) ''X-Auth-Token'' = token \<longrightarrow> token \<noteq> [] \<longrightarrow>
        rd_Keystone d token w = (Ok (Inl (401, msg)), w1) \<longrightarrow> refused m (w, cache) 401 (w1, cache)) \<and>
     (\<forall>token usr err w w1 cache. Header_Get (HTTPRequest.truncate req) ''X-Auth-Token'' = token \<longrightarrow> token \<noteq> [] \<longrightarrow>
        rd_Keystone d token w = (Ok (Inr usr), w1) \<longrightarrow> api_Authorizer api req usr = Fail err \<longrightarrow>
        refused m (w, cache) 403 (w1, cache))"

lemma guarded_operation:
  assumes "api_KeystoneAuth api = Some (keystone_auth d)"
  shows "guarded d api req (authorize_bind_and_handle lib api B W run req (route_entry api (meth, pattern, op, True) ps))"
proof -
  let ?route = "route_entry api (meth, pattern, op, True) ps"
  let ?m = "authorize_bind_and_handle lib api B W run req ?route"
  have auths: "mr_Authenticators ?route = [APIKeyAuth ''x-auth-token'' (keystone_auth d)]" "mr_Authorizer ?route = api_Authorizer api"
    using assms by (simp_all add: route_entry_def AuthenticatorsFor_def)
  have refuse: "refused ?m s code s'"
    if "AuthorizeRequest ?route req s = (Ok (Inl (ApiErr code msg)), s')" "code < 600" for s code msg s'
    using that refused_error [OF that(2), of lib req msg s'] by (simp add: authorize_bind_and_handle_def refused_def)
  have none: "refused ?m s 401 s" if "Header_Get (HTTPRequest.truncate req) ''X-Auth-Token'' = []" for s
    by (rule refuse) (simp_all add: AuthorizeRequest_def auths APIKeyAuth_def token_header that Unauthenticated_def)
  have unknown: "refused ?m (w, cache) 401 (w1, cache)"
    if "Header_Get (HTTPRequest.truncate req) ''X-Auth-Token'' \<noteq> []"
      "rd_Keystone d (Header_Get (HTTPRequest.truncate req) ''X-Auth-Token'') w = (Ok (Inl (401, msg)), w1)" for msg w w1 cache
    by (rule refuse) (simp_all add: AuthorizeRequest_def auths APIKeyAuth_def token_header that keystone_auth_def)
  have denied: "refused ?m (w, cache) 403 (w1, cache)"
    if "Header_Get (HTTPRequest.truncate req) ''X-Auth-Token'' \<noteq> []"
      "rd_Keystone d (Header_Get (HTTPRequest.truncate req) ''X-Auth-Token'') w = (Ok (Inr usr), w1)"
      "api_Authorizer api req usr = Fail err" for usr err w w1 cache
    by (rule refuse) (simp_all add: AuthorizeRequest_def auths APIKeyAuth_def token_header that keystone_auth_def)
  show ?thesis unfolding guarded_def using none unknown denied by blast
qed

text \<open>C3: No effect without access. For each of the nine operations that the document puts under the
  keystone scheme, whatever the handlers, the parameters and the body of the request: without a
  token the answer is 401 and nothing happens at all; with a token that keystone does not know
  it is 401, and with a user whom the authorizer refuses it is 403, and in both cases the world
  is as keystone left it, so no handler has run and no resource was read or written.\<close>

theorem no_effect_without_access:
  assumes "Configure d (new_api d) = Ok api" "(meth, pattern, op, True) \<in> set swagger_operations"
    "HandlerFor (Init lib api) meth pattern = Some h"
  shows "guarded d api req (h req (route_entry api (meth, pattern, op, True) ps))"
proof -
  obtain auth where api: "api = configured_api d auth (new_api d)"
    using assms(1) by (auto simp: Configure_def elim!: obind_OkE)
  note handlers = initial_handlers [OF configured_fields(1), of lib d auth]
  note ops = ListClusters_ServeHTTP_def CreateCluster_ServeHTTP_def ShowCluster_ServeHTTP_def TerminateCluster_ServeHTTP_def
    UpdateCluster_ServeHTTP_def GetClusterCredentials_ServeHTTP_def GetClusterInfo_ServeHTTP_def GetClusterEvents_ServeHTTP_def
    GetOpenstackMetadata_ServeHTTP_def
  have key: "api_KeystoneAuth api = Some (keystone_auth d)" unfolding api by (rule configured_fields)
  note guard = guarded_operation [OF key, of req lib]
  have "guarded d api req (h req (route_entry api (meth, pattern, op, True) ps))"
    if "(meth, pattern, op, True) = x" "x \<in> set swagger_operations" for x
    using that assms(3) unfolding swagger_operations_def list.set insert_iff empty_iff api
    by - (elim disjE FalseE; (simp only: prod.inject simp_thms)?; (elim conjE)?; hypsubst?;
      (simp only: handlers ops option.inject)?; hypsubst?; (rule guard [unfolded api])?)
  then show ?thesis using assms(2) by blast
qed

section \<open>Bodies\<close>

text \<open>A validation error has an innermost error, whose code is one of a failed validation.\<close>

fun leafy :: "validation_error \<Rightarrow> bool" where
  "leafy (Validation p k) \<longleftrightarrow> True"
| "leafy (Composite es) \<longleftrightarrow> es \<noteq> [] \<and> (\<forall>e\<in>set es. leafy e)"

lemma leafy_flatten:
  "leafy err \<Longrightarrow> \<exists>c m rest. flattenComposite (of_validation msg err) = ApiErr c m # rest \<and> 600 \<le> c"
proof (induction err)
  case (Validation p k)
  then show ?case by (cases k) auto
next
  case (Composite es)
  then obtain e es' where es: "es = e # es'" by (cases es) auto
  then obtain c m rest where "flattenComposite (of_validation msg e) = ApiErr c m # rest" "600 \<le> c"
    using Composite.IH [of e] Composite.prems by auto
  then show ?case by (simp add: es)
qed

lemma leafy_composite:
  assumes "CompositeValidationError xs = Some err" "\<And>e. Some e \<in> set xs \<Longrightarrow> leafy e"
  shows "leafy err"
proof -
  let ?es = "[e. Some e \<leftarrow> xs]"
  have "err = Composite ?es" "?es \<noteq> []"
    using assms(1) by (cases ?es; simp add: CompositeValidationError_def)+
  moreover have "\<forall>e\<in>set ?es. leafy e" using assms(2) by (auto split: option.splits)
  ultimately show ?thesis by simp
qed

lemma leafy_ValidateName [simp]: "leafy (ValidateName nm e) \<longleftrightarrow> leafy e"
  by (cases e) auto

lemma leafy_checks: "RequiredString p s = Some e \<Longrightarrow> leafy e" "Pattern p s re = Some e \<Longrightarrow> leafy e"
  "KlusterPhase_Validate ph = Some e \<Longrightarrow> leafy e" "OpenstackSpec_Validate os = None"
  by (auto simp: RequiredString_def Pattern_def KlusterPhase_Validate_def OpenstackSpec_Validate_def CompositeValidationError_def
    split: if_splits)

lemma leafy_phase: "Some e = map_option (ValidateName nm) (KlusterPhase_Validate ph) \<Longrightarrow> leafy e"
  by (auto simp: KlusterPhase_Validate_def split: if_splits)

lemma leafy_named: "Some e = map_option (ValidateName nm) x \<Longrightarrow> (\<And>e. x = Some e \<Longrightarrow> leafy e) \<Longrightarrow> leafy e"
  by (cases x) auto

lemma leafy_first_error:
  "first_error a b = Some e \<Longrightarrow> (\<And>e. a = Some e \<Longrightarrow> leafy e) \<Longrightarrow> (\<And>e. b = Some e \<Longrightarrow> leafy e) \<Longrightarrow> leafy e"
  by (cases a) auto

lemma Kluster_Validate_leafy: "Kluster_Validate body = Some err \<Longrightarrow> leafy err"
proof -
  have spec: "leafy e" if "KlusterSpec_Validate sp = Some e" for sp e
    using that unfolding KlusterSpec_Validate_def
    by (rule leafy_composite) (auto simp: KlusterSpec_validateClusterCIDR_def KlusterSpec_validateNodePools_def
      KlusterSpec_validateOpenstack_def KlusterSpec_validateServiceCIDR_def leafy_checks split: if_splits)
  have status: "leafy e" if "KlusterStatus_Validate sp = Some e" for sp e
    using that unfolding KlusterStatus_Validate_def
    by (rule leafy_composite) (auto simp: KlusterStatus_validateNodePools_def KlusterStatus_validatePhase_def intro: leafy_phase split: if_splits)
  have name: "leafy e" if "Kluster_validateName body = Some e" for e
    using that unfolding Kluster_validateName_def by (rule leafy_first_error) (auto intro: leafy_checks)
  show "Kluster_Validate body = Some err \<Longrightarrow> leafy err"
    unfolding Kluster_Validate_def
    by (erule leafy_composite) (auto simp: Kluster_validateSpec_def Kluster_validateStatus_def intro: leafy_named spec status name split: if_splits)
qed

text \<open>The status of a body that cannot be bound: it is missing or empty, not readable, or not valid.\<close>

definition body_status :: "('b \<Rightarrow> body_read) \<Rightarrow> 'b option \<Rightarrow> int option" where
  "body_status consumer body =
     (case body of
        None \<Rightarrow> Some 422
      | Some bytes \<Rightarrow>
          (case consumer bytes of
             AtEOF \<Rightarrow> Some 422
           | Unreadable _ \<Rightarrow> Some 400
           | Decoded k \<Rightarrow> if Kluster_Validate k = None then None else Some 422))"

lemma bind_body_errors:
  assumes "body_status consumer (aq_Body req) = Some code" "aq_Body req \<noteq> None \<Longrightarrow> mr_Consumer route = Some consumer"
  shows "\<exists>e c m rest. bind_body lib req route = Ok ([e], None) \<and> flattenComposite e = ApiErr c m # rest \<and> asHTTPCode c = code"
proof (cases "aq_Body req")
  case None
  then show ?thesis using assms(1) by (simp add: bind_body_def required_body_def body_status_def asHTTPCode_def)
next
  case (Some bytes)
  then have con: "mr_Consumer route = Some consumer" using assms(2) by simp
  show ?thesis
  proof (cases "consumer bytes")
    case (Decoded k)
    then obtain err where err: "Kluster_Validate k = Some err" "code = 422"
      using assms(1) Some by (auto simp: body_status_def split: if_splits)
    obtain c m rest where "flattenComposite (of_validation (lib_Message lib) err) = ApiErr c m # rest" "600 \<le> c"
      using leafy_flatten [OF Kluster_Validate_leafy [OF err(1)]] by blast
    then show ?thesis using Some con Decoded err by (simp add: bind_body_def asHTTPCode_def)
  qed (use assms(1) Some con in \<open>auto simp: bind_body_def body_status_def required_body_def NewParseError_def asHTTPCode_def\<close>)
qed

text \<open>A body that cannot be bound reaches no handler. For creating and updating a cluster, with a
  user whom the authorizer allows: if the body is missing or empty the answer is 422, if JSON
  cannot read it 400, and if it is not valid 422, and the world is as keystone left it, whatever
  handlers are installed.\<close>

theorem invalid_body_refused:
  assumes "deployed d lib" "Configure d (new_api d) = Ok api" "json_request token req"
    "(meth, pattern, op) \<in> {(''POST'', ''/api/v1/clusters'', ''CreateCluster''), (''PUT'', ''/api/v1/clusters/{name}'', ''UpdateCluster'')}"
    "HandlerFor (Init lib api) meth pattern = Some h" "req_Header req ''Content-Type'' = [''application/json'']"
    "rd_Keystone d token w = (Ok (Inr usr), w1)" "api_Authorizer api req usr = Ok ()"
    "body_status (rd_consumer d) (aq_Body req) = Some code"
  shows "refused (h req (route_entry api (meth, pattern, op, True) ps)) (w, cache) code (w1, cache)"
proof -
  obtain auth where api: "api = configured_api d auth (new_api d)"
    using assms(2) by (auto simp: Configure_def elim!: obind_OkE)
  let ?route = "route_entry api (meth, pattern, op, True) ps"
  have auth: "AuthorizeRequest ?route req (w, cache) = (Ok (Inr (Some usr)), w1, cache)"
    using assms(3,7,8) by (simp add: AuthorizeRequest_def route_entry_def AuthenticatorsFor_def api configured_fields
      APIKeyAuth_def token_header json_request_def Header_Get_def keystone_auth_def)
  define route where "route = (if aq_Body req = None then ?route else ?route\<lparr>mr_Consumer := Some (rd_consumer d)\<rparr>)"
  have "request_ContentType lib req = Inr ''application/json''"
    using assms(1,6) by (simp add: request_ContentType_def Header_Get_def deployed_def Let_def)
  moreover have "validateContentType lib json_types ''application/json'' = None"
  proof -
    have "ContainsStringsCI json_types ''application/json''" by code_simp
    then show ?thesis using assms(1) by (simp add: validateContentType_def deployed_def)
  qed
  moreover have "lib_Negotiate lib req json_types ''application/json'' = ''application/json''"
    using assms(1,3) by (simp add: deployed_def json_request_def json_types_def)
  moreover have "mr_Consumers ?route ''application/json'' = Some (rd_consumer d)"
    using token_header(4) by (simp add: route_entry_def ConsumersFor_def api configured_fields json_types_def)
  ultimately have select: "select_consumer lib req ?route = Inr route"
    by (auto simp: select_consumer_def route_def route_entry_def)
  obtain e c m rest where body: "bind_body lib req route = Ok ([e], None)" "flattenComposite e = ApiErr c m # rest" "asHTTPCode c = code"
  proof -
    have "aq_Body req \<noteq> None \<Longrightarrow> mr_Consumer route = Some (rd_consumer d)" by (auto simp: route_def)
    from bind_body_errors [where lib = lib, OF assms(9) this] show ?thesis using that by blast
  qed
  have serve: "refused (authorize_bind_and_handle lib api B W run req ?route) (w, cache) code (w1, cache)"
    if "B req route = Ok (Inl (CompositeErr [e]))" for B run and W :: "'x response \<Rightarrow> rendered"
    using that auth select body(2,3)
    by (simp add: authorize_bind_and_handle_def bind_and_handle_def BindValidRequest_def refused_def respond_error_def ServeError_def)
  have binders: "CreateCluster_BindRequest lib req route = Ok (Inl (CompositeErr [e]))"
    "UpdateCluster_BindRequest lib req route = Ok (Inl (CompositeErr [e]))"
    by (simp_all add: CreateCluster_BindRequest_def UpdateCluster_BindRequest_def body(1) bound_or_errors_def)
  from assms(4) consider "meth = ''POST''" "pattern = ''/api/v1/clusters''" | "meth = ''PUT''" "pattern = ''/api/v1/clusters/{name}''"
    by auto
  then show ?thesis
  proof cases
    case 1
    then have h: "h = CreateCluster_ServeHTTP lib api"
      using assms(5) initial_handlers(8) [OF configured_fields(1), of lib d auth] by (simp add: api)
    show ?thesis unfolding h CreateCluster_ServeHTTP_def by (rule serve) (rule binders(1))
  next
    case 2
    then have h: "h = UpdateCluster_ServeHTTP lib api"
      using assms(5) initial_handlers(3) [OF configured_fields(1), of lib d auth] by (simp add: api)
    show ?thesis unfolding h UpdateCluster_ServeHTTP_def by (rule serve) (rule binders(2))
  qed
qed

section \<open>URLs and registrations\<close>

definition named_builders :: "(string \<times> string \<times> string list \<times> (string \<Rightarrow> string \<Rightarrow> FullURL outcome)) list" where
  "named_builders =
     [(''GET'', ''ShowCluster'', [], ShowClusterURL_Build), (''DELETE'', ''TerminateCluster'', [], TerminateClusterURL_Build),
      (''PUT'', ''UpdateCluster'', [], UpdateClusterURL_Build),
      (''GET'', ''GetClusterCredentials'', [''credentials''], GetClusterCredentialsURL_Build),
      (''GET'', ''GetClusterInfo'', [''info''], GetClusterInfoURL_Build),
      (''GET'', ''GetClusterEvents'', [''events''], GetClusterEventsURL_Build)]"

definition routed_path :: "FullURL \<Rightarrow> string" where
  "routed_path u = EscapedPath \<lparr>url_Path = fu_Path u, url_RawPath = []\<rparr>"

lemma named_build:
  assumes "(meth, op, suff, build) \<in> set named_builders"
  shows "(meth, op, suff) \<in> set named_operations" "\<exists>typ. build = named_url typ (named_pattern suff)"
proof -
  have "map (\<lambda>(m, o', s, _). (m, o', s)) named_builders = named_operations" by (simp add: named_builders_def named_operations_def)
  then have "(\<lambda>(m, o', s, _). (m, o', s)) ` set named_builders = set named_operations" by (metis image_set)
  then show "(meth, op, suff) \<in> set named_operations" using assms by force
  have pats: "named_pattern [] = ''/api/v1/clusters/{name}''" "named_pattern [''credentials''] = ''/api/v1/clusters/{name}/credentials''"
    "named_pattern [''info''] = ''/api/v1/clusters/{name}/info''" "named_pattern [''events''] = ''/api/v1/clusters/{name}/events''"
    by code_simp+
  note defs = ShowClusterURL_Build_def TerminateClusterURL_Build_def UpdateClusterURL_Build_def GetClusterCredentialsURL_Build_def
    GetClusterInfoURL_Build_def GetClusterEvents_BindRequest_def GetClusterEventsURL_Build_def
  show "\<exists>typ. build = named_url typ (named_pattern suff)"
    using assms unfolding named_builders_def list.set insert_iff empty_iff prod.inject
    by - (elim disjE conjE FalseE; hypsubst; rule exI; rule ext; rule ext; simp only: defs pats)
qed

text \<open>C22: The URL builders agree with the router. The URL that the generated builder of an operation
  on a cluster builds for a good name, with the empty base path or the root, is sent as a path
  that the router gives to that operation under its method, and the parameter that the operation
  binds is the name again. Without a name there is no URL.\<close>

theorem built_urls_routed:
  assumes "denco_serves denco_Build" "good_name name" "basePath \<in> {[], ''/''}" "(meth, op, suff, build) \<in> set named_builders"
  shows "(\<exists>u router ps. build basePath name = Ok u \<and> DefaultRouter denco_Build swagger_operations meth = Some router \<and>
       router (path_Clean (routed_path u)) = Some (op, ps) \<and> bind_name (fst (GetOK (map unescape_param ps) ''name'')) = name) \<and>
    (\<exists>msg. build basePath [] = Fail (Errorf msg))"
proof -
  note named = named_build(1) [OF assms(4)]
  obtain urlType where build: "build = named_url urlType (named_pattern suff)" using named_build(2) [OF assms(4)] by blast
  let ?es = "named_elems name suff"
  have good: "list_all good_name ?es" "?es \<noteq> []" using good_elems [OF assms(2)] named_suffixes(1) [OF named] by auto
  have url: "build basePath name = Ok (url_of_path (slashed ?es))"
  proof -
    have "path_Join [basePath, slashed ?es] = slashed ?es"
    proof (cases "basePath = []")
      case True
      have "slashed ?es \<noteq> []" using good(2) by (cases ?es) auto
      then show ?thesis using True path_Clean_slashed [OF good_clean [OF good(1)] good(2)] by (simp add: path_Join_def)
    next
      case False
      then show ?thesis using assms(3) path_Join_root [OF good_clean [OF good(1)] good(2)] by simp
    qed
    then show ?thesis using assms(2) named_suffixes(3) [OF named]
      by (simp add: build named_url_def good_name_def clean_segment_def)
  qed
  have path: "routed_path (url_of_path (slashed ?es)) = slashed (named_elems (url_escape name) suff)"
  proof -
    have "slashed ?es \<noteq> ''*''" using good(2) by (cases ?es) auto
    then show ?thesis
      using good_elems(3) [OF assms(2) _ named_suffixes(2) [OF named]] by (simp add: routed_path_def url_of_path_def EscapedPath_def escape_slashed)
  qed
  note clean = name_unescaped(2) [OF assms(2), of url_escape, simplified]
  have "list_all clean_segment (named_elems (url_escape name) suff)" "named_elems (url_escape name) suff \<noteq> []"
    using named_elems_clean [OF named clean] by auto
  then have stays: "path_Clean (slashed (named_elems (url_escape name) suff)) = slashed (named_elems (url_escape name) suff)"
    by (rule path_Clean_slashed)
  note found = named_matches [OF named clean]
  obtain r where r: "denco_Build (routes_for (operation_routes swagger_operations) meth) = Ok r"
    "r (slashed (named_elems (url_escape name) suff)) = Some (op, [(''name'', url_escape name)])"
    using assms(1) found unfolding denco_serves_def by blast
  have "routes_for (operation_routes swagger_operations) meth \<noteq> []" using found by (auto simp: matches_def)
  then have router: "DefaultRouter denco_Build swagger_operations meth = Some r" using r(1) by (simp add: DefaultRouter_def)
  have "bind_name (fst (GetOK (map unescape_param [(''name'', url_escape name)]) ''name'')) = name"
    by (simp add: unescape_name [OF assms(2)] GetOK_def bind_name_def)
  then show ?thesis
    using url router r(2) by (intro conjI exI [of _ "url_of_path (slashed ?es)"]) (auto simp: path stays build named_url_def)
qed

theorem built_urls_routed_witness:
  "good_name ''prod 1'' \<and> (\<exists>router. DefaultRouter first_match swagger_operations ''DELETE'' = Some router) \<and>
   (\<exists>u. TerminateClusterURL_Build [] ''prod 1'' = Ok u) \<and> (\<exists>msg. TerminateClusterURL_Build [] [] = Fail (Errorf msg))"
proof -
  have good: "good_name ''prod 1''" by code_simp
  have "(''DELETE'', ''TerminateCluster'', [], TerminateClusterURL_Build) \<in> set named_builders" by (simp add: named_builders_def)
  from built_urls_routed [OF first_match_serves good _ this, of "[]"] good show ?thesis by auto
qed

text \<open>Nothing is missing in an API that \<open>Configure\<close> has returned, and nothing in a new one.\<close>

lemma registered:
  "unregistered (NewKubernikusAPI consumer producer) = []" "unregistered (configured_api d auth api) = []"
  by (simp_all add: unregistered_def NewKubernikusAPI_def configured_api_def Let_def)

lemma configured_valid:
  "KubernikusAPI_Validate (NewKubernikusAPI consumer producer) = None"
  "Configure d api0 = Ok api \<Longrightarrow> KubernikusAPI_Validate api = None"
proof -
  show "KubernikusAPI_Validate (NewKubernikusAPI consumer producer) = None" by (simp add: KubernikusAPI_Validate_def registered)
  assume "Configure d api0 = Ok api"
  then obtain auth where "api = configured_api d auth api0" unfolding Configure_def by (auto elim!: obind_OkE)
  then show "KubernikusAPI_Validate api = None" by (simp add: KubernikusAPI_Validate_def registered)
qed

section \<open>Witnesses\<close>

definition demo_post_request :: "string \<Rightarrow> payload ApiRequest" where
  "demo_post_request token = \<lparr>req_Header = (\<lambda>_. [])(''Accept'' := [''application/json''], ''Content-Type'' := [''application/json''],
       ''X-Auth-Token'' := [token]), req_Host = ''kubernikus.example'', req_TLS = True,
     aq_Method = ''POST'', aq_URL = \<lparr>url_Path = ''/api/v1/clusters'', url_RawPath = []\<rparr>, aq_Body = None\<rparr>"

lemma demo_configured:
  obtains auth where "Configure demo_deps (new_api demo_deps) = Ok (configured_api demo_deps auth (new_api demo_deps))"
    "NewOsloPolicyAuthorizer first_match demo_parse (operation_routes swagger_operations) policy_json = Ok auth"
    "pa_routers auth ''POST'' = Some (\<lambda>path. case matches (routes_for (operation_routes swagger_operations) ''POST'') path of
       [] \<Rightarrow> None | f # _ \<Rightarrow> Some f)"
proof -
  obtain auth where auth: "Configure demo_deps (new_api demo_deps) = Ok (configured_api demo_deps auth (new_api demo_deps))"
    "NewOsloPolicyAuthorizer (rd_denco demo_deps) (rd_parseRule demo_deps) (operation_routes swagger_operations) policy_json = Ok auth"
    "\<And>meth. meth \<in> {''GET'', ''POST'', ''DELETE'', ''PUT''} \<Longrightarrow>
       \<exists>r. rd_denco demo_deps (routes_for (operation_routes swagger_operations) meth) = Ok r \<and> pa_routers auth meth = Some r"
    using configured [OF demo_deployed] by blast
  have f: "rd_denco demo_deps = first_match" "rd_parseRule demo_deps = demo_parse" by (simp_all add: demo_deps_def)
  from auth(3) [of "''POST''"] show ?thesis using that auth(1,2) by (auto simp: f first_match_def)
qed

theorem no_effect_without_access_witness:
  "\<exists>api h. Configure demo_deps (new_api demo_deps) = Ok api \<and> HandlerFor (Init demo_lib api) ''POST'' ''/api/v1/clusters'' = Some h \<and>
     refused (h (demo_post_request []) (route_entry api (''POST'', ''/api/v1/clusters'', ''CreateCluster'', True) [])) (Map.empty, None) 401 (Map.empty, None)"
proof -
  obtain auth where auth: "Configure demo_deps (new_api demo_deps) = Ok (configured_api demo_deps auth (new_api demo_deps))"
    using demo_configured by blast
  let ?api = "configured_api demo_deps auth (new_api demo_deps)"
  have h: "HandlerFor (Init demo_lib ?api) ''POST'' ''/api/v1/clusters'' = Some (CreateCluster_ServeHTTP demo_lib ?api)"
    by (rule initial_handlers [OF configured_fields(1)])
  have op: "(''POST'', ''/api/v1/clusters'', ''CreateCluster'', True) \<in> set swagger_operations" by (simp add: swagger_operations_def)
  have none: "Header_Get (HTTPRequest.truncate (demo_post_request [])) ''X-Auth-Token'' = []" by (simp add: demo_post_request_def Header_Get_def)
  note guard = no_effect_without_access [OF auth op h, of "demo_post_request []" "[]", unfolded guarded_def]
  show ?thesis
    by (rule exI, rule exI, rule conjI, rule auth, rule conjI, rule h)
      (rule guard [THEN conjunct1, THEN spec, THEN mp, OF none])
qed

theorem invalid_body_refused_witness:
  "\<exists>api h. Configure demo_deps (new_api demo_deps) = Ok api \<and> HandlerFor (Init demo_lib api) ''POST'' ''/api/v1/clusters'' = Some h \<and>
     refused (h (demo_post_request ''t1'') (route_entry api (''POST'', ''/api/v1/clusters'', ''CreateCluster'', True) [])) (Map.empty, None) 422 (Map.empty, None)"
proof -
  obtain auth where auth: "Configure demo_deps (new_api demo_deps) = Ok (configured_api demo_deps auth (new_api demo_deps))"
    "NewOsloPolicyAuthorizer first_match demo_parse (operation_routes swagger_operations) policy_json = Ok auth"
    "pa_routers auth ''POST'' = Some (\<lambda>path. case matches (routes_for (operation_routes swagger_operations) ''POST'') path of
       [] \<Rightarrow> None | f # _ \<Rightarrow> Some f)" by (rule demo_configured)
  let ?api = "configured_api demo_deps auth (new_api demo_deps)"
  have h: "HandlerFor (Init demo_lib ?api) ''POST'' ''/api/v1/clusters'' = Some (CreateCluster_ServeHTTP demo_lib ?api)"
    by (rule initial_handlers [OF configured_fields(1)])
  have path: "EscapedPath \<lparr>url_Path = ''/api/v1/clusters'', url_RawPath = []\<rparr> = ''/api/v1/clusters''"
    "path_Clean ''/api/v1/clusters'' = ''/api/v1/clusters''"
    "matches (routes_for (operation_routes swagger_operations) ''POST'') ''/api/v1/clusters'' = [(''CreateCluster'', [])]"
    "allowed_by_policy ''CreateCluster'' [''kubernetes_admin'']" by code_simp+
  have fuel: "rd_fuel demo_deps = 2" by (simp add: demo_deps_def)
  have "Authorize 2 auth ''POST'' ''/api/v1/clusters'' ''/api/v1/clusters'' demo_principal = Ok ()"
    using Authorize_by_policy [OF demo_parses order_refl auth(2) _ _ auth(3), of "''CreateCluster''"] path
    by (simp add: demo_principal_def)
  then have allowed: "api_Authorizer ?api (demo_post_request ''t1'') demo_principal = Ok ()"
    using path(1) by (simp add: configured_fields policy_authorizer_def demo_post_request_def fuel)
  have "keystone_url ''https://keystone/v3'' = ''https://keystone/v3''" by code_simp
  then have key: "rd_Keystone demo_deps ''t1'' Map.empty = (Ok (Inr demo_principal), Map.empty)"
    by (simp add: demo_deps_def Keystone_def demo_token_def demo_principal_def Let_def)
  have req: "json_request ''t1'' (demo_post_request ''t1'')" "req_Header (demo_post_request ''t1'') ''Content-Type'' = [''application/json'']"
    "body_status (rd_consumer demo_deps) (aq_Body (demo_post_request ''t1'')) = Some 422"
    by (simp_all add: json_request_def demo_post_request_def body_status_def)
  have "refused (CreateCluster_ServeHTTP demo_lib ?api (demo_post_request ''t1'')
      (route_entry ?api (''POST'', ''/api/v1/clusters'', ''CreateCluster'', True) [])) (Map.empty, None) 422 (Map.empty, None)"
    by (rule invalid_body_refused [OF demo_deployed auth(1) req(1) _ h req(2) key allowed req(3)]) simp
  then show ?thesis by (intro exI conjI) (rule auth(1) | rule h | assumption)+
qed

end
