(* ===== verification/HttpServer.thy ===== *)
theory HttpServer
  imports Logging "HOL-Library.Word"
begin

text \<open>
  \<open>pkg/api/rest/server.go\<close>: the server of the API. Its flags and the variables of the environment
  that override them, the listeners it opens, and the servers it runs on them. The state of a
  \<open>Server\<close> is passed along beside the world, as the second component of \<open>'w \<times> Server\<close>.

  The network, the file system, the environment and \<open>tls.LoadX509KeyPair\<close> are operations of
  \<open>process\<close>; so is \<open>pr_graceful\<close>, the method \<open>Serve\<close> of the vendored \<open>graceful.Server\<close>. The API is
  the handler that its \<open>Serve\<close> builds, its logger and its \<open>ServerShutdown\<close>. Durations are
  nanoseconds. A process that exits is the outcome \<open>Panics ''exit ...''\<close>: nothing runs after it.
\<close>

section \<open>The process\<close>

record NetListener =
  nl_network :: string
  nl_addr :: string

record 'cert TLSConfig =
  tc_Certificates :: "'cert option list"
  tc_ClientCAs :: "string list"
  tc_RequireAndVerifyClientCert :: bool
  tc_PreferServerCipherSuites :: bool
  tc_CurvePreferences :: "string list"
  tc_NextProtos :: "string list"
  tc_MinVersion :: string
  tc_CipherSuites :: "string list"

record ('h, 'cert) GracefulServer =
  gs_MaxHeaderBytes :: int
  gs_ReadTimeout :: int
  gs_WriteTimeout :: int
  gs_KeepAlivesEnabled :: bool
  gs_TCPKeepAlive :: int
  gs_ListenLimit :: int
  gs_Timeout :: int
  gs_Handler :: 'h
  gs_TLSConfig :: "'cert TLSConfig option"

text \<open>A goroutine that serves_schemes: the scheme it is started for, what it logs as its address, and the
  server and the listener it is started with.\<close>

record ('h, 'cert) serving =
  sg_scheme :: string
  sg_where :: string
  sg_server :: "('h, 'cert) GracefulServer"
  sg_listener :: "NetListener option"

record ('w, 'h, 'cert) process =
  pr_Getenv :: "string \<Rightarrow> string"
  pr_Listen :: "string \<Rightarrow> string \<Rightarrow> ('w, NetListener) go"
  pr_log_Printf :: "string \<Rightarrow> ('w, unit) go"
  pr_Stderr :: "string \<Rightarrow> ('w, unit) go"
  pr_LoadX509KeyPair :: "string \<Rightarrow> string \<Rightarrow> ('w, 'cert) go"
  pr_ReadFile :: "string \<Rightarrow> ('w, string) go"
  pr_certs_from_PEM :: "string \<Rightarrow> string list"
  pr_graceful :: "('h, 'cert) GracefulServer \<Rightarrow> NetListener option \<Rightarrow> ('w, unit) go"

record ('w, 'h) HostedAPI =
  ha_Logger :: "(string \<Rightarrow> ('w, unit) go) option"
  ha_Serve :: 'h
  ha_ServerShutdown :: "('w, unit) go"

definition os_Exit :: "int \<Rightarrow> ('w, 'a) go" where
  "os_Exit code = panic (''exit '' @ Itoa code)"

text \<open>\<open>strconv.Atoi\<close> on a 64-bit platform: an optional sign and decimal digits.\<close>

definition Atoi_error :: "string \<Rightarrow> string \<Rightarrow> goerr" where
  "Atoi_error s why = Errorf (''strconv.Atoi: parsing '' @ CHR 0x22 # s @ CHR 0x22 # '': '' @ why)"

definition Atoi :: "string \<Rightarrow> int outcome" where
  "Atoi s =
     (let neg = (s \<noteq> [] \<and> hd s = CHR ''-'');
          ds = (if s \<noteq> [] \<and> hd s \<in> {CHR ''-'', CHR ''+''} then tl s else s)
      in if ds = [] \<or> \<not> list_all is_digit ds then Fail (Atoi_error s ''invalid syntax'')
         else let n = int (digits_val ds)
              in if neg then (if n \<le> 2 ^ 63 then Ok (- n) else Fail (Atoi_error s ''value out of range''))
                 else if n < 2 ^ 63 then Ok n else Fail (Atoi_error s ''value out of range''))"

text \<open>\<open>net.JoinHostPort\<close>, and \<open>swag.SplitHostPort\<close> of the vendored package, whose port is a number.\<close>

definition JoinHostPort :: "string \<Rightarrow> string \<Rightarrow> string" where
  "JoinHostPort host port =
     (if CHR '':'' \<in> set host \<or> CHR ''%'' \<in> set host then ''['' @ host @ '']:'' @ port else host @ '':'' @ port)"

definition swag_SplitHostPort :: "string \<Rightarrow> (string \<times> int) outcome" where
  "swag_SplitHostPort addr =
     obind (SplitHostPort addr) (\<lambda>(h, p).
       if p = [] then Fail (missing_port addr)
       else obind (Atoi p) (\<lambda>pi. Ok (h, pi)))"

section \<open>Flags and environment\<close>

record ServerFlags =
  fl_scheme :: "string list"
  fl_cleanup_timeout :: int
  fl_max_header_size :: "64 word"
  fl_socket_path :: string
  fl_host :: string
  fl_port :: int
  fl_listen_limit :: int
  fl_keep_alive :: int
  fl_read_timeout :: int
  fl_write_timeout :: int
  fl_tls_host :: string
  fl_tls_port :: int
  fl_tls_certificate :: string
  fl_tls_key :: string
  fl_tls_ca :: string
  fl_tls_listen_limit :: int
  fl_tls_keep_alive :: int
  fl_tls_read_timeout :: int
  fl_tls_write_timeout :: int

definition seconds :: "int \<Rightarrow> int" where
  "seconds n = n * 1000000000"

definition defaultSchemes :: "string list" where
  "defaultSchemes = [''http'']"

text \<open>The values of the flags that are not given on the command line.\<close>

definition default_server_flags :: ServerFlags where
  "default_server_flags =
     \<lparr> fl_scheme = defaultSchemes, fl_cleanup_timeout = seconds 10, fl_max_header_size = 1000000,
       fl_socket_path = ''/var/run/todo-list.sock'',
       fl_host = ''localhost'', fl_port = 0, fl_listen_limit = 0,
       fl_keep_alive = seconds 180, fl_read_timeout = seconds 30, fl_write_timeout = seconds 30,
       fl_tls_host = ''localhost'', fl_tls_port = 0,
       fl_tls_certificate = [], fl_tls_key = [], fl_tls_ca = [],
       fl_tls_listen_limit = 0, fl_tls_keep_alive = seconds 180,
       fl_tls_read_timeout = seconds 30, fl_tls_write_timeout = seconds 30 \<rparr>"

fun stringEnvOverride :: "(string \<Rightarrow> string) \<Rightarrow> string \<Rightarrow> string \<Rightarrow> string list \<Rightarrow> string" where
  "stringEnvOverride env orig def [] = (if def \<noteq> [] \<and> orig = [] then def else orig)"
| "stringEnvOverride env orig def (k # ks) =
     (if env k \<noteq> [] then env k else stringEnvOverride env orig def ks)"

fun intEnvOverride :: "('w, 'h, 'cert) process \<Rightarrow> int \<Rightarrow> int \<Rightarrow> string list \<Rightarrow> ('w, int) go" where
  "intEnvOverride pr orig def [] = ret (if def \<noteq> 0 \<and> orig = 0 then def else orig)"
| "intEnvOverride pr orig def (k # ks) =
     (if pr_Getenv pr k \<noteq> [] then
        (case Atoi (pr_Getenv pr k) of
           Ok v \<Rightarrow> ret v
         | _ \<Rightarrow> bnd (pr_Stderr pr (k @ '' is not a valid number'')) (\<lambda>_. os_Exit 1))
      else intEnvOverride pr orig def ks)"

section \<open>The server\<close>

text \<open>\<open>sv_goroutines\<close> are the goroutines that \<open>Serve\<close> has started: they are not a field of the
  source, which keeps them in the runtime.\<close>

record ('w, 'h, 'cert) Server =
  sv_EnabledListeners :: "string list"
  sv_CleanupTimeout :: int
  sv_MaxHeaderSize :: "64 word"
  sv_SocketPath :: string
  sv_domainSocketL :: "NetListener option"
  sv_Host :: string
  sv_Port :: int
  sv_ListenLimit :: int
  sv_KeepAlive :: int
  sv_ReadTimeout :: int
  sv_WriteTimeout :: int
  sv_httpServerL :: "NetListener option"
  sv_TLSHost :: string
  sv_TLSPort :: int
  sv_TLSCertificate :: string
  sv_TLSCertificateKey :: string
  sv_TLSCACertificate :: string
  sv_TLSListenLimit :: int
  sv_TLSKeepAlive :: int
  sv_TLSReadTimeout :: int
  sv_TLSWriteTimeout :: int
  sv_httpsServerL :: "NetListener option"
  sv_api :: "('w, 'h) HostedAPI option"
  sv_handler :: "'h option"
  sv_hasListeners :: bool
  sv_goroutines :: "('h, 'cert) serving list"

definition NewServer ::
  "('w, 'h, 'cert) process \<Rightarrow> ServerFlags \<Rightarrow> ('w, 'h) HostedAPI option \<Rightarrow> ('w, ('w, 'h, 'cert) Server) go" where
  "NewServer pr fl api =
     (let host = stringEnvOverride (pr_Getenv pr) (fl_host fl) [] [''HOST'']
      in bnd (intEnvOverride pr (fl_port fl) 0 [''PORT'']) (\<lambda>port.
         bnd (intEnvOverride pr (fl_tls_port fl) 0 [''TLS_PORT'']) (\<lambda>tls_port.
         ret \<lparr> sv_EnabledListeners = fl_scheme fl, sv_CleanupTimeout = fl_cleanup_timeout fl,
               sv_MaxHeaderSize = fl_max_header_size fl, sv_SocketPath = fl_socket_path fl,
               sv_domainSocketL = None, sv_Host = host, sv_Port = port,
               sv_ListenLimit = fl_listen_limit fl, sv_KeepAlive = fl_keep_alive fl,
               sv_ReadTimeout = fl_read_timeout fl, sv_WriteTimeout = fl_write_timeout fl,
               sv_httpServerL = None,
               sv_TLSHost = stringEnvOverride (pr_Getenv pr) (fl_tls_host fl) host [''TLS_HOST'', ''HOST''],
               sv_TLSPort = tls_port,
               sv_TLSCertificate = stringEnvOverride (pr_Getenv pr) (fl_tls_certificate fl) [] [''TLS_CERTIFICATE''],
               sv_TLSCertificateKey = stringEnvOverride (pr_Getenv pr) (fl_tls_key fl) [] [''TLS_PRIVATE_KEY''],
               sv_TLSCACertificate = stringEnvOverride (pr_Getenv pr) (fl_tls_ca fl) [] [''TLS_CA_CERTIFICATE''],
               sv_TLSListenLimit = fl_tls_listen_limit fl, sv_TLSKeepAlive = fl_tls_keep_alive fl,
               sv_TLSReadTimeout = fl_tls_read_timeout fl, sv_TLSWriteTimeout = fl_tls_write_timeout fl,
               sv_httpsServerL = None, sv_api = api, sv_handler = None, sv_hasListeners = False,
               sv_goroutines = [] \<rparr>)))"

definition ConfigureAPI :: "('w, 'h, 'cert) Server \<Rightarrow> ('w, 'h, 'cert) Server" where
  "ConfigureAPI s = (case sv_api s of Some api \<Rightarrow> s\<lparr>sv_handler := Some (ha_Serve api)\<rparr> | None \<Rightarrow> s)"

definition SetAPI ::
  "('w, 'h, 'cert) process \<Rightarrow> ('w, 'h) HostedAPI option \<Rightarrow> ('w, 'h, 'cert) Server \<Rightarrow> ('w, 'h, 'cert) Server" where
  "SetAPI pr api s =
     (case api of
        None \<Rightarrow> s\<lparr>sv_api := None, sv_handler := None\<rparr>
      | Some a \<Rightarrow> s\<lparr>sv_api := Some (a\<lparr>ha_Logger := Some (pr_log_Printf pr)\<rparr>), sv_handler := Some (ha_Serve a)\<rparr>)"

definition SetHandler :: "'h \<Rightarrow> ('w, 'h, 'cert) Server \<Rightarrow> ('w, 'h, 'cert) Server" where
  "SetHandler h s = s\<lparr>sv_handler := Some h\<rparr>"

definition hasScheme :: "('w, 'h, 'cert) Server \<Rightarrow> string \<Rightarrow> bool" where
  "hasScheme s scheme \<longleftrightarrow>
     scheme \<in> set (if sv_EnabledListeners s = [] then defaultSchemes else sv_EnabledListeners s)"

text \<open>A program of the server: over the world and the server.\<close>

type_synonym ('w, 'h, 'cert, 'a) server_go = "('w \<times> ('w, 'h, 'cert) Server, 'a) go"

definition api_logger :: "('w, 'h, 'cert) process \<Rightarrow> ('w, 'h, 'cert) Server \<Rightarrow> string \<Rightarrow> ('w, unit) go" where
  "api_logger pr s =
     (case Option.bind (sv_api s) ha_Logger of Some lg \<Rightarrow> lg | None \<Rightarrow> pr_log_Printf pr)"

definition Logf :: "('w, 'h, 'cert) process \<Rightarrow> string \<Rightarrow> ('w, 'h, 'cert, unit) server_go" where
  "Logf pr msg = bnd (client_get (\<lambda>s. s)) (\<lambda>s. svc (api_logger pr s msg))"

definition Fatalf :: "('w, 'h, 'cert) process \<Rightarrow> string \<Rightarrow> ('w, 'h, 'cert, 'a) server_go" where
  "Fatalf pr msg = bnd (Logf pr msg) (\<lambda>_. os_Exit 1)"

definition Shutdown :: "('w, 'h, 'cert, unit) server_go" where
  "Shutdown = bnd (client_get sv_api) (\<lambda>api.
     case api of
       Some a \<Rightarrow> svc (ha_ServerShutdown a)
     | None \<Rightarrow> panic ''invalid memory address or nil pointer dereference'')"

section \<open>Listening\<close>

text \<open>\<open>Listen\<close> copies what is not set for https from http, then opens a listener for each enabled
  scheme; an error leaves the listeners that are open already.\<close>

definition inherit_tls :: "('w, 'h, 'cert) Server \<Rightarrow> ('w, 'h, 'cert) Server" where
  "inherit_tls s =
     (if hasScheme s ''https'' then
        s\<lparr> sv_TLSHost := (if sv_TLSHost s = [] then sv_Host s else sv_TLSHost s),
           sv_TLSListenLimit := (if sv_TLSListenLimit s = 0 then sv_ListenLimit s else sv_TLSListenLimit s),
           sv_TLSKeepAlive := (if sv_TLSKeepAlive s = 0 then sv_KeepAlive s else sv_TLSKeepAlive s),
           sv_TLSReadTimeout := (if sv_TLSReadTimeout s = 0 then sv_ReadTimeout s else sv_TLSReadTimeout s),
           sv_TLSWriteTimeout := (if sv_TLSWriteTimeout s = 0 then sv_WriteTimeout s else sv_TLSWriteTimeout s) \<rparr>
      else s)"

definition when_scheme :: "string \<Rightarrow> ('w, 'h, 'cert, unit) server_go \<Rightarrow> ('w, 'h, 'cert, unit) server_go" where
  "when_scheme scheme m = bnd (client_get (\<lambda>s. hasScheme s scheme)) (\<lambda>on. if on then m else ret ())"

definition listen_unix :: "('w, 'h, 'cert) process \<Rightarrow> ('w, 'h, 'cert, unit) server_go" where
  "listen_unix pr =
     bnd (client_get sv_SocketPath) (\<lambda>path.
     bnd (svc (pr_Listen pr ''unix'' path)) (\<lambda>l.
     client_set (\<lambda>s. s\<lparr>sv_domainSocketL := Some l\<rparr>)))"

definition listen_tcp ::
  "('w, 'h, 'cert) process \<Rightarrow> string \<Rightarrow> int \<Rightarrow> ('w, 'h, 'cert, string \<times> int \<times> NetListener) server_go" where
  "listen_tcp pr host port =
     bnd (svc (pr_Listen pr ''tcp'' (JoinHostPort host (Itoa port)))) (\<lambda>l.
     bnd (lift_outcome (swag_SplitHostPort (nl_addr l))) (\<lambda>(h, p). ret (h, p, l)))"

definition listen_http :: "('w, 'h, 'cert) process \<Rightarrow> ('w, 'h, 'cert, unit) server_go" where
  "listen_http pr =
     bnd (client_get (\<lambda>s. (sv_Host s, sv_Port s))) (\<lambda>(host, port).
     bnd (listen_tcp pr host port) (\<lambda>(h, p, l).
     client_set (\<lambda>s. s\<lparr>sv_Host := h, sv_Port := p, sv_httpServerL := Some l\<rparr>)))"

definition listen_https :: "('w, 'h, 'cert) process \<Rightarrow> ('w, 'h, 'cert, unit) server_go" where
  "listen_https pr =
     bnd (client_get (\<lambda>s. (sv_TLSHost s, sv_TLSPort s))) (\<lambda>(host, port).
     bnd (listen_tcp pr host port) (\<lambda>(h, p, l).
     client_set (\<lambda>s. s\<lparr>sv_TLSHost := h, sv_TLSPort := p, sv_httpsServerL := Some l\<rparr>)))"

definition Listen :: "('w, 'h, 'cert) process \<Rightarrow> ('w, 'h, 'cert, unit) server_go" where
  "Listen pr =
     bnd (client_get sv_hasListeners) (\<lambda>done.
     if done then ret ()
     else
       bnd (client_set inherit_tls) (\<lambda>_.
       bnd (when_scheme ''unix'' (listen_unix pr)) (\<lambda>_.
       bnd (when_scheme ''http'' (listen_http pr)) (\<lambda>_.
       bnd (when_scheme ''https'' (listen_https pr)) (\<lambda>_.
       client_set (\<lambda>s. s\<lparr>sv_hasListeners := True\<rparr>))))))"

definition the_listener ::
  "(('w, 'h, 'cert) Server \<Rightarrow> NetListener option) \<Rightarrow> ('w, 'h, 'cert) process \<Rightarrow> ('w, 'h, 'cert, NetListener option) server_go" where
  "the_listener sel pr =
     bnd (client_get sv_hasListeners) (\<lambda>done.
     bnd (if done then ret () else Listen pr) (\<lambda>_.
     client_get sel))"

definition UnixListener :: "('w, 'h, 'cert) process \<Rightarrow> ('w, 'h, 'cert, NetListener option) server_go" where
  "UnixListener = the_listener sv_domainSocketL"

definition HTTPListener :: "('w, 'h, 'cert) process \<Rightarrow> ('w, 'h, 'cert, NetListener option) server_go" where
  "HTTPListener = the_listener sv_httpServerL"

definition TLSListener :: "('w, 'h, 'cert) process \<Rightarrow> ('w, 'h, 'cert, NetListener option) server_go" where
  "TLSListener = the_listener sv_httpsServerL"

section \<open>Serving\<close>

text \<open>The three servers. A limit or a timeout that is not positive leaves the zero value of the
  \<open>graceful.Server\<close>, for which the domain socket also keeps the others; a fresh \<open>http.Server\<close> has
  keep-alives.\<close>

definition unix_server :: "('w, 'h, 'cert) Server \<Rightarrow> 'h \<Rightarrow> ('h, 'cert) GracefulServer" where
  "unix_server s h =
     \<lparr> gs_MaxHeaderBytes = sint (sv_MaxHeaderSize s), gs_ReadTimeout = 0, gs_WriteTimeout = 0,
       gs_KeepAlivesEnabled = True, gs_TCPKeepAlive = 0, gs_ListenLimit = 0,
       gs_Timeout = (if sv_CleanupTimeout s > 0 then sv_CleanupTimeout s else 0),
       gs_Handler = h, gs_TLSConfig = None \<rparr>"

definition http_server :: "('w, 'h, 'cert) Server \<Rightarrow> 'h \<Rightarrow> ('h, 'cert) GracefulServer" where
  "http_server s h =
     \<lparr> gs_MaxHeaderBytes = sint (sv_MaxHeaderSize s),
       gs_ReadTimeout = sv_ReadTimeout s, gs_WriteTimeout = sv_WriteTimeout s,
       gs_KeepAlivesEnabled = (sv_KeepAlive s > 0), gs_TCPKeepAlive = sv_KeepAlive s,
       gs_ListenLimit = (if sv_ListenLimit s > 0 then sv_ListenLimit s else 0),
       gs_Timeout = (if sv_CleanupTimeout s > 0 then sv_CleanupTimeout s else 0),
       gs_Handler = h, gs_TLSConfig = None \<rparr>"

definition https_server ::
  "('w, 'h, 'cert) Server \<Rightarrow> 'h \<Rightarrow> 'cert option list \<Rightarrow> string list option \<Rightarrow> ('h, 'cert) GracefulServer" where
  "https_server s h certs cas =
     \<lparr> gs_MaxHeaderBytes = sint (sv_MaxHeaderSize s),
       gs_ReadTimeout = sv_TLSReadTimeout s, gs_WriteTimeout = sv_TLSWriteTimeout s,
       gs_KeepAlivesEnabled = (sv_TLSKeepAlive s > 0), gs_TCPKeepAlive = sv_TLSKeepAlive s,
       gs_ListenLimit = (if sv_TLSListenLimit s > 0 then sv_TLSListenLimit s else 0),
       gs_Timeout = (if sv_CleanupTimeout s > 0 then sv_CleanupTimeout s else 0),
       gs_Handler = h,
       gs_TLSConfig = Some
         \<lparr> tc_Certificates = certs,
           tc_ClientCAs = (case cas of Some pool \<Rightarrow> pool | None \<Rightarrow> []),
           tc_RequireAndVerifyClientCert = (cas \<noteq> None),
           tc_PreferServerCipherSuites = True,
           tc_CurvePreferences = [''CurveP256''],
           tc_NextProtos = [''http/1.1'', ''h2''],
           tc_MinVersion = ''VersionTLS12'',
           tc_CipherSuites =
             [''TLS_ECDHE_ECDSA_WITH_AES_256_GCM_SHA384'', ''TLS_ECDHE_RSA_WITH_AES_256_GCM_SHA384'',
              ''TLS_ECDHE_ECDSA_WITH_AES_128_GCM_SHA256'', ''TLS_ECDHE_RSA_WITH_AES_128_GCM_SHA256''] \<rparr> \<rparr>"

definition add_goroutine :: "('h, 'cert) serving \<Rightarrow> ('w, 'h, 'cert) Server \<Rightarrow> ('w, 'h, 'cert) Server" where
  "add_goroutine g s = s\<lparr>sv_goroutines := sv_goroutines s @ [g]\<rparr>"

definition start ::
  "('w, 'h, 'cert) process \<Rightarrow> string \<Rightarrow> string \<Rightarrow> ('h, 'cert) GracefulServer \<Rightarrow> NetListener option \<Rightarrow>
     ('w, 'h, 'cert, unit) server_go" where
  "start pr scheme at gs l =
     bnd (Logf pr (''Serving kubernikus at '' @ scheme @ ''://'' @ at)) (\<lambda>_.
     client_set (add_goroutine \<lparr> sg_scheme = scheme, sg_where = at, sg_server = gs, sg_listener = l \<rparr>))"

text \<open>\<open>s.httpServerL.Addr()\<close> panics when there is no listener.\<close>

definition address_of :: "NetListener option \<Rightarrow> string outcome" where
  "address_of l =
     (case l of Some n \<Rightarrow> Ok (nl_addr n) | None \<Rightarrow> Panics ''invalid memory address or nil pointer dereference'')"

definition serve_unix :: "('w, 'h, 'cert) process \<Rightarrow> 'h \<Rightarrow> ('w, 'h, 'cert, unit) server_go" where
  "serve_unix pr h =
     bnd (client_get (\<lambda>s. s)) (\<lambda>s. start pr ''unix'' (sv_SocketPath s) (unix_server s h) (sv_domainSocketL s))"

definition serve_http :: "('w, 'h, 'cert) process \<Rightarrow> 'h \<Rightarrow> ('w, 'h, 'cert, unit) server_go" where
  "serve_http pr h =
     bnd (client_get (\<lambda>s. s)) (\<lambda>s.
     bnd (lift_outcome (address_of (sv_httpServerL s))) (\<lambda>at.
     start pr ''http'' at (http_server s h) (sv_httpServerL s)))"

text \<open>The key pair is loaded first, its error is returned only after the authority of the clients has
  been read: \<open>Certificates[0]\<close> is then the zero certificate, \<open>None\<close>.\<close>

definition load_key_pair ::
  "('w, 'h, 'cert) process \<Rightarrow> ('w, 'h, 'cert) Server \<Rightarrow> ('w, 'h, 'cert, 'cert option list \<times> goerr option) server_go" where
  "load_key_pair pr s =
     (if sv_TLSCertificate s \<noteq> [] \<and> sv_TLSCertificateKey s \<noteq> [] then
        tryc (svc (pr_LoadX509KeyPair pr (sv_TLSCertificate s) (sv_TLSCertificateKey s)))
          (\<lambda>e. ret ([None], Some e)) (\<lambda>c. ret ([Some c], None))
      else ret ([], None))"

definition load_client_ca ::
  "('w, 'h, 'cert) process \<Rightarrow> ('w, 'h, 'cert) Server \<Rightarrow> ('w, 'h, 'cert, string list option) server_go" where
  "load_client_ca pr s =
     (if sv_TLSCACertificate s \<noteq> [] then
        tryc (svc (pr_ReadFile pr (sv_TLSCACertificate s)))
          (\<lambda>e. bnd (svc (pr_log_Printf pr (Error e))) (\<lambda>_. os_Exit 1))
          (\<lambda>pem. ret (Some (pr_certs_from_PEM pr pem)))
      else ret None)"

definition missing_flags :: "('w, 'h, 'cert) Server \<Rightarrow> string option" where
  "missing_flags s =
     (if sv_TLSCertificate s = [] then
        (if sv_TLSCertificateKey s = [] then
           Some ''the required flags `--tls-certificate` and `--tls-key` were not specified''
         else Some ''the required flag `--tls-certificate` was not specified'')
      else if sv_TLSCertificateKey s = [] then Some ''the required flag `--tls-key` was not specified''
      else None)"

definition serve_https :: "('w, 'h, 'cert) process \<Rightarrow> 'h \<Rightarrow> ('w, 'h, 'cert, unit) server_go" where
  "serve_https pr h =
     bnd (client_get (\<lambda>s. s)) (\<lambda>s.
     bnd (load_key_pair pr s) (\<lambda>(certs, err).
     bnd (load_client_ca pr s) (\<lambda>cas.
     case err of
       Some e \<Rightarrow> fail e
     | None \<Rightarrow>
         bnd (case (if certs = [] then missing_flags s else None) of
                Some msg \<Rightarrow> Fatalf pr msg
              | None \<Rightarrow> ret ()) (\<lambda>_.
         bnd (lift_outcome (address_of (sv_httpsServerL s))) (\<lambda>at.
         start pr ''https'' at (https_server s h certs cas) (sv_httpsServerL s))))))"

text \<open>The body of a goroutine, and \<open>wg.Wait\<close>, which returns when all of them have; \<open>finish\<close> is the
  order in which the scheduler lets them end.\<close>

definition run_goroutine :: "('w, 'h, 'cert) process \<Rightarrow> ('h, 'cert) serving \<Rightarrow> ('w, 'h, 'cert, unit) server_go" where
  "run_goroutine pr g =
     tryc (svc (pr_graceful pr (sg_server g) (sg_listener g)))
       (\<lambda>e. Fatalf pr (Error e))
       (\<lambda>_. Logf pr (''Stopped serving kubernikus at '' @ sg_scheme g @ ''://'' @ sg_where g))"

definition wg_Wait ::
  "('w, 'h, 'cert) process \<Rightarrow> (('h, 'cert) serving list \<Rightarrow> ('h, 'cert) serving list) \<Rightarrow> ('w, 'h, 'cert, unit) server_go" where
  "wg_Wait pr finish = bnd (client_get sv_goroutines) (\<lambda>gs. for_each (finish gs) (run_goroutine pr))"

definition default_handler :: "('w, 'h, 'cert, 'h) server_go" where
  "default_handler =
     bnd (client_get (\<lambda>s. s)) (\<lambda>s.
     case sv_handler s of
       Some h \<Rightarrow> ret h
     | None \<Rightarrow>
         (case sv_api s of
            None \<Rightarrow> fail (Errorf ''can't create the default handler, as no api is set'')
          | Some api \<Rightarrow> bnd (client_set (SetHandler (ha_Serve api))) (\<lambda>_. ret (ha_Serve api))))"

definition start_all :: "('w, 'h, 'cert) process \<Rightarrow> ('w, 'h, 'cert, unit) server_go" where
  "start_all pr =
     bnd (client_get sv_hasListeners) (\<lambda>done.
     bnd (if done then ret () else Listen pr) (\<lambda>_.
     bnd default_handler (\<lambda>h.
     bnd (when_scheme ''unix'' (serve_unix pr h)) (\<lambda>_.
     bnd (when_scheme ''http'' (serve_http pr h)) (\<lambda>_.
     when_scheme ''https'' (serve_https pr h))))))"

definition Serve ::
  "('w, 'h, 'cert) process \<Rightarrow> (('h, 'cert) serving list \<Rightarrow> ('h, 'cert) serving list) \<Rightarrow> ('w, 'h, 'cert, unit) server_go" where
  "Serve pr finish = bnd (start_all pr) (\<lambda>_. wg_Wait pr finish)"

section \<open>What is served\<close>

text \<open>The part of a server that neither listening nor serving changes.\<close>

definition settings :: "('w, 'h, 'cert) Server \<Rightarrow> string list \<times> string \<times> ('w, 'h) HostedAPI option" where
  "settings s = (sv_EnabledListeners s, sv_TLSCACertificate s, sv_api s)"

definition sealed :: "('w, 'h, 'cert) Server \<Rightarrow> ('h, 'cert) serving \<Rightarrow> bool" where
  "sealed s g \<longleftrightarrow>
     (\<exists>cfg c. gs_TLSConfig (sg_server g) = Some cfg \<and> tc_Certificates cfg = [Some c] \<and>
        tc_MinVersion cfg = ''VersionTLS12'' \<and>
        (sv_TLSCACertificate s \<noteq> [] \<longrightarrow> tc_RequireAndVerifyClientCert cfg))"

lemma hasScheme_settings: "settings s' = settings s \<Longrightarrow> hasScheme s' = hasScheme s"
  by (simp add: fun_eq_iff settings_def hasScheme_def)

lemma sealed_settings: "settings s' = settings s \<Longrightarrow> sealed s' = sealed s"
  by (auto simp: settings_def sealed_def)

text \<open>A call of the process does not touch the server.\<close>

lemma keeps_svc_server: "keeps (\<lambda>ws. Q (snd ws)) (svc m)"
  by (auto simp: keeps_def svc_def split: prod.split)

lemma keeps_set_server: "(\<And>s. Q s \<Longrightarrow> Q (f s)) \<Longrightarrow> keeps (\<lambda>ws. Q (snd ws)) (client_set f)"
  by (auto simp: keeps_def client_set_def)

lemma keeps_get_server: "keeps Q (client_get f)"
  by (auto simp: keeps_def client_get_def)

lemma keeps_prod: "(\<And>a b. x = (a, b) \<Longrightarrow> keeps P (f a b)) \<Longrightarrow> keeps P (case x of (a, b) \<Rightarrow> f a b)"
  by (cases x) auto

lemmas server_keeps = keeps_intro keeps_prod keeps_svc_server keeps_get_server

lemma Logf_keeps: "keeps (\<lambda>ws. Q (snd ws)) (Logf pr msg)"
  unfolding Logf_def by (intro server_keeps)

lemma Fatalf_keeps: "keeps (\<lambda>ws. Q (snd ws)) (Fatalf pr msg)"
  unfolding Fatalf_def os_Exit_def by (intro server_keeps Logf_keeps)

lemma listen_tcp_keeps: "keeps (\<lambda>ws. Q (snd ws)) (listen_tcp pr host port)"
  unfolding listen_tcp_def by (intro server_keeps)

lemma Listen_keeps:
  "keeps (\<lambda>ws. settings (snd ws) = c \<and> sv_goroutines (snd ws) = gs \<and> sv_handler (snd ws) = h) (Listen pr)"
proof -
  let ?Q = "\<lambda>s. settings s = c \<and> sv_goroutines s = gs \<and> sv_handler s = h"
  show ?thesis
    unfolding Listen_def when_scheme_def listen_unix_def listen_http_def listen_https_def
    by (intro server_keeps keeps_set_server [where Q = ?Q] keeps_svc_server [where Q = ?Q]
          listen_tcp_keeps [where Q = ?Q])
      (auto simp: settings_def inherit_tls_def)
qed

text \<open>A program that starts at most one server: it starts it when it succeeds, and otherwise leaves
  the server as it was.\<close>

definition starts ::
  "(('w, 'h, 'cert) Server \<Rightarrow> ('h, 'cert) serving \<Rightarrow> bool) \<Rightarrow> ('w, 'h, 'cert, unit) server_go \<Rightarrow> bool" where
  "starts good m \<longleftrightarrow>
     (\<forall>w s r w' s'. m (w, s) = (r, w', s') \<longrightarrow>
        (if r = Ok () then \<exists>g. good s g \<and> s' = add_goroutine g s else s' = s))"

lemma Logf_server: "Logf pr msg (w, s) = (r, w', s') \<Longrightarrow> s' = s"
  by (auto simp: Logf_def split: prod.splits)

lemma handler_of_servers [simp]:
  "gs_Handler (unix_server s h) = h" "gs_Handler (http_server s h) = h" "gs_Handler (https_server s h certs cas) = h"
  by (simp_all add: unix_server_def http_server_def https_server_def)

lemma start_result:
  assumes "start pr scheme at gs l (w, s) = (r, w', s')"
  shows "if r = Ok () then \<exists>g. sg_scheme g = scheme \<and> sg_server g = gs \<and> s' = add_goroutine g s
         else s' = s"
proof -
  let ?g = "\<lparr> sg_scheme = scheme, sg_where = at, sg_server = gs, sg_listener = l \<rparr>"
  obtain r1 w1 s1 where log: "Logf pr (''Serving kubernikus at '' @ scheme @ ''://'' @ at) (w, s) = (r1, w1, s1)"
    by (metis surj_pair)
  with Logf_server [OF this] assms show ?thesis
    unfolding start_def by (cases r1) (auto intro: exI [of _ ?g])
qed

lemma serve_unix_starts:
  "starts (\<lambda>s g. sg_scheme g = ''unix'' \<and> gs_Handler (sg_server g) = h) (serve_unix pr h)"
  unfolding starts_def serve_unix_def
  by (auto dest!: start_result split: if_splits) (metis handler_of_servers(1))

lemma serve_http_starts:
  "starts (\<lambda>s g. sg_scheme g = ''http'' \<and> gs_Handler (sg_server g) = h) (serve_http pr h)"
  unfolding starts_def serve_http_def
proof (intro allI impI)
  fix w s r w' s'
  assume "bnd (client_get (\<lambda>s. s)) (\<lambda>s. bnd (lift_outcome (address_of (sv_httpServerL s)))
            (\<lambda>at. start pr ''http'' at (http_server s h) (sv_httpServerL s))) (w, s) = (r, w', s')"
  then show "if r = Ok () then \<exists>g. (sg_scheme g = ''http'' \<and> gs_Handler (sg_server g) = h) \<and>
               s' = add_goroutine g s else s' = s"
    by (cases "sv_httpServerL s")
      (auto simp: address_of_def dest!: start_result split: if_splits, metis handler_of_servers(2))
qed

text \<open>What the two loads of the https server answer.\<close>

lemma load_key_pair_result:
  assumes "load_key_pair pr s (w, s) = (Ok (certs, err), w', s')"
  shows "s' = s" "certs = [] \<Longrightarrow> missing_flags s \<noteq> None"
    "err = None \<Longrightarrow> certs = [] \<or> (\<exists>c. certs = [Some c])"
  using assms unfolding load_key_pair_def missing_flags_def tryc_def
  by (auto split: if_splits prod.splits outcome.splits)

lemma load_client_ca_result:
  assumes "load_client_ca pr s (w, s) = (Ok cas, w', s')"
  shows "s' = s" "cas \<noteq> None \<longleftrightarrow> sv_TLSCACertificate s \<noteq> []"
  using assms unfolding load_client_ca_def tryc_def os_Exit_def
  by (auto split: if_splits prod.splits outcome.splits simp: bnd_iffs)


lemma https_server_sealed:
  assumes "sg_server g = https_server s h [Some c] cas" "cas \<noteq> None \<longleftrightarrow> sv_TLSCACertificate s \<noteq> []"
  shows "sealed s g"
  using assms by (auto simp: sealed_def https_server_def)

lemma serve_https_starts:
  "starts (\<lambda>s g. sg_scheme g = ''https'' \<and> gs_Handler (sg_server g) = h \<and> sealed s g) (serve_https pr h)"
  unfolding starts_def
proof (intro allI impI)
  fix w s r w' s'
  assume run: "serve_https pr h (w, s) = (r, w', s')"
  let ?goal = "if r = Ok () then \<exists>g. (sg_scheme g = ''https'' \<and> gs_Handler (sg_server g) = h \<and> sealed s g) \<and>
               s' = add_goroutine g s else s' = s"
  obtain r1 w1 s1 where kp: "load_key_pair pr s (w, s) = (r1, w1, s1)" by (metis surj_pair)
  obtain r2 w2 s2 where ca: "load_client_ca pr s (w1, s1) = (r2, w2, s2)" by (metis surj_pair)
  have s1: "s1 = s"
    using kp unfolding load_key_pair_def tryc_def by (auto split: if_splits prod.splits outcome.splits)
  have s2: "s2 = s1"
    using ca unfolding load_client_ca_def tryc_def os_Exit_def
    by (auto split: if_splits prod.splits outcome.splits simp: bnd_def)
  show ?goal
  proof (cases r1)
    case (Ok p)
    obtain certs err where p: "p = (certs, err)" by (cases p)
    note kp' = load_key_pair_result [OF kp [unfolded Ok p s1]]
    show ?thesis
    proof (cases r2)
      case ok2: (Ok cas)
      note ca' = load_client_ca_result [OF ca [unfolded ok2 s1 s2]]
      show ?thesis
      proof (cases err)
        case None
        consider (none) msg where "certs = []" "missing_flags s = Some msg" | (one) c where "certs = [Some c]"
          using kp' None by fastforce
        then show ?thesis
        proof cases
          case none
          then have "r \<noteq> Ok () \<and> s' = s"
            using run kp ca s1 s2 Ok ok2 p None
            by (auto simp: serve_https_def Fatalf_def os_Exit_def bnd_def dest!: Logf_server
                  split: prod.splits outcome.splits)
          then show ?thesis by simp
        next
          case one
          show ?thesis
          proof (cases "sv_httpsServerL s")
            case None
            then show ?thesis using run kp ca s1 s2 Ok ok2 p one \<open>err = None\<close>
              by (auto simp: serve_https_def address_of_def)
          next
            case (Some l)
            then have "start pr ''https'' (nl_addr l) (https_server s h certs cas) (Some l) (w2, s) = (r, w', s')"
              using run kp ca s1 s2 Ok ok2 p one \<open>err = None\<close> by (simp add: serve_https_def address_of_def)
            from start_result [OF this] show ?thesis
              using https_server_sealed [of _ s h _ cas] ca' one by (auto split: if_splits)
          qed
        qed
      qed (use run kp ca s1 s2 Ok ok2 p in \<open>auto simp: serve_https_def\<close>)
    qed (use run kp ca s1 s2 Ok p in \<open>auto simp: serve_https_def\<close>)
  qed (use run kp s1 in \<open>auto simp: serve_https_def\<close>)
qed


lemma goroutines_add [simp]:
  "sv_goroutines (add_goroutine g s) = sv_goroutines s @ [g]" "settings (add_goroutine g s) = settings s"
  by (simp_all add: add_goroutine_def settings_def)

text \<open>Where a run of \<open>start_all\<close> stands after some of the schemes: the goroutines so far, which belong
  to the settings \<open>c\<close> and the handler \<open>h\<close>.\<close>

definition serves_schemes ::
  "('w, 'h, 'cert) Server \<Rightarrow> 'h \<Rightarrow> string list \<Rightarrow> ('w, 'h, 'cert) Server \<Rightarrow> bool" where
  "serves_schemes s0 h schemes s \<longleftrightarrow>
     settings s = settings s0 \<and> map sg_scheme (sv_goroutines s) = schemes \<and>
     (\<forall>g \<in> set (sv_goroutines s). gs_Handler (sg_server g) = h \<and> (sg_scheme g = ''https'' \<longrightarrow> sealed s0 g))"

lemma starts_serves:
  assumes m: "starts (\<lambda>s g. sg_scheme g = scheme \<and> gs_Handler (sg_server g) = h \<and> (scheme = ''https'' \<longrightarrow> sealed s g)) m"
    and s: "serves_schemes s0 h schemes s" and run: "when_scheme scheme m (w, s) = (r, w', s')"
  shows "if r = Ok () then serves_schemes s0 h (schemes @ (if hasScheme s0 scheme then [scheme] else [])) s'
         else serves_schemes s0 h schemes s'"
proof -
  have same: "hasScheme s = hasScheme s0" "sealed s = sealed s0"
    using s hasScheme_settings sealed_settings unfolding serves_schemes_def by blast+
  show ?thesis
  proof (cases "hasScheme s0 scheme")
    case True
    then have "m (w, s) = (r, w', s')" using run same by (simp add: when_scheme_def)
    then have r: "if r = Ok () then \<exists>g. (sg_scheme g = scheme \<and> gs_Handler (sg_server g) = h \<and> (scheme = ''https'' \<longrightarrow> sealed s g)) \<and>
        s' = add_goroutine g s else s' = s"
      using m unfolding starts_def by blast
    then show ?thesis
      using s True same unfolding serves_schemes_def by (cases "r = Ok ()") auto
  next
    case False
    then show ?thesis using run same s by (simp add: when_scheme_def)
  qed
qed

definition all_schemes :: "string list" where
  "all_schemes = [''unix'', ''http'', ''https'']"

definition active_schemes :: "('w, 'h, 'cert) Server \<Rightarrow> string list" where
  "active_schemes s = filter (hasScheme s) all_schemes"

lemma default_handler_result:
  assumes "default_handler (w, s) = (r, w', s')"
  shows "settings s' = settings s" "sv_goroutines s' = sv_goroutines s" "w' = w"
    "sv_handler s = Some h \<Longrightarrow> r = Ok h" "r = Ok h' \<Longrightarrow> sv_handler s' = Some h'"
  using assms
  by (auto simp: default_handler_def SetHandler_def settings_def split: option.splits)

lemma starts_weaken:
  "starts P m \<Longrightarrow> (\<And>s g. P s g \<Longrightarrow> Q s g) \<Longrightarrow> starts Q m"
  unfolding starts_def by (metis (full_types))

text \<open>The three schemes in a row; a scheme that fails leaves the goroutines of those before it.\<close>

lemma three_schemes:
  assumes s: "serves_schemes s0 h [] s"
    and run: "bnd (when_scheme ''unix'' (serve_unix pr h)) (\<lambda>_. bnd (when_scheme ''http'' (serve_http pr h))
                (\<lambda>_. when_scheme ''https'' (serve_https pr h))) (w, s) = (r, w', s')"
  shows "\<exists>sch. serves_schemes s0 h sch s' \<and> prefix sch (active_schemes s0) \<and> (r = Ok () \<longrightarrow> sch = active_schemes s0)"
proof -
  let ?A = "\<lambda>sch. if hasScheme s0 sch then [sch] else []"
  have active: "active_schemes s0 = ?A ''unix'' @ ?A ''http'' @ ?A ''https''"
    by (simp add: active_schemes_def all_schemes_def)
  have unix: "starts (\<lambda>s g. sg_scheme g = ''unix'' \<and> gs_Handler (sg_server g) = h \<and> (''unix'' = ''https'' \<longrightarrow> sealed s g)) (serve_unix pr h)"
    by (rule starts_weaken [OF serve_unix_starts]) simp
  have http: "starts (\<lambda>s g. sg_scheme g = ''http'' \<and> gs_Handler (sg_server g) = h \<and> (''http'' = ''https'' \<longrightarrow> sealed s g)) (serve_http pr h)"
    by (rule starts_weaken [OF serve_http_starts]) simp
  have https: "starts (\<lambda>s g. sg_scheme g = ''https'' \<and> gs_Handler (sg_server g) = h \<and> (''https'' = ''https'' \<longrightarrow> sealed s g)) (serve_https pr h)"
    by (rule starts_weaken [OF serve_https_starts]) simp
  obtain r1 w1 s1 where 1: "when_scheme ''unix'' (serve_unix pr h) (w, s) = (r1, w1, s1)" by (metis surj_pair)
  have a: "if r1 = Ok () then serves_schemes s0 h (?A ''unix'') s1 else serves_schemes s0 h [] s1"
    using starts_serves [OF unix s 1] by (simp only: append_Nil)
  show ?thesis
  proof (cases "r1 = Ok ()")
    case False
    then have "s' = s1" "r \<noteq> Ok ()" using run 1 by (cases r1; auto)+
    then show ?thesis using a False by auto
  next
    case True
    have a': "serves_schemes s0 h (?A ''unix'') s1" using a unfolding True by (simp only: if_True refl)
    obtain r2 w2 s2 where 2: "when_scheme ''http'' (serve_http pr h) (w1, s1) = (r2, w2, s2)" by (metis surj_pair)
    have b: "if r2 = Ok () then serves_schemes s0 h (?A ''unix'' @ ?A ''http'') s2 else serves_schemes s0 h (?A ''unix'') s2"
      by (rule starts_serves [OF http a' 2])
    show ?thesis
    proof (cases "r2 = Ok ()")
      case False
      then have "s' = s2" "r \<noteq> Ok ()" using run 1 2 True by (cases r2; auto)+
      then show ?thesis using b False unfolding active by (intro exI [of _ "?A ''unix''"]) simp
    next
      case ok2: True
      have b': "serves_schemes s0 h (?A ''unix'' @ ?A ''http'') s2" using b unfolding ok2 by (simp only: if_True refl)
      have 3: "when_scheme ''https'' (serve_https pr h) (w2, s2) = (r, w', s')"
        using run 1 2 True ok2 by simp
      have c: "if r = Ok () then serves_schemes s0 h ((?A ''unix'' @ ?A ''http'') @ ?A ''https'') s'
               else serves_schemes s0 h (?A ''unix'' @ ?A ''http'') s'"
        by (rule starts_serves [OF https b' 3])
      then show ?thesis unfolding active by (metis append.assoc prefixI prefix_order.refl)
    qed
  qed
qed

lemma start_all_serves:
  assumes s: "sv_goroutines s = []" and run: "start_all pr (w, s) = (r, w', s')"
  shows "\<exists>h sch. serves_schemes s h sch s' \<and> prefix sch (active_schemes s) \<and> (r = Ok () \<longrightarrow> sch = active_schemes s) \<and>
    (\<forall>h'. sv_handler s = Some h' \<longrightarrow> h = h')"
proof -
  obtain r1 w1 s1 where l: "(if sv_hasListeners s then ret () else Listen pr) (w, s) = (r1, w1, s1)"
    by (metis surj_pair)
  have s1: "settings s1 = settings s" "sv_goroutines s1 = []" "sv_handler s1 = sv_handler s"
    using keepsD [OF Listen_keeps [where c = "settings s" and gs = "[]" and h = "sv_handler s" and pr = pr], of "(w, s)" r1 "(w1, s1)"] l s
    by (auto split: if_splits)
  obtain r2 w2 s2 where d: "default_handler (w1, s1) = (r2, w2, s2)" by (metis surj_pair)
  note s2 = default_handler_result [OF d]
  have none_started: ?thesis if "r \<noteq> Ok ()" "settings s' = settings s" "sv_goroutines s' = []"
    by (rule exI [of _ "the (sv_handler s)"], rule exI [of _ "[]"]) (use that in \<open>auto simp: serves_schemes_def\<close>)
  consider "r1 \<noteq> Ok ()" | "r1 = Ok ()" "\<And>h. r2 \<noteq> Ok h" | h where "r1 = Ok ()" "r2 = Ok h" by blast
  then show ?thesis
  proof cases
    case 1
    then have eq: "s' = s1" "r \<noteq> Ok ()" using run l by (cases r1; auto simp: start_all_def)+
    show ?thesis by (rule none_started) (simp_all add: eq s1)
  next
    case 2
    then have eq: "s' = s2" "r \<noteq> Ok ()" using run l d by (cases r2; auto simp: start_all_def)+
    show ?thesis by (rule none_started) (simp_all add: eq s1 s2(1,2))
  next
    case (3 h)
    have "serves_schemes s h [] s2" using s1 s2(1,2) by (simp add: serves_schemes_def)
    moreover have "bnd (when_scheme ''unix'' (serve_unix pr h)) (\<lambda>_. bnd (when_scheme ''http'' (serve_http pr h))
                (\<lambda>_. when_scheme ''https'' (serve_https pr h))) (w2, s2) = (r, w', s')"
      using run l d 3 by (simp add: start_all_def)
    ultimately have "\<exists>sch. serves_schemes s h sch s' \<and> prefix sch (active_schemes s) \<and> (r = Ok () \<longrightarrow> sch = active_schemes s)"
      by (rule three_schemes)
    moreover have "\<forall>h'. sv_handler s = Some h' \<longrightarrow> h = h'"
      using s1(3) s2(4) 3(2) by (metis outcome.inject(1))
    ultimately show ?thesis by blast
  qed
qed

lemma wg_Wait_keeps: "keeps (\<lambda>ws. Q (snd ws)) (wg_Wait pr finish)"
  unfolding wg_Wait_def run_goroutine_def by (intro server_keeps Logf_keeps Fatalf_keeps)


section \<open>A process\<close>

text \<open>A process whose world is what has been logged: the network opens every address, port 0 as port
  40001, and there is one key pair.\<close>

definition demo_process :: "(string list, nat, string) process" where
  "demo_process =
     \<lparr> pr_Getenv = (\<lambda>_. []),
       pr_Listen = (\<lambda>net at w. if net = ''tcp'' \<and> at = ''localhost:0''
                      then (Ok \<lparr>nl_network = net, nl_addr = ''127.0.0.1:40001''\<rparr>, w)
                      else (Ok \<lparr>nl_network = net, nl_addr = at\<rparr>, w)),
       pr_log_Printf = (\<lambda>m w. (Ok (), w @ [m])),
       pr_Stderr = (\<lambda>m w. (Ok (), w @ [m])),
       pr_LoadX509KeyPair = (\<lambda>cert key w. if cert = ''tls.pem'' \<and> key = ''tls-key.pem''
                      then (Ok ''pair'', w) else (Fail (Errorf ''no such file''), w)),
       pr_ReadFile = (\<lambda>f w. (Ok f, w)),
       pr_certs_from_PEM = (\<lambda>pem. [pem]),
       pr_graceful = (\<lambda>gs l w. (Ok (), w)) \<rparr>"

definition demo_server :: "string list \<Rightarrow> string \<Rightarrow> (string list, nat, string) Server" where
  "demo_server schemes key =
     (case fst (NewServer demo_process
         (default_server_flags\<lparr>fl_scheme := schemes, fl_tls_certificate := ''tls.pem'', fl_tls_key := key\<rparr>)
         (Some \<lparr>ha_Logger = None, ha_Serve = 7, ha_ServerShutdown = ret ()\<rparr>) []) of
        Ok s \<Rightarrow> ConfigureAPI s)"


text \<open>A key that cannot be loaded: the http server has been started, the https server has not.\<close>

lemma bad_key_serves_http_only:
  "fst (Serve demo_process rev ([], demo_server [''https'', ''http''] ''x'')) = Fail (Errorf ''no such file'')"
  "map sg_scheme (sv_goroutines (snd (snd (Serve demo_process rev ([], demo_server [''https'', ''http''] ''x''))))) = [''http'']"
  by code_simp+

section \<open>What is listened on\<close>

lemma listen_tcp_Ok:
  assumes "listen_tcp pr host port (w, s) = (Ok (h, p, l), w', s')"
  shows "s' = s \<and> swag_SplitHostPort (nl_addr l) = Ok (h, p) \<and>
    pr_Listen pr ''tcp'' (JoinHostPort host (Itoa port)) w = (Ok l, w')"
  using assms by (auto simp: listen_tcp_def bnd_eq_Ok_iff split: prod.splits)

lemma listen_unix_Ok:
  assumes "listen_unix pr (w, s) = (Ok (), w', s')"
  shows "\<exists>l. s' = s\<lparr>sv_domainSocketL := Some l\<rparr> \<and> pr_Listen pr ''unix'' (sv_SocketPath s) w = (Ok l, w')"
  using assms by (auto simp: listen_unix_def bnd_eq_Ok_iff split: prod.splits)

lemma listen_http_Ok:
  assumes "listen_http pr (w, s) = (Ok (), w', s')"
  shows "\<exists>l h p. s' = s\<lparr>sv_Host := h, sv_Port := p, sv_httpServerL := Some l\<rparr> \<and> swag_SplitHostPort (nl_addr l) = Ok (h, p) \<and>
    pr_Listen pr ''tcp'' (JoinHostPort (sv_Host s) (Itoa (sv_Port s))) w = (Ok l, w')"
  using assms by (auto simp: listen_http_def bnd_eq_Ok_iff split: prod.splits dest!: listen_tcp_Ok)

lemma listen_https_Ok:
  assumes "listen_https pr (w, s) = (Ok (), w', s')"
  shows "\<exists>l h p. s' = s\<lparr>sv_TLSHost := h, sv_TLSPort := p, sv_httpsServerL := Some l\<rparr> \<and> swag_SplitHostPort (nl_addr l) = Ok (h, p) \<and>
    pr_Listen pr ''tcp'' (JoinHostPort (sv_TLSHost s) (Itoa (sv_TLSPort s))) w = (Ok l, w')"
  using assms by (auto simp: listen_https_def bnd_eq_Ok_iff split: prod.splits dest!: listen_tcp_Ok)

text \<open>The host and the port of a listener that a server knows are those of the listener.\<close>

definition listens :: "('w, 'h, 'cert) Server \<Rightarrow> string \<Rightarrow> bool" where
  "listens s scheme \<longleftrightarrow>
     (if scheme = ''unix'' then sv_domainSocketL s \<noteq> None
      else if scheme = ''http'' then
        (\<exists>l. sv_httpServerL s = Some l \<and> swag_SplitHostPort (nl_addr l) = Ok (sv_Host s, sv_Port s))
      else (\<exists>l. sv_httpsServerL s = Some l \<and> swag_SplitHostPort (nl_addr l) = Ok (sv_TLSHost s, sv_TLSPort s)))"

lemma hasScheme_update [simp]:
  "hasScheme (s\<lparr>sv_domainSocketL := a\<rparr>) = hasScheme s"
  "hasScheme (s\<lparr>sv_Host := h, sv_Port := p, sv_httpServerL := b\<rparr>) = hasScheme s"
  "hasScheme (s\<lparr>sv_TLSHost := h, sv_TLSPort := p, sv_httpsServerL := b\<rparr>) = hasScheme s"
  "hasScheme (inherit_tls s) = hasScheme s"
  by (auto simp: hasScheme_def inherit_tls_def fun_eq_iff)

lemma when_scheme_Ok:
  "when_scheme scheme m (w, s) = (Ok (), w', s') \<Longrightarrow>
     if hasScheme s scheme then m (w, s) = (Ok (), w', s') else s' = s \<and> w' = w"
  by (auto simp: when_scheme_def split: if_splits)

text \<open>\<open>Listen\<close> on a server without listeners, when it succeeds: each enabled scheme has its
  listener, and the host and port that the server then names are those the listener really has, also
  when the port asked for was 0. \<open>Listen\<close> and \<open>UnixListener\<close>, \<open>HTTPListener\<close> and \<open>TLSListener\<close>
  after it open nothing again.\<close>

theorem Listen_opens_once:
  assumes "Listen pr (w, s) = (Ok (), w', s')" "\<not> sv_hasListeners s"
  shows "(\<forall>scheme \<in> set (active_schemes s). listens s' scheme) \<and>
    Listen pr (v, s') = (Ok (), v, s') \<and>
    UnixListener pr (v, s') = (Ok (sv_domainSocketL s'), v, s') \<and>
    HTTPListener pr (v, s') = (Ok (sv_httpServerL s'), v, s') \<and>
    TLSListener pr (v, s') = (Ok (sv_httpsServerL s'), v, s')"
proof -
  obtain s1 w2 s2 w3 s3 s4 where s1: "s1 = inherit_tls s"
    and 2: "when_scheme ''unix'' (listen_unix pr) (w, s1) = (Ok (), w2, s2)"
    and 3: "when_scheme ''http'' (listen_http pr) (w2, s2) = (Ok (), w3, s3)"
    and 4: "when_scheme ''https'' (listen_https pr) (w3, s3) = (Ok (), w', s4)"
    and s': "s' = s4\<lparr>sv_hasListeners := True\<rparr>"
    using assms by (auto simp: Listen_def bnd_eq_Ok_iff)
  have 2: "if hasScheme s ''unix'' then \<exists>l. s2 = s1\<lparr>sv_domainSocketL := Some l\<rparr> else s2 = s1"
    using when_scheme_Ok [OF 2] s1 by (cases "hasScheme s ''unix''") (simp_all, metis listen_unix_Ok)
  then have sch2: "hasScheme s2 = hasScheme s" using s1 by (auto split: if_splits)
  have 3: "if hasScheme s ''http'' then \<exists>l h p. s3 = s2\<lparr>sv_Host := h, sv_Port := p, sv_httpServerL := Some l\<rparr> \<and>
      swag_SplitHostPort (nl_addr l) = Ok (h, p) else s3 = s2"
    using when_scheme_Ok [OF 3] sch2 by (cases "hasScheme s ''http''") (simp_all, metis listen_http_Ok)
  then have sch3: "hasScheme s3 = hasScheme s" using sch2 by (auto split: if_splits)
  have 4: "if hasScheme s ''https'' then \<exists>l h p. s4 = s3\<lparr>sv_TLSHost := h, sv_TLSPort := p, sv_httpsServerL := Some l\<rparr> \<and>
      swag_SplitHostPort (nl_addr l) = Ok (h, p) else s4 = s3"
    using when_scheme_Ok [OF 4] sch3 by (cases "hasScheme s ''https''") (simp_all, metis listen_https_Ok)
  have opened: "sv_hasListeners s'" using s' by simp
  have u: "sv_domainSocketL s2 \<noteq> None" if "hasScheme s ''unix''" using 2 that by auto
  have h: "sv_domainSocketL s3 = sv_domainSocketL s2"
    "hasScheme s ''http'' \<Longrightarrow> \<exists>l. sv_httpServerL s3 = Some l \<and> swag_SplitHostPort (nl_addr l) = Ok (sv_Host s3, sv_Port s3)"
    using 3 by (auto split: if_splits)
  have t: "sv_domainSocketL s4 = sv_domainSocketL s3" "sv_httpServerL s4 = sv_httpServerL s3"
    "sv_Host s4 = sv_Host s3" "sv_Port s4 = sv_Port s3"
    "hasScheme s ''https'' \<Longrightarrow> \<exists>l. sv_httpsServerL s4 = Some l \<and> swag_SplitHostPort (nl_addr l) = Ok (sv_TLSHost s4, sv_TLSPort s4)"
    using 4 by (auto split: if_splits)
  have "hasScheme s ''unix'' \<Longrightarrow> listens s' ''unix''" "hasScheme s ''http'' \<Longrightarrow> listens s' ''http''"
    "hasScheme s ''https'' \<Longrightarrow> listens s' ''https''"
    using u h t by (simp_all add: listens_def s')
  then have "\<forall>scheme \<in> set (active_schemes s). listens s' scheme"
    by (simp add: active_schemes_def all_schemes_def)
  then show ?thesis using opened
    by (simp add: Listen_def UnixListener_def HTTPListener_def TLSListener_def the_listener_def)
qed

theorem Listen_opens_once_witness:
  "let s' = snd (snd (Listen demo_process ([], demo_server [''http''] [])))
   in listens s' ''http'' \<and> sv_Port s' = 40001 \<and> Listen demo_process ([''later''], s') = (Ok (), [''later''], s')"
proof -
  let ?s = "demo_server [''http''] []"
  let ?s' = "snd (snd (Listen demo_process ([], ?s)))"
  have ok: "fst (Listen demo_process ([], ?s)) = Ok ()" by code_simp
  have port: "sv_Port ?s' = 40001" by code_simp
  have none: "\<not> sv_hasListeners ?s" and act: "active_schemes ?s = [''http'']" by code_simp+
  have run: "Listen demo_process ([], ?s) = (Ok (), fst (snd (Listen demo_process ([], ?s))), ?s')"
    using ok by (metis prod.collapse)
  show ?thesis
    using Listen_opens_once [OF run none, of "[''later'']"] act port by (simp only: Let_def list.set ball_simps simp_thms)
qed

section \<open>Flags\<close>

text \<open>The comments of \<open>Listen\<close> say that https uses the values of http when its own are not defined.
  The flags of https have defaults of their own, so leaving them out does not leave them undefined:
  with \<open>--host\<close>, \<open>--keep-alive\<close>, \<open>--read-timeout\<close> and \<open>--write-timeout\<close> alone, https listens on
  localhost and keeps the default times.\<close>

lemma tls_flags_not_inherited:
  assumes "\<And>k. pr_Getenv pr k = []"
    and "fl = default_server_flags\<lparr>fl_scheme := sch, fl_host := h, fl_keep_alive := k, fl_read_timeout := rt, fl_write_timeout := wt\<rparr>"
    and "NewServer pr fl api w = (Ok s, w')"
  shows "sv_Host s = h \<and> sv_KeepAlive s = k \<and> sv_TLSHost (inherit_tls s) = ''localhost'' \<and>
    sv_TLSKeepAlive (inherit_tls s) = seconds 180 \<and> sv_TLSReadTimeout (inherit_tls s) = seconds 30 \<and>
    sv_TLSWriteTimeout (inherit_tls s) = seconds 30"
proof -
  have "sv_Host s = h" "sv_KeepAlive s = k" "sv_TLSHost s = ''localhost''" "sv_TLSKeepAlive s = seconds 180"
    "sv_TLSReadTimeout s = seconds 30" "sv_TLSWriteTimeout s = seconds 30"
    using assms(3) by (clarsimp simp: NewServer_def assms(1,2) default_server_flags_def)+
  then show ?thesis by (simp add: inherit_tls_def seconds_def)
qed

end
