(* ===== verification/Clientset.thy ===== *)
theory Clientset
  imports KlusterStore HttpUrl
begin

text \<open>
  The generated clientset for custom resources,
  \<open>pkg/generated/clientset/typed/kubernikus/v1/kluster.go\<close>, on the requests of the vendored
  \<open>k8s.io/client-go/rest\<close>: which request each method sends and what it makes of the answer. The HTTP
  transport with the codecs of Kubernetes is the operation \<open>rc_serve\<close>, so a body is the object
  itself, and options are the parameters the codec encodes them to; \<open>rc_field_selector\<close> reads and
  prints a field selector. Then the lister,
  \<open>pkg/generated/listers/kubernikus/v1/kluster.go\<close>, on the indexer of an informer.

  The laws \<open>kluster_api\<close>, \<open>kluster_create_api\<close> and \<open>kluster_list_api\<close> on which the controllers and
  the API handlers rest are not assumed of this client: they follow from a law of the API server.
\<close>

section \<open>Requests of client-go\<close>

datatype kube_body = KlusterBody Kluster | DeleteOptionsBody "(string \<times> string) list" | PatchBody string

datatype kube_object = KlusterObject Kluster | KlusterListObject "Kluster list" | StatusObject bool string

record rest_request =
  rq_verb :: string
  rq_pathPrefix :: string
  rq_namespace :: "string option"
  rq_resource :: string
  rq_resourceName :: string
  rq_subresource :: string
  rq_params :: "(string \<times> string) list"
  rq_body :: "kube_body option"
  rq_err :: "goerr option"

record 'w kube_client =
  rc_basePath :: string
  rc_field_selector :: "string \<Rightarrow> goerr + string"
  rc_serve :: "string \<Rightarrow> string \<Rightarrow> (string \<times> string) list \<Rightarrow> kube_body option \<Rightarrow> ('w, kube_object) go"
  rc_watch :: "string \<Rightarrow> (string \<times> string) list \<Rightarrow> ('w, unit) go"

text \<open>\<open>setConfigDefaults\<close> of the clientset: the group and version of the resources, below \<open>/apis\<close>.\<close>

definition versionedAPIPath :: string where
  "versionedAPIPath = ''/apis/kubernikus.sap.cc/v1''"

definition NewRequest :: "'w kube_client \<Rightarrow> string \<Rightarrow> rest_request" where
  "NewRequest c verb =
     \<lparr> rq_verb = verb, rq_pathPrefix = path_Join [path_Join [''/'', rc_basePath c], versionedAPIPath],
       rq_namespace = None, rq_resource = [], rq_resourceName = [], rq_subresource = [], rq_params = [],
       rq_body = None, rq_err = None \<rparr>"

definition IsValidPathSegmentName :: "string \<Rightarrow> string list" where
  "IsValidPathSegmentName name =
     (if name = ''.'' \<or> name = ''..'' then [''may not be '' @ CHR 0x27 # name @ [CHR 0x27]]
      else (if CHR ''/'' \<in> set name then [''may not contain '' @ [CHR 0x27, CHR ''/'', CHR 0x27]] else []) @
           (if CHR ''%'' \<in> set name then [''may not contain '' @ [CHR 0x27, CHR ''%'', CHR 0x27]] else []))"

definition request_error :: "string \<Rightarrow> rest_request \<Rightarrow> rest_request" where
  "request_error msg r = r\<lparr>rq_err := Some (Errorf msg)\<rparr>"

definition invalid_segment :: "string \<Rightarrow> string \<Rightarrow> string" where
  "invalid_segment what s = ''invalid '' @ what @ '' '' @ quoted s @ '': ['' @ Join (IsValidPathSegmentName s) '' '' @ '']''"

text \<open>The setters do nothing once there is an error.\<close>

definition Namespace :: "string \<Rightarrow> rest_request \<Rightarrow> rest_request" where
  "Namespace ns r =
     (if rq_err r \<noteq> None then r
      else case rq_namespace r of
        Some old \<Rightarrow> request_error (''namespace already set to '' @ quoted old @ '', cannot change to '' @ quoted ns) r
      | None \<Rightarrow>
          if IsValidPathSegmentName ns \<noteq> [] then request_error (invalid_segment ''namespace'' ns) r
          else r\<lparr>rq_namespace := Some ns\<rparr>)"

definition Resource :: "string \<Rightarrow> rest_request \<Rightarrow> rest_request" where
  "Resource res r =
     (if rq_err r \<noteq> None then r
      else if rq_resource r \<noteq> [] then
        request_error (''resource already set to '' @ quoted (rq_resource r) @ '', cannot change to '' @ quoted res) r
      else if IsValidPathSegmentName res \<noteq> [] then request_error (invalid_segment ''resource'' res) r
      else r\<lparr>rq_resource := res\<rparr>)"

definition Name :: "string \<Rightarrow> rest_request \<Rightarrow> rest_request" where
  "Name n r =
     (if rq_err r \<noteq> None then r
      else if n = [] then request_error ''resource name may not be empty'' r
      else if rq_resourceName r \<noteq> [] then
        request_error (''resource name already set to '' @ quoted (rq_resourceName r) @ '', cannot change to '' @ quoted n) r
      else if IsValidPathSegmentName n \<noteq> [] then request_error (invalid_segment ''resource name'' n) r
      else r\<lparr>rq_resourceName := n\<rparr>)"

definition SubResource :: "string list \<Rightarrow> rest_request \<Rightarrow> rest_request" where
  "SubResource subs r =
     (if rq_err r \<noteq> None then r
      else if rq_subresource r \<noteq> [] then
        request_error (''subresource already set to '' @ quoted (rq_subresource r) @ '', cannot change to '' @ quoted (path_Join subs)) r
      else case filter (\<lambda>s. IsValidPathSegmentName s \<noteq> []) subs of
        s # _ \<Rightarrow> request_error (invalid_segment ''subresource'' s) r
      | [] \<Rightarrow> r\<lparr>rq_subresource := path_Join subs\<rparr>)"

fun VersionedParams :: "'w kube_client \<Rightarrow> (string \<times> string) list \<Rightarrow> rest_request \<Rightarrow> rest_request" where
  "VersionedParams c [] r = r"
| "VersionedParams c ((k, v) # params) r =
     (if rq_err r \<noteq> None then r
      else if (k = ''labelSelector'' \<or> k = ''fieldSelector'') \<and> v = [] then VersionedParams c params r
      else case (if k = ''fieldSelector'' then rc_field_selector c v else Inr v) of
        Inr v' \<Rightarrow>
          if k = ''timeout'' then
            VersionedParams c params (request_error ''must set timeout through the corresponding function, not directly.'' r)
          else VersionedParams c params (r\<lparr>rq_params := rq_params r @ [(k, v')]\<rparr>)
      | Inl e \<Rightarrow> r\<lparr>rq_err := Some e\<rparr>)"

definition Body :: "kube_body option \<Rightarrow> rest_request \<Rightarrow> rest_request" where
  "Body b r = (if rq_err r \<noteq> None then r else case b of None \<Rightarrow> r | Some x \<Rightarrow> r\<lparr>rq_body := Some x\<rparr>)"

definition request_path :: "rest_request \<Rightarrow> string" where
  "request_path r =
     (let p = rq_pathPrefix r;
          p = (case rq_namespace r of Some ns \<Rightarrow> if ns \<noteq> [] then path_Join [p, ''namespaces'', ns] else p | None \<Rightarrow> p);
          p = (if rq_resource r \<noteq> [] then path_Join [p, map lower_char (rq_resource r)] else p)
      in if rq_resourceName r \<noteq> [] \<or> rq_subresource r \<noteq> []
         then path_Join [p, rq_resourceName r, rq_subresource r, []] else p)"

text \<open>\<open>Do\<close>: an error of the construction is returned before anything is sent.\<close>

definition request_problem :: "rest_request \<Rightarrow> goerr option" where
  "request_problem r =
     (case rq_err r of
        Some e \<Rightarrow> Some e
      | None \<Rightarrow>
          if rq_verb r \<in> {''GET'', ''PUT'', ''DELETE''} \<and> rq_namespace r = Some [] \<and> rq_resourceName r \<noteq> [] then
            Some (Errorf ''an empty namespace may not be set when a resource name is provided'')
          else if rq_verb r = ''POST'' \<and> rq_namespace r = Some [] then
            Some (Errorf ''an empty namespace may not be set during creation'')
          else None)"

definition Do :: "'w kube_client \<Rightarrow> rest_request \<Rightarrow> ('w, kube_object) go" where
  "Do c r =
     (case request_problem r of
        Some e \<Rightarrow> fail e
      | None \<Rightarrow> rc_serve c (rq_verb r) (request_path r) (rq_params r) (rq_body r))"

text \<open>\<open>Into\<close>: an object of another kind leaves the zero value, and a \<open>Status\<close> is an error unless it
  says success.\<close>

definition zero_Kluster :: Kluster where
  "zero_Kluster = \<lparr>k_Name = [], k_Namespace = [], k_UID = [], k_Labels = [], k_Annotations = [], k_CreationTimestamp = 0,
     k_Spec = zero_KlusterSpec, k_Status = zero_KlusterStatus\<rparr>"

definition Into_Kluster :: "kube_object \<Rightarrow> ('w, Kluster) go" where
  "Into_Kluster obj =
     (case obj of
        KlusterObject k \<Rightarrow> ret k
      | KlusterListObject _ \<Rightarrow> ret zero_Kluster
      | StatusObject success msg \<Rightarrow> if success then ret zero_Kluster else fail (Errorf msg))"

definition Into_KlusterList :: "kube_object \<Rightarrow> ('w, Kluster list) go" where
  "Into_KlusterList obj =
     (case obj of
        KlusterObject _ \<Rightarrow> ret []
      | KlusterListObject ks \<Rightarrow> ret ks
      | StatusObject success msg \<Rightarrow> if success then ret [] else fail (Errorf msg))"

section \<open>The methods of \<open>klusters\<close>\<close>

definition klusters_Get :: "'w kube_client \<Rightarrow> string \<Rightarrow> string \<Rightarrow> (string \<times> string) list \<Rightarrow> ('w, Kluster) go" where
  "klusters_Get c ns name options =
     bnd (Do c (VersionedParams c options (Name name (Resource ''klusters'' (Namespace ns (NewRequest c ''GET'')))))) Into_Kluster"

definition klusters_List :: "'w kube_client \<Rightarrow> string \<Rightarrow> (string \<times> string) list \<Rightarrow> ('w, Kluster list) go" where
  "klusters_List c ns opts =
     bnd (Do c (VersionedParams c opts (Resource ''klusters'' (Namespace ns (NewRequest c ''GET''))))) Into_KlusterList"

definition klusters_Watch :: "'w kube_client \<Rightarrow> string \<Rightarrow> (string \<times> string) list \<Rightarrow> ('w, unit) go" where
  "klusters_Watch c ns opts =
     (let r = VersionedParams c (opts @ [(''watch'', ''true'')]) (Resource ''klusters'' (Namespace ns (NewRequest c ''GET'')))
      in case rq_err r of Some e \<Rightarrow> fail e | None \<Rightarrow> rc_watch c (request_path r) (rq_params r))"

definition klusters_Create :: "'w kube_client \<Rightarrow> string \<Rightarrow> Kluster \<Rightarrow> ('w, Kluster) go" where
  "klusters_Create c ns kluster =
     bnd (Do c (Body (Some (KlusterBody kluster)) (Resource ''klusters'' (Namespace ns (NewRequest c ''POST''))))) Into_Kluster"

definition klusters_Update :: "'w kube_client \<Rightarrow> string \<Rightarrow> Kluster \<Rightarrow> ('w, Kluster) go" where
  "klusters_Update c ns kluster =
     bnd (Do c (Body (Some (KlusterBody kluster))
       (Name (k_Name kluster) (Resource ''klusters'' (Namespace ns (NewRequest c ''PUT'')))))) Into_Kluster"

definition klusters_UpdateStatus :: "'w kube_client \<Rightarrow> string \<Rightarrow> Kluster \<Rightarrow> ('w, Kluster) go" where
  "klusters_UpdateStatus c ns kluster =
     bnd (Do c (Body (Some (KlusterBody kluster)) (SubResource [''status'']
       (Name (k_Name kluster) (Resource ''klusters'' (Namespace ns (NewRequest c ''PUT''))))))) Into_Kluster"

definition klusters_Delete :: "'w kube_client \<Rightarrow> string \<Rightarrow> string \<Rightarrow> (string \<times> string) list option \<Rightarrow> ('w, unit) go" where
  "klusters_Delete c ns name options =
     bnd (Do c (Body (map_option DeleteOptionsBody options)
       (Name name (Resource ''klusters'' (Namespace ns (NewRequest c ''DELETE'')))))) (\<lambda>_. ret ())"

definition klusters_DeleteCollection ::
  "'w kube_client \<Rightarrow> string \<Rightarrow> (string \<times> string) list option \<Rightarrow> (string \<times> string) list \<Rightarrow> ('w, unit) go" where
  "klusters_DeleteCollection c ns options listOptions =
     bnd (Do c (Body (map_option DeleteOptionsBody options)
       (VersionedParams c listOptions (Resource ''klusters'' (Namespace ns (NewRequest c ''DELETE'')))))) (\<lambda>_. ret ())"

definition klusters_Patch :: "'w kube_client \<Rightarrow> string \<Rightarrow> string \<Rightarrow> string \<Rightarrow> string list \<Rightarrow> ('w, Kluster) go" where
  "klusters_Patch c ns name data subresources =
     bnd (Do c (Body (Some (PatchBody data)) (Name name (SubResource subresources
       (Resource ''klusters'' (Namespace ns (NewRequest c ''PATCH'')))))))
       Into_Kluster"

text \<open>The client as the callers use it: without options, \<open>List\<close> with a label selector, \<open>Delete\<close> with
  empty options.\<close>

definition rest_klusters :: "'w kube_client \<Rightarrow> 'w KlusterClient" where
  "rest_klusters c =
     \<lparr> kc_Get = (\<lambda>ns n. klusters_Get c ns n []),
       kc_List = (\<lambda>ns l. klusters_List c ns [(''labelSelector'', l)]),
       kc_Create = klusters_Create c,
       kc_Update = klusters_Update c,
       kc_Delete = (\<lambda>ns n. klusters_Delete c ns n (Some [])) \<rparr>"

section \<open>The lister\<close>

text \<open>The indexer of the informer: its objects under their keys, in some order.\<close>

type_synonym indexer = "(string \<times> Kluster) list"

definition lister_List :: "indexer \<Rightarrow> ((string \<times> string) list \<Rightarrow> bool) \<Rightarrow> Kluster list" where
  "lister_List ix selector = filter (\<lambda>k. selector (k_Labels k)) (map snd ix)"

definition namespace_lister_List :: "indexer \<Rightarrow> string \<Rightarrow> ((string \<times> string) list \<Rightarrow> bool) \<Rightarrow> Kluster list" where
  "namespace_lister_List ix ns selector =
     filter (\<lambda>k. (ns = [] \<or> k_Namespace k = ns) \<and> selector (k_Labels k)) (map snd ix)"

definition namespace_lister_Get :: "indexer \<Rightarrow> string \<Rightarrow> string \<Rightarrow> Kluster outcome" where
  "namespace_lister_Get ix ns name =
     (case map_of ix (ns @ ''/'' @ name) of None \<Rightarrow> Fail (ApiNotFound name) | Some k \<Rightarrow> Ok k)"

section \<open>The factory of informers\<close>

text \<open>\<open>pkg/generated/informers/externalversions/factory.go\<close>: the informers by the name of their type in the
  order they were asked for, those that are started, and the goroutines that run one.\<close>

record 'i informer_factory =
  if_informers :: "(string \<times> 'i) list"
  if_started :: "string list"
  if_running :: "(string \<times> 'i) list"

definition NewSharedInformerFactory :: "'i informer_factory" where
  "NewSharedInformerFactory = \<lparr> if_informers = [], if_started = [], if_running = [] \<rparr>"

definition InformerFor :: "string \<Rightarrow> 'i \<Rightarrow> 'i informer_factory \<Rightarrow> 'i \<times> 'i informer_factory" where
  "InformerFor informerType new_informer f =
     (case map_of (if_informers f) informerType of
        Some informer \<Rightarrow> (informer, f)
      | None \<Rightarrow> (new_informer, f\<lparr>if_informers := if_informers f @ [(informerType, new_informer)]\<rparr>))"

definition start_informer :: "string \<times> 'i \<Rightarrow> 'i informer_factory \<Rightarrow> 'i informer_factory" where
  "start_informer i f =
     (if fst i \<in> set (if_started f) then f
      else f\<lparr>if_running := if_running f @ [i], if_started := if_started f @ [fst i]\<rparr>)"

definition factory_Start :: "'i informer_factory \<Rightarrow> 'i informer_factory" where
  "factory_Start f = fold start_informer (if_informers f) f"

definition factory_WaitForCacheSync :: "('i \<Rightarrow> bool) \<Rightarrow> 'i informer_factory \<Rightarrow> (string \<times> bool) list" where
  "factory_WaitForCacheSync synced f =
     map (\<lambda>(t, i). (t, synced i)) (filter (\<lambda>(t, i). t \<in> set (if_started f)) (if_informers f))"

text \<open>Every informer runs at most once, and what runs is an informer of the factory.\<close>

definition factory_ok :: "'i informer_factory \<Rightarrow> bool" where
  "factory_ok f \<longleftrightarrow> distinct (map fst (if_informers f)) \<and> distinct (if_started f) \<and>
     map fst (if_running f) = if_started f \<and> set (if_running f) \<subseteq> set (if_informers f)"

lemma factory_new: "factory_ok NewSharedInformerFactory"
  by (simp add: factory_ok_def NewSharedInformerFactory_def)

lemma factory_InformerFor: "factory_ok f \<Longrightarrow> factory_ok (snd (InformerFor t i f))"
  by (auto simp: factory_ok_def InformerFor_def map_of_eq_None_iff split: option.splits)

lemma InformerFor_shared: "fst (InformerFor t i2 (snd (InformerFor t i1 f))) = fst (InformerFor t i1 f)"
  by (auto simp: InformerFor_def split: option.splits)

lemma start_informers:
  assumes "factory_ok f" "set is \<subseteq> set (if_informers f)"
  shows "factory_ok (fold start_informer is f) \<and> if_informers (fold start_informer is f) = if_informers f \<and>
    set (if_started (fold start_informer is f)) = set (if_started f) \<union> fst ` set is"
  using assms
proof (induction "is" arbitrary: f)
  case (Cons i "is")
  have "factory_ok (start_informer i f) \<and> if_informers (start_informer i f) = if_informers f \<and>
      set (if_started (start_informer i f)) = insert (fst i) (set (if_started f))"
    using Cons.prems by (auto simp: factory_ok_def start_informer_def)
  with Cons.IH [of "start_informer i f"] Cons.prems(2) show ?case by simp
qed simp

text \<open>After \<open>Start\<close> every informer runs exactly once, also when it is called again.\<close>

lemma factory_Start_once:
  assumes "factory_ok f"
  shows "factory_ok (factory_Start f) \<and> set (if_started (factory_Start f)) = fst ` set (if_informers f) \<and>
    factory_Start (factory_Start f) = factory_Start f"
proof -
  have started: "set (if_started f) \<subseteq> fst ` set (if_informers f)"
    using assms unfolding factory_ok_def by (metis image_mono list.set_map)
  note s = start_informers [OF assms, of "if_informers f", simplified]
  have again: "fold start_informer is g = g" if "fst ` set is \<subseteq> set (if_started g)" for "is" and g :: "'a informer_factory"
    using that by (induction "is") (auto simp: start_informer_def)
  show ?thesis
    using s started again [of "if_informers f" "factory_Start f"] by (auto simp: factory_Start_def)
qed

section \<open>Which request is sent\<close>

text \<open>A name that can be a segment of a path.\<close>

definition kube_name :: "string \<Rightarrow> bool" where
  "kube_name s \<longleftrightarrow> clean_segment s \<and> CHR ''%'' \<notin> set s"

definition klusters_path :: "string \<Rightarrow> string" where
  "klusters_path ns = slashed [''apis'', ''kubernikus.sap.cc'', ''v1'', ''namespaces'', ns, ''klusters'']"

definition kluster_path :: "string \<Rightarrow> string \<Rightarrow> string" where
  "kluster_path ns n = slashed [''apis'', ''kubernikus.sap.cc'', ''v1'', ''namespaces'', ns, ''klusters'', n]"

lemma kube_name_iff: "kube_name s \<longleftrightarrow> s \<noteq> [] \<and> IsValidPathSegmentName s = []"
  by (auto simp: kube_name_def clean_segment_def IsValidPathSegmentName_def)

text \<open>Joining clean segments to a path appends them.\<close>

lemma path_Join_append:
  assumes "list_all clean_segment es" "es \<noteq> []" "list_all clean_segment xs" "xs \<noteq> []"
  shows "path_Join (slashed es # xs) = slashed (es @ xs)"
proof -
  have ne: "slashed es \<noteq> []" using assms(2) by (cases es) auto
  have "Join (slashed es # xs) ''/'' = slashed (es @ xs)"
    using assms(2,4) slashed_Join [of xs] by (simp add: Join_Cons slashed_def)
  moreover have "list_all clean_segment (es @ xs)" using assms by simp
  ultimately show ?thesis
    using path_Clean_slashed [of "es @ xs"] ne assms(2) by (simp add: path_Join_def)
qed

lemma clean_elems_blank: "clean_elems r (es @ [[], []]) acc = clean_elems r es acc"
  by (induction es arbitrary: acc) (auto split: list.split)

lemma path_Join_blank:
  assumes "list_all clean_segment es" "es \<noteq> []" "clean_segment x"
  shows "path_Join [slashed es, x, [], []] = slashed (es @ [x])"
proof -
  have ne: "slashed es \<noteq> []" using assms(2) by (cases es) auto
  have seg: "list_all clean_segment (es @ [x])" "\<And>e. e \<in> set (es @ [x]) \<Longrightarrow> CHR ''/'' \<notin> set e"
    using assms by (auto simp: list_all_iff clean_segment_def)
  have join: "Join [slashed es, x, [], []] ''/'' = Join ([] # (es @ [x]) @ [[], []]) ''/''"
    using assms(2) slashed_Join [of es] by (induction es "''/''" rule: Join.induct) (auto simp: Join_Cons slashed_def)
  have "Split CHR ''/'' (Join ([] # (es @ [x]) @ [[], []]) ''/'') = [] # (es @ [x]) @ [[], []]"
    by (rule Split_Join) (use seg(2) in auto)
  moreover have "hd (Join ([] # (es @ [x]) @ [[], []]) ''/'') = CHR ''/''" "Join ([] # (es @ [x]) @ [[], []]) ''/'' \<noteq> []"
    by (cases es; simp add: Join_Cons)+
  ultimately have "path_Clean (Join [slashed es, x, [], []] ''/'') = CHR ''/'' # Join (es @ [x]) ''/''"
    using clean_elems_blank [of True "es @ [x]" "[]"] clean_elems_slashed [OF seg(1), of True "[]"]
    unfolding join by (simp add: path_Clean_def Let_def)
  then show ?thesis using ne slashed_Join [of "es @ [x]"] by (simp add: path_Join_def)
qed

text \<open>The prefix of the requests of a client without a base path.\<close>

definition api_prefix :: "string list" where
  "api_prefix = [''apis'', ''kubernikus.sap.cc'', ''v1'']"

lemma api_prefix_clean: "list_all clean_segment api_prefix" "api_prefix \<noteq> []" "slashed api_prefix = versionedAPIPath"
  by (simp_all add: api_prefix_def clean_segment_def versionedAPIPath_def)

lemma request_prefix: "rc_basePath c = [] \<Longrightarrow> rq_pathPrefix (NewRequest c verb) = slashed api_prefix"
proof -
  have "path_Join [''/'', []] = ''/''" by code_simp
  moreover have "path_Join [''/'', slashed api_prefix] = slashed api_prefix"
    using path_Join_root [OF api_prefix_clean(1,2)] .
  ultimately show "rc_basePath c = [] \<Longrightarrow> ?thesis" by (simp add: NewRequest_def api_prefix_clean(3))
qed

lemma NewRequest_fields [simp]:
  "rq_verb (NewRequest c verb) = verb" "rq_namespace (NewRequest c verb) = None" "rq_resource (NewRequest c verb) = []"
  "rq_resourceName (NewRequest c verb) = []" "rq_subresource (NewRequest c verb) = []" "rq_params (NewRequest c verb) = []"
  "rq_body (NewRequest c verb) = None" "rq_err (NewRequest c verb) = None"
  by (simp_all add: NewRequest_def)

text \<open>The state of a request for a resource of a namespace.\<close>

definition for_klusters :: "'w kube_client \<Rightarrow> string \<Rightarrow> string \<Rightarrow> rest_request" where
  "for_klusters c verb ns = Resource ''klusters'' (Namespace ns (NewRequest c verb))"

lemma Resource_fine: "IsValidPathSegmentName ''klusters'' = []"
  by code_simp

lemma for_klusters_valid:
  "IsValidPathSegmentName ns = [] \<Longrightarrow>
     for_klusters c verb ns = (NewRequest c verb)\<lparr>rq_namespace := Some ns, rq_resource := ''klusters''\<rparr>"
  by (simp add: for_klusters_def Namespace_def Resource_def Resource_fine NewRequest_def)

lemma for_klusters_invalid:
  "IsValidPathSegmentName ns \<noteq> [] \<Longrightarrow> rq_err (for_klusters c verb ns) \<noteq> None"
  by (simp add: for_klusters_def Namespace_def Resource_def NewRequest_def request_error_def)

lemma setters_keep_error:
  "rq_err r \<noteq> None \<Longrightarrow> Name n r = r" "rq_err r \<noteq> None \<Longrightarrow> Body b r = r" "rq_err r \<noteq> None \<Longrightarrow> VersionedParams c ps r = r"
  by (simp_all add: Name_def Body_def) (cases ps; auto)

lemma Name_bad: "rq_err r = None \<Longrightarrow> \<not> kube_name n \<Longrightarrow> rq_err (Name n r) \<noteq> None"
  by (auto simp: Name_def kube_name_iff request_error_def)

lemma Do_error: "rq_err r \<noteq> None \<Longrightarrow> \<exists>e. Do c r = fail e"
  by (auto simp: Do_def request_problem_def)

lemma lower_klusters: "map lower_char ''klusters'' = ''klusters''"
  by code_simp

lemma clean_klusters: "clean_segment ''namespaces'' \<and> clean_segment ''klusters''"
  by (simp add: clean_segment_def)

lemma klusters_path_eq:
  assumes "rc_basePath c = []" "kube_name ns"
  shows "request_path (for_klusters c verb ns) = klusters_path ns"
proof -
  have ns: "ns \<noteq> []" "clean_segment ns" "IsValidPathSegmentName ns = []"
    using assms(2) kube_name_iff [of ns] by (auto simp: kube_name_def)
  have 1: "path_Join [slashed api_prefix, ''namespaces'', ns] = slashed (api_prefix @ [''namespaces'', ns])"
    by (rule path_Join_append) (simp_all only: api_prefix_clean clean_klusters ns(2) list.pred_inject simp_thms list.distinct)
  have 2: "path_Join [slashed (api_prefix @ [''namespaces'', ns]), ''klusters''] =
      slashed ((api_prefix @ [''namespaces'', ns]) @ [''klusters''])"
    by (rule path_Join_append)
      (simp_all only: api_prefix_clean clean_klusters ns(2) list_all_append list.pred_inject simp_thms list.distinct append_is_Nil_conv)
  have "request_path (for_klusters c verb ns) = path_Join [path_Join [slashed api_prefix, ''namespaces'', ns], ''klusters'']"
    using ns(1)
    by (simp add: for_klusters_valid [OF ns(3)] request_path_def request_prefix [OF assms(1)] lower_klusters [simplified] Let_def)
  then show ?thesis
    by (simp only: 1 2) (simp only: klusters_path_def api_prefix_def append.simps)
qed

lemma kluster_path_eq:
  assumes "rc_basePath c = []" "kube_name ns" "kube_name n"
  shows "request_path (Name n (for_klusters c verb ns)) = kluster_path ns n"
proof -
  let ?es = "api_prefix @ [''namespaces'', ns, ''klusters'']"
  have ns: "clean_segment ns" "IsValidPathSegmentName ns = []" and n: "clean_segment n" "n \<noteq> []" "IsValidPathSegmentName n = []"
    using assms kube_name_iff [of ns] kube_name_iff [of n] by (auto simp: kube_name_def)
  have base: "request_path (for_klusters c verb ns) = slashed ?es"
    unfolding klusters_path_eq [OF assms(1,2)] klusters_path_def api_prefix_def by (simp only: append.simps)
  have "path_Join [slashed ?es, n, [], []] = slashed (?es @ [n])"
    by (rule path_Join_blank)
      (simp_all only: api_prefix_clean clean_klusters ns(1) n(1) list_all_append list.pred_inject simp_thms list.distinct append_is_Nil_conv)
  moreover have "request_path (Name n (for_klusters c verb ns)) = path_Join [request_path (for_klusters c verb ns), n, [], []]"
    using n by (simp add: for_klusters_valid [OF ns(2)] request_path_def Name_def Let_def)
  ultimately show ?thesis unfolding base kluster_path_def api_prefix_def by (simp only: append.simps append_assoc)
qed

section \<open>The API server\<close>

text \<open>What the API server does with the four requests for custom resources whose namespace and name are
  segments of a path, as documented for the Kubernetes API, over the resources \<open>st w\<close>: it answers
  with the object, refuses a create of a name that is taken, and changes nothing when it refuses.\<close>

type_synonym 'w kube_transport = "string \<Rightarrow> string \<Rightarrow> (string \<times> string) list \<Rightarrow> kube_body option \<Rightarrow> ('w, kube_object) go"

definition server_gets :: "'w kube_transport \<Rightarrow> ('w \<Rightarrow> kluster_store) \<Rightarrow> bool" where
  "server_gets srv st \<longleftrightarrow>
     (\<forall>ns n w r w'. kube_name ns \<longrightarrow> kube_name n \<longrightarrow> srv ''GET'' (kluster_path ns n) [] None w = (r, w') \<longrightarrow>
        st w' = st w \<and> (\<forall>obj. r = Ok obj \<longrightarrow>
          (\<exists>k. obj = KlusterObject k \<and> st w (ns, n) = Some k \<and> k_Name k = n \<and> k_Namespace k = ns)))"

definition server_puts :: "'w kube_transport \<Rightarrow> ('w \<Rightarrow> kluster_store) \<Rightarrow> bool" where
  "server_puts srv st \<longleftrightarrow>
     (\<forall>ns k w r w'. kube_name ns \<longrightarrow> kube_name (k_Name k) \<longrightarrow>
        srv ''PUT'' (kluster_path ns (k_Name k)) [] (Some (KlusterBody k)) w = (r, w') \<longrightarrow>
        (case r of Ok obj \<Rightarrow> (\<exists>k'. obj = KlusterObject k') \<and> st w' = (st w)((ns, k_Name k) \<mapsto> k) | _ \<Rightarrow> st w' = st w))"

definition server_deletes :: "'w kube_transport \<Rightarrow> ('w \<Rightarrow> kluster_store) \<Rightarrow> bool" where
  "server_deletes srv st \<longleftrightarrow>
     (\<forall>ns n opts w r w'. kube_name ns \<longrightarrow> kube_name n \<longrightarrow>
        srv ''DELETE'' (kluster_path ns n) [] (Some (DeleteOptionsBody opts)) w = (r, w') \<longrightarrow>
        (if is_ok r then st w' = (st w)((ns, n) := None) else st w' = st w))"

definition server_posts :: "'w kube_transport \<Rightarrow> ('w \<Rightarrow> kluster_store) \<Rightarrow> bool" where
  "server_posts srv st \<longleftrightarrow>
     (\<forall>ns k w r w'. kube_name ns \<longrightarrow> srv ''POST'' (klusters_path ns) [] (Some (KlusterBody k)) w = (r, w') \<longrightarrow>
        (case r of
           Ok obj \<Rightarrow> \<exists>k'. obj = KlusterObject k' \<and> st w (ns, k_Name k) = None \<and> st w' = (st w)((ns, k_Name k) \<mapsto> k') \<and>
             k_Name k' = k_Name k \<and> k_Namespace k' = ns \<and> k_Labels k' = k_Labels k \<and>
             k_Annotations k' = k_Annotations k \<and> k_Spec k' = k_Spec k \<and> k_Status k' = k_Status k
         | _ \<Rightarrow> st w' = st w))"

definition server_lists :: "'w kube_transport \<Rightarrow> ('w \<Rightarrow> kluster_store) \<Rightarrow> bool" where
  "server_lists srv st \<longleftrightarrow>
     (\<forall>ns account w obj w'. kube_name ns \<longrightarrow>
        srv ''GET'' (klusters_path ns) [(''labelSelector'', ''account='' @ account)] None w = (Ok obj, w') \<longrightarrow>
        (\<exists>ks. obj = KlusterListObject ks \<and>
          set ks = {k. \<exists>n. st w (ns, n) = Some k \<and> map_of (k_Labels k) ''account'' = Some account}))"

definition kluster_server :: "'w kube_transport \<Rightarrow> ('w \<Rightarrow> kluster_store) \<Rightarrow> bool" where
  "kluster_server srv st \<longleftrightarrow>
     server_gets srv st \<and> server_puts srv st \<and> server_deletes srv st \<and> server_posts srv st \<and> server_lists srv st"

text \<open>What each method sends, and that nothing is sent for a name that is no segment.\<close>

lemma Name_valid: "rq_err r = None \<Longrightarrow> rq_resourceName r = [] \<Longrightarrow> kube_name n \<Longrightarrow> Name n r = r\<lparr>rq_resourceName := n\<rparr>"
  by (simp add: Name_def kube_name_iff)

lemma request_path_body: "request_path (r\<lparr>rq_body := x\<rparr>) = request_path r"
  by (simp add: request_path_def Let_def cong: if_cong)

lemma named_request_sent:
  assumes "rc_basePath c = []" "kube_name ns" "kube_name n"
  shows "Do c (Body b (Name n (for_klusters c verb ns))) = rc_serve c verb (kluster_path ns n) [] b"
proof -
  have ns: "IsValidPathSegmentName ns = []" "ns \<noteq> []" using assms(2) by (simp_all add: kube_name_iff)
  let ?r = "Name n (for_klusters c verb ns)"
  have r: "rq_err ?r = None" "rq_verb ?r = verb" "rq_namespace ?r = Some ns" "rq_params ?r = []" "rq_body ?r = None"
    using Name_valid [OF _ _ assms(3), of "for_klusters c verb ns"] by (simp_all add: for_klusters_valid [OF ns(1)])
  have "request_path (Body b ?r) = request_path ?r" by (cases b) (simp_all add: Body_def r request_path_body)
  then show ?thesis
    using ns(2) kluster_path_eq [OF assms, of verb] by (cases b) (simp_all add: Do_def request_problem_def Body_def r)
qed

lemma named_request_refused:
  assumes "\<not> (kube_name ns \<and> kube_name n)" "verb \<in> {''GET'', ''PUT'', ''DELETE''}"
  shows "\<exists>e. Do c (Body b (Name n (for_klusters c verb ns))) = fail e"
proof (cases "IsValidPathSegmentName ns = []")
  case valid: True
  show ?thesis
  proof (cases "kube_name n")
    case True
    then have "ns = []" using assms(1) valid by (auto simp: kube_name_iff)
    then have name: "Name n (for_klusters c verb ns) = (NewRequest c verb)\<lparr>rq_namespace := Some [], rq_resource := ''klusters'', rq_resourceName := n\<rparr>"
      using True for_klusters_valid [OF valid, of c verb] Name_valid [OF _ _ True, of "for_klusters c verb ns"] by simp
    have r: "rq_err (Body b (Name n (for_klusters c verb ns))) = None" "rq_verb (Body b (Name n (for_klusters c verb ns))) = verb"
      "rq_namespace (Body b (Name n (for_klusters c verb ns))) = Some []" "rq_resourceName (Body b (Name n (for_klusters c verb ns))) \<noteq> []"
      unfolding name using True kube_name_iff [of n] by (cases b; simp add: Body_def)+
    have "request_problem (Body b (Name n (for_klusters c verb ns))) \<noteq> None"
      unfolding request_problem_def r(1-3) using assms(2) r(4) by (simp only: option.case simp_thms if_True option.distinct)
    then show ?thesis unfolding Do_def by (auto simp del: insert_iff)
  next
    case False
    have "rq_err (Name n (for_klusters c verb ns)) \<noteq> None"
      by (rule Name_bad [OF _ False]) (simp add: for_klusters_valid [OF valid])
    then show ?thesis using Do_error setters_keep_error(2) by metis
  qed
next
  case False
  then show ?thesis using for_klusters_invalid Do_error setters_keep_error(1,2) by metis
qed

lemma collection_request_sent:
  assumes "rc_basePath c = []" "kube_name ns"
  shows "Do c (Body (Some x) (for_klusters c ''POST'' ns)) = rc_serve c ''POST'' (klusters_path ns) [] (Some x)"
    "l \<noteq> [] \<Longrightarrow> Do c (VersionedParams c [(''labelSelector'', l)] (for_klusters c ''GET'' ns)) =
       rc_serve c ''GET'' (klusters_path ns) [(''labelSelector'', l)] None"
proof -
  have ns: "IsValidPathSegmentName ns = []" "ns \<noteq> []" using assms(2) by (simp_all add: kube_name_iff)
  have path: "request_path (r\<lparr>rq_params := ps\<rparr>) = request_path r" for r ps
    by (simp add: request_path_def Let_def cong: if_cong)
  have r: "rq_err (for_klusters c verb ns) = None" "rq_verb (for_klusters c verb ns) = verb"
    "rq_namespace (for_klusters c verb ns) = Some ns" "rq_resourceName (for_klusters c verb ns) = []"
    "rq_params (for_klusters c verb ns) = []" "rq_body (for_klusters c verb ns) = None" for verb
    by (simp_all add: for_klusters_valid [OF ns(1)])
  show "Do c (Body (Some x) (for_klusters c ''POST'' ns)) = rc_serve c ''POST'' (klusters_path ns) [] (Some x)"
    using ns(2) by (simp add: Do_def request_problem_def Body_def r request_path_body klusters_path_eq [OF assms])
  show "Do c (VersionedParams c [(''labelSelector'', l)] (for_klusters c ''GET'' ns)) =
       rc_serve c ''GET'' (klusters_path ns) [(''labelSelector'', l)] None" if "l \<noteq> []"
    using ns(2) that by (simp add: Do_def request_problem_def r path klusters_path_eq [OF assms])
qed

lemma collection_request_refused:
  assumes "\<not> kube_name ns"
  shows "\<exists>e. Do c (Body (Some x) (for_klusters c ''POST'' ns)) = fail e"
    "ns \<noteq> [] \<Longrightarrow> \<exists>e. Do c (VersionedParams c ps (for_klusters c ''GET'' ns)) = fail e"
proof -
  show "\<exists>e. Do c (Body (Some x) (for_klusters c ''POST'' ns)) = fail e"
  proof (cases "IsValidPathSegmentName ns = []")
    case True
    then have "ns = []" using assms by (simp add: kube_name_iff)
    then show ?thesis
      unfolding for_klusters_valid [OF True] by (simp add: Do_def request_problem_def Body_def) (rule exI, rule refl)
  next
    case False
    then show ?thesis using for_klusters_invalid Do_error setters_keep_error(2) by metis
  qed
  show "\<exists>e. Do c (VersionedParams c ps (for_klusters c ''GET'' ns)) = fail e" if "ns \<noteq> []"
    using for_klusters_invalid [of ns c "''GET''"] Do_error setters_keep_error(3) assms that kube_name_iff [of ns] by metis
qed

section \<open>The client keeps the laws of the store\<close>

lemma rest_klusters_requests:
  "kc_Get (rest_klusters c) ns n = bnd (Do c (Body None (Name n (for_klusters c ''GET'' ns)))) Into_Kluster"
  "kc_List (rest_klusters c) ns l = bnd (Do c (VersionedParams c [(''labelSelector'', l)] (for_klusters c ''GET'' ns))) Into_KlusterList"
  "kc_Create (rest_klusters c) ns k = bnd (Do c (Body (Some (KlusterBody k)) (for_klusters c ''POST'' ns))) Into_Kluster"
  "kc_Update (rest_klusters c) ns k = bnd (Do c (Body (Some (KlusterBody k)) (Name (k_Name k) (for_klusters c ''PUT'' ns)))) Into_Kluster"
  "kc_Delete (rest_klusters c) ns n = bnd (Do c (Body (Some (DeleteOptionsBody [])) (Name n (for_klusters c ''DELETE'' ns)))) (\<lambda>_. ret ())"
  by (simp_all add: rest_klusters_def klusters_Get_def klusters_List_def klusters_Create_def klusters_Update_def
      klusters_Delete_def for_klusters_def Body_def [where b = None])

lemma Get_refines:
  assumes c: "rc_basePath c = []" and srv: "server_gets (rc_serve c) st" and get: "kc_Get (rest_klusters c) ns n w = (r, w')"
  shows "st w' = st w \<and> (\<forall>k. r = Ok k \<longrightarrow> st w (ns, n) = Some k \<and> k_Name k = n \<and> k_Namespace k = ns)"
proof (cases "kube_name ns \<and> kube_name n")
  case True
  obtain r1 w1 where s: "rc_serve c ''GET'' (kluster_path ns n) [] None w = (r1, w1)" by (metis surj_pair)
  note law = srv [unfolded server_gets_def, rule_format, OF conjunct1 [OF True] conjunct2 [OF True] s]
  have "bnd (rc_serve c ''GET'' (kluster_path ns n) [] None) Into_Kluster w = (r, w')"
    using get named_request_sent [OF c, of ns n None "''GET''"] True by (simp only: rest_klusters_requests)
  then show ?thesis using s law by (cases r1) (auto simp: Into_Kluster_def)
next
  case False
  then obtain e where "Do c (Body None (Name n (for_klusters c ''GET'' ns))) = fail e"
    using named_request_refused [of ns n "''GET''" c None] by (auto simp only: insert_iff)
  then show ?thesis using get by (auto simp: rest_klusters_requests)
qed

lemma Update_refines:
  assumes c: "rc_basePath c = []" and srv: "server_puts (rc_serve c) st" and upd: "kc_Update (rest_klusters c) ns k w = (r, w')"
  shows "if is_ok r then st w' = (st w)((ns, k_Name k) \<mapsto> k) else st w' = st w"
proof (cases "kube_name ns \<and> kube_name (k_Name k)")
  case True
  let ?m = "rc_serve c ''PUT'' (kluster_path ns (k_Name k)) [] (Some (KlusterBody k))"
  obtain r1 w1 where s: "?m w = (r1, w1)" by (metis surj_pair)
  note law = srv [unfolded server_puts_def, rule_format, OF conjunct1 [OF True] conjunct2 [OF True] s]
  have "bnd ?m Into_Kluster w = (r, w')"
    using upd named_request_sent [OF c, of ns "k_Name k" "Some (KlusterBody k)" "''PUT''"] True by (simp only: rest_klusters_requests)
  then show ?thesis using s law by (cases r1) (auto simp: Into_Kluster_def)
next
  case False
  then obtain e where "Do c (Body (Some (KlusterBody k)) (Name (k_Name k) (for_klusters c ''PUT'' ns))) = fail e"
    using named_request_refused [of ns "k_Name k" "''PUT''" c "Some (KlusterBody k)"] by (auto simp only: insert_iff)
  then show ?thesis using upd by (auto simp: rest_klusters_requests)
qed

lemma Delete_refines:
  assumes c: "rc_basePath c = []" and srv: "server_deletes (rc_serve c) st" and del: "kc_Delete (rest_klusters c) ns n w = (r, w')"
  shows "if is_ok r then st w' = (st w)((ns, n) := None) else st w' = st w"
proof (cases "kube_name ns \<and> kube_name n")
  case True
  let ?m = "rc_serve c ''DELETE'' (kluster_path ns n) [] (Some (DeleteOptionsBody []))"
  obtain r1 w1 where s: "?m w = (r1, w1)" by (metis surj_pair)
  note law = srv [unfolded server_deletes_def, rule_format, OF conjunct1 [OF True] conjunct2 [OF True] s]
  have "bnd ?m (\<lambda>_. ret ()) w = (r, w')"
    using del named_request_sent [OF c, of ns n "Some (DeleteOptionsBody [])" "''DELETE''"] True by (simp only: rest_klusters_requests)
  then show ?thesis using s law by (cases r1) auto
next
  case False
  then obtain e where "Do c (Body (Some (DeleteOptionsBody [])) (Name n (for_klusters c ''DELETE'' ns))) = fail e"
    using named_request_refused [of ns n "''DELETE''" c "Some (DeleteOptionsBody [])"] by (auto simp only: insert_iff)
  then show ?thesis using del by (auto simp: rest_klusters_requests)
qed

lemma Create_refines:
  assumes c: "rc_basePath c = []" and srv: "server_posts (rc_serve c) st" and create: "kc_Create (rest_klusters c) ns k w = (r, w')"
  shows "case r of
      Ok k' \<Rightarrow> st w (ns, k_Name k) = None \<and> st w' = (st w)((ns, k_Name k) \<mapsto> k') \<and>
        k_Name k' = k_Name k \<and> k_Namespace k' = ns \<and> k_Labels k' = k_Labels k \<and>
        k_Annotations k' = k_Annotations k \<and> k_Spec k' = k_Spec k \<and> k_Status k' = k_Status k
    | _ \<Rightarrow> st w' = st w"
proof (cases "kube_name ns")
  case True
  let ?m = "rc_serve c ''POST'' (klusters_path ns) [] (Some (KlusterBody k))"
  obtain r1 w1 where s: "?m w = (r1, w1)" by (metis surj_pair)
  note law = srv [unfolded server_posts_def, rule_format, OF True s]
  have "bnd ?m Into_Kluster w = (r, w')"
    using create collection_request_sent(1) [OF c True] by (simp only: rest_klusters_requests)
  then show ?thesis using s law by (cases r1) (auto simp: Into_Kluster_def)
next
  case False
  then obtain e where "Do c (Body (Some (KlusterBody k)) (for_klusters c ''POST'' ns)) = fail e"
    using collection_request_refused(1) by blast
  then show ?thesis using create by (auto simp: rest_klusters_requests)
qed

lemma List_refines:
  assumes c: "rc_basePath c = []" and srv: "server_lists (rc_serve c) st" and ns: "ns \<noteq> []"
    and list: "kc_List (rest_klusters c) ns (''account='' @ account) w = (Ok ks, w')"
  shows "set ks = {k. \<exists>n. st w (ns, n) = Some k \<and> map_of (k_Labels k) ''account'' = Some account}"
proof (cases "kube_name ns")
  case True
  let ?m = "rc_serve c ''GET'' (klusters_path ns) [(''labelSelector'', ''account='' @ account)] None"
  have "bnd ?m Into_KlusterList w = (Ok ks, w')"
    using list collection_request_sent(2) [OF c True, of "''account='' @ account"] by (simp add: rest_klusters_requests)
  then obtain obj w1 where s: "?m w = (Ok obj, w1)" "Into_KlusterList obj w1 = (Ok ks, w')" by (auto simp: bnd_eq_Ok_iff)
  from srv [unfolded server_lists_def, rule_format, OF True s(1)] s(2) show ?thesis by (auto simp: Into_KlusterList_def)
next
  case False
  then obtain e where "Do c (VersionedParams c [(''labelSelector'', ''account='' @ account)] (for_klusters c ''GET'' ns)) = fail e"
    using collection_request_refused(2) ns by blast
  then show ?thesis using list by (simp add: rest_klusters_requests)
qed

text \<open>C11: The generated client implements the store of custom resources. On an API server that answers its
  requests as documented, the client keeps the laws on which the API handlers and the controllers
  rest: what is read is stored under the name asked for, a create adds a free name, an update or a delete
  changes exactly one entry or, when it fails, none, and a list has the resources of the account. That
  holds for every name and namespace: the empty ones and those that are no segment of a path are
  refused before a request is sent.\<close>

theorem clientset_refines:
  assumes "rc_basePath c = []" "kluster_server (rc_serve c) st"
  shows "kluster_api (rest_klusters c) st \<and> kluster_create_api (rest_klusters c) st \<and> kluster_list_api (rest_klusters c) st"
proof -
  have srv: "server_gets (rc_serve c) st" "server_puts (rc_serve c) st" "server_deletes (rc_serve c) st"
    "server_posts (rc_serve c) st" "server_lists (rc_serve c) st"
    using assms(2) by (simp_all add: kluster_server_def)
  have "kluster_api (rest_klusters c) st"
    unfolding kluster_api_def
    using Get_refines [OF assms(1) srv(1)] Update_refines [OF assms(1) srv(2)] Delete_refines [OF assms(1) srv(3)]
    by (intro conjI allI impI) (metis surj_pair snd_conv)+
  moreover have "kluster_create_api (rest_klusters c) st"
    unfolding kluster_create_api_def using Create_refines [OF assms(1) srv(4)] by blast
  moreover have "kluster_list_api (rest_klusters c) st"
    unfolding kluster_list_api_def using List_refines [OF assms(1) srv(5)] by blast
  ultimately show ?thesis by blast
qed

section \<open>An API server\<close>

text \<open>It reads the path; its resources are an association list.\<close>

type_synonym kube_world = "((string \<times> string) \<times> Kluster) list"

definition demo_get :: "string \<Rightarrow> string \<Rightarrow> (kube_world, kube_object) go" where
  "demo_get ns n w =
     (case map_of w (ns, n) of
        Some k \<Rightarrow> if k_Name k = n \<and> k_Namespace k = ns then (Ok (KlusterObject k), w) else (Fail (ApiNotFound n), w)
      | None \<Rightarrow> (Fail (ApiNotFound n), w))"

definition demo_list :: "string \<Rightarrow> string \<Rightarrow> (kube_world, kube_object) go" where
  "demo_list ns selector w =
     (Ok (KlusterListObject (map snd (filter (\<lambda>(e, k). fst e = ns \<and> map_of w e = Some k \<and>
        map_option (\<lambda>a. ''account='' @ a) (map_of (k_Labels k) ''account'') = Some selector) w))), w)"

definition demo_put :: "string \<Rightarrow> string \<Rightarrow> Kluster \<Rightarrow> (kube_world, kube_object) go" where
  "demo_put ns n k w =
     (if map_of w (ns, n) = None \<or> k_Name k \<noteq> n then (Fail (ApiNotFound n), w)
      else (Ok (KlusterObject k), ((ns, n), k) # w))"

definition demo_post :: "string \<Rightarrow> Kluster \<Rightarrow> (kube_world, kube_object) go" where
  "demo_post ns k w =
     (if map_of w (ns, k_Name k) \<noteq> None then (Fail (ApiAlreadyExists (k_Name k)), w)
      else (Ok (KlusterObject (k\<lparr>k_Namespace := ns\<rparr>)), ((ns, k_Name k), k\<lparr>k_Namespace := ns\<rparr>) # w))"

definition demo_delete :: "string \<Rightarrow> string \<Rightarrow> (kube_world, kube_object) go" where
  "demo_delete ns n w =
     (if map_of w (ns, n) = None then (Fail (ApiNotFound n), w)
      else (Ok (StatusObject True []), filter (\<lambda>(e, k). e \<noteq> (ns, n)) w))"

definition demo_kube :: "kube_world kube_transport" where
  "demo_kube verb path params body =
     (case drop 5 (Split CHR ''/'' path) of
        [ns, _] \<Rightarrow>
          (case body of
             Some (KlusterBody k) \<Rightarrow> demo_post ns k
           | _ \<Rightarrow> demo_list ns (case params of (_, l) # _ \<Rightarrow> l | [] \<Rightarrow> []))
      | [ns, _, n] \<Rightarrow>
          (if verb = ''DELETE'' then demo_delete ns n
           else case body of Some (KlusterBody k) \<Rightarrow> demo_put ns n k | _ \<Rightarrow> demo_get ns n)
      | _ \<Rightarrow> fail (ApiNotFound path))"

definition demo_kube_client :: "kube_world kube_client" where
  "demo_kube_client =
     \<lparr> rc_basePath = [], rc_field_selector = Inr, rc_serve = demo_kube, rc_watch = (\<lambda>_ _. ret ()) \<rparr>"

lemma Split_paths:
  assumes "kube_name ns"
  shows "drop 5 (Split CHR ''/'' (klusters_path ns)) = [ns, ''klusters'']"
    "kube_name n \<Longrightarrow> drop 5 (Split CHR ''/'' (kluster_path ns n)) = [ns, ''klusters'', n]"
proof -
  have seg: "list_all clean_segment [''apis'', ''kubernikus.sap.cc'', ''v1'', ''namespaces'', ns, ''klusters'']"
    using assms by (simp add: kube_name_def) (simp add: clean_segment_def)
  show "drop 5 (Split CHR ''/'' (klusters_path ns)) = [ns, ''klusters'']"
    unfolding klusters_path_def Split_slashed [OF seg] by simp
  assume n: "kube_name n"
  have "list_all clean_segment [''apis'', ''kubernikus.sap.cc'', ''v1'', ''namespaces'', ns, ''klusters'', n]"
    using seg n by (simp add: kube_name_def)
  from Split_slashed [OF this] show "drop 5 (Split CHR ''/'' (kluster_path ns n)) = [ns, ''klusters'', n]"
    unfolding kluster_path_def by simp
qed

lemma demo_kube_requests:
  assumes "kube_name ns"
  shows "kube_name n \<Longrightarrow> demo_kube ''GET'' (kluster_path ns n) ps None = demo_get ns n"
    "kube_name n \<Longrightarrow> demo_kube ''PUT'' (kluster_path ns n) ps (Some (KlusterBody k)) = demo_put ns n k"
    "kube_name n \<Longrightarrow> demo_kube ''DELETE'' (kluster_path ns n) ps b = demo_delete ns n"
    "demo_kube ''POST'' (klusters_path ns) ps (Some (KlusterBody k)) = demo_post ns k"
    "demo_kube ''GET'' (klusters_path ns) [(x, l)] None = demo_list ns l"
  using Split_paths [OF assms] by (simp_all add: demo_kube_def)

lemma map_of_remove: "map_of (filter (\<lambda>(e, k). e \<noteq> x) w) = (map_of w)(x := None)"
  by (induction w) auto

lemma demo_list_set:
  "snd ` {x \<in> set w. case x of (e, k) \<Rightarrow> fst e = ns \<and> map_of w e = Some k \<and> P k} = {k. \<exists>n. map_of w (ns, n) = Some k \<and> P k}"
  by (force dest: map_of_SomeD)

lemma demo_kube_server: "kluster_server demo_kube map_of"
  unfolding kluster_server_def server_gets_def server_puts_def server_deletes_def server_posts_def server_lists_def
  by (intro conjI allI impI)
    (auto simp: demo_kube_requests demo_get_def demo_put_def demo_delete_def demo_post_def demo_list_def map_of_remove demo_list_set
      simp del: Collect_case_prod split: if_splits option.splits)

theorem clientset_refines_witness:
  "kluster_api (rest_klusters demo_kube_client) map_of \<and> kluster_create_api (rest_klusters demo_kube_client) map_of \<and>
   kluster_list_api (rest_klusters demo_kube_client) map_of"
  by (rule clientset_refines) (simp_all add: demo_kube_client_def demo_kube_server)

end
