(* ===== verification/Nanny.thy ===== *)
theory Nanny
  imports RouteGC GoFmt
begin

text \<open>
  The route nanny, \<open>pkg/cmd/nanny/nanny.go\<close>: its options with their flags, the environment that
  completes them (\<open>pkg/cmd/env.go\<close>), their validation (\<open>pkg/cmd/validate.go\<close>), and the command, which
  runs the route garbage collector. The vendored \<open>envdecode.Decode\<close> and \<open>mergo.Merge\<close> are modelled
  for this structure; \<open>time.ParseDuration\<close>, the URL pattern and the messages of \<open>govalidator\<close>, and
  gophercloud are parameters. Durations are nanoseconds.
\<close>

section \<open>Options\<close>

record NannyOptions =
  no_AuthURL :: string
  no_AuthUsername :: string
  no_AuthPassword :: string
  no_AuthDomain :: string
  no_AuthProject :: string
  no_AuthProjectDomain :: string
  no_AuthProjectID :: string
  no_RouterID :: string
  no_ClusterCIDR :: string
  no_SyncPeriod :: int

definition minute :: int where
  "minute = 60000000000"

definition NewNannyOptions :: NannyOptions where
  "NewNannyOptions =
     \<lparr> no_AuthURL = [], no_AuthUsername = [], no_AuthPassword = [], no_AuthDomain = [], no_AuthProject = [],
       no_AuthProjectDomain = [], no_AuthProjectID = [], no_RouterID = [], no_ClusterCIDR = [], no_SyncPeriod = minute \<rparr>"

text \<open>The flags of a command line, \<open>period\<close> the value of \<open>--sync-period\<close>; a text flag that is not given is
  set to the empty text, the period keeps its value.\<close>

definition flag_text :: "(string \<rightharpoonup> string) \<Rightarrow> string \<Rightarrow> string" where
  "flag_text flags name = (case flags name of Some v \<Rightarrow> v | None \<Rightarrow> [])"

definition NannyOptions_BindFlags :: "(string \<rightharpoonup> string) \<Rightarrow> int option \<Rightarrow> NannyOptions \<Rightarrow> NannyOptions" where
  "NannyOptions_BindFlags flags period o1 =
     \<lparr> no_AuthURL = flag_text flags ''auth-url'', no_AuthUsername = flag_text flags ''auth-username'',
       no_AuthPassword = flag_text flags ''auth-password'', no_AuthDomain = flag_text flags ''auth-domain'',
       no_AuthProject = flag_text flags ''auth-project'', no_AuthProjectDomain = flag_text flags ''auth-project-domain'',
       no_AuthProjectID = flag_text flags ''auth-project-id'', no_RouterID = flag_text flags ''router-id'',
       no_ClusterCIDR = flag_text flags ''cluster-cidr'',
       no_SyncPeriod = (case period of Some d \<Rightarrow> d | None \<Rightarrow> no_SyncPeriod o1) \<rparr>"

section \<open>The environment\<close>

definition env_tags :: "string list" where
  "env_tags = [''OS_AUTH_URL'', ''OS_USERNAME'', ''OS_PASSWORD'', ''OS_USER_DOMAIN_NAME'', ''OS_PROJECT_NAME'',
     ''OS_PROJECT_DOMAIN_NAME'', ''OS_PROJECT_ID'', ''ROUTER_ID'', ''CLUSTER_CIDR'', ''SYNC_PERIOD'']"

text \<open>\<open>envdecode.Decode\<close> on a fresh structure: it fails if none of the variables is set; a period that is
  no duration is skipped.\<close>

definition decode_env :: "(string \<Rightarrow> string) \<Rightarrow> (string \<Rightarrow> int option) \<Rightarrow> NannyOptions outcome" where
  "decode_env env ParseDuration =
     (if list_all (\<lambda>k. env k = []) env_tags then
        Fail (Errorf ''none of the target fields were set from environment variables'')
      else Ok \<lparr> no_AuthURL = env ''OS_AUTH_URL'', no_AuthUsername = env ''OS_USERNAME'', no_AuthPassword = env ''OS_PASSWORD'',
                no_AuthDomain = env ''OS_USER_DOMAIN_NAME'', no_AuthProject = env ''OS_PROJECT_NAME'',
                no_AuthProjectDomain = env ''OS_PROJECT_DOMAIN_NAME'', no_AuthProjectID = env ''OS_PROJECT_ID'',
                no_RouterID = env ''ROUTER_ID'', no_ClusterCIDR = env ''CLUSTER_CIDR'',
                no_SyncPeriod = (if env ''SYNC_PERIOD'' = [] then 0
                                 else case ParseDuration (env ''SYNC_PERIOD'') of Some d \<Rightarrow> d | None \<Rightarrow> 0) \<rparr>)"

definition fill_text :: "string \<Rightarrow> string \<Rightarrow> string" where
  "fill_text dst src = (if dst = [] then src else dst)"

text \<open>\<open>mergo.Merge\<close>: the fields that are empty are taken from the second structure.\<close>

definition merge_options :: "NannyOptions \<Rightarrow> NannyOptions \<Rightarrow> NannyOptions" where
  "merge_options dst src =
     \<lparr> no_AuthURL = fill_text (no_AuthURL dst) (no_AuthURL src),
       no_AuthUsername = fill_text (no_AuthUsername dst) (no_AuthUsername src),
       no_AuthPassword = fill_text (no_AuthPassword dst) (no_AuthPassword src),
       no_AuthDomain = fill_text (no_AuthDomain dst) (no_AuthDomain src),
       no_AuthProject = fill_text (no_AuthProject dst) (no_AuthProject src),
       no_AuthProjectDomain = fill_text (no_AuthProjectDomain dst) (no_AuthProjectDomain src),
       no_AuthProjectID = fill_text (no_AuthProjectID dst) (no_AuthProjectID src),
       no_RouterID = fill_text (no_RouterID dst) (no_RouterID src),
       no_ClusterCIDR = fill_text (no_ClusterCIDR dst) (no_ClusterCIDR src),
       no_SyncPeriod = (if no_SyncPeriod dst = 0 then no_SyncPeriod src else no_SyncPeriod dst) \<rparr>"

definition PopulateFromEnv :: "(string \<Rightarrow> string) \<Rightarrow> (string \<Rightarrow> int option) \<Rightarrow> NannyOptions \<Rightarrow> NannyOptions outcome" where
  "PopulateFromEnv env ParseDuration obj =
     obind (decode_env env ParseDuration) (\<lambda>optionsFromEnv. Ok (merge_options obj optionsFromEnv))"

section \<open>Validation\<close>

text \<open>The fields that fail the validations in their tags.\<close>

definition nanny_problems :: "(string \<Rightarrow> bool) \<Rightarrow> NannyOptions \<Rightarrow> string list" where
  "nanny_problems is_url obj =
     (if no_AuthURL obj = [] \<or> \<not> is_url (no_AuthURL obj) then [''AuthURL''] else []) @
     (if no_AuthUsername obj = [] then [''AuthUsername''] else []) @
     (if no_AuthPassword obj = [] then [''AuthPassword''] else []) @
     (if no_AuthDomain obj = [] then [''AuthDomain''] else []) @
     (if no_RouterID obj = [] then [''RouterID''] else []) @
     (if no_ClusterCIDR obj = [] \<or> \<not> is_ok (ParseCIDR (no_ClusterCIDR obj)) then [''ClusterCIDR''] else [])"

record validator =
  va_ParseDuration :: "string \<Rightarrow> int option"
  va_is_url :: "string \<Rightarrow> bool"
  va_message :: "string list \<Rightarrow> string"

text \<open>The options have no \<open>Validate\<close> of their own.\<close>

definition cmd_Validate :: "(string \<Rightarrow> string) \<Rightarrow> validator \<Rightarrow> NannyOptions \<Rightarrow> NannyOptions outcome" where
  "cmd_Validate env va obj =
     obind (PopulateFromEnv env (va_ParseDuration va) obj) (\<lambda>obj.
       if nanny_problems (va_is_url va) obj \<noteq> [] then Fail (Errorf (va_message va (nanny_problems (va_is_url va) obj)))
       else Ok obj)"

section \<open>The collector\<close>

record NannyAuthOptions =
  na_IdentityEndpoint :: string
  na_Username :: string
  na_DomainName :: string
  na_Password :: string
  na_ProjectID :: string
  na_ProjectName :: string
  na_ProjectDomain :: string
  na_AllowReauth :: bool

record 'w nanny_cloud =
  go_NewClient :: "string \<Rightarrow> ('w, unit) go"
  go_AuthenticateV3 :: "NannyAuthOptions \<Rightarrow> ('w, unit) go"
  go_NewComputeV2 :: "('w, unit) go"
  go_NewNetworkV2 :: "('w, unit) go"
  go_listServers :: "('w, RServer pages) go"
  go_getRouter :: "string \<Rightarrow> ('w, Route list) go"
  go_updateRouter :: "string \<Rightarrow> Route list \<Rightarrow> ('w, unit) go"

definition routegc_New :: "'w nanny_cloud \<Rightarrow> string \<Rightarrow> IPNet \<Rightarrow> 'w RouteGarbageCollector" where
  "routegc_New go routerID clusterCIDR =
     \<lparr> gc_listServers = go_listServers go, gc_getRouter = go_getRouter go, gc_updateRouter = go_updateRouter go,
       gc_routerID = routerID, gc_clusterCIDR = clusterCIDR \<rparr>"

text \<open>\<open>wait.Until\<close>: \<open>rounds\<close> calls before the channel is closed.\<close>

primrec wait_Until :: "nat \<Rightarrow> ('w, unit) go \<Rightarrow> ('w, unit) go" where
  "wait_Until 0 f = ret ()"
| "wait_Until (Suc rounds) f = bnd f (\<lambda>_. wait_Until rounds f)"

definition routegc_Run :: "'w nanny_cloud \<Rightarrow> NannyAuthOptions \<Rightarrow> nat \<Rightarrow> 'w RouteGarbageCollector \<Rightarrow> ('w, unit) go" where
  "routegc_Run go authOpts rounds r =
     bnd (go_NewClient go (na_IdentityEndpoint authOpts)) (\<lambda>_.
     bnd (go_AuthenticateV3 go authOpts) (\<lambda>_.
     bnd (go_NewComputeV2 go) (\<lambda>_.
     bnd (go_NewNetworkV2 go) (\<lambda>_.
     wait_Until rounds (routegc_Reconcile r)))))"

definition nanny_auth :: "NannyOptions \<Rightarrow> NannyAuthOptions" where
  "nanny_auth obj =
     \<lparr> na_IdentityEndpoint = no_AuthURL obj, na_Username = no_AuthUsername obj, na_DomainName = no_AuthDomain obj,
       na_Password = no_AuthPassword obj, na_ProjectID = no_AuthProjectID obj, na_ProjectName = no_AuthProject obj,
       na_ProjectDomain = no_AuthProjectDomain obj, na_AllowReauth = True \<rparr>"

text \<open>\<open>run\<close>: of the two members of the group one waits for a signal, which comes after \<open>rounds\<close> rounds of
  the collector; the group returns the error of the one that ends first.\<close>

definition nanny_run :: "'w nanny_cloud \<Rightarrow> nat \<Rightarrow> NannyOptions \<Rightarrow> ('w, unit) go" where
  "nanny_run go rounds obj =
     bnd (lift_outcome (ParseCIDR (no_ClusterCIDR obj))) (\<lambda>(_, cidr).
     routegc_Run go (nanny_auth obj) rounds (routegc_New go (no_RouterID obj) cidr))"

definition nanny_command ::
  "(string \<Rightarrow> string) \<Rightarrow> validator \<Rightarrow> 'w nanny_cloud \<Rightarrow> (string \<rightharpoonup> string) \<Rightarrow> int option \<Rightarrow> nat \<Rightarrow> ('w, unit) go" where
  "nanny_command env va go flags period rounds =
     bnd (lift_outcome (cmd_Validate env va (NannyOptions_BindFlags flags period NewNannyOptions))) (nanny_run go rounds)"

text \<open>\<open>cmd.CheckError\<close>, which every main program ends with: what is printed, and the status.\<close>

definition CheckError :: "goerr \<Rightarrow> goerr option \<Rightarrow> (string option \<times> int) option" where
  "CheckError canceled err =
     (case err of
        None \<Rightarrow> None
      | Some e \<Rightarrow> Some (if e \<noteq> canceled then Some (Sprintf0 (''An error occurred: '' @ Error e @ [CHR 0x0A])) else None, 1))"

section \<open>What the options come from\<close>

text \<open>All options given as flags, and no variable of the environment: the command fails.\<close>

theorem nanny_needs_environment:
  assumes "\<And>k. env k = []"
  shows "nanny_command env va go flags period rounds w =
    (Fail (Errorf ''none of the target fields were set from environment variables''), w)"
proof -
  have "decode_env env pd = Fail (Errorf ''none of the target fields were set from environment variables'')" for pd
    using assms by (simp add: decode_env_def list_all_iff)
  then show ?thesis by (simp add: nanny_command_def cmd_Validate_def PopulateFromEnv_def)
qed

text \<open>The period of the environment is never used: without the flag it is the default, a minute.\<close>

theorem sync_period_of_environment_unused:
  assumes "cmd_Validate env va (NannyOptions_BindFlags flags None NewNannyOptions) = Ok obj"
  shows "no_SyncPeriod obj = minute"
  using assms
  by (auto simp: cmd_Validate_def PopulateFromEnv_def merge_options_def NannyOptions_BindFlags_def NewNannyOptions_def minute_def
      elim!: obind_OkE split: if_splits)

section \<open>What the command does\<close>

text \<open>Services that answer: the four calls of the start, the list of servers with the same pages each
  time, and the two calls for the router.\<close>

definition cloud_answers :: "'w nanny_cloud \<Rightarrow> RServer pages \<Rightarrow> ('w \<Rightarrow> Route list) \<Rightarrow> string \<Rightarrow> bool" where
  "cloud_answers go pages rts router \<longleftrightarrow>
     (\<forall>e w. \<exists>w'. go_NewClient go e w = (Ok (), w') \<and> rts w' = rts w) \<and>
     (\<forall>a w. \<exists>w'. go_AuthenticateV3 go a w = (Ok (), w') \<and> rts w' = rts w) \<and>
     (\<forall>w. \<exists>w'. go_NewComputeV2 go w = (Ok (), w') \<and> rts w' = rts w) \<and>
     (\<forall>w. \<exists>w'. go_NewNetworkV2 go w = (Ok (), w') \<and> rts w' = rts w) \<and>
     (\<forall>w. \<exists>w'. go_listServers go w = (Ok pages, w')) \<and>
     (\<forall>w. is_ok (fst (go_getRouter go router w))) \<and> (\<forall>w routes. is_ok (fst (go_updateRouter go router routes w)))"

lemma nanny_round:
  assumes "routes_api (routegc_New go router cidr) rts" "net4 nc basec cidr" "cloud_answers go pages rts router"
    "seen_servers pages = Some srvs" "list_all wf_server srvs"
  shows "\<exists>w'. routegc_Reconcile (routegc_New go router cidr) w = (Ok (), w') \<and> rts w' = kept_routes nc basec srvs (rts w)"
proof -
  let ?r = "routegc_New go router cidr"
  have sel: "gc_listServers ?r = go_listServers go" "gc_getRouter ?r = go_getRouter go"
    "gc_updateRouter ?r = go_updateRouter go" "gc_routerID ?r = router" "gc_clusterCIDR ?r = cidr"
    by (simp_all add: routegc_New_def)
  note answers = assms(3) [unfolded cloud_answers_def]
  obtain w1 where l: "gc_listServers ?r w = (Ok pages, w1)" using answers unfolding sel by blast
  show ?thesis
    by (rule Reconcile_round [OF assms(1) _ l assms(4,5)]) (use assms(2) answers in \<open>simp_all add: sel\<close>)
qed

lemma Until_rounds:
  assumes "\<And>w. \<exists>w'. f w = (Ok (), w') \<and> rts w' = kept_routes nc basec srvs (rts w)"
  shows "\<exists>w'. wait_Until rounds f w = (Ok (), w') \<and>
    rts w' = (if rounds = 0 then rts w else kept_routes nc basec srvs (rts w))"
proof (induction rounds arbitrary: w)
  case (Suc n)
  obtain w1 where 1: "f w = (Ok (), w1)" "rts w1 = kept_routes nc basec srvs (rts w)" using assms by blast
  obtain w2 where "wait_Until n f w1 = (Ok (), w2)" "rts w2 = (if n = 0 then rts w1 else kept_routes nc basec srvs (rts w1))"
    using Suc by blast
  with 1 show ?case by (auto simp: kept_routes_idem)
qed auto


definition demo_cloud :: "Route list nanny_cloud" where
  "demo_cloud =
     \<lparr> go_NewClient = (\<lambda>_. ret ()), go_AuthenticateV3 = (\<lambda>_. ret ()), go_NewComputeV2 = ret (), go_NewNetworkV2 = ret (),
       go_listServers = gc_listServers demo_collector, go_getRouter = gc_getRouter demo_collector,
       go_updateRouter = gc_updateRouter demo_collector \<rparr>"

definition demo_env :: "string \<Rightarrow> string" where
  "demo_env k = (if k = ''OS_PASSWORD'' then ''secret'' else [])"

definition demo_flags :: "string \<rightharpoonup> string" where
  "demo_flags = map_of [(''auth-url'', ''https://keystone/v3''), (''auth-username'', ''nanny''), (''auth-domain'', ''kubernikus''),
     (''router-id'', ''router''), (''cluster-cidr'', ''198.19.0.0/16'')]"

definition demo_validator :: validator where
  "demo_validator = \<lparr>va_ParseDuration = \<lambda>_. None, va_is_url = \<lambda>u. True, va_message = \<lambda>ps. Join ps '' ''\<rparr>"


text \<open>Of the three routes the one to a server that is gone is removed.\<close>

lemma demo_nanny: "nanny_command demo_env demo_validator demo_cloud demo_flags None 3 demo_routes = (Ok (), [demo_routes ! 0, demo_routes ! 2])"
  by code_simp

end
