(* ===== verification/Programs.thy ===== *)
theory Programs
  imports RestServer HttpServer Tools WormholeClient Wormhole
begin

text \<open>
  The programs around the components: how the API server (\<open>src/cmd/apiserver/main.go\<close> with
  \<open>pkg/api/rest/kubeclient.go\<close>) and the wormhole server (\<open>pkg/cmd/wormhole/server.go\<close>,
  \<open>pkg/wormhole/server.go\<close>) are put together and in which order they start. Loading a kubeconfig and creating clients from it are operations of
  \<open>kube_loader\<close>; a program that exits is the outcome \<open>Panics ''exit ...''\<close>.
\<close>

section \<open>Clients\<close>

record ('w, 'config, 'kub, 'kube, 'ext) kube_loader =
  kl_ClientConfig :: "string option \<Rightarrow> string option \<Rightarrow> ('w, 'config) go"
  kl_kubernikus :: "'config \<Rightarrow> ('w, 'kub) go"
  kl_kubernetes :: "'config \<Rightarrow> ('w, 'kube) go"
  kl_apiextensions :: "'config \<Rightarrow> ('w, 'ext) go"
  kl_createCRD :: "'ext \<Rightarrow> string \<Rightarrow> ('w, unit) go"
  kl_getCRD :: "'ext \<Rightarrow> string \<Rightarrow> ('w, crd_conditions) go"
  kl_deleteCRD :: "'ext \<Rightarrow> string \<Rightarrow> ('w, unit) go"

text \<open>\<open>kubernetes.NewConfig\<close>: a path and a context only if they are given.\<close>

definition given :: "string \<Rightarrow> string option" where
  "given s = (if s \<noteq> [] then Some s else None)"

definition NewConfig :: "('w, 'config, 'kub, 'kube, 'ext) kube_loader \<Rightarrow> string \<Rightarrow> string \<Rightarrow> ('w, 'config) go" where
  "NewConfig kl kubeconfig ctx = kl_ClientConfig kl (given kubeconfig) (given ctx)"

definition kubernikus_NewClient :: "('w, 'config, 'kub, 'kube, 'ext) kube_loader \<Rightarrow> string \<Rightarrow> string \<Rightarrow> ('w, 'kub) go" where
  "kubernikus_NewClient kl kubeconfig ctx = bnd (NewConfig kl kubeconfig ctx) (kl_kubernikus kl)"

definition kubernetes_NewClient :: "('w, 'config, 'kub, 'kube, 'ext) kube_loader \<Rightarrow> string \<Rightarrow> string \<Rightarrow> ('w, 'kube) go" where
  "kubernetes_NewClient kl kubeconfig ctx = bnd (NewConfig kl kubeconfig ctx) (kl_kubernetes kl)"

definition NewKubeClients :: "('w, 'config, 'kub, 'kube, 'ext) kube_loader \<Rightarrow> string \<Rightarrow> string \<Rightarrow> ('w, 'kub \<times> 'kube) go" where
  "NewKubeClients kl kubeconfig ctx =
     bnd (CtlAuth.wrap_err ''Failed to create kubernikus clients'' (kubernikus_NewClient kl kubeconfig ctx)) (\<lambda>client.
     bnd (CtlAuth.wrap_err ''Failed to create kubernetes clients'' (kubernetes_NewClient kl kubeconfig ctx)) (\<lambda>kubernetesClient.
     bnd (CtlAuth.wrap_err ''Failed to create kubernetes config'' (NewConfig kl kubeconfig ctx)) (\<lambda>config.
     bnd (CtlAuth.wrap_err ''Failed to create apiextenstionsclient'' (kl_apiextensions kl config)) (\<lambda>ext.
     bnd (CtlAuth.wrap_err (''Couldn'' @ CHR 0x27 # ''t create CRD'')
       (EnsureCRD (kl_createCRD kl ext) (kl_getCRD kl ext) (kl_deleteCRD kl ext))) (\<lambda>_.
     ret (client, kubernetesClient))))))"

section \<open>The API server\<close>

text \<open>The API as the server sees it: its handler is the one of \<open>configureAPI\<close>, its
  logger the one that \<open>Configure\<close> sets (\<open>log_msg\<close> is the \<open>msg\<close> entry of the runtime's logger; the server
  replaces it by \<open>log.Printf\<close>).\<close>

definition hosted_api ::
  "(string \<Rightarrow> ('v, unit) go) \<Rightarrow> 'b rest_lib \<Rightarrow> router_builder \<Rightarrow> ('w \<times> Link list option, 'b) site_decorator \<Rightarrow> ('w \<times> Link list option, 'b) site_decorator \<Rightarrow>
     ('w \<times> Link list option, 'b) KubernikusAPI \<Rightarrow>
     ('v, 'b ApiRequest \<Rightarrow> ('w \<times> Link list option, 'b site_reply) go) HostedAPI" where
  "hosted_api log_msg lib denco_Build requestIDHandler loggingHandler api =
     \<lparr> ha_Logger = Some log_msg,
       ha_Serve = configureAPI lib denco_Build swagger_operations requestIDHandler loggingHandler api,
       ha_ServerShutdown = ret () \<rparr>"

text \<open>The parts of the program that are given to its \<open>main\<close>: the embedded specification, the clients, what
  \<open>Configure\<close> makes of the clients, and the log.\<close>

record ('w, 'h, 'cert, 'clients) api_program =
  ap_spec :: "unit outcome"
  ap_clients :: "('w, 'clients) go"
  ap_Configure :: "'clients \<Rightarrow> ('w, 'h) HostedAPI outcome"
  ap_log :: "string \<Rightarrow> goerr option \<Rightarrow> ('w, unit) go"

definition log_and_exit :: "('w, 'h, 'cert, 'clients) api_program \<Rightarrow> string \<Rightarrow> goerr \<Rightarrow> ('w, 'a) go" where
  "log_and_exit ap msg err = bnd (ap_log ap msg (Some err)) (\<lambda>_. os_Exit 1)"

text \<open>\<open>Serve\<close> on the server that \<open>main\<close> has made; the deferred \<open>Shutdown\<close> runs when \<open>main\<close> returns, not
  when it exits.\<close>

definition serve_and_shut_down ::
  "('w, 'h, 'cert) process \<Rightarrow> (('h, 'cert) serving list \<Rightarrow> ('h, 'cert) serving list) \<Rightarrow>
     ('w, 'h, 'cert, 'clients) api_program \<Rightarrow> ('w, 'h, 'cert) Server \<Rightarrow> ('w, unit) go" where
  "serve_and_shut_down pr finish ap s w =
     (case tryc (Serve pr finish) (\<lambda>err. svc (log_and_exit ap ''failed to start API server'' err)) (\<lambda>_. Shutdown) (w, s) of
        (r, w', _) \<Rightarrow> (r, w'))"

definition apiserver_main ::
  "('w, 'h, 'cert) process \<Rightarrow> (('h, 'cert) serving list \<Rightarrow> ('h, 'cert) serving list) \<Rightarrow> ServerFlags \<Rightarrow>
     ('w, 'h, 'cert, 'clients) api_program \<Rightarrow> ('w, unit) go" where
  "apiserver_main pr finish fl ap =
     bnd (tryc (lift_outcome (ap_spec ap)) (log_and_exit ap ''failed to spec swagger spec'') ret) (\<lambda>_.
     bnd (tryc (ap_clients ap) (log_and_exit ap ''failed to create kubernetes clients'') ret) (\<lambda>clients.
     bnd (tryc (lift_outcome (ap_Configure ap clients)) (log_and_exit ap ''failed to configure API server'') ret) (\<lambda>api.
     bnd (ap_log ap ''starting Kubernikus API'' None) (\<lambda>_.
     bnd (NewServer pr fl (Some api)) (\<lambda>server.
     serve_and_shut_down pr finish ap (ConfigureAPI server))))))"

lemma wrap_err_Ok_iff: "CtlAuth.wrap_err msg m w = (Ok x, w') \<longleftrightarrow> m w = (Ok x, w')"
  by (auto simp: CtlAuth.wrap_err_def tryc_def ret_def fail_def split: prod.splits outcome.splits)

text \<open>What \<open>main\<close> does when a step before the server fails: the log entry, and nothing else.\<close>

lemma main_without_clients:
  assumes "ap_spec ap = Ok ()" "ap_clients ap w = (Fail err, w1)" "ap_log ap ''failed to create kubernetes clients'' (Some err) w1 = (Ok (), w2)"
  shows "apiserver_main pr finish fl ap w = (Panics ''exit 1'', w2)"
proof -
  have "Itoa 1 = ''1''" by code_simp
  with assms show ?thesis by (simp add: apiserver_main_def log_and_exit_def os_Exit_def)
qed

text \<open>The clients are handed out only once the definition of the custom resource is established.\<close>

lemma clients_after_CRD:
  assumes "NewKubeClients kl kubeconfig ctx w = (Ok clients, w')"
  shows "\<exists>ext w1. EnsureCRD (kl_createCRD kl ext) (kl_getCRD kl ext) (kl_deleteCRD kl ext) w1 = (Ok (), w')"
  using assms by (auto simp: NewKubeClients_def bnd_eq_Ok_iff wrap_err_Ok_iff)

section \<open>The wormhole server\<close>

record WormholeServerOptions =
  wo_KubeConfig :: string
  wo_Context :: string
  wo_ServiceCIDR :: string
  wo_Tunnel :: TunnelOptions

definition WormholeServerOptions_BindFlags :: "(string \<rightharpoonup> string) \<Rightarrow> WormholeServerOptions \<Rightarrow> WormholeServerOptions" where
  "WormholeServerOptions_BindFlags flags o1 =
     (let set = (\<lambda>name old. case flags name of Some v \<Rightarrow> v | None \<Rightarrow> old)
      in \<lparr> wo_KubeConfig = set ''kubeconfig'' (wo_KubeConfig o1), wo_Context = set ''context'' [],
           wo_ServiceCIDR = set ''service-cidr'' [],
           wo_Tunnel = \<lparr>to_ClientCA = set ''ca'' (to_ClientCA (wo_Tunnel o1)),
             to_Certificate = set ''cert'' (to_Certificate (wo_Tunnel o1)),
             to_PrivateKey = set ''key'' (to_PrivateKey (wo_Tunnel o1))\<rparr> \<rparr>)"

definition WormholeServerOptions_Validate :: "WormholeServerOptions \<Rightarrow> goerr option" where
  "WormholeServerOptions_Validate o1 =
     (if wo_ServiceCIDR o1 = [] then Some (Errorf ''You must specify service-cidr'') else None)"

record ('kube, 'pair) WormholeServer =
  ws_client :: 'kube
  ws_tunnel :: "'pair listener"
  ws_controller :: wormhole

definition wormhole_NewServer ::
  "('w, 'config, 'kub, 'kube, 'ext) kube_loader \<Rightarrow> ('w, 'pair) listen_services \<Rightarrow> WormholeServerOptions \<Rightarrow>
     ('w, ('kube, 'pair) WormholeServer) go" where
  "wormhole_NewServer kl ls options =
     bnd (kubernetes_NewClient kl (wo_KubeConfig options) (wo_Context options)) (\<lambda>client.
     bnd (NewTunnel ls (wo_Tunnel options)) (\<lambda>tunnel.
     ret \<lparr> ws_client = client, ws_tunnel = tunnel, ws_controller = NewController (wo_ServiceCIDR options) \<rparr>))"

text \<open>\<open>Server.Run\<close>: the API server is waited for and the cache filled before the controller and the tunnel
  start, and an error of the wait is not looked at. \<open>run\<close> is what the two goroutines do until the
  signal; the command then waits for both.\<close>

record ('w, 'kube, 'pair) wormhole_runtime =
  wr_health :: "'kube \<Rightarrow> ('w, (int \<times> string) list) go"
  wr_sync :: "'kube \<Rightarrow> ('w, unit) go"
  wr_run :: "wormhole \<Rightarrow> 'pair listener \<Rightarrow> ('w, unit) go"

definition wormhole_Run :: "('w, 'kube, 'pair) wormhole_runtime \<Rightarrow> ('kube, 'pair) WormholeServer \<Rightarrow> ('w, unit) go" where
  "wormhole_Run wr s =
     bnd (wr_health wr (ws_client s)) (\<lambda>answers.
     bnd (ignore_err (lift_outcome (WaitForServer answers))) (\<lambda>_.
     bnd (wr_sync wr (ws_client s)) (\<lambda>_.
     wr_run wr (ws_controller s) (ws_tunnel s))))"

definition wormhole_server_command ::
  "('w, 'config, 'kub, 'kube, 'ext) kube_loader \<Rightarrow> ('w, 'pair) listen_services \<Rightarrow> ('w, 'kube, 'pair) wormhole_runtime \<Rightarrow>
     WormholeServerOptions \<Rightarrow> ('w, unit) go" where
  "wormhole_server_command kl ls wr options =
     (case WormholeServerOptions_Validate options of
        Some err \<Rightarrow> fail err
      | None \<Rightarrow>
          bnd (CtlAuth.wrap_err ''Failed to initialize server'' (wormhole_NewServer kl ls options)) (wormhole_Run wr))"

text \<open>A wormhole server that runs has the service network it redirects, and a tunnel that is local or
  asks every client for a certificate.\<close>

lemma wormhole_server_guarded:
  assumes "wormhole_NewServer kl ls options w = (Ok s, w')"
  shows "ws_controller s = NewController (wo_ServiceCIDR options) \<and>
    (ws_tunnel s = PlainListener ''127.0.0.1:8080'' \<or>
     (\<exists>pair cas. ws_tunnel s = WormholeClient.TLSListener ''0.0.0.0:6553'' pair [cas] \<and> ls_AppendCerts ls cas))"
proof -
  obtain client w1 tunnel w2 where "NewTunnel ls (wo_Tunnel options) w1 = (Ok tunnel, w2)"
    "s = \<lparr> ws_client = client, ws_tunnel = tunnel, ws_controller = NewController (wo_ServiceCIDR options) \<rparr>"
    using assms by (auto simp: wormhole_NewServer_def bnd_eq_Ok_iff)
  with NewTunnel_guarded show ?thesis by fastforce
qed

end
