(* ===== verification/PortForward.thy ===== *)
theory PortForward
  imports Clientset HttpServer
begin

text \<open>
  The tunnel to the pod of tiller, \<open>pkg/client/kubernetes/tunnel.go\<close>, which an operator outside the
  cluster opens to install helm releases. Its state are the ports and its two channels, of which the
  model keeps whether they are closed. The dialer and the copying of bytes are the operation
  \<open>pf_forward\<close>; the channel that tells that the ports are open is closed by the vendored
  \<open>portforward\<close>, as its \<open>forward\<close> does.
\<close>

section \<open>The tunnel\<close>

record Tunnel =
  tu_Local :: int
  tu_Remote :: int
  tu_Namespace :: string
  tu_PodName :: string
  tu_stop_closed :: bool
  tu_ready_closed :: bool

record 'w forward_services =
  pf_Listen :: "string \<Rightarrow> string \<Rightarrow> ('w, NetListener) go"
  pf_CloseListener :: "NetListener \<Rightarrow> ('w, unit) go"
  pf_NewExecutor :: "string \<Rightarrow> string \<Rightarrow> ('w, unit) go"
  pf_New :: "string list \<Rightarrow> ('w, unit) go"
  pf_forward :: "('w, unit) go"

definition kube_NewTunnel :: "string \<Rightarrow> string \<Rightarrow> int \<Rightarrow> Tunnel" where
  "kube_NewTunnel ns podName remote =
     \<lparr> tu_Local = 0, tu_Remote = remote, tu_Namespace = ns, tu_PodName = podName, tu_stop_closed = False, tu_ready_closed = False \<rparr>"

text \<open>\<open>close\<close> of a channel.\<close>

definition close_chan :: "bool \<Rightarrow> bool outcome" where
  "close_chan closed = (if closed then Panics ''close of closed channel'' else Ok True)"

definition Tunnel_Close :: "Tunnel \<Rightarrow> Tunnel outcome" where
  "Tunnel_Close t =
     obind (close_chan (tu_stop_closed t)) (\<lambda>stop_chan.
     obind (close_chan (tu_ready_closed t)) (\<lambda>ready_chan.
     Ok (t\<lparr>tu_stop_closed := stop_chan, tu_ready_closed := ready_chan\<rparr>)))"

text \<open>The listener is only there to find a free port; it is closed when the function returns.\<close>

definition getAvailablePort :: "'w forward_services \<Rightarrow> ('w, int) go" where
  "getAvailablePort pf =
     bnd (pf_Listen pf ''tcp'' '':0'') (\<lambda>l w.
       case bnd (lift_outcome (SplitHostPort (nl_addr l))) (\<lambda>(_, p). lift_outcome (Atoi p)) w of
         (r, w1) \<Rightarrow> (case pf_CloseListener pf l w1 of (_, w2) \<Rightarrow> (r, w2)))"

text \<open>The path of the request for a pod, built by client-go below \<open>/api/v1\<close>.\<close>

definition portforward_path :: "'w kube_client \<Rightarrow> Tunnel \<Rightarrow> string" where
  "portforward_path c t =
     request_path (SubResource [''portforward''] (Name (tu_PodName t) (Namespace (tu_Namespace t)
       (Resource ''pods'' ((NewRequest c ''POST'')\<lparr>rq_pathPrefix := ''/api/v1''\<rparr>)))))"

definition ForwardPort :: "'w kube_client \<Rightarrow> 'w forward_services \<Rightarrow> Tunnel \<Rightarrow> ('w, Tunnel) go" where
  "ForwardPort c pf t =
     bnd (pf_NewExecutor pf ''POST'' (portforward_path c t)) (\<lambda>_.
     bnd (tryc (getAvailablePort pf) (\<lambda>err. fail (Errorf (''could not find an available port: '' @ Error err))) ret) (\<lambda>local.
     bnd (pf_New pf [Itoa local @ '':'' @ Itoa (tu_Remote t)]) (\<lambda>_.
     bnd (tryc (pf_forward pf) (\<lambda>err. fail (Errorf (''forwarding ports: '' @ Error err))) ret) (\<lambda>_.
     ret (t\<lparr>tu_Local := local, tu_ready_closed := True\<rparr>)))))"

section \<open>Laws\<close>

text \<open>A tunnel that is open cannot be closed: the channel that tells it is ready is closed already, by the
  library, and closing it again panics. The finalizer of the helm client does this.\<close>

theorem Close_of_open_tunnel_panics:
  assumes "ForwardPort c pf (kube_NewTunnel ns podName remote) w = (Ok t, w')"
  shows "Tunnel_Close t = Panics ''close of closed channel''"
  using assms
  by (auto simp: ForwardPort_def kube_NewTunnel_def Tunnel_Close_def close_chan_def bnd_eq_Ok_iff)

text \<open>A tunnel that was never opened can be closed once.\<close>

lemma Close_of_fresh_tunnel:
  "\<exists>t. Tunnel_Close (kube_NewTunnel ns podName remote) = Ok t \<and> Tunnel_Close t = Panics ''close of closed channel''"
  by (simp add: Tunnel_Close_def close_chan_def kube_NewTunnel_def)

end
