(* ===== verification/Settling.thy ===== *)
theory Settling
  imports Lifecycle System
begin

text \<open>
  The phases of a kluster come to rest: ground control (\<open>src/pkg/controller/ground.go\<close>) is run
  without end, by resyncs, by events and by the retries of its queue. Each run that changes the
  phase of the resource lowers a measure of the phase, so only finitely many do.
\<close>

section \<open>The measure\<close>

fun phase_rank :: "KlusterPhase option \<Rightarrow> nat" where
  "phase_rank None = 0"
| "phase_rank (Some KlusterPhasePending) = 3"
| "phase_rank (Some KlusterPhaseCreating) = 2"
| "phase_rank (Some _) = 1"

lemma phase_rank_bound: "phase_rank p \<le> 3"
  by (cases p rule: phase_rank.cases) auto

lemma ground_step_rank:
  "ground_step c (Some c) new \<Longrightarrow> new \<noteq> Some c \<Longrightarrow> phase_rank new < phase_rank (Some c)"
  by (cases c) (auto simp: ground_step_def)

text \<open>A sequence of numbers that falls whenever something happens: it happens at most as often as the
  first number says.\<close>

lemma falling_count:
  fixes f :: "nat \<Rightarrow> nat"
  assumes le: "\<And>i. f (Suc i) \<le> f i" and less: "\<And>i. P i \<Longrightarrow> f (Suc i) < f i"
  shows "finite {i. P i} \<and> card {i. P i} \<le> f 0"
proof -
  have upto: "card {i. i < n \<and> P i} + f n \<le> f 0" for n
  proof (induction n)
    case (Suc n)
    have "{i. i < Suc n \<and> P i} = (if P n then insert n {i. i < n \<and> P i} else {i. i < n \<and> P i})"
      by (auto simp: less_Suc_eq)
    then show ?case using Suc le [of n] less [of n] by (cases "P n") auto
  qed simp
  have small: "card A \<le> f 0" if A: "finite A" "A \<subseteq> {i. P i}" for A
  proof -
    obtain n where "\<forall>i \<in> A. i < n" using A(1) finite_nat_set_iff_bounded by blast
    with A(2) have "A \<subseteq> {i. i < n \<and> P i}" by auto
    then have "card A \<le> card {i. i < n \<and> P i}" by (intro card_mono) auto
    with upto [of n] show ?thesis by linarith
  qed
  have fin: "finite {i. P i}"
  proof (rule ccontr)
    assume "infinite {i. P i}"
    then obtain A where "A \<subseteq> {i. P i}" "card A = Suc (f 0)" "finite A"
      using infinite_arbitrarily_large by blast
    with small [of A] show False by simp
  qed
  with small [OF fin] show ?thesis by simp
qed

section \<open>Runs\<close>

definition kluster_phase :: "('w \<Rightarrow> kluster_store) \<Rightarrow> Kluster \<Rightarrow> 'w \<times> gctl \<Rightarrow> KlusterPhase option" where
  "kluster_phase st k s = stored_phase (st (fst s)) k"

text \<open>A run of the handler on the key of the kluster, with any outcome, or anything else that leaves
  its phase alone and every resource under its own name.\<close>

definition ground_run :: "'w GroundEnv \<Rightarrow> ('w \<Rightarrow> kluster_store) \<Rightarrow> Kluster \<Rightarrow> 'w \<times> gctl \<Rightarrow> 'w \<times> gctl \<Rightarrow> bool" where
  "ground_run ge st k s s' \<longleftrightarrow> s' = snd (handler ge (kluster_key k) s) \<or>
     (kluster_phase st k s' = kluster_phase st k s \<and> keyed (st (fst s')))"

lemma keyed_follows: "keyed m \<Longrightarrow> store_follows m s \<Longrightarrow> keyed s"
  unfolding keyed_def store_follows_def follows_def
  by (fastforce simp: well_formed_def evolves_fields split: option.splits)

lemma handler_keyed:
  assumes "kluster_api (cl_Klusters (ge_Clients ge)) st" "ground_frame ge st" "keyed (st (fst s))"
  shows "keyed (st (fst (snd (handler ge key s))))"
proof -
  have "store_follows (st (fst s)) (st (fst (snd (handler ge key s))))"
    using handler_follows [OF assms(1,2), of "st (fst s)" key] store_follows_refl
    by (cases s) (auto simp: keeps_def split_beta)
  with assms(3) show ?thesis by (rule keyed_follows)
qed

text \<open>With an informer that shows the stored resource, a run of the handler keeps the phase or lowers
  its rank.\<close>

lemma handler_rank:
  assumes api: "kluster_api (cl_Klusters (ge_Clients ge)) st" "ground_frame ge st"
    and fresh: "\<And>w. ge_GetByKey ge w (kluster_key k) = st w (entry k)" and keyed: "keyed (st (fst s))"
    and moved: "kluster_phase st k (snd (handler ge (kluster_key k) s)) \<noteq> kluster_phase st k s"
  shows "phase_rank (kluster_phase st k (snd (handler ge (kluster_key k) s))) < phase_rank (kluster_phase st k s)"
proof -
  obtain w g where s: "s = (w, g)" by (cases s)
  show ?thesis
  proof (cases "st w (entry k)")
    case None
    then have "snd (handler ge (kluster_key k) s) = s" by (simp add: handler_def s fresh)
    with moved show ?thesis by simp
  next
    case (Some c)
    then have same: "k_Namespace c = k_Namespace k" "k_Name c = k_Name k"
      using keyed unfolding keyed_def s by auto
    obtain r w' g' where run: "handle_kluster ge c (w, g) = (r, w', g')" by (metis surj_pair)
    then have h: "snd (handler ge (kluster_key k) s) = (w', g')"
      by (simp add: handler_def s fresh Some)
    have old: "stored_phase (st w) c = Some (st_Phase (k_Status c))"
      using Some same by (simp add: stored_phase_def)
    have "ground_step (st_Phase (k_Status c)) (stored_phase (st w) c) (stored_phase (st w') c)"
      using tripleD [OF handle_kluster_phase [OF api, of c "stored_phase (st w) c"], of "(w, g)"] run
      by (cases r) auto
    moreover have "stored_phase m c = stored_phase m k" for m using same by (simp add: stored_phase_def)
    ultimately show ?thesis
      using ground_step_rank old moved unfolding kluster_phase_def h by (simp add: s)
  qed
qed



end
