(* ===== verification/Processes.thy ===== *)
theory Processes
  imports Ground Wormhole Programs Clientset
begin

text \<open>
  The running operator and the running wormhole server: how their informers are made and which event
  handlers they call (\<open>NewGroundController\<close>, \<open>NewController\<close>, \<open>initializeCustomInformers\<close>), and how
  their goroutines start, work and end. The second part is a step relation over the stop channel, the
  wait group, the \<open>Run\<close> of every controller, its workers (\<open>wait.Until\<close> around \<open>runWorker\<close>), the server of
  the metrics (\<open>metrics.ExposeMetrics\<close>), the tunnel (\<open>Tunnel.Run\<close>), and the command that waits for a signal
  (\<open>pkg/cmd/kubernikus/operator.go\<close>, \<open>pkg/cmd/wormhole/server.go\<close>). A process that has returned or
  crashed makes no step: what its goroutines were doing is cut off.
\<close>

section \<open>Informers\<close>

text \<open>An informer is given by the namespace it lists and watches, all of them if empty, and by the names of
  its indexes.\<close>

datatype informer = KlusterInformer string "string list" | PodInformer string "string list"

definition NewKlusterInformer :: "string \<Rightarrow> string list \<Rightarrow> informer" where
  "NewKlusterInformer namespace indexers = KlusterInformer namespace indexers"

definition defaultKlusterInformer :: informer where
  "defaultKlusterInformer = NewKlusterInformer [] [''namespace'']"

definition kluster_Informer :: "informer informer_factory \<Rightarrow> informer \<times> informer informer_factory" where
  "kluster_Informer f = InformerFor ''Kluster'' defaultKlusterInformer f"

definition pod_Informer :: "informer informer_factory \<Rightarrow> informer \<times> informer informer_factory" where
  "pod_Informer f = InformerFor ''Pod'' (PodInformer [] [''namespace'']) f"

text \<open>The factory of the Kubernikus resources and the one of the Kubernetes resources.\<close>

definition initializeCustomInformers ::
  "string \<Rightarrow> informer informer_factory \<times> informer informer_factory \<Rightarrow> informer informer_factory \<times> informer informer_factory" where
  "initializeCustomInformers namespace = (\<lambda>(kubernikus, kubernetes).
     (snd (InformerFor ''Kluster'' (NewKlusterInformer namespace []) kubernikus),
      snd (InformerFor ''Pod'' (PodInformer namespace [''kluster'']) kubernetes)))"

text \<open>Because the custom informers are registered first, the controllers that ask the factories afterwards
  get those, which see the namespace of the operator only.\<close>

lemma controllers_share_custom_informers:
  assumes "initializeCustomInformers namespace (NewSharedInformerFactory, NewSharedInformerFactory) = (kubernikus, kubernetes)"
  shows "kluster_Informer kubernikus = (KlusterInformer namespace [], kubernikus) \<and>
    pod_Informer kubernetes = (PodInformer namespace [''kluster''], kubernetes)"
  using assms
  by (auto simp: initializeCustomInformers_def kluster_Informer_def pod_Informer_def InformerFor_def
    NewSharedInformerFactory_def NewKlusterInformer_def)

section \<open>Event handlers\<close>

text \<open>What an informer tells: an object was added, was updated from an old to a new one, was deleted.\<close>

datatype 'o notification = Added 'o | Updated 'o 'o | Deleted 'o

text \<open>\<open>NewGroundController\<close> registers \<open>klusterUpdate\<close> and \<open>podUpdate\<close>, whose parameters are called \<open>cur\<close> and \<open>old\<close>,
  with informers that pass the old object first.\<close>

fun ground_kluster_event :: "'q RateLimitingInterface \<Rightarrow> informer_obj notification \<Rightarrow> ('q, unit) go" where
  "ground_kluster_event ops (Added obj) = klusterAdd ops obj"
| "ground_kluster_event ops (Updated old new) = klusterUpdate ops old new"
| "ground_kluster_event ops (Deleted obj) = klusterTerminate ops obj"

fun ground_pod_event :: "'q RateLimitingInterface \<Rightarrow> Pod notification \<Rightarrow> 'q \<Rightarrow> 'q" where
  "ground_pod_event ops (Added pod) = podAdd ops pod"
| "ground_pod_event ops (Updated old new) = podUpdate ops old new"
| "ground_pod_event ops (Deleted pod) = podDelete ops pod"

text \<open>The wormhole's handlers; a node is its key, an update of a node is not looked at.\<close>

fun wormhole_node_event :: "'q RateLimitingInterface \<Rightarrow> string notification \<Rightarrow> 'q \<Rightarrow> 'q" where
  "wormhole_node_event ops (Added key) = rl_Add ops key"
| "wormhole_node_event ops (Updated old new) = (\<lambda>q. q)"
| "wormhole_node_event ops (Deleted key) = rl_Add ops key"

text \<open>The exchanged arguments: a pod that gets the label of its release by an update is not noticed.\<close>

lemma label_by_update_unnoticed:
  assumes "map_of (pod_Labels old) ''release'' = None"
  shows "ground_pod_event ops (Updated old new) q = q"
  using assms by (simp add: podUpdate_def pod_kluster_key_def)

text \<open>The factory of the clients for the klusters forgets a client when its kluster is deleted
  (\<open>NewSharedClientFactory\<close>); a deletion the informer has missed comes as a tombstone, which is not a kluster.\<close>

definition evict_client :: "informer_obj \<Rightarrow> 'c client_cache \<Rightarrow> 'c client_cache" where
  "evict_client obj cs = (case obj of Obj k \<Rightarrow> cs(k_UID k := None) | DeletedFinalStateUnknown key k \<Rightarrow> cs)"

text \<open>After the deletion a client is made anew, as if none had ever been there; the clients of other klusters
  stay.\<close>

lemma ClientFor_evicted:
  "fst (ClientFor getSecret NewForConfig k (w, evict_client (Obj k) cs)) = fst (ClientFor getSecret NewForConfig k (w, Map.empty))"
  "k_UID k' \<noteq> k_UID k \<Longrightarrow> cs (k_UID k') = Some c \<Longrightarrow>
     ClientFor getSecret NewForConfig k' (w, evict_client (Obj k) cs) = (Ok c, w, evict_client (Obj k) cs)"
  by (auto simp: ClientFor_def evict_client_def bnd_def svc_def client_get_def client_set_def ret_def fail_def
    lift_outcome_def split: prod.splits outcome.splits option.splits)

section \<open>Goroutines\<close>

datatype service = MetricsServer | TunnelServer

text \<open>The goroutines that the wait group counts.\<close>

datatype routine = ControllerRun string | ServiceRun service

text \<open>Where such a goroutine is: it does not exist in this process, it is not started yet, it has not called
  \<open>wg.Add\<close> yet, it has, it serves, it has called \<open>wg.Done\<close> but not yet shut down its queue, it is over.\<close>

datatype run_pc = Absent | Unstarted | Created | Registered | Serving | Leaving | Gone

text \<open>A worker checks the stop channel, asks the queue, handles a key, sleeps for a second after the queue
  has ended, or is over.\<close>

datatype worker_pc = Checking | Getting | Handling string | Sleeping | Stopped

datatype main_pc = AwaitSignal | Joining | Returned | Crashed

record 'q process_state =
  ps_main :: main_pc
  ps_stop :: bool
  ps_wg :: int
  ps_pc :: "routine \<Rightarrow> run_pc"
  ps_queue :: "string \<Rightarrow> 'q"
  ps_workers :: "string \<Rightarrow> nat \<Rightarrow> worker_pc"

definition alive :: "'q process_state \<Rightarrow> bool" where
  "alive s \<longleftrightarrow> ps_main s = AwaitSignal \<or> ps_main s = Joining"

definition goto :: "routine \<Rightarrow> run_pc \<Rightarrow> 'q process_state \<Rightarrow> 'q process_state" where
  "goto r pc s = s\<lparr>ps_pc := (ps_pc s)(r := pc)\<rparr>"

definition wg_Add :: "int \<Rightarrow> 'q process_state \<Rightarrow> 'q process_state" where
  "wg_Add n s = s\<lparr>ps_wg := ps_wg s + n\<rparr>"

definition on_queue :: "string \<Rightarrow> ('q \<Rightarrow> 'q) \<Rightarrow> 'q process_state \<Rightarrow> 'q process_state" where
  "on_queue name f s = s\<lparr>ps_queue := (ps_queue s)(name := f (ps_queue s name))\<rparr>"

definition set_worker :: "string \<Rightarrow> nat \<Rightarrow> worker_pc \<Rightarrow> 'q process_state \<Rightarrow> 'q process_state" where
  "set_worker name i pc s = s\<lparr>ps_workers := (ps_workers s)(name := (ps_workers s name)(i := pc))\<rparr>"

definition crash :: "'q process_state \<Rightarrow> 'q process_state" where
  "crash s = s\<lparr>ps_main := Crashed\<rparr>"

text \<open>The command: a signal closes the stop channel, then it waits for the wait group and returns.\<close>

inductive command_step :: "'q process_state \<Rightarrow> 'q process_state \<Rightarrow> bool" where
  got_signal: "ps_main s = AwaitSignal \<Longrightarrow> command_step s (s\<lparr>ps_main := Joining, ps_stop := True\<rparr>)"
| joined: "ps_main s = Joining \<Longrightarrow> ps_wg s = 0 \<Longrightarrow> command_step s (s\<lparr>ps_main := Returned\<rparr>)"

text \<open>\<open>KubernikusOperator.Run\<close> and \<open>Server.Run\<close>: once the API server answers and the caches are filled, the
  goroutines are started.\<close>

inductive start_step :: "'q process_state \<Rightarrow> 'q process_state \<Rightarrow> bool" where
  started: "start_step s (s\<lparr>ps_pc := (\<lambda>r. if ps_pc s r = Unstarted then Created else ps_pc s r)\<rparr>)"

text \<open>What becomes of the queue when a worker has handled a key: the three controllers differ. The outcome of
  the handler is any that is not a panic.\<close>

definition turn_ends :: "'q RateLimitingInterface \<Rightarrow> string \<Rightarrow> string \<Rightarrow> 'q \<Rightarrow> 'q \<Rightarrow> bool" where
  "turn_ends ops name key q q' \<longleftrightarrow>
     (if name = ''groundctl'' then \<exists>r. (\<forall>m. r \<noteq> Panics m) \<and> q' = rl_Done ops key (ground_settle ops key r q)
      else if name = ''wormholegenerator'' then \<exists>err. q' = rl_Done ops key (handleErr ops err key q)
      else \<exists>r. (\<forall>m. r \<noteq> Panics m) \<and> q' = rl_Done ops key (settle_key ops key r q))"

text \<open>What the ticker of a controller does every five minutes: ground control only logs, the base controller
  queues the klusters it lists, the wormhole the nodes of its store.\<close>

definition ticks :: "'q RateLimitingInterface \<Rightarrow> string \<Rightarrow> 'q \<Rightarrow> 'q \<Rightarrow> bool" where
  "ticks ops name q q' \<longleftrightarrow>
     (if name = ''groundctl'' then q' = q
      else if name = ''wormholegenerator'' then \<exists>keys. q' = recheck ops keys q
      else \<exists>listed. q' = snd (requeueAllKlusters ops listed q))"

text \<open>\<open>Run\<close> of a controller: the deferred calls run in the order \<open>wg.Done\<close>, \<open>queue.ShutDown\<close>.\<close>

inductive controller_step :: "'q RateLimitingInterface \<Rightarrow> string \<Rightarrow> 'q process_state \<Rightarrow> 'q process_state \<Rightarrow> bool" for ops name where
  run_registers: "ps_pc s (ControllerRun name) = Created \<Longrightarrow>
    controller_step ops name s (goto (ControllerRun name) Registered (wg_Add 1 s))"
| run_leaves: "ps_pc s (ControllerRun name) = Registered \<Longrightarrow> ps_stop s \<Longrightarrow>
    controller_step ops name s (goto (ControllerRun name) Leaving (wg_Add (- 1) s))"
| run_shuts_down: "ps_pc s (ControllerRun name) = Leaving \<Longrightarrow>
    controller_step ops name s (goto (ControllerRun name) Gone (on_queue name (rl_ShutDown ops) s))"
| run_ticks: "ps_pc s (ControllerRun name) \<in> {Registered, Leaving, Gone} \<Longrightarrow> ticks ops name (ps_queue s name) q' \<Longrightarrow>
    controller_step ops name s (on_queue name (\<lambda>_. q') s)"
| run_event: "controller_step ops name s (on_queue name (rl_Add ops key) s)"
| run_delay: "controller_step ops name s (on_queue name (rl_Tick ops t) s)"

text \<open>\<open>wait.Until\<close> around \<open>runWorker\<close> around \<open>processNextWorkItem\<close>; a panic of a handler is raised again by
  \<open>HandleCrash\<close> and ends the process.\<close>

inductive worker_step :: "'q RateLimitingInterface \<Rightarrow> string \<Rightarrow> nat \<Rightarrow> 'q process_state \<Rightarrow> 'q process_state \<Rightarrow> bool" for ops name i where
  worker_stops: "ps_workers s name i \<in> {Checking, Sleeping} \<Longrightarrow> ps_stop s \<Longrightarrow> worker_step ops name i s (set_worker name i Stopped s)"
| worker_loops: "ps_workers s name i = Checking \<Longrightarrow> \<not> ps_stop s \<Longrightarrow> worker_step ops name i s (set_worker name i Getting s)"
| worker_gets: "ps_workers s name i = Getting \<Longrightarrow> rl_Get ops (ps_queue s name) = (Item key, q') \<Longrightarrow>
    worker_step ops name i s (set_worker name i (Handling key) (on_queue name (\<lambda>_. q') s))"
| worker_quits: "ps_workers s name i = Getting \<Longrightarrow> rl_Get ops (ps_queue s name) = (Quit, q') \<Longrightarrow>
    worker_step ops name i s (set_worker name i Sleeping (on_queue name (\<lambda>_. q') s))"
| worker_finishes: "ps_workers s name i = Handling key \<Longrightarrow> turn_ends ops name key (ps_queue s name) q' \<Longrightarrow>
    worker_step ops name i s (set_worker name i Getting (on_queue name (\<lambda>_. q') s))"
| worker_panics: "ps_workers s name i = Handling key \<Longrightarrow> worker_step ops name i s (crash s)"
| worker_wakes: "ps_workers s name i = Sleeping \<Longrightarrow> worker_step ops name i s (set_worker name i Checking s)"

text \<open>\<open>ExposeMetrics\<close> looks at the stop channel once, before it listens; \<open>http.ListenAndServe\<close> returns only when
  the listener fails (\<open>fails\<close> is the set of services for which that may happen).\<close>

inductive metrics_step :: "service set \<Rightarrow> 'q process_state \<Rightarrow> 'q process_state \<Rightarrow> bool" for fails where
  metrics_registers: "ps_pc s (ServiceRun MetricsServer) = Created \<Longrightarrow>
    metrics_step fails s (goto (ServiceRun MetricsServer) Registered (wg_Add 1 s))"
| metrics_stops: "ps_pc s (ServiceRun MetricsServer) = Registered \<Longrightarrow> ps_stop s \<Longrightarrow>
    metrics_step fails s (goto (ServiceRun MetricsServer) Gone (wg_Add (- 1) s))"
| metrics_listens: "ps_pc s (ServiceRun MetricsServer) = Registered \<Longrightarrow> \<not> ps_stop s \<Longrightarrow>
    metrics_step fails s (goto (ServiceRun MetricsServer) Serving s)"
| metrics_fails: "ps_pc s (ServiceRun MetricsServer) = Serving \<Longrightarrow> MetricsServer \<in> fails \<Longrightarrow>
    metrics_step fails s (goto (ServiceRun MetricsServer) Gone (wg_Add (- 1) s))"

text \<open>\<open>Tunnel.Run\<close>: a goroutine closes the tunnel when the stop channel is closed, for which \<open>Start\<close> must have
  set the function that stops it: before that the call panics.\<close>

inductive tunnel_step :: "service set \<Rightarrow> 'q process_state \<Rightarrow> 'q process_state \<Rightarrow> bool" for fails where
  tunnel_registers: "ps_pc s (ServiceRun TunnelServer) = Created \<Longrightarrow>
    tunnel_step fails s (goto (ServiceRun TunnelServer) Registered (wg_Add 1 s))"
| tunnel_starts: "ps_pc s (ServiceRun TunnelServer) = Registered \<Longrightarrow>
    tunnel_step fails s (goto (ServiceRun TunnelServer) Serving s)"
| tunnel_closed_early: "ps_pc s (ServiceRun TunnelServer) = Registered \<Longrightarrow> ps_stop s \<Longrightarrow> tunnel_step fails s (crash s)"
| tunnel_stops: "ps_pc s (ServiceRun TunnelServer) = Serving \<Longrightarrow> ps_stop s \<Longrightarrow>
    tunnel_step fails s (goto (ServiceRun TunnelServer) Gone (wg_Add (- 1) s))"
| tunnel_fails: "ps_pc s (ServiceRun TunnelServer) \<in> {Registered, Serving} \<Longrightarrow> TunnelServer \<in> fails \<Longrightarrow>
    tunnel_step fails s (goto (ServiceRun TunnelServer) Gone (wg_Add (- 1) s))"

text \<open>A step of the process. The workers of a controller exist once its \<open>Run\<close> has registered.\<close>

inductive process_step ::
  "'q RateLimitingInterface \<Rightarrow> (string \<Rightarrow> nat) \<Rightarrow> service set \<Rightarrow> 'q process_state \<Rightarrow> 'q process_state \<Rightarrow> bool"
  for ops workers fails where
  by_command: "alive s \<Longrightarrow> command_step s s' \<Longrightarrow> process_step ops workers fails s s'"
| by_start: "alive s \<Longrightarrow> start_step s s' \<Longrightarrow> process_step ops workers fails s s'"
| by_controller: "alive s \<Longrightarrow> ps_pc s (ControllerRun name) \<noteq> Absent \<Longrightarrow> controller_step ops name s s' \<Longrightarrow>
    process_step ops workers fails s s'"
| by_worker: "alive s \<Longrightarrow> ps_pc s (ControllerRun name) \<in> {Registered, Leaving, Gone} \<Longrightarrow> i < workers name \<Longrightarrow>
    worker_step ops name i s s' \<Longrightarrow> process_step ops workers fails s s'"
| by_metrics: "alive s \<Longrightarrow> metrics_step fails s s' \<Longrightarrow> process_step ops workers fails s s'"
| by_tunnel: "alive s \<Longrightarrow> tunnel_step fails s s' \<Longrightarrow> process_step ops workers fails s s'"

definition process_starts :: "(routine \<Rightarrow> run_pc) \<Rightarrow> 'q \<Rightarrow> 'q process_state" where
  "process_starts pc q = \<lparr> ps_main = AwaitSignal, ps_stop = False, ps_wg = 0, ps_pc = pc,
     ps_queue = (\<lambda>_. q), ps_workers = (\<lambda>_ _. Checking) \<rparr>"

text \<open>The operator starts the metrics at once and the controllers of its options later; the wormhole server
  starts one controller and the tunnel.\<close>

definition operator_process :: "OperatorOptions \<Rightarrow> 'q \<Rightarrow> 'q process_state" where
  "operator_process o1 = process_starts (\<lambda>r. case r of
     ControllerRun name \<Rightarrow> if name \<in> operator_controllers o1 then Unstarted else Absent
   | ServiceRun sv \<Rightarrow> if sv = MetricsServer then Created else Absent)"

definition wormhole_process :: "'q \<Rightarrow> 'q process_state" where
  "wormhole_process = process_starts (\<lambda>r. case r of
     ControllerRun name \<Rightarrow> if name = ''wormholegenerator'' then Unstarted else Absent
   | ServiceRun sv \<Rightarrow> if sv = TunnelServer then Unstarted else Absent)"

section \<open>The accounts of a process\<close>

text \<open>The goroutines between \<open>wg.Add\<close> and \<open>wg.Done\<close>.\<close>

definition counted :: "'q process_state \<Rightarrow> routine set" where
  "counted s = {r. ps_pc s r = Registered \<or> ps_pc s r = Serving}"

lemma updates [simp]:
  "ps_main (goto r pc s) = ps_main s" "ps_stop (goto r pc s) = ps_stop s" "ps_wg (goto r pc s) = ps_wg s"
  "ps_pc (goto r pc s) = (ps_pc s)(r := pc)" "ps_queue (goto r pc s) = ps_queue s" "ps_workers (goto r pc s) = ps_workers s"
  "ps_main (wg_Add n s) = ps_main s" "ps_stop (wg_Add n s) = ps_stop s" "ps_wg (wg_Add n s) = ps_wg s + n"
  "ps_pc (wg_Add n s) = ps_pc s" "ps_queue (wg_Add n s) = ps_queue s" "ps_workers (wg_Add n s) = ps_workers s"
  "ps_main (on_queue name f s) = ps_main s" "ps_stop (on_queue name f s) = ps_stop s" "ps_wg (on_queue name f s) = ps_wg s"
  "ps_pc (on_queue name f s) = ps_pc s" "ps_queue (on_queue name f s) = (ps_queue s)(name := f (ps_queue s name))"
  "ps_workers (on_queue name f s) = ps_workers s"
  "ps_main (set_worker name i pcw s) = ps_main s" "ps_stop (set_worker name i pcw s) = ps_stop s" "ps_wg (set_worker name i pcw s) = ps_wg s"
  "ps_pc (set_worker name i pcw s) = ps_pc s" "ps_queue (set_worker name i pcw s) = ps_queue s"
  "ps_workers (set_worker name i pcw s) = (ps_workers s)(name := (ps_workers s name)(i := pcw))"
  "ps_main (crash s) = Crashed" "ps_stop (crash s) = ps_stop s" "ps_wg (crash s) = ps_wg s" "ps_pc (crash s) = ps_pc s"
  "ps_queue (crash s) = ps_queue s" "ps_workers (crash s) = ps_workers s"
  by (simp_all add: goto_def wg_Add_def on_queue_def set_worker_def crash_def)

definition wg_exact :: "'q process_state \<Rightarrow> bool" where
  "wg_exact s \<longleftrightarrow> finite {r. ps_pc s r \<noteq> Absent} \<and> ps_wg s = int (card (counted s))"

lemma finite_counted: "wg_exact s \<Longrightarrow> finite (counted s)"
  unfolding wg_exact_def counted_def by (elim conjE) (erule rev_finite_subset, auto)

lemma wg_exact_same:
  assumes "wg_exact s" "ps_wg s' = ps_wg s" "\<And>r. ps_pc s' r \<noteq> Absent \<longleftrightarrow> ps_pc s r \<noteq> Absent" "counted s' = counted s"
  shows "wg_exact s'"
  using assms by (simp add: wg_exact_def)

lemma wg_exact_join:
  assumes "wg_exact s" "ps_pc s r \<noteq> Absent" "r \<notin> counted s" "pc = Registered"
  shows "wg_exact (goto r pc (wg_Add 1 s))"
proof -
  have "{x. ((ps_pc s)(r := pc)) x \<noteq> Absent} = {x. ps_pc s x \<noteq> Absent}" using assms by auto
  moreover have "counted (goto r pc (wg_Add 1 s)) = insert r (counted s)" using assms by (auto simp: counted_def)
  ultimately show ?thesis using assms finite_counted [OF assms(1)] by (simp add: wg_exact_def)
qed

lemma wg_exact_done:
  assumes "wg_exact s" "r \<in> counted s" "pc = Gone \<or> pc = Leaving"
  shows "wg_exact (goto r pc (wg_Add (- 1) s))"
proof -
  have "{x. ((ps_pc s)(r := pc)) x \<noteq> Absent} = {x. ps_pc s x \<noteq> Absent}" using assms by (auto simp: counted_def)
  moreover have "counted (goto r pc (wg_Add (- 1) s)) = counted s - {r}" using assms by (auto simp: counted_def)
  moreover have "1 \<le> card (counted s)"
    using assms(2) finite_counted [OF assms(1)] by (simp add: Suc_le_eq card_gt_0_iff) blast
  ultimately show ?thesis using assms finite_counted [OF assms(1)] by (simp add: wg_exact_def of_nat_diff)
qed

lemma wg_exact_move:
  assumes "wg_exact s" "ps_pc s r \<noteq> Absent" "pc \<noteq> Absent" "r \<in> counted s \<longleftrightarrow> pc = Registered \<or> pc = Serving"
  shows "wg_exact (goto r pc s)"
  using assms by (intro wg_exact_same [OF assms(1)]) (auto simp: counted_def)

lemma wg_exact_step:
  assumes "process_step ops workers fails s s'" "wg_exact s"
  shows "wg_exact s'"
  using assms(1)
proof (cases rule: process_step.cases)
  case by_command
  with assms(2) show ?thesis by (auto elim!: command_step.cases intro!: wg_exact_same [OF assms(2)] simp: counted_def)
next
  case by_start
  with assms(2) show ?thesis by (auto elim!: start_step.cases intro!: wg_exact_same [OF assms(2)] simp: counted_def split: if_splits)
next
  case (by_controller name)
  from by_controller(3) show ?thesis
  proof cases
    case run_registers
    then show ?thesis using assms(2) by (auto intro!: wg_exact_join simp: counted_def)
  next
    case run_leaves
    then show ?thesis using assms(2) by (auto intro!: wg_exact_done simp: counted_def)
  next
    case run_shuts_down
    then have "wg_exact (on_queue name (rl_ShutDown ops) s)"
      by (intro wg_exact_same [OF assms(2)]) (auto simp: counted_def)
    then show ?thesis using run_shuts_down by (auto intro!: wg_exact_move simp: counted_def)
  qed (auto intro!: wg_exact_same [OF assms(2)] simp: counted_def)
next
  case (by_worker name i)
  from by_worker(4) show ?thesis by cases (auto intro!: wg_exact_same [OF assms(2)] simp: counted_def)
next
  case by_metrics
  from by_metrics(2) show ?thesis
  proof cases
    case metrics_listens
    then show ?thesis using assms(2) by (auto intro!: wg_exact_move simp: counted_def)
  qed (use assms(2) in \<open>auto intro!: wg_exact_join wg_exact_done simp: counted_def\<close>)
next
  case by_tunnel
  from by_tunnel(2) show ?thesis
  proof cases
    case tunnel_closed_early
    then show ?thesis by (auto intro!: wg_exact_same [OF assms(2)] simp: counted_def)
  next
    case tunnel_starts
    then show ?thesis using assms(2) by (auto intro!: wg_exact_move simp: counted_def)
  qed (use assms(2) in \<open>auto intro!: wg_exact_join wg_exact_done simp: counted_def\<close>)
qed

text \<open>The stop channel is closed by the command, and only by it; a command that has returned has found the
  wait group empty.\<close>

definition command_ok :: "'q process_state \<Rightarrow> bool" where
  "command_ok s \<longleftrightarrow> (ps_main s = AwaitSignal \<longrightarrow> \<not> ps_stop s) \<and> (ps_main s = Joining \<longrightarrow> ps_stop s) \<and>
     (ps_main s = Returned \<longrightarrow> ps_stop s \<and> counted s = {}) \<and> (\<forall>name. ps_pc s (ControllerRun name) \<noteq> Serving)"

lemma command_ok_step:
  assumes "process_step ops workers fails s s'" "command_ok s" "wg_exact s"
  shows "command_ok s'"
  using assms(1)
proof (cases rule: process_step.cases)
  case by_command
  from by_command(2) show ?thesis
  proof cases
    case joined
    then have "counted s = {}" using assms(3) finite_counted [OF assms(3)] by (simp add: wg_exact_def)
    then show ?thesis using joined assms(2) by (simp add: command_ok_def counted_def)
  qed (use assms(2) in \<open>simp add: command_ok_def\<close>)
next
  case by_start
  with assms(2) show ?thesis by (auto simp: command_ok_def alive_def counted_def elim!: start_step.cases split: if_splits)
next
  case (by_controller name)
  from by_controller(3) by_controller(1) assms(2) show ?thesis by cases (auto simp: command_ok_def alive_def)
next
  case (by_worker name i)
  from by_worker(4) by_worker(1) assms(2) show ?thesis by cases (auto simp: command_ok_def alive_def)
next
  case by_metrics
  from by_metrics(2,1) assms(2) show ?thesis by cases (auto simp: command_ok_def alive_def)
next
  case by_tunnel
  from by_tunnel(2,1) assms(2) show ?thesis by cases (auto simp: command_ok_def alive_def)
qed

section \<open>Queues and workers\<close>

context rate_limiting_queue
begin

definition calm :: "'q \<Rightarrow> 'q \<Rightarrow> bool" where
  "calm q q' \<longleftrightarrow> (inv q \<longrightarrow> inv q') \<and> busy q' = busy q \<and> closed q' = closed q"

lemma calm_refl: "calm q q"
  by (simp add: calm_def)

lemma calm_trans: "calm q q1 \<Longrightarrow> calm q1 q2 \<Longrightarrow> calm q q2"
  by (simp add: calm_def)

lemma calm_Add: "calm q (rl_Add ops k q)"
  by (simp add: calm_def queue_laws inv_ops)

lemma calm_fold: "(\<And>x q. calm q (f x q)) \<Longrightarrow> calm q (fold f xs q)"
  by (induction xs arbitrary: q) (auto intro: calm_refl calm_trans)

lemma calm_ticks: "ticks ops name q q' \<Longrightarrow> calm q q'"
proof -
  have key: "calm q (requeueKluster ops k q)" for k q
    by (simp add: requeueKluster_def add_key_def calm_Add)
  have "calm q (snd (requeueAllKlusters ops listed q))" for listed
    by (cases listed) (auto simp: requeueAllKlusters_def intro: calm_refl calm_fold key)
  then show "ticks ops name q q' \<Longrightarrow> calm q q'"
    by (auto simp: ticks_def recheck_def intro: calm_refl calm_fold calm_Add split: if_splits)
qed

lemma calm_settles:
  "calm q (settle_key ops key r q)" "calm q (ground_settle ops key r' q)" "calm q (handleErr ops err key q)"
  by (auto simp: calm_def settle_key_def ground_settle_def handleErr_def inv_ops queue_laws split: outcome.splits option.splits)

lemma turn_frame:
  assumes "turn_ends ops name key q q'" "inv q" "key \<in> busy q"
  shows "inv q'" "busy q' = busy q - {key}" "closed q' = closed q"
proof -
  obtain q1 where q1: "calm q q1" "q' = rl_Done ops key q1"
    using assms(1) unfolding turn_ends_def by (metis calm_settles)
  then show "inv q'" "busy q' = busy q - {key}" "closed q' = closed q"
    using assms(2,3) by (auto simp: calm_def inv_ops queue_laws)
qed

text \<open>The keys that the queue of a controller counts as being processed are those its workers handle, each by
  one worker; the queue is shut down exactly when \<open>Run\<close> is over; no worker ends before the stop.\<close>

definition workers_ok :: "(string \<Rightarrow> nat) \<Rightarrow> 'q process_state \<Rightarrow> bool" where
  "workers_ok workers s \<longleftrightarrow> (\<forall>name. inv (ps_queue s name) \<and>
     busy (ps_queue s name) = {key. \<exists>i. ps_workers s name i = Handling key} \<and>
     (\<forall>i j key. ps_workers s name i = Handling key \<longrightarrow> ps_workers s name j = Handling key \<longrightarrow> i = j) \<and>
     (\<forall>i. ps_workers s name i \<noteq> Checking \<longrightarrow> i < workers name) \<and>
     (\<forall>i. ps_workers s name i = Stopped \<longrightarrow> ps_stop s) \<and>
     (closed (ps_queue s name) \<longleftrightarrow> ps_pc s (ControllerRun name) = Gone))"

lemma workers_ok_same:
  assumes "workers_ok workers s" "ps_queue s' = ps_queue s" "ps_workers s' = ps_workers s" "ps_stop s \<longrightarrow> ps_stop s'"
    "\<And>name. ps_pc s' (ControllerRun name) = Gone \<longleftrightarrow> ps_pc s (ControllerRun name) = Gone"
  shows "workers_ok workers s'"
  using assms unfolding workers_ok_def by simp

lemma workers_ok_queue:
  assumes "workers_ok workers s" "calm (ps_queue s name) (f (ps_queue s name))"
  shows "workers_ok workers (on_queue name f s)"
  using assms unfolding workers_ok_def calm_def by auto

lemma workers_ok_controller:
  assumes "controller_step ops name s s'" "workers_ok workers s"
  shows "workers_ok workers s'"
  using assms(1)
proof cases
  case run_registers
  then show ?thesis by (intro workers_ok_same [OF assms(2)]) auto
next
  case run_leaves
  then show ?thesis by (intro workers_ok_same [OF assms(2)]) auto
next
  case run_shuts_down
  then show ?thesis using assms(2) unfolding workers_ok_def by (auto simp: inv_ops queue_laws)
next
  case (run_ticks q')
  then show ?thesis using workers_ok_queue [OF assms(2), of name "\<lambda>_. q'"] calm_ticks by blast
next
  case (run_event key)
  then show ?thesis using workers_ok_queue [OF assms(2), of name "rl_Add ops key"] calm_Add by blast
next
  case (run_delay t)
  have "calm (ps_queue s name) (rl_Tick ops t (ps_queue s name))" by (simp add: calm_def queue_laws)
  then show ?thesis using run_delay workers_ok_queue [OF assms(2), of name "rl_Tick ops t"] by blast
qed

text \<open>A worker that changes its place, and the queue with it.\<close>

lemma workers_ok_move:
  assumes "workers_ok workers s" "i < workers name" "inv q'" "closed q' = closed (ps_queue s name)"
    "busy q' = {key. \<exists>j. (if j = i then pcw else ps_workers s name j) = Handling key}"
    "\<And>j key. j \<noteq> i \<Longrightarrow> pcw = Handling key \<Longrightarrow> ps_workers s name j \<noteq> Handling key"
    "pcw = Stopped \<Longrightarrow> ps_stop s"
  shows "workers_ok workers (set_worker name i pcw (on_queue name (\<lambda>_. q') s))"
  unfolding workers_ok_def
proof
  fix n
  note ok = assms(1) [unfolded workers_ok_def, rule_format, of n]
  let ?s = "set_worker name i pcw (on_queue name (\<lambda>_. q') s)"
  show "inv (ps_queue ?s n) \<and> busy (ps_queue ?s n) = {key. \<exists>j. ps_workers ?s n j = Handling key} \<and>
     (\<forall>j k key. ps_workers ?s n j = Handling key \<longrightarrow> ps_workers ?s n k = Handling key \<longrightarrow> j = k) \<and>
     (\<forall>j. ps_workers ?s n j \<noteq> Checking \<longrightarrow> j < workers n) \<and> (\<forall>j. ps_workers ?s n j = Stopped \<longrightarrow> ps_stop ?s) \<and>
     (closed (ps_queue ?s n) \<longleftrightarrow> ps_pc ?s (ControllerRun n) = Gone)"
  proof (cases "n = name")
    case True
    have old: "ps_workers s name j = Handling key \<Longrightarrow> ps_workers s name k = Handling key \<Longrightarrow> j = k" for j k key
      using ok True by blast
    have "(if j = i then pcw else ps_workers s name j) = Handling key \<Longrightarrow>
        (if k = i then pcw else ps_workers s name k) = Handling key \<Longrightarrow> j = k" for j k key
      using assms(6) [of j key] assms(6) [of k key] old [of j key k] by (cases "j = i"; cases "k = i"; simp)
    then have inj: "\<forall>j k key. ps_workers ?s n j = Handling key \<longrightarrow> ps_workers ?s n k = Handling key \<longrightarrow> j = k"
      unfolding True updates fun_upd_same fun_upd_apply by blast
    have "inv (ps_queue ?s n)" "busy (ps_queue ?s n) = {key. \<exists>j. ps_workers ?s n j = Handling key}"
      using True assms(3,5) by (simp_all add: fun_upd_def)
    moreover have "\<forall>j. ps_workers ?s n j \<noteq> Checking \<longrightarrow> j < workers n" using True ok assms(2) by auto
    moreover have "\<forall>j. ps_workers ?s n j = Stopped \<longrightarrow> ps_stop ?s" using True ok assms(7) by (auto split: if_splits)
    moreover have "closed (ps_queue ?s n) \<longleftrightarrow> ps_pc ?s (ControllerRun n) = Gone" using True ok assms(4) by simp
    ultimately show ?thesis using inj by blast
  next
    case False
    then show ?thesis using ok by auto
  qed
qed

lemma workers_ok_idle:
  assumes "workers_ok workers s" "i < workers name" "\<And>key. ps_workers s name i \<noteq> Handling key" "\<And>key. pcw \<noteq> Handling key"
    "pcw = Stopped \<Longrightarrow> ps_stop s"
  shows "workers_ok workers (set_worker name i pcw s)"
proof -
  note ok = assms(1) [unfolded workers_ok_def, rule_format, of name]
  have "(if j = i then pcw else ps_workers s name j) = Handling key \<longleftrightarrow> ps_workers s name j = Handling key" for j key
    using assms(3,4) by simp
  then have "workers_ok workers (set_worker name i pcw (on_queue name (\<lambda>_. ps_queue s name) s))"
    using ok assms by (intro workers_ok_move) auto
  then show ?thesis by (simp add: on_queue_def)
qed

lemma workers_ok_worker:
  assumes "worker_step ops name i s s'" "workers_ok workers s" "i < workers name"
  shows "workers_ok workers s'"
proof -
  note ok = assms(2) [unfolded workers_ok_def, rule_format, of name]
  have busy: "busy (ps_queue s name) = {key. \<exists>j. ps_workers s name j = Handling key}" using ok by blast
  from assms(1) show ?thesis
  proof cases
    case worker_stops
    then show ?thesis using assms by (auto intro!: workers_ok_idle)
  next
    case worker_loops
    then show ?thesis using assms by (auto intro!: workers_ok_idle)
  next
    case (worker_gets key q')
    have g: "key \<notin> busy (ps_queue s name)" "busy q' = insert key (busy (ps_queue s name))"
      using Get_Item [OF _ worker_gets(3)] ok by auto
    have q': "q' = snd (rl_Get ops (ps_queue s name))" by (simp add: worker_gets(3))
    have "inv q'" "closed q' = closed (ps_queue s name)" using ok by (auto simp: q' inv_ops queue_laws)
    moreover have "(\<exists>j. (if j = i then Handling key else ps_workers s name j) = Handling k) \<longleftrightarrow>
        k = key \<or> (\<exists>j. ps_workers s name j = Handling k)" for k
      using worker_gets(2) by (metis worker_pc.distinct(9) worker_pc.inject)
    then have "busy q' = {k. \<exists>j. (if j = i then Handling key else ps_workers s name j) = Handling k}"
      by (simp only: g(2) busy) blast
    moreover have "ps_workers s name j \<noteq> Handling key" for j using g(1) by (auto simp: busy)
    ultimately show ?thesis unfolding worker_gets(1) by (intro workers_ok_move [OF assms(2,3)]) simp_all
  next
    case (worker_quits q')
    then have "snd (rl_Get ops (ps_queue s name)) = ps_queue s name" using Get_other(3) [of "ps_queue s name"] by simp
    then have "on_queue name (\<lambda>_. q') s = s" using worker_quits by (simp add: on_queue_def)
    then show ?thesis using worker_quits assms by (auto intro!: workers_ok_idle)
  next
    case (worker_finishes key q')
    have k: "key \<in> busy (ps_queue s name)" using worker_finishes(2) by (auto simp: busy)
    have inj: "ps_workers s name j = Handling key \<Longrightarrow> j = i" for j using ok worker_finishes(2) by blast
    have "(\<exists>j. (if j = i then Getting else ps_workers s name j) = Handling k) \<longleftrightarrow> k \<noteq> key \<and> (\<exists>j. ps_workers s name j = Handling k)" for k
      using inj worker_finishes(2) by (metis worker_pc.distinct(9) worker_pc.inject)
    moreover have "inv (ps_queue s name)" using ok by blast
    ultimately have "busy q' = {k. \<exists>j. (if j = i then Getting else ps_workers s name j) = Handling k}"
      using turn_frame(2) [OF worker_finishes(3) _ k] by (simp only: busy) blast
    then show ?thesis
      unfolding worker_finishes(1) using turn_frame(1,3) [OF worker_finishes(3) _ k] ok
      by (intro workers_ok_move [OF assms(2,3)]) simp_all
  next
    case worker_panics
    then show ?thesis by (intro workers_ok_same [OF assms(2)]) auto
  next
    case worker_wakes
    then show ?thesis using assms by (auto intro!: workers_ok_idle)
  qed
qed

lemma workers_ok_step:
  assumes "process_step ops workers fails s s'" "workers_ok workers s"
  shows "workers_ok workers s'"
  using assms(1)
proof (cases rule: process_step.cases)
  case by_command
  from by_command(2) show ?thesis by cases (auto intro!: workers_ok_same [OF assms(2)])
next
  case by_start
  then show ?thesis by (auto elim!: start_step.cases intro!: workers_ok_same [OF assms(2)] split: if_splits)
next
  case by_metrics
  from by_metrics(2) show ?thesis by cases (auto intro!: workers_ok_same [OF assms(2)])
next
  case by_tunnel
  from by_tunnel(2) show ?thesis by cases (auto intro!: workers_ok_same [OF assms(2)])
qed (use assms(2) workers_ok_controller workers_ok_worker in auto)

definition process_ok :: "(string \<Rightarrow> nat) \<Rightarrow> 'q process_state \<Rightarrow> bool" where
  "process_ok workers s \<longleftrightarrow> wg_exact s \<and> command_ok s \<and> workers_ok workers s"

lemma process_ok_run:
  assumes "(process_step ops workers fails)\<^sup>*\<^sup>* s s'" "process_ok workers s"
  shows "process_ok workers s'"
  using assms
proof (induction rule: rtranclp_induct)
  case (step s1 s2)
  then show ?case
    using wg_exact_step [OF step(2)] command_ok_step [OF step(2)] workers_ok_step [OF step(2)] by (auto simp: process_ok_def)
qed

lemma process_ok_start:
  assumes "finite {r. pc r \<noteq> Absent}" "\<And>r. pc r \<in> {Absent, Unstarted, Created}" "inv q" "busy q = {}" "\<not> closed q"
  shows "process_ok workers (process_starts pc q)"
proof -
  have "pc r \<noteq> Registered \<and> pc r \<noteq> Serving \<and> pc r \<noteq> Gone" for r using assms(2) [of r] by auto
  then have "counted (process_starts pc q) = {}" "\<And>name. pc (ControllerRun name) \<noteq> Gone" "\<And>name. pc (ControllerRun name) \<noteq> Serving"
    by (auto simp: counted_def process_starts_def)
  then show ?thesis
    using assms by (auto simp: process_ok_def wg_exact_def command_ok_def workers_ok_def process_starts_def)
qed

end

section \<open>The end of a process\<close>

lemma accounts_run:
  assumes "(process_step ops workers fails)\<^sup>*\<^sup>* s s'" "wg_exact s" "command_ok s"
  shows "wg_exact s' \<and> command_ok s'"
  using assms
proof (induction rule: rtranclp_induct)
  case (step s1 s2)
  then show ?case using wg_exact_step [OF step(2)] command_ok_step [OF step(2)] by blast
qed simp

text \<open>After the stop every goroutine that is counted can leave, but for metrics that are served.\<close>

lemma counted_leaves:
  assumes "ps_main s = Joining" "ps_stop s" "r \<in> counted s" "r = ServiceRun MetricsServer \<longrightarrow> ps_pc s r \<noteq> Serving"
    "\<And>name. ps_pc s (ControllerRun name) \<noteq> Serving"
  shows "\<exists>s'. (process_step ops workers {})\<^sup>*\<^sup>* s s' \<and> ps_main s' = Joining \<and> ps_stop s' \<and> counted s' = counted s - {r} \<and>
    (ps_pc s' (ServiceRun MetricsServer) = Serving \<longleftrightarrow> ps_pc s (ServiceRun MetricsServer) = Serving)"
proof -
  have alive: "alive s" using assms(1) by (simp add: alive_def)
  let ?left = "\<lambda>pc s. goto r pc (wg_Add (- 1) s)"
  have left: "counted (?left pc s) = counted s - {r}" if "pc = Gone \<or> pc = Leaving" for pc
    using that by (auto simp: counted_def)
  show ?thesis
  proof (cases r)
    case (ControllerRun name)
    then have "ps_pc s (ControllerRun name) = Registered" using assms(3,5) by (auto simp: counted_def)
    then have "process_step ops workers {} s (?left Leaving s)"
      using alive assms(2) ControllerRun by (auto intro!: by_controller [where name = name] run_leaves)
    then show ?thesis using left [of Leaving] assms(1,2) ControllerRun by (intro exI [of _ "?left Leaving s"]) auto
  next
    case (ServiceRun sv)
    show ?thesis
    proof (cases sv)
      case MetricsServer
      then have pc: "ps_pc s r = Registered" using assms(3,4) ServiceRun by (auto simp: counted_def)
      then have "process_step ops workers {} s (?left Gone s)"
        using alive assms(2) ServiceRun MetricsServer by (auto intro!: by_metrics metrics_stops)
      then show ?thesis
        using left [of Gone] assms(1,2) ServiceRun MetricsServer pc by (intro exI [of _ "?left Gone s"]) auto
    next
      case TunnelServer
      note r = ServiceRun [unfolded TunnelServer]
      let ?t = "goto r Serving s"
      have one: "(process_step ops workers {})\<^sup>*\<^sup>* s s" by simp
      have go: "process_step ops workers {} t (?left Gone t)" if "alive t" "ps_stop t" "ps_pc t r = Serving" for t
        using that r by (auto intro!: by_tunnel tunnel_stops)
      show ?thesis
      proof (cases "ps_pc s r = Serving")
        case True
        then show ?thesis
          using go [OF alive assms(2)] left [of Gone] assms(1,2) r by (intro exI [of _ "?left Gone s"]) auto
      next
        case False
        then have "ps_pc s r = Registered" using assms(3) by (auto simp: counted_def)
        then have "process_step ops workers {} s ?t" using alive r by (auto intro!: by_tunnel tunnel_starts)
        moreover have "process_step ops workers {} ?t (?left Gone ?t)"
          using go [of ?t] alive assms(2) by (simp add: alive_def)
        moreover have "counted (?left Gone ?t) = counted s - {r}" by (auto simp: counted_def)
        ultimately show ?thesis
          using assms(1,2) r by (intro exI [of _ "?left Gone ?t"]) (auto intro: converse_rtranclp_into_rtranclp)
      qed
    qed
  qed
qed

lemma exit_possible:
  assumes "wg_exact s" "command_ok s" "ps_main s = Joining" "ps_pc s (ServiceRun MetricsServer) \<noteq> Serving"
  shows "\<exists>s'. (process_step ops workers {})\<^sup>*\<^sup>* s s' \<and> ps_main s' = Returned"
  using assms
proof (induction "card (counted s)" arbitrary: s rule: less_induct)
  case less
  have stop: "ps_stop s" using less.prems by (simp add: command_ok_def)
  show ?case
  proof (cases "counted s = {}")
    case True
    then have "process_step ops workers {} s (s\<lparr>ps_main := Returned\<rparr>)"
      using less.prems by (auto intro!: by_command joined simp: wg_exact_def alive_def)
    then show ?thesis by (intro exI [of _ "s\<lparr>ps_main := Returned\<rparr>"]) auto
  next
    case False
    then obtain r where r: "r \<in> counted s" by blast
    have none: "ps_pc s (ControllerRun name) \<noteq> Serving" for name using less.prems(2) by (simp add: command_ok_def)
    obtain s1 where s1: "(process_step ops workers {})\<^sup>*\<^sup>* s s1" "ps_main s1 = Joining" "counted s1 = counted s - {r}"
        "ps_pc s1 (ServiceRun MetricsServer) \<noteq> Serving"
      using counted_leaves [OF less.prems(3) stop r _ none] less.prems(4) by blast
    have "card (counted s1) < card (counted s)"
      unfolding s1(3) using finite_counted [OF less.prems(1)] r by (rule card_Diff1_less)
    then obtain s2 where "(process_step ops workers {})\<^sup>*\<^sup>* s1 s2" "ps_main s2 = Returned"
      using less.hyps [of s1] accounts_run [OF s1(1) less.prems(1,2)] s1(2,4) by blast
    with s1(1) show ?thesis by (meson rtranclp_trans)
  qed
qed

lemma metrics_kept:
  assumes "process_step ops workers fails s s'"
  shows "ps_pc s (ServiceRun MetricsServer) = Absent \<Longrightarrow> ps_pc s' (ServiceRun MetricsServer) = Absent"
    and "ps_pc s (ServiceRun MetricsServer) = Serving \<Longrightarrow> MetricsServer \<notin> fails \<Longrightarrow> ps_pc s' (ServiceRun MetricsServer) = Serving"
  using assms
  by (cases rule: process_step.cases;
      auto elim!: command_step.cases start_step.cases controller_step.cases worker_step.cases metrics_step.cases tunnel_step.cases)+

lemma metrics_absent_run:
  "(process_step ops workers fails)\<^sup>*\<^sup>* s s' \<Longrightarrow> ps_pc s (ServiceRun MetricsServer) = Absent \<Longrightarrow> ps_pc s' (ServiceRun MetricsServer) = Absent"
  by (induction rule: rtranclp_induct) (auto dest: metrics_kept(1))

lemma metrics_serving_run:
  "(process_step ops workers fails)\<^sup>*\<^sup>* s s' \<Longrightarrow> MetricsServer \<notin> fails \<Longrightarrow> ps_pc s (ServiceRun MetricsServer) = Serving \<Longrightarrow>
     ps_pc s' (ServiceRun MetricsServer) = Serving"
  by (induction rule: rtranclp_induct) (auto dest: metrics_kept(2))

section \<open>The two programs\<close>

abbreviation runs :: "service set \<Rightarrow> wq process_state \<Rightarrow> wq process_state \<Rightarrow> bool" where
  "runs fails \<equiv> (process_step rateLimitingType CONTROLLER_OPTIONS fails)\<^sup>*\<^sup>*"

lemma programs_start:
  "wq.process_ok CONTROLLER_OPTIONS (operator_process o1 new_queue)" "wq.process_ok CONTROLLER_OPTIONS (wormhole_process new_queue)"
proof -
  have q: "wq_inv new_queue" "wq_processing new_queue = {}" "\<not> wq_shuttingDown new_queue"
    using new_queue_inv new_queue_empty by (auto simp: new_queue_def NewRateLimitingQueue_def)
  have "{r. (case r of ControllerRun name \<Rightarrow> if name \<in> operator_controllers o1 then Unstarted else Absent
      | ServiceRun sv \<Rightarrow> if sv = MetricsServer then Created else Absent) \<noteq> Absent} \<subseteq>
      insert (ServiceRun MetricsServer) (ControllerRun ` operator_controllers o1)"
  proof
    fix r assume "r \<in> {r. (case r of ControllerRun name \<Rightarrow> if name \<in> operator_controllers o1 then Unstarted else Absent
      | ServiceRun sv \<Rightarrow> if sv = MetricsServer then Created else Absent) \<noteq> Absent}"
    then show "r \<in> insert (ServiceRun MetricsServer) (ControllerRun ` operator_controllers o1)"
      by (cases r) (auto split: if_splits)
  qed
  moreover have "finite (operator_controllers o1)" by (simp add: operator_controllers_def)
  then have "finite (insert (ServiceRun MetricsServer) (ControllerRun ` operator_controllers o1))" by simp
  ultimately have fin: "finite {r. (case r of ControllerRun name \<Rightarrow> if name \<in> operator_controllers o1 then Unstarted else Absent
      | ServiceRun sv \<Rightarrow> if sv = MetricsServer then Created else Absent) \<noteq> Absent}"
    by (rule finite_subset)
  show "wq.process_ok CONTROLLER_OPTIONS (operator_process o1 new_queue)"
    unfolding operator_process_def by (rule wq.process_ok_start [OF fin _ q]) (simp split: routine.split)
  have "r \<in> {ServiceRun TunnelServer, ControllerRun ''wormholegenerator''}"
    if "(case r of ControllerRun name \<Rightarrow> if name = ''wormholegenerator'' then Unstarted else Absent
      | ServiceRun sv \<Rightarrow> if sv = TunnelServer then Unstarted else Absent) \<noteq> Absent" for r
    using that by (cases r) (auto split: if_splits)
  then have "{r. (case r of ControllerRun name \<Rightarrow> if name = ''wormholegenerator'' then Unstarted else Absent
      | ServiceRun sv \<Rightarrow> if sv = TunnelServer then Unstarted else Absent) \<noteq> Absent} \<subseteq>
      {ServiceRun TunnelServer, ControllerRun ''wormholegenerator''}" by blast
  then have fin: "finite {r. (case r of ControllerRun name \<Rightarrow> if name = ''wormholegenerator'' then Unstarted else Absent
      | ServiceRun sv \<Rightarrow> if sv = TunnelServer then Unstarted else Absent) \<noteq> Absent}"
    by (rule finite_subset) simp
  show "wq.process_ok CONTROLLER_OPTIONS (wormhole_process new_queue)"
    unfolding wormhole_process_def by (rule wq.process_ok_start [OF fin _ q]) (simp split: routine.split)
qed

text \<open>C12: The accounts of the running operator and of the running wormhole server, after any interleaving of
  their goroutines, events, ticks, failing listeners and panics: the wait group counts exactly the
  goroutines that have registered and not yet left; a command that has returned has had its signal and
  has left none of them running; a key is handled by one worker at most, which is one of those the controller
  was started with; no worker ends before the signal; and the queue of a controller is shut down exactly
  when its \<open>Run\<close> is over.\<close>

theorem processes_account:
  assumes "s0 = operator_process o1 new_queue \<or> s0 = wormhole_process new_queue" "runs UNIV s0 s"
  shows "ps_wg s = int (card (counted s)) \<and> (ps_main s = Returned \<longrightarrow> ps_stop s \<and> counted s = {}) \<and>
    (\<forall>name i j key. ps_workers s name i = Handling key \<longrightarrow> i < CONTROLLER_OPTIONS name \<and>
       key \<in> wq_processing (ps_queue s name) \<and> (ps_workers s name j = Handling key \<longrightarrow> i = j)) \<and>
    (\<forall>name i. ps_workers s name i = Stopped \<longrightarrow> ps_stop s) \<and>
    (\<forall>name. wq_shuttingDown (ps_queue s name) \<longleftrightarrow> ps_pc s (ControllerRun name) = Gone)"
proof -
  have "wq.process_ok CONTROLLER_OPTIONS s"
    using assms programs_start wq.process_ok_run by blast
  then have ok: "wg_exact s" "command_ok s" "wq.workers_ok CONTROLLER_OPTIONS s" by (simp_all add: wq.process_ok_def)
  note w = ok(3) [unfolded wq.workers_ok_def, rule_format]
  have "ps_workers s name i = Handling key \<Longrightarrow> i < CONTROLLER_OPTIONS name \<and> key \<in> wq_processing (ps_queue s name) \<and>
      (ps_workers s name j = Handling key \<longrightarrow> i = j)" for name i j key
    using w [of name] by (metis (mono_tags, lifting) mem_Collect_eq worker_pc.distinct(3))
  with ok w show ?thesis by (auto simp: wg_exact_def command_ok_def)
qed

text \<open>C13: How the two programs end. Once the wormhole server has its signal, it can always come to its end,
  and so can an operator whose server of the metrics does not listen. But when the metrics are served,
  the operator never returns, whatever its goroutines do, unless the listener of the metrics fails: \<open>ListenAndServe\<close>
  does not look at the stop channel.\<close>

theorem processes_exit:
  "(\<forall>s. runs UNIV (wormhole_process new_queue) s \<longrightarrow> ps_main s = Joining \<longrightarrow> (\<exists>s'. runs {} s s' \<and> ps_main s' = Returned)) \<and>
   (\<forall>o1 s. runs UNIV (operator_process o1 new_queue) s \<longrightarrow> ps_main s = Joining \<longrightarrow>
      ps_pc s (ServiceRun MetricsServer) \<noteq> Serving \<longrightarrow> (\<exists>s'. runs {} s s' \<and> ps_main s' = Returned)) \<and>
   (\<forall>o1 s s'. runs UNIV (operator_process o1 new_queue) s \<longrightarrow> ps_pc s (ServiceRun MetricsServer) = Serving \<longrightarrow>
      runs (UNIV - {MetricsServer}) s s' \<longrightarrow> ps_main s' \<noteq> Returned)"
proof -
  have ok: "wg_exact s \<and> command_ok s"
    if "runs UNIV s0 s" "s0 = operator_process o1 new_queue \<or> s0 = wormhole_process new_queue" for s0 s o1
    using that programs_start wq.process_ok_run by (metis wq.process_ok_def)
  have "ps_pc s (ServiceRun MetricsServer) = Absent" if "runs UNIV (wormhole_process new_queue) s" for s
    using metrics_absent_run [OF that] by (simp add: wormhole_process_def process_starts_def)
  then have wormhole: "\<exists>s'. runs {} s s' \<and> ps_main s' = Returned" if "runs UNIV (wormhole_process new_queue) s" "ps_main s = Joining" for s
    using exit_possible [of s] ok [OF that(1)] that by simp
  have operator: "\<exists>s'. runs {} s s' \<and> ps_main s' = Returned"
    if "runs UNIV (operator_process o1 new_queue) s" "ps_main s = Joining" "ps_pc s (ServiceRun MetricsServer) \<noteq> Serving" for o1 s
    using exit_possible [OF _ _ that(2,3)] ok [OF that(1), of o1] by blast
  have never: "ps_main s' \<noteq> Returned"
    if "runs UNIV (operator_process o1 new_queue) s" "ps_pc s (ServiceRun MetricsServer) = Serving"
      "runs (UNIV - {MetricsServer}) s s'" for o1 s s'
  proof -
    have "command_ok s'" using accounts_run [OF that(3)] ok [OF that(1)] by blast
    moreover have "ServiceRun MetricsServer \<in> counted s'"
      using metrics_serving_run [OF that(3) _ that(2)] by (simp add: counted_def)
    ultimately show ?thesis by (auto simp: command_ok_def)
  qed
  show ?thesis using wormhole operator never by blast
qed

section \<open>Two runs\<close>

text \<open>A run of the wormhole server that returns while its worker handles a node: the wait group counts \<open>Run\<close>,
  not the workers, so an update of the tunnel and of the rules may be cut off in the middle.\<close>

lemma start_of_wormhole:
  obtains s where "runs {} (wormhole_process new_queue) s" "ps_main s = AwaitSignal" "\<not> ps_stop s" "ps_wg s = 0"
    "ps_pc s (ControllerRun ''wormholegenerator'') = Created" "ps_queue s ''wormholegenerator'' = new_queue"
    "ps_workers s ''wormholegenerator'' 0 = Checking"
proof -
  let ?s = "wormhole_process new_queue :: wq process_state"
  let ?t = "?s\<lparr>ps_pc := (\<lambda>r. if ps_pc ?s r = Unstarted then Created else ps_pc ?s r)\<rparr>"
  have "process_step rateLimitingType CONTROLLER_OPTIONS {} ?s ?t"
    by (intro by_start started) (simp add: alive_def wormhole_process_def process_starts_def)
  then show ?thesis using that [of ?t] by (simp add: wormhole_process_def process_starts_def r_into_rtranclp)
qed

lemma worker_busy:
  obtains s where "runs {} (wormhole_process new_queue) s" "ps_main s = AwaitSignal" "ps_wg s = 1"
    "ps_pc s (ControllerRun ''wormholegenerator'') = Registered" "ps_workers s ''wormholegenerator'' 0 = Handling ''n1''"
proof -
  let ?W = "''wormholegenerator''" and ?step = "process_step rateLimitingType CONTROLLER_OPTIONS {}"
  have n: "0 < CONTROLLER_OPTIONS ?W" by (simp add: CONTROLLER_OPTIONS_def)
  obtain q where q: "rl_Get rateLimitingType (rl_Add rateLimitingType ''n1'' new_queue) = (Item ''n1'', q)"
    by (simp add: rateLimitingType_def wq_Get_def wq_Add_def new_queue_def NewRateLimitingQueue_def)
  obtain s1 where 1: "runs {} (wormhole_process new_queue) s1" "ps_main s1 = AwaitSignal" "\<not> ps_stop s1" "ps_wg s1 = 0"
    "ps_pc s1 (ControllerRun ?W) = Created" "ps_queue s1 ?W = new_queue" "ps_workers s1 ?W 0 = Checking"
    by (rule start_of_wormhole)
  let ?s2 = "goto (ControllerRun ?W) Registered (wg_Add 1 s1)" and ?add = "on_queue ?W (rl_Add rateLimitingType ''n1'')"
  have alive: "alive s1" using 1 by (simp add: alive_def)
  have a: "alive ?s2" "alive (?add ?s2)" "alive (set_worker ?W 0 Getting (?add ?s2))" using 1(2) by (simp_all add: alive_def)
  have s: "?step s1 ?s2" using 1 alive by (intro by_controller [where name = ?W] run_registers) auto
  have t: "?step ?s2 (?add ?s2)" using a by (intro by_controller [where name = ?W] run_event) auto
  have u: "?step (?add ?s2) (set_worker ?W 0 Getting (?add ?s2))"
    using a 1 n by (intro by_worker [where name = ?W and i = 0] worker_loops) auto
  let ?s4 = "set_worker ?W 0 Getting (?add ?s2)"
  let ?s5 = "set_worker ?W 0 (Handling ''n1'') (on_queue ?W (\<lambda>_. q) ?s4)"
  have v: "?step ?s4 ?s5" using a 1 n q by (intro by_worker [where name = ?W and i = 0] worker_gets) auto
  note on = rtranclp.rtrancl_into_rtrancl
  have "runs {} (wormhole_process new_queue) ?s2" using 1(1) s by (rule on)
  then have "runs {} (wormhole_process new_queue) (?add ?s2)" using t by (rule on)
  then have "runs {} (wormhole_process new_queue) ?s4" using u by (rule on)
  then have "runs {} (wormhole_process new_queue) ?s5" using v by (rule on)
  then show ?thesis using that [of ?s5] 1 by simp
qed

theorem worker_cut_off:
  "\<exists>s. runs {} (wormhole_process new_queue) s \<and> ps_main s = Returned \<and>
     ps_workers s ''wormholegenerator'' 0 = Handling ''n1''"
proof -
  let ?W = "''wormholegenerator''" and ?step = "process_step rateLimitingType CONTROLLER_OPTIONS {}"
  obtain s where s: "runs {} (wormhole_process new_queue) s" "ps_main s = AwaitSignal" "ps_wg s = 1"
    "ps_pc s (ControllerRun ?W) = Registered" "ps_workers s ?W 0 = Handling ''n1''"
    by (rule worker_busy)
  let ?t = "s\<lparr>ps_main := Joining, ps_stop := True\<rparr>"
  let ?u = "goto (ControllerRun ?W) Leaving (wg_Add (- 1) ?t)" and ?done = "\<lambda>u. u\<lparr>ps_main := Returned\<rparr>"
  have t: "?step s ?t" using s by (intro by_command got_signal) (simp_all add: alive_def)
  have u: "?step ?t ?u" using s by (intro by_controller [where name = ?W] run_leaves) (simp_all add: alive_def)
  have v: "?step ?u (?done ?u)" using s by (intro by_command joined) (simp_all add: alive_def)
  note on = rtranclp.rtrancl_into_rtrancl
  have "runs {} (wormhole_process new_queue) ?t" using s(1) t by (rule on)
  then have "runs {} (wormhole_process new_queue) ?u" using u by (rule on)
  then have "runs {} (wormhole_process new_queue) (?done ?u)" using v by (rule on)
  then show ?thesis using s(5) by (intro exI [of _ "?done ?u"]) simp
qed

lemma metrics_more: "metrics_step {} s s' \<Longrightarrow> metrics_step UNIV s s'"
  by (induction rule: metrics_step.induct) (auto intro: metrics_step.intros)

lemma tunnel_more: "tunnel_step {} s s' \<Longrightarrow> tunnel_step UNIV s s'"
  by (induction rule: tunnel_step.induct) (auto intro: tunnel_step.intros)

lemma runs_more: "runs {} s s' \<Longrightarrow> runs UNIV s s'"
proof (induction rule: rtranclp_induct)
  case (step s1 s2)
  have "process_step rateLimitingType CONTROLLER_OPTIONS UNIV s1 s2"
    using step(2) by (cases rule: process_step.cases) (blast intro: process_step.intros metrics_more tunnel_more)+
  with step(3) show ?case by (rule rtranclp.rtrancl_into_rtrancl)
qed simp

theorem processes_account_witness:
  "\<exists>s :: wq process_state. ps_workers s ''wormholegenerator'' 0 = Handling ''n1'' \<and> ps_wg s = int (card (counted s)) \<and>
     (0::nat) < CONTROLLER_OPTIONS ''wormholegenerator'' \<and> ''n1'' \<in> wq_processing (ps_queue s ''wormholegenerator'')"
proof -
  obtain s where s: "runs {} (wormhole_process new_queue) s" "ps_workers s ''wormholegenerator'' 0 = Handling ''n1''"
    by (rule worker_busy)
  note all = processes_account [of "wormhole_process new_queue" NewOperatorOptions s, OF disjI2 [OF refl] runs_more [OF s(1)]]
  note handled = all [THEN conjunct2, THEN conjunct2, THEN conjunct1, rule_format, OF s(2), of 0]
  show ?thesis by (rule exI [of _ s]) (use all [THEN conjunct1] handled s(2) in simp)
qed

text \<open>The operator with its default options serves the metrics after two steps.\<close>

lemma metrics_served:
  obtains s where "runs {} (operator_process NewOperatorOptions new_queue) s" "ps_pc s (ServiceRun MetricsServer) = Serving"
    "ps_main s = Joining"
proof -
  let ?step = "process_step rateLimitingType CONTROLLER_OPTIONS {}"
  let ?s = "operator_process NewOperatorOptions new_queue :: wq process_state" and ?m = "ServiceRun MetricsServer"
  let ?t = "goto ?m Registered (wg_Add 1 ?s)"
  let ?u = "goto ?m Serving ?t"
  let ?v = "?u\<lparr>ps_main := Joining, ps_stop := True\<rparr>"
  have 0: "ps_main ?s = AwaitSignal" "\<not> ps_stop ?s" "ps_pc ?s ?m = Created"
    by (simp_all add: operator_process_def process_starts_def)
  have t: "?step ?s ?t" using 0 by (intro by_metrics metrics_registers) (simp_all add: alive_def)
  have u: "?step ?t ?u" using 0 by (intro by_metrics metrics_listens) (simp_all add: alive_def)
  have v: "?step ?u ?v" using 0 by (intro by_command got_signal) (simp_all add: alive_def)
  note on = rtranclp.rtrancl_into_rtrancl
  have "runs {} ?s ?t" using rtranclp.rtrancl_refl t by (rule on)
  then have "runs {} ?s ?u" using u by (rule on)
  then have "runs {} ?s ?v" using v by (rule on)
  then show ?thesis by (rule that) simp_all
qed

theorem processes_exit_witness:
  "\<exists>s. runs {} (operator_process NewOperatorOptions new_queue) s \<and> ps_main s = Joining \<and>
     (\<forall>s'. runs (UNIV - {MetricsServer}) s s' \<longrightarrow> ps_main s' \<noteq> Returned)"
proof -
  obtain s where s: "runs {} (operator_process NewOperatorOptions new_queue) s" "ps_pc s (ServiceRun MetricsServer) = Serving"
    "ps_main s = Joining"
    by (rule metrics_served)
  have "\<forall>s'. runs (UNIV - {MetricsServer}) s s' \<longrightarrow> ps_main s' \<noteq> Returned"
    using processes_exit runs_more [OF s(1)] s(2) by blast
  with s(1,3) show ?thesis by blast
qed

end
